(* ===== verification/Prelude.thy ===== *)
theory Prelude
  imports Main "HOL-Library.Char_ord" "HOL-Library.List_Lexorder" "HOL-Library.AList"
    "HOL-Library.Sublist"
begin

text \<open>
  Shared vocabulary of the development: Go results (\<open>'e + 'a\<close>) with their error propagation,
  slices that tell nil from empty, and Go maps as association lists whose order stands for
  the iteration order the runtime happens to pick. Every lemma here is about these notions
  only; the collections \<open>result_simps\<close> and \<open>str_simps\<close> carry the component proofs.
\<close>

named_theorems result_simps
named_theorems str_simps

section \<open>Results and error propagation\<close>

text \<open>\<open>Inl\<close> is the non-nil error of a Go call, \<open>Inr\<close> its value.\<close>

fun rbind :: "'e + 'a \<Rightarrow> ('a \<Rightarrow> 'e + 'b) \<Rightarrow> 'e + 'b" where
  "rbind (Inl e) f = Inl e"
| "rbind (Inr x) f = f x"

definition ensure :: "bool \<Rightarrow> 'e \<Rightarrow> 'e + unit" where
  "ensure b e = (if b then Inr () else Inl e)"

fun mapErr :: "('e \<Rightarrow> 'f) \<Rightarrow> 'e + 'a \<Rightarrow> 'f + 'a" where
  "mapErr f (Inl e) = Inl (f e)"
| "mapErr f (Inr x) = Inr x"

fun isOk :: "'e + 'a \<Rightarrow> bool" where
  "isOk (Inl e) = False"
| "isOk (Inr x) = True"

text \<open>A loop that returns at the first error.\<close>

fun checkAll :: "('a \<Rightarrow> 'e + unit) \<Rightarrow> 'a list \<Rightarrow> 'e + unit" where
  "checkAll f [] = Inr ()"
| "checkAll f (x # xs) = rbind (f x) (\<lambda>_. checkAll f xs)"

lemma rbind_Inr_iff [result_simps]:
  "rbind m f = Inr y \<longleftrightarrow> (\<exists>x. m = Inr x \<and> f x = Inr y)"
  by (cases m) auto

lemma rbind_Inl_iff [result_simps]:
  "rbind m f = Inl e \<longleftrightarrow> m = Inl e \<or> (\<exists>x. m = Inr x \<and> f x = Inl e)"
  by (cases m) auto

lemma rbind_assoc: "rbind (rbind m f) g = rbind m (\<lambda>x. rbind (f x) g)"
  by (cases m) auto

lemma ensure_Inr_iff [simp, result_simps]: "ensure b e = Inr u \<longleftrightarrow> b"
  by (simp add: ensure_def)

lemma ensure_Inl_iff [simp, result_simps]: "ensure b e = Inl e' \<longleftrightarrow> \<not> b \<and> e' = e"
  by (auto simp: ensure_def)

lemma mapErr_Inr_iff [simp, result_simps]: "mapErr f m = Inr x \<longleftrightarrow> m = Inr x"
  by (cases m) auto

lemma mapErr_Inl_iff [result_simps]: "mapErr f m = Inl e' \<longleftrightarrow> (\<exists>e. m = Inl e \<and> e' = f e)"
  by (cases m) auto

lemma isOk_iff [result_simps]: "isOk m \<longleftrightarrow> (\<exists>x. m = Inr x)"
  by (cases m) auto

lemma checkAll_Inr_iff [result_simps]:
  "checkAll f xs = Inr u \<longleftrightarrow> (\<forall>x\<in>set xs. f x = Inr ())"
  by (induction xs) (auto simp: rbind_Inr_iff)

lemma checkAll_Inl_ex: "checkAll f xs = Inl e \<Longrightarrow> \<exists>x\<in>set xs. f x = Inl e"
  by (induction xs) (auto simp: rbind_Inl_iff)

lemma isOk_checkAll [result_simps]: "isOk (checkAll f xs) \<longleftrightarrow> (\<forall>x\<in>set xs. isOk (f x))"
  by (auto simp: isOk_iff checkAll_Inr_iff)

section \<open>Go slices\<close>

text \<open>A slice is an option where the sources tell nil from empty; its elements otherwise.\<close>

fun elems :: "'a list option \<Rightarrow> 'a list" where
  "elems None = []"
| "elems (Some xs) = xs"

section \<open>Go maps\<close>

text \<open>
  A Go map is an association list with distinct keys. Lookup and update do not depend
  on the order of the list; a \<open>range\<close> loop visits the entries in list order, so a
  theorem about such a loop that holds for every list holds for every iteration order.
\<close>

type_synonym 'v gomap = "(string \<times> 'v) list"

abbreviation mget :: "'v gomap \<Rightarrow> string \<Rightarrow> 'v option" where
  "mget m k \<equiv> map_of m k"

definition mput :: "string \<Rightarrow> 'v \<Rightarrow> 'v gomap \<Rightarrow> 'v gomap" where
  "mput k v m = AList.update k v m"

definition mdel :: "string \<Rightarrow> 'v gomap \<Rightarrow> 'v gomap" where
  "mdel k m = AList.delete k m"

abbreviation mkeys :: "'v gomap \<Rightarrow> string list" where
  "mkeys m \<equiv> map fst m"

definition mhas :: "'v gomap \<Rightarrow> string \<Rightarrow> bool" where
  "mhas m k = (map_of m k \<noteq> None)"

definition sortedKeys :: "'v gomap \<Rightarrow> string list" where
  "sortedKeys m = sort (mkeys m)"

lemma mget_mput [simp]: "mget (mput k v m) k' = (if k' = k then Some v else mget m k')"
  by (simp add: mput_def update_conv')

lemma mget_mdel [simp]: "mget (mdel k m) k' = (if k' = k then None else mget m k')"
  by (simp add: mdel_def delete_conv')

lemma mhas_iff: "mhas m k \<longleftrightarrow> k \<in> set (mkeys m)"
  by (simp add: mhas_def map_of_eq_None_iff)

lemma distinct_mput [simp]: "distinct (mkeys m) \<Longrightarrow> distinct (mkeys (mput k v m))"
  by (simp add: mput_def distinct_update)

lemma distinct_mdel [simp]: "distinct (mkeys m) \<Longrightarrow> distinct (mkeys (mdel k m))"
  by (simp add: mdel_def distinct_delete)

lemma set_mkeys_mput [simp]: "set (mkeys (mput k v m)) = insert k (set (mkeys m))"
  by (simp add: mput_def dom_update)

lemma set_sortedKeys [simp]: "set (sortedKeys m) = set (mkeys m)"
  by (simp add: sortedKeys_def)

lemma sorted_sortedKeys [simp]: "sorted (sortedKeys m)"
  by (simp add: sortedKeys_def)

lemma sortedKeys_order_free:
  assumes "distinct (mkeys m)" "distinct (mkeys m')" "set (mkeys m) = set (mkeys m')"
  shows "sortedKeys m = sortedKeys m'"
proof -
  have "distinct (sortedKeys m)" "distinct (sortedKeys m')"
    using assms by (simp_all add: sortedKeys_def)
  then show ?thesis
    using assms(3) by (intro sorted_distinct_set_unique) simp_all
qed

end
