(* ===== verification/GoStrings.thy ===== *)
theory GoStrings
  imports Prelude
begin

text \<open>
  Byte strings with the functions of Go's \<open>strings\<close>, \<open>strconv\<close> and \<open>fmt\<close> packages
  that the sources call. A Go string is a sequence of bytes, here a list of 8-bit
  characters; a non-ASCII rune is its UTF-8 bytes. \<open>TrimSpace\<close> knows the Unicode
  white space runes by their encodings.
\<close>

section \<open>Prefixes, suffixes, search\<close>

definition hasPrefix :: "string \<Rightarrow> string \<Rightarrow> bool" where
  "hasPrefix s p = (take (length p) s = p)"

definition hasSuffix :: "string \<Rightarrow> string \<Rightarrow> bool" where
  "hasSuffix s p = hasPrefix (rev s) (rev p)"

definition trimPrefix :: "string \<Rightarrow> string \<Rightarrow> string" where
  "trimPrefix s p = (if hasPrefix s p then drop (length p) s else s)"

definition trimSuffix :: "string \<Rightarrow> string \<Rightarrow> string" where
  "trimSuffix s p = (if hasSuffix s p then take (length s - length p) s else s)"

fun indexOf :: "string \<Rightarrow> string \<Rightarrow> nat option" where
  "indexOf [] p = (if p = [] then Some 0 else None)"
| "indexOf (c # s) p = (if hasPrefix (c # s) p then Some 0 else map_option Suc (indexOf s p))"

definition strContains :: "string \<Rightarrow> string \<Rightarrow> bool" where
  "strContains s p = (indexOf s p \<noteq> None)"

definition containsAny :: "string \<Rightarrow> string \<Rightarrow> bool" where
  "containsAny s cs = list_ex (\<lambda>c. List.member cs c) s"

lemma hasPrefix_iff [str_simps]: "hasPrefix s p \<longleftrightarrow> prefix p s"
  unfolding hasPrefix_def by (metis append_eq_conv_conj prefix_def take_is_prefix)

lemma hasSuffix_iff [str_simps]: "hasSuffix s p \<longleftrightarrow> suffix p s"
  by (simp add: hasSuffix_def hasPrefix_iff suffix_to_prefix)

lemma containsAny_iff [str_simps]: "containsAny s cs \<longleftrightarrow> (\<exists>c\<in>set s. c \<in> set cs)"
  by (auto simp: containsAny_def list_ex_iff)

lemma indexOf_None_iff: "indexOf s p = None \<longleftrightarrow> \<not> sublist p s"
  by (induction s) (auto simp: sublist_Cons_right hasPrefix_iff)

lemma strContains_iff [str_simps]: "strContains s p \<longleftrightarrow> sublist p s"
  by (simp add: strContains_def indexOf_None_iff)

lemma sublist_single_iff: "sublist [c] s \<longleftrightarrow> c \<in> set s"
  by (induction s) (auto simp: sublist_Cons_right)

lemma indexOf_Some_split:
  "indexOf s p = Some i \<Longrightarrow> \<exists>rest. s = take i s @ p @ rest \<and> i \<le> length s"
proof (induction s arbitrary: i)
  case Nil
  then show ?case by (auto split: if_splits)
next
  case (Cons c s)
  show ?case
  proof (cases "hasPrefix (c # s) p")
    case True
    with Cons.prems show ?thesis by (auto simp: hasPrefix_iff prefix_def)
  next
    case False
    with Cons.prems obtain j where "indexOf s p = Some j" "i = Suc j" by auto
    then show ?thesis using Cons.IH [of j] by auto
  qed
qed

lemma trimPrefix_append [simp]: "trimPrefix (p @ s) p = s"
  by (simp add: trimPrefix_def hasPrefix_def)

section \<open>Splitting and joining\<close>

fun splitOn :: "char \<Rightarrow> string \<Rightarrow> string list" where
  "splitOn c [] = [[]]"
| "splitOn c (x # xs) =
     (if x = c then [] # splitOn c xs
      else (case splitOn c xs of [] \<Rightarrow> [[x]] | w # ws \<Rightarrow> (x # w) # ws))"

fun cutAt :: "char \<Rightarrow> string \<Rightarrow> (string \<times> string) option" where
  "cutAt c [] = None"
| "cutAt c (x # xs) =
     (if x = c then Some ([], xs) else map_option (\<lambda>(a, b). (x # a, b)) (cutAt c xs))"

fun splitN :: "nat \<Rightarrow> char \<Rightarrow> string \<Rightarrow> string list" where
  "splitN 0 c s = []"
| "splitN (Suc 0) c s = [s]"
| "splitN (Suc (Suc n)) c s =
     (case cutAt c s of None \<Rightarrow> [s] | Some (a, b) \<Rightarrow> a # splitN (Suc n) c b)"

fun join :: "string \<Rightarrow> string list \<Rightarrow> string" where
  "join sep [] = []"
| "join sep [w] = w"
| "join sep (w # v # ws) = w @ sep @ join sep (v # ws)"

lemma splitOn_not_Nil [simp]: "splitOn c s \<noteq> []"
  by (induction s) (auto split: list.splits)

lemma length_splitOn: "length (splitOn c s) = Suc (count_list s c)"
  by (induction s) (auto split: list.splits simp: neq_Nil_conv)

lemma splitOn_no_sep: "w \<in> set (splitOn c s) \<Longrightarrow> c \<notin> set w"
  by (induction s arbitrary: w) (auto split: list.splits if_splits)

lemma join_splitOn: "join [c] (splitOn c s) = s"
proof (induction s)
  case (Cons x xs)
  show ?case
  proof (cases "splitOn c xs")
    case Nil
    then show ?thesis by simp
  next
    case (Cons w ws)
    with Cons.IH show ?thesis by (cases ws) (auto split: if_splits)
  qed
qed simp

lemma cutAt_Some_iff: "cutAt c s = Some (a, b) \<longleftrightarrow> s = a @ c # b \<and> c \<notin> set a"
proof (induction s arbitrary: a b)
  case (Cons x xs)
  show ?case
  proof (cases "x = c")
    case True
    then show ?thesis by (cases a) auto
  next
    case False
    then show ?thesis using Cons.IH by (cases a) auto
  qed
qed simp

lemma cutAt_None_iff: "cutAt c s = None \<longleftrightarrow> c \<notin> set s"
  by (induction s) auto

section \<open>Replacing\<close>

text \<open>\<open>strings.ReplaceAll\<close> and \<open>bytes.ReplaceAll\<close> for a non-empty pattern: leftmost, not overlapping.\<close>

function replaceAll :: "string \<Rightarrow> string \<Rightarrow> string \<Rightarrow> string" where
  "replaceAll [] old new = []"
| "replaceAll (c # s) old new =
     (if old \<noteq> [] \<and> hasPrefix (c # s) old
      then new @ replaceAll (drop (length old) (c # s)) old new
      else c # replaceAll s old new)"
  by pat_completeness auto
termination
  by (relation "measure (\<lambda>(s, old, new). length s)") (auto simp: neq_Nil_conv)

declare replaceAll.simps(2) [simp del]

lemma replaceAll_absent: "\<not> sublist old s \<Longrightarrow> replaceAll s old new = s"
  by (induction s) (auto simp: replaceAll.simps(2) hasPrefix_iff sublist_Cons_right)

section \<open>White space\<close>

text \<open>The UTF-8 encodings of the runes for which \<open>unicode.IsSpace\<close> holds.\<close>

definition spaceRunes :: "string list" where
  "spaceRunes =
     [[CHR 0x09], [CHR 0x0A], [CHR 0x0B], [CHR 0x0C], [CHR 0x0D], [CHR 0x20],
      [CHR 0xC2, CHR 0x85], [CHR 0xC2, CHR 0xA0], [CHR 0xE1, CHR 0x9A, CHR 0x80],
      [CHR 0xE2, CHR 0x80, CHR 0x80], [CHR 0xE2, CHR 0x80, CHR 0x81],
      [CHR 0xE2, CHR 0x80, CHR 0x82], [CHR 0xE2, CHR 0x80, CHR 0x83],
      [CHR 0xE2, CHR 0x80, CHR 0x84], [CHR 0xE2, CHR 0x80, CHR 0x85],
      [CHR 0xE2, CHR 0x80, CHR 0x86], [CHR 0xE2, CHR 0x80, CHR 0x87],
      [CHR 0xE2, CHR 0x80, CHR 0x88], [CHR 0xE2, CHR 0x80, CHR 0x89],
      [CHR 0xE2, CHR 0x80, CHR 0x8A], [CHR 0xE2, CHR 0x80, CHR 0xA8],
      [CHR 0xE2, CHR 0x80, CHR 0xA9], [CHR 0xE2, CHR 0x80, CHR 0xAF],
      [CHR 0xE2, CHR 0x81, CHR 0x9F], [CHR 0xE3, CHR 0x80, CHR 0x80]]"

text \<open>Length of the white space rune a string starts with, 0 when there is none.\<close>

definition spaceLen :: "string list \<Rightarrow> string \<Rightarrow> nat" where
  "spaceLen rs s = (case find (\<lambda>r. hasPrefix s r) rs of None \<Rightarrow> 0 | Some r \<Rightarrow> length r)"

function trimWith :: "string list \<Rightarrow> string \<Rightarrow> string" where
  "trimWith rs s = (if spaceLen rs s = 0 \<or> s = [] then s else trimWith rs (drop (spaceLen rs s) s))"
  by pat_completeness auto
termination
  by (relation "measure (\<lambda>(rs, s). length s)") auto

declare trimWith.simps [simp del]

definition trimLeftSpace :: "string \<Rightarrow> string" where
  "trimLeftSpace s = trimWith spaceRunes s"

definition trimRightSpace :: "string \<Rightarrow> string" where
  "trimRightSpace s = rev (trimWith (map rev spaceRunes) (rev s))"

definition trimSpace :: "string \<Rightarrow> string" where
  "trimSpace s = trimRightSpace (trimLeftSpace s)"

lemma suffix_trimWith: "suffix (trimWith rs s) s"
proof (induction rs s rule: trimWith.induct)
  case (1 rs s)
  then show ?case
    by (subst trimWith.simps) (auto intro: suffix_order.trans suffix_drop)
qed

lemma spaceLen_split:
  assumes "spaceLen rs s \<noteq> 0"
  obtains r where "r \<in> set rs" and "s = r @ drop (spaceLen rs s) s"
proof -
  from assms obtain r where r: "find (hasPrefix s) rs = Some r" "spaceLen rs s = length r"
    by (auto simp: spaceLen_def split: option.splits)
  then have "r \<in> set rs" "hasPrefix s r"
    by (auto simp: find_Some_iff)
  then show thesis
    using r(2) that [of r] unfolding hasPrefix_def by (metis append_take_drop_id)
qed

text \<open>What trimming removes is a sequence of white space runes.\<close>

lemma trimWith_removed: "\<exists>ws. set ws \<subseteq> set rs \<and> s = concat ws @ trimWith rs s"
proof (induction rs s rule: trimWith.induct)
  case (1 rs s)
  show ?case
  proof (cases "spaceLen rs s = 0 \<or> s = []")
    case True
    then show ?thesis by (intro exI [of _ "[]"]) (subst trimWith.simps, simp)
  next
    case False
    from False obtain r where r: "r \<in> set rs" "s = r @ drop (spaceLen rs s) s"
      using spaceLen_split by blast
    from "1" [OF False] obtain ws where ws: "set ws \<subseteq> set rs"
      "drop (spaceLen rs s) s = concat ws @ trimWith rs (drop (spaceLen rs s) s)"
      by blast
    from False have "trimWith rs s = trimWith rs (drop (spaceLen rs s) s)"
      by (subst trimWith.simps) simp
    with r ws have "set (r # ws) \<subseteq> set rs \<and> s = concat (r # ws) @ trimWith rs s"
      by (metis append_assoc concat.simps(2) insert_subset list.simps(15))
    then show ?thesis by blast
  qed
qed

definition spaceByte :: "char \<Rightarrow> bool" where
  "spaceByte c = (c \<in> set (concat spaceRunes))"

lemma trimSpace_removed:
  "\<exists>l r. s = l @ trimSpace s @ r \<and> (\<forall>c\<in>set l \<union> set r. spaceByte c)"
proof -
  obtain ws where ws: "set ws \<subseteq> set spaceRunes" "s = concat ws @ trimLeftSpace s"
    unfolding trimLeftSpace_def using trimWith_removed by blast
  let ?t = "trimLeftSpace s"
  obtain vs where vs: "set vs \<subseteq> set (map rev spaceRunes)"
    "rev ?t = concat vs @ trimWith (map rev spaceRunes) (rev ?t)"
    using trimWith_removed by blast
  from vs(2) have "?t = trimSpace s @ rev (concat vs)"
    unfolding trimSpace_def trimRightSpace_def by (metis rev_append rev_rev_ident)
  with ws have "s = concat ws @ trimSpace s @ rev (concat vs)" by metis
  moreover have "\<forall>c\<in>set (concat ws) \<union> set (rev (concat vs)). spaceByte c"
    using ws(1) vs(1) by (fastforce simp: spaceByte_def)
  ultimately show ?thesis by blast
qed

lemma sublist_trimSpace: "sublist (trimSpace s) s"
  using trimSpace_removed [of s] by (metis sublist_appendI)

lemma spaceLen_zero_iff: "[] \<notin> set rs \<Longrightarrow> spaceLen rs s = 0 \<longleftrightarrow> (\<forall>r\<in>set rs. \<not> prefix r s)"
  by (auto simp: spaceLen_def find_None_iff find_Some_iff hasPrefix_iff split: option.split)
    (metis nth_mem)

lemma trimWith_fixed: "spaceLen rs s = 0 \<Longrightarrow> trimWith rs s = s"
  by (subst trimWith.simps) simp

lemma trimWith_no_space: "spaceLen rs (trimWith rs s) = 0 \<or> trimWith rs s = []"
proof (induction rs s rule: trimWith.induct)
  case (1 rs s)
  then show ?case by (cases "spaceLen rs s = 0 \<or> s = []") (subst (1 2) trimWith.simps, simp)+
qed

lemma trimWith_Nil: "trimWith rs [] = []"
  by (subst trimWith.simps) simp

lemma trimWith_idem: "trimWith rs (trimWith rs s) = trimWith rs s"
proof (cases "trimWith rs s = []")
  case True
  then show ?thesis by (simp add: trimWith_Nil)
next
  case False
  then have "spaceLen rs (trimWith rs s) = 0" using trimWith_no_space by blast
  then show ?thesis by (rule trimWith_fixed)
qed

lemma spaceRunes_nonempty: "[] \<notin> set spaceRunes" "[] \<notin> set (map rev spaceRunes)"
  by (simp_all add: spaceRunes_def)

lemma trimSpace_idem: "trimSpace (trimSpace s) = trimSpace s"
proof -
  let ?rs = "map rev spaceRunes" and ?l = "trimLeftSpace s"
  let ?r = "rev (trimWith ?rs (rev ?l))"
  have pre: "prefix ?r ?l"
    using suffix_trimWith [of ?rs "rev ?l"] by (simp add: suffix_to_prefix)
  have "trimLeftSpace ?r = ?r"
  proof (cases "?l = []")
    case True
    with pre have "?r = []" by simp
    then show ?thesis by (simp add: trimLeftSpace_def trimWith_Nil)
  next
    case False
    then have "spaceLen spaceRunes ?l = 0"
      using trimWith_no_space [of spaceRunes s] by (auto simp: trimLeftSpace_def)
    then have "\<forall>r\<in>set spaceRunes. \<not> prefix r ?l"
      using spaceLen_zero_iff [OF spaceRunes_nonempty(1)] by blast
    then have "\<forall>r\<in>set spaceRunes. \<not> prefix r ?r"
      using pre prefix_order.trans by blast
    then have "spaceLen spaceRunes ?r = 0"
      using spaceLen_zero_iff [OF spaceRunes_nonempty(1)] by blast
    then show ?thesis unfolding trimLeftSpace_def by (rule trimWith_fixed)
  qed
  moreover have "trimWith ?rs (trimWith ?rs (rev ?l)) = trimWith ?rs (rev ?l)"
    using trimWith_idem .
  ultimately show ?thesis by (simp add: trimSpace_def trimRightSpace_def)
qed

section \<open>Case mapping\<close>

definition isAscii :: "char \<Rightarrow> bool" where
  "isAscii c = (of_char c < (128::nat))"

definition asciiLower :: "char \<Rightarrow> char" where
  "asciiLower c =
     (if CHR ''A'' \<le> c \<and> c \<le> CHR ''Z'' then char_of (of_char c + (32::nat)) else c)"

section \<open>Numbers in text\<close>

fun natDigits :: "nat \<Rightarrow> string" where
  "natDigits n =
     (if n < 10 then [char_of (48 + n)] else natDigits (n div 10) @ [char_of (48 + n mod 10)])"

declare natDigits.simps [simp del]

definition showInt :: "int \<Rightarrow> string" where
  "showInt i = (if i < 0 then CHR ''-'' # natDigits (nat (- i)) else natDigits (nat i))"

definition isDigit :: "char \<Rightarrow> bool" where
  "isDigit c = (CHR ''0'' \<le> c \<and> c \<le> CHR ''9'')"

definition isUpperLetter :: "char \<Rightarrow> bool" where
  "isUpperLetter c = (CHR ''A'' \<le> c \<and> c \<le> CHR ''Z'')"

definition isLowerLetter :: "char \<Rightarrow> bool" where
  "isLowerLetter c = (CHR ''a'' \<le> c \<and> c \<le> CHR ''z'')"

definition isWordByte :: "char \<Rightarrow> bool" where
  "isWordByte c = (c = CHR ''_'' \<or> isDigit c \<or> isLowerLetter c \<or> isUpperLetter c)"

end
