(* ===== verification/Json.thy ===== *)
theory Json
  imports GoStrings
begin

text \<open>
  Decoded JSON as Go's \<open>encoding/json\<close> delivers it in an \<open>interface{}\<close>: numbers are
  \<open>float64\<close>, objects are maps. A finite double is an exact dyadic number
  \<open>Dyadic m e = m * 2 ^ e\<close> (decoding never yields an infinity or a NaN), so comparisons
  and the integrality test are exact. \<open>JInt\<close> is a Go \<open>int\<close>: the JSON decoder never yields
  one, but a default of operations.yaml is decoded as one and joins the parameters. The record \<open>golib\<close> holds the library
  functions whose tables or algorithms are not part of the repository (case tables of
  non-ASCII letters, SHA-256, operator-written regular expressions, the JSON decoder,
  the decimal forms of a double): the definitions that use them take it as an
  argument.
\<close>

datatype float64 = Dyadic int int

datatype json =
    JNull
  | JBool bool
  | JNum float64
  | JInt int
  | JStr string
  | JArr "json list"
  | JObj "(string \<times> json) list"

record golib =
  lib_lower :: "string \<Rightarrow> string"  \<comment> \<open>case mapping of a string with a non-ASCII byte\<close>
  lib_fold :: "string \<Rightarrow> string \<Rightarrow> bool"  \<comment> \<open>Unicode case folding, some byte not ASCII\<close>
  lib_sha256hex :: "string \<Rightarrow> string"
  lib_regexp :: "string \<Rightarrow> (string \<Rightarrow> bool) option"  \<comment> \<open>\<open>regexp.Compile\<close> and \<open>MatchString\<close>\<close>
  lib_decode :: "string \<Rightarrow> json option"  \<comment> \<open>the JSON value of a text, object entries as written\<close>
  lib_decodeFirst :: "string \<Rightarrow> json option"  \<comment> \<open>the first JSON value of a stream\<close>
  lib_member :: "string \<Rightarrow> string \<Rightarrow> string option"  \<comment> \<open>the text of an object's member, keys folded, last one\<close>
  lib_compact :: "string \<Rightarrow> string option"  \<comment> \<open>\<open>json.Compact\<close> with HTML escaping, \<open>None\<close> for invalid JSON\<close>
  lib_jsonNum :: "float64 \<Rightarrow> string"  \<comment> \<open>\<open>json.Marshal\<close> of a double\<close>
  lib_fmtG :: "float64 \<Rightarrow> string"  \<comment> \<open>\<open>%v\<close> of a double\<close>
  lib_fmtF :: "float64 \<Rightarrow> string"  \<comment> \<open>\<open>strconv.FormatFloat(f, 'f', -1, 64)\<close>\<close>
  lib_quote :: "string \<Rightarrow> string"  \<comment> \<open>\<open>%q\<close> of a string with a non-ASCII byte\<close>
  lib_int64 :: "float64 \<Rightarrow> int"  \<comment> \<open>\<open>int64(f)\<close> out of range: depends on the processor\<close>

text \<open>An instance on which examples are evaluated.\<close>

definition exampleLib :: golib where
  "exampleLib =
     \<lparr>lib_lower = (\<lambda>s. s), lib_fold = (\<lambda>s t. s = t), lib_sha256hex = (\<lambda>s. ''sha:'' @ s),
      lib_regexp = (\<lambda>p. Some (\<lambda>s. s = p)), lib_decode = (\<lambda>s. if s = ''{}'' then Some (JObj []) else None),
      lib_decodeFirst = (\<lambda>s. if s = ''{}'' then Some (JObj []) else None),
      lib_member = (\<lambda>s k. None), lib_compact = Some, lib_jsonNum = (\<lambda>f. ''0''), lib_fmtG = (\<lambda>f. ''0''),
      lib_fmtF = (\<lambda>f. ''0''), lib_quote = (\<lambda>s. s), lib_int64 = (\<lambda>f. 0)\<rparr>"

definition toLower :: "golib \<Rightarrow> string \<Rightarrow> string" where
  "toLower L s = (if list_all isAscii s then map asciiLower s else lib_lower L s)"

definition equalFold :: "golib \<Rightarrow> string \<Rightarrow> string \<Rightarrow> bool" where
  "equalFold L s t =
     (if list_all isAscii s \<and> list_all isAscii t then map asciiLower s = map asciiLower t
      else lib_fold L s t)"

type_synonym params = "json gomap"

section \<open>Doubles\<close>

text \<open>The integers \<open>a\<close>, \<open>b\<close>, \<open>k\<close> with \<open>x = a / 2 ^ k\<close>, \<open>y = b / 2 ^ k\<close> compare as \<open>x\<close> and \<open>y\<close> do.\<close>

fun fScaled :: "nat \<Rightarrow> float64 \<Rightarrow> int" where
  "fScaled k (Dyadic m e) = m * 2 ^ nat (e + int k)"

fun fExp :: "float64 \<Rightarrow> int" where
  "fExp (Dyadic m e) = e"

definition fShift :: "float64 \<Rightarrow> float64 \<Rightarrow> nat" where
  "fShift x y = nat (max 0 (max (- fExp x) (- fExp y)))"

definition fLess :: "float64 \<Rightarrow> float64 \<Rightarrow> bool" where
  "fLess x y = (fScaled (fShift x y) x < fScaled (fShift x y) y)"

text \<open>Conversion of an \<open>int\<close> to \<open>float64\<close>: exact up to 53 bits, else round to nearest, ties to even.\<close>

fun bitLen :: "nat \<Rightarrow> nat" where
  "bitLen n = (if n = 0 then 0 else Suc (bitLen (n div 2)))"

declare bitLen.simps [simp del]

definition roundEven :: "nat \<Rightarrow> nat \<Rightarrow> nat" where
  "roundEven n k =
     (let q = n div 2 ^ k; r = n mod 2 ^ k
      in if 2 * r < 2 ^ k then q else if 2 * r > 2 ^ k then Suc q
         else if even q then q else Suc q)"

definition float64OfInt :: "int \<Rightarrow> float64" where
  "float64OfInt i =
     (if \<bar>i\<bar> < 2 ^ 53 then Dyadic i 0
      else (let k = bitLen (nat \<bar>i\<bar>) - 53
            in Dyadic (sgn i * int (roundEven (nat \<bar>i\<bar>) k)) (int k)))"

fun fIntegral :: "float64 \<Rightarrow> bool" where
  "fIntegral (Dyadic m e) = (0 \<le> e \<or> 2 ^ nat (- e) dvd m)"

text \<open>\<open>int64(f)\<close> for an integral double in range.\<close>

fun fToInt :: "float64 \<Rightarrow> int" where
  "fToInt (Dyadic m e) = (if 0 \<le> e then m * 2 ^ nat e else m div 2 ^ nat (- e))"

lemma fLess_int [simp]: "fLess (Dyadic a 0) (Dyadic b 0) \<longleftrightarrow> a < b"
  by (simp add: fLess_def fShift_def)

section \<open>Type assertions on dynamic values\<close>

fun asString :: "json \<Rightarrow> string option" where
  "asString (JStr s) = Some s"
| "asString _ = None"

fun asObject :: "json \<Rightarrow> params option" where
  "asObject (JObj m) = Some m"
| "asObject _ = None"

fun asNumber :: "json \<Rightarrow> float64 option" where
  "asNumber (JNum f) = Some f"
| "asNumber _ = None"

fun asBool :: "json \<Rightarrow> bool option" where
  "asBool (JBool b) = Some b"
| "asBool _ = None"

text \<open>\<open>v, _ := params[k].(string)\<close>: the empty string when absent or of another type.\<close>

definition strParam :: "params \<Rightarrow> string \<Rightarrow> string" where
  "strParam ps k =
     (case mget ps k of None \<Rightarrow> [] | Some v \<Rightarrow> (case asString v of None \<Rightarrow> [] | Some s \<Rightarrow> s))"

lemma asString_Some_iff [simp]: "asString v = Some s \<longleftrightarrow> v = JStr s"
  by (cases v) auto

lemma asObject_Some_iff [simp]: "asObject v = Some m \<longleftrightarrow> v = JObj m"
  by (cases v) auto

lemma asNumber_Some_iff [simp]: "asNumber v = Some f \<longleftrightarrow> v = JNum f"
  by (cases v) auto

lemma asBool_Some_iff [simp]: "asBool v = Some b \<longleftrightarrow> v = JBool b"
  by (cases v) auto

text \<open>
  Decoding into an \<open>interface{}\<close> keeps the last of repeated keys. Decoding into a
  \<open>map[string]interface{}\<close> wants an object; \<open>null\<close> leaves the map nil, anything else is an
  error. The nil map is told apart from the empty one because writing to it panics.
\<close>

datatype goMapVal = NilMap | MapOf params

definition normObject :: "params \<Rightarrow> params" where
  "normObject kvs = foldl (\<lambda>m (k, v). mput k v m) [] kvs"

fun normJson :: "json \<Rightarrow> json" where
  "normJson (JArr vs) = JArr (map normJson vs)"
| "normJson (JObj kvs) = JObj (normObject (map (\<lambda>(k, v). (k, normJson v)) kvs))"
| "normJson v = v"

definition decodeAny :: "golib \<Rightarrow> string \<Rightarrow> json option" where
  "decodeAny L s = map_option normJson (lib_decode L s)"

fun toMap :: "json option \<Rightarrow> goMapVal option" where
  "toMap (Some (JObj m)) = Some (MapOf m)"
| "toMap (Some JNull) = Some NilMap"
| "toMap _ = None"

definition decodeMap :: "golib \<Rightarrow> string \<Rightarrow> goMapVal option" where
  "decodeMap L s = toMap (decodeAny L s)"

text \<open>
  A string field of a struct: keys match whatever their case, the last one wins, \<open>null\<close>
  changes nothing and another type is an error (\<open>None\<close>).
\<close>

fun structString :: "golib \<Rightarrow> string \<Rightarrow> string \<Rightarrow> params \<Rightarrow> string option" where
  "structString L name cur [] = Some cur"
| "structString L name cur ((k, v) # kvs) =
     (if \<not> equalFold L k name then structString L name cur kvs
      else (case v of
              JStr s \<Rightarrow> structString L name s kvs
            | JNull \<Rightarrow> structString L name cur kvs
            | _ \<Rightarrow> None))"

fun mapEntries :: "goMapVal \<Rightarrow> params" where
  "mapEntries NilMap = []"
| "mapEntries (MapOf m) = m"

lemma distinct_normObject_aux:
  "distinct (mkeys m) \<Longrightarrow> distinct (mkeys (foldl (\<lambda>m (k, v). mput k v m) m kvs))"
  by (induction kvs arbitrary: m) (auto split: prod.splits)

lemma distinct_normObject [simp]: "distinct (mkeys (normObject kvs))"
  unfolding normObject_def by (rule distinct_normObject_aux) simp

text \<open>Decoded values have distinct keys at every level.\<close>

fun wfJson :: "json \<Rightarrow> bool" where
  "wfJson (JArr vs) = list_all wfJson vs"
| "wfJson (JObj m) = (distinct (mkeys m) \<and> list_all (\<lambda>(k, v). wfJson v) m)"
| "wfJson _ = True"

lemma set_mput: "set (mput k v m) \<subseteq> insert (k, v) (set m)"
  unfolding mput_def by (induction m) auto

lemma set_normObject_aux: "set (foldl (\<lambda>m (k, v). mput k v m) m kvs) \<subseteq> set m \<union> set kvs"
proof (induction kvs arbitrary: m)
  case (Cons e kvs)
  obtain k v where e: "e = (k, v)" by (cases e)
  from Cons.IH [of "mput k v m"] set_mput [of k v m] e show ?case by auto
qed simp

lemma wfJson_norm: "wfJson (normJson v)"
proof (induction v)
  case (JArr vs)
  then show ?case by (auto simp: list_all_iff)
next
  case (JObj kvs)
  have "wfJson w" if "(k, w) \<in> set (normObject (map (\<lambda>(k, v). (k, normJson v)) kvs))" for k w
  proof -
    from that have "(k, w) \<in> set (map (\<lambda>(k, v). (k, normJson v)) kvs)"
      using set_normObject_aux [of "[]"] by (force simp: normObject_def)
    then obtain v where "(k, v) \<in> set kvs" "w = normJson v" by auto
    with JObj.IH show ?thesis by force
  qed
  then show ?case by (auto simp: list_all_iff)
qed simp_all

end
