(* ===== verification/Encode.thy ===== *)
theory Encode
  imports Json
begin

text \<open>
  The escapings of the standard library that the sources call: \<open>url.QueryEscape\<close>,
  \<open>url.PathEscape\<close>, \<open>url.QueryUnescape\<close>, the string literals of \<open>encoding/json\<close> and
  \<open>json.Marshal\<close> of a decoded value. The lemmas say which bytes an escaped text can hold,
  which is what the path and query properties rest on.
\<close>

section \<open>Percent encoding\<close>

definition hexDigit :: "nat \<Rightarrow> char" where
  "hexDigit n = (if n < 10 then char_of (48 + n) else char_of (55 + n))"

definition lowerHex :: "nat \<Rightarrow> char" where
  "lowerHex n = (if n < 10 then char_of (48 + n) else char_of (87 + n))"

definition percent :: "char \<Rightarrow> string" where
  "percent c = [CHR ''%'', hexDigit (of_char c div 16), hexDigit (of_char c mod 16)]"

definition isUnreserved :: "char \<Rightarrow> bool" where
  "isUnreserved c =
     (isLowerLetter c \<or> isUpperLetter c \<or> isDigit c
      \<or> c = CHR ''-'' \<or> c = CHR ''_'' \<or> c = CHR ''.'' \<or> c = CHR ''~'')"

definition queryEscapeByte :: "char \<Rightarrow> string" where
  "queryEscapeByte c =
     (if isUnreserved c then [c] else if c = CHR '' '' then ''+'' else percent c)"

definition isPathSafe :: "char \<Rightarrow> bool" where
  "isPathSafe c = List.member ''$&+:=@'' c"

definition pathEscapeByte :: "char \<Rightarrow> string" where
  "pathEscapeByte c = (if isUnreserved c \<or> isPathSafe c then [c] else percent c)"

definition QueryEscape :: "string \<Rightarrow> string" where
  "QueryEscape s = concat (map queryEscapeByte s)"

definition PathEscape :: "string \<Rightarrow> string" where
  "PathEscape s = concat (map pathEscapeByte s)"

definition hexVal :: "char \<Rightarrow> nat option" where
  "hexVal c =
     (let n = (of_char c :: nat)
      in if 48 \<le> n \<and> n \<le> 57 then Some (n - 48)
         else if 65 \<le> n \<and> n \<le> 70 then Some (n - 55)
         else if 97 \<le> n \<and> n \<le> 102 then Some (n - 87) else None)"

fun QueryUnescape :: "string \<Rightarrow> string option" where
  "QueryUnescape [] = Some []"
| "QueryUnescape (c # cs) =
     (if c = CHR ''%'' then
        (case cs of
           a # b # rest \<Rightarrow>
             (case (hexVal a, hexVal b) of
                (Some x, Some y) \<Rightarrow> map_option (\<lambda>r. char_of (16 * x + y) # r) (QueryUnescape rest)
              | _ \<Rightarrow> None)
         | _ \<Rightarrow> None)
      else if c = CHR ''+'' then map_option (\<lambda>r. CHR '' '' # r) (QueryUnescape cs)
      else map_option (\<lambda>r. c # r) (QueryUnescape cs))"

lemma of_char_less_256: "(of_char c :: nat) < 256"
  by (metis of_char_mod_256 mod_less_divisor zero_less_numeral)

lemma nibbles: "(of_char c :: nat) div 16 < 16" "(of_char c :: nat) mod 16 < 16"
  using of_char_less_256 [of c] by linarith simp

lemma char_code_iff:
  "isDigit c \<longleftrightarrow> 48 \<le> (of_char c :: nat) \<and> (of_char c :: nat) \<le> 57"
  "isUpperLetter c \<longleftrightarrow> 65 \<le> (of_char c :: nat) \<and> (of_char c :: nat) \<le> 90"
  "isLowerLetter c \<longleftrightarrow> 97 \<le> (of_char c :: nat) \<and> (of_char c :: nat) \<le> 122"
  by (simp_all add: isDigit_def isUpperLetter_def isLowerLetter_def less_eq_char_def)

lemma hexDigit_code: "n < 16 \<Longrightarrow> of_char (hexDigit n) = (if n < 10 then 48 + n else 55 + n)"
  by (simp add: hexDigit_def)

lemma hexDigit_word: "n < 16 \<Longrightarrow> isDigit (hexDigit n) \<or> isUpperLetter (hexDigit n)"
  by (simp add: char_code_iff hexDigit_code)

lemma hexVal_hexDigit: "n < 16 \<Longrightarrow> hexVal (hexDigit n) = Some n"
  by (simp add: hexVal_def hexDigit_code Let_def)

lemma percent_bytes: "c \<in> set (percent b) \<Longrightarrow> c = CHR ''%'' \<or> isDigit c \<or> isUpperLetter c"
  using hexDigit_word [OF nibbles(1) [of b]] hexDigit_word [OF nibbles(2) [of b]]
  by (auto simp: percent_def)

lemma queryEscapeByte_bytes:
  assumes "c \<in> set (queryEscapeByte b)"
  shows "isUnreserved c \<or> c = CHR ''%'' \<or> c = CHR ''+''"
proof (cases "isUnreserved b \<or> b = CHR '' ''")
  case True
  with assms show ?thesis by (auto simp: queryEscapeByte_def split: if_splits)
next
  case False
  with assms have "c \<in> set (percent b)" by (simp add: queryEscapeByte_def)
  then show ?thesis using percent_bytes by (auto simp: isUnreserved_def)
qed

lemma pathEscapeByte_bytes:
  assumes "c \<in> set (pathEscapeByte b)"
  shows "isUnreserved c \<or> c = CHR ''%'' \<or> isPathSafe c"
proof (cases "isUnreserved b \<or> isPathSafe b")
  case True
  with assms have "c = b" by (simp add: pathEscapeByte_def)
  with True show ?thesis by blast
next
  case False
  with assms have "c \<in> set (percent b)" by (simp add: pathEscapeByte_def)
  then show ?thesis using percent_bytes by (auto simp: isUnreserved_def)
qed

lemma QueryEscape_bytes:
  "c \<in> set (QueryEscape s) \<Longrightarrow> isUnreserved c \<or> c = CHR ''%'' \<or> c = CHR ''+''"
  using queryEscapeByte_bytes unfolding QueryEscape_def by fastforce

lemma PathEscape_bytes:
  "c \<in> set (PathEscape s) \<Longrightarrow> isUnreserved c \<or> c = CHR ''%'' \<or> isPathSafe c"
  using pathEscapeByte_bytes unfolding PathEscape_def by fastforce

lemma QueryUnescape_percent:
  "QueryUnescape (percent c @ r) = map_option (\<lambda>r. c # r) (QueryUnescape r)"
proof -
  let ?n = "of_char c :: nat"
  have "16 * (?n div 16) + ?n mod 16 = ?n" by (simp add: mult_div_mod_eq)
  then show ?thesis
    using nibbles [of c] by (simp add: percent_def hexVal_hexDigit)
qed

lemma QueryUnescape_byte:
  "QueryUnescape (queryEscapeByte c @ r) = map_option (\<lambda>r. c # r) (QueryUnescape r)"
proof -
  have "\<not> isUnreserved (CHR ''%'')" "\<not> isUnreserved (CHR ''+'')" by code_simp+
  then have "isUnreserved c \<Longrightarrow> c \<noteq> CHR ''%'' \<and> c \<noteq> CHR ''+''" by metis
  then show ?thesis
    using QueryUnescape_percent [of c r] by (auto simp: queryEscapeByte_def)
qed

lemma QueryUnescape_QueryEscape: "QueryUnescape (QueryEscape s) = Some s"
  by (induction s) (simp_all add: QueryEscape_def QueryUnescape_byte)

section \<open>Base 64\<close>

definition b64Alphabet :: string where
  "b64Alphabet = ''ABCDEFGHIJKLMNOPQRSTUVWXYZabcdefghijklmnopqrstuvwxyz0123456789+/''"

definition b64Digit :: "nat \<Rightarrow> char" where
  "b64Digit n = b64Alphabet ! n"

fun base64Encode :: "string \<Rightarrow> string" where
  "base64Encode [] = []"
| "base64Encode [a] =
     (let x = of_char a in [b64Digit (x div 4), b64Digit (x mod 4 * 16), CHR ''='', CHR ''=''])"
| "base64Encode [a, b] =
     (let x = of_char a; y = of_char b
      in [b64Digit (x div 4), b64Digit (x mod 4 * 16 + y div 16), b64Digit (y mod 16 * 4), CHR ''=''])"
| "base64Encode (a # b # c # rest) =
     (let x = of_char a; y = of_char b; z = of_char c
      in [b64Digit (x div 4), b64Digit (x mod 4 * 16 + y div 16),
          b64Digit (y mod 16 * 4 + z div 64), b64Digit (z mod 64)] @ base64Encode rest)"

fun indexIn :: "char \<Rightarrow> string \<Rightarrow> nat option" where
  "indexIn c [] = None"
| "indexIn c (d # ds) = (if c = d then Some 0 else map_option Suc (indexIn c ds))"

definition b64Val :: "char \<Rightarrow> nat option" where
  "b64Val c = indexIn c b64Alphabet"

text \<open>Four digits at a time; the last group may be padded. Line ends are skipped before.\<close>

fun b64Groups :: "string \<Rightarrow> string option" where
  "b64Groups [] = Some []"
| "b64Groups (p # q # r # s # rest) =
     (case (b64Val p, b64Val q) of
        (Some x, Some y) \<Rightarrow>
          if rest = [] \<and> r = CHR ''='' \<and> s = CHR ''='' then Some [char_of (x * 4 + y div 16)]
          else (case b64Val r of
                  None \<Rightarrow> None
                | Some z \<Rightarrow>
                    if rest = [] \<and> s = CHR ''='' then
                      Some [char_of (x * 4 + y div 16), char_of (y mod 16 * 16 + z div 4)]
                    else (case b64Val s of
                            None \<Rightarrow> None
                          | Some w \<Rightarrow>
                              map_option (\<lambda>t. [char_of (x * 4 + y div 16), char_of (y mod 16 * 16 + z div 4),
                                  char_of (z mod 4 * 64 + w)] @ t) (b64Groups rest)))
      | _ \<Rightarrow> None)"
| "b64Groups _ = None"

definition base64Decode :: "string \<Rightarrow> string option" where
  "base64Decode s = b64Groups (filter (\<lambda>c. c \<noteq> CHR 0x0A \<and> c \<noteq> CHR 0x0D) s)"

section \<open>JSON text\<close>

text \<open>Length of the well-formed UTF-8 sequence a string starts with; 0 when it starts with none.\<close>

definition utf8Len :: "string \<Rightarrow> nat" where
  "utf8Len s =
     (let b = (\<lambda>i. if i < length s then (of_char (s ! i) :: nat) else 0);
          cont = (\<lambda>i. 128 \<le> b i \<and> b i \<le> 191)
      in if s = [] then 0
         else if b 0 < 128 then 1
         else if 194 \<le> b 0 \<and> b 0 \<le> 223 then (if cont 1 then 2 else 0)
         else if 224 \<le> b 0 \<and> b 0 \<le> 239 then
           (if cont 1 \<and> cont 2 \<and> (b 0 = 224 \<longrightarrow> 160 \<le> b 1) \<and> (b 0 = 237 \<longrightarrow> b 1 \<le> 159) then 3 else 0)
         else if 240 \<le> b 0 \<and> b 0 \<le> 244 then
           (if cont 1 \<and> cont 2 \<and> cont 3 \<and> (b 0 = 240 \<longrightarrow> 144 \<le> b 1) \<and> (b 0 = 244 \<longrightarrow> b 1 \<le> 143)
            then 4 else 0)
         else 0)"

definition backslash :: char where
  "backslash = CHR 0x5C"

definition uEscape :: "nat \<Rightarrow> string" where
  "uEscape n = [backslash, CHR ''u'', CHR ''0'', CHR ''0'', lowerHex (n div 16), lowerHex (n mod 16)]"

definition jsonEscapeByte :: "bool \<Rightarrow> char \<Rightarrow> string" where
  "jsonEscapeByte html c =
     (if c = CHR 0x22 \<or> c = backslash then [backslash, c]
      else if c = CHR 0x08 then [backslash, CHR ''b'']
      else if c = CHR 0x0C then [backslash, CHR ''f'']
      else if c = CHR 0x0A then [backslash, CHR ''n'']
      else if c = CHR 0x0D then [backslash, CHR ''r'']
      else if c = CHR 0x09 then [backslash, CHR ''t'']
      else if (of_char c :: nat) < 32 \<or> html \<and> List.member ''<>&'' c then uEscape (of_char c)
      else [c])"

text \<open>
  The body of a JSON string literal. Invalid UTF-8 becomes the escape of U+FFFD, the line
  separators U+2028 and U+2029 are escaped, and so are \<open><\<close>, \<open>>\<close> and \<open>&\<close> with \<open>html\<close>.
\<close>

function jsonBody :: "bool \<Rightarrow> string \<Rightarrow> string" where
  "jsonBody html [] = []"
| "jsonBody html (c # cs) =
     (let n = utf8Len (c # cs); rune = take n (c # cs)
      in if n \<le> 1 then
           (if n = 0 then backslash # ''ufffd'' else jsonEscapeByte html c) @ jsonBody html cs
         else (if rune = [CHR 0xE2, CHR 0x80, CHR 0xA8] then backslash # ''u2028''
               else if rune = [CHR 0xE2, CHR 0x80, CHR 0xA9] then backslash # ''u2029''
               else rune) @ jsonBody html (drop n (c # cs)))"
  by pat_completeness auto
termination
  by (relation "measure (\<lambda>(h, s). length s)") auto

declare jsonBody.simps(2) [simp del]

definition jsonQuote :: "bool \<Rightarrow> string \<Rightarrow> string" where
  "jsonQuote html s = CHR 0x22 # jsonBody html s @ [CHR 0x22]"

text \<open>\<open>json.Marshal\<close>: object keys in increasing order.\<close>

fun encodeJson :: "golib \<Rightarrow> json \<Rightarrow> string" where
  "encodeJson L JNull = ''null''"
| "encodeJson L (JBool b) = (if b then ''true'' else ''false'')"
| "encodeJson L (JNum f) = lib_jsonNum L f"
| "encodeJson L (JInt i) = showInt i"
| "encodeJson L (JStr s) = jsonQuote True s"
| "encodeJson L (JArr vs) = ''['' @ join '','' (map (encodeJson L) vs) @ '']''"
| "encodeJson L (JObj m) =
     ''{'' @ join '','' (map (\<lambda>(k, t). jsonQuote True k @ '':'' @ t)
        (sort_key fst (map (\<lambda>(k, v). (k, encodeJson L v)) m))) @ ''}''"

definition jsonField :: "string \<Rightarrow> string \<Rightarrow> string" where
  "jsonField k text = jsonQuote True k @ '':'' @ text"

text \<open>A struct or a map whose values are already encoded; the keys in the order they are written.\<close>

definition objectText :: "(string \<times> string) list \<Rightarrow> string" where
  "objectText kvs = ''{'' @ join '','' (map (\<lambda>(k, v). jsonField k v) kvs) @ ''}''"

definition arrayText :: "string list \<Rightarrow> string" where
  "arrayText vs = ''['' @ join '','' vs @ '']''"

text \<open>A slice built with \<open>append\<close> from nil: encoded as \<open>null\<close> when nothing was appended.\<close>

definition sliceText :: "string list \<Rightarrow> string" where
  "sliceText vs = (if vs = [] then ''null'' else arrayText vs)"

text \<open>Fields that are written only when they are not zero.\<close>

definition unlessEmpty :: "string \<Rightarrow> string \<Rightarrow> (string \<times> string) list" where
  "unlessEmpty k v = (if v = [] then [] else [(k, jsonQuote True v)])"

definition whenTrue :: "string \<Rightarrow> bool \<Rightarrow> (string \<times> string) list" where
  "whenTrue k b = (if b then [(k, ''true'')] else [])"

text \<open>\<open>fmt.Sprintf("%v", v)\<close>: map keys in increasing order.\<close>

fun sprintV :: "golib \<Rightarrow> json \<Rightarrow> string" where
  "sprintV L JNull = ''<nil>''"
| "sprintV L (JBool b) = (if b then ''true'' else ''false'')"
| "sprintV L (JNum f) = lib_fmtG L f"
| "sprintV L (JInt i) = showInt i"
| "sprintV L (JStr s) = s"
| "sprintV L (JArr vs) = ''['' @ join '' '' (map (sprintV L) vs) @ '']''"
| "sprintV L (JObj m) =
     ''map['' @ join '' '' (map (\<lambda>(k, t). k @ '':'' @ t)
        (sort_key fst (map (\<lambda>(k, v). (k, sprintV L v)) m))) @ '']''"

end
