(* ===== verification/Secrets.thy ===== *)
theory Secrets
  imports Encode
begin

text \<open>
  Package \<open>internal/secrets\<close>: the taint registry that redacts known secrets from every
  answer, the resolver with its cache, and the Windows and KeePass stores. The secret
  store is an interface, so the resolver is modelled over a record of its operations on
  an external state \<open>'s\<close>; the Windows credential library is a record of the same kind.
  Time is a number of nanoseconds, passed to the operations that read the clock.
\<close>

section \<open>Taint registry\<close>

record TaintRegistry =
  taint_seen :: "string list"
  taint_values :: "string list"

definition emptyTaint :: TaintRegistry where
  "emptyTaint = \<lparr>taint_seen = [], taint_values = []\<rparr>"

definition jsonEscaped :: "string \<Rightarrow> bool \<Rightarrow> string" where
  "jsonEscaped v escapeHTML = (if v = [] then [] else butlast (tl (jsonQuote escapeHTML v)))"

definition taintExact :: "golib \<Rightarrow> TaintRegistry \<Rightarrow> string \<Rightarrow> TaintRegistry" where
  "taintExact L t secret =
     (if length secret < 5 then t
      else (let key = lib_sha256hex L secret
            in if List.member (taint_seen t) key then t
               else t\<lparr>taint_seen := key # taint_seen t, taint_values := taint_values t @ [secret]\<rparr>))"

text \<open>The forms a secret takes once the gateway handles it.\<close>

definition taintForms :: "string \<Rightarrow> string list" where
  "taintForms secret =
     (let trimmed = trimSpace secret
      in [secret, trimmed, QueryEscape trimmed, PathEscape trimmed,
          replaceAll (QueryEscape trimmed) ''+'' ''%20'',
          jsonEscaped secret True, jsonEscaped secret False,
          jsonEscaped trimmed True, jsonEscaped trimmed False])"

definition Taint :: "golib \<Rightarrow> TaintRegistry \<Rightarrow> string \<Rightarrow> TaintRegistry" where
  "Taint L t secret = foldl (taintExact L) t (taintForms secret)"

definition IsTainted :: "golib \<Rightarrow> TaintRegistry \<Rightarrow> string \<Rightarrow> bool" where
  "IsTainted L t secret = List.member (taint_seen t) (lib_sha256hex L secret)"

definition Redact :: "TaintRegistry \<Rightarrow> string \<Rightarrow> string" where
  "Redact t data =
     foldl (\<lambda>out v. if v = [] then out else replaceAll out v ''***'') data (taint_values t)"

section \<open>Stores\<close>

datatype secretError =
    StoreError string
  | SecretEmpty nat
  | CrossTenant string string string
  | InvalidRef string

record 's SecretStore =
  store_Resolve :: "'s \<Rightarrow> string \<Rightarrow> string \<Rightarrow> secretError + string"
  store_Set :: "'s \<Rightarrow> string \<Rightarrow> string \<Rightarrow> string \<Rightarrow> (secretError + unit) \<times> 's"
  store_Delete :: "'s \<Rightarrow> string \<Rightarrow> string \<Rightarrow> (secretError + unit) \<times> 's"
  store_LastWritten :: "('s \<Rightarrow> string \<Rightarrow> string \<Rightarrow> nat option) option"

definition checkEmpty :: "string \<Rightarrow> secretError + string" where
  "checkEmpty secret = (if length secret \<le> 1 then Inl (SecretEmpty (length secret)) else Inr secret)"

definition secretTarget :: "string \<Rightarrow> string \<Rightarrow> string" where
  "secretTarget workspace name = ''egw/'' @ workspace @ ''/'' @ name"

text \<open>The credential library: the blob and the time of the last write of a target.\<close>

record 's wincred =
  wc_Get :: "'s \<Rightarrow> string \<Rightarrow> (string \<times> nat) option"
  wc_Write :: "'s \<Rightarrow> string \<Rightarrow> string \<Rightarrow> (secretError + unit) \<times> 's"
  wc_Delete :: "'s \<Rightarrow> string \<Rightarrow> (secretError + unit) \<times> 's"

definition WinCredStore :: "'s wincred \<Rightarrow> 's SecretStore" where
  "WinCredStore W =
     \<lparr>store_Resolve = (\<lambda>s workspace name.
        (case wc_Get W s (secretTarget workspace name) of
           None \<Rightarrow> Inl (StoreError (''credential not found: '' @ secretTarget workspace name))
         | Some (blob, _) \<Rightarrow> checkEmpty blob)),
      store_Set = (\<lambda>s workspace name v. wc_Write W s (secretTarget workspace name) v),
      store_Delete = (\<lambda>s workspace name.
        (case wc_Get W s (secretTarget workspace name) of
           None \<Rightarrow> (Inl (StoreError ''not found''), s)
         | Some _ \<Rightarrow> wc_Delete W s (secretTarget workspace name))),
      store_LastWritten = Some (\<lambda>s workspace name.
        (case wc_Get W s (secretTarget workspace name) of
           None \<Rightarrow> None
         | Some (blob, t) \<Rightarrow> if length blob \<le> 1 then None else Some t))\<rparr>"

text \<open>A decoded KeePass database: groups of entries (title, password) and subgroups.\<close>

datatype kgroup = KGroup "(string \<times> string) list" "kgroup list"

definition findIn :: "golib \<Rightarrow> (string \<times> string) list \<Rightarrow> string \<Rightarrow> (string \<times> string) option" where
  "findIn L es title = find (\<lambda>e. equalFold L (fst e) title) es"

fun findEntry :: "golib \<Rightarrow> kgroup list \<Rightarrow> string \<Rightarrow> (string \<times> string) option" where
  "findEntry L [] title = None"
| "findEntry L (KGroup es gs # rest) title =
     (case findIn L es title of
        Some e \<Rightarrow> Some e
      | None \<Rightarrow>
          (case findEntry L gs title of
             Some e \<Rightarrow> Some e
           | None \<Rightarrow> findEntry L rest title))"

text \<open>The external state is the database as \<open>open\<close> delivers it: it is read-only.\<close>

definition KeePassStore :: "golib \<Rightarrow> (secretError + kgroup list) SecretStore" where
  "KeePassStore L =
     \<lparr>store_Resolve = (\<lambda>opened workspace name.
        rbind opened (\<lambda>groups.
          (case findEntry L groups (secretTarget workspace name) of
             None \<Rightarrow> Inl (StoreError (''keepass entry not found: '' @ secretTarget workspace name))
           | Some (_, password) \<Rightarrow>
               if password = []
               then Inl (StoreError (''keepass entry has empty password''))
               else Inr password))),
      store_Set = (\<lambda>s workspace name v. (Inl (StoreError ''keepass set not implemented''), s)),
      store_Delete = (\<lambda>s workspace name. (Inl (StoreError ''keepass delete not implemented''), s)),
      store_LastWritten = None\<rparr>"

section \<open>Resolver\<close>

record 's Resolver =
  res_cache :: "(string \<times> nat) gomap"
  res_ttl :: nat
  res_store :: "'s SecretStore"
  res_ext :: 's
  res_taint :: TaintRegistry

text \<open>The taint registry is a global of the package, here a field of the resolver's state.\<close>

definition defaultTTL :: nat where
  "defaultTTL = 30 * 1000000000"

definition newResolver :: "'s SecretStore \<Rightarrow> 's \<Rightarrow> 's Resolver" where
  "newResolver st s =
     \<lparr>res_cache = [], res_ttl = defaultTTL, res_store = st, res_ext = s, res_taint = emptyTaint\<rparr>"

definition cacheKey :: "string \<Rightarrow> string \<Rightarrow> string" where
  "cacheKey workspace name = workspace @ ''/'' @ name"

text \<open>\<open>Resolve\<close> with the clock at \<open>now\<close>.\<close>

definition Resolve ::
    "golib \<Rightarrow> nat \<Rightarrow> string \<Rightarrow> string \<Rightarrow> 's Resolver \<Rightarrow> (secretError + string) \<times> 's Resolver" where
  "Resolve L now workspace name r =
     (let fetch =
        (case store_Resolve (res_store r) (res_ext r) workspace name of
           Inl e \<Rightarrow> (Inl e, r)
         | Inr secret \<Rightarrow>
             (case checkEmpty secret of
                Inl e \<Rightarrow> (Inl e, r)
              | Inr _ \<Rightarrow>
                  (Inr secret,
                   r\<lparr>res_cache := mput (cacheKey workspace name) (secret, now) (res_cache r),
                     res_taint := Taint L (res_taint r) secret\<rparr>)))
      in (case mget (res_cache r) (cacheKey workspace name) of
            Some (value, resolved) \<Rightarrow>
              if now - resolved < res_ttl r then (checkEmpty value, r) else fetch
          | None \<Rightarrow> fetch))"

definition forget :: "string \<Rightarrow> string \<Rightarrow> 's Resolver \<Rightarrow> 's Resolver" where
  "forget workspace name r =
     r\<lparr>res_cache := mdel (cacheKey workspace name) (res_cache r)\<rparr>"

definition SetSecret ::
    "string \<Rightarrow> string \<Rightarrow> string \<Rightarrow> 's Resolver \<Rightarrow> (secretError + unit) \<times> 's Resolver" where
  "SetSecret workspace name v r =
     (let (res, s) = store_Set (res_store r) (res_ext r) workspace name v
      in (res, forget workspace name (r\<lparr>res_ext := s\<rparr>)))"

definition DeleteSecret ::
    "string \<Rightarrow> string \<Rightarrow> 's Resolver \<Rightarrow> (secretError + unit) \<times> 's Resolver" where
  "DeleteSecret workspace name r =
     (let (res, s) = store_Delete (res_store r) (res_ext r) workspace name
      in (res, forget workspace name (r\<lparr>res_ext := s\<rparr>)))"

definition LastWritten :: "string \<Rightarrow> string \<Rightarrow> 's Resolver \<Rightarrow> nat option" where
  "LastWritten workspace name r =
     (case store_LastWritten (res_store r) of
        Some f \<Rightarrow> f (res_ext r) workspace name
      | None \<Rightarrow> None)"

definition FlushCache :: "'s Resolver \<Rightarrow> 's Resolver" where
  "FlushCache r = r\<lparr>res_cache := []\<rparr>"

definition SetStore :: "'s SecretStore \<Rightarrow> 's Resolver \<Rightarrow> 's Resolver" where
  "SetStore st r = r\<lparr>res_store := st\<rparr>"

definition ResolveWithWorkspaceCheck ::
    "golib \<Rightarrow> nat \<Rightarrow> string \<Rightarrow> string \<Rightarrow> string \<Rightarrow> 's Resolver
       \<Rightarrow> (secretError + string) \<times> 's Resolver" where
  "ResolveWithWorkspaceCheck L now workspace name requestWorkspace r =
     (if workspace \<noteq> requestWorkspace then (Inl (CrossTenant workspace name requestWorkspace), r)
      else Resolve L now workspace name r)"

definition ResolveSecretRef :: "string \<Rightarrow> secretError + (string \<times> string)" where
  "ResolveSecretRef ref =
     (if length ref < 9 \<or> take 9 ref \<noteq> ''secret://'' then Inl (InvalidRef ref)
      else (let rest = drop 9 ref
            in (case cutAt (CHR ''/'') rest of
                  None \<Rightarrow> Inr (rest, [])
                | Some (workspace, name) \<Rightarrow> Inr (workspace, name))))"

section \<open>Redaction\<close>

text \<open>
  Text between two replacements is text of the input: a pattern without the placeholder's
  byte that occurs in the output therefore occurred in the input, and in an uncut piece.
\<close>

lemma replaceAll_hit:
  "old \<noteq> [] \<Longrightarrow> hasPrefix (c # s) old \<Longrightarrow>
    replaceAll (c # s) old new = new @ replaceAll (drop (length old) (c # s)) old new"
  by (subst replaceAll.simps(2)) simp

lemma replaceAll_miss:
  "\<not> (old \<noteq> [] \<and> hasPrefix (c # s) old) \<Longrightarrow> replaceAll (c # s) old new = c # replaceAll s old new"
  by (subst replaceAll.simps(2)) (rule if_not_P)

lemma prefix_replaceAll:
  assumes "CHR ''*'' \<notin> set v" and "prefix v (replaceAll s old ''***'')"
  shows "prefix v s"
  using assms
proof (induction "length s" arbitrary: s v rule: less_induct)
  case less
  show ?case
  proof (cases s)
    case Nil
    with less show ?thesis by simp
  next
    case (Cons c s')
    show ?thesis
    proof (cases v)
      case v: (Cons d v')
      have "\<not> (old \<noteq> [] \<and> hasPrefix (c # s') old)"
        using less.prems v Cons replaceAll_hit [of old c s' "''***''"] by auto
      with less.prems v Cons have "d = c" "prefix v' (replaceAll s' old ''***'')"
        by (simp_all add: replaceAll_miss)
      with less.hyps [of s' v'] less.prems v Cons show ?thesis by simp
    qed simp
  qed
qed

lemma sublist_star_app:
  assumes "CHR ''*'' \<notin> set v" and "v \<noteq> []" and "sublist v (''***'' @ s)"
  shows "sublist v s"
proof -
  have hop: "sublist v t" if "sublist v (CHR ''*'' # t)" for t
    using that assms(1,2) by (cases v) (auto simp: sublist_Cons_right)
  from assms(3) show ?thesis by (simp add: hop)
qed

lemma sublist_replaceAll:
  assumes "CHR ''*'' \<notin> set v" and "v \<noteq> []" and "sublist v (replaceAll s old ''***'')"
  shows "sublist v s"
  using assms(3)
proof (induction "length s" arbitrary: s rule: less_induct)
  case less
  show ?case
  proof (cases s)
    case Nil
    with less show ?thesis by simp
  next
    case (Cons c s')
    show ?thesis
    proof (cases "old \<noteq> [] \<and> hasPrefix (c # s') old")
      case True
      then have "sublist v (replaceAll (drop (length old) s) old ''***'')"
        using less.prems Cons assms(1,2) sublist_star_app replaceAll_hit by metis
      moreover have "length (drop (length old) s) < length s" using True Cons by (cases old) simp_all
      ultimately have "sublist v (drop (length old) s)" by (rule less.hyps [rotated])
      then show ?thesis by (meson sublist_drop sublist_order.order.trans)
    next
      case False
      with less.prems Cons
      have "prefix v (c # replaceAll s' old ''***'') \<or> sublist v (replaceAll s' old ''***'')"
        by (simp add: replaceAll_miss sublist_Cons_right)
      then show ?thesis
      proof
        assume "prefix v (c # replaceAll s' old ''***'')"
        with False Cons have "prefix v (replaceAll s old ''***'')" by (simp add: replaceAll_miss)
        then show ?thesis using prefix_replaceAll assms(1) by blast
      next
        assume "sublist v (replaceAll s' old ''***'')"
        with less.hyps [of s'] Cons show ?thesis by (simp add: sublist_Cons_right)
      qed
    qed
  qed
qed

lemma replaceAll_removes:
  assumes "CHR ''*'' \<notin> set v" and "v \<noteq> []"
  shows "\<not> sublist v (replaceAll s v ''***'')"
proof (induction "length s" arbitrary: s rule: less_induct)
  case less
  show ?case
  proof (cases s)
    case Nil
    with assms show ?thesis by simp
  next
    case (Cons c s')
    show ?thesis
    proof (cases "hasPrefix (c # s') v")
      case True
      moreover have "length (drop (length v) s) < length s" using assms(2) Cons by (cases v) simp_all
      ultimately show ?thesis
        using assms less.hyps Cons sublist_star_app replaceAll_hit by metis
    next
      case False
      have "\<not> prefix v (replaceAll s v ''***'')"
        using prefix_replaceAll [OF assms(1), of s v] False Cons by (auto simp: hasPrefix_iff)
      with False Cons less.hyps [of s'] show ?thesis
        by (simp add: replaceAll_miss sublist_Cons_right)
    qed
  qed
qed

definition redactOne :: "string \<Rightarrow> string \<Rightarrow> string" where
  "redactOne out v = (if v = [] then out else replaceAll out v ''***'')"

lemma Redact_fold: "Redact t data = foldl redactOne data (taint_values t)"
  unfolding Redact_def redactOne_def ..

lemma redactOne_sublist:
  assumes "CHR ''*'' \<notin> set v" and "v \<noteq> []" and "sublist v (redactOne s w)"
  shows "sublist v s"
proof (cases "w = []")
  case True
  with assms(3) show ?thesis by (simp add: redactOne_def)
next
  case False
  with assms(3) have "sublist v (replaceAll s w ''***'')" by (simp add: redactOne_def)
  then show ?thesis by (rule sublist_replaceAll [OF assms(1,2)])
qed

lemma redact_fold_sublist:
  assumes "CHR ''*'' \<notin> set v" and "v \<noteq> []" and "sublist v (foldl redactOne s ws)"
  shows "sublist v s"
  using assms(3)
proof (induction ws arbitrary: s)
  case (Cons w ws)
  then show ?case using redactOne_sublist [OF assms(1,2)] by (metis foldl_Cons)
qed simp

lemma Redact_removes:
  assumes "v \<in> set (taint_values t)" and "CHR ''*'' \<notin> set v" and "v \<noteq> []"
  shows "\<not> sublist v (Redact t data)"
proof
  assume leak: "sublist v (Redact t data)"
  obtain us ws where "taint_values t = us @ v # ws"
    using split_list [OF assms(1)] by blast
  then have "Redact t data = foldl redactOne (redactOne (foldl redactOne data us) v) ws"
    by (simp add: Redact_fold)
  with leak have "sublist v (foldl redactOne (redactOne (foldl redactOne data us) v) ws)" by simp
  then have "sublist v (redactOne (foldl redactOne data us) v)"
    by (rule redact_fold_sublist [OF assms(2,3)])
  moreover have "redactOne x v = replaceAll x v ''***''" for x
    using assms(3) by (simp add: redactOne_def)
  ultimately show False
    using replaceAll_removes [OF assms(2,3)] by simp
qed

section \<open>What is registered is redacted\<close>

definition taintOk :: "golib \<Rightarrow> TaintRegistry \<Rightarrow> bool" where
  "taintOk L t \<longleftrightarrow> set (taint_seen t) = lib_sha256hex L ` set (taint_values t)"

lemma taintOk_empty: "taintOk L emptyTaint"
  by (simp add: taintOk_def emptyTaint_def)

lemma taintOk_exact: "taintOk L t \<Longrightarrow> taintOk L (taintExact L t s)"
  by (auto simp: taintOk_def taintExact_def Let_def)

lemma taintExact_values:
  "set (taint_values t) \<subseteq> set (taint_values (taintExact L t s))
   \<and> set (taint_values (taintExact L t s)) \<subseteq> insert s (set (taint_values t))"
  by (auto simp: taintExact_def Let_def)

lemma taintExact_registers:
  assumes "taintOk L t" and "5 \<le> length s" and "inj_on (lib_sha256hex L) (insert s (set (taint_values t)))"
  shows "s \<in> set (taint_values (taintExact L t s))"
proof (cases "List.member (taint_seen t) (lib_sha256hex L s)")
  case True
  then obtain w where "w \<in> set (taint_values t)" "lib_sha256hex L w = lib_sha256hex L s"
    using assms(1) by (auto simp: taintOk_def List.member_iff)
  then have "s \<in> set (taint_values t)" using assms(3) by (metis inj_onD insertCI)
  then show ?thesis using taintExact_values by blast
qed (use assms(2) in \<open>simp add: taintExact_def Let_def\<close>)

lemma taintExact_fold:
  assumes "taintOk L t" and "inj_on (lib_sha256hex L) (set ss \<union> set (taint_values t))"
  shows "taintOk L (foldl (taintExact L) t ss)
    \<and> set (taint_values t) \<subseteq> set (taint_values (foldl (taintExact L) t ss))
    \<and> set (taint_values (foldl (taintExact L) t ss)) \<subseteq> set ss \<union> set (taint_values t)
    \<and> (\<forall>s\<in>set ss. 5 \<le> length s \<longrightarrow> s \<in> set (taint_values (foldl (taintExact L) t ss)))"
  using assms
proof (induction ss arbitrary: t)
  case (Cons s ss)
  let ?t = "taintExact L t s"
  have ok: "taintOk L ?t" using Cons.prems(1) by (rule taintOk_exact)
  have vals: "set (taint_values t) \<subseteq> set (taint_values ?t)"
    "set (taint_values ?t) \<subseteq> insert s (set (taint_values t))"
    using taintExact_values by blast+
  have "inj_on (lib_sha256hex L) (set ss \<union> set (taint_values ?t))"
    using vals by (intro inj_on_subset [OF Cons.prems(2)]) auto
  note IH = Cons.IH [OF ok this]
  have "5 \<le> length s \<longrightarrow> s \<in> set (taint_values ?t)"
    using taintExact_registers [OF Cons.prems(1)] inj_on_subset [OF Cons.prems(2)] by auto
  with IH vals show ?case by auto
qed simp

lemma Taint_mono: "set (taint_values t) \<subseteq> set (taint_values (Taint L t s))"
proof -
  have "set (taint_values t) \<subseteq> set (taint_values (foldl (taintExact L) t ss))" for ss
    by (induction ss arbitrary: t) (simp, metis foldl_Cons subset_trans taintExact_values)
  then show ?thesis by (simp add: Taint_def)
qed

lemma Taint_fold:
  "foldl (Taint L) t secrets = foldl (taintExact L) t (concat (map taintForms secrets))"
  by (induction secrets arbitrary: t) (simp_all add: Taint_def)

text \<open>
  The interface through which the server answers: what is known stays known, and nothing
  known leaves a redacted text.
\<close>

locale redactor =
  fixes known :: "'t \<Rightarrow> string set"
    and add :: "'t \<Rightarrow> string \<Rightarrow> 't"
    and redact :: "'t \<Rightarrow> string \<Rightarrow> string"
  assumes add_keeps: "known t \<subseteq> known (add t x)"
    and redact_hides: "v \<in> known t \<Longrightarrow> CHR ''*'' \<notin> set v \<Longrightarrow> v \<noteq> [] \<Longrightarrow> \<not> sublist v (redact t s)"
begin

lemma adds_keep: "known t \<subseteq> known (foldl add t xs)"
  by (induction xs arbitrary: t) (simp, metis add_keeps foldl_Cons subset_trans)

lemma hidden_ever_after:
  assumes "v \<in> known t" and "CHR ''*'' \<notin> set v" and "v \<noteq> []"
  shows "\<not> sublist v (redact (foldl add t xs) s)"
  using assms adds_keep redact_hides by blast

text \<open>A longer text that contains a hidden one is hidden with it.\<close>

lemma hidden_whole:
  assumes "v \<in> known t" and "CHR ''*'' \<notin> set v" and "v \<noteq> []" and "sublist v w"
  shows "\<not> sublist w (redact t s)"
  using assms redact_hides [OF assms(1-3)] sublist_order.order.trans by blast

end

interpretation taint: redactor "\<lambda>t. set (taint_values t)" "Taint L" Redact for L
  using Taint_mono Redact_removes by unfold_locales auto

text \<open>C10: Redaction is complete. Once secrets have been tainted, no redacted text contains any
  of them, nor its trimmed, query-escaped, path-escaped or JSON-escaped form, whatever the
  text and however the replacements overlap. The forms of fewer than five bytes are ignored
  by design, and a form that contains the placeholder's own byte is outside the claim; the
  hypothesis is that SHA-256, the key of the registry, has no collision among the forms.\<close>

theorem redaction_complete:
  assumes "inj_on (lib_sha256hex L) (set (concat (map taintForms secrets)))"
    and "s \<in> set secrets" and "f \<in> set (taintForms s)" and "5 \<le> length f" and "CHR ''*'' \<notin> set f"
  shows "\<not> sublist f (Redact (foldl (Taint L) emptyTaint secrets) data)"
proof -
  have "f \<in> set (taint_values (foldl (Taint L) emptyTaint secrets))"
    using taintExact_fold [OF taintOk_empty, of L "concat (map taintForms secrets)"] assms
    by (auto simp: Taint_fold emptyTaint_def)
  then show ?thesis using assms(4,5) by (intro taint.redact_hides) auto
qed

lemma redaction_complete_witness:
  "\<not> sublist ''hunter'' (Redact (foldl (Taint exampleLib) emptyTaint [''hunter'']) ''x=hunterhunter'')"
  by (rule redaction_complete [where s = "''hunter''"])
    (auto simp: inj_on_def exampleLib_def taintForms_def Let_def)

section \<open>The cache of the resolver\<close>

text \<open>
  Runs of the resolver: operations of the server, and changes of the store by others. The
  history, newest first, records what the store answered and when, and the writes through
  the resolver.
\<close>

datatype revent =
    Answered nat string string string
  | Written string string

inductive resolverRun ::
    "golib \<Rightarrow> 's SecretStore \<Rightarrow> 's \<Rightarrow> nat \<Rightarrow> 's Resolver \<Rightarrow> revent list \<Rightarrow> bool"
  for L st s0 where
  run_init: "resolverRun L st s0 0 (newResolver st s0) []"
| run_tick: "resolverRun L st s0 t r H \<Longrightarrow> t \<le> t' \<Longrightarrow> resolverRun L st s0 t' r H"
| run_resolve: "resolverRun L st s0 t r H \<Longrightarrow>
    store_Resolve (res_store r) (res_ext r) ws n = Inr v \<Longrightarrow>
    resolverRun L st s0 t (snd (Resolve L t ws n r)) (Answered t ws n v # H)"
| run_fail: "resolverRun L st s0 t r H \<Longrightarrow>
    store_Resolve (res_store r) (res_ext r) ws n = Inl e \<Longrightarrow>
    resolverRun L st s0 t (snd (Resolve L t ws n r)) H"
| run_set: "resolverRun L st s0 t r H \<Longrightarrow>
    resolverRun L st s0 t (snd (SetSecret ws n v r)) (Written ws n # H)"
| run_delete: "resolverRun L st s0 t r H \<Longrightarrow>
    resolverRun L st s0 t (snd (DeleteSecret ws n r)) (Written ws n # H)"
| run_flush: "resolverRun L st s0 t r H \<Longrightarrow> resolverRun L st s0 t (FlushCache r) H"
| run_other: "resolverRun L st s0 t r H \<Longrightarrow> resolverRun L st s0 t (r\<lparr>res_ext := s\<rparr>) H"

definition justified :: "revent list \<Rightarrow> nat \<Rightarrow> string \<Rightarrow> string \<Rightarrow> nat \<Rightarrow> bool" where
  "justified H t k v t0 \<longleftrightarrow> t0 \<le> t \<and>
     (\<exists>new ws n old. H = new @ Answered t0 ws n v # old \<and> cacheKey ws n = k
        \<and> (\<forall>ws' n'. Written ws' n' \<in> set new \<longrightarrow> cacheKey ws' n' \<noteq> k))"

lemma justified_now: "cacheKey ws n = k \<Longrightarrow> justified (Answered t ws n v # H) t k v t"
  unfolding justified_def
  by (intro conjI exI [of _ "[]"] exI [of _ ws] exI [of _ n] exI [of _ H]) simp_all

lemma justified_Cons:
  assumes "justified H t k v t0" and "\<And>ws n. e = Written ws n \<Longrightarrow> cacheKey ws n \<noteq> k"
  shows "justified (e # H) t k v t0"
proof -
  from assms(1) obtain new ws n old where H: "H = new @ Answered t0 ws n v # old"
    "cacheKey ws n = k" "t0 \<le> t" "\<forall>ws' n'. Written ws' n' \<in> set new \<longrightarrow> cacheKey ws' n' \<noteq> k"
    unfolding justified_def by blast
  then have "e # H = (e # new) @ Answered t0 ws n v # old" by simp
  moreover have "\<forall>ws' n'. Written ws' n' \<in> set (e # new) \<longrightarrow> cacheKey ws' n' \<noteq> k"
    using H(4) assms(2) by auto
  ultimately show ?thesis using H(2,3) unfolding justified_def by blast
qed

lemma justified_later: "justified H t k v t0 \<Longrightarrow> t \<le> t' \<Longrightarrow> justified H t' k v t0"
  unfolding justified_def by (elim conjE, rule conjI, erule (1) order.trans)

lemma justified_answer:
  "justified H t k v t0 \<Longrightarrow> \<exists>ws n. Answered t0 ws n v \<in> set H \<and> cacheKey ws n = k"
  unfolding justified_def by (metis in_set_conv_decomp)

lemma Resolve_cache:
  "mget (res_cache (snd (Resolve L t ws n r))) k = Some (v, t0) \<Longrightarrow>
     mget (res_cache r) k = Some (v, t0)
     \<or> k = cacheKey ws n \<and> t0 = t \<and> store_Resolve (res_store r) (res_ext r) ws n = Inr v"
  by (auto simp: Resolve_def Let_def split: option.splits prod.splits if_splits sum.splits)

lemma Resolve_frame: "res_ttl (snd (Resolve L t ws n r)) = res_ttl r"
  by (auto simp: Resolve_def Let_def split: option.splits prod.splits if_splits sum.splits)

lemma SetSecret_cache:
  "mget (res_cache (snd (SetSecret ws n v r))) k
     = (if k = cacheKey ws n then None else mget (res_cache r) k)"
  "res_ttl (snd (SetSecret ws n v r)) = res_ttl r"
  by (simp_all add: SetSecret_def forget_def split: prod.splits)

lemma DeleteSecret_cache:
  "mget (res_cache (snd (DeleteSecret ws n r))) k
     = (if k = cacheKey ws n then None else mget (res_cache r) k)"
  "res_ttl (snd (DeleteSecret ws n r)) = res_ttl r"
  by (simp_all add: DeleteSecret_def forget_def split: prod.splits)

lemma resolverRun_justified:
  assumes "resolverRun L st s0 t r H"
  shows "res_ttl r = defaultTTL \<and> (\<forall>k v t0. mget (res_cache r) k = Some (v, t0) \<longrightarrow> justified H t k v t0)"
  using assms
proof (induction rule: resolverRun.induct)
  case run_init
  then show ?case by (simp add: newResolver_def)
next
  case (run_tick t r H t')
  then show ?case using justified_later by blast
next
  case (run_resolve t r H ws n v)
  have "justified (Answered t ws n v # H) t k w t0"
    if "mget (res_cache (snd (Resolve L t ws n r))) k = Some (w, t0)" for k w t0
    using Resolve_cache [OF that]
  proof
    assume "mget (res_cache r) k = Some (w, t0)"
    with run_resolve.IH show ?thesis by (intro justified_Cons) auto
  next
    assume "k = cacheKey ws n \<and> t0 = t \<and> store_Resolve (res_store r) (res_ext r) ws n = Inr w"
    with run_resolve.hyps show ?thesis by (auto intro: justified_now)
  qed
  then show ?case using run_resolve.IH by (simp add: Resolve_frame)
next
  case (run_fail t r H ws n e)
  have "justified H t k w t0"
    if "mget (res_cache (snd (Resolve L t ws n r))) k = Some (w, t0)" for k w t0
    using Resolve_cache [OF that] run_fail by auto
  then show ?case using run_fail.IH by (simp add: Resolve_frame)
next
  case (run_set t r H ws n v)
  have "justified (Written ws n # H) t k w t0"
    if "mget (res_cache (snd (SetSecret ws n v r))) k = Some (w, t0)" for k w t0
  proof (rule justified_Cons)
    from that show "justified H t k w t0"
      using run_set.IH by (simp add: SetSecret_cache split: if_splits)
    from that show "cacheKey ws' n' \<noteq> k" if "Written ws n = Written ws' n'" for ws' n'
      using that by (simp add: SetSecret_cache split: if_splits)
  qed
  then show ?case using run_set.IH by (simp add: SetSecret_cache)
next
  case (run_delete t r H ws n)
  have "justified (Written ws n # H) t k w t0"
    if "mget (res_cache (snd (DeleteSecret ws n r))) k = Some (w, t0)" for k w t0
  proof (rule justified_Cons)
    from that show "justified H t k w t0"
      using run_delete.IH by (simp add: DeleteSecret_cache split: if_splits)
    from that show "cacheKey ws' n' \<noteq> k" if "Written ws n = Written ws' n'" for ws' n'
      using that by (simp add: DeleteSecret_cache split: if_splits)
  qed
  then show ?case using run_delete.IH by (simp add: DeleteSecret_cache)
qed (simp_all add: FlushCache_def)

lemma cacheKey_cut: "CHR ''/'' \<notin> set ws \<Longrightarrow> cutAt (CHR ''/'') (cacheKey ws n) = Some (ws, n)"
  unfolding cacheKey_def by (induction ws) auto

lemma cacheKey_inj:
  assumes "cacheKey ws n = cacheKey ws' n'" and "CHR ''/'' \<notin> set ws" and "CHR ''/'' \<notin> set ws'"
  shows "ws = ws' \<and> n = n'"
proof -
  have "Some (ws, n) = cutAt (CHR ''/'') (cacheKey ws n)"
    by (rule cacheKey_cut [OF assms(2), symmetric])
  also have "\<dots> = cutAt (CHR ''/'') (cacheKey ws' n')" by (rule arg_cong [OF assms(1)])
  also have "\<dots> = Some (ws', n')" by (rule cacheKey_cut [OF assms(3)])
  finally show ?thesis by simp
qed

text \<open>C13: A secret handed out by \<open>Resolve\<close> is what the store answers now, or what the store
  answered less than 30 seconds ago for the same cache entry with no write through the
  resolver since: after \<open>Set\<close> and \<open>Delete\<close> the cache never serves the old value, in any
  sequence of operations and of changes made by others.\<close>

theorem resolve_never_stale:
  assumes "resolverRun L st s0 t r H" and "Resolve L t ws n r = (Inr v, r')"
  shows "store_Resolve (res_store r) (res_ext r) ws n = Inr v
    \<or> (\<exists>t0. justified H t (cacheKey ws n) v t0 \<and> t - t0 < defaultTTL)"
proof (cases "store_Resolve (res_store r) (res_ext r) ws n = Inr v")
  case False
  with assms(2) obtain t0 where "mget (res_cache r) (cacheKey ws n) = Some (v, t0)" "t - t0 < res_ttl r"
    by (auto simp: Resolve_def Let_def checkEmpty_def
        split: option.splits prod.splits if_splits sum.splits)
  with resolverRun_justified [OF assms(1)] show ?thesis by auto
qed simp

definition exampleGroups :: "secretError + kgroup list" where
  "exampleGroups = Inr [KGroup [(''egw/acme/jira'', ''hunter22'')] []]"

lemma example_resolve:
  "Resolve exampleLib 0 ''acme'' ''jira'' (newResolver (KeePassStore exampleLib) exampleGroups)
    = (Inr ''hunter22'', snd (Resolve exampleLib 0 ''acme'' ''jira''
        (newResolver (KeePassStore exampleLib) exampleGroups)))"
  by (simp add: Resolve_def newResolver_def KeePassStore_def exampleGroups_def findIn_def
      secretTarget_def equalFold_def isAscii_def checkEmpty_def)

lemma resolve_never_stale_witness:
  "store_Resolve (res_store (newResolver (KeePassStore exampleLib) exampleGroups)) exampleGroups
       ''acme'' ''jira'' = Inr ''hunter22''
   \<or> (\<exists>t0. justified [] 0 (cacheKey ''acme'' ''jira'') ''hunter22'' t0 \<and> 0 - t0 < defaultTTL)"
proof -
  let ?r = "newResolver (KeePassStore exampleLib) exampleGroups"
  have ext: "res_ext ?r = exampleGroups" by (simp add: newResolver_def)
  from resolve_never_stale [OF run_init example_resolve] show ?thesis unfolding ext .
qed

text \<open>The answers in the history that concern another tenant's secret are never used.\<close>

definition noSlash :: "revent list \<Rightarrow> bool" where
  "noSlash H \<longleftrightarrow> (\<forall>t ws n v. Answered t ws n v \<in> set H \<longrightarrow> CHR ''/'' \<notin> set ws)"

text \<open>C12: Secrets never cross tenants. A secret that \<open>ResolveWithWorkspaceCheck\<close> hands out for
  a request comes from the store entry of exactly the requesting workspace and name, now or
  through the cache, when no workspace name contains a slash; a reference to another
  workspace is refused without asking the store.\<close>

theorem no_cross_tenant_secret:
  assumes "resolverRun L st s0 t r H" and "noSlash H" and "CHR ''/'' \<notin> set req"
    and "ResolveWithWorkspaceCheck L t ws n req r = (Inr v, r')"
  shows "ws = req \<and> (store_Resolve (res_store r) (res_ext r) req n = Inr v
    \<or> (\<exists>t0. Answered t0 req n v \<in> set H \<and> t - t0 < defaultTTL))"
proof -
  from assms(4) have ws: "ws = req" and res: "Resolve L t req n r = (Inr v, r')"
    by (auto simp: ResolveWithWorkspaceCheck_def split: if_splits)
  from resolve_never_stale [OF assms(1) res] show ?thesis
  proof
    assume "\<exists>t0. justified H t (cacheKey req n) v t0 \<and> t - t0 < defaultTTL"
    then obtain t0 where j: "justified H t (cacheKey req n) v t0" and ttl: "t - t0 < defaultTTL"
      by blast
    from justified_answer [OF j] obtain ws' n' where
      "Answered t0 ws' n' v \<in> set H" "cacheKey ws' n' = cacheKey req n"
      by blast
    moreover from this assms(2,3) have "ws' = req \<and> n' = n"
      using cacheKey_inj by (metis noSlash_def)
    ultimately show ?thesis using ws ttl by blast
  qed (use ws in simp)
qed

lemma no_cross_tenant_secret_witness:
  "''acme'' = ''acme'' \<and>
    (store_Resolve (res_store (newResolver (KeePassStore exampleLib) exampleGroups)) exampleGroups
       ''acme'' ''jira'' = Inr ''hunter22''
    \<or> (\<exists>t0. Answered t0 ''acme'' ''jira'' ''hunter22'' \<in> set [] \<and> 0 - t0 < defaultTTL))"
proof -
  let ?r = "newResolver (KeePassStore exampleLib) exampleGroups"
  have ext: "res_ext ?r = exampleGroups" by (simp add: newResolver_def)
  have "ResolveWithWorkspaceCheck exampleLib 0 ''acme'' ''jira'' ''acme'' ?r
      = (Inr ''hunter22'', snd (Resolve exampleLib 0 ''acme'' ''jira'' ?r))"
    using example_resolve by (simp add: ResolveWithWorkspaceCheck_def)
  from no_cross_tenant_secret [OF run_init _ _ this] show ?thesis
    unfolding ext by (simp add: noSlash_def)
qed

section \<open>Every secret in use is tainted\<close>

definition seenForms :: "revent list \<Rightarrow> string set" where
  "seenForms H = {f. \<exists>t ws n v. Answered t ws n v \<in> set H \<and> f \<in> set (taintForms v)}"

lemma seenForms_Cons:
  "seenForms (Answered t ws n v # H) = set (taintForms v) \<union> seenForms H"
  "seenForms (Written ws n # H) = seenForms H"
  by (auto simp: seenForms_def)

definition tainted :: "golib \<Rightarrow> 's Resolver \<Rightarrow> revent list \<Rightarrow> bool" where
  "tainted L r H \<longleftrightarrow> taintOk L (res_taint r) \<and> set (taint_values (res_taint r)) \<subseteq> seenForms H
     \<and> (\<forall>k v t0. mget (res_cache r) k = Some (v, t0) \<longrightarrow> 5 \<le> length v \<longrightarrow>
          v \<in> set (taint_values (res_taint r)))"

lemma tainted_history: "tainted L r H \<Longrightarrow> seenForms H \<subseteq> seenForms H' \<Longrightarrow> tainted L r H'"
  unfolding tainted_def by blast

lemma tainted_cache_del:
  assumes "tainted L r H"
    and "\<And>k v t0. mget (res_cache r') k = Some (v, t0) \<Longrightarrow> mget (res_cache r) k = Some (v, t0)"
    and "res_taint r' = res_taint r"
  shows "tainted L r' H"
  using assms unfolding tainted_def by simp blast

text \<open>\<open>Resolve\<close> either leaves the state alone or fetches, caches and taints.\<close>

lemma Resolve_cases:
  "snd (Resolve L t ws n r) = r \<or>
   (\<exists>v. store_Resolve (res_store r) (res_ext r) ws n = Inr v \<and>
      snd (Resolve L t ws n r)
        = r\<lparr>res_cache := mput (cacheKey ws n) (v, t) (res_cache r), res_taint := Taint L (res_taint r) v\<rparr>)"
  by (simp add: Resolve_def Let_def split: option.split prod.split sum.split)

lemma tainted_fetch:
  assumes "tainted L r H" and "inj_on (lib_sha256hex L) (set (taintForms v) \<union> seenForms H)"
  shows "tainted L (r\<lparr>res_cache := mput k (v, t) (res_cache r), res_taint := Taint L (res_taint r) v\<rparr>)
    (Answered t ws n v # H)"
proof -
  have "set (taintForms v) \<union> set (taint_values (res_taint r)) \<subseteq> set (taintForms v) \<union> seenForms H"
    using assms(1) unfolding tainted_def by blast
  with assms(2) have "inj_on (lib_sha256hex L) (set (taintForms v) \<union> set (taint_values (res_taint r)))"
    by (rule inj_on_subset)
  moreover have "taintOk L (res_taint r)" using assms(1) by (simp add: tainted_def)
  ultimately have "taintOk L (Taint L (res_taint r) v)
    \<and> set (taint_values (res_taint r)) \<subseteq> set (taint_values (Taint L (res_taint r) v))
    \<and> set (taint_values (Taint L (res_taint r) v)) \<subseteq> set (taintForms v) \<union> set (taint_values (res_taint r))
    \<and> (\<forall>s\<in>set (taintForms v). 5 \<le> length s \<longrightarrow> s \<in> set (taint_values (Taint L (res_taint r) v)))"
    unfolding Taint_def by (intro taintExact_fold) simp_all
  moreover have "v \<in> set (taintForms v)" by (simp add: taintForms_def Let_def)
  ultimately show ?thesis
    using assms(1) unfolding tainted_def seenForms_Cons by auto blast
qed

lemma resolverRun_tainted:
  assumes "resolverRun L st s0 t r H" and "inj_on (lib_sha256hex L) (seenForms H)"
  shows "tainted L r H"
  using assms
proof (induction rule: resolverRun.induct)
  case run_init
  then show ?case by (simp add: tainted_def newResolver_def taintOk_empty) (simp add: emptyTaint_def)
next
  case (run_resolve t r H ws n v)
  have old: "tainted L r H"
    using run_resolve by (auto simp: seenForms_Cons intro: inj_on_subset)
  from Resolve_cases [of L t ws n r] show ?case
  proof
    assume "snd (Resolve L t ws n r) = r"
    then show ?thesis using tainted_history [OF old] by (simp add: seenForms_Cons)
  next
    assume "\<exists>v. store_Resolve (res_store r) (res_ext r) ws n = Inr v \<and>
      snd (Resolve L t ws n r)
        = r\<lparr>res_cache := mput (cacheKey ws n) (v, t) (res_cache r), res_taint := Taint L (res_taint r) v\<rparr>"
    then show ?thesis
      using tainted_fetch [OF old] run_resolve.prems run_resolve.hyps by (auto simp: seenForms_Cons)
  qed
next
  case (run_fail t r H ws n e)
  then show ?case using Resolve_cases [of L t ws n r] by auto
next
  case (run_set t r H ws n v)
  then have "tainted L r (Written ws n # H)"
    by (simp add: seenForms_Cons tainted_def)
  then show ?case
    by (rule tainted_cache_del)
      (simp_all add: SetSecret_cache SetSecret_def forget_def split: if_splits prod.splits)
next
  case (run_delete t r H ws n)
  then have "tainted L r (Written ws n # H)"
    by (simp add: seenForms_Cons tainted_def)
  then show ?case
    by (rule tainted_cache_del)
      (simp_all add: DeleteSecret_cache DeleteSecret_def forget_def split: if_splits prod.splits)
qed (auto simp: FlushCache_def tainted_def)

text \<open>C11: Every secret that \<open>Resolve\<close> hands out is redacted from whatever the server sends
  afterwards: in every run of the resolver (with no hash collision among the forms of the
  secrets it has seen), a secret of five bytes or more returned by \<open>Resolve\<close> occurs in no text
  redacted with the registry as \<open>Resolve\<close> leaves it.\<close>

theorem resolved_secret_is_redacted:
  assumes "resolverRun L st s0 t r H" and "Resolve L t ws n r = (Inr v, r')"
    and "inj_on (lib_sha256hex L) (seenForms (Answered t ws n v # H))"
    and "5 \<le> length v" and "CHR ''*'' \<notin> set v"
  shows "\<not> sublist v (Redact (res_taint r') data)"
proof -
  have inj: "inj_on (lib_sha256hex L) (set (taintForms v) \<union> seenForms H)"
    using assms(3) by (simp add: seenForms_Cons)
  then have old: "tainted L r H"
    using resolverRun_tainted [OF assms(1)] by (auto intro: inj_on_subset)
  have "v \<in> set (taint_values (res_taint r'))"
  proof (cases "\<exists>t0. mget (res_cache r) (cacheKey ws n) = Some (v, t0) \<and> r' = r")
    case True
    then show ?thesis using old assms(4) unfolding tainted_def by blast
  next
    case False
    with assms(2) have "r' = r\<lparr>res_cache := mput (cacheKey ws n) (v, t) (res_cache r),
        res_taint := Taint L (res_taint r) v\<rparr>"
      by (auto simp: Resolve_def Let_def checkEmpty_def
          split: option.splits prod.splits if_splits sum.splits)
    with tainted_fetch [OF old inj, of "cacheKey ws n" t ws n]
    have "tainted L r' (Answered t ws n v # H)" "mget (res_cache r') (cacheKey ws n) = Some (v, t)"
      by simp_all
    then show ?thesis using assms(4) unfolding tainted_def by blast
  qed
  then show ?thesis using assms(4,5) by (intro taint.redact_hides) auto
qed

lemma resolved_secret_is_redacted_witness:
  "\<not> sublist ''hunter22'' (Redact (res_taint (snd (Resolve exampleLib 0 ''acme'' ''jira''
      (newResolver (KeePassStore exampleLib) exampleGroups)))) ''token hunter22'')"
  by (rule resolved_secret_is_redacted [OF run_init example_resolve])
    (simp_all add: exampleLib_def inj_on_def)

end
