(* ===== verification/AuditLog.thy ===== *)
theory AuditLog
  imports Secrets "HOL-Library.Word"
begin

text \<open>
  Package \<open>internal/audit\<close>: the record of a decision, the sanitising of its parameters and the
  rotation of the log files. The file system is a map from paths to contents; the clock,
  the request id and the failure of an \<open>open\<close> are arguments.
\<close>

section \<open>Sanitising\<close>

definition sensitiveKeyParts :: "string list" where
  "sensitiveKeyParts =
     [''password'', ''passwd'', ''secret'', ''token'', ''apikey'', ''api_key'', ''api-key'',
      ''private_key'', ''privatekey'', ''authorization'', ''cookie'', ''credential'']"

definition sensitiveExactKeys :: "string list" where
  "sensitiveExactKeys = [''value'', ''pwd'', ''pass'', ''auth'']"

definition harmlessKeySuffixes :: "string list" where
  "harmlessKeySuffixes = [''_count'', ''_type'', ''_ttl'', ''_expires_in'', ''_length'', ''_len'']"

definition isSensitiveKey :: "golib \<Rightarrow> string \<Rightarrow> bool" where
  "isSensitiveKey L k =
     (let lk = toLower L k
      in if list_ex (hasSuffix lk) harmlessKeySuffixes then False
         else if List.member sensitiveExactKeys lk then True
         else list_ex (strContains lk) sensitiveKeyParts)"

fun sanitizeValue :: "golib \<Rightarrow> TaintRegistry \<Rightarrow> json \<Rightarrow> json" where
  "sanitizeValue L t (JObj m) =
     JObj (map (\<lambda>(k, v). if isSensitiveKey L k then (k, JStr ''***'') else (k, sanitizeValue L t v)) m)"
| "sanitizeValue L t (JArr vs) = JArr (map (sanitizeValue L t) vs)"
| "sanitizeValue L t (JStr s) = JStr (Redact t s)"
| "sanitizeValue L t v = v"

definition sanitizeMap :: "golib \<Rightarrow> TaintRegistry \<Rightarrow> params \<Rightarrow> params" where
  "sanitizeMap L t m =
     map (\<lambda>(k, v). if isSensitiveKey L k then (k, JStr ''***'') else (k, sanitizeValue L t v)) m"

definition sanitizeParams :: "golib \<Rightarrow> TaintRegistry \<Rightarrow> goMapVal \<Rightarrow> goMapVal" where
  "sanitizeParams L t ps = (case ps of NilMap \<Rightarrow> NilMap | MapOf m \<Rightarrow> MapOf (sanitizeMap L t m))"

section \<open>Records and files\<close>

record Record =
  rec_Timestamp :: string
  rec_RequestID :: string
  rec_AgentID :: string
  rec_Workspace :: string
  rec_Operation :: string
  rec_Params :: goMapVal
  rec_Decision :: string
  rec_Rule :: string
  rec_Detail :: string
  rec_UpstreamStatus :: int
  rec_LatencyMS :: int
  rec_Error :: string

text \<open>\<open>json.Marshal\<close> of the struct: declaration order, empty \<open>omitempty\<close> fields left out.\<close>

definition marshalRecord :: "golib \<Rightarrow> Record \<Rightarrow> string" where
  "marshalRecord L r =
     ''{'' @ join '',''
       ([jsonField ''ts'' (jsonQuote True (rec_Timestamp r)),
         jsonField ''request_id'' (jsonQuote True (rec_RequestID r)),
         jsonField ''agent_id'' (jsonQuote True (rec_AgentID r)),
         jsonField ''workspace'' (jsonQuote True (rec_Workspace r)),
         jsonField ''operation'' (jsonQuote True (rec_Operation r)),
         jsonField ''params''
           (case rec_Params r of NilMap \<Rightarrow> ''null'' | MapOf m \<Rightarrow> encodeJson L (JObj m)),
         jsonField ''decision'' (jsonQuote True (rec_Decision r))]
        @ (if rec_Rule r = [] then [] else [jsonField ''rule'' (jsonQuote True (rec_Rule r))])
        @ (if rec_Detail r = [] then [] else [jsonField ''detail'' (jsonQuote True (rec_Detail r))])
        @ (if rec_UpstreamStatus r = 0 then []
           else [jsonField ''upstream_status'' (showInt (rec_UpstreamStatus r))])
        @ [jsonField ''latency_ms'' (showInt (rec_LatencyMS r))]
        @ (if rec_Error r = [] then [] else [jsonField ''error'' (jsonQuote True (rec_Error r))]))
     @ ''}''"

record Logger =
  log_dir :: string
  log_maxSize :: int
  log_sequence :: "64 word"
  log_current :: string
  log_files :: "string gomap"

text \<open>What \<open>Log\<close> reads from outside: the clock as RFC 3339 text and as a date, a fresh id.\<close>

record clock =
  clk_now :: string
  clk_today :: string
  clk_uuid :: string
  clk_openFails :: "string \<Rightarrow> bool"

definition InitLogger :: "string \<Rightarrow> int \<Rightarrow> string gomap \<Rightarrow> Logger" where
  "InitLogger dir maxSizeMB files =
     (let maxSizeMB = (if maxSizeMB \<le> 0 then 100 else maxSizeMB)
      in \<lparr>log_dir = dir, log_maxSize = maxSizeMB * 1024 * 1024, log_sequence = 0,
          log_current = [], log_files = files\<rparr>)"

text \<open>\<open>filepath.Join\<close> and \<open>filepath.Base\<close> for a cleaned directory and a plain name.\<close>

definition joinPath :: "string \<Rightarrow> string \<Rightarrow> string" where
  "joinPath dir name = dir @ ''/'' @ name"

definition basePath :: "string \<Rightarrow> string" where
  "basePath p = rev (takeWhile (\<lambda>c. c \<noteq> CHR ''/'') (rev p))"

definition rollOver :: "string \<Rightarrow> Logger \<Rightarrow> Logger" where
  "rollOver today l =
     (if log_current l = [] \<or> \<not> strContains (basePath (log_current l)) (''audit_'' @ today)
      then l\<lparr>log_current := joinPath (log_dir l) (''audit_'' @ today @ ''.log''), log_sequence := 0\<rparr>
      else l)"

definition rotate :: "string \<Rightarrow> Logger \<Rightarrow> Logger" where
  "rotate today l =
     (if 0 < log_maxSize l
         \<and> (case mget (log_files l) (log_current l) of
              None \<Rightarrow> False
            | Some content \<Rightarrow> log_maxSize l \<le> int (length content))
      then (let seq = log_sequence l + 1
            in l\<lparr>log_sequence := seq,
                 log_current := joinPath (log_dir l)
                   (''audit_'' @ today @ ''_'' @ natDigits (unat seq) @ ''.log'')\<rparr>)
      else l)"

datatype logError = OpenFailed string

definition Log :: "golib \<Rightarrow> clock \<Rightarrow> Record \<Rightarrow> Logger \<Rightarrow> (logError + unit) \<times> Logger" where
  "Log L ck r l =
     (let r = (if rec_RequestID r = [] then r\<lparr>rec_RequestID := clk_uuid ck\<rparr> else r);
          r = (if rec_Timestamp r = [] then r\<lparr>rec_Timestamp := clk_now ck\<rparr> else r);
          data = marshalRecord L r;
          l = rotate (clk_today ck) (rollOver (clk_today ck) l)
      in if clk_openFails ck (log_current l) then (Inl (OpenFailed (log_current l)), l)
         else (let old = (case mget (log_files l) (log_current l) of None \<Rightarrow> [] | Some c \<Rightarrow> c)
               in (Inr (), l\<lparr>log_files :=
                    mput (log_current l) (old @ data @ [CHR 0x0A]) (log_files l)\<rparr>)))"

definition allowRecord ::
    "golib \<Rightarrow> TaintRegistry \<Rightarrow> string \<Rightarrow> string \<Rightarrow> string \<Rightarrow> string \<Rightarrow> goMapVal \<Rightarrow> int \<Rightarrow> int \<Rightarrow> Record" where
  "allowRecord L t requestID agentID workspace operation ps latencyMS upstreamStatus =
     \<lparr>rec_Timestamp = [], rec_RequestID = requestID, rec_AgentID = agentID,
      rec_Workspace = workspace, rec_Operation = operation, rec_Params = sanitizeParams L t ps,
      rec_Decision = ''allow'', rec_Rule = [], rec_Detail = [],
      rec_UpstreamStatus = upstreamStatus, rec_LatencyMS = latencyMS, rec_Error = []\<rparr>"

definition denyRecord ::
    "string \<Rightarrow> string \<Rightarrow> string \<Rightarrow> string \<Rightarrow> string \<Rightarrow> string \<Rightarrow> Record" where
  "denyRecord requestID agentID workspace operation rule detail =
     \<lparr>rec_Timestamp = [], rec_RequestID = requestID, rec_AgentID = agentID,
      rec_Workspace = workspace, rec_Operation = operation, rec_Params = NilMap,
      rec_Decision = ''deny'', rec_Rule = rule, rec_Detail = detail,
      rec_UpstreamStatus = 0, rec_LatencyMS = 0, rec_Error = []\<rparr>"

definition LogAllow ::
    "golib \<Rightarrow> TaintRegistry \<Rightarrow> clock \<Rightarrow> string \<Rightarrow> string \<Rightarrow> string \<Rightarrow> string \<Rightarrow> goMapVal \<Rightarrow> int \<Rightarrow> int
       \<Rightarrow> Logger \<Rightarrow> (logError + unit) \<times> Logger" where
  "LogAllow L t ck requestID agentID workspace operation ps latencyMS upstreamStatus =
     Log L ck (allowRecord L t requestID agentID workspace operation ps latencyMS upstreamStatus)"

definition LogDeny ::
    "golib \<Rightarrow> clock \<Rightarrow> string \<Rightarrow> string \<Rightarrow> string \<Rightarrow> string \<Rightarrow> string \<Rightarrow> string
       \<Rightarrow> Logger \<Rightarrow> (logError + unit) \<times> Logger" where
  "LogDeny L ck requestID agentID workspace operation rule detail =
     Log L ck (denyRecord requestID agentID workspace operation rule detail)"

section \<open>No credential in the parameters of a record\<close>

text \<open>The values written for a JSON value, with the keys on the way to each.\<close>

fun leafValue :: "json \<Rightarrow> bool" where
  "leafValue (JObj m) = False"
| "leafValue (JArr vs) = False"
| "leafValue v = True"

inductive written :: "json \<Rightarrow> string list \<Rightarrow> json \<Rightarrow> bool" where
  W_here: "leafValue v \<Longrightarrow> written v [] v"
| W_obj: "(k, w) \<in> set m \<Longrightarrow> written w ks v \<Longrightarrow> written (JObj m) (k # ks) v"
| W_arr: "w \<in> set vs \<Longrightarrow> written w ks v \<Longrightarrow> written (JArr vs) ks v"

inductive_cases written_objE: "written (JObj m) ks v"
inductive_cases written_arrE: "written (JArr vs) ks v"

lemma sanitizeMap_value: "JObj (sanitizeMap L t m) = sanitizeValue L t (JObj m)"
  by (simp add: sanitizeMap_def)

lemma written_leaf: "written w ks v \<Longrightarrow> leafValue w \<Longrightarrow> ks = [] \<and> v = w"
  by (induction rule: written.induct) auto

lemma written_sanitized:
  "written (sanitizeValue L t w) ks v \<Longrightarrow>
     ((\<exists>k\<in>set ks. isSensitiveKey L k) \<longrightarrow> v = JStr ''***'')
     \<and> (\<forall>s. v = JStr s \<longrightarrow> s = ''***'' \<or> (\<exists>u. s = Redact t u))"
proof (induction w arbitrary: ks)
  case (JObj m)
  from JObj.prems obtain k w' ks' where
    kw: "(k, w') \<in> set m" "ks = k # ks'" and
    sh: "written (if isSensitiveKey L k then JStr ''***'' else sanitizeValue L t w') ks' v"
    by (auto elim!: written_objE split: if_splits)
  show ?case
  proof (cases "isSensitiveKey L k")
    case True
    with sh have "ks' = [] \<and> v = JStr ''***''" using written_leaf by fastforce
    then show ?thesis by simp
  next
    case False
    with sh JObj.IH [OF kw(1), of w' ks'] kw show ?thesis by auto
  qed
next
  case (JArr vs)
  from JArr.prems obtain w where "w \<in> set vs" "written (sanitizeValue L t w) ks v"
    by (auto elim!: written_arrE)
  then show ?case by (rule JArr.IH)
next
  case (JStr s)
  then have "ks = [] \<and> v = JStr (Redact t s)" using written_leaf by fastforce
  then show ?case by auto
qed (auto dest!: written_leaf)

text \<open>C19: The parameters written to the audit log hold no credential: at any depth, the value
  under a key that names a credential is the placeholder, and no string contains a secret the
  server has tainted (the redaction's own limits apply).\<close>

theorem sanitizeParams_clean:
  assumes "sanitizeParams L t ps = MapOf m" and "written (JObj m) ks v"
  shows "((\<exists>k\<in>set ks. isSensitiveKey L k) \<longrightarrow> v = JStr ''***'')
    \<and> (\<forall>s secret. v = JStr s \<longrightarrow> secret \<in> set (taint_values t) \<longrightarrow> CHR ''*'' \<notin> set secret
        \<longrightarrow> secret \<noteq> [] \<longrightarrow> \<not> sublist secret s)"
proof -
  from assms(1) obtain m0 where "m = sanitizeMap L t m0"
    by (auto simp: sanitizeParams_def split: goMapVal.splits)
  with assms(2) have w: "written (sanitizeValue L t (JObj m0)) ks v" by (simp add: sanitizeMap_value)
  have star: "\<not> sublist secret ''***''" if "CHR ''*'' \<notin> set secret" "secret \<noteq> []" for secret
    using that sublist_star_app [of secret "[]"] by auto
  from written_sanitized [OF w] show ?thesis
    using star Redact_removes by blast
qed

definition exampleTaint :: TaintRegistry where
  "exampleTaint = Taint exampleLib emptyTaint ''hunter22''"

lemma sanitizeParams_clean_witness:
  "\<not> sublist ''hunter22'' ''login with ***''"
proof -
  have clean: "sanitizeParams exampleLib exampleTaint (MapOf [(''note'', JStr ''login with hunter22'')])
      = MapOf [(''note'', JStr ''login with ***'')]"
    by code_simp
  have "written (JObj [(''note'', JStr ''login with ***'')]) [''note''] (JStr ''login with ***'')"
    by (intro W_obj [of _ "JStr ''login with ***''"] W_here) simp_all
  from sanitizeParams_clean [OF clean this]
  have "''hunter22'' \<in> set (taint_values exampleTaint) \<Longrightarrow> ?thesis" by simp
  moreover have "List.member (taint_values exampleTaint) ''hunter22''" by code_simp
  ultimately show ?thesis by simp
qed

section \<open>The log is append-only\<close>

definition line :: "golib \<Rightarrow> clock \<Rightarrow> Record \<Rightarrow> string" where
  "line L ck r =
     marshalRecord L (r\<lparr>rec_RequestID := if rec_RequestID r = [] then clk_uuid ck else rec_RequestID r,
                        rec_Timestamp := if rec_Timestamp r = [] then clk_now ck else rec_Timestamp r\<rparr>)
     @ [CHR 0x0A]"

lemma rollOver_files [simp]: "log_files (rollOver d l) = log_files l"
  by (simp add: rollOver_def)

lemma rotate_files [simp]: "log_files (rotate d l) = log_files l"
  by (simp add: rotate_def Let_def)

lemma Log_files:
  "log_files (snd (Log L ck r l)) =
     (let p = log_current (snd (Log L ck r l))
      in if clk_openFails ck p then log_files l
         else mput p ((case mget (log_files l) p of None \<Rightarrow> [] | Some c \<Rightarrow> c) @ line L ck r) (log_files l))"
  by (simp add: Log_def line_def Let_def)

definition content :: "Logger \<Rightarrow> string \<Rightarrow> string" where
  "content l p = (case mget (log_files l) p of None \<Rightarrow> [] | Some c \<Rightarrow> c)"

text \<open>The audit log is append-only and complete. Each call of \<open>Log\<close> that reports success adds
  exactly the line of its record at the end of exactly one file, the current one, and a call
  that fails changes no file: no record is lost, split, overwritten or written twice by a
  rotation or a change of date.\<close>

theorem Log_appends:
  "case Log L ck r l of
     (Inr _, l') \<Rightarrow> \<forall>p. content l' p = content l p @ (if p = log_current l' then line L ck r else [])
   | (Inl _, l') \<Rightarrow> log_files l' = log_files l"
proof -
  obtain res l' where l': "Log L ck r l = (res, l')" by (cases "Log L ck r l")
  have res: "(case res of Inl _ \<Rightarrow> clk_openFails ck (log_current l')
      | Inr _ \<Rightarrow> \<not> clk_openFails ck (log_current l'))"
    using l' by (auto simp: Log_def Let_def split: if_splits)
  show ?thesis
    using Log_files [of L ck r l] l' res by (auto simp: content_def Let_def split: sum.splits)
qed

text \<open>
  The size cap holds for the file in use only: a process that starts again counts its
  rotations from 1 and appends to a file of an earlier rotation even if that one is full.
\<close>

definition restarted :: Logger where
  "restarted = \<lparr>log_dir = ''d'', log_maxSize = 2, log_sequence = 0, log_current = [],
     log_files = [(''d/audit_20260101.log'', ''full''), (''d/audit_20260101_1.log'', ''full'')]\<rparr>"

lemma restart_appends_to_full_file:
  "log_current (rotate ''20260101'' (rollOver ''20260101'' restarted)) = ''d/audit_20260101_1.log''"
  by code_simp

end
