(* ===== verification/Tables.thy ===== *)
theory Tables
  imports Encode
begin

text \<open>
  \<open>internal/connectors/postgres\<close>: the statement checks, the walk over the parsed tree that
  enforces \<open>pg_allowed_tables\<close>, and the filters that use the same list. The SQL parser is
  outside the repository: its result is a generic tree, in which only the nodes that the
  walk treats specially have their own constructors. The specification says which tables a
  statement reads under PostgreSQL's scoping of CTE names.
\<close>

section \<open>Parsed statements\<close>

text \<open>
  A reflected value. A field has its name, whether it is exported and of a kind that the
  walk enters, and its value. Of a \<open>FuncCall\<close> the items of the name are kept (\<open>None\<close> for an
  item that is not a string), of a \<open>WithClause\<close> the list of CTEs (\<open>None\<close> for another node).
\<close>

datatype sqlval =
    VInvalid
  | VScalar
  | VInterface "sqlval option"
  | VPtr "sqlval option"
  | VSlice "sqlval list"
  | VStruct "(string \<times> bool \<times> sqlval) list"
  | VRangeVar string string
  | VFuncCall "string option list option" "(string \<times> bool \<times> sqlval) list"
  | VSelect "(bool \<times> (string \<times> sqlval) option list option) option" "(string \<times> bool \<times> sqlval) list"
  | VNode "(string \<times> bool \<times> sqlval) list"

section \<open>The walk\<close>

definition deniedFuncPrefixes :: "string list" where
  "deniedFuncPrefixes =
     [''query_to_xml'', ''table_to_xml'', ''schema_to_xml'', ''database_to_xml'', ''cursor_to_xml'',
      ''dblink'', ''pg_read_'', ''pg_ls_'', ''pg_stat_file'', ''pg_file_'', ''lo_'',
      ''pg_terminate_backend'', ''pg_cancel_backend'', ''pg_sleep'', ''set_config'',
      ''ts_stat'', ''pg_reload_conf'', ''pg_rotate_logfile'', ''pg_switch_wal'', ''pg_notify'',
      ''pg_advisory_'', ''pg_logical_'', ''pg_create_'', ''pg_drop_'', ''pg_replication_'',
      ''pg_export_snapshot'', ''nextval'', ''setval'', ''currval'', ''pg_backup_'',
      ''ts_rewrite'', ''crosstab'', ''connectby'', ''xpath_table'', ''pg_stat_get_'', ''pg_show_all_'',
      ''pg_sequence_last_value'', ''pg_promote'', ''pg_wal_replay_'', ''pg_import_system_collations'']"

definition funcDenied :: "golib \<Rightarrow> string \<Rightarrow> bool" where
  "funcDenied L name = list_ex (hasPrefix (toLower L name)) deniedFuncPrefixes"

definition maxWalkDepth :: nat where
  "maxWalkDepth = 500"

datatype walkError =
    TooDeep
  | FunctionDenied string

type_synonym tableRef = "string \<times> string"

record tableWalker =
  wk_refs :: "tableRef list"
  wk_err :: "walkError option"

definition walkFail :: "walkError \<Rightarrow> tableWalker \<Rightarrow> tableWalker" where
  "walkFail e w = (if wk_err w = None then w\<lparr>wk_err := Some e\<rparr> else w)"

text \<open>\<open>walkValue\<close> returns at once after a failure and fails below the maximal depth.\<close>

definition halts :: "nat \<Rightarrow> tableWalker \<Rightarrow> bool" where
  "halts depth w = (wk_err w \<noteq> None \<or> maxWalkDepth < depth)"

definition halted :: "tableWalker \<Rightarrow> tableWalker" where
  "halted w = (if wk_err w \<noteq> None then w else walkFail TooDeep w)"

definition deniedCall :: "golib \<Rightarrow> string option list option \<Rightarrow> string option" where
  "deniedCall L funcname =
     (case funcname of
        None \<Rightarrow> None
      | Some items \<Rightarrow>
          if items = [] then None
          else (case last items of
                  None \<Rightarrow> None
                | Some s \<Rightarrow> if funcDenied L s then Some s else None))"

definition cteDefs :: "(string \<times> sqlval) option list \<Rightarrow> (string \<times> sqlval) list" where
  "cteDefs items = List.map_filter (\<lambda>x. x) items"

lemma size_cteDefs_le: "size_list (size_prod (\<lambda>_. 0) size) (cteDefs items)
    \<le> size_list (size_option (size_prod (\<lambda>_. 0) size)) items"
  unfolding cteDefs_def by (induction items) (auto simp: map_filter_simps split: option.split)

function walkValue :: "golib \<Rightarrow> sqlval \<Rightarrow> string list \<Rightarrow> nat \<Rightarrow> tableWalker \<Rightarrow> tableWalker"
  and walkSlice :: "golib \<Rightarrow> sqlval list \<Rightarrow> string list \<Rightarrow> nat \<Rightarrow> tableWalker \<Rightarrow> tableWalker"
  and walkFields :: "golib \<Rightarrow> (string \<times> bool \<times> sqlval) list \<Rightarrow> string list \<Rightarrow> nat \<Rightarrow> string
        \<Rightarrow> tableWalker \<Rightarrow> tableWalker"
  and walkRecursive :: "golib \<Rightarrow> (string \<times> sqlval) list \<Rightarrow> string list \<Rightarrow> nat \<Rightarrow> tableWalker \<Rightarrow> tableWalker"
  and walkSequential :: "golib \<Rightarrow> (string \<times> sqlval) list \<Rightarrow> string list \<Rightarrow> nat \<Rightarrow> tableWalker
        \<Rightarrow> string list \<times> tableWalker"
where
  "walkValue L VInvalid cte depth w = w"
| "walkValue L VScalar cte depth w = (if halts depth w then halted w else w)"
| "walkValue L (VInterface None) cte depth w = (if halts depth w then halted w else w)"
| "walkValue L (VInterface (Some v)) cte depth w =
     (if halts depth w then halted w else walkValue L v cte (depth + 1) w)"
| "walkValue L (VPtr None) cte depth w = (if halts depth w then halted w else w)"
| "walkValue L (VPtr (Some v)) cte depth w =
     (if halts depth w then halted w else walkValue L v cte (depth + 1) w)"
| "walkValue L (VSlice vs) cte depth w =
     (if halts depth w then halted w else walkSlice L vs cte depth w)"
| "walkValue L (VStruct flds) cte depth w =
     (if halts depth w then halted w else walkFields L flds cte depth [] w)"
| "walkValue L (VRangeVar schema relname) cte depth w =
     (if halts depth w then halted w
      else (let name = toLower L relname
            in if schema = [] \<and> List.member cte name then w
               else w\<lparr>wk_refs := wk_refs w @ [(toLower L schema, name)]\<rparr>))"
| "walkValue L (VFuncCall funcname flds) cte depth w =
     (if halts depth w then halted w
      else (case deniedCall L funcname of
              Some s \<Rightarrow> walkFail (FunctionDenied s) w
            | None \<Rightarrow> walkFields L flds cte depth [] w))"
| "walkValue L (VNode flds) cte depth w =
     (if halts depth w then halted w else walkFields L flds cte depth [] w)"
| "walkValue L (VSelect None flds) cte depth w =
     (if halts depth w then halted w else walkFields L flds cte depth ''WithClause'' w)"
| "walkValue L (VSelect (Some (isRec, None)) flds) cte depth w =
     (if halts depth w then halted w else walkFields L flds cte depth ''WithClause'' w)"
| "walkValue L (VSelect (Some (isRec, Some items)) flds) cte depth w =
     (if halts depth w then halted w
      else if isRec then
        (let scope = map (\<lambda>(n, _). toLower L n) (cteDefs items) @ cte
         in walkFields L flds scope depth ''WithClause'' (walkRecursive L (cteDefs items) scope (depth + 1) w))
      else
        (let (scope, w) = walkSequential L (cteDefs items) cte (depth + 1) w
         in walkFields L flds scope depth ''WithClause'' w))"
| "walkSlice L [] cte depth w = w"
| "walkSlice L (v # vs) cte depth w = walkSlice L vs cte depth (walkValue L v cte (depth + 1) w)"
| "walkFields L [] cte depth skip w = w"
| "walkFields L ((name, walkable, v) # flds) cte depth skip w =
     walkFields L flds cte depth skip
       (if \<not> walkable \<or> name = skip then w else walkValue L v cte (depth + 1) w)"
| "walkRecursive L [] scope depth w = w"
| "walkRecursive L ((name, q) # defs) scope depth w =
     walkRecursive L defs scope depth (walkValue L q scope depth w)"
| "walkSequential L [] scope depth w = (scope, w)"
| "walkSequential L ((name, q) # defs) scope depth w =
     walkSequential L defs (toLower L name # scope) depth (walkValue L q scope depth w)"
  by pat_completeness auto
termination
  apply (relation "measure (case_sum (case_sum (\<lambda>(L, v, _). size v) (\<lambda>(L, vs, _). size_list size vs))
    (case_sum (\<lambda>(L, fs, _). size_list (size_prod (\<lambda>_. 0) (size_prod (\<lambda>_. 0) size)) fs)
      (case_sum (\<lambda>(L, ds, _). size_list (size_prod (\<lambda>_. 0) size) ds)
        (\<lambda>(L, ds, _). size_list (size_prod (\<lambda>_. 0) size) ds))))")
  apply (auto simp: less_Suc_eq_le intro!: le_trans [OF size_cteDefs_le])
  done

definition emptyWalker :: tableWalker where
  "emptyWalker = \<lparr>wk_refs = [], wk_err = None\<rparr>"

definition walkTables :: "golib \<Rightarrow> sqlval \<Rightarrow> tableRef list \<Rightarrow> tableRef list \<times> walkError option" where
  "walkTables L n out =
     (let w = walkValue L n [] 0 emptyWalker in (out @ wk_refs w, wk_err w))"

section \<open>The checks\<close>

definition tableEntryAllows :: "golib \<Rightarrow> tableRef \<Rightarrow> string \<Rightarrow> bool" where
  "tableEntryAllows L ref entry =
     (let a = toLower L (trimSpace entry); (schema, name) = ref;
          viaCatalog = schema = [] \<and> hasPrefix name ''pg_''
            \<and> (a = ''pg_catalog.*'' \<or> a = ''pg_catalog.'' @ name)
      in if a = [] then False
         else if a = ''*'' \<or> a = ''*.*'' then True
         else if hasSuffix a ''.*'' then schema = trimSuffix a ''.*'' \<or> viaCatalog
         else if strContains a ''.'' then a = schema @ ''.'' @ name \<or> viaCatalog
         else a = name \<and> (schema = [] \<or> schema = ''public'') \<or> viaCatalog)"

definition tableAllowed :: "golib \<Rightarrow> tableRef \<Rightarrow> string list \<Rightarrow> bool" where
  "tableAllowed L ref allowed = list_ex (tableEntryAllows L ref) allowed"

definition TableAllowed :: "golib \<Rightarrow> string list \<Rightarrow> string \<Rightarrow> string \<Rightarrow> bool" where
  "TableAllowed L allowed schema name =
     (if allowed = [] then True
      else (let schema = (if schema = [] then ''public'' else schema)
            in tableAllowed L (toLower L schema, toLower L name) allowed))"

text \<open>
  A result. The rows are nil until one is appended; a value is \<open>None\<close> when it is one that
  \<open>json.Marshal\<close> refuses (a NaN or an infinity, which PostgreSQL's doubles have).
\<close>

type_synonym cell = "json option"

record QueryResult =
  qr_Columns :: "string list"
  qr_Rows :: "cell gomap list option"
  qr_Count :: nat

definition FilterTableRows :: "golib \<Rightarrow> QueryResult \<Rightarrow> string list \<Rightarrow> string \<Rightarrow> QueryResult" where
  "FilterTableRows L res allowed schema =
     (if allowed = [] then res
      else (let kept = filter (\<lambda>row. case mget row ''table_name'' of
                  Some (Some (JStr name)) \<Rightarrow> TableAllowed L allowed schema name
                | _ \<Rightarrow> False) (elems (qr_Rows res))
            in res\<lparr>qr_Rows := Some kept, qr_Count := length kept\<rparr>))"

text \<open>
  A statement of the parser's list: a SELECT with or without a locking clause, an EXPLAIN
  of a statement or of nothing, or another statement with its name.
\<close>

datatype sqlStmt =
    Select bool
  | Explain "sqlStmt option"
  | OtherStmt string

datatype queryError =
    EmptyQuery
  | SqlParseError string
  | NoStatement
  | LockingNotAllowed
  | EmptyExplain nat
  | OnlySelect string nat
  | WalkFailed walkError
  | TableNotPermitted string

fun checkStmt :: "nat \<Rightarrow> sqlStmt option \<Rightarrow> queryError + unit" where
  "checkStmt i None = Inl (EmptyExplain (i + 1))"
| "checkStmt i (Some (Select locking)) = ensure (\<not> locking) LockingNotAllowed"
| "checkStmt i (Some (Explain q)) = Inl (OnlySelect ''ExplainStmt'' (i + 1))"
| "checkStmt i (Some (OtherStmt name)) = Inl (OnlySelect name (i + 1))"

definition explained :: "sqlStmt \<Rightarrow> sqlStmt option" where
  "explained item = (case item of Explain q \<Rightarrow> q | _ \<Rightarrow> Some item)"

text \<open>\<open>parse\<close> is the parser's list of statements, each with the tree that the walk reflects on.\<close>

definition validateQueryAST ::
    "(string \<Rightarrow> string + (sqlStmt \<times> sqlval) list) \<Rightarrow> string \<Rightarrow> queryError + unit" where
  "validateQueryAST parse query =
     (let trimmed = trimSpace query
      in if trimmed = [] then Inl EmptyQuery
         else rbind (mapErr SqlParseError (parse trimmed)) (\<lambda>stmts.
           if stmts = [] then Inl NoStatement
           else checkAll (\<lambda>(i, s, _). checkStmt i (explained s)) (enumerate 0 stmts)))"

fun collectTables :: "golib \<Rightarrow> (sqlStmt \<times> sqlval) list \<Rightarrow> tableRef list \<Rightarrow> walkError + tableRef list" where
  "collectTables L [] refs = Inr refs"
| "collectTables L ((s, item) # stmts) refs =
     (case walkTables L item refs of
        (_, Some e) \<Rightarrow> Inl e
      | (refs, None) \<Rightarrow> collectTables L stmts refs)"

definition checkTableScope ::
    "golib \<Rightarrow> (string \<Rightarrow> string + (sqlStmt \<times> sqlval) list) \<Rightarrow> string list \<Rightarrow> string \<Rightarrow> queryError + unit" where
  "checkTableScope L parse allowed query =
     rbind (mapErr SqlParseError (parse (trimSpace query))) (\<lambda>stmts.
     rbind (mapErr WalkFailed (collectTables L stmts [])) (\<lambda>refs.
     checkAll (\<lambda>ref. ensure (tableAllowed L ref allowed)
       (TableNotPermitted (if fst ref \<noteq> [] then fst ref @ ''.'' @ snd ref else snd ref))) refs))"

text \<open>
  The checks of \<open>ExecuteQuery\<close> before it opens the read-only transaction; the text it then
  sends is the trimmed query.
\<close>

definition admitQuery ::
    "golib \<Rightarrow> (string \<Rightarrow> string + (sqlStmt \<times> sqlval) list) \<Rightarrow> string list \<Rightarrow> string \<Rightarrow> queryError + string" where
  "admitQuery L parse allowed query =
     (let sanitized = trimSpace query
      in rbind (validateQueryAST parse sanitized) (\<lambda>_.
         rbind (if allowed \<noteq> [] then checkTableScope L parse allowed sanitized else Inr ()) (\<lambda>_.
         Inr sanitized)))"

section \<open>What a statement does\<close>

datatype sqlEvent =
    Reads string string
  | Calls string

text \<open>
  The tables a tree reads and the functions it calls. The names of CTEs in scope are a set
  of identifiers; \<open>f\<close> is how identifiers are compared (PostgreSQL compares what the parser
  delivers as it is, the gateway in lower case). A CTE is visible in the body of its SELECT
  and in the CTEs after it, or in all of them under RECURSIVE.
\<close>

definition cteNames :: "(string \<Rightarrow> string) \<Rightarrow> (string \<times> sqlval) list \<Rightarrow> string set" where
  "cteNames f defs = f ` fst ` set defs"

inductive does :: "(string \<Rightarrow> string) \<Rightarrow> sqlval \<Rightarrow> string set \<Rightarrow> sqlEvent \<Rightarrow> bool" for f where
  D_table: "\<not> (schema = [] \<and> f rel \<in> S) \<Longrightarrow> does f (VRangeVar schema rel) S (Reads (f schema) (f rel))"
| D_call: "items \<noteq> [] \<Longrightarrow> last items = Some n \<Longrightarrow> does f (VFuncCall (Some items) flds) S (Calls n)"
| D_interface: "does f v S e \<Longrightarrow> does f (VInterface (Some v)) S e"
| D_pointer: "does f v S e \<Longrightarrow> does f (VPtr (Some v)) S e"
| D_slice: "v \<in> set vs \<Longrightarrow> does f v S e \<Longrightarrow> does f (VSlice vs) S e"
| D_struct: "(n, True, v) \<in> set flds \<Longrightarrow> n \<noteq> [] \<Longrightarrow> does f v S e \<Longrightarrow> does f (VStruct flds) S e"
| D_node: "(n, True, v) \<in> set flds \<Longrightarrow> n \<noteq> [] \<Longrightarrow> does f v S e \<Longrightarrow> does f (VNode flds) S e"
| D_args: "(n, True, v) \<in> set flds \<Longrightarrow> n \<noteq> [] \<Longrightarrow> does f v S e \<Longrightarrow> does f (VFuncCall fn flds) S e"
| D_body: "(n, True, v) \<in> set flds \<Longrightarrow> n \<noteq> ''WithClause'' \<Longrightarrow>
    S' = S \<union> (case wc of Some (_, Some items) \<Rightarrow> cteNames f (cteDefs items) | _ \<Rightarrow> {}) \<Longrightarrow>
    does f v S' e \<Longrightarrow> does f (VSelect wc flds) S e"
| D_cte: "cteDefs items = before @ (c, q) # after \<Longrightarrow>
    S' = S \<union> cteNames f (if isRec then cteDefs items else before) \<Longrightarrow>
    does f q S' e \<Longrightarrow> does f (VSelect (Some (isRec, Some items)) flds) S e"

inductive_simps does_simps:
  "does f VInvalid S e" "does f VScalar S e" "does f (VInterface None) S e" "does f (VPtr None) S e"
  "does f (VInterface (Some v)) S e" "does f (VPtr (Some v)) S e" "does f (VSlice vs) S e"
  "does f (VStruct flds) S e" "does f (VNode flds) S e" "does f (VRangeVar schema rel) S e"
  "does f (VFuncCall fn flds) S e" "does f (VSelect None flds) S e"
  "does f (VSelect (Some (isRec, None)) flds) S e" "does f (VSelect (Some (isRec, Some items)) flds) S e"

text \<open>A walk that has not failed has collected all the tables and met no denied function.\<close>

definition collects :: "golib \<Rightarrow> (sqlEvent \<Rightarrow> bool) \<Rightarrow> tableWalker \<Rightarrow> tableWalker \<Rightarrow> bool" where
  "collects L ev w w' \<longleftrightarrow> (wk_err w' = None \<longrightarrow> wk_err w = None
     \<and> set (wk_refs w') = set (wk_refs w) \<union> {(s, r). ev (Reads s r)}
     \<and> (\<forall>n. ev (Calls n) \<longrightarrow> \<not> funcDenied L n))"

lemma collects_refl: "(\<And>e. \<not> ev e) \<Longrightarrow> collects L ev w w"
  by (simp add: collects_def)

lemma collects_seq:
  "collects L ev1 w w1 \<Longrightarrow> collects L ev2 w1 w2 \<Longrightarrow> (\<And>e. ev e \<longleftrightarrow> ev1 e \<or> ev2 e) \<Longrightarrow> collects L ev w w2"
  unfolding collects_def by auto

lemma collects_halted: "halts d w \<Longrightarrow> collects L ev w (halted w)"
  by (auto simp: halts_def halted_def walkFail_def collects_def)

lemma collects_fail: "collects L ev w (walkFail e w)"
  by (auto simp: walkFail_def collects_def)

lemma collects_cong: "collects L ev w w' \<Longrightarrow> (\<And>e. ev' e \<longleftrightarrow> ev e) \<Longrightarrow> collects L ev' w w'"
  by (simp add: collects_def)

lemma collects_calls:
  "collects L ev w w' \<Longrightarrow> (\<And>n. new (Calls n) \<Longrightarrow> \<not> funcDenied L n) \<Longrightarrow> (\<And>s r. \<not> new (Reads s r)) \<Longrightarrow>
     collects L (\<lambda>e. new e \<or> ev e) w w'"
  by (auto simp: collects_def)

definition fieldsDo :: "(string \<Rightarrow> string) \<Rightarrow> (string \<times> bool \<times> sqlval) list \<Rightarrow> string \<Rightarrow> string set \<Rightarrow> sqlEvent \<Rightarrow> bool" where
  "fieldsDo f flds skip S e \<longleftrightarrow> (\<exists>n v. (n, True, v) \<in> set flds \<and> n \<noteq> skip \<and> does f v S e)"

definition ctesDo :: "(string \<Rightarrow> string) \<Rightarrow> (string \<times> sqlval) list \<Rightarrow> string set \<Rightarrow> sqlEvent \<Rightarrow> bool" where
  "ctesDo f defs S e \<longleftrightarrow> (\<exists>c q. (c, q) \<in> set defs \<and> does f q S e)"

fun seqDo :: "(string \<Rightarrow> string) \<Rightarrow> (string \<times> sqlval) list \<Rightarrow> string set \<Rightarrow> sqlEvent \<Rightarrow> bool" where
  "seqDo f [] S e \<longleftrightarrow> False"
| "seqDo f ((c, q) # defs) S e \<longleftrightarrow> does f q S e \<or> seqDo f defs (insert (f c) S) e"

lemma seqDo_iff: "seqDo f defs S e \<longleftrightarrow>
    (\<exists>before c q after. defs = before @ (c, q) # after \<and> does f q (S \<union> cteNames f before) e)"
proof (induction defs arbitrary: S)
  case (Cons d defs)
  obtain c q where d: "d = (c, q)" by (cases d)
  have ext: "S \<union> cteNames f (d # before) = insert (f c) S \<union> cteNames f before" for before
    by (simp add: d cteNames_def)
  show ?case
  proof
    assume "seqDo f (d # defs) S e"
    then have "does f q S e \<or> seqDo f defs (insert (f c) S) e" by (simp add: d)
    then show "\<exists>before c' q' after. d # defs = before @ (c', q') # after
        \<and> does f q' (S \<union> cteNames f before) e"
    proof
      assume "does f q S e"
      then have "d # defs = [] @ (c, q) # defs \<and> does f q (S \<union> cteNames f []) e"
        by (simp add: d cteNames_def)
      then show ?thesis by blast
    next
      assume "seqDo f defs (insert (f c) S) e"
      then obtain before c' q' after where "defs = before @ (c', q') # after"
        "does f q' (insert (f c) S \<union> cteNames f before) e"
        using Cons.IH by blast
      then have "d # defs = (d # before) @ (c', q') # after \<and> does f q' (S \<union> cteNames f (d # before)) e"
        unfolding ext by simp
      then show ?thesis by blast
    qed
  next
    assume "\<exists>before c' q' after. d # defs = before @ (c', q') # after
        \<and> does f q' (S \<union> cteNames f before) e"
    then obtain before c' q' after where s: "d # defs = before @ (c', q') # after"
      "does f q' (S \<union> cteNames f before) e" by blast
    show "seqDo f (d # defs) S e"
    proof (cases before)
      case Nil
      with s d show ?thesis by (simp add: cteNames_def)
    next
      case (Cons d' rest)
      with s have "defs = rest @ (c', q') # after" "does f q' (insert (f c) S \<union> cteNames f rest) e"
        using ext by auto
      then have "seqDo f defs (insert (f c) S) e" unfolding Cons.IH by blast
      then show ?thesis by (simp add: d)
    qed
  qed
qed simp

lemma ctesDo_iff: "ctesDo f defs S e \<longleftrightarrow>
    (\<exists>before c q after. defs = before @ (c, q) # after \<and> does f q S e)"
  unfolding ctesDo_def by (metis in_set_conv_decomp)

lemma fieldsDo_Cons: "fieldsDo f ((n, k, v) # flds) skip S e \<longleftrightarrow>
    (k \<and> n \<noteq> skip \<and> does f v S e) \<or> fieldsDo f flds skip S e"
  by (auto simp: fieldsDo_def)

lemma does_fields:
  "does f (VStruct flds) S e \<longleftrightarrow> fieldsDo f flds [] S e"
  "does f (VNode flds) S e \<longleftrightarrow> fieldsDo f flds [] S e"
  "does f (VFuncCall fn flds) S e \<longleftrightarrow>
     (\<exists>items n. fn = Some items \<and> items \<noteq> [] \<and> last items = Some n \<and> e = Calls n) \<or> fieldsDo f flds [] S e"
  "does f (VSelect None flds) S e \<longleftrightarrow> fieldsDo f flds ''WithClause'' S e"
  "does f (VSelect (Some (isRec, None)) flds) S e \<longleftrightarrow> fieldsDo f flds ''WithClause'' S e"
  "does f (VSelect (Some (isRec, Some items)) flds) S e \<longleftrightarrow>
     fieldsDo f flds ''WithClause'' (S \<union> cteNames f (cteDefs items)) e
     \<or> (if isRec then ctesDo f (cteDefs items) (S \<union> cteNames f (cteDefs items)) e
        else seqDo f (cteDefs items) S e)"
  by (auto simp: does_simps fieldsDo_def ctesDo_iff seqDo_iff)

lemma cteNames_Cons: "cteNames f ((c, q) # defs) = insert (f c) (cteNames f defs)"
  by (simp add: cteNames_def)

lemma walk_collects:
  "collects L (does (toLower L) v (set cte)) w (walkValue L v cte depth w)"
  "collects L (\<lambda>e. \<exists>v\<in>set vs. does (toLower L) v (set cte) e) w (walkSlice L vs cte depth w)"
  "collects L (fieldsDo (toLower L) flds skip (set cte)) w (walkFields L flds cte depth skip w)"
  "collects L (ctesDo (toLower L) defs (set cte)) w (walkRecursive L defs cte depth w)"
  "set (fst (walkSequential L defs cte depth w)) = set cte \<union> cteNames (toLower L) defs \<and>
   collects L (seqDo (toLower L) defs (set cte)) w (snd (walkSequential L defs cte depth w))"
proof (induction L v cte depth w and L vs cte depth w and L flds cte depth skip w
    and L defs cte depth w and L defs cte depth w
    rule: walkValue_walkSlice_walkFields_walkRecursive_walkSequential.induct)
  case (7 L vs cte depth w)
  then show ?case
    by (cases "halts depth w")
      (auto simp: collects_halted does_simps(7) Bex_def elim!: collects_cong)
next
  case (9 L schema relname cte depth w)
  show ?case
  proof (cases "halts depth w")
    case False
    then show ?thesis by (auto simp: Let_def List.member_iff collects_def does_simps)
  qed (simp add: collects_halted)
next
  case (10 L funcname flds cte depth w)
  show ?case
  proof (cases "halts depth w")
    case False
    show ?thesis
    proof (cases "deniedCall L funcname")
      case None
      have "collects L (\<lambda>e. (\<exists>items n. funcname = Some items \<and> items \<noteq> [] \<and> last items = Some n \<and> e = Calls n)
          \<or> fieldsDo (toLower L) flds [] (set cte) e) w (walkFields L flds cte depth [] w)"
        using "10" [OF False None] None
        by (intro collects_calls) (auto simp: deniedCall_def split: if_splits)
      with False None show ?thesis by (auto elim: collects_cong simp: does_fields)
    next
      case (Some s)
      with False show ?thesis by (simp add: collects_fail)
    qed
  qed (simp add: collects_halted)
next
  case (14 L isRec items flds cte depth w)
  let ?defs = "cteDefs items" and ?f = "toLower L"
  show ?case
  proof (cases "halts depth w")
    case False
    show ?thesis
    proof (cases isRec)
      case True
      let ?scope = "map (\<lambda>(n, _). ?f n) ?defs @ cte"
      have S: "set ?scope = set cte \<union> cteNames ?f ?defs"
        by (force simp: cteNames_def)
      have "collects L (does ?f (VSelect (Some (isRec, Some items)) flds) (set cte)) w
          (walkFields L flds ?scope depth ''WithClause'' (walkRecursive L ?defs ?scope (depth + 1) w))"
      proof (rule collects_seq [OF "14"(1,2) [OF False True refl]])
        show "does ?f (VSelect (Some (isRec, Some items)) flds) (set cte) e \<longleftrightarrow>
          ctesDo ?f ?defs (set ?scope) e \<or> fieldsDo ?f flds ''WithClause'' (set ?scope) e" for e
          unfolding does_fields S using True by argo
      qed
      with False True show ?thesis by (simp add: Let_def)
    next
      case notrec: False
      obtain scope w' where seq: "walkSequential L ?defs cte (depth + 1) w = (scope, w')"
        by (cases "walkSequential L ?defs cte (depth + 1) w")
      have S: "set scope = set cte \<union> cteNames ?f ?defs" and c1: "collects L (seqDo ?f ?defs (set cte)) w w'"
        using "14"(3) [OF False notrec] seq by simp_all
      have "collects L (does ?f (VSelect (Some (isRec, Some items)) flds) (set cte)) w
          (walkFields L flds scope depth ''WithClause'' w')"
      proof (rule collects_seq [OF c1 "14"(4) [OF False notrec seq [symmetric] refl]])
        show "does ?f (VSelect (Some (isRec, Some items)) flds) (set cte) e \<longleftrightarrow>
          seqDo ?f ?defs (set cte) e \<or> fieldsDo ?f flds ''WithClause'' (set scope) e" for e
          unfolding does_fields S using notrec by argo
      qed
      with False notrec seq show ?thesis by simp
    qed
  qed (simp add: collects_halted)
next
  case (16 L v vs cte depth w)
  show ?case
    unfolding walkSlice.simps by (rule collects_seq [OF "16"]) simp
next
  case (18 L name walkable v flds cte depth skip w)
  show ?case
  proof (cases "\<not> walkable \<or> name = skip")
    case True
    with "18"(2) show ?thesis by (auto elim!: collects_cong simp: fieldsDo_Cons)
  next
    case False
    note first = "18"(1) [OF False]
    from False "18"(2) have "collects L (fieldsDo (toLower L) flds skip (set cte))
        (walkValue L v cte (depth + 1) w)
        (walkFields L ((name, walkable, v) # flds) cte depth skip w)" by simp
    with first show ?thesis
      by (rule collects_seq) (use False in \<open>auto simp: fieldsDo_Cons\<close>)
  qed
next
  case (20 L name q defs scope depth w)
  show ?case
    unfolding walkRecursive.simps by (rule collects_seq [OF "20"]) (auto simp: ctesDo_def)
next
  case (22 L name q defs scope depth w)
  have "collects L (seqDo (toLower L) defs (insert (toLower L name) (set scope)))
      (walkValue L q scope depth w) (snd (walkSequential L ((name, q) # defs) scope depth w))"
    using "22"(2) by simp
  with "22"(1) have "collects L (seqDo (toLower L) ((name, q) # defs) (set scope)) w
      (snd (walkSequential L ((name, q) # defs) scope depth w))"
    by (rule collects_seq) simp
  moreover have "set (fst (walkSequential L ((name, q) # defs) scope depth w))
      = set scope \<union> cteNames (toLower L) ((name, q) # defs)"
    using "22"(2) by (simp add: cteNames_Cons)
  ultimately show ?case by blast
qed (auto simp: collects_halted does_simps(1-7) does_fields fieldsDo_def ctesDo_def cteNames_def
    intro!: collects_refl elim: collects_cong)

lemma walkTables_ok:
  assumes "walkTables L n out = (refs, None)"
  shows "set refs = set out \<union> {(s, r). does (toLower L) n {} (Reads s r)}
    \<and> (\<forall>c. does (toLower L) n {} (Calls c) \<longrightarrow> \<not> funcDenied L c)"
  using assms walk_collects(1) [of L n "[]" emptyWalker 0]
  by (auto simp: walkTables_def Let_def collects_def emptyWalker_def)

lemma collectTables_mono: "collectTables L stmts refs = Inr refs' \<Longrightarrow> set refs \<subseteq> set refs'"
proof (induction stmts arbitrary: refs)
  case (Cons st stmts)
  obtain s0 t0 where st: "st = (s0, t0)" by (cases st)
  with Cons.prems obtain refs1 where "walkTables L t0 refs = (refs1, None)"
    and "collectTables L stmts refs1 = Inr refs'"
    by (auto split: prod.splits option.splits)
  with Cons.IH walkTables_ok show ?case by blast
qed simp

lemma collectTables_ok:
  "collectTables L stmts refs = Inr refs' \<Longrightarrow> (s, tree) \<in> set stmts \<Longrightarrow>
     set refs \<subseteq> set refs'
     \<and> (\<forall>schema r. does (toLower L) tree {} (Reads schema r) \<longrightarrow> (schema, r) \<in> set refs')
     \<and> (\<forall>c. does (toLower L) tree {} (Calls c) \<longrightarrow> \<not> funcDenied L c)"
proof (induction stmts arbitrary: refs)
  case (Cons st stmts)
  obtain s0 t0 where st: "st = (s0, t0)" by (cases st)
  with Cons.prems(1) obtain refs1 where w: "walkTables L t0 refs = (refs1, None)"
    and rest: "collectTables L stmts refs1 = Inr refs'"
    by (auto split: prod.splits option.splits)
  have mono: "set refs1 \<subseteq> set refs'" using rest by (rule collectTables_mono)
  show ?case
  proof (cases "(s, tree) = st")
    case True
    with walkTables_ok [OF w] mono st show ?thesis by auto
  next
    case False
    with Cons.prems(2) Cons.IH [OF rest] walkTables_ok [OF w] show ?thesis by auto
  qed
qed simp


definition exampleTree :: sqlval where
  "exampleTree = VSelect None [(''FromClause'', True, VRangeVar [] ''users'')]"

definition exampleParse :: "string \<Rightarrow> string + (sqlStmt \<times> sqlval) list" where
  "exampleParse q = Inr [(Select False, exampleTree)]"


section \<open>Identifiers that differ in case\<close>

text \<open>
  PostgreSQL compares the identifiers of the parsed statement as they are. For a statement
  whose identifiers are all in lower case the walk's scoping is PostgreSQL's.
\<close>

fun idents :: "sqlval \<Rightarrow> string list" where
  "idents (VInterface (Some v)) = idents v"
| "idents (VPtr (Some v)) = idents v"
| "idents (VSlice vs) = concat (map idents vs)"
| "idents (VStruct flds) = concat (map (\<lambda>(n, k, v). idents v) flds)"
| "idents (VRangeVar schema rel) = [schema, rel]"
| "idents (VFuncCall fn flds) = concat (map (\<lambda>(n, k, v). idents v) flds)"
| "idents (VNode flds) = concat (map (\<lambda>(n, k, v). idents v) flds)"
| "idents (VSelect (Some (isRec, Some items)) flds) =
     concat (map (\<lambda>item. case item of None \<Rightarrow> [] | Some (c, q) \<Rightarrow> c # idents q) items)
     @ concat (map (\<lambda>(n, k, v). idents v) flds)"
| "idents (VSelect wc flds) = concat (map (\<lambda>(n, k, v). idents v) flds)"
| "idents v = []"

definition lowerCased :: "golib \<Rightarrow> sqlval \<Rightarrow> bool" where
  "lowerCased L v \<longleftrightarrow> (\<forall>x\<in>set (idents v). toLower L x = x)"

lemma lowerCased_simps:
  "lowerCased L (VInterface (Some v)) \<longleftrightarrow> lowerCased L v"
  "lowerCased L (VPtr (Some v)) \<longleftrightarrow> lowerCased L v"
  "lowerCased L (VSlice vs) \<longleftrightarrow> (\<forall>v\<in>set vs. lowerCased L v)"
  "lowerCased L (VStruct flds) \<longleftrightarrow> (\<forall>n k v. (n, k, v) \<in> set flds \<longrightarrow> lowerCased L v)"
  "lowerCased L (VNode flds) \<longleftrightarrow> (\<forall>n k v. (n, k, v) \<in> set flds \<longrightarrow> lowerCased L v)"
  "lowerCased L (VFuncCall fn flds) \<longleftrightarrow> (\<forall>n k v. (n, k, v) \<in> set flds \<longrightarrow> lowerCased L v)"
  "lowerCased L (VRangeVar schema rel) \<longleftrightarrow> toLower L schema = schema \<and> toLower L rel = rel"
  by (fastforce simp: lowerCased_def)+

lemma lowerCased_select:
  assumes "lowerCased L (VSelect wc flds)"
  shows "(n, k, v) \<in> set flds \<Longrightarrow> lowerCased L v"
    and "wc = Some (isRec, Some items) \<Longrightarrow> (c, q) \<in> set (cteDefs items) \<Longrightarrow>
      toLower L c = c \<and> lowerCased L q"
proof -
  show "(n, k, v) \<in> set flds \<Longrightarrow> lowerCased L v"
    using assms by (cases "VSelect wc flds" rule: idents.cases) (force simp: lowerCased_def)+
  assume wc: "wc = Some (isRec, Some items)" "(c, q) \<in> set (cteDefs items)"
  then have "Some (c, q) \<in> set items"
    by (force simp: cteDefs_def List.map_filter_def)
  then have "set (c # idents q) \<subseteq> set (idents (VSelect wc flds))"
    by (force simp: wc(1))
  with assms show "toLower L c = c \<and> lowerCased L q" by (auto simp: lowerCased_def)
qed

lemma cteNames_lower:
  "(\<And>c q. (c, q) \<in> set defs \<Longrightarrow> toLower L c = c) \<Longrightarrow> cteNames (toLower L) defs = cteNames (\<lambda>x. x) defs"
  by (force simp: cteNames_def)

lemma does_lowerCased:
  "does (\<lambda>x. x) v S e \<Longrightarrow> lowerCased L v \<Longrightarrow> does (toLower L) v S e"
proof (induction rule: does.induct)
  case (D_table schema rel S)
  then show ?case using does.D_table [where f = "toLower L" and schema = schema and rel = rel and S = S] by (simp add: lowerCased_simps)
next
  case (D_body n v flds S' S wc e)
  have v: "lowerCased L v" using lowerCased_select(1) [OF D_body.prems D_body.hyps(1)] .
  have S': "S' = S \<union> (case wc of Some (_, Some items) \<Rightarrow> cteNames (toLower L) (cteDefs items) | _ \<Rightarrow> {})"
    using D_body.hyps(3) lowerCased_select(2) [OF D_body.prems]
    by (auto split: option.splits simp: cteNames_lower)
  show ?case by (rule does.D_body [OF D_body.hyps(1,2) S' D_body.IH [OF v]])
next
  case (D_cte items before c q after S' S isRec e flds)
  have low: "toLower L c' = c' \<and> lowerCased L q'" if "(c', q') \<in> set (cteDefs items)" for c' q'
    using lowerCased_select(2) [OF D_cte.prems refl that] .
  have "S' = S \<union> cteNames (toLower L) (if isRec then cteDefs items else before)"
  proof -
    let ?defs = "if isRec then cteDefs items else before"
    have "cteNames (toLower L) ?defs = cteNames (\<lambda>x. x) ?defs"
      using low D_cte.hyps(1) by (intro cteNames_lower) (auto split: if_splits)
    with D_cte.hyps(2) show ?thesis by simp
  qed
  moreover have "lowerCased L q" using low [of c q] D_cte.hyps(1) by simp
  ultimately show ?case using D_cte.hyps(1) D_cte.IH by (intro does.D_cte)
qed (force simp: lowerCased_simps intro: does.intros)+

text \<open>For a statement whose identifiers are in lower case, the check is sound for what
  PostgreSQL itself resolves: every table that an admitted query reads under PostgreSQL's
  exact comparison of names is covered by \<open>pg_allowed_tables\<close>.\<close>

theorem admitted_query_exact_names:
  assumes "admitQuery L parse allowed query = Inr sent" and "allowed \<noteq> []"
    and "parse sent = Inr stmts" and "(s, tree) \<in> set stmts" and "lowerCased L tree"
    and "does (\<lambda>x. x) tree {} (Reads schema r)"
  shows "tableAllowed L (schema, r) allowed"
proof -
  have "does (toLower L) tree {} (Reads schema r)" using assms(5,6) does_lowerCased by blast
  moreover from assms(1,2) have sent: "sent = trimSpace query"
    and c: "checkTableScope L parse allowed sent = Inr ()"
    by (auto simp: admitQuery_def Let_def rbind_Inr_iff)
  moreover from c assms(3) sent obtain refs where r: "collectTables L stmts [] = Inr refs"
    and al: "\<forall>ref\<in>set refs. tableAllowed L ref allowed"
    by (auto simp: checkTableScope_def trimSpace_idem rbind_Inr_iff checkAll_Inr_iff)
  ultimately show ?thesis using collectTables_ok [OF r assms(4)] by blast
qed

lemma admitted_query_exact_names_witness:
  "tableAllowed exampleLib ([], ''users'') [''users'']"
proof (rule admitted_query_exact_names)
  show "admitQuery exampleLib exampleParse [''users''] ''SELECT * FROM users'' = Inr ''SELECT * FROM users''"
    by code_simp
  show "exampleParse ''SELECT * FROM users'' = Inr [(Select False, exampleTree)]"
    by (simp add: exampleParse_def)
  show "(Select False, exampleTree) \<in> set [(Select False, exampleTree)]" by simp
  show "lowerCased exampleLib exampleTree" by code_simp
  show "does (\<lambda>x. x) exampleTree {} (Reads [] ''users'')"
    unfolding exampleTree_def does_simps by (auto intro: does.intros)
qed simp

text \<open>
  Without that hypothesis the check can be passed by: a CTE with a quoted upper-case name
  hides, for the walk only, the real table whose name differs in case.
\<close>

definition shadowTree :: sqlval where
  "shadowTree = VSelect (Some (False, Some [Some (''PAYROLL'', VSelect None [])]))
     [(''FromClause'', True, VRangeVar [] ''payroll'')]"

lemma quoted_cte_hides_table:
  "does (\<lambda>x. x) shadowTree {} (Reads [] ''payroll'')"
  "admitQuery exampleLib (\<lambda>_. Inr [(Select False, shadowTree)]) [''users'']
     ''WITH \"PAYROLL\" AS (SELECT 1) SELECT * FROM payroll''
   = Inr ''WITH \"PAYROLL\" AS (SELECT 1) SELECT * FROM payroll''"
  "\<not> tableAllowed exampleLib ([], ''payroll'') [''users'']"
proof -
  have "does (\<lambda>x. x) (VRangeVar [] ''payroll'') {''PAYROLL''} (Reads [] ''payroll'')"
    by (rule D_table [where f = "\<lambda>x. x"]) simp
  moreover have "cteNames (\<lambda>x. x) (cteDefs [Some (''PAYROLL'', VSelect None [])]) = {''PAYROLL''}"
    by (simp add: cteNames_def cteDefs_def map_filter_simps)
  ultimately show "does (\<lambda>x. x) shadowTree {} (Reads [] ''payroll'')"
    unfolding shadowTree_def does_fields by (auto simp: fieldsDo_def)
qed code_simp+

end
