(* ===== verification/World.thy ===== *)
theory World
  imports Secrets Tables
begin

text \<open>
  What the operation executors share: the http-rest connector (httprest/connector.go), the state
  they work on (resolver, taints, requests sent, calls made) and what lies outside the
  repository, as functions of what was sent so far. Every request that leaves is recorded in
  the state. The clock does not advance within one operation.
\<close>

section \<open>The connector\<close>

record Credentials =
  cr_Username :: string
  cr_Password :: string
  cr_Token :: string
  cr_APIKey :: string

record Request =
  rq_Method :: string
  rq_Path :: string
  rq_Headers :: "string gomap"
  rq_Body :: "string option"
  rq_Credentials :: "Credentials option"
  rq_Insecure :: bool
  rq_MaxBodyBytes :: int

record Response =
  rs_StatusCode :: int
  rs_Headers :: "string gomap"
  rs_Body :: string

text \<open>A request as the transport gets it, and its answer: each header has a list of values.\<close>

record wire =
  wi_Method :: string
  wi_URL :: string
  wi_Headers :: "string gomap"
  wi_Body :: "string option"
  wi_Insecure :: bool

record answer =
  an_Status :: int
  an_Headers :: "(string \<times> string list) list"
  an_Body :: string

text \<open>\<open>client.Do\<close> fails, or reading the body does (with what arrived before).\<close>

datatype netError = DoFailed string | ReadFailed string answer

text \<open>What the sources read of a URL that \<open>url.Parse\<close> accepts.\<close>

record URL =
  url_Scheme :: string
  url_Host :: string
  url_User :: bool  \<comment> \<open>\<open>User\<close> is not nil\<close>
  url_RawQuery :: string
  url_Fragment :: string
  url_EscapedPath :: string
  url_String :: string

text \<open>
  What lies outside the repository: the network, the check of \<open>http.NewRequest\<close>, the MIME
  table, the random boundary of a multipart body, the clock and the URL parser.
\<close>

record upstream =
  up_http :: "wire list \<Rightarrow> wire \<Rightarrow> netError + answer"
  up_badRequest :: "string \<Rightarrow> string \<Rightarrow> string option"
  up_mime :: "string \<Rightarrow> string"
  up_boundary :: string
  up_now14 :: string
  up_clock :: nat
  up_parseURL :: "string \<Rightarrow> URL option"

section \<open>Other devices\<close>

record EmailConfig =
  em_ImapHost :: string
  em_ImapPort :: int
  em_ImapTLS :: bool
  em_SmtpHost :: string
  em_SmtpPort :: int
  em_SmtpTLS :: bool
  em_User :: string
  em_Password :: string

text \<open>
  The calls made on devices other than HTTP servers: the SQL driver, the IMAP and SMTP clients,
  the service manager, a TCP probe.
\<close>

datatype devcall =
    PgOpen string
  | PgPing
  | PgBegin bool  \<comment> \<open>read only\<close>
  | PgExec string
  | PgQuery string
  | PgRollback
  | PgClose
  | ImapDial bool string int  \<comment> \<open>over TLS\<close>
  | ImapCapability
  | ImapStartTLS string
  | ImapTerminate
  | ImapLogin string string
  | ImapLogout
  | ImapListAll
  | ImapSelect string
  | ImapFetch nat nat
  | ImapUidFetch nat
  | SmtpDial bool string int  \<comment> \<open>over TLS\<close>
  | SmtpClient string
  | SmtpStartTLS string
  | SmtpAuth string string string
  | SmtpMail string
  | SmtpRcpt string
  | SmtpData
  | SmtpWrite string
  | SmtpEndData
  | SmtpClose
  | SmtpSendMail string int string string string string string
  | ServiceQuery string
  | DialTCP string int

record imapAddress =
  ia_MailboxName :: string
  ia_HostName :: string

record imapMessage =
  im_Uid :: nat
  im_SeqNum :: nat
  im_HasEnvelope :: bool
  im_Subject :: string
  im_From :: "imapAddress list"
  im_Sender :: "imapAddress list"
  im_To :: "imapAddress list"
  im_Cc :: "imapAddress list"
  im_Date :: string
  im_Flags :: "string list option"
  im_Body :: "(string \<times> string option) list"  \<comment> \<open>each with the error met after it\<close>

record netAdapter =
  na_Name :: string
  na_Description :: string
  na_Up :: bool

text \<open>
  The devices, as functions of the calls made so far. \<open>dv_call\<close> is the error of a call that
  yields nothing else; the others are what a call delivers. The address parser, the encoder of
  headers and the date belong to the standard library, the SQL parser and the quoting of
  literals to third-party packages.
\<close>

record devices =
  dv_call :: "devcall list \<Rightarrow> devcall \<Rightarrow> string option"
  dv_pgRows :: "devcall list \<Rightarrow> string \<Rightarrow> string + (string list \<times> cell list list \<times> string option)"
  dv_pgParse :: "string \<Rightarrow> string + (sqlStmt \<times> sqlval) list"
  dv_quoteLiteral :: "string \<Rightarrow> string"
  dv_startTLS :: "devcall list \<Rightarrow> bool"
  dv_imapList :: "devcall list \<Rightarrow> (string \<times> string list option) list"
  dv_imapMessages :: "devcall list \<Rightarrow> nat"
  dv_imapFetch :: "devcall list \<Rightarrow> devcall \<Rightarrow> imapMessage option list"
  dv_service :: "devcall list \<Rightarrow> string \<Rightarrow> string + string"
  dv_adapters :: "string + netAdapter list"
  dv_parseAddress :: "string \<Rightarrow> string + string"
  dv_qEncode :: "string \<Rightarrow> string"
  dv_date :: string
  dv_windows :: bool

section \<open>Files\<close>

text \<open>
  Files are a map from paths to contents; what can go wrong with a path (reading, opening, writing,
  renaming to it) is an argument. A write that fails is taken to leave nothing in the file.
\<close>

type_synonym files = "string gomap"

record fsFaults =
  fs_read :: "string \<Rightarrow> string option"  \<comment> \<open>an error other than that the file does not exist\<close>
  fs_open :: "string \<Rightarrow> string option"
  fs_write :: "string \<Rightarrow> string option"
  fs_rename :: "string \<Rightarrow> string option"

definition fileText :: "files \<Rightarrow> string \<Rightarrow> string" where
  "fileText F p = (case mget F p of None \<Rightarrow> [] | Some c \<Rightarrow> c)"

text \<open>\<open>OpenFile\<close> with append and create, then \<open>WriteString\<close>; the error is that of either.\<close>

definition appendFile :: "fsFaults \<Rightarrow> string \<Rightarrow> string \<Rightarrow> files \<Rightarrow> string option \<times> files" where
  "appendFile X p text F =
     (case fs_open X p of
        Some e \<Rightarrow> (Some e, F)
      | None \<Rightarrow>
          (case fs_write X p of
             Some e \<Rightarrow> (Some e, mput p (fileText F p) F)
           | None \<Rightarrow> (None, mput p (fileText F p @ text) F)))"

section \<open>State\<close>

text \<open>The state an operation works on: the resolver (with the taints), the requests sent, the
  device calls made and the files.\<close>

record 's world =
  w_res :: "'s Resolver"
  w_sent :: "wire list"
  w_calls :: "devcall list"
  w_files :: files

definition taintWorld :: "golib \<Rightarrow> string \<Rightarrow> 's world \<Rightarrow> 's world" where
  "taintWorld L s w = w\<lparr>w_res := (w_res w)\<lparr>res_taint := Taint L (res_taint (w_res w)) s\<rparr>\<rparr>"

definition record_call :: "devcall \<Rightarrow> 's world \<Rightarrow> 's world" where
  "record_call c w = w\<lparr>w_calls := w_calls w @ [c]\<rparr>"

definition devCall :: "devices \<Rightarrow> devcall \<Rightarrow> 's world \<Rightarrow> string option \<times> 's world" where
  "devCall D c w = (dv_call D (w_calls w) c, record_call c w)"

lemma calls_record [simp]: "w_calls (record_call c w) = w_calls w @ [c]" "w_sent (record_call c w) = w_sent w"
  "w_res (record_call c w) = w_res w" "w_files (record_call c w) = w_files w"
  by (simp_all add: record_call_def)

text \<open>The calls that a piece of code adds to the log while it sends no HTTP request.\<close>

definition adds :: "devcall list \<Rightarrow> 's world \<Rightarrow> 's world \<Rightarrow> bool" where
  "adds new w w' \<longleftrightarrow> w_calls w' = w_calls w @ new \<and> w_sent w' = w_sent w \<and> w_res w' = w_res w"

lemma adds_simps [simp]: "adds [] w w" "adds new w v \<Longrightarrow> adds (new @ [c]) w (record_call c v)"
  by (simp_all add: adds_def)

lemma adds_trans: "adds a w v \<Longrightarrow> adds b v u \<Longrightarrow> adds (a @ b) w u"
  by (simp add: adds_def)

lemma adds_one: "adds [c] w (record_call c w)"
  by (simp add: adds_def)

section \<open>Executing a request\<close>

text \<open>\<open>CanonicalMIMEHeaderKey\<close>: a key with a byte that no header name has is left alone.\<close>

definition isTokenByte :: "char \<Rightarrow> bool" where
  "isTokenByte c = (isDigit c \<or> isLowerLetter c \<or> isUpperLetter c \<or> List.member ''!#$%&*+-.^_`|~'' c
     \<or> c = CHR 0x27)"

definition asciiUpper :: "char \<Rightarrow> char" where
  "asciiUpper c = (if isLowerLetter c then char_of (of_char c - (32::nat)) else c)"

fun canonFrom :: "bool \<Rightarrow> string \<Rightarrow> string" where
  "canonFrom upper [] = []"
| "canonFrom upper (c # cs) =
     (if upper then asciiUpper c else asciiLower c) # canonFrom (c = CHR ''-'') cs"

definition canonicalKey :: "string \<Rightarrow> string" where
  "canonicalKey k = (if list_all isTokenByte k then canonFrom True k else k)"

definition setHeader :: "string \<Rightarrow> string \<Rightarrow> string gomap \<Rightarrow> string gomap" where
  "setHeader k v h = mput (canonicalKey k) v h"

definition credentialHeaders ::
    "golib \<Rightarrow> Credentials option \<Rightarrow> string gomap \<Rightarrow> string gomap \<Rightarrow> string gomap" where
  "credentialHeaders L creds given h =
     (case creds of
        None \<Rightarrow> h
      | Some c \<Rightarrow>
          if cr_Username c \<noteq> [] \<and> cr_Password c \<noteq> [] then
            setHeader ''Authorization''
              (''Basic '' @ base64Encode (cr_Username c @ '':'' @ cr_Password c)) h
          else if cr_Token c \<noteq> [] then setHeader ''Authorization'' (''Bearer '' @ cr_Token c) h
          else if cr_APIKey c \<noteq> [] then
            foldl (\<lambda>h (k, _). if strContains (toLower L k) ''apikey'' then setHeader k (cr_APIKey c) h else h)
              h given
          else h)"

definition DefaultMaxBodyBytes :: int where
  "DefaultMaxBodyBytes = 20 * 2 ^ 20"

datatype restError =
    CreatingRequest string
  | Executing string string
  | ReadingResponse string
  | ResponseExceeds int

definition wireOf :: "golib \<Rightarrow> Request \<Rightarrow> wire" where
  "wireOf L req =
     \<lparr>wi_Method = rq_Method req, wi_URL = rq_Path req,
      wi_Headers = credentialHeaders L (rq_Credentials req) (rq_Headers req)
        (foldl (\<lambda>h (k, v). setHeader k v h) [] (rq_Headers req)),
      wi_Body = rq_Body req, wi_Insecure = rq_Insecure req\<rparr>"

definition Execute ::
    "golib \<Rightarrow> upstream \<Rightarrow> Request \<Rightarrow> 's world \<Rightarrow> (restError + Response) \<times> 's world" where
  "Execute L U req w =
     (case up_badRequest U (rq_Method req) (rq_Path req) of
        Some e \<Rightarrow> (Inl (CreatingRequest e), w)
      | None \<Rightarrow>
          (let wi = wireOf L req; reply = up_http U (w_sent w) wi;
               w = w\<lparr>w_sent := w_sent w @ [wi]\<rparr>
           in (case reply of
                 Inl (DoFailed e) \<Rightarrow> (Inl (Executing (rq_Method req) e), w)
               | Inl (ReadFailed e _) \<Rightarrow> (Inl (ReadingResponse e), w)
               | Inr a \<Rightarrow>
                   (let limit = (if rq_MaxBodyBytes req \<le> 0 then DefaultMaxBodyBytes
                                 else rq_MaxBodyBytes req);
                        respBody = take (nat (limit + 1)) (an_Body a)
                    in if limit < int (length respBody) then (Inl (ResponseExceeds limit), w)
                       else (Inr \<lparr>rs_StatusCode = an_Status a,
                                  rs_Headers = map (\<lambda>(k, v). (k, hd v))
                                    (filter (\<lambda>(k, v). v \<noteq> []) (an_Headers a)),
                                  rs_Body = respBody\<rparr>,
                             (case rq_Credentials req of
                                None \<Rightarrow> w
                              | Some c \<Rightarrow> taintWorld L (cr_APIKey c)
                                  (taintWorld L (cr_Token c) (taintWorld L (cr_Password c) w))))))))"

section \<open>Secrets of an environment\<close>

definition parseSecretRef :: "string \<Rightarrow> string \<times> string" where
  "parseSecretRef ref =
     (if length ref < 9 \<or> take 9 ref \<noteq> ''secret://'' then ([], ref)
      else (let rest = drop 9 ref
            in (case cutAt (CHR ''/'') rest of None \<Rightarrow> ([], rest) | Some (ws, name) \<Rightarrow> (ws, name))))"

text \<open>\<open>parseSecretRef\<close> and \<open>ResolveWithWorkspaceCheck\<close>, which the sources always call in a row.\<close>

definition resolveRef ::
    "golib \<Rightarrow> upstream \<Rightarrow> string \<Rightarrow> string \<Rightarrow> 's world \<Rightarrow> (secretError + string) \<times> 's world" where
  "resolveRef L U ref workspace w =
     (let (wsName, secretName) = parseSecretRef ref;
          (res, r) = ResolveWithWorkspaceCheck L (up_clock U) wsName secretName workspace (w_res w)
      in (res, w\<lparr>w_res := r\<rparr>))"

definition base64Auth :: "golib \<Rightarrow> string \<Rightarrow> string \<Rightarrow> 's world \<Rightarrow> string \<times> 's world" where
  "base64Auth L username password w =
     (let enc = base64Encode (username @ '':'' @ password) in (enc, taintWorld L enc w))"

section \<open>Answers\<close>

definition headerValue :: "string gomap \<Rightarrow> string \<Rightarrow> string" where
  "headerValue h k = (case mget h k of None \<Rightarrow> [] | Some v \<Rightarrow> v)"

text \<open>Decoding into a struct of strings: \<open>null\<close> leaves it zero, other values are errors.\<close>

definition structFields :: "golib \<Rightarrow> string list \<Rightarrow> json option \<Rightarrow> string list option" where
  "structFields L names v =
     (case v of
        Some (JObj kvs) \<Rightarrow> those (map (\<lambda>n. structString L n [] kvs) names)
      | Some JNull \<Rightarrow> Some (map (\<lambda>n. []) names)
      | _ \<Rightarrow> None)"

text \<open>
  Decoding into a struct field of any type: \<open>step\<close> decodes a value into the field as it stands.
  Keys match whatever their case; a repeated key is decoded again. A number decodes into an
  \<open>int64\<close> when it is integral (Go also wants its literal free of fraction and exponent).
\<close>

fun structFold :: "golib \<Rightarrow> string \<Rightarrow> ('a \<Rightarrow> json \<Rightarrow> 'a option) \<Rightarrow> 'a \<Rightarrow> params \<Rightarrow> 'a option" where
  "structFold L name step cur [] = Some cur"
| "structFold L name step cur ((k, v) # kvs) =
     (if \<not> equalFold L k name then structFold L name step cur kvs
      else (case step cur v of None \<Rightarrow> None | Some c \<Rightarrow> structFold L name step c kvs))"

fun strStep :: "string \<Rightarrow> json \<Rightarrow> string option" where
  "strStep cur (JStr s) = Some s"
| "strStep cur JNull = Some cur"
| "strStep cur _ = None"

fun boolStep :: "bool \<Rightarrow> json \<Rightarrow> bool option" where
  "boolStep cur (JBool b) = Some b"
| "boolStep cur JNull = Some cur"
| "boolStep cur _ = None"

fun intStep :: "int \<Rightarrow> json \<Rightarrow> int option" where
  "intStep cur (JNum f) =
     (if fIntegral f \<and> - (2 ^ 63) \<le> fToInt f \<and> fToInt f < 2 ^ 63 then Some (fToInt f) else None)"
| "intStep cur JNull = Some cur"
| "intStep cur _ = None"

fun stringsStep :: "string list \<Rightarrow> json \<Rightarrow> string list option" where
  "stringsStep cur (JArr vs) = those (map (strStep []) vs)"
| "stringsStep cur JNull = Some []"
| "stringsStep cur _ = None"

definition optBind :: "'a option \<Rightarrow> ('a \<Rightarrow> 'b option) \<Rightarrow> 'b option" where
  "optBind m f = (case m of None \<Rightarrow> None | Some x \<Rightarrow> f x)"

lemma optBind_Some [simp]: "optBind m f = Some y \<longleftrightarrow> (\<exists>x. m = Some x \<and> f x = Some y)"
  by (auto simp: optBind_def split: option.split)

end
