(* ===== verification/Shaper.thy ===== *)
theory Shaper
  imports Encode
begin

text \<open>
  Response shaping: \<open>ResponseShaper.Shape\<close> of \<open>internal/redact/hook.go\<close> with \<open>project\<close>,
  \<open>deepMerge\<close>, \<open>mergeValues\<close> and \<open>splitPath\<close>, and \<open>shapeResponse\<close> of server.go. The
  specification says which scalar values of the upstream answer, by position, the shaped
  answer holds: exactly those under an allowed path. Go merges in place and may alias the
  decoded answer; \<open>merge_absorb\<close> is why that changes nothing.
\<close>

section \<open>The code\<close>

fun splitPathFrom :: "string \<Rightarrow> string \<Rightarrow> string list" where
  "splitPathFrom cur [] = (if cur \<noteq> [] then [cur] else [])"
| "splitPathFrom cur (c # cs) =
     (let flushed = (if cur \<noteq> [] then [cur] else [])
      in if c = CHR ''.'' then flushed @ splitPathFrom [] cs
         else (case cs of
                 d # ds \<Rightarrow>
                   if c = CHR ''['' \<and> d = CHR '']'' then flushed @ ''[]'' # splitPathFrom [] ds
                   else splitPathFrom (cur @ [c]) cs
               | [] \<Rightarrow> splitPathFrom (cur @ [c]) cs))"

definition splitPath :: "string \<Rightarrow> string list" where
  "splitPath path = splitPathFrom [] path"

fun project :: "string list \<Rightarrow> json \<Rightarrow> json option" where
  "project [] src = Some src"
| "project (p # ps) src =
     (if src = JNull then Some JNull
      else if p = ''[]'' then
        (case src of
           JArr arr \<Rightarrow>
             (let rs = map (project ps) arr
              in if arr \<noteq> [] \<and> list_all (\<lambda>r. r = None) rs then None
                 else Some (JArr (map (\<lambda>r. case r of None \<Rightarrow> JNull | Some v \<Rightarrow> v) rs)))
         | _ \<Rightarrow> None)
      else (case src of
              JObj m \<Rightarrow>
                (case mget m p of
                   None \<Rightarrow> None
                 | Some child \<Rightarrow>
                     (case project ps child of
                        None \<Rightarrow> None
                      | Some v \<Rightarrow> Some (JObj [(p, v)])))
            | _ \<Rightarrow> None))"

fun mergeValues :: "json \<Rightarrow> json \<Rightarrow> json"
  and mergeArrays :: "json list \<Rightarrow> json list \<Rightarrow> json list"
  and deepMerge :: "params \<Rightarrow> params \<Rightarrow> params"
where
  "mergeValues (JObj am) (JObj bm) = JObj (deepMerge am bm)"
| "mergeValues (JArr aa) (JArr ba) = JArr (mergeArrays aa ba)"
| "mergeValues a b = (if b \<noteq> JNull then b else a)"
| "mergeArrays [] ba = ba"
| "mergeArrays aa [] = aa"
| "mergeArrays (ai # aa) (bi # ba) =
     (if ai = JNull then bi else if bi = JNull then ai else mergeValues ai bi) # mergeArrays aa ba"
| "deepMerge dst [] = dst"
| "deepMerge dst ((k, v) # src) =
     deepMerge (case mget dst k of
                  Some existing \<Rightarrow> mput k (mergeValues existing v) dst
                | None \<Rightarrow> mput k v dst) src"

definition shapeField :: "params \<Rightarrow> params \<Rightarrow> string \<Rightarrow> params" where
  "shapeField data result field =
     (case project (splitPath field) (JObj data) of
        Some (JObj projected) \<Rightarrow> deepMerge result projected
      | _ \<Rightarrow> result)"

definition Shape :: "string list option \<Rightarrow> params \<Rightarrow> params" where
  "Shape allowFields data =
     (case allowFields of
        None \<Rightarrow> data
      | Some fs \<Rightarrow> foldl (shapeField data) [] fs)"

text \<open>\<open>json.Marshal\<close> of a decoded value does not fail, so its error branch is not reached.\<close>

definition shapeResponse :: "golib \<Rightarrow> int \<Rightarrow> string \<Rightarrow> string list option \<Rightarrow> string" where
  "shapeResponse L status body allowFields =
     (if elems allowFields = [] \<or> 400 \<le> status then body
      else (case decodeAny L body of
              None \<Rightarrow> body
            | Some (JObj v) \<Rightarrow> encodeJson L (JObj (Shape allowFields v))
            | Some (JArr v) \<Rightarrow>
                encodeJson L (JArr (List.map_filter
                  (\<lambda>item. map_option (\<lambda>m. JObj (Shape allowFields m)) (asObject item)) v))
            | Some _ \<Rightarrow> body))"

section \<open>Positions and parts\<close>

datatype pos = Key string | Idx nat

fun scalar :: "json \<Rightarrow> bool" where
  "scalar JNull = False"
| "scalar (JArr _) = False"
| "scalar (JObj _) = False"
| "scalar _ = True"

fun leafAt :: "json \<Rightarrow> pos list \<Rightarrow> json option" where
  "leafAt v [] = (if scalar v then Some v else None)"
| "leafAt (JObj m) (Key k # p) = (case mget m k of None \<Rightarrow> None | Some v \<Rightarrow> leafAt v p)"
| "leafAt (JArr xs) (Idx i # p) = (if i < length xs then leafAt (xs ! i) p else None)"
| "leafAt v (x # p) = None"

text \<open>A path of \<open>allow_fields\<close> covers a position and everything below it.\<close>

fun covers :: "string list \<Rightarrow> pos list \<Rightarrow> bool" where
  "covers [] p = True"
| "covers (f # fs) (Key k # p) = (f = k \<and> f \<noteq> ''[]'' \<and> covers fs p)"
| "covers (f # fs) (Idx i # p) = (f = ''[]'' \<and> covers fs p)"
| "covers (f # fs) [] = False"

text \<open>\<open>part a d\<close>: \<open>a\<close> is \<open>d\<close> with object entries left out and subtrees replaced by null.\<close>

inductive part :: "json \<Rightarrow> json \<Rightarrow> bool" where
  P_null: "part JNull d"
| P_scalar: "scalar d \<Longrightarrow> part d d"
| P_arr: "list_all2 part xs ys \<Longrightarrow> part (JArr xs) (JArr ys)"
| P_obj: "distinct (mkeys m) \<Longrightarrow> (\<And>k v. mget m k = Some v \<Longrightarrow> \<exists>w. mget n k = Some w \<and> part v w)
    \<Longrightarrow> part (JObj m) (JObj n)"

inductive_cases part_ObjE: "part a (JObj n)"
inductive_cases part_ArrE: "part a (JArr ys)"
inductive_simps part_Obj_Obj: "part (JObj m) (JObj n)"
inductive_simps part_Arr_Arr: "part (JArr xs) (JArr ys)"

lemma part_scalarE: "part a d \<Longrightarrow> scalar d \<or> d = JNull \<Longrightarrow> a = JNull \<or> a = d"
  by (induction rule: part.induct) auto

lemma part_refl: "wfJson d \<Longrightarrow> part d d"
proof (induction d)
  case (JArr vs)
  then have "list_all2 part vs vs" by (auto simp: list_all2_same list_all_iff)
  then show ?case by (rule P_arr)
next
  case (JObj m)
  show ?case
  proof (rule P_obj)
    show "distinct (mkeys m)" using JObj.prems by simp
    show "\<exists>w. mget m k = Some w \<and> part v w" if "mget m k = Some v" for k v
    proof -
      from that have "(k, v) \<in> set m" by (rule map_of_SomeD)
      with JObj have "part v v" by (auto simp: list_all_iff elim: snds.cases)
      with that show ?thesis by blast
    qed
  qed
qed (auto intro: P_null P_scalar)

lemma mget_deepMerge:
  "distinct (mkeys src) \<Longrightarrow> mget (deepMerge dst src) k =
     (case mget src k of
        None \<Rightarrow> mget dst k
      | Some b \<Rightarrow> (case mget dst k of None \<Rightarrow> Some b | Some a \<Rightarrow> Some (mergeValues a b)))"
proof (induction src arbitrary: dst)
  case (Cons e src)
  obtain k' v where e: "e = (k', v)" by (cases e)
  have "mget src k' = None" using Cons.prems e by (simp add: map_of_eq_None_iff)
  then show ?case using Cons e by (auto split: option.split)
qed simp

lemma distinct_deepMerge: "distinct (mkeys dst) \<Longrightarrow> distinct (mkeys (deepMerge dst src))"
  by (induction src arbitrary: dst) (auto split: option.split)

lemma mergeArrays_map2:
  "length aa = length ba \<Longrightarrow> mergeArrays aa ba =
     map2 (\<lambda>a b. if a = JNull then b else if b = JNull then a else mergeValues a b) aa ba"
  by (induction aa ba rule: list_induct2) simp_all

lemma mergeValues_null [simp]: "mergeValues a JNull = a" "b \<noteq> JNull \<Longrightarrow> mergeValues JNull b = b"
  by (cases a; simp) (cases b; simp)

lemma mergeValues_null_left [simp]: "mergeValues JNull b = b"
  by (cases b) simp_all

lemma mergeArrays_pointwise:
  "length aa = length ba \<Longrightarrow> mergeArrays aa ba = map2 mergeValues aa ba"
  by (induction aa ba rule: list_induct2) auto

lemma leafAt_null [simp]: "leafAt JNull p = None"
  by (cases p) simp_all

lemma leafAt_scalar: "scalar v \<Longrightarrow> leafAt v p = (if p = [] then Some v else None)"
  by (cases v; cases p) simp_all

lemma leafAt_obj: "leafAt (JObj m) p = Some s \<longleftrightarrow>
    (\<exists>k q v. p = Key k # q \<and> mget m k = Some v \<and> leafAt v q = Some s)"
  by (cases p; simp; cases "hd p") (auto split: option.splits)

lemma leafAt_Key: "leafAt (JObj m) (Key k # q) = Some s \<longleftrightarrow>
    (\<exists>v. mget m k = Some v \<and> leafAt v q = Some s)"
  by (simp split: option.split)

lemma leafAt_arr: "leafAt (JArr xs) p = Some s \<longleftrightarrow>
    (\<exists>i q. p = Idx i # q \<and> i < length xs \<and> leafAt (xs ! i) q = Some s)"
  by (cases p; simp; cases "hd p") auto

section \<open>Merging\<close>

text \<open>Parts of one value merge to a part of it that holds the leaves of both.\<close>

definition mergesTo :: "json \<Rightarrow> json \<Rightarrow> json \<Rightarrow> bool" where
  "mergesTo a b d \<longleftrightarrow> part (mergeValues a b) d
     \<and> (\<forall>p s. leafAt (mergeValues a b) p = Some s \<longleftrightarrow> leafAt a p = Some s \<or> leafAt b p = Some s)"

lemma mergesTo_null: "part a d \<Longrightarrow> mergesTo a JNull d" "part b d \<Longrightarrow> mergesTo JNull b d"
  by (auto simp: mergesTo_def)

lemma part_Obj_shape: "part v (JObj n) \<Longrightarrow> v = JNull \<or> (\<exists>m. v = JObj m)"
  by (erule part_ObjE) auto

lemma part_Arr_shape: "part v (JArr ys) \<Longrightarrow> v = JNull \<or> (\<exists>xs. v = JArr xs)"
  by (erule part_ArrE) auto

lemma mergesTo_obj:
  assumes a: "part (JObj am) (JObj n)" and b: "part (JObj bm) (JObj n)"
    and IH: "\<And>k v w x. mget n k = Some x \<Longrightarrow> part v x \<Longrightarrow> part w x \<Longrightarrow> mergesTo v w x"
  shows "mergesTo (JObj am) (JObj bm) (JObj n)"
proof -
  from a b have da: "distinct (mkeys am)" and db: "distinct (mkeys bm)"
    by (simp_all add: part_Obj_Obj)
  have g: "mget (deepMerge am bm) k =
     (case mget bm k of None \<Rightarrow> mget am k
      | Some y \<Rightarrow> (case mget am k of None \<Rightarrow> Some y | Some x \<Rightarrow> Some (mergeValues x y)))" for k
    using db by (rule mget_deepMerge)
  have both: "mergesTo x y w" if "mget am k = Some x" "mget bm k = Some y" "mget n k = Some w" for k x y w
    using that a b IH [of k w x y] unfolding part_Obj_Obj by fastforce
  have "part (JObj (deepMerge am bm)) (JObj n)"
  proof (rule P_obj)
    show "distinct (mkeys (deepMerge am bm))" using da by (rule distinct_deepMerge)
    fix k v assume v: "mget (deepMerge am bm) k = Some v"
    show "\<exists>w. mget n k = Some w \<and> part v w"
    proof (cases "mget bm k")
      case None
      with v g a show ?thesis by (simp add: part_Obj_Obj)
    next
      case (Some y)
      with b obtain w where w: "mget n k = Some w" "part y w" unfolding part_Obj_Obj by blast
      show ?thesis
      proof (cases "mget am k")
        case None
        with v g Some w show ?thesis by simp
      next
        case x: (Some x)
        with v g Some both [OF x Some w(1)] w(1) show ?thesis by (simp add: mergesTo_def)
      qed
    qed
  qed
  moreover have "leafAt (JObj (deepMerge am bm)) p = Some s \<longleftrightarrow>
      leafAt (JObj am) p = Some s \<or> leafAt (JObj bm) p = Some s" for p s
  proof -
    have "(\<exists>v. mget (deepMerge am bm) k = Some v \<and> leafAt v q = Some s) \<longleftrightarrow>
        (\<exists>v. mget am k = Some v \<and> leafAt v q = Some s) \<or> (\<exists>v. mget bm k = Some v \<and> leafAt v q = Some s)"
      for k q
    proof (cases "mget am k"; cases "mget bm k")
      fix x y assume xy: "mget am k = Some x" "mget bm k = Some y"
      with a obtain w where "mget n k = Some w" unfolding part_Obj_Obj by blast
      from both [OF xy this] show ?thesis unfolding g xy by (simp add: mergesTo_def)
    qed (simp_all add: g)
    note key = this
    show ?thesis
    proof (cases "\<exists>k q. p = Key k # q")
      case True
      then obtain k q where p: "p = Key k # q" by blast
      show ?thesis unfolding p leafAt_Key by (rule key)
    next
      case False
      then have "leafAt (JObj m) p \<noteq> Some s" for m by (metis leafAt_obj)
      then show ?thesis by blast
    qed
  qed
  ultimately show ?thesis by (simp add: mergesTo_def)
qed

lemma mergesTo_arr:
  assumes a: "part (JArr xs) (JArr zs)" and b: "part (JArr ys) (JArr zs)"
    and IH: "\<And>x y z. z \<in> set zs \<Longrightarrow> part x z \<Longrightarrow> part y z \<Longrightarrow> mergesTo x y z"
  shows "mergesTo (JArr xs) (JArr ys) (JArr zs)"
proof -
  from a b have len: "length xs = length zs" "length ys = length zs"
    and pt: "\<And>i. i < length zs \<Longrightarrow> part (xs ! i) (zs ! i) \<and> part (ys ! i) (zs ! i)"
    by (auto simp: part_Arr_Arr list_all2_conv_all_nth)
  have m: "mergesTo (xs ! i) (ys ! i) (zs ! i)" if "i < length zs" for i
    using that pt by (intro IH) auto
  have e: "mergeArrays xs ys = map2 mergeValues xs ys"
    using len by (intro mergeArrays_pointwise) simp
  have "part (JArr (mergeArrays xs ys)) (JArr zs)"
    using m len by (intro P_arr) (auto simp: e list_all2_conv_all_nth mergesTo_def)
  moreover have "leafAt (JArr (mergeArrays xs ys)) p = Some s \<longleftrightarrow>
      leafAt (JArr xs) p = Some s \<or> leafAt (JArr ys) p = Some s" for p s
    using m len by (auto simp: e leafAt_arr mergesTo_def)
  ultimately show ?thesis by (simp add: mergesTo_def)
qed

lemma merge_parts: "part a d \<Longrightarrow> part b d \<Longrightarrow> mergesTo a b d"
proof (induction d arbitrary: a b)
  case (JObj n)
  show ?case
  proof (cases "a = JNull \<or> b = JNull")
    case True
    then show ?thesis using JObj.prems mergesTo_null by blast
  next
    case False
    with JObj.prems obtain am bm where ab: "a = JObj am" "b = JObj bm"
      using part_Obj_shape by blast
    show ?thesis unfolding ab
    proof (rule mergesTo_obj)
      show "mergesTo v w x" if "mget n k = Some x" "part v x" "part w x" for k v w x
        using JObj.IH [OF map_of_SomeD [OF that(1)] _ that(2,3)] by simp
    qed (use JObj.prems ab in simp_all)
  qed
next
  case (JArr zs)
  show ?case
  proof (cases "a = JNull \<or> b = JNull")
    case True
    then show ?thesis using JArr.prems mergesTo_null by blast
  next
    case False
    with JArr.prems obtain xs ys where ab: "a = JArr xs" "b = JArr ys"
      using part_Arr_shape by blast
    with JArr show ?thesis by (auto intro!: mergesTo_arr)
  qed
qed (auto dest!: part_scalarE simp: mergesTo_def P_null P_scalar)

section \<open>Projecting\<close>

definition projectsTo :: "string list \<Rightarrow> json \<Rightarrow> json option \<Rightarrow> bool" where
  "projectsTo ps src r \<longleftrightarrow>
     (case r of None \<Rightarrow> True | Some v \<Rightarrow> part v src)
     \<and> (\<forall>p s. (case r of None \<Rightarrow> False | Some v \<Rightarrow> leafAt v p = Some s)
          \<longleftrightarrow> leafAt src p = Some s \<and> covers ps p)"

lemma projectsTo_arr:
  assumes "\<And>x. x \<in> set arr \<Longrightarrow> projectsTo ps x (project ps x)"
  shows "projectsTo (''[]'' # ps) (JArr arr) (project (''[]'' # ps) (JArr arr))"
proof -
  let ?g = "\<lambda>r. case r of None \<Rightarrow> JNull | Some v \<Rightarrow> v"
  have x: "part (?g (project ps x)) x" "\<And>p s. leafAt (?g (project ps x)) p = Some s \<longleftrightarrow>
      leafAt x p = Some s \<and> covers ps p" if "x \<in> set arr" for x
    using assms [OF that] by (auto simp: projectsTo_def P_null split: option.splits)
  have cov: "leafAt (JArr arr) p = Some s \<and> covers (''[]'' # ps) p \<longleftrightarrow>
      (\<exists>i q. p = Idx i # q \<and> i < length arr \<and> leafAt (?g (project ps (arr ! i))) q = Some s)" for p s
    using x(2) by (auto simp: leafAt_arr)
  show ?thesis
  proof (cases "arr \<noteq> [] \<and> list_all (\<lambda>r. r = None) (map (project ps) arr)")
    case True
    then have "project ps (arr ! i) = None" if "i < length arr" for i
      using that by (simp add: list_all_length)
    then have "\<not> (leafAt (JArr arr) p = Some s \<and> covers (''[]'' # ps) p)" for p s
      unfolding cov by auto
    with True show ?thesis by (simp add: projectsTo_def)
  next
    case False
    then have r: "project (''[]'' # ps) (JArr arr) = Some (JArr (map ?g (map (project ps) arr)))"
      by (auto simp: Let_def)
    have "part (JArr (map ?g (map (project ps) arr))) (JArr arr)"
      using x(1) by (intro P_arr) (simp add: list_all2_conv_all_nth)
    then show ?thesis
      unfolding r projectsTo_def option.case cov by (auto simp: leafAt_arr)
  qed
qed

lemma projectsTo_obj:
  assumes "p0 \<noteq> ''[]''" and "\<And>x. mget m p0 = Some x \<Longrightarrow> projectsTo ps x (project ps x)"
  shows "projectsTo (p0 # ps) (JObj m) (project (p0 # ps) (JObj m))"
proof (cases "mget m p0")
  case None
  with assms(1) show ?thesis by (auto simp: projectsTo_def leafAt_obj)
next
  case (Some x)
  have cov: "leafAt (JObj m) p = Some s \<and> covers (p0 # ps) p \<longleftrightarrow>
      (\<exists>q. p = Key p0 # q \<and> leafAt x q = Some s \<and> covers ps q)" for p s
    using Some assms(1) by (auto simp: leafAt_obj)
  show ?thesis
  proof (cases "project ps x")
    case None
    with assms(2) [OF Some] have "\<not> (leafAt x q = Some s \<and> covers ps q)" for q s
      by (simp add: projectsTo_def)
    then show ?thesis
      using None Some assms(1) unfolding projectsTo_def cov by auto
  next
    case v: (Some v)
    with assms(2) [OF Some] have "part v x"
      and "\<And>q s. leafAt v q = Some s \<longleftrightarrow> leafAt x q = Some s \<and> covers ps q"
      by (simp_all add: projectsTo_def)
    then have "part (JObj [(p0, v)]) (JObj m)" and
      "leafAt (JObj [(p0, v)]) p = Some s \<longleftrightarrow> leafAt (JObj m) p = Some s \<and> covers (p0 # ps) p" for p s
      unfolding cov using Some by (auto simp: leafAt_obj part_Obj_Obj split: if_splits)
    then show ?thesis using v Some assms(1) by (simp add: projectsTo_def)
  qed
qed

lemma project_spec: "wfJson src \<Longrightarrow> projectsTo ps src (project ps src)"
proof (induction ps arbitrary: src)
  case Nil
  then show ?case by (simp add: projectsTo_def part_refl)
next
  case (Cons p0 ps)
  show ?case
  proof (cases src)
    case (JArr arr)
    show ?thesis
    proof (cases "p0 = ''[]''")
      case True
      have "projectsTo ps x (project ps x)" if "x \<in> set arr" for x
        using that Cons JArr by (auto simp: list_all_iff)
      then show ?thesis unfolding JArr True by (rule projectsTo_arr)
    qed (use JArr in \<open>auto simp: projectsTo_def leafAt_arr\<close>)
  next
    case (JObj m)
    show ?thesis
    proof (cases "p0 = ''[]''")
      case False
      have "wfJson x" if "mget m p0 = Some x" for x
        using Cons.prems JObj map_of_SomeD [OF that] by (auto simp: list_all_iff)
      then show ?thesis unfolding JObj using False Cons.IH by (intro projectsTo_obj) blast+
    qed (use JObj in \<open>auto simp: projectsTo_def leafAt_obj\<close>)
  qed (auto simp: projectsTo_def leafAt_scalar P_null)
qed

text \<open>A projection merged into the value it was taken from changes nothing.\<close>

lemma Shape_parts:
  assumes "wfJson (JObj data)" and "part (JObj result) (JObj data)"
  shows "part (JObj (shapeField data result f)) (JObj data)
    \<and> (\<forall>p s. leafAt (JObj (shapeField data result f)) p = Some s \<longleftrightarrow>
          leafAt (JObj result) p = Some s \<or> leafAt (JObj data) p = Some s \<and> covers (splitPath f) p)"
proof -
  have pr: "projectsTo (splitPath f) (JObj data) (project (splitPath f) (JObj data))"
    using assms(1) by (rule project_spec)
  show ?thesis
  proof (cases "project (splitPath f) (JObj data)")
    case None
    with pr assms(2) show ?thesis by (auto simp: projectsTo_def shapeField_def)
  next
    case (Some v)
    with pr have v: "part v (JObj data)"
      "\<And>p s. leafAt v p = Some s \<longleftrightarrow> leafAt (JObj data) p = Some s \<and> covers (splitPath f) p"
      by (simp_all add: projectsTo_def)
    from part_Obj_shape [OF v(1)] show ?thesis
    proof
      assume "v = JNull"
      with v(2) assms(2) Some show ?thesis by (auto simp: shapeField_def)
    next
      assume "\<exists>m. v = JObj m"
      with merge_parts [OF assms(2) v(1)] v(2) Some show ?thesis
        by (auto simp: mergesTo_def shapeField_def)
    qed
  qed
qed

lemma Shape_fold:
  assumes "wfJson (JObj data)" and "part (JObj result) (JObj data)"
  shows "part (JObj (foldl (shapeField data) result fs)) (JObj data)
    \<and> (\<forall>p s. leafAt (JObj (foldl (shapeField data) result fs)) p = Some s \<longleftrightarrow>
          leafAt (JObj result) p = Some s
          \<or> leafAt (JObj data) p = Some s \<and> (\<exists>f\<in>set fs. covers (splitPath f) p))"
  using assms(2)
proof (induction fs arbitrary: result)
  case (Cons f fs)
  from Shape_parts [OF assms(1) Cons.prems, of f] Cons.IH [of "shapeField data result f"]
  show ?case by auto
qed simp

text \<open>C18: Response shaping returns exactly what \<open>allow_fields\<close> allows: a scalar value stands at
  a position of the shaped answer if and only if it stands at that position of the upstream
  answer and one of the allowed paths covers it. Nothing else leaks, nothing allowed is lost,
  and the elements of arrays stay aligned, whatever the order and overlap of the paths.\<close>

theorem Shape_exact:
  assumes "wfJson (JObj data)"
  shows "leafAt (JObj (Shape (Some fs) data)) p = Some s \<longleftrightarrow>
    leafAt (JObj data) p = Some s \<and> (\<exists>f\<in>set fs. covers (splitPath f) p)"
proof -
  have "part (JObj []) (JObj data)" by (simp add: part_Obj_Obj)
  moreover have "leafAt (JObj []) q = None" for q
    using leafAt_obj [of "[]" q] by (cases "leafAt (JObj []) q") auto
  ultimately show ?thesis using Shape_fold [OF assms, of "[]" fs] by (simp add: Shape_def)
qed

lemma Shape_exact_witness:
  "leafAt (JObj (Shape (Some [''a[].x'']) [(''a'', JArr [JObj [(''x'', JBool True), (''y'', JBool False)]])]))
     [Key ''a'', Idx 0, Key ''y''] \<noteq> Some (JBool False)"
proof -
  have "\<not> covers (splitPath ''a[].x'') [Key ''a'', Idx 0, Key ''y'']" by code_simp
  then show ?thesis by (subst Shape_exact) simp_all
qed

text \<open>
  A value merged with a projection of itself is unchanged, so it does not matter that
  the code may merge into a subtree it shares with the decoded answer.
\<close>

lemma mput_same: "mget m k = Some v \<Longrightarrow> mput k v m = m"
  unfolding mput_def by (induction m) auto

lemma mergeArrays_same:
  "(\<And>i. i < length xs \<Longrightarrow> mergeValues (xs ! i) (ys ! i) = xs ! i) \<Longrightarrow> length ys = length xs \<Longrightarrow>
    mergeArrays xs ys = xs"
  by (subst mergeArrays_pointwise) (auto intro: nth_equalityI)

lemma deepMerge_same:
  "(\<And>k v. (k, v) \<in> set src \<Longrightarrow> \<exists>x. mget m k = Some x \<and> mergeValues x v = x) \<Longrightarrow> deepMerge m src = m"
proof (induction src)
  case (Cons e src)
  obtain k v where e: "e = (k, v)" by (cases e)
  with Cons.prems obtain x where "mget m k = Some x" "mergeValues x v = x" by force
  with Cons e show ?case by (simp add: mput_same)
qed simp

lemma merge_self: "wfJson v \<Longrightarrow> mergeValues v v = v"
proof (induction v)
  case (JArr vs)
  have "mergeArrays vs vs = vs"
    using JArr by (intro mergeArrays_same) (auto simp: list_all_iff)
  then show ?case by simp
next
  case (JObj m)
  have "deepMerge m m = m"
  proof (rule deepMerge_same)
    fix k v assume kv: "(k, v) \<in> set m"
    then have "mget m k = Some v" using JObj.prems by simp
    moreover have "mergeValues v v = v"
      using JObj.IH [OF kv] JObj.prems kv by (auto simp: list_all_iff)
    ultimately show "\<exists>x. mget m k = Some x \<and> mergeValues x v = x" by blast
  qed
  then show ?case by simp
qed simp_all

lemma merge_absorb: "wfJson src \<Longrightarrow> project ps src = Some v \<Longrightarrow> mergeValues src v = src"
proof (induction ps arbitrary: src v)
  case Nil
  then show ?case by (simp add: merge_self)
next
  case (Cons p0 ps)
  show ?case
  proof (cases src)
    case (JArr arr)
    with Cons.prems(2) have p0: "p0 = ''[]''"
      and v: "v = JArr (map (\<lambda>r. case r of None \<Rightarrow> JNull | Some v \<Rightarrow> v) (map (project ps) arr))"
      by (auto simp: Let_def split: if_splits)
    have "mergeValues (arr ! i) (case project ps (arr ! i) of None \<Rightarrow> JNull | Some v \<Rightarrow> v) = arr ! i"
      if "i < length arr" for i
      using that Cons.IH Cons.prems(1) JArr by (auto simp: list_all_length split: option.split)
    then have "mergeArrays arr (map (\<lambda>r. case r of None \<Rightarrow> JNull | Some v \<Rightarrow> v) (map (project ps) arr)) = arr"
      by (intro mergeArrays_same) simp_all
    then show ?thesis using JArr v by simp
  next
    case (JObj m)
    with Cons.prems(2) obtain c w where c: "mget m p0 = Some c" "project ps c = Some w"
      and v: "v = JObj [(p0, w)]"
      by (auto split: if_splits option.splits)
    have "wfJson c" using Cons.prems(1) JObj map_of_SomeD [OF c(1)] by (auto simp: list_all_iff)
    then have "mergeValues c w = c" using c(2) by (rule Cons.IH)
    then have "deepMerge m [(p0, w)] = m" using c(1) by (intro deepMerge_same) simp
    then show ?thesis using JObj v by simp
  qed (use Cons.prems(2) in \<open>auto split: if_splits\<close>)
qed

end
