(* ===== verification/Config.thy ===== *)
theory Config
  imports Json
begin

text \<open>
  Package \<open>internal/config\<close>: the configuration tree, its validation at load time and the
  lookups the server makes on it. \<open>Validate\<close> is proved equal to the declarative
  predicate \<open>wellFormedConfig\<close>; the lookups are interpreted as a \<open>config_lookup\<close>, the
  interface through which the server's authorisation lemmas use them.
\<close>

section \<open>Data\<close>

record FeedbackConfig =
  fb_TodoPath :: string

record SecretStoreConfig =
  ss_Backend :: string
  ss_PassDir :: string
  ss_KDBXPath :: string
  ss_KDBXSecret :: string

record Tunnel =
  tun_Type :: string
  tun_Tunnel :: string
  tun_CheckHost :: string
  tun_CheckPort :: int

record Database =
  db_DB :: string
  db_Schema :: string

record AuthConfig =
  auth_Type :: string
  auth_Header :: string

record OAuthRefreshConfig =
  oauth_TokenURL :: string
  oauth_ClientID :: string
  oauth_ClientSecretRef :: string
  oauth_RefreshSecretRef :: string

record Environment =
  env_BaseURL :: string
  env_Auth :: AuthConfig
  env_Host :: string
  env_Port :: int
  env_ImapHost :: string
  env_ImapPort :: int
  env_SmtpHost :: string
  env_SmtpPort :: int
  env_ProxyHost :: string
  env_ProxyPort :: int
  env_Workspace :: string
  env_WorkspaceID :: string
  env_UserID :: string
  env_Group :: string
  env_Org :: string
  env_RequiresTunnel :: string
  env_Databases :: "Database gomap"
  env_Secret :: string
  env_User :: string
  env_SecretRef :: string
  env_CookieSecretRef :: string
  env_OAuth :: "OAuthRefreshConfig option"
  env_InsecureSkipVerify :: bool
  env_SSLMode :: string

record Site =
  site_Environments :: "Environment gomap"
  site_DefaultEnv :: string
  site_Disabled :: bool

text \<open>
  Two of the lists are options: \<open>jql_scope\<close> tells a list that is not configured (a nil
  slice) from one that is configured and empty.
\<close>

record WorkspacePolicy =
  wp_JiraProjects :: "string list"
  wp_BitbucketRepos :: "string list option"
  wp_GitlabProjects :: "string list"
  wp_GithubRepos :: "string list"
  wp_PgAllowedTables :: "string list option"
  wp_SlackChannels :: "string list"
  wp_KibanaClusters :: "string list"
  wp_KibanaIndices :: "string list"
  wp_ClockifyProjects :: "string list"
  wp_EmailAllowedSenders :: "string list"
  wp_EmailAllowedMailboxes :: "string list"
  wp_EmailDeniedSenders :: "string list"
  wp_EmailDeniedMailboxes :: "string list"
  wp_TrelloAllowedLists :: "string list"

record Workspace =
  ws_Description :: string
  ws_Site :: string
  ws_Sites :: "Site gomap"
  ws_Policy :: WorkspacePolicy
  ws_Secrets :: "string gomap"

record Role =
  role_Operations :: "string list"

record Grant =
  grant_Workspace :: string
  grant_Role :: string

record Agent =
  agent_ID :: string
  agent_TokenSHA :: string
  agent_Grants :: "Grant list"

record ServerConfig =
  srv_ListenAddr :: string
  srv_Port :: int
  srv_TLSCert :: string
  srv_TLSKey :: string

record AuditConfig =
  aud_Dir :: string
  aud_MaxSizeMB :: int

text \<open>\<open>cfg_Tunnels\<close> is an option because \<open>ValidateTunnels\<close> tells a nil map from an empty one.\<close>

record Config =
  cfg_Workspaces :: "Workspace gomap"
  cfg_Roles :: "Role gomap"
  cfg_Agents :: "Agent list"
  cfg_Server :: ServerConfig
  cfg_Audit :: AuditConfig
  cfg_Tunnels :: "Tunnel gomap option"
  cfg_SecretStore :: SecretStoreConfig
  cfg_AdminTokenSHA :: string
  cfg_Feedback :: FeedbackConfig
  cfg_ConfigPath :: string
  cfg_OpsPath :: string

text \<open>The zero values of Go, from which examples are built.\<close>

definition zeroAuth :: AuthConfig where
  "zeroAuth = \<lparr>auth_Type = [], auth_Header = []\<rparr>"

definition zeroEnvironment :: Environment where
  "zeroEnvironment =
     \<lparr>env_BaseURL = [], env_Auth = zeroAuth, env_Host = [], env_Port = 0, env_ImapHost = [],
      env_ImapPort = 0, env_SmtpHost = [], env_SmtpPort = 0, env_ProxyHost = [], env_ProxyPort = 0,
      env_Workspace = [], env_WorkspaceID = [], env_UserID = [], env_Group = [], env_Org = [],
      env_RequiresTunnel = [], env_Databases = [], env_Secret = [], env_User = [],
      env_SecretRef = [], env_CookieSecretRef = [], env_OAuth = None,
      env_InsecureSkipVerify = False, env_SSLMode = []\<rparr>"

definition zeroPolicy :: WorkspacePolicy where
  "zeroPolicy =
     \<lparr>wp_JiraProjects = [], wp_BitbucketRepos = None, wp_GitlabProjects = [], wp_GithubRepos = [],
      wp_PgAllowedTables = None, wp_SlackChannels = [], wp_KibanaClusters = [], wp_KibanaIndices = [],
      wp_ClockifyProjects = [], wp_EmailAllowedSenders = [], wp_EmailAllowedMailboxes = [],
      wp_EmailDeniedSenders = [], wp_EmailDeniedMailboxes = [], wp_TrelloAllowedLists = []\<rparr>"

definition zeroWorkspace :: Workspace where
  "zeroWorkspace =
     \<lparr>ws_Description = [], ws_Site = [], ws_Sites = [], ws_Policy = zeroPolicy, ws_Secrets = []\<rparr>"

definition zeroConfig :: Config where
  "zeroConfig =
     \<lparr>cfg_Workspaces = [], cfg_Roles = [], cfg_Agents = [],
      cfg_Server = \<lparr>srv_ListenAddr = [], srv_Port = 0, srv_TLSCert = [], srv_TLSKey = []\<rparr>,
      cfg_Audit = \<lparr>aud_Dir = [], aud_MaxSizeMB = 0\<rparr>, cfg_Tunnels = None,
      cfg_SecretStore = \<lparr>ss_Backend = [], ss_PassDir = [], ss_KDBXPath = [], ss_KDBXSecret = []\<rparr>,
      cfg_AdminTokenSHA = [], cfg_Feedback = \<lparr>fb_TodoPath = []\<rparr>,
      cfg_ConfigPath = [], cfg_OpsPath = []\<rparr>"

section \<open>Lookups\<close>

text \<open>\<open>WorkspacePolicy.List\<close>: the allow-list of a name, and whether the name is known.\<close>

definition List :: "WorkspacePolicy \<Rightarrow> string \<Rightarrow> string list \<times> bool" where
  "List p name =
     (if name = ''jira_projects'' then (wp_JiraProjects p, True)
      else if name = ''bitbucket_repos'' then (elems (wp_BitbucketRepos p), True)
      else if name = ''gitlab_projects'' then (wp_GitlabProjects p, True)
      else if name = ''github_repos'' then (wp_GithubRepos p, True)
      else if name = ''pg_allowed_tables'' then (elems (wp_PgAllowedTables p), True)
      else if name = ''slack_channels'' then (wp_SlackChannels p, True)
      else if name = ''kibana_clusters'' then (wp_KibanaClusters p, True)
      else if name = ''kibana_indices'' then (wp_KibanaIndices p, True)
      else if name = ''clockify_projects'' then (wp_ClockifyProjects p, True)
      else ([], False))"

fun splitOpAcc :: "string \<Rightarrow> string \<Rightarrow> string list" where
  "splitOpAcc cur [] = (if cur \<noteq> [] then [cur] else [])"
| "splitOpAcc cur (c # cs) =
     (if c = CHR ''.'' then cur # splitOpAcc [] cs else splitOpAcc (cur @ [c]) cs)"

definition splitOp :: "string \<Rightarrow> string list" where
  "splitOp op = splitOpAcc [] op"

definition HasOperation :: "Workspace \<Rightarrow> string \<Rightarrow> bool" where
  "HasOperation w op =
     (if ws_Sites w = [] then False
      else (let parts = splitOp op
            in if length parts < 2 then False else mhas (ws_Sites w) (parts ! 0)))"

fun findAgent :: "Agent list \<Rightarrow> string \<Rightarrow> Agent option" where
  "findAgent [] sha = None"
| "findAgent (a # as) sha = (if agent_TokenSHA a = sha then Some a else findAgent as sha)"

definition GetAgentByTokenSHA :: "Config \<Rightarrow> string \<Rightarrow> Agent option" where
  "GetAgentByTokenSHA c sha = findAgent (cfg_Agents c) sha"

definition GetWorkspace :: "Config \<Rightarrow> string \<Rightarrow> Workspace option" where
  "GetWorkspace c name = mget (cfg_Workspaces c) name"

definition GetRole :: "Config \<Rightarrow> string \<Rightarrow> Role option" where
  "GetRole c name = mget (cfg_Roles c) name"

definition GetTunnel :: "Config \<Rightarrow> string \<Rightarrow> Tunnel option" where
  "GetTunnel c name =
     (case cfg_Tunnels c of None \<Rightarrow> None | Some m \<Rightarrow> mget m name)"

section \<open>Validation\<close>

datatype configError =
    TodoPathNotAbsolute string
  | NoAgents
  | AgentWithoutToken string
  | UnknownWorkspace string string
  | UnknownRole string string
  | OperationNotAvailable string string string
  | DefaultEnvUnknown string string string
  | UndefinedTunnel string string
  | ConfigUnreadable string

definition validateGrant :: "Config \<Rightarrow> Agent \<Rightarrow> Grant \<Rightarrow> configError + unit" where
  "validateGrant c a g =
     (case mget (cfg_Workspaces c) (grant_Workspace g) of
        None \<Rightarrow> Inl (UnknownWorkspace (agent_ID a) (grant_Workspace g))
      | Some ws \<Rightarrow>
          (case mget (cfg_Roles c) (grant_Role g) of
             None \<Rightarrow> Inl (UnknownRole (agent_ID a) (grant_Role g))
           | Some role \<Rightarrow>
               checkAll
                 (\<lambda>op. ensure (HasOperation ws op)
                    (OperationNotAvailable (grant_Role g) op (grant_Workspace g)))
                 (role_Operations role)))"

definition validateAgent :: "Config \<Rightarrow> Agent \<Rightarrow> configError + unit" where
  "validateAgent c a =
     (if agent_TokenSHA a = [] then Inl (AgentWithoutToken (agent_ID a))
      else checkAll (validateGrant c a) (agent_Grants a))"

definition validateSite :: "string \<Rightarrow> string \<times> Site \<Rightarrow> configError + unit" where
  "validateSite wsName = (\<lambda>(siteName, site).
     ensure (site_DefaultEnv site = [] \<or> mhas (site_Environments site) (site_DefaultEnv site))
       (DefaultEnvUnknown wsName siteName (site_DefaultEnv site)))"

text \<open>\<open>isAbs\<close> is \<open>filepath.IsAbs\<close>, which depends on the operating system.\<close>

definition Validate :: "(string \<Rightarrow> bool) \<Rightarrow> Config \<Rightarrow> configError + unit" where
  "Validate isAbs c =
     (let p = fb_TodoPath (cfg_Feedback c)
      in if p \<noteq> [] \<and> \<not> isAbs p then Inl (TodoPathNotAbsolute p)
         else if cfg_Agents c = [] then Inl NoAgents
         else rbind (checkAll (validateAgent c) (cfg_Agents c)) (\<lambda>_.
           checkAll (\<lambda>(wsName, ws). checkAll (validateSite wsName) (ws_Sites ws))
             (cfg_Workspaces c)))"

text \<open>\<open>Load\<close>: \<open>read\<close> stands for reading the file and the YAML decoder.\<close>

definition Load ::
    "(string \<Rightarrow> bool) \<Rightarrow> (string \<Rightarrow> string + Config) \<Rightarrow> string \<Rightarrow> configError + Config" where
  "Load isAbs read path =
     rbind (mapErr ConfigUnreadable (read path)) (\<lambda>cfg.
     rbind (Validate isAbs cfg) (\<lambda>_.
     Inr (cfg\<lparr>cfg_ConfigPath := path\<rparr>)))"

definition ValidateTunnels :: "Config \<Rightarrow> configError + unit" where
  "ValidateTunnels c =
     (case cfg_Tunnels c of
        None \<Rightarrow> Inr ()
      | Some tunnels \<Rightarrow>
          checkAll (\<lambda>(_, ws).
            checkAll (\<lambda>(_, site).
              checkAll (\<lambda>(_, env).
                ensure (env_RequiresTunnel env = [] \<or> mhas tunnels (env_RequiresTunnel env))
                  (UndefinedTunnel (ws_Site ws) (env_RequiresTunnel env)))
                (site_Environments site))
              (ws_Sites ws))
            (cfg_Workspaces c))"

section \<open>What validation guarantees\<close>

definition grantResolves :: "Config \<Rightarrow> Grant \<Rightarrow> bool" where
  "grantResolves c g \<longleftrightarrow>
     (\<exists>ws role. GetWorkspace c (grant_Workspace g) = Some ws \<and> GetRole c (grant_Role g) = Some role
        \<and> (\<forall>op\<in>set (role_Operations role). HasOperation ws op))"

definition siteDefaultKnown :: "Site \<Rightarrow> bool" where
  "siteDefaultKnown s \<longleftrightarrow> site_DefaultEnv s = [] \<or> mhas (site_Environments s) (site_DefaultEnv s)"

definition wellFormedConfig :: "(string \<Rightarrow> bool) \<Rightarrow> Config \<Rightarrow> bool" where
  "wellFormedConfig isAbs c \<longleftrightarrow>
     (fb_TodoPath (cfg_Feedback c) = [] \<or> isAbs (fb_TodoPath (cfg_Feedback c)))
     \<and> cfg_Agents c \<noteq> []
     \<and> (\<forall>a\<in>set (cfg_Agents c).
          agent_TokenSHA a \<noteq> [] \<and> (\<forall>g\<in>set (agent_Grants a). grantResolves c g))
     \<and> (\<forall>(n, ws)\<in>set (cfg_Workspaces c). \<forall>(m, s)\<in>set (ws_Sites ws). siteDefaultKnown s)"

lemma validateGrant_iff: "validateGrant c a g = Inr u \<longleftrightarrow> grantResolves c g"
  by (auto simp: validateGrant_def grantResolves_def GetWorkspace_def GetRole_def
      checkAll_Inr_iff split: option.splits)

lemma validateAgent_iff:
  "validateAgent c a = Inr u \<longleftrightarrow>
     agent_TokenSHA a \<noteq> [] \<and> (\<forall>g\<in>set (agent_Grants a). grantResolves c g)"
  by (simp add: validateAgent_def checkAll_Inr_iff validateGrant_iff)

lemma Validate_iff: "Validate isAbs c = Inr u \<longleftrightarrow> wellFormedConfig isAbs c"
  by (auto simp: Validate_def wellFormedConfig_def Let_def rbind_Inr_iff checkAll_Inr_iff
      validateAgent_iff validateSite_def siteDefaultKnown_def split: prod.splits if_splits)

text \<open>\<open>Validate\<close> accepts a configuration exactly when it is well formed: there are agents,
  each has a token hash, every grant names a workspace and a role that exist, every operation of
  a granted role belongs to an integration of that workspace, every default environment exists
  and the feedback file has an absolute path.\<close>

theorem Validate_exact: "isOk (Validate isAbs c) \<longleftrightarrow> wellFormedConfig isAbs c"
  by (simp add: isOk_iff Validate_iff)

lemma findAgent_Some:
  "findAgent as sha = Some a \<Longrightarrow> a \<in> set as \<and> agent_TokenSHA a = sha"
  by (induction as) (auto split: if_splits)

lemma findAgent_find: "findAgent as sha = find (\<lambda>a. agent_TokenSHA a = sha) as"
  by (induction as) auto

lemma findAgent_None: "findAgent as sha = None \<longleftrightarrow> (\<forall>a\<in>set as. agent_TokenSHA a \<noteq> sha)"
  by (auto simp: findAgent_find find_None_iff)

lemma splitOpAcc_site:
  assumes "CHR ''.'' \<notin> set site"
  shows "splitOpAcc cur (site @ CHR ''.'' # rest) = (cur @ site) # splitOpAcc [] rest"
  using assms by (induction site arbitrary: cur) auto

lemma splitOp_site_op:
  assumes "CHR ''.'' \<notin> set site" and "CHR ''.'' \<notin> set name" and "name \<noteq> []"
  shows "splitOp (site @ CHR ''.'' # name) = [site, name]"
proof -
  have "splitOpAcc cur name = [cur @ name]" if "CHR ''.'' \<notin> set name" "cur @ name \<noteq> []" for cur name
    using that by (induction name arbitrary: cur) auto
  then have "splitOpAcc [] name = [name]" using assms by simp
  then show ?thesis
    using assms by (simp add: splitOp_def splitOpAcc_site)
qed

section \<open>The lookup interface\<close>

text \<open>
  What the authentication code relies on: a lookup by token hash that returns a registered
  agent with that hash, and fails only when no agent has it.
\<close>

locale agent_lookup =
  fixes agents :: "'c \<Rightarrow> Agent list"
    and byToken :: "'c \<Rightarrow> string \<Rightarrow> Agent option"
  assumes byToken_mem: "byToken c sha = Some a \<Longrightarrow> a \<in> set (agents c)"
    and byToken_sha: "byToken c sha = Some a \<Longrightarrow> agent_TokenSHA a = sha"
    and byToken_None: "byToken c sha = None \<longleftrightarrow> (\<forall>a\<in>set (agents c). agent_TokenSHA a \<noteq> sha)"
begin

lemma known_iff: "byToken c sha \<noteq> None \<longleftrightarrow> (\<exists>a\<in>set (agents c). agent_TokenSHA a = sha)"
  by (simp add: byToken_None)

lemma one_agent_one_hash:
  assumes "byToken c sha = Some a" and "byToken c sha' = Some a"
  shows "sha = sha'"
  using byToken_sha [OF assms(1)] byToken_sha [OF assms(2)] by simp

lemma lookup_again:
  assumes "byToken c sha = Some a"
  shows "byToken c (agent_TokenSHA a) = Some a"
  using assms byToken_sha [OF assms] by simp

text \<open>The second scan of the agents in \<open>authenticate\<close> can find nothing the lookup did not find.\<close>

lemma scan_adds_nothing:
  "byToken c sha \<noteq> None \<or> (\<exists>a\<in>set (agents c). agent_TokenSHA a = sha) \<longleftrightarrow> byToken c sha \<noteq> None"
  using known_iff [of c sha] by argo

end

interpretation cfgl: agent_lookup cfg_Agents GetAgentByTokenSHA
  by unfold_locales (auto simp: GetAgentByTokenSHA_def findAgent_None dest: findAgent_Some)

end
