(* ===== verification/Regexp.thy ===== *)
theory Regexp
  imports GoStrings
begin

text \<open>
  The fixed regular expressions of the sources (package \<open>regexp\<close>, anchored with \<open>^\<close> and
  \<open>$\<close>) as terms of a datatype, with a derivative matcher that is proved equal to the
  language of the expression. Character classes are predicates on bytes.
\<close>

datatype re =
    Empty
  | Eps
  | Cls "char \<Rightarrow> bool"
  | Seq re re
  | Alt re re
  | Star re

fun nullable :: "re \<Rightarrow> bool" where
  "nullable Empty = False"
| "nullable Eps = True"
| "nullable (Cls P) = False"
| "nullable (Seq r s) = (nullable r \<and> nullable s)"
| "nullable (Alt r s) = (nullable r \<or> nullable s)"
| "nullable (Star r) = True"

text \<open>Constructors that drop \<open>Empty\<close> and \<open>Eps\<close>, so that derivatives stay small.\<close>

fun mkSeq :: "re \<Rightarrow> re \<Rightarrow> re" where
  "mkSeq Empty s = Empty"
| "mkSeq Eps s = s"
| "mkSeq r s = Seq r s"

fun mkAlt :: "re \<Rightarrow> re \<Rightarrow> re" where
  "mkAlt Empty s = s"
| "mkAlt r Empty = r"
| "mkAlt r s = Alt r s"

fun deriv :: "char \<Rightarrow> re \<Rightarrow> re" where
  "deriv c Empty = Empty"
| "deriv c Eps = Empty"
| "deriv c (Cls P) = (if P c then Eps else Empty)"
| "deriv c (Seq r s) =
     (if nullable r then mkAlt (mkSeq (deriv c r) s) (deriv c s) else mkSeq (deriv c r) s)"
| "deriv c (Alt r s) = mkAlt (deriv c r) (deriv c s)"
| "deriv c (Star r) = mkSeq (deriv c r) (Star r)"

fun rmatch :: "re \<Rightarrow> string \<Rightarrow> bool" where
  "rmatch r [] = nullable r"
| "rmatch r (c # s) = rmatch (deriv c r) s"

inductive_set star :: "string set \<Rightarrow> string set" for L where
  star_Nil: "[] \<in> star L"
| star_app: "u \<in> L \<Longrightarrow> v \<in> star L \<Longrightarrow> u @ v \<in> star L"

primrec lang :: "re \<Rightarrow> string set" where
  "lang Empty = {}"
| "lang Eps = {[]}"
| "lang (Cls P) = {[c] |c. P c}"
| "lang (Seq r s) = {u @ v |u v. u \<in> lang r \<and> v \<in> lang s}"
| "lang (Alt r s) = lang r \<union> lang s"
| "lang (Star r) = star (lang r)"

lemma nullable_iff: "nullable r \<longleftrightarrow> [] \<in> lang r"
  by (induction r) (auto intro: star_Nil)

lemma lang_mkSeq [simp]: "lang (mkSeq r s) = lang (Seq r s)"
  by (cases "(r, s)" rule: mkSeq.cases) auto

lemma lang_mkAlt [simp]: "lang (mkAlt r s) = lang (Alt r s)"
  by (cases "(r, s)" rule: mkAlt.cases) auto

lemma star_Cons_split:
  "w \<in> star L \<Longrightarrow> w = c # t \<Longrightarrow> \<exists>u v. t = u @ v \<and> c # u \<in> L \<and> v \<in> star L"
proof (induction arbitrary: t rule: star.induct)
  case (star_app u v)
  show ?case
  proof (cases u)
    case Nil
    with star_app show ?thesis by simp
  next
    case (Cons d u')
    with star_app show ?thesis by auto
  qed
qed simp

lemma star_Cons_iff: "c # t \<in> star L \<longleftrightarrow> (\<exists>u v. t = u @ v \<and> c # u \<in> L \<and> v \<in> star L)"
  using star_Cons_split star_app by fastforce

lemma lang_deriv: "s \<in> lang (deriv c r) \<longleftrightarrow> c # s \<in> lang r"
proof (induction r arbitrary: s)
  case (Seq r1 r2)
  then show ?case by (auto simp: nullable_iff Cons_eq_append_conv)
next
  case (Star r)
  then show ?case by (auto simp: star_Cons_iff)
qed auto

theorem rmatch_iff: "rmatch r s \<longleftrightarrow> s \<in> lang r"
  by (induction s arbitrary: r) (auto simp: nullable_iff lang_deriv)

section \<open>Derived expressions\<close>

definition rChar :: "char \<Rightarrow> re" where
  "rChar c = Cls (\<lambda>d. d = c)"

fun rStr :: "string \<Rightarrow> re" where
  "rStr [] = Eps"
| "rStr (c # s) = Seq (rChar c) (rStr s)"

definition rPlus :: "re \<Rightarrow> re" where
  "rPlus r = Seq r (Star r)"

definition rOpt :: "re \<Rightarrow> re" where
  "rOpt r = Alt Eps r"

fun rTimes :: "nat \<Rightarrow> re \<Rightarrow> re" where
  "rTimes 0 r = Eps"
| "rTimes (Suc n) r = Seq r (rTimes n r)"

text \<open>At most \<open>n\<close> copies, \<open>r{0,n}\<close>.\<close>

fun rUpTo :: "nat \<Rightarrow> re \<Rightarrow> re" where
  "rUpTo 0 r = Eps"
| "rUpTo (Suc n) r = rOpt (Seq r (rUpTo n r))"

lemma star_mono: "w \<in> star A \<Longrightarrow> A \<subseteq> B \<Longrightarrow> w \<in> star B"
  by (induction rule: star.induct) (auto intro: star.intros)

lemma star_Cls: "w \<in> star (lang (Cls P)) \<longleftrightarrow> (\<forall>c\<in>set w. P c)"
proof
  show "w \<in> star (lang (Cls P)) \<Longrightarrow> \<forall>c\<in>set w. P c"
    by (induction rule: star.induct) auto
  show "\<forall>c\<in>set w. P c \<Longrightarrow> w \<in> star (lang (Cls P))"
  proof (induction w)
    case (Cons c w)
    then have "[c] @ w \<in> star (lang (Cls P))" by (intro star_app) auto
    then show ?case by simp
  qed (simp add: star_Nil)
qed

lemma lang_Star_Cls [simp]: "lang (Star (Cls P)) = {w. \<forall>c\<in>set w. P c}"
  using star_Cls by auto

lemma lang_rPlus_Cls [simp]: "lang (rPlus (Cls P)) = {w. w \<noteq> [] \<and> (\<forall>c\<in>set w. P c)}"
proof -
  have "lang (rPlus (Cls P)) = {c # v |c v. P c \<and> (\<forall>d\<in>set v. P d)}"
    by (force simp: rPlus_def star_Cls [simplified] intro: exI [of _ "[_]"])
  then show ?thesis by (auto simp: neq_Nil_conv)
qed

lemma lang_rStr [simp]: "lang (rStr s) = {s}"
  by (induction s) (auto simp: rChar_def)

lemma star_set: "w \<in> star L \<Longrightarrow> (\<And>u c. u \<in> L \<Longrightarrow> c \<in> set u \<Longrightarrow> P c) \<Longrightarrow> c \<in> set w \<Longrightarrow> P c"
  by (induction rule: star.induct) auto

section \<open>The expressions of the sources\<close>

text \<open>\<open>secretIDRe\<close> of server.go, \<open>^[A-Za-z0-9_-]+$\<close>.\<close>

definition isSecretIDByte :: "char \<Rightarrow> bool" where
  "isSecretIDByte c = (isUpperLetter c \<or> isLowerLetter c \<or> isDigit c \<or> c = CHR ''_'' \<or> c = CHR ''-'')"

definition secretIDRe :: re where
  "secretIDRe = rPlus (Cls isSecretIDByte)"

lemma rmatch_secretIDRe [simp]:
  "rmatch secretIDRe s \<longleftrightarrow> s \<noteq> [] \<and> (\<forall>c\<in>set s. isSecretIDByte c)"
  by (simp add: rmatch_iff secretIDRe_def)

text \<open>\<open>slackFileIDPattern\<close> of slack\_file.go, \<open>^F[A-Z0-9]+$\<close>.\<close>

definition slackFileIDPattern :: re where
  "slackFileIDPattern = Seq (rChar (CHR ''F'')) (rPlus (Cls (\<lambda>c. isUpperLetter c \<or> isDigit c)))"

text \<open>\<open>identRe\<close> of yamledit.go, \<open>^[a-z][a-z0-9_-]*$\<close>.\<close>

definition identRe :: re where
  "identRe = Seq (Cls isLowerLetter)
     (Star (Cls (\<lambda>c. isLowerLetter c \<or> isDigit c \<or> c = CHR ''_'' \<or> c = CHR ''-'')))"

end
