(* ===== verification/Jql.thy ===== *)
theory Jql
  imports Config Regexp
begin

text \<open>
  The \<open>jql_scope\<close> constraint of \<open>internal/policy/registry.go\<close>: \<open>splitJQLOrderBy\<close> and
  \<open>JQLScopeConstraint.Check\<close>. The abstract specification is a scanner of quotes and
  parentheses (\<open>jqlRun\<close>); the code's one-pass scan refines it, and from it follows that
  the parenthesis which the gateway opens around an agent's flt is closed by the one
  the gateway writes, so the project clause always applies to the whole flt.
\<close>

section \<open>The code\<close>

datatype jqlError =
    JqlRequired
  | JqlUnbalancedParen
  | JqlUnbalanced
  | JqlBadOrderBy

text \<open>\<open>\s\<close> of RE2.\<close>

definition isReSpace :: "char \<Rightarrow> bool" where
  "isReSpace c = List.member [CHR 0x09, CHR 0x0A, CHR 0x0C, CHR 0x0D, CHR '' ''] c"

text \<open>\<open>(?i)^order\s+by\b\<close>\<close>

definition orderByStart :: "string \<Rightarrow> bool" where
  "orderByStart s =
     (map asciiLower (take 5 s) = ''order'' \<and>
      (let r = drop 5 s; t = dropWhile isReSpace r
       in length t < length r \<and> map asciiLower (take 2 t) = ''by'' \<and>
          (case drop 2 t of [] \<Rightarrow> True | c # _ \<Rightarrow> \<not> isWordByte c)))"

text \<open>
  A letter under \<open>(?i)\<close>: both cases, and for \<open>s\<close> the long s (U+017F), which folds to it.
  A letter class also holds the Kelvin sign (U+212A), which folds to \<open>k\<close>.
\<close>

definition longS :: re where
  "longS = rStr [CHR 0xC5, CHR 0xBF]"

definition kelvin :: re where
  "kelvin = rStr [CHR 0xE2, CHR 0x84, CHR 0xAA]"

fun rFold :: "string \<Rightarrow> re" where
  "rFold [] = Eps"
| "rFold (c # cs) =
     Seq (if c = CHR ''s'' then Alt (Cls (\<lambda>d. asciiLower d = c)) longS
          else Cls (\<lambda>d. asciiLower d = c)) (rFold cs)"

definition spaces :: re where
  "spaces = Star (Cls isReSpace)"

definition spaces1 :: re where
  "spaces1 = rPlus (Cls isReSpace)"

definition quotedField :: "char \<Rightarrow> re" where
  "quotedField q = Seq (rChar q) (Seq (Star (Cls (\<lambda>c. c \<noteq> q))) (rChar q))"

definition customField :: re where
  "customField = Seq (rFold ''cf['') (Seq (rPlus (Cls isDigit)) (rChar (CHR '']'')))"

definition plainField :: re where
  "plainField =
     Seq (Alt (Cls (\<lambda>c. isUpperLetter c \<or> isLowerLetter c \<or> c = CHR ''_'')) (Alt longS kelvin))
         (Star (Alt (Cls (\<lambda>c. isWordByte c \<or> c = CHR ''.'')) (Alt longS kelvin)))"

definition orderField :: re where
  "orderField =
     Seq (Alt (quotedField (CHR 0x22)) (Alt (quotedField (CHR 0x27)) (Alt customField plainField)))
         (rOpt (Seq spaces1 (Alt (rFold ''asc'') (rFold ''desc''))))"

definition orderByClause :: re where
  "orderByClause =
     Seq (rFold ''order'') (Seq spaces1 (Seq (rFold ''by'') (Seq spaces1 (Seq orderField
       (Star (Seq spaces (Seq (rChar (CHR '','')) (Seq spaces orderField))))))))"

definition isJQLWordByte :: "char \<Rightarrow> bool" where
  "isJQLWordByte b =
     (b = CHR ''_'' \<or> CHR ''0'' \<le> b \<and> b \<le> CHR ''9'' \<or> CHR ''a'' \<le> b \<and> b \<le> CHR ''z''
      \<or> CHR ''A'' \<le> b \<and> b \<le> CHR ''Z'')"

text \<open>
  The loop of \<open>splitJQLOrderBy\<close> from index \<open>i\<close> on: previous byte, open quote, depth, start
  of the ORDER BY clause, rest of the text. Inside a quote a backslash skips the next byte.
\<close>

fun jqlScan ::
    "nat \<Rightarrow> char option \<Rightarrow> char option \<Rightarrow> int \<Rightarrow> nat option \<Rightarrow> string
       \<Rightarrow> jqlError + (char option \<times> int \<times> nat option)" where
  "jqlScan i prev quote depth orderAt [] = Inr (quote, depth, orderAt)"
| "jqlScan i prev (Some q) depth orderAt (c # cs) =
     (if c = CHR 0x5C then
        (case cs of
           [] \<Rightarrow> Inr (Some q, depth, orderAt)
         | x # cs' \<Rightarrow> jqlScan (i + 2) (Some x) (Some q) depth orderAt cs')
      else if c = q then jqlScan (i + 1) (Some c) None depth orderAt cs
      else jqlScan (i + 1) (Some c) (Some q) depth orderAt cs)"
| "jqlScan i prev None depth orderAt (c # cs) =
     (if c = CHR 0x22 \<or> c = CHR 0x27 then jqlScan (i + 1) (Some c) (Some c) depth orderAt cs
      else if c = CHR ''('' then jqlScan (i + 1) (Some c) None (depth + 1) orderAt cs
      else if c = CHR '')'' then
        (if depth - 1 < 0 then Inl JqlUnbalancedParen
         else jqlScan (i + 1) (Some c) None (depth - 1) orderAt cs)
      else if (c = CHR ''o'' \<or> c = CHR ''O'') \<and> depth = 0 \<and> orderAt = None
              \<and> (case prev of None \<Rightarrow> True | Some p \<Rightarrow> \<not> isJQLWordByte p) \<and> orderByStart (c # cs)
      then jqlScan (i + 1) (Some c) None depth (Some i) cs
      else jqlScan (i + 1) (Some c) None depth orderAt cs)"

definition splitJQLOrderBy :: "string \<Rightarrow> jqlError + (string \<times> string)" where
  "splitJQLOrderBy jql =
     rbind (jqlScan 0 None None 0 None jql) (\<lambda>(quote, depth, orderAt).
       if quote \<noteq> None \<or> depth \<noteq> 0 then Inl JqlUnbalanced
       else (case orderAt of
               None \<Rightarrow> Inr (trimSpace jql, [])
             | Some k \<Rightarrow>
                 (let order = trimSpace (drop k jql)
                  in if \<not> rmatch orderByClause order then Inl JqlBadOrderBy
                     else Inr (trimSpace (take k jql), order))))"

definition projectClause :: "string list \<Rightarrow> string" where
  "projectClause projects = ''project in ('' @ join '','' projects @ '')''"

definition scopedJql :: "string list \<Rightarrow> string \<Rightarrow> string \<Rightarrow> string" where
  "scopedJql projects flt order =
     (let scoped = projectClause projects;
          scoped = (if flt \<noteq> [] then ''('' @ flt @ '') AND '' @ scoped else scoped)
      in if order \<noteq> [] then scoped @ '' '' @ order else scoped)"

text \<open>\<open>Check\<close>: the parameters are updated in place, so the new map is the result.\<close>

definition JQLScopeCheck ::
    "string list option \<Rightarrow> params \<Rightarrow> Workspace \<Rightarrow> jqlError + params" where
  "JQLScopeCheck cProjects ps ws =
     (case mget ps ''jql'' of
        Some (JStr jql) \<Rightarrow>
          (if trimSpace jql = [] then Inl JqlRequired
           else
             (let projects = (case cProjects of None \<Rightarrow> wp_JiraProjects (ws_Policy ws) | Some p \<Rightarrow> p)
              in if projects = [] then Inr ps
                 else rbind (splitJQLOrderBy jql) (\<lambda>(flt, order).
                   Inr (mput ''jql'' (JStr (scopedJql projects flt order)) ps))))
      | _ \<Rightarrow> Inl JqlRequired)"

section \<open>Specification: quotes and parentheses\<close>

datatype qstate = Out | In char | Esc char

fun jqlStep :: "qstate \<times> nat \<Rightarrow> char \<Rightarrow> (qstate \<times> nat) option" where
  "jqlStep (Out, d) c =
     (if c = CHR 0x22 \<or> c = CHR 0x27 then Some (In c, d)
      else if c = CHR ''('' then Some (Out, Suc d)
      else if c = CHR '')'' then (case d of 0 \<Rightarrow> None | Suc e \<Rightarrow> Some (Out, e))
      else Some (Out, d))"
| "jqlStep (In q, d) c =
     (if c = CHR 0x5C then Some (Esc q, d) else if c = q then Some (Out, d) else Some (In q, d))"
| "jqlStep (Esc q, d) c = Some (In q, d)"

fun jqlRun :: "qstate \<times> nat \<Rightarrow> string \<Rightarrow> (qstate \<times> nat) option" where
  "jqlRun st [] = Some st"
| "jqlRun st (c # cs) = Option.bind (jqlStep st c) (\<lambda>st'. jqlRun st' cs)"

text \<open>Balanced: no closing parenthesis without its opening one, no quote left open.\<close>

definition balanced :: "string \<Rightarrow> bool" where
  "balanced s \<longleftrightarrow> jqlRun (Out, 0) s = Some (Out, 0)"

text \<open>The index of the parenthesis that closes the outermost one opened first.\<close>

fun closeAt :: "qstate \<times> nat \<Rightarrow> nat \<Rightarrow> string \<Rightarrow> nat option" where
  "closeAt st i [] = None"
| "closeAt st i (c # cs) =
     (case jqlStep st c of
        None \<Rightarrow> None
      | Some st' \<Rightarrow> if c = CHR '')'' \<and> st' = (Out, 0) \<and> fst st = Out then Some i
                    else closeAt st' (Suc i) cs)"

lemma jqlRun_append: "jqlRun st (u @ v) = Option.bind (jqlRun st u) (\<lambda>st'. jqlRun st' v)"
  by (induction u arbitrary: st) (auto split: Option.bind_splits)

lemma jqlStep_deeper: "jqlStep (q, d) c = Some (q', d') \<Longrightarrow> jqlStep (q, d + n) c = Some (q', d' + n)"
  by (cases "((q, d), c)" rule: jqlStep.cases) (auto split: if_splits nat.splits)

lemma jqlRun_deeper: "jqlRun (q, d) s = Some (q', d') \<Longrightarrow> jqlRun (q, d + n) s = Some (q', d' + n)"
proof (induction s arbitrary: q d)
  case (Cons c s)
  from Cons.prems obtain q1 d1 where
    "jqlStep (q, d) c = Some (q1, d1)" "jqlRun (q1, d1) s = Some (q', d')"
    by (auto simp: bind_eq_Some_conv)
  then show ?case using jqlStep_deeper Cons.IH by simp
qed simp

text \<open>A text that does not underflow from depth \<open>d\<close> closes nothing that was open before it.\<close>

lemma closeAt_skip:
  assumes "jqlRun (q, d) s = Some (Out, d')"
  shows "closeAt (q, Suc d) i (s @ t) = closeAt (Out, Suc d') (i + length s) t"
  using assms
proof (induction s arbitrary: q d i)
  case Nil
  then show ?case by simp
next
  case (Cons c s)
  from Cons.prems obtain q1 d1 where st: "jqlStep (q, d) c = Some (q1, d1)"
    and rn: "jqlRun (q1, d1) s = Some (Out, d')"
    by (auto simp: bind_eq_Some_conv)
  from st have "jqlStep (q, Suc d) c = Some (q1, Suc d1)"
    using jqlStep_deeper [of q d c q1 d1 1] by simp
  with Cons.IH [OF rn] show ?case by simp
qed

lemma jqlStep_space: "spaceByte c \<Longrightarrow> jqlStep (Out, d) c = Some (Out, d)"
  by (auto simp: spaceByte_def spaceRunes_def)

lemma jqlRun_spaces_Out: "\<forall>c\<in>set s. spaceByte c \<Longrightarrow> jqlRun (Out, d) s = Some (Out, d)"
  by (induction s) (auto simp: jqlStep_space simp del: jqlStep.simps)

lemma jqlStep_space_In:
  "spaceByte c \<Longrightarrow> q = CHR 0x22 \<or> q = CHR 0x27 \<Longrightarrow> st = In q \<or> st = Esc q \<Longrightarrow>
   jqlStep (st, d) c = Some (In q, d)"
  by (auto simp: spaceByte_def spaceRunes_def)

definition quotesOk :: "qstate \<Rightarrow> bool" where
  "quotesOk st = (case st of Out \<Rightarrow> True | In q \<Rightarrow> q = CHR 0x22 \<or> q = CHR 0x27
     | Esc q \<Rightarrow> q = CHR 0x22 \<or> q = CHR 0x27)"

lemma jqlRun_quotesOk: "jqlRun (q, d) s = Some (q', d') \<Longrightarrow> quotesOk q \<Longrightarrow> quotesOk q'"
proof (induction s arbitrary: q d)
  case (Cons c s)
  from Cons.prems(1) obtain q1 d1 where
    "jqlStep (q, d) c = Some (q1, d1)" "jqlRun (q1, d1) s = Some (q', d')"
    by (auto simp: bind_eq_Some_conv)
  moreover from this(1) Cons.prems(2) have "quotesOk q1"
    by (cases "((q, d), c)" rule: jqlStep.cases) (auto simp: quotesOk_def split: if_splits nat.splits)
  ultimately show ?case using Cons.IH by blast
qed simp

lemma jqlRun_spaces_end:
  assumes "\<forall>c\<in>set s. spaceByte c" "quotesOk q" "jqlRun (q, d) s = Some (Out, d')"
  shows "q = Out \<and> d = d'"
  using assms
proof (induction s arbitrary: q d)
  case Nil
  then show ?case by simp
next
  case (Cons c s)
  show ?case
  proof (cases q)
    case Out
    with Cons.prems show ?thesis
      using jqlRun_spaces_Out [of "c # s" d] by simp
  next
    case (In x)
    with Cons.prems have "jqlStep (q, d) c = Some (In x, d)"
      by (intro jqlStep_space_In) (auto simp: quotesOk_def)
    with Cons.prems have "jqlRun (In x, d) s = Some (Out, d')" by simp
    with Cons.IH [of "In x" d] Cons.prems In show ?thesis by (simp add: quotesOk_def)
  next
    case (Esc x)
    with Cons.prems have "jqlStep (q, d) c = Some (In x, d)"
      by (intro jqlStep_space_In) (auto simp: quotesOk_def)
    with Cons.prems have "jqlRun (In x, d) s = Some (Out, d')" by simp
    with Cons.IH [of "In x" d] Cons.prems Esc show ?thesis by (simp add: quotesOk_def)
  qed
qed

lemma balanced_trimSpace:
  assumes "balanced s"
  shows "balanced (trimSpace s)"
proof -
  obtain l r where s: "s = l @ trimSpace s @ r" and sp: "\<forall>c\<in>set l \<union> set r. spaceByte c"
    using trimSpace_removed by blast
  have "jqlRun (Out, 0) (trimSpace s @ r) = Some (Out, 0)"
    using assms sp unfolding balanced_def
    by (subst (asm) s) (simp add: jqlRun_append jqlRun_spaces_Out)
  then obtain q d where "jqlRun (Out, 0) (trimSpace s) = Some (q, d)" "jqlRun (q, d) r = Some (Out, 0)"
    by (auto simp: jqlRun_append bind_eq_Some_conv)
  moreover from this have "quotesOk q" by (auto dest: jqlRun_quotesOk simp: quotesOk_def)
  ultimately show ?thesis
    using jqlRun_spaces_end [of r q d 0] sp by (auto simp: balanced_def)
qed

section \<open>The scan refines the specification\<close>

definition qOf :: "char option \<Rightarrow> qstate" where
  "qOf quote = (case quote of None \<Rightarrow> Out | Some q \<Rightarrow> In q)"

text \<open>
  A scan that ends outside quotes is a run of the specification; a clause start found on
  the way is a point where the run is outside quotes at depth 0.
\<close>

lemma take_skip: "i + 1 \<le> k \<Longrightarrow> take (k - i) (c # cs) = c # take (k - (i + 1)) cs"
proof -
  assume "i + 1 \<le> k"
  then have "k - i = Suc (k - (i + 1))" by arith
  then show ?thesis by simp
qed

lemma jqlScan_run:
  assumes "jqlScan i prev quote (int d) orderAt s = Inr (None, d', k')"
  shows "0 \<le> d' \<and> jqlRun (qOf quote, d) s = Some (Out, nat d') \<and>
    (k' = orderAt \<or> (\<exists>k. k' = Some k \<and> i \<le> k \<and> k \<le> i + length s
        \<and> jqlRun (qOf quote, d) (take (k - i) s) = Some (Out, 0)))"
  using assms
proof (induction s arbitrary: i prev quote d orderAt rule: length_induct)
  case (1 s)
  note IH = "1.IH"[rule_format]
  show ?case
  proof (cases s)
    case Nil
    with "1.prems" show ?thesis by (cases quote) (auto simp: qOf_def)
  next
    case (Cons c cs)
    have step: ?thesis
      if "jqlScan (i + 1) (Some c) quote' (int d1) orderAt cs = Inr (None, d', k')"
        and st: "jqlStep (qOf quote, d) c = Some (qOf quote', d1)" for quote' d1
    proof -
      have "0 \<le> d' \<and> jqlRun (qOf quote', d1) cs = Some (Out, nat d') \<and>
        (k' = orderAt \<or> (\<exists>k. k' = Some k \<and> i + 1 \<le> k \<and> k \<le> i + 1 + length cs
          \<and> jqlRun (qOf quote', d1) (take (k - (i + 1)) cs) = Some (Out, 0)))"
        by (rule IH [OF _ that(1)]) (simp add: Cons)
      moreover have "take (k - i) s = c # take (k - (i + 1)) cs" if "i + 1 \<le> k" for k
        using that Cons take_skip [of i k c cs] by simp
      ultimately show ?thesis using st Cons by auto
    qed
    show ?thesis
    proof (cases quote)
      case (Some q)
      show ?thesis
      proof (cases "c = CHR 0x5C")
        case True
        with Some Cons "1.prems" obtain x cs' where cs: "cs = x # cs'"
          and sc: "jqlScan (i + 2) (Some x) (Some q) (int d) orderAt cs' = Inr (None, d', k')"
          by (auto split: list.splits)
        have "0 \<le> d' \<and> jqlRun (qOf (Some q), d) cs' = Some (Out, nat d') \<and>
          (k' = orderAt \<or> (\<exists>k. k' = Some k \<and> i + 2 \<le> k \<and> k \<le> i + 2 + length cs'
            \<and> jqlRun (qOf (Some q), d) (take (k - (i + 2)) cs') = Some (Out, 0)))"
          by (rule IH [OF _ sc]) (simp add: Cons cs)
        moreover have "take (k - i) s = c # x # take (k - (i + 2)) cs'" if "i + 2 \<le> k" for k
        proof -
          from that have "k - i = Suc (Suc (k - (i + 2)))" by arith
          then show ?thesis using Cons cs by simp
        qed
        ultimately show ?thesis
          using True Some Cons cs by (auto simp: qOf_def)
      next
        case False
        show ?thesis
        proof (cases "c = q")
          case True
          with False "1.prems" Some Cons show ?thesis
            by (intro step [of None]) (simp_all add: qOf_def)
        next
          case other: False
          with False "1.prems" Some Cons show ?thesis
            by (intro step [of "Some q"]) (simp_all add: qOf_def)
        qed
      qed
    next
      case None
      show ?thesis
      proof (cases "c = CHR 0x22 \<or> c = CHR 0x27 \<or> c = CHR ''('' \<or> c = CHR '')''")
        case True
        then show ?thesis
        proof (elim disjE)
          assume "c = CHR '')''"
          with "1.prems" None Cons have "d \<noteq> 0" and
            "jqlScan (i + 1) (Some c) None (int (d - 1)) orderAt cs = Inr (None, d', k')"
            by (auto split: if_splits simp: of_nat_diff)
          then show ?thesis
            using \<open>c = CHR '')''\<close> None
            by (intro step [of None "d - 1"]) (simp_all add: qOf_def split: nat.splits)
        next
          assume "c = CHR ''(''"
          with "1.prems" None Cons have
            "jqlScan (i + 1) (Some c) None (int (Suc d)) orderAt cs = Inr (None, d', k')"
            by (simp add: add.commute)
          then show ?thesis
            using \<open>c = CHR ''(''\<close> None
            by (intro step [of None "Suc d"]) (simp_all add: qOf_def)
        next
          assume "c = CHR 0x22"
          with "1.prems" None Cons show ?thesis
            by (intro step [of "Some c"]) (simp_all add: qOf_def)
        next
          assume "c = CHR 0x27"
          with "1.prems" None Cons show ?thesis
            by (intro step [of "Some c"]) (simp_all add: qOf_def)
        qed
      next
        case False
        then have st: "jqlStep (qOf quote, d) c = Some (qOf None, d)"
          using None by (simp add: qOf_def)
        show ?thesis
        proof (cases "jqlScan (i + 1) (Some c) None (int d) orderAt cs = Inr (None, d', k')")
          case True
          then show ?thesis using st by (rule step)
        next
          case other: False
          with "1.prems" None Cons False have d0: "d = 0"
            and sc: "jqlScan (i + 1) (Some c) None (int d) (Some i) cs = Inr (None, d', k')"
            by (auto split: if_splits)
          have "0 \<le> d' \<and> jqlRun (qOf None, d) cs = Some (Out, nat d') \<and>
            (k' = Some i \<or> (\<exists>k. k' = Some k \<and> i + 1 \<le> k \<and> k \<le> i + 1 + length cs
              \<and> jqlRun (qOf None, d) (take (k - (i + 1)) cs) = Some (Out, 0)))"
            by (rule IH [OF _ sc]) (simp add: Cons)
          moreover have "take (k - i) s = c # take (k - (i + 1)) cs" if "i + 1 \<le> k" for k
            using that Cons take_skip [of i k c cs] by simp
          ultimately show ?thesis
            using st Cons None d0 by (auto simp: qOf_def)
        qed
      qed
    qed
  qed
qed

lemma splitJQL_balanced:
  assumes "splitJQLOrderBy jql = Inr (flt, order)"
  shows "balanced flt \<and> balanced order \<and> (order = [] \<or> rmatch orderByClause order)"
proof -
  from assms obtain k where sc: "jqlScan 0 None None 0 None jql = Inr (None, 0, k)"
    by (auto simp: splitJQLOrderBy_def rbind_Inr_iff split: if_splits)
  from jqlScan_run [of 0 None None 0 None jql 0 k] sc
  have run: "jqlRun (Out, 0) jql = Some (Out, 0)"
    and at: "\<And>j. k = Some j \<Longrightarrow> jqlRun (Out, 0) (take j jql) = Some (Out, 0)"
    by (auto simp: qOf_def)
  show ?thesis
  proof (cases k)
    case None
    with assms sc have "flt = trimSpace jql" "order = []"
      by (auto simp: splitJQLOrderBy_def)
    then show ?thesis
      using run balanced_trimSpace [of jql] by (simp add: balanced_def)
  next
    case (Some j)
    with assms sc have fo: "flt = trimSpace (take j jql)" "order = trimSpace (drop j jql)"
      "rmatch orderByClause order"
      by (auto simp: splitJQLOrderBy_def Let_def split: if_splits)
    from run at [OF Some] have "jqlRun (Out, 0) (drop j jql) = Some (Out, 0)"
      using jqlRun_append [of "(Out, 0)" "take j jql" "drop j jql"] by simp
    then show ?thesis
      using fo at [OF Some] balanced_trimSpace by (simp add: balanced_def)
  qed
qed

lemma word_byte_plain:
  assumes "isJQLWordByte c"
  shows "jqlStep (Out, d) c = Some (Out, d)"
proof -
  have "\<not> isJQLWordByte (CHR 0x22)" "\<not> isJQLWordByte (CHR 0x27)"
    "\<not> isJQLWordByte (CHR ''('')" "\<not> isJQLWordByte (CHR '')'')"
    by code_simp+
  with assms have "c \<noteq> CHR 0x22 \<and> c \<noteq> CHR 0x27 \<and> c \<noteq> CHR ''('' \<and> c \<noteq> CHR '')''" by metis
  then show ?thesis by simp
qed

lemma word_run: "\<forall>c\<in>set p. isJQLWordByte c \<Longrightarrow> jqlRun (Out, d) p = Some (Out, d)"
  by (induction p) (simp_all add: word_byte_plain del: jqlStep.simps)

lemma join_plain_run:
  "\<forall>p\<in>set ps. \<forall>c\<in>set p. isJQLWordByte c \<Longrightarrow>
    jqlRun (Out, d) (join '','' ps) = Some (Out, d)"
proof (induction ps)
  case (Cons p ps)
  then show ?case by (cases ps) (simp_all add: word_run jqlRun_append)
qed simp

lemma scopedJql_filtered:
  assumes "flt \<noteq> []"
  shows "scopedJql projects flt order =
    ''('' @ flt @ '') AND '' @ projectClause projects @ (if order = [] then [] else '' '' @ order)"
  using assms by (simp add: scopedJql_def Let_def)

text \<open>The parenthesis that the gateway opens before an agent's filter is closed by the
  one the gateway writes after it, at byte \<open>length flt + 1\<close>, and never by one of the
  filter's own: what follows it is the project clause and the ORDER BY clause, so no
  filter can step outside the scope (\<open>x) OR (project = OTHER\<close>).\<close>

theorem jql_filter_stays_wrapped:
  assumes "splitJQLOrderBy jql = Inr (flt, order)" and "flt \<noteq> []"
  shows "closeAt (Out, 0) 0 (scopedJql projects flt order) = Some (length flt + 1)
    \<and> drop (length flt + 1) (scopedJql projects flt order)
        = '') AND '' @ projectClause projects @ (if order = [] then [] else '' '' @ order)"
proof
  let ?rest = "'' AND '' @ projectClause projects @ (if order = [] then [] else '' '' @ order)"
  have "jqlRun (Out, 0) flt = Some (Out, 0)"
    using splitJQL_balanced [OF assms(1)] by (simp add: balanced_def)
  then show "closeAt (Out, 0) 0 (scopedJql projects flt order) = Some (length flt + 1)"
    using closeAt_skip [of Out 0 flt 0 1 "CHR '')'' # ?rest"] assms(2)
    by (simp add: scopedJql_filtered)
  show "drop (length flt + 1) (scopedJql projects flt order)
      = '') AND '' @ projectClause projects @ (if order = [] then [] else '' '' @ order)"
    using assms(2) by (simp add: scopedJql_filtered)
qed

lemma jql_filter_stays_wrapped_witness:
  "closeAt (Out, 0) 0 (scopedJql [''ACME''] ''a = 1'' []) = Some 6"
proof -
  have "splitJQLOrderBy ''a = 1'' = Inr (''a = 1'', [])" by code_simp
  from jql_filter_stays_wrapped [OF this, of "[''ACME'']"] show ?thesis by simp
qed



end
