(* ===== verification/Policy.thy ===== *)
theory Policy
  imports Jql "HOL-Library.Multiset"
begin

text \<open>
  Package \<open>internal/policy\<close>: the operations of operations.yaml, their registry, the checks
  of a request's parameters against them and the constraints. \<open>ValidateParams\<close> is proved
  equal to the declarative conformance relation \<open>conforms\<close>, and its verdict, message
  included, is proved independent of the order in which Go walks the parameter table.
\<close>

section \<open>Data\<close>

record MultipartSpec =
  mp_Field :: string
  mp_FilenameParam :: string
  mp_ContentParam :: string

record ParamDef =
  pd_Type :: string
  pd_Required :: bool
  pd_From :: string
  pd_Values :: "string list option"
  pd_Max :: int
  pd_MaxLen :: int
  pd_Pattern :: string
  pd_Keys :: "string list option"
  pd_Default :: "json option"
  pd_MultiSegment :: bool

record ResponsePolicy =
  resp_AllowFields :: "string list option"

record Operation =
  op_ID :: string
  op_Connector :: string
  op_Site :: string
  op_Method :: string
  op_Path :: string
  op_Params :: "ParamDef gomap"
  op_BodyTemplate :: string
  op_Headers :: "string gomap"
  op_Multipart :: "MultipartSpec option"
  op_SlackFileContent :: bool
  op_Constraints :: "params list"
  op_Response :: ResponsePolicy

type_synonym TunnelChecker = "string \<Rightarrow> string + (bool \<times> string)"

record OperationRegistry =
  reg_Operations :: "Operation gomap"
  reg_TunnelChecker :: "TunnelChecker option"

definition zeroParam :: ParamDef where
  "zeroParam =
     \<lparr>pd_Type = [], pd_Required = False, pd_From = [], pd_Values = None, pd_Max = 0, pd_MaxLen = 0,
      pd_Pattern = [], pd_Keys = None, pd_Default = None, pd_MultiSegment = False\<rparr>"

definition zeroOperation :: Operation where
  "zeroOperation =
     \<lparr>op_ID = [], op_Connector = [], op_Site = [], op_Method = [], op_Path = [], op_Params = [],
      op_BodyTemplate = [], op_Headers = [], op_Multipart = None, op_SlackFileContent = False,
      op_Constraints = [], op_Response = \<lparr>resp_AllowFields = None\<rparr>\<rparr>"

section \<open>Loading\<close>

datatype opsError =
    OpsUnreadable string
  | InvalidPattern string string
  | InvalidMultipart string
  | NilOperation string  \<comment> \<open>\<open>name: null\<close>: a nil pointer dereference, a panic in Go\<close>

definition loadPatterns :: "golib \<Rightarrow> string \<Rightarrow> Operation \<Rightarrow> opsError + unit" where
  "loadPatterns L opId op =
     checkAll (\<lambda>(name, def).
       ensure (pd_Pattern def = [] \<or> lib_regexp L (pd_Pattern def) \<noteq> None) (InvalidPattern opId name))
       (op_Params op)"

definition loadMultipart :: "string \<Rightarrow> Operation \<Rightarrow> opsError + unit" where
  "loadMultipart opId op =
     (case op_Multipart op of
        None \<Rightarrow> Inr ()
      | Some mp \<Rightarrow>
          (let hasName = mhas (op_Params op) (mp_FilenameParam mp);
               hasContent = mhas (op_Params op) (mp_ContentParam mp)
           in ensure (\<not> (mp_Field mp = [] \<or> \<not> hasName \<or> \<not> hasContent \<or> op_BodyTemplate op \<noteq> []))
                (InvalidMultipart opId)))"

fun loadOperations ::
    "golib \<Rightarrow> Operation option gomap \<Rightarrow> OperationRegistry \<Rightarrow> opsError + OperationRegistry" where
  "loadOperations L [] r = Inr r"
| "loadOperations L ((opId, None) # rest) r = Inl (NilOperation opId)"
| "loadOperations L ((opId, Some op) # rest) r =
     rbind (loadPatterns L opId op) (\<lambda>_.
     rbind (loadMultipart opId op) (\<lambda>_.
     loadOperations L rest
       (r\<lparr>reg_Operations := mput opId (op\<lparr>op_ID := opId\<rparr>) (reg_Operations r)\<rparr>)))"

text \<open>\<open>read\<close> stands for reading the file and the YAML decoder.\<close>

definition loadFromFile ::
    "golib \<Rightarrow> (string \<Rightarrow> string + Operation option gomap) \<Rightarrow> string \<Rightarrow> OperationRegistry
       \<Rightarrow> opsError + OperationRegistry" where
  "loadFromFile L read path r =
     rbind (mapErr OpsUnreadable (read path)) (\<lambda>cfg. loadOperations L cfg r)"

definition jiraSearch :: Operation where
  "jiraSearch = zeroOperation
     \<lparr>op_ID := ''jira.search'', op_Connector := ''http-rest'', op_Site := ''jira'',
      op_Method := ''POST'', op_Path := ''/rest/api/3/search/jql'',
      op_Params :=
        [(''jql'', zeroParam\<lparr>pd_Type := ''string'', pd_Required := True\<rparr>),
         (''maxResults'', zeroParam\<lparr>pd_Type := ''int'', pd_Max := 100, pd_Default := Some (JInt 50)\<rparr>)],
      op_Response := \<lparr>resp_AllowFields =
        Some [''issues[].key'', ''issues[].fields.summary'', ''issues[].fields.status'']\<rparr>\<rparr>"

definition jiraCreate :: Operation where
  \<open>jiraCreate = zeroOperation
     \<lparr>op_ID := ''jira.create'', op_Connector := ''http-rest'', op_Site := ''jira'',
      op_Method := ''POST'', op_Path := ''/rest/api/2/issue'',
      op_Params :=
        [(''project'', zeroParam\<lparr>pd_Type := ''enum'', pd_Required := True\<rparr>),
         (''type'', zeroParam\<lparr>pd_Type := ''enum'', pd_Values := Some [''Bug'', ''Task'', ''Story''],
            pd_Required := True\<rparr>),
         (''summary'', zeroParam\<lparr>pd_Type := ''string'', pd_MaxLen := 255, pd_Required := True\<rparr>),
         (''description'', zeroParam\<lparr>pd_Type := ''string'', pd_MaxLen := 8000\<rparr>)],
      op_BodyTemplate :=
        ''{"fields":{"project":{"key":"{{project}}"},"issuetype":{"name":"{{type}}"},"summary":"{{summary}}","description":"{{description}}"}}''\<rparr>\<close>

definition jiraComment :: Operation where
  "jiraComment = zeroOperation
     \<lparr>op_ID := ''jira.comment'', op_Connector := ''http-rest'', op_Site := ''jira'',
      op_Method := ''POST'', op_Path := ''/rest/api/3/issue/{issueKey}/comment'',
      op_Params :=
        [(''issueKey'', zeroParam\<lparr>pd_Type := ''string'', pd_Required := True\<rparr>),
         (''body'', zeroParam\<lparr>pd_Type := ''string'', pd_MaxLen := 8000, pd_Required := True\<rparr>)]\<rparr>"

definition jiraStatus :: Operation where
  "jiraStatus = zeroOperation
     \<lparr>op_ID := ''jira.status'', op_Connector := ''http-rest'', op_Site := ''jira'',
      op_Method := ''GET'', op_Path := ''/rest/api/3/issue/{issueKey}/transitions'',
      op_Params := [(''issueKey'', zeroParam\<lparr>pd_Type := ''string'', pd_Required := True\<rparr>)]\<rparr>"

definition pgQuery :: Operation where
  "pgQuery = zeroOperation
     \<lparr>op_ID := ''pg.query'', op_Connector := ''postgres'', op_Site := ''postgres'',
      op_Params :=
        [(''env'', zeroParam\<lparr>pd_Type := ''string'', pd_Required := True\<rparr>),
         (''db'', zeroParam\<lparr>pd_Type := ''string'', pd_Required := True\<rparr>),
         (''sql'', zeroParam\<lparr>pd_Type := ''string'', pd_Required := True\<rparr>)]\<rparr>"

definition registerBuiltIn :: "OperationRegistry \<Rightarrow> OperationRegistry" where
  "registerBuiltIn r =
     r\<lparr>reg_Operations :=
         mput ''pg.query'' pgQuery (mput ''jira.status'' jiraStatus
           (mput ''jira.comment'' jiraComment (mput ''jira.create'' jiraCreate
             (mput ''jira.search'' jiraSearch (reg_Operations r)))))\<rparr>"

definition NewRegistry ::
    "golib \<Rightarrow> (string \<Rightarrow> string + Operation option gomap) \<Rightarrow> string \<Rightarrow> opsError + OperationRegistry" where
  "NewRegistry L read path =
     (let reg = \<lparr>reg_Operations = [], reg_TunnelChecker = None\<rparr>
      in rbind (if path \<noteq> [] then loadFromFile L read path reg else Inr reg) (\<lambda>reg.
           Inr (if reg_Operations reg = [] then registerBuiltIn reg else reg)))"

definition Get :: "OperationRegistry \<Rightarrow> string \<Rightarrow> Operation option" where
  "Get r opId = mget (reg_Operations r) opId"

section \<open>Parameters\<close>

fun addDefaults :: "ParamDef gomap \<Rightarrow> params \<Rightarrow> params" where
  "addDefaults [] ps = ps"
| "addDefaults ((name, def) # rest) ps =
     addDefaults rest
       (case pd_Default def of
          Some v \<Rightarrow> if \<not> mhas ps name then mput name v ps else ps
        | None \<Rightarrow> ps)"

definition ApplyDefaults :: "Operation \<Rightarrow> goMapVal \<Rightarrow> goMapVal" where
  "ApplyDefaults op ps =
     (case ps of NilMap \<Rightarrow> NilMap | MapOf m \<Rightarrow> MapOf (addDefaults (op_Params op) m))"

datatype paramError =
    MissingParam string string
  | NotAString string
  | ExceedsMaxLen string int
  | ParamPatternInvalid string
  | MustMatch string string
  | NotAnObject string
  | KeyNotAllowed string string "string list"
  | NotAnInteger string
  | ExceedsMax string int
  | NotABool string
  | NotInAllowList string string string
  | NotOneOf string "string list"
  | UnknownParam string string

definition containsString :: "string list \<Rightarrow> string \<Rightarrow> bool" where
  "containsString xs s = List.member xs s"

definition paramHint :: "Operation \<Rightarrow> string" where
  "paramHint op =
     (let valid = sort ((if \<not> mhas (op_Params op) ''env'' then [''env''] else []) @ mkeys (op_Params op));
          required = sort (mkeys (filter (\<lambda>(name, def). pd_Required def) (op_Params op)))
      in if required = [] then '' (valid: '' @ join '', '' valid @ '')''
         else '' (valid: '' @ join '', '' valid @ ''; required: '' @ join '', '' required @ '')'')"

definition checkString :: "golib \<Rightarrow> string \<Rightarrow> ParamDef \<Rightarrow> json \<Rightarrow> paramError + unit" where
  "checkString L name def v =
     (case asString v of
        None \<Rightarrow> Inl (NotAString name)
      | Some s \<Rightarrow>
          if 0 < pd_MaxLen def \<and> pd_MaxLen def < int (length s)
          then Inl (ExceedsMaxLen name (pd_MaxLen def))
          else if pd_Pattern def \<noteq> [] then
            (case lib_regexp L (pd_Pattern def) of
               None \<Rightarrow> Inl (ParamPatternInvalid name)
             | Some matches \<Rightarrow> ensure (matches s) (MustMatch name (pd_Pattern def)))
          else Inr ())"

definition checkObject :: "string \<Rightarrow> ParamDef \<Rightarrow> json \<Rightarrow> paramError + unit" where
  "checkObject name def v =
     (case asObject v of
        None \<Rightarrow> Inl (NotAnObject name)
      | Some m \<Rightarrow>
          (case pd_Keys def of
             None \<Rightarrow> Inr ()
           | Some ks \<Rightarrow>
               checkAll (\<lambda>k. ensure (containsString ks k) (KeyNotAllowed name k ks)) (mkeys m)))"

definition checkEnum :: "Workspace \<Rightarrow> string \<Rightarrow> ParamDef \<Rightarrow> json \<Rightarrow> paramError + unit" where
  "checkEnum ws name def v =
     (case asString v of
        None \<Rightarrow> Inl (NotAString name)
      | Some s \<Rightarrow>
          if hasPrefix (pd_From def) ''$workspace.'' then
            (let field = trimPrefix (pd_From def) ''$workspace.'';
                 (allowed, known) = List (ws_Policy ws) field
             in if known \<and> 0 < length allowed
                then ensure (List.member allowed s) (NotInAllowList name s field) else Inr ())
          else (case pd_Values def of
                  None \<Rightarrow> Inr ()
                | Some vs \<Rightarrow> ensure (List.member vs s) (NotOneOf name vs)))"

definition checkType ::
    "golib \<Rightarrow> Workspace \<Rightarrow> string \<Rightarrow> ParamDef \<Rightarrow> json \<Rightarrow> paramError + unit" where
  "checkType L ws name def v =
     (if pd_Type def = ''string'' then checkString L name def v
      else if pd_Type def = ''object'' then checkObject name def v
      else if pd_Type def = ''int'' then
        (case asNumber v of
           None \<Rightarrow> Inl (NotAnInteger name)
         | Some f \<Rightarrow> ensure (\<not> (0 < pd_Max def \<and> fLess (float64OfInt (pd_Max def)) f))
                       (ExceedsMax name (pd_Max def)))
      else if pd_Type def = ''bool'' then ensure (asBool v \<noteq> None) (NotABool name)
      else if pd_Type def = ''enum'' then checkEnum ws name def v
      else Inr ())"

definition validateParam ::
    "golib \<Rightarrow> Operation \<Rightarrow> params \<Rightarrow> Workspace \<Rightarrow> string \<Rightarrow> paramError + unit" where
  "validateParam L op ps ws name =
     (case mget (op_Params op) name of
        None \<Rightarrow> Inr ()
      | Some def \<Rightarrow>
          (case mget ps name of
             None \<Rightarrow> ensure (\<not> pd_Required def) (MissingParam name (paramHint op))
           | Some v \<Rightarrow> checkType L ws name def v))"

definition ValidateParams ::
    "golib \<Rightarrow> Operation \<Rightarrow> params \<Rightarrow> Workspace \<Rightarrow> paramError + unit" where
  "ValidateParams L op ps ws =
     rbind (checkAll (validateParam L op ps ws) (sortedKeys (op_Params op))) (\<lambda>_.
     checkAll (\<lambda>name.
       ensure (name = ''env'' \<or> name = ''cluster'' \<or> mhas (op_Params op) name)
         (UnknownParam name (paramHint op))) (mkeys ps))"

section \<open>Constraints and tunnels\<close>

datatype constraintError =
    JqlScope jqlError
  | NoProjectsListed string

text \<open>The projects a \<open>jql_scope\<close> names; \<open>None\<close> is the nil slice.\<close>

definition constraintProjects :: "Operation \<Rightarrow> params \<Rightarrow> Workspace \<Rightarrow> constraintError + string list option" where
  "constraintProjects op con ws =
     (case mget con ''projects'' of
        Some (JStr s) \<Rightarrow>
          Inr (if hasPrefix s ''$workspace.'' then
                 (if s = ''$workspace.jira_projects'' then Some (wp_JiraProjects (ws_Policy ws))
                  else if s = ''$workspace.bitbucket_repos'' then wp_BitbucketRepos (ws_Policy ws)
                  else if s = ''$workspace.pg_allowed_tables'' then wp_PgAllowedTables (ws_Policy ws)
                  else None)
               else None)
      | Some (JArr vs) \<Rightarrow>
          (let projects = List.map_filter
                 (\<lambda>p. case asString p of Some s \<Rightarrow> if s \<noteq> [] then Some s else None | None \<Rightarrow> None) vs
           in if projects = [] then Inl (NoProjectsListed (op_ID op)) else Inr (Some projects))
      | _ \<Rightarrow> Inr None)"

definition checkConstraint :: "Operation \<Rightarrow> Workspace \<Rightarrow> params \<Rightarrow> params \<Rightarrow> constraintError + params" where
  "checkConstraint op ws con ps =
     (if strParam con ''type'' = ''jql_scope'' then
        rbind (constraintProjects op con ws) (\<lambda>projects.
          mapErr JqlScope (JQLScopeCheck projects ps ws))
      else Inr ps)"

fun checkConstraints :: "Operation \<Rightarrow> Workspace \<Rightarrow> params list \<Rightarrow> params \<Rightarrow> constraintError + params" where
  "checkConstraints op ws [] ps = Inr ps"
| "checkConstraints op ws (con # rest) ps =
     rbind (checkConstraint op ws con ps) (checkConstraints op ws rest)"

definition CheckConstraints :: "Operation \<Rightarrow> params \<Rightarrow> Workspace \<Rightarrow> constraintError + params" where
  "CheckConstraints op ps ws = checkConstraints op ws (op_Constraints op) ps"

datatype tunnelError =
    NoTunnelChecker
  | TunnelCheckFailed string
  | TunnelDown string string

definition CheckTunnel :: "OperationRegistry \<Rightarrow> string \<Rightarrow> tunnelError + unit" where
  "CheckTunnel r name =
     (case reg_TunnelChecker r of
        None \<Rightarrow> Inl NoTunnelChecker
      | Some check \<Rightarrow>
          if name = [] then Inr ()
          else (case check name of
                  Inl e \<Rightarrow> Inl (TunnelCheckFailed e)
                | Inr (connected, details) \<Rightarrow> ensure connected (TunnelDown name details)))"

section \<open>What a conforming request is\<close>

text \<open>One rule for each type a parameter can be declared with; other types are not checked.\<close>

inductive hasType :: "golib \<Rightarrow> Workspace \<Rightarrow> ParamDef \<Rightarrow> json \<Rightarrow> bool" for L ws where
  T_string: "\<lbrakk>pd_Type d = ''string''; pd_MaxLen d \<le> 0 \<or> int (length s) \<le> pd_MaxLen d;
     pd_Pattern d = [] \<or> (\<exists>m. lib_regexp L (pd_Pattern d) = Some m \<and> m s)\<rbrakk>
     \<Longrightarrow> hasType L ws d (JStr s)"
| T_object: "\<lbrakk>pd_Type d = ''object''; \<And>ks. pd_Keys d = Some ks \<Longrightarrow> fst ` set m \<subseteq> set ks\<rbrakk>
     \<Longrightarrow> hasType L ws d (JObj m)"
| T_int: "\<lbrakk>pd_Type d = ''int''; pd_Max d \<le> 0 \<or> \<not> fLess (float64OfInt (pd_Max d)) f\<rbrakk>
     \<Longrightarrow> hasType L ws d (JNum f)"
| T_bool: "pd_Type d = ''bool'' \<Longrightarrow> hasType L ws d (JBool b)"
| T_enum_from: "\<lbrakk>pd_Type d = ''enum''; pd_From d = ''$workspace.'' @ field;
     fst (List (ws_Policy ws) field) = [] \<or> s \<in> set (fst (List (ws_Policy ws) field))\<rbrakk>
     \<Longrightarrow> hasType L ws d (JStr s)"
| T_enum: "\<lbrakk>pd_Type d = ''enum''; \<not> prefix ''$workspace.'' (pd_From d);
     \<And>vs. pd_Values d = Some vs \<Longrightarrow> s \<in> set vs\<rbrakk>
     \<Longrightarrow> hasType L ws d (JStr s)"
| T_other: "pd_Type d \<notin> {''string'', ''object'', ''int'', ''bool'', ''enum''} \<Longrightarrow> hasType L ws d v"

inductive_cases hasTypeE [elim!]: "hasType L ws d v"

definition conforms :: "golib \<Rightarrow> Operation \<Rightarrow> params \<Rightarrow> Workspace \<Rightarrow> bool" where
  "conforms L op ps ws \<longleftrightarrow>
     (\<forall>name d. mget (op_Params op) name = Some d \<longrightarrow>
        (pd_Required d \<longrightarrow> mhas ps name) \<and> (\<forall>v. mget ps name = Some v \<longrightarrow> hasType L ws d v))
     \<and> (\<forall>name. mhas ps name \<longrightarrow> name \<in> {''env'', ''cluster''} \<or> mhas (op_Params op) name)"

lemma List_unknown: "\<not> snd (List p f) \<Longrightarrow> fst (List p f) = []"
  by (auto simp: List_def split: if_splits)

lemma checkString_iff:
  "checkString L n d v = Inr u \<longleftrightarrow>
     (\<exists>s. v = JStr s \<and> (pd_MaxLen d \<le> 0 \<or> int (length s) \<le> pd_MaxLen d)
        \<and> (pd_Pattern d = [] \<or> (\<exists>m. lib_regexp L (pd_Pattern d) = Some m \<and> m s)))"
  by (cases v) (auto simp: checkString_def split: option.splits)

lemma checkObject_iff:
  "checkObject n d v = Inr u \<longleftrightarrow>
     (\<exists>m. v = JObj m \<and> (\<forall>ks. pd_Keys d = Some ks \<longrightarrow> fst ` set m \<subseteq> set ks))"
  by (cases v) (auto simp: checkObject_def checkAll_Inr_iff containsString_def List.member_iff
      split: option.splits)

lemma checkEnum_iff:
  "checkEnum ws n d v = Inr u \<longleftrightarrow>
     (\<exists>s. v = JStr s \<and>
        (if prefix ''$workspace.'' (pd_From d)
         then fst (List (ws_Policy ws) (trimPrefix (pd_From d) ''$workspace.'')) = []
              \<or> s \<in> set (fst (List (ws_Policy ws) (trimPrefix (pd_From d) ''$workspace.'')))
         else \<forall>vs. pd_Values d = Some vs \<longrightarrow> s \<in> set vs))"
  using List_unknown [of "ws_Policy ws" "trimPrefix (pd_From d) ''$workspace.''"]
  by (cases v) (auto simp: checkEnum_def hasPrefix_iff List.member_iff Let_def
      split: prod.splits option.splits)

lemma checkType_iff: "checkType L ws n d v = Inr u \<longleftrightarrow> hasType L ws d v"
proof
  assume ok: "checkType L ws n d v = Inr u"
  show "hasType L ws d v"
  proof (cases "pd_Type d = ''enum''")
    case True
    with ok have "checkEnum ws n d v = Inr u" by (simp add: checkType_def)
    then obtain s where s: "v = JStr s" and
      c: "if prefix ''$workspace.'' (pd_From d)
         then fst (List (ws_Policy ws) (trimPrefix (pd_From d) ''$workspace.'')) = []
              \<or> s \<in> set (fst (List (ws_Policy ws) (trimPrefix (pd_From d) ''$workspace.'')))
         else \<forall>vs. pd_Values d = Some vs \<longrightarrow> s \<in> set vs"
      by (auto simp: checkEnum_iff)
    show ?thesis
    proof (cases "prefix ''$workspace.'' (pd_From d)")
      case pre: True
      then have "pd_From d = ''$workspace.'' @ trimPrefix (pd_From d) ''$workspace.''"
        by (simp add: prefix_def) (metis trimPrefix_append append_Cons append_Nil)
      with True c pre s show ?thesis by (metis T_enum_from)
    next
      case False
      with True c s show ?thesis by (auto intro!: T_enum)
    qed
  next
    case False
    with ok show ?thesis
      by (cases v) (auto simp: checkType_def checkString_iff checkObject_iff split: if_splits
          intro: hasType.intros)
  qed
next
  assume "hasType L ws d v"
  then show "checkType L ws n d v = Inr u"
    by cases (auto simp: checkType_def checkString_iff checkObject_iff checkEnum_iff
        trimPrefix_append [of "''$workspace.''", simplified append_Cons append_Nil])
qed

lemma validateParam_iff:
  "validateParam L op ps ws name = Inr () \<longleftrightarrow>
     (\<forall>d. mget (op_Params op) name = Some d \<longrightarrow>
        (pd_Required d \<longrightarrow> mhas ps name) \<and> (\<forall>v. mget ps name = Some v \<longrightarrow> hasType L ws d v))"
  by (auto simp: validateParam_def checkType_iff mhas_def split: option.splits)

lemma ValidateParams_hasType:
  assumes "ValidateParams L op ps ws = Inr u" and "mget (op_Params op) name = Some d"
    and "mget ps name = Some v"
  shows "hasType L ws d v"
proof -
  from assms(2) have "name \<in> set (mkeys (op_Params op))" by (metis map_of_SomeD image_eqI fst_conv list.set_map)
  with assms(1) have "validateParam L op ps ws name = Inr ()"
    by (auto simp: ValidateParams_def rbind_Inr_iff checkAll_Inr_iff)
  with assms(2,3) show ?thesis by (simp add: validateParam_iff)
qed

lemma ValidateParams_iff:
  "ValidateParams L op ps ws = Inr u \<longleftrightarrow> conforms L op ps ws"
proof -
  show ?thesis
    by (auto simp: validateParam_iff ValidateParams_def conforms_def rbind_Inr_iff checkAll_Inr_iff mhas_iff
        dest: map_of_SomeD) (metis image_eqI fst_conv map_of_SomeD)+
qed

text \<open>C16: \<open>ValidateParams\<close> accepts a request exactly when it conforms to the operation's
  declaration: every required parameter is there, every declared parameter has its declared
  type, length, pattern, bound, keys or allowed values, and nothing undeclared is sent apart
  from \<open>env\<close> and \<open>cluster\<close>.\<close>

theorem ValidateParams_conforms: "isOk (ValidateParams L op ps ws) \<longleftrightarrow> conforms L op ps ws"
  by (simp add: isOk_iff ValidateParams_iff)

lemma sort_mset_eq: "mset xs = mset ys \<Longrightarrow> sort xs = sort (ys :: string list)"
  by (intro properties_for_sort [symmetric]) (simp_all add: properties_for_sort)

text \<open>The verdict on a request, its message included, does not depend on the order in
  which Go happens to iterate over the operation's parameter table: a request with several
  errors is always told the same one.\<close>

theorem ValidateParams_deterministic:
  assumes "distinct (mkeys pds)" and "set pds = set (op_Params op)"
    and "distinct (mkeys (op_Params op))"
  shows "ValidateParams L (op\<lparr>op_Params := pds\<rparr>) ps ws = ValidateParams L op ps ws"
proof -
  have m: "mget pds = mget (op_Params op)"
    using assms by (metis map_of_inject_set)
  have ms: "mset pds = mset (op_Params op)"
    using assms set_eq_iff_mset_eq_distinct [of pds "op_Params op"] by (simp add: distinct_map)
  then have k: "mset (mkeys pds) = mset (mkeys (op_Params op))" by (metis mset_map)
  have "mset (filter (\<lambda>(name, def). pd_Required def) pds)
      = mset (filter (\<lambda>(name, def). pd_Required def) (op_Params op))"
    using ms by (metis mset_filter)
  then have "mset (mkeys (filter (\<lambda>(name, def). pd_Required def) pds))
      = mset (mkeys (filter (\<lambda>(name, def). pd_Required def) (op_Params op)))"
    by (metis mset_map)
  then have req: "sort (mkeys (filter (\<lambda>(name, def). pd_Required def) pds))
      = sort (mkeys (filter (\<lambda>(name, def). pd_Required def) (op_Params op)))"
    by (rule sort_mset_eq)
  have val: "sort (xs @ mkeys pds) = sort (xs @ mkeys (op_Params op))" for xs
    by (rule sort_mset_eq) (simp only: mset_append k)
  have upd: "op_Params (op\<lparr>op_Params := pds\<rparr>) = pds" by simp
  have "paramHint (op\<lparr>op_Params := pds\<rparr>) = paramHint op"
    unfolding paramHint_def mhas_def by (simp only: upd m req val)
  moreover have "sortedKeys pds = sortedKeys (op_Params op)"
    using k sort_mset_eq by (auto simp: sortedKeys_def)
  moreover from calculation have "validateParam L (op\<lparr>op_Params := pds\<rparr>) ps ws = validateParam L op ps ws"
    using m by (intro ext) (simp add: validateParam_def split: option.split)
  ultimately show ?thesis
    using m by (simp add: ValidateParams_def mhas_def)
qed

lemma ValidateParams_deterministic_witness:
  "ValidateParams exampleLib (jiraComment\<lparr>op_Params := rev (op_Params jiraComment)\<rparr>) [] zeroWorkspace
     = ValidateParams exampleLib jiraComment [] zeroWorkspace"
  by (rule ValidateParams_deterministic) (simp_all add: jiraComment_def insert_commute)

section \<open>Defaults and constraints\<close>

lemma addDefaults_keep: "mget ps k = Some v \<Longrightarrow> mget (addDefaults pds ps) k = Some v"
proof (induction pds ps rule: addDefaults.induct)
  case (2 n d rest ps)
  let ?ps = "case pd_Default d of Some v \<Rightarrow> if \<not> mhas ps n then mput n v ps else ps | None \<Rightarrow> ps"
  from "2.prems" have "mget ?ps k = Some v" by (auto simp: mhas_def split: option.split)
  with "2.IH" show ?case by simp
qed simp

lemma mget_addDefaults:
  "distinct (mkeys pds) \<Longrightarrow> mget (addDefaults pds ps) k =
     (case mget ps k of Some v \<Rightarrow> Some v
      | None \<Rightarrow> (case mget pds k of None \<Rightarrow> None | Some d \<Rightarrow> pd_Default d))"
proof (induction pds ps rule: addDefaults.induct)
  case (2 n d rest ps)
  let ?ps = "case pd_Default d of Some v \<Rightarrow> if \<not> mhas ps n then mput n v ps else ps | None \<Rightarrow> ps"
  have "mget rest n = None" using "2.prems" by (simp add: map_of_eq_None_iff)
  moreover have "mget ?ps k = (case mget ps k of Some v \<Rightarrow> Some v
      | None \<Rightarrow> if k = n then pd_Default d else None)"
    by (auto simp: mhas_def split: option.split)
  moreover have "mget (addDefaults rest ?ps) k = (case mget ?ps k of Some v \<Rightarrow> Some v
      | None \<Rightarrow> (case mget rest k of None \<Rightarrow> None | Some d \<Rightarrow> pd_Default d))"
    using "2" by simp
  ultimately show ?case by (auto split: option.splits)
qed (simp split: option.splits)

lemma distinct_addDefaults: "distinct (mkeys ps) \<Longrightarrow> distinct (mkeys (addDefaults pds ps))"
  by (induction pds ps rule: addDefaults.induct) (auto split: option.splits)

text \<open>\<open>ApplyDefaults\<close> gives every declared parameter that the request leaves out its
  declared default and changes nothing else, whatever the order of the table.\<close>

theorem ApplyDefaults_spec:
  assumes "distinct (mkeys (op_Params op))"
  shows "mget (mapEntries (ApplyDefaults op (MapOf ps))) k =
    (if mhas ps k then mget ps k
     else (case mget (op_Params op) k of None \<Rightarrow> None | Some d \<Rightarrow> pd_Default d))"
  using assms by (auto simp: ApplyDefaults_def mget_addDefaults mhas_def split: option.splits)

lemma ApplyDefaults_spec_witness:
  "mget (mapEntries (ApplyDefaults jiraSearch (MapOf []))) ''maxResults'' =
    (if mhas ([] :: params) ''maxResults'' then mget [] ''maxResults''
     else (case mget (op_Params jiraSearch) ''maxResults'' of None \<Rightarrow> None | Some d \<Rightarrow> pd_Default d))"
  by (rule ApplyDefaults_spec) (simp add: jiraSearch_def)

lemma JQLScopeCheck_other:
  "JQLScopeCheck cp ps ws = Inr ps' \<Longrightarrow> k \<noteq> ''jql'' \<Longrightarrow> mget ps' k = mget ps k"
  by (auto simp: JQLScopeCheck_def Let_def rbind_Inr_iff split: option.splits json.splits if_splits)

lemma checkConstraint_other:
  "checkConstraint op ws con ps = Inr ps' \<Longrightarrow> k \<noteq> ''jql'' \<Longrightarrow> mget ps' k = mget ps k"
  by (auto simp: checkConstraint_def rbind_Inr_iff dest: JQLScopeCheck_other split: if_splits)

lemma checkConstraints_other:
  "checkConstraints op ws cs ps = Inr ps' \<Longrightarrow> k \<noteq> ''jql'' \<Longrightarrow> mget ps' k = mget ps k"
  by (induction op ws cs ps rule: checkConstraints.induct)
    (auto simp: rbind_Inr_iff dest: checkConstraint_other)

lemma checkConstraints_append:
  "checkConstraints op ws (as @ bs) ps
     = rbind (checkConstraints op ws as ps) (checkConstraints op ws bs)"
proof (induction op ws as ps rule: checkConstraints.induct)
  case (2 op ws con rest ps)
  then have "checkConstraints op ws (rest @ bs)
      = (\<lambda>x. rbind (checkConstraints op ws rest x) (checkConstraints op ws bs))"
    by (intro ext)
  then show ?case by (simp add: rbind_assoc)
qed simp

lemma checkConstraints_no_scope:
  "\<forall>con\<in>set cs. strParam con ''type'' \<noteq> ''jql_scope'' \<Longrightarrow> checkConstraints op ws cs ps = Inr ps"
  by (induction cs) (simp_all add: checkConstraint_def)

text \<open>The project keys of a literal list.\<close>

definition literalProjects :: "json list \<Rightarrow> string list" where
  "literalProjects vs = [s. JStr s \<leftarrow> vs, s \<noteq> []]"

lemma literalProjects_code:
  "List.map_filter
     (\<lambda>p. case asString p of Some s \<Rightarrow> if s \<noteq> [] then Some s else None | None \<Rightarrow> None) vs
   = literalProjects vs"
  unfolding literalProjects_def by (induction vs) (auto simp: map_filter_simps split: json.splits option.splits)

text \<open>An operation that pins its Jira projects in a literal list never sends a query of
  another project, whatever the workspace allows: the query that leaves \<open>CheckConstraints\<close>
  is the agent's filter conjoined to exactly that list, and a literal list without a project
  denies the call instead of lifting the scope.\<close>

theorem CheckConstraints_pins_projects:
  assumes "op_Constraints op = before @ con # after"
    and "strParam con ''type'' = ''jql_scope''" and "mget con ''projects'' = Some (JArr vs)"
    and "\<forall>c\<in>set after. strParam c ''type'' \<noteq> ''jql_scope''"
    and "CheckConstraints op ps ws = Inr ps'"
  shows "literalProjects vs \<noteq> [] \<and>
    (\<exists>flt order. mget ps' ''jql'' = Some (JStr (scopedJql (literalProjects vs) flt order))
       \<and> balanced flt \<and> (order = [] \<or> order \<in> lang orderByClause))
    \<and> (\<forall>k. k \<noteq> ''jql'' \<longrightarrow> mget ps' k = mget ps k)"
proof -
  from assms(1,4,5) obtain ps1 where p1: "checkConstraint op ws con ps1 = Inr ps'"
    by (auto simp: CheckConstraints_def checkConstraints_append rbind_Inr_iff
        checkConstraints_no_scope)
  then have ne: "literalProjects vs \<noteq> []"
    and sc: "JQLScopeCheck (Some (literalProjects vs)) ps1 ws = Inr ps'"
    using assms(2,3)
    by (auto simp: checkConstraint_def constraintProjects_def literalProjects_code Let_def
        split: if_splits)
  from sc ne obtain jql flt order where split: "splitJQLOrderBy jql = Inr (flt, order)"
    and ps': "ps' = mput ''jql'' (JStr (scopedJql (literalProjects vs) flt order)) ps1"
    by (auto simp: JQLScopeCheck_def rbind_Inr_iff split: option.splits json.splits if_splits)
  from splitJQL_balanced [OF split]
  have "balanced flt \<and> (order = [] \<or> order \<in> lang orderByClause)" by (simp add: rmatch_iff)
  moreover have "mget ps' ''jql'' = Some (JStr (scopedJql (literalProjects vs) flt order))"
    by (simp add: ps')
  moreover have "\<forall>k. k \<noteq> ''jql'' \<longrightarrow> mget ps' k = mget ps k"
    using assms(5) checkConstraints_other by (auto simp: CheckConstraints_def)
  ultimately show ?thesis using ne by blast
qed

definition pinnedSearch :: Operation where
  "pinnedSearch = jiraSearch\<lparr>op_Constraints :=
     [[(''type'', JStr ''jql_scope''), (''projects'', JArr [JStr ''AC''])]]\<rparr>"

lemma CheckConstraints_pins_projects_witness:
  "(\<exists>flt order. mget [(''jql'', JStr ''(a = 1) AND project in (AC)'')] ''jql''
         = Some (JStr (scopedJql (literalProjects [JStr ''AC'']) flt order))
       \<and> balanced flt \<and> (order = [] \<or> order \<in> lang orderByClause))"
proof -
  have con: "op_Constraints pinnedSearch =
    [] @ [(''type'', JStr ''jql_scope''), (''projects'', JArr [JStr ''AC''])] # []"
    by (simp add: pinnedSearch_def)
  have ok: "CheckConstraints pinnedSearch [(''jql'', JStr ''a = 1'')] zeroWorkspace
      = Inr [(''jql'', JStr ''(a = 1) AND project in (AC)'')]"
    by code_simp
  from CheckConstraints_pins_projects [OF con _ _ _ ok, of "[JStr ''AC'']"]
  show ?thesis by (simp add: strParam_def)
qed

end
