(* ===== verification/PathTemplate.thy ===== *)
theory PathTemplate
  imports Policy Encode
begin

text \<open>
  \<open>internal/server/pathtemplate.go\<close>: placeholders of an operation's path, the checks on raw
  values and the escaping of the others. The theorems bound what a value can do to the
  structure of the URL: it adds no segment, no query, no fragment and no query parameter.
\<close>

section \<open>The code\<close>

definition isHex :: "char \<Rightarrow> bool" where
  "isHex c = (CHR ''0'' \<le> c \<and> c \<le> CHR ''9'' \<or> CHR ''a'' \<le> c \<and> c \<le> CHR ''f''
      \<or> CHR ''A'' \<le> c \<and> c \<le> CHR ''F'')"

definition unhex :: "char \<Rightarrow> nat" where
  "unhex c =
     (if c \<le> CHR ''9'' then of_char c - 48
      else if c \<le> CHR ''F'' then of_char c - 65 + 10
      else of_char c - 97 + 10)"

definition isControl :: "char \<Rightarrow> bool" where
  "isControl c = ((of_char c :: nat) < 32 \<or> (of_char c :: nat) = 127)"

definition unsafeDecoded :: "char \<Rightarrow> bool" where
  "unsafeDecoded c =
     (isControl c \<or> List.member [CHR ''/'', CHR 0x5C, CHR ''.'', CHR ''?'', CHR ''#'', CHR '';''] c)"

fun hasUnsafeEscape :: "string \<Rightarrow> bool" where
  "hasUnsafeEscape [] = False"
| "hasUnsafeEscape (c # cs) =
     (if c \<noteq> CHR ''%'' then hasUnsafeEscape cs
      else (case cs of
              a # b # rest \<Rightarrow>
                if \<not> isHex a \<or> \<not> isHex b then True
                else if unsafeDecoded (char_of (unhex a * 16 + unhex b)) then True
                else hasUnsafeEscape rest
            | _ \<Rightarrow> True))"

definition hasPathInjection :: "string \<Rightarrow> bool \<Rightarrow> bool" where
  "hasPathInjection s multiSegment =
     (if strContains s ''..'' \<or> containsAny s [CHR ''?'', CHR ''#'', CHR 0x5C] then True
      else if strContains s ''%'' \<and> (\<not> multiSegment \<or> hasUnsafeEscape s) then True
      else if \<not> multiSegment \<and> strContains s ''/'' then True
      else if multiSegment \<and> list_ex (\<lambda>seg. seg = [] \<or> seg = ''.'') (splitOn (CHR ''/'') s) then True
      else list_ex isControl s)"

text \<open>The matches of \<open>\{([^{}]+)\}\<close> in a template, and the bytes between them.\<close>

datatype ptoken = PLit char | PHole string

definition notBrace :: "char \<Rightarrow> bool" where
  "notBrace c = (c \<noteq> CHR ''{'' \<and> c \<noteq> CHR ''}'')"

function ptokens :: "string \<Rightarrow> ptoken list" where
  "ptokens [] = []"
| "ptokens (c # cs) =
     (let name = takeWhile notBrace cs; rest = dropWhile notBrace cs
      in if c = CHR ''{'' \<and> name \<noteq> [] \<and> rest \<noteq> [] \<and> hd rest = CHR ''}''
         then PHole name # ptokens (tl rest)
         else PLit c # ptokens cs)"
  by pat_completeness auto
termination
  by (relation "measure length") (auto simp: less_Suc_eq_le intro: le_trans [OF diff_le_self length_dropWhile_le])

declare ptokens.simps(2) [simp del]

fun ptokenText :: "ptoken \<Rightarrow> string" where
  "ptokenText (PLit c) = [c]"
| "ptokenText (PHole name) = ''{'' @ name @ ''}''"

datatype pathError = PathValueNotAllowed string

definition holeKey :: "string \<Rightarrow> bool \<times> string" where
  "holeKey name =
     (if hasSuffix name ''|urlencode'' then (True, trimSuffix name ''|urlencode'') else (False, name))"

definition multiSegmentOf :: "ParamDef gomap \<Rightarrow> string \<Rightarrow> bool" where
  "multiSegmentOf defs key = (case mget defs key of None \<Rightarrow> False | Some d \<Rightarrow> pd_MultiSegment d)"

text \<open>The text written for one placeholder, \<open>before\<close> being the template up to it.\<close>

definition expandHole ::
    "golib \<Rightarrow> string gomap \<Rightarrow> params \<Rightarrow> ParamDef gomap \<Rightarrow> string \<Rightarrow> string \<Rightarrow> pathError + string" where
  "expandHole L site ps defs before name =
     (case mget site name of
        Some v \<Rightarrow> Inr v
      | None \<Rightarrow>
          (let (encode, key) = holeKey name
           in (case mget ps key of
                 None \<Rightarrow> Inr (ptokenText (PHole name))
               | Some val \<Rightarrow>
                   (let str = sprintV L val;
                        inQuery = hasSuffix before ''?path='' \<or> hasSuffix before ''&path=''
                    in if inQuery \<or> encode \<and> strContains before ''?'' then Inr (QueryEscape str)
                       else if encode then
                         (if str = ''.'' \<or> str = ''..'' then Inl (PathValueNotAllowed key)
                          else Inr (PathEscape str))
                       else if hasPathInjection str (multiSegmentOf defs key)
                               \<or> strContains str '';''
                               \<or> strContains before ''?'' \<and> containsAny str ''&=+''
                       then Inl (PathValueNotAllowed key)
                       else Inr str))))"

fun expandTokens ::
    "golib \<Rightarrow> string gomap \<Rightarrow> params \<Rightarrow> ParamDef gomap \<Rightarrow> string \<Rightarrow> ptoken list \<Rightarrow> pathError + string" where
  "expandTokens L site ps defs before [] = Inr []"
| "expandTokens L site ps defs before (PLit c # ts) =
     rbind (expandTokens L site ps defs (before @ [c]) ts) (\<lambda>out. Inr (c # out))"
| "expandTokens L site ps defs before (PHole name # ts) =
     rbind (expandHole L site ps defs before name) (\<lambda>str.
     rbind (expandTokens L site ps defs (before @ ptokenText (PHole name)) ts) (\<lambda>out.
     Inr (str @ out)))"

definition expandPathTemplate ::
    "golib \<Rightarrow> string \<Rightarrow> string gomap \<Rightarrow> params \<Rightarrow> ParamDef gomap \<Rightarrow> pathError + string" where
  "expandPathTemplate L tmpl site ps defs = expandTokens L site ps defs [] (ptokens tmpl)"

section \<open>What a value can contain\<close>

lemma ptokens_text: "concat (map ptokenText (ptokens s)) = s"
proof (induction s rule: ptokens.induct)
  case (2 c cs)
  show ?case
  proof (cases "c = CHR ''{'' \<and> takeWhile notBrace cs \<noteq> [] \<and> dropWhile notBrace cs \<noteq> []
      \<and> hd (dropWhile notBrace cs) = CHR ''}''")
    case True
    then have "dropWhile notBrace cs = CHR ''}'' # tl (dropWhile notBrace cs)"
      by (metis list.collapse)
    then have "cs = takeWhile notBrace cs @ CHR ''}'' # tl (dropWhile notBrace cs)"
      by (metis takeWhile_dropWhile_id)
    with True "2.IH"(1) [OF refl refl True] show ?thesis
      by (subst ptokens.simps) (simp add: Let_def)
  next
    case False
    with "2.IH"(2) [OF refl refl False] show ?thesis
      unfolding ptokens.simps(2) Let_def if_not_P [OF False] by simp
  qed
qed simp

text \<open>The bytes that delimit the parts of a URL, and those that never come from a value.\<close>

definition urlDelim :: "char \<Rightarrow> bool" where
  "urlDelim c = (c = CHR ''?'' \<or> c = CHR ''#'')"

lemma not_unreserved:
  "\<not> isUnreserved (CHR ''/'')" "\<not> isUnreserved (CHR ''?'')" "\<not> isUnreserved (CHR ''#'')"
  "\<not> isUnreserved (CHR ''&'')" "\<not> isUnreserved (CHR ''='')" "\<not> isUnreserved (CHR '';'')"
  "\<not> isPathSafe (CHR ''/'')" "\<not> isPathSafe (CHR ''?'')" "\<not> isPathSafe (CHR ''#'')" "\<not> isPathSafe (CHR '';'')"
  by code_simp+

lemma QueryEscape_no_delim:
  "c \<in> set ''/?#&='' \<Longrightarrow> c \<notin> set (QueryEscape s)"
proof
  assume "c \<in> set ''/?#&=''" "c \<in> set (QueryEscape s)"
  with QueryEscape_bytes have "isUnreserved c \<or> c = CHR ''%'' \<or> c = CHR ''+''" by blast
  with \<open>c \<in> set ''/?#&=''\<close> not_unreserved show False
    unfolding list.set insert_iff empty_iff by (elim disjE) simp_all
qed

lemma PathEscape_no_delim:
  "c \<in> set ''/?#'' \<Longrightarrow> c \<notin> set (PathEscape s)"
proof
  assume "c \<in> set ''/?#''" "c \<in> set (PathEscape s)"
  with PathEscape_bytes have "isUnreserved c \<or> c = CHR ''%'' \<or> isPathSafe c"
    unfolding isPathSafe_def by blast
  with \<open>c \<in> set ''/?#''\<close> not_unreserved show False
    unfolding list.set insert_iff empty_iff by (elim disjE) simp_all
qed

lemma injection_free:
  assumes "\<not> hasPathInjection s multi"
  shows "c \<in> set ''?#'' \<Longrightarrow> c \<notin> set s" "\<not> multi \<Longrightarrow> CHR ''/'' \<notin> set s"
proof -
  from assms have "\<not> containsAny s [CHR ''?'', CHR ''#'', CHR 0x5C]"
    by (simp add: hasPathInjection_def split: if_splits)
  then show "c \<in> set ''?#'' \<Longrightarrow> c \<notin> set s" by (auto simp: containsAny_iff)
  from assms have "\<not> multi \<Longrightarrow> \<not> strContains s ''/''"
    by (simp add: hasPathInjection_def split: if_splits)
  then show "\<not> multi \<Longrightarrow> CHR ''/'' \<notin> set s" by (simp add: strContains_iff sublist_single_iff)
qed

text \<open>
  What a placeholder contributes: text of trusted configuration, itself when no parameter
  has its name, or a value free of every delimiter of its context.
\<close>

lemma expandHole_cases:
  assumes "expandHole L site ps defs before name = Inr str"
  obtains "mget site name = Some str"
  | "mget site name = None" "str = ptokenText (PHole name)"
  | "mget site name = None" "\<forall>c\<in>set ''?#''. c \<notin> set str"
      "\<not> multiSegmentOf defs (snd (holeKey name)) \<Longrightarrow> CHR ''/'' \<notin> set str"
      "strContains before ''?'' \<Longrightarrow> \<forall>c\<in>set ''&=''. c \<notin> set str"
proof (cases "mget site name")
  case (Some v)
  with assms that(1) show ?thesis by (simp add: expandHole_def)
next
  case None
  obtain encode key where hk: "holeKey name = (encode, key)" by (cases "holeKey name")
  show ?thesis
  proof (cases "mget ps key")
    case n: None
    with None assms hk that(2) show ?thesis by (simp add: expandHole_def)
  next
    case (Some val)
    let ?v = "sprintV L val"
    from assms None Some hk have cs:
      "str = QueryEscape ?v \<or> \<not> strContains before ''?'' \<and> str = PathEscape ?v
       \<or> str = ?v \<and> \<not> hasPathInjection ?v (multiSegmentOf defs key)
          \<and> \<not> (strContains before ''?'' \<and> containsAny ?v ''&=+'')"
      by (simp add: expandHole_def Let_def split: if_splits)
    show ?thesis
    proof (rule that(3))
      have q: "\<forall>c\<in>set ''/?#&=''. c \<notin> set (QueryEscape ?v)" and p: "\<forall>c\<in>set ''/?#''. c \<notin> set (PathEscape ?v)"
        using QueryEscape_no_delim PathEscape_no_delim by blast+
      from cs show "\<forall>c\<in>set ''?#''. c \<notin> set str"
      proof (elim disjE conjE)
        assume "\<not> hasPathInjection ?v (multiSegmentOf defs key)" "str = ?v"
        then show ?thesis using injection_free(1) by blast
      qed (use q p in simp_all)
      show "CHR ''/'' \<notin> set str" if m: "\<not> multiSegmentOf defs (snd (holeKey name))"
        using cs
      proof (elim disjE conjE)
        assume "\<not> hasPathInjection ?v (multiSegmentOf defs key)" "str = ?v"
        then show ?thesis using injection_free(2) m hk by simp
      qed (use q p in simp_all)
      show "\<forall>c\<in>set ''&=''. c \<notin> set str" if "strContains before ''?''"
        using cs
      proof (elim disjE conjE)
        assume "str = ?v" "\<not> (strContains before ''?'' \<and> containsAny ?v ''&=+'')"
        then show ?thesis using that by (auto simp: containsAny_iff)
      qed (use q that in simp_all)
    qed (use None in simp)
  qed
qed

section \<open>The structure of the URL\<close>

lemma count_concat_le:
  "(\<And>x. x \<in> set xs \<Longrightarrow> count_list (f x) c \<le> count_list (g x) c) \<Longrightarrow>
     count_list (concat (map f xs)) c \<le> count_list (concat (map g xs)) c"
  by (induction xs) (auto intro: add_mono)

lemma expandTokens_count:
  assumes "expandTokens L site ps defs before ts = Inr out"
    and "\<forall>n v. mget site n = Some v \<longrightarrow> c \<notin> set v"
    and "c \<in> set ''?#'' \<or> c = CHR ''/'' \<and> (\<forall>k. \<not> multiSegmentOf defs k)"
  shows "count_list out c \<le> count_list (concat (map ptokenText ts)) c"
  using assms(1)
proof (induction ts arbitrary: before out)
  case (Cons t ts)
  show ?case
  proof (cases t)
    case (PLit d)
    with Cons show ?thesis by (auto simp: rbind_Inr_iff)
  next
    case (PHole name)
    with Cons.prems obtain str rest where
      s: "expandHole L site ps defs before name = Inr str" and out: "out = str @ rest"
      and r: "expandTokens L site ps defs (before @ ptokenText (PHole name)) ts = Inr rest"
      by (auto simp: rbind_Inr_iff)
    from s have "count_list str c \<le> count_list (ptokenText (PHole name)) c"
    proof (cases rule: expandHole_cases)
      case 1
      with assms(2) have "c \<notin> set str" by blast
      then show ?thesis by (simp add: count_notin)
    next
      case 3
      with assms(3) have "c \<notin> set str" by blast
      then show ?thesis by (simp add: count_notin)
    qed simp
    with Cons.IH [OF r] show ?thesis unfolding PHole out by (simp del: ptokenText.simps)
  qed
qed simp



lemma expandTokens_append:
  "expandTokens L site ps defs before (ts @ us) =
     rbind (expandTokens L site ps defs before ts) (\<lambda>a.
     rbind (expandTokens L site ps defs (before @ concat (map ptokenText ts)) us) (\<lambda>b. Inr (a @ b)))"
proof (induction ts arbitrary: before)
  case Nil
  then show ?case by (cases "expandTokens L site ps defs before us") simp_all
next
  case (Cons t ts)
  then show ?case by (cases t) (simp_all add: rbind_assoc)
qed

lemma expandTokens_query:
  assumes "expandTokens L site ps defs before ts = Inr out" and "CHR ''?'' \<in> set before"
    and "\<forall>n v. mget site n = Some v \<longrightarrow> c \<notin> set v" and "c \<in> set ''&=''"
  shows "count_list out c \<le> count_list (concat (map ptokenText ts)) c"
  using assms(1,2)
proof (induction ts arbitrary: before out)
  case (Cons t ts)
  show ?case
  proof (cases t)
    case (PLit d)
    with Cons.prems obtain rest where r: "out = d # rest"
      "expandTokens L site ps defs (before @ [d]) ts = Inr rest"
      by (auto simp: rbind_Inr_iff)
    with Cons.IH [OF r(2)] Cons.prems(2) PLit show ?thesis by simp
  next
    case (PHole name)
    with Cons.prems obtain str rest where
      s: "expandHole L site ps defs before name = Inr str" and out: "out = str @ rest"
      and r: "expandTokens L site ps defs (before @ ptokenText (PHole name)) ts = Inr rest"
      by (auto simp: rbind_Inr_iff)
    have q: "strContains before ''?''"
      using Cons.prems(2) by (simp add: strContains_iff sublist_single_iff)
    from s have "count_list str c \<le> count_list (ptokenText (PHole name)) c"
    proof (cases rule: expandHole_cases)
      case 1
      with assms(3) have "c \<notin> set str" by blast
      then show ?thesis by (simp add: count_notin)
    next
      case 3
      with q assms(4) have "c \<notin> set str" by blast
      then show ?thesis by (simp add: count_notin)
    qed simp
    with Cons.IH [OF r] Cons.prems(2) show ?thesis unfolding PHole out by (simp del: ptokenText.simps)
  qed
qed simp

text \<open>A value in the query part of an operation's path adds no query parameter: after the
  template's \<open>?\<close>, the expansion has no more \<open>&\<close> and \<open>=\<close> than the template, whatever the
  values and however they are written.\<close>

theorem query_structure_preserved:
  assumes "ptokens tmpl = pre @ PLit (CHR ''?'') # post"
    and "expandPathTemplate L tmpl site ps defs = Inr out"
    and "\<forall>n v. mget site n = Some v \<longrightarrow> (\<forall>c\<in>set ''&=''. c \<notin> set v)"
  shows "\<exists>path query. out = path @ CHR ''?'' # query \<and>
    (\<forall>c\<in>set ''&=''. count_list query c \<le> count_list (concat (map ptokenText post)) c)"
proof -
  let ?before = "concat (map ptokenText pre) @ ''?''"
  from assms(1,2) obtain path query where out: "out = path @ CHR ''?'' # query"
    and q: "expandTokens L site ps defs ?before post = Inr query"
    by (auto simp: expandPathTemplate_def expandTokens_append rbind_Inr_iff)
  have "count_list query c \<le> count_list (concat (map ptokenText post)) c" if "c \<in> set ''&=''" for c
    using that assms(3) by (intro expandTokens_query [OF q]) auto
  with out show ?thesis by blast
qed

lemma query_structure_preserved_witness:
  "\<exists>path query. ''/s?jql=a%26b'' = path @ CHR ''?'' # query \<and>
    (\<forall>c\<in>set ''&=''. count_list query c \<le> count_list (concat (map ptokenText
       [PLit (CHR ''j''), PLit (CHR ''q''), PLit (CHR ''l''), PLit (CHR ''=''), PHole ''q|urlencode''])) c)"
proof (rule query_structure_preserved)
  show "ptokens ''/s?jql={q|urlencode}'' = [PLit (CHR ''/''), PLit (CHR ''s'')] @ PLit (CHR ''?'') #
      [PLit (CHR ''j''), PLit (CHR ''q''), PLit (CHR ''l''), PLit (CHR ''=''), PHole ''q|urlencode'']"
    by code_simp
  show "expandPathTemplate exampleLib ''/s?jql={q|urlencode}'' [] [(''q'', JStr ''a&b'')]
      [(''q'', zeroParam)] = Inr ''/s?jql=a%26b''"
    by code_simp
qed simp

text \<open>
  Raw values that are a single dot pass the checks: the path then names the parent segment
  once a server has removed its dot segments.
\<close>

lemma dot_segment_accepted:
  "expandPathTemplate exampleLib ''/issue/{key}/transitions'' [] [(''key'', JStr ''.'')] []
     = Inr ''/issue/./transitions''"
  by code_simp

end
