(* ===== verification/Suggest.thy ===== *)
theory Suggest
  imports Policy
begin

text \<open>
  The suggestions of \<open>writeUnknownOp\<close> in server.go: \<open>editDistance\<close>, proved to be the least
  cost of an alignment, and \<open>closestAllowedOps\<close>, proved to list the best three of exactly
  the operations the agent may call.
\<close>

section \<open>Edit distance\<close>

text \<open>
  One inner loop: \<open>left\<close> is \<open>cur[j-1]\<close>, the list the part of \<open>prev\<close> from \<open>prev[j-1]\<close> on.
\<close>

fun fillRow :: "char \<Rightarrow> string \<Rightarrow> nat list \<Rightarrow> nat \<Rightarrow> nat list" where
  "fillRow x (y # ys) (p0 # p1 # ps) left =
     (let cost = (if x = y then 0 else 1);
          v = min (p1 + 1) (min (left + 1) (p0 + cost))
      in v # fillRow x ys (p1 # ps) v)"
| "fillRow x _ _ left = []"

fun editRows :: "nat \<Rightarrow> string \<Rightarrow> string \<Rightarrow> nat list \<Rightarrow> nat list" where
  "editRows i [] b prev = prev"
| "editRows i (x # a) b prev = editRows (i + 1) a b (i # fillRow x b prev i)"

definition editDistance :: "string \<Rightarrow> string \<Rightarrow> nat" where
  "editDistance a b = editRows 1 a b [0..<length b + 1] ! length b"

text \<open>An alignment of two texts, built from left to right, and its cost.\<close>

inductive aligned :: "string \<Rightarrow> string \<Rightarrow> nat \<Rightarrow> bool" where
  A_nil: "aligned [] [] 0"
| A_keep: "aligned a b n \<Longrightarrow> aligned (a @ [c]) (b @ [c]) n"
| A_replace: "aligned a b n \<Longrightarrow> aligned (a @ [c]) (b @ [d]) (n + 1)"
| A_delete: "aligned a b n \<Longrightarrow> aligned (a @ [c]) b (n + 1)"
| A_insert: "aligned a b n \<Longrightarrow> aligned a (b @ [d]) (n + 1)"

text \<open>The recurrence, on reversed texts.\<close>

fun lev :: "string \<Rightarrow> string \<Rightarrow> nat" where
  "lev [] v = length v"
| "lev (x # u) [] = Suc (length u)"
| "lev (x # u) (y # v) =
     min (lev (x # u) v + 1) (min (lev u (y # v) + 1) (lev u v + (if x = y then 0 else 1)))"

lemma lev_step:
  "lev (x # u) v \<le> lev u v + 1" "lev u (y # v) \<le> lev u v + 1"
  "lev (x # u) (y # v) \<le> lev u v + (if x = y then 0 else 1)"
proof -
  show "lev (x # u) v \<le> lev u v + 1" by (cases v; cases u) (simp_all add: min_le_iff_disj)
  show "lev u (y # v) \<le> lev u v + 1" by (cases u) (simp_all add: min_le_iff_disj)
qed simp

lemma aligned_lower: "aligned a b n \<Longrightarrow> lev (rev a) (rev b) \<le> n"
proof (induction rule: aligned.induct)
  case (A_keep a b n c)
  then show ?case using lev_step(3) [of c "rev a" c "rev b"] by simp
next
  case (A_replace a b n c d)
  then show ?case using lev_step(3) [of c "rev a" d "rev b"] by (simp split: if_splits)
next
  case (A_delete a b n c)
  then show ?case using lev_step(1) [of c "rev a" "rev b"] by simp
next
  case (A_insert a b n d)
  then show ?case using lev_step(2) [of "rev a" d "rev b"] by simp
qed simp

lemma aligned_left: "aligned (rev u) [] (length u)"
  by (induction u) (auto intro: A_nil A_delete [of _ _ "length _", simplified])

lemma aligned_right: "aligned [] (rev v) (length v)"
  by (induction v) (auto intro: A_nil A_insert [of _ _ "length _", simplified])

lemma aligned_lev: "aligned (rev u) (rev v) (lev u v)"
proof (induction u v rule: lev.induct)
  case (1 v)
  then show ?case by (simp add: aligned_right)
next
  case (2 x u)
  then show ?case using aligned_left [of "x # u"] by simp
next
  case (3 x u y v)
  have "aligned (rev (x # u)) (rev (y # v)) (lev (x # u) v + 1)"
    using A_insert [OF "3.IH"(1)] by simp
  moreover have "aligned (rev (x # u)) (rev (y # v)) (lev u (y # v) + 1)"
    using A_delete [OF "3.IH"(2)] by simp
  moreover have "aligned (rev (x # u)) (rev (y # v)) (lev u v + (if x = y then 0 else 1))"
    using A_keep [OF "3.IH"(3)] A_replace [OF "3.IH"(3)] by simp
  ultimately show ?case unfolding lev.simps min_def by presburger
qed

text \<open>A row of the table: the distances of \<open>u\<close> to the prefixes of the other text.\<close>

fun row :: "string \<Rightarrow> string \<Rightarrow> string \<Rightarrow> nat list" where
  "row u w [] = [lev u w]"
| "row u w (y # ys) = lev u w # row u (y # w) ys"

lemma row_Cons: "row u w ys = lev u w # tl (row u w ys)"
  by (cases ys) simp_all

lemma fillRow_row: "fillRow x ys (row u w ys) (lev (x # u) w) = tl (row (x # u) w ys)"
proof (induction ys arbitrary: w)
  case (Cons y ys)
  obtain t where t: "row u (y # w) ys = lev u (y # w) # t" using row_Cons by blast
  then have "fillRow x (y # ys) (row u w (y # ys)) (lev (x # u) w)
      = lev (x # u) (y # w) # fillRow x ys (row u (y # w) ys) (lev (x # u) (y # w))"
    by (simp add: Let_def min.left_commute)
  also have "\<dots> = row (x # u) (y # w) ys"
    using Cons.IH [of "y # w"] row_Cons [of "x # u" "y # w" ys] by simp
  finally show ?case by simp
qed simp

lemma editRows_row: "editRows (length u + 1) a b (row u [] b) = row (rev a @ u) [] b"
proof (induction a arbitrary: u)
  case (Cons x a)
  have "(length u + 1) # fillRow x b (row u [] b) (length u + 1) = row (x # u) [] b"
    using fillRow_row [of x b u "[]"] row_Cons [of "x # u" "[]" b] by simp
  then show ?case using Cons.IH [of "x # u"] by simp
qed simp

lemma row_nth: "row u w ys ! length ys = lev u (rev ys @ w)"
  by (induction ys arbitrary: w) simp_all

lemma row_empty: "row [] w ys = [length w..<length w + length ys + 1]"
  by (induction ys arbitrary: w) (simp_all add: upt_conv_Cons del: upt_Suc)

lemma editDistance_lev: "editDistance a b = lev (rev a) (rev b)"
proof -
  have "[0..<length b + 1] = row [] [] b" by (simp add: row_empty)
  then show ?thesis
    using editRows_row [of "[]" a b] by (simp add: editDistance_def row_nth)
qed

text \<open>\<open>editDistance\<close>, which keeps only two rows of the table, returns the Levenshtein
  distance: some alignment of the two texts has this cost, and none is cheaper.\<close>

theorem editDistance_least:
  "aligned a b (editDistance a b) \<and> editDistance a b = (LEAST n. aligned a b n)"
proof -
  have "aligned a b (editDistance a b)" "\<And>n. aligned a b n \<Longrightarrow> editDistance a b \<le> n"
    using aligned_lev [of "rev a" "rev b"] aligned_lower [of a b] by (auto simp: editDistance_lev)
  then show ?thesis using Least_equality [of "aligned a b" "editDistance a b"] by simp
qed

section \<open>Suggestions\<close>

datatype scored = Scored (sc_id: string) (sc_dist: nat) (sc_diff: nat)

text \<open>The order of the comparison function passed to \<open>sort.Slice\<close>.\<close>

instantiation scored :: linorder
begin

definition less_scored :: "scored \<Rightarrow> scored \<Rightarrow> bool" where
  "less_scored a b =
     (if sc_dist a \<noteq> sc_dist b then sc_dist a < sc_dist b
      else if sc_diff a \<noteq> sc_diff b then sc_diff a < sc_diff b
      else sc_id a < sc_id b)"

definition less_eq_scored :: "scored \<Rightarrow> scored \<Rightarrow> bool" where
  "less_eq_scored a b = (a < b \<or> a = (b :: scored))"

instance
proof
  fix x y z :: scored
  show "(x < y) = (x \<le> y \<and> \<not> y \<le> x)"
    by (auto simp: less_scored_def less_eq_scored_def split: if_splits)
  show "x \<le> x" by (simp add: less_eq_scored_def)
  show "x \<le> y \<Longrightarrow> y \<le> z \<Longrightarrow> x \<le> z"
    by (auto simp: less_scored_def less_eq_scored_def split: if_splits)
  show "x \<le> y \<Longrightarrow> y \<le> x \<Longrightarrow> x = y"
    by (auto simp: less_scored_def less_eq_scored_def split: if_splits)
  show "x \<le> y \<or> y \<le> x"
    by (cases x; cases y) (auto simp: less_scored_def less_eq_scored_def split: if_splits)
qed

end

definition absInt :: "int \<Rightarrow> int" where
  "absInt n = (if n < 0 then - n else n)"

definition considerOp ::
    "OperationRegistry \<Rightarrow> string \<Rightarrow> scored list \<times> string list \<Rightarrow> string \<Rightarrow> scored list \<times> string list" where
  "considerOp reg opID = (\<lambda>(found, seen) cand.
     if List.member seen cand then (found, seen)
     else (let seen = cand # seen
           in if Get reg cand = None then (found, seen)
              else (let longer = max (length opID) (length cand);
                        diff = nat (absInt (int (length cand) - int (length opID)))
                    in if longer div 2 < diff then (found, seen)
                       else (let d = editDistance opID cand
                             in if longer div 2 < d then (found, seen)
                                else (found @ [Scored cand d diff], seen)))))"

definition considerGrant ::
    "Config \<Rightarrow> OperationRegistry \<Rightarrow> string \<Rightarrow> string \<Rightarrow> scored list \<times> string list \<Rightarrow> Grant
       \<Rightarrow> scored list \<times> string list" where
  "considerGrant cfg reg workspace opID acc grant =
     (if grant_Workspace grant \<noteq> workspace then acc
      else (case GetRole cfg (grant_Role grant) of
              None \<Rightarrow> acc
            | Some role \<Rightarrow> foldl (considerOp reg opID) acc (role_Operations role)))"

definition closestAllowedOps ::
    "Config \<Rightarrow> OperationRegistry \<Rightarrow> Agent \<Rightarrow> string \<Rightarrow> string \<Rightarrow> string list" where
  "closestAllowedOps cfg reg agent workspace opID =
     (if 128 < length opID then []
      else (let found = fst (foldl (considerGrant cfg reg workspace opID) ([], []) (agent_Grants agent));
                found = sort found
            in map sc_id (if 3 < length found then take 3 found else found)))"

text \<open>The operations an agent may call in a workspace, and those near enough to suggest.\<close>

definition mayCall :: "Config \<Rightarrow> OperationRegistry \<Rightarrow> Agent \<Rightarrow> string \<Rightarrow> string \<Rightarrow> bool" where
  "mayCall cfg reg agent workspace cand \<longleftrightarrow> Get reg cand \<noteq> None \<and>
     (\<exists>g\<in>set (agent_Grants agent). grant_Workspace g = workspace \<and>
        (\<exists>role. GetRole cfg (grant_Role g) = Some role \<and> cand \<in> set (role_Operations role)))"

definition near :: "string \<Rightarrow> string \<Rightarrow> bool" where
  "near opID cand \<longleftrightarrow> editDistance opID cand \<le> max (length opID) (length cand) div 2"

definition score :: "string \<Rightarrow> string \<Rightarrow> scored" where
  "score opID cand = Scored cand (editDistance opID cand)
     (nat (absInt (int (length cand) - int (length opID))))"

text \<open>The length difference, the code's cheap test, never exceeds the distance.\<close>

lemma aligned_length: "aligned a b n \<Longrightarrow> \<bar>int (length b) - int (length a)\<bar> \<le> int n"
  by (induction rule: aligned.induct) auto

lemma diff_le_distance: "nat (absInt (int (length b) - int (length a))) \<le> editDistance a b"
  using aligned_length [OF aligned_lev [of "rev a" "rev b"]]
  by (auto simp: absInt_def editDistance_lev)

lemma considerOp_step:
  "considerOp reg opID (found, seen) cand =
     (if cand \<in> set seen then (found, seen)
      else if Get reg cand \<noteq> None \<and> near opID cand then (found @ [score opID cand], cand # seen)
      else (found, cand # seen))"
  using diff_le_distance [of cand opID]
  by (auto simp: considerOp_def Let_def near_def score_def List.member_iff)

definition scanOk :: "OperationRegistry \<Rightarrow> string \<Rightarrow> string list \<Rightarrow> scored list \<times> string list \<Rightarrow> bool" where
  "scanOk reg opID cs acc \<longleftrightarrow> set (snd acc) = set cs \<and> distinct (fst acc) \<and>
     set (fst acc) = score opID ` {c \<in> set cs. Get reg c \<noteq> None \<and> near opID c}"

lemma score_inj: "score opID c = score opID d \<Longrightarrow> c = d"
  by (simp add: score_def)

lemma scanOk_step: "scanOk reg opID cs acc \<Longrightarrow> scanOk reg opID (cs @ [c]) (considerOp reg opID acc c)"
proof -
  assume ok: "scanOk reg opID cs acc"
  obtain found seen where acc: "acc = (found, seen)" by (cases acc)
  have "score opID c \<notin> set found" if "c \<notin> set cs"
    using that ok acc score_inj by (auto simp: scanOk_def)
  with ok show ?thesis
    unfolding acc considerOp_step by (auto simp: scanOk_def)
qed

lemma scanOk_ops:
  "scanOk reg opID cs acc \<Longrightarrow> scanOk reg opID (cs @ ops) (foldl (considerOp reg opID) acc ops)"
proof (induction ops arbitrary: cs acc)
  case (Cons c ops)
  from Cons.IH [OF scanOk_step [OF Cons.prems, of c]] show ?case by simp
qed simp

definition grantOps :: "Config \<Rightarrow> string \<Rightarrow> Grant \<Rightarrow> string list" where
  "grantOps cfg workspace g =
     (if grant_Workspace g \<noteq> workspace then []
      else (case GetRole cfg (grant_Role g) of None \<Rightarrow> [] | Some role \<Rightarrow> role_Operations role))"

lemma scanOk_grants:
  "scanOk reg opID cs acc \<Longrightarrow>
     scanOk reg opID (cs @ concat (map (grantOps cfg workspace) gs))
       (foldl (considerGrant cfg reg workspace opID) acc gs)"
proof (induction gs arbitrary: cs acc)
  case (Cons g gs)
  have "scanOk reg opID (cs @ grantOps cfg workspace g) (considerGrant cfg reg workspace opID acc g)"
    using Cons.prems scanOk_ops by (auto simp: considerGrant_def grantOps_def split: option.split)
  from Cons.IH [OF this] show ?case by simp
qed simp

lemma scan_found:
  "distinct (fst (foldl (considerGrant cfg reg workspace opID) ([], []) (agent_Grants agent)))
   \<and> set (fst (foldl (considerGrant cfg reg workspace opID) ([], []) (agent_Grants agent)))
     = score opID ` {c. mayCall cfg reg agent workspace c \<and> near opID c}"
proof -
  have "scanOk reg opID [] ([], [])" by (simp add: scanOk_def)
  from scanOk_grants [OF this, of cfg workspace "agent_Grants agent"]
  have ok: "scanOk reg opID (concat (map (grantOps cfg workspace) (agent_Grants agent)))
      (foldl (considerGrant cfg reg workspace opID) ([], []) (agent_Grants agent))"
    by simp
  have "{c \<in> set (concat (map (grantOps cfg workspace) (agent_Grants agent))).
        Get reg c \<noteq> None \<and> near opID c} = {c. mayCall cfg reg agent workspace c \<and> near opID c}"
  proof -
    have "c \<in> set (grantOps cfg workspace g) \<longleftrightarrow> grant_Workspace g = workspace \<and>
        (\<exists>role. GetRole cfg (grant_Role g) = Some role \<and> c \<in> set (role_Operations role))" for c g
      by (cases "GetRole cfg (grant_Role g)") (auto simp: grantOps_def)
    then show ?thesis unfolding mayCall_def by auto
  qed
  with ok show ?thesis by (simp add: scanOk_def)
qed

lemma sorted_take_drop: "sorted xs \<Longrightarrow> x \<in> set (take n xs) \<Longrightarrow> y \<in> set (drop n xs) \<Longrightarrow> x \<le> y"
  by (metis append_take_drop_id sorted_append)

text \<open>The suggestions for an unknown operation disclose nothing: they are at most three
  operations that are registered and granted to the agent in the workspace, each within half
  of the longer name's length, and they are the best of these: an operation left out is
  listed-worthy only after three better ones.\<close>

theorem closestAllowedOps_best:
  assumes "length opID \<le> 128"
  shows "length (closestAllowedOps cfg reg agent workspace opID) \<le> 3
    \<and> distinct (closestAllowedOps cfg reg agent workspace opID)
    \<and> (\<forall>c\<in>set (closestAllowedOps cfg reg agent workspace opID).
          mayCall cfg reg agent workspace c \<and> near opID c)
    \<and> (\<forall>c. mayCall cfg reg agent workspace c \<and> near opID c \<longrightarrow>
          c \<in> set (closestAllowedOps cfg reg agent workspace opID)
          \<or> length (closestAllowedOps cfg reg agent workspace opID) = 3
            \<and> (\<forall>d\<in>set (closestAllowedOps cfg reg agent workspace opID). score opID d < score opID c))"
proof -
  define found where
    "found = sort (fst (foldl (considerGrant cfg reg workspace opID) ([], []) (agent_Grants agent)))"
  have out: "closestAllowedOps cfg reg agent workspace opID = map sc_id (take 3 found)"
    using assms by (simp add: closestAllowedOps_def found_def Let_def)
  have d: "distinct found" and s: "sorted found"
    and f: "set found = score opID ` {c. mayCall cfg reg agent workspace c \<and> near opID c}"
    using scan_found [of cfg reg workspace opID agent] by (simp_all add: found_def)
  have id: "sc_id (score opID c) = c" for c by (simp add: score_def)
  have sc: "score opID (sc_id x) = x" if "x \<in> set found" for x using that f id by auto
  have inj: "inj_on sc_id (set found)" using sc by (metis inj_onI)
  have "distinct (map sc_id (take 3 found))"
    using d inj by (metis distinct_map distinct_take inj_on_subset set_take_subset)
  moreover have "mayCall cfg reg agent workspace c \<and> near opID c"
    if "c \<in> set (map sc_id (take 3 found))" for c
    using that f id set_take_subset [of 3 found] by auto
  moreover have "c \<in> set (map sc_id (take 3 found)) \<or> length (map sc_id (take 3 found)) = 3
      \<and> (\<forall>d\<in>set (map sc_id (take 3 found)). score opID d < score opID c)"
    if "mayCall cfg reg agent workspace c \<and> near opID c" for c
  proof (cases "score opID c \<in> set (take 3 found)")
    case True
    then show ?thesis using id by (metis image_eqI list.set_map)
  next
    case False
    have "score opID c \<in> set found" using that f by blast
    with False have dr: "score opID c \<in> set (drop 3 found)"
      by (metis Un_iff append_take_drop_id set_append)
    then have "3 < length found" by (cases "length found \<le> 3") auto
    moreover have "x < score opID c" if "x \<in> set (take 3 found)" for x
      using sorted_take_drop [OF s that dr] that False by (metis order_le_less)
    ultimately show ?thesis using sc set_take_subset [of 3 found] by auto
  qed
  ultimately show ?thesis unfolding out by simp
qed

lemma closestAllowedOps_best_witness:
  "length (closestAllowedOps zeroConfig \<lparr>reg_Operations = [], reg_TunnelChecker = None\<rparr>
     \<lparr>agent_ID = ''a'', agent_TokenSHA = ''t'', agent_Grants = []\<rparr> ''w'' ''jira.serch'') \<le> 3"
  by (rule closestAllowedOps_best [THEN conjunct1]) simp

end
