(* ===== verification/Access.thy ===== *)
theory Access
  imports Suggest
begin

text \<open>
  Who may call what, from server.go: authentication of agents and of the administrator,
  grants, the Slack channel scope, the choice of the environment and the tunnel check. The
  grant check is an interface (\<open>grant_check\<close>) that the request handlers rest on.
\<close>

section \<open>Authentication\<close>

text \<open>The value of the Authorization header, empty when absent; the result is empty on failure.\<close>

definition authenticate :: "golib \<Rightarrow> Config \<Rightarrow> string \<Rightarrow> string" where
  "authenticate L cfg auth =
     (if \<not> hasPrefix auth ''Bearer '' then []
      else (let token = drop 7 auth; tokenSHA = lib_sha256hex L token
            in if GetAgentByTokenSHA cfg tokenSHA \<noteq> None then tokenSHA
               else if list_ex (\<lambda>agent. agent_TokenSHA agent = tokenSHA) (cfg_Agents cfg) then tokenSHA
               else []))"

definition authenticateAdmin :: "golib \<Rightarrow> Config \<Rightarrow> string \<Rightarrow> bool" where
  "authenticateAdmin L cfg auth =
     (let adminSHA = cfg_AdminTokenSHA cfg
      in if adminSHA = [] then False
         else if \<not> hasPrefix auth ''Bearer '' then False
         else (let token = trimPrefix auth ''Bearer '' in lib_sha256hex L token = adminSHA))"

section \<open>Grants\<close>

definition agentHasOp :: "Config \<Rightarrow> Agent \<Rightarrow> string \<Rightarrow> string \<Rightarrow> bool" where
  "agentHasOp cfg agent workspace opID =
     list_ex (\<lambda>grant.
       if grant_Workspace grant \<noteq> workspace then False
       else (case GetRole cfg (grant_Role grant) of
               None \<Rightarrow> False
             | Some role \<Rightarrow> list_ex (\<lambda>allowed. allowed = opID) (role_Operations role)))
       (agent_Grants agent)"

definition agentHasWorkspace :: "Agent \<Rightarrow> string \<Rightarrow> bool" where
  "agentHasWorkspace agent workspace =
     list_ex (\<lambda>grant. grant_Workspace grant = workspace) (agent_Grants agent)"

definition siteDisabled :: "Workspace \<Rightarrow> string \<Rightarrow> bool" where
  "siteDisabled ws siteName =
     (case mget (ws_Sites ws) siteName of None \<Rightarrow> False | Some site \<Rightarrow> site_Disabled site)"

definition grantedRole ::
    "OperationRegistry \<Rightarrow> Workspace \<Rightarrow> Operation gomap \<Rightarrow> Role \<Rightarrow> Operation gomap" where
  "grantedRole reg ws ops role =
     foldl (\<lambda>ops opID.
       (case Get reg opID of
          Some op \<Rightarrow> if \<not> siteDisabled ws (op_Site op) then mput opID op ops else ops
        | None \<Rightarrow> ops)) ops (role_Operations role)"

definition grantedOperations ::
    "Config \<Rightarrow> OperationRegistry \<Rightarrow> Agent \<Rightarrow> string \<Rightarrow> Workspace \<Rightarrow> Operation gomap" where
  "grantedOperations cfg reg agent workspace ws =
     foldl (\<lambda>ops grant.
       if grant_Workspace grant \<noteq> workspace then ops
       else (case GetRole cfg (grant_Role grant) of
               None \<Rightarrow> ops
             | Some role \<Rightarrow> grantedRole reg ws ops role)) [] (agent_Grants agent)"

section \<open>Scopes, environments, tunnels\<close>

datatype scopeError = ChannelNotAllowed string

definition checkParamScopes :: "Workspace \<Rightarrow> Operation \<Rightarrow> params \<Rightarrow> scopeError + unit" where
  "checkParamScopes ws op ps =
     (let channels = wp_SlackChannels (ws_Policy ws)
      in if 0 < length channels \<and> mhas (op_Params op) ''channel'' then
           (let ch = strParam ps ''channel''
            in if ch \<noteq> [] then ensure (List.member channels ch) (ChannelNotAllowed ch) else Inr ())
         else Inr ())"

datatype envError =
    NoEnvironment string
  | EnvMissing string "string list"
  | EnvUnknown string string "string list"

definition resolveEnv :: "Site \<Rightarrow> string \<Rightarrow> params \<Rightarrow> envError + (string \<times> Environment)" where
  "resolveEnv site siteName ps =
     (if site_Environments site = [] then Inl (NoEnvironment siteName)
      else (let names = sortedKeys (site_Environments site);
                envName = strParam ps ''env'';
                envName = (if envName = [] then strParam ps ''cluster'' else envName);
                envName = (if envName = [] then site_DefaultEnv site else envName)
            in if envName = [] \<and> 1 < length names then Inl (EnvMissing siteName names)
               else (let envName = (if envName = [] then hd names else envName)
                     in (case mget (site_Environments site) envName of
                           None \<Rightarrow> Inl (EnvUnknown envName siteName names)
                         | Some env \<Rightarrow> Inr (envName, env)))))"

definition picksEnv :: "string \<Rightarrow> bool" where
  "picksEnv connector = List.member [''http-rest'', ''mcp'', ''email'', ''jira-worklog''] connector"

definition checkEnvSelection :: "Workspace \<Rightarrow> Operation \<Rightarrow> params \<Rightarrow> envError + unit" where
  "checkEnvSelection ws op ps =
     (if \<not> picksEnv (op_Connector op) then Inr ()
      else (case mget (ws_Sites ws) (op_Site op) of
              None \<Rightarrow> Inr ()
            | Some site \<Rightarrow> rbind (resolveEnv site (op_Site op) ps) (\<lambda>_. Inr ())))"

datatype tunnelAccessError =
    TunnelNotConfigured string
  | RequiredTunnelDown string

definition checkTunnelAccess ::
    "Config \<Rightarrow> OperationRegistry \<Rightarrow> Workspace \<Rightarrow> Operation \<Rightarrow> params \<Rightarrow> tunnelAccessError + unit" where
  "checkTunnelAccess cfg reg ws op ps =
     (case mget (ws_Sites ws) (op_Site op) of
        None \<Rightarrow> Inr ()
      | Some site \<Rightarrow>
          (case resolveEnv site (op_Site op) ps of
             Inl _ \<Rightarrow> Inr ()
           | Inr (_, env) \<Rightarrow>
               if env_RequiresTunnel env = [] then Inr ()
               else if GetTunnel cfg (env_RequiresTunnel env) = None
               then Inl (TunnelNotConfigured (env_RequiresTunnel env))
               else mapErr (\<lambda>_. RequiredTunnelDown (env_RequiresTunnel env))
                      (CheckTunnel reg (env_RequiresTunnel env))))"

section \<open>The grant interface\<close>

definition granted :: "Config \<Rightarrow> Agent \<Rightarrow> string \<Rightarrow> string \<Rightarrow> bool" where
  "granted cfg agent workspace opID \<longleftrightarrow>
     (\<exists>g\<in>set (agent_Grants agent). grant_Workspace g = workspace \<and>
        (\<exists>role. GetRole cfg (grant_Role g) = Some role \<and> opID \<in> set (role_Operations role)))"

lemma agentHasOp_iff: "agentHasOp cfg agent workspace opID \<longleftrightarrow> granted cfg agent workspace opID"
  by (auto simp: agentHasOp_def granted_def list_ex_iff split: option.splits if_splits)

locale grant_check =
  fixes allows :: "Config \<Rightarrow> Agent \<Rightarrow> string \<Rightarrow> string \<Rightarrow> bool"
  assumes allows_granted: "allows cfg a w op \<Longrightarrow> granted cfg a w op"
    and granted_allows: "granted cfg a w op \<Longrightarrow> allows cfg a w op"
begin

lemma allows_iff: "allows cfg a w op \<longleftrightarrow> granted cfg a w op"
  using allows_granted granted_allows by blast

text \<open>A validated configuration leaves no grant without its workspace and integration.\<close>

lemma allowed_resolves:
  assumes "wellFormedConfig isAbs cfg" and "a \<in> set (cfg_Agents cfg)" and "allows cfg a w op"
  shows "\<exists>ws. GetWorkspace cfg w = Some ws \<and> HasOperation ws op"
proof -
  from allows_granted [OF assms(3)] obtain g role where g: "g \<in> set (agent_Grants a)"
    "grant_Workspace g = w" "GetRole cfg (grant_Role g) = Some role" "op \<in> set (role_Operations role)"
    by (auto simp: granted_def)
  from assms(1,2) g(1) have "grantResolves cfg g" by (auto simp: wellFormedConfig_def)
  with g show ?thesis by (auto simp: grantResolves_def)
qed

lemma more_grants:
  assumes "allows cfg a w op" and "set (agent_Grants a) \<subseteq> set (agent_Grants b)"
  shows "allows cfg b w op"
  using allows_granted [OF assms(1)] assms(2) by (intro granted_allows) (auto simp: granted_def)

lemma no_grant_elsewhere:
  assumes "\<forall>g\<in>set (agent_Grants a). grant_Workspace g \<noteq> w"
  shows "\<not> allows cfg a w op"
  using assms allows_granted [of cfg a w op] unfolding granted_def by blast

end

interpretation grants: grant_check agentHasOp
  by unfold_locales (simp_all add: agentHasOp_iff)

section \<open>Properties\<close>

text \<open>A request is authenticated as an agent exactly when it carries, as a bearer token, a
  token whose SHA-256 is registered for that agent: \<open>authenticate\<close> returns the hash of the
  presented token and of a registered agent, or nothing.\<close>

theorem authenticate_sound:
  assumes "authenticate L cfg auth = sha" and "sha \<noteq> []"
  shows "\<exists>token agent. auth = ''Bearer '' @ token \<and> sha = lib_sha256hex L token
    \<and> GetAgentByTokenSHA cfg sha = Some agent
    \<and> agent \<in> set (cfg_Agents cfg) \<and> agent_TokenSHA agent = sha"
proof -
  from assms obtain token where auth: "auth = ''Bearer '' @ token" and sha: "sha = lib_sha256hex L token"
    and found: "GetAgentByTokenSHA cfg sha \<noteq> None \<or> (\<exists>a\<in>set (cfg_Agents cfg). agent_TokenSHA a = sha)"
    by (auto simp: authenticate_def Let_def hasPrefix_iff prefix_def list_ex_iff split: if_splits)
  from found have "GetAgentByTokenSHA cfg sha \<noteq> None"
    by (subst (asm) cfgl.scan_adds_nothing)
  then obtain agent where "GetAgentByTokenSHA cfg sha = Some agent" by blast
  with auth sha show ?thesis
    using cfgl.byToken_mem cfgl.byToken_sha by blast
qed

definition exampleAgent :: Agent where
  "exampleAgent = \<lparr>agent_ID = ''claude'', agent_TokenSHA = ''sha:t0k'',
     agent_Grants = [\<lparr>grant_Workspace = ''acme'', grant_Role = ''dev''\<rparr>]\<rparr>"

definition exampleConfig :: Config where
  "exampleConfig = zeroConfig
     \<lparr>cfg_Agents := [exampleAgent],
      cfg_Roles := [(''dev'', \<lparr>role_Operations = [''jira.status'']\<rparr>)],
      cfg_Workspaces := [(''acme'', zeroWorkspace
        \<lparr>ws_Sites := [(''jira'', \<lparr>site_Environments = [(''prod'', zeroEnvironment)],
           site_DefaultEnv = [], site_Disabled = False\<rparr>)]\<rparr>)]\<rparr>"

lemma authenticate_sound_witness:
  "\<exists>token agent. ''Bearer t0k'' = ''Bearer '' @ token \<and> ''sha:t0k'' = lib_sha256hex exampleLib token
    \<and> GetAgentByTokenSHA exampleConfig ''sha:t0k'' = Some agent
    \<and> agent \<in> set (cfg_Agents exampleConfig) \<and> agent_TokenSHA agent = ''sha:t0k''"
  by (rule authenticate_sound, code_simp, simp)

lemma resolveEnv_order_free:
  assumes "distinct (mkeys es)" and "distinct (mkeys (site_Environments site))"
    and "set es = set (site_Environments site)"
  shows "resolveEnv (site\<lparr>site_Environments := es\<rparr>) siteName ps = resolveEnv site siteName ps"
proof -
  have "mget es = mget (site_Environments site)" using assms by (metis map_of_inject_set)
  moreover have "sortedKeys es = sortedKeys (site_Environments site)"
    using assms by (intro sortedKeys_order_free) (simp_all add: set_map)
  moreover have "es = [] \<longleftrightarrow> site_Environments site = []" using assms(3) by (metis set_empty)
  ultimately show ?thesis by (simp add: resolveEnv_def Let_def split: option.split)
qed

text \<open>The environment of a request is never guessed: \<open>resolveEnv\<close> returns an environment the
  site has, under its name, and it is the one that \<open>env\<close> names, else \<open>cluster\<close>, else the
  site's default, else the only one there is.\<close>

theorem resolveEnv_not_guessed:
  assumes "resolveEnv site siteName ps = Inr (name, env)"
  shows "mget (site_Environments site) name = Some env \<and>
    (if strParam ps ''env'' \<noteq> [] then name = strParam ps ''env''
     else if strParam ps ''cluster'' \<noteq> [] then name = strParam ps ''cluster''
     else if site_DefaultEnv site \<noteq> [] then name = site_DefaultEnv site
     else mkeys (site_Environments site) = [name])"
proof -
  have one: "mkeys (site_Environments site) = [hd (sortedKeys (site_Environments site))]"
    if "site_Environments site \<noteq> []" "\<not> 1 < length (sortedKeys (site_Environments site))"
  proof -
    from that obtain e where "site_Environments site = [e]"
      by (cases "site_Environments site") (auto simp: sortedKeys_def)
    then show ?thesis by (simp add: sortedKeys_def)
  qed
  show ?thesis
    using assms one by (auto simp: resolveEnv_def Let_def split: if_splits option.splits)
qed

lemma resolveEnv_not_guessed_witness:
  "mget [(''prod'', zeroEnvironment)] ''prod'' = Some zeroEnvironment \<and>
    (if strParam [] ''env'' \<noteq> [] then ''prod'' = strParam [] ''env''
     else if strParam [] ''cluster'' \<noteq> [] then ''prod'' = strParam [] ''cluster''
     else if [] \<noteq> ([] :: string) then ''prod'' = []
     else mkeys [(''prod'', zeroEnvironment)] = [''prod''])"
  using resolveEnv_not_guessed [of "\<lparr>site_Environments = [(''prod'', zeroEnvironment)],
      site_DefaultEnv = [], site_Disabled = False\<rparr>" "''jira''" "[]" "''prod''" zeroEnvironment]
  by (simp add: resolveEnv_def sortedKeys_def strParam_def)

text \<open>
  What a passed tunnel check means for an environment: nothing is required, or the tunnel is
  configured and its checker reported it connected.
\<close>

definition tunnelReady :: "Config \<Rightarrow> OperationRegistry \<Rightarrow> Environment \<Rightarrow> bool" where
  "tunnelReady cfg reg env \<longleftrightarrow> env_RequiresTunnel env = [] \<or>
     (GetTunnel cfg (env_RequiresTunnel env) \<noteq> None \<and>
      (\<exists>check details. reg_TunnelChecker reg = Some check
         \<and> check (env_RequiresTunnel env) = Inr (True, details)))"

lemma CheckTunnel_ok:
  "CheckTunnel reg name = Inr u \<Longrightarrow> name \<noteq> [] \<Longrightarrow>
     \<exists>check details. reg_TunnelChecker reg = Some check \<and> check name = Inr (True, details)"
  by (auto simp: CheckTunnel_def split: option.splits sum.splits prod.splits)

lemma checkTunnelAccess_ready:
  assumes "checkTunnelAccess cfg reg ws op ps = Inr u" and "mget (ws_Sites ws) (op_Site op) = Some site"
    and "resolveEnv site (op_Site op) ps = Inr (name, env)"
  shows "tunnelReady cfg reg env"
  using assms CheckTunnel_ok [of reg "env_RequiresTunnel env"]
  by (auto simp: checkTunnelAccess_def tunnelReady_def split: if_splits)

text \<open>The tunnel check cannot be passed by through the environment a connector picks. Once it
  has passed, the environment of a PostgreSQL operation, which its connector takes from the
  \<open>env\<close> parameter alone, requires no tunnel or one that is configured and reported up, as
  long as no environment is named by the empty string.\<close>

theorem tunnel_check_covers_postgres:
  assumes "checkTunnelAccess cfg reg ws op ps = Inr u"
    and "mget (ws_Sites ws) (op_Site op) = Some site"
    and "mget (site_Environments site) (strParam ps ''env'') = Some env"
    and "mget (site_Environments site) [] = None"
  shows "tunnelReady cfg reg env"
proof -
  have "strParam ps ''env'' \<noteq> []" using assms(3,4) by auto
  moreover have "site_Environments site \<noteq> []" using assms(3) by auto
  ultimately have "resolveEnv site (op_Site op) ps = Inr (strParam ps ''env'', env)"
    using assms(3) by (simp add: resolveEnv_def Let_def)
  with assms(1,2) show ?thesis by (rule checkTunnelAccess_ready)
qed

definition exampleSite :: Site where
  "exampleSite = \<lparr>site_Environments = [(''prod'', zeroEnvironment)], site_DefaultEnv = [],
     site_Disabled = False\<rparr>"

lemma tunnel_check_covers_postgres_witness:
  "tunnelReady exampleConfig \<lparr>reg_Operations = [], reg_TunnelChecker = None\<rparr> zeroEnvironment"
proof (rule tunnel_check_covers_postgres)
  let ?ws = "zeroWorkspace\<lparr>ws_Sites := [(''pg'', exampleSite)]\<rparr>"
  let ?op = "zeroOperation\<lparr>op_Site := ''pg''\<rparr>"
  show "checkTunnelAccess exampleConfig \<lparr>reg_Operations = [], reg_TunnelChecker = None\<rparr> ?ws ?op
      [(''env'', JStr ''prod'')] = Inr ()"
    by code_simp
  show "mget (ws_Sites ?ws) (op_Site ?op) = Some exampleSite" by simp
  show "mget (site_Environments exampleSite) (strParam [(''env'', JStr ''prod'')] ''env'')
      = Some zeroEnvironment"
    by (simp add: exampleSite_def strParam_def)
  show "mget (site_Environments exampleSite) [] = None" by (simp add: exampleSite_def)
qed

lemma put_op_get:
  "mget (foldl (\<lambda>ops opID. case Get reg opID of
       Some op \<Rightarrow> if \<not> siteDisabled ws (op_Site op) then mput opID op ops else ops
     | None \<Rightarrow> ops) ops ids) k =
   (if k \<in> set ids \<and> (\<exists>op. Get reg k = Some op \<and> \<not> siteDisabled ws (op_Site op)) then Get reg k
    else mget ops k)"
  by (induction ids arbitrary: ops) (auto split: option.split)

lemma grantedRole_get:
  "mget (grantedRole reg ws ops role) k =
   (if k \<in> set (role_Operations role) \<and> (\<exists>op. Get reg k = Some op \<and> \<not> siteDisabled ws (op_Site op))
    then Get reg k else mget ops k)"
  unfolding grantedRole_def by (rule put_op_get)

lemma grantedOperations_get:
  "mget (foldl (\<lambda>ops grant.
       if grant_Workspace grant \<noteq> workspace then ops
       else (case GetRole cfg (grant_Role grant) of
               None \<Rightarrow> ops
             | Some role \<Rightarrow> grantedRole reg ws ops role)) ops gs) k =
   (if (\<exists>g\<in>set gs. grant_Workspace g = workspace \<and>
          (\<exists>role. GetRole cfg (grant_Role g) = Some role \<and> k \<in> set (role_Operations role)))
       \<and> (\<exists>op. Get reg k = Some op \<and> \<not> siteDisabled ws (op_Site op))
    then Get reg k else mget ops k)"
proof (induction gs arbitrary: ops)
  case (Cons g gs)
  show ?case
    by (cases "grant_Workspace g = workspace"; cases "GetRole cfg (grant_Role g)")
      (auto simp: Cons.IH grantedRole_get)
qed simp

text \<open>\<open>/capabilities\<close> tells an agent exactly what it may do: \<open>grantedOperations\<close> lists an
  operation, with its definition, if and only if the registry has it, the agent is granted it
  in the workspace (the check \<open>executeOp\<close> makes) and its integration is not disabled there.\<close>

theorem capabilities_exact:
  "mget (grantedOperations cfg reg agent workspace ws) opID = Some op \<longleftrightarrow>
     Get reg opID = Some op \<and> agentHasOp cfg agent workspace opID \<and> \<not> siteDisabled ws (op_Site op)"
  unfolding grantedOperations_def grantedOperations_get grants.allows_iff granted_def by auto

end
