(* ===== verification/HttpOp.thy ===== *)
theory HttpOp
  imports World Shaper PathTemplate Access
begin

text \<open>
  The executor of http operations, \<open>executeHttpConnector\<close> of server.go: target URL, query,
  body, headers, credentials, the Jenkins crumb, the Trello list scope, the OAuth refresh and
  the shaped answer.
\<close>

section \<open>Slack sessions\<close>

definition addSlackSessionAuth ::
    "golib \<Rightarrow> upstream \<Rightarrow> string gomap \<Rightarrow> Environment \<Rightarrow> string \<Rightarrow> 's world
       \<Rightarrow> string gomap \<times> 's world" where
  "addSlackSessionAuth L U headers env workspace w =
     (let (tok, w) = resolveRef L U (env_SecretRef env) workspace w;
          headers = (case tok of
                       Inl _ \<Rightarrow> headers
                     | Inr t \<Rightarrow> mput ''Authorization'' (''Bearer '' @ trimSpace t) headers)
      in if env_CookieSecretRef env = [] then (headers, w)
         else (let (cook, w) = resolveRef L U (env_CookieSecretRef env) workspace w
               in (case cook of
                     Inl _ \<Rightarrow> (headers, w)
                   | Inr c \<Rightarrow> (mput ''Cookie'' (''d='' @ trimSpace c) headers, w))))"

section \<open>Target\<close>

datatype multipartError =
    PartRequired string string
  | PartControlChars string
  | PartNotBase64 string

datatype httpError =
    SiteNotFound string
  | EnvProblem envError
  | NoBaseURL string
  | PlaceholderBaseURL string
  | PathProblem pathError
  | MultipartProblem multipartError
  | TrelloListRequired string
  | TrelloListDenied string string
  | UpstreamFailed restError
  | RetryFailed restError

definition proxiedBase :: "Environment \<Rightarrow> string" where
  "proxiedBase env =
     (if env_ProxyHost env = [] then env_BaseURL env
      else (let scheme = (if hasPrefix (env_BaseURL env) ''https://'' then ''https'' else ''http'');
                port = (if env_ProxyPort env = 0 then (if scheme = ''https'' then 443 else 80)
                        else env_ProxyPort env)
            in scheme @ ''://'' @ env_ProxyHost env @ '':'' @ showInt port))"

definition siteVars :: "Environment \<Rightarrow> string gomap" where
  "siteVars env =
     [(''site.workspace_id'', env_WorkspaceID env), (''site.user_id'', env_UserID env),
      (''site.workspace'', env_Workspace env), (''site.org'', env_Org env),
      (''site.group'', env_Group env)]"

definition isSlackForm :: "Operation \<Rightarrow> bool" where
  "isSlackForm op = (op_Site op = ''slack'' \<and> op_Method op = ''POST'' \<and> op_BodyTemplate op = [])"

text \<open>\<open>isIntegral\<close> compares with \<open>float64(math.MaxInt64)\<close>, which is \<open>2^63\<close>.\<close>

definition isIntegral :: "float64 \<Rightarrow> bool" where
  "isIntegral f = (fIntegral f \<and> - (2 ^ 63) \<le> fToInt f \<and> fToInt f \<le> 2 ^ 63)"

definition toInt64 :: "golib \<Rightarrow> float64 \<Rightarrow> int" where
  "toInt64 L f = (if fToInt f < 2 ^ 63 then fToInt f else lib_int64 L f)"

fun formatParamValue :: "golib \<Rightarrow> json \<Rightarrow> string" where
  "formatParamValue L (JStr v) = butlast (tl (jsonQuote True v))"
| "formatParamValue L (JObj m) = encodeJson L (JObj m)"
| "formatParamValue L (JArr vs) = encodeJson L (JArr vs)"
| "formatParamValue L (JNum f) =
     (if isIntegral f then showInt (toInt64 L f) else lib_fmtF L f)"
| "formatParamValue L v = sprintV L v"

text \<open>A parameter travels in the query unless the path, the body or the file part has it.\<close>

definition inQuery :: "Operation \<Rightarrow> string \<Rightarrow> bool" where
  "inQuery op key =
     (if key = ''env'' \<or> key = ''cluster'' then False
      else if strContains (op_Path op) (''{'' @ key @ ''}'')
        \<or> strContains (op_Path op) (''{'' @ key @ ''|urlencode}'') then False
      else if strContains (op_BodyTemplate op) (''{{'' @ key @ ''}}'') then False
      else (case op_Multipart op of
              None \<Rightarrow> True
            | Some m \<Rightarrow> \<not> (key = mp_FilenameParam m \<or> key = mp_ContentParam m)))"

definition queryValue :: "golib \<Rightarrow> json \<Rightarrow> string" where
  "queryValue L v = (case v of JStr s \<Rightarrow> s | _ \<Rightarrow> formatParamValue L v)"

definition queryParams :: "golib \<Rightarrow> Operation \<Rightarrow> params \<Rightarrow> (string \<times> string) list" where
  "queryParams L op ps =
     map (\<lambda>(k, v). (k, queryValue L v)) (filter (\<lambda>(k, v). inQuery op k) ps)"

text \<open>\<open>url.Values.Encode\<close>: keys in increasing order.\<close>

definition encodeValues :: "(string \<times> string) list \<Rightarrow> string" where
  "encodeValues vs =
     join ''&'' (map (\<lambda>(k, v). QueryEscape k @ ''='' @ QueryEscape v) (sort_key fst vs))"

definition targetURL :: "string \<Rightarrow> string \<Rightarrow> string \<Rightarrow> bool \<Rightarrow> string" where
  "targetURL baseURL path encoded slackForm =
     (if encoded \<noteq> [] \<and> \<not> slackForm
      then baseURL @ path @ (if strContains path ''?'' then ''&'' else ''?'') @ encoded
      else baseURL @ path)"

section \<open>Body\<close>

datatype btoken = BLit char | BHole string

text \<open>Leftmost matches of the placeholder pattern: two braces, word bytes, two braces.\<close>

definition holeAt :: "string \<Rightarrow> string option" where
  "holeAt s =
     (if take 2 s = ''{{''
      then (let word = takeWhile isWordByte (drop 2 s); rest = dropWhile isWordByte (drop 2 s)
            in if word \<noteq> [] \<and> take 2 rest = ''}}'' then Some word else None)
      else None)"

function btokens :: "string \<Rightarrow> btoken list" where
  "btokens [] = []"
| "btokens (c # cs) =
     (case holeAt (c # cs) of
        Some word \<Rightarrow> BHole word # btokens (drop (length word + 4) (c # cs))
      | None \<Rightarrow> BLit c # btokens cs)"
  by pat_completeness auto
termination
  by (relation "measure length") auto

declare btokens.simps(2) [simp del]

definition fillHole :: "golib \<Rightarrow> string \<Rightarrow> params \<Rightarrow> string \<Rightarrow> string" where
  "fillHole L now ps key =
     (if key = ''now'' then now
      else (case mget ps key of Some v \<Rightarrow> formatParamValue L v | None \<Rightarrow> []))"

fun fillToken :: "golib \<Rightarrow> string \<Rightarrow> params \<Rightarrow> btoken \<Rightarrow> string" where
  "fillToken L now ps (BLit c) = [c]"
| "fillToken L now ps (BHole key) = fillHole L now ps key"

definition buildBody :: "golib \<Rightarrow> string \<Rightarrow> string \<Rightarrow> params \<Rightarrow> string" where
  "buildBody L now template ps = concat (map (fillToken L now ps) (btokens template))"

definition multipartQuote :: "string \<Rightarrow> string" where
  "multipartQuote s =
     concat (map (\<lambda>c. if c = backslash \<or> c = CHR 0x22 then [backslash, c] else [c]) s)"

definition crlf :: string where
  "crlf = [CHR 0x0D, CHR 0x0A]"

definition dispositionValue :: "string \<Rightarrow> string \<Rightarrow> string" where
  "dispositionValue field filename =
     ''form-data; name='' @ [CHR 0x22] @ multipartQuote field @ [CHR 0x22] @ ''; filename='' @ [CHR 0x22]
       @ multipartQuote filename @ [CHR 0x22]"

definition isCtl :: "char \<Rightarrow> bool" where
  "isCtl c = ((of_char c :: nat) < 32 \<or> (of_char c :: nat) = 127)"

definition buildMultipart ::
    "upstream \<Rightarrow> MultipartSpec \<Rightarrow> params \<Rightarrow> multipartError + (string \<times> string)" where
  "buildMultipart U spec ps =
     (let filename = strParam ps (mp_FilenameParam spec); encoded = strParam ps (mp_ContentParam spec)
      in if filename = [] \<or> encoded = [] then Inl (PartRequired (mp_FilenameParam spec) (mp_ContentParam spec))
         else if list_ex isCtl filename then Inl (PartControlChars (mp_FilenameParam spec))
         else (case base64Decode encoded of
                 None \<Rightarrow> Inl (PartNotBase64 (mp_ContentParam spec))
               | Some content \<Rightarrow>
                   (let contentType = (if up_mime U filename = [] then ''application/octet-stream''
                                       else up_mime U filename)
                    in Inr (''--'' @ up_boundary U @ crlf
                            @ ''Content-Disposition: '' @ dispositionValue (mp_Field spec) filename @ crlf
                            @ ''Content-Type: '' @ contentType @ crlf @ crlf
                            @ content @ crlf @ ''--'' @ up_boundary U @ ''--'' @ crlf,
                            ''multipart/form-data; boundary='' @ up_boundary U))))"

text \<open>The body and, for a file part, its content type.\<close>

definition requestBody ::
    "golib \<Rightarrow> upstream \<Rightarrow> Operation \<Rightarrow> params \<Rightarrow> httpError + (string option \<times> string)" where
  "requestBody L U op ps =
     (let body = (if op_BodyTemplate op = [] then None
                  else Some (buildBody L (up_now14 U) (op_BodyTemplate op) ps));
          body = (if isSlackForm op then Some (encodeValues (queryParams L op ps)) else body)
      in (case op_Multipart op of
            None \<Rightarrow> Inr (body, [])
          | Some spec \<Rightarrow>
              mapErr MultipartProblem
                (rbind (buildMultipart U spec ps) (\<lambda>(b, t). Inr (Some b, t)))))"

section \<open>Headers\<close>

definition baseHeaders :: "Operation \<Rightarrow> string \<Rightarrow> string gomap" where
  "baseHeaders op multipartType =
     (let headers = [(''Accept'', ''application/json''), (''Content-Type'', ''application/json'')];
          headers = (if isSlackForm op
                     then mput ''Content-Type'' ''application/x-www-form-urlencoded'' headers else headers);
          headers = (if multipartType \<noteq> [] then mput ''Content-Type'' multipartType headers else headers);
          headers = foldl (\<lambda>h (k, v). mput k v h) headers (op_Headers op)
      in if op_Site op = ''kibana'' then mput ''kbn-xsrf'' ''true'' headers else headers)"

definition needsCrumb :: "Operation \<Rightarrow> Environment \<Rightarrow> bool" where
  "needsCrumb op env =
     (op_Site op = ''jenkins'' \<and> (op_Method op = ''POST'' \<or> op_Method op = ''PUT'')
      \<and> env_SecretRef env \<noteq> [])"

text \<open>The headers of the crumb request, and what its answer adds to the main one.\<close>

definition crumbAuth ::
    "golib \<Rightarrow> upstream \<Rightarrow> Environment \<Rightarrow> string \<Rightarrow> 's world \<Rightarrow> string gomap \<times> 's world" where
  "crumbAuth L U env workspace w =
     (let crumbHeaders = [(''Accept'', ''application/json'')];
          (secret, w) = resolveRef L U (env_SecretRef env) workspace w
      in (case secret of
            Inl _ \<Rightarrow> (crumbHeaders, w)
          | Inr s \<Rightarrow>
              if s = [] then (crumbHeaders, w)
              else (let (auth, w) = base64Auth L (env_User env) (trimSpace s) w
                    in (mput ''Authorization'' (''Basic '' @ auth) crumbHeaders, w))))"

definition takeCrumb :: "golib \<Rightarrow> string gomap \<Rightarrow> restError + Response \<Rightarrow> string gomap" where
  "takeCrumb L headers reply =
     (case reply of
        Inl _ \<Rightarrow> headers
      | Inr resp \<Rightarrow>
          if rs_StatusCode resp \<noteq> 200 then headers
          else (case structFields L [''crumb'', ''crumbRequestField''] (lib_decode L (rs_Body resp)) of
                  Some [crumb, field] \<Rightarrow>
                    if crumb = [] then headers
                    else (let headers = mput field crumb headers;
                              cookie = headerValue (rs_Headers resp) ''Set-Cookie''
                          in if cookie \<noteq> []
                             then mput ''Cookie'' (takeWhile (\<lambda>c. c \<noteq> CHR '';'') cookie) headers
                             else headers)
                | _ \<Rightarrow> headers))"

definition addCrumb ::
    "golib \<Rightarrow> upstream \<Rightarrow> Operation \<Rightarrow> Environment \<Rightarrow> string \<Rightarrow> string \<Rightarrow> string gomap \<Rightarrow> 's world
       \<Rightarrow> string gomap \<times> 's world" where
  "addCrumb L U op env baseURL workspace headers w =
     (if \<not> needsCrumb op env then (headers, w)
      else (let crumbURL = trimSuffix baseURL ''/'' @ ''/crumbIssuer/api/json'';
                (crumbHeaders, w) = crumbAuth L U env workspace w;
                (reply, w) = Execute L U
                  \<lparr>rq_Method = ''GET'', rq_Path = crumbURL, rq_Headers = crumbHeaders, rq_Body = None,
                   rq_Credentials = None, rq_Insecure = env_InsecureSkipVerify env,
                   rq_MaxBodyBytes = 0\<rparr> w
            in (takeCrumb L headers reply, w)))"

definition authHeaders ::
    "golib \<Rightarrow> upstream \<Rightarrow> Environment \<Rightarrow> params \<Rightarrow> string \<Rightarrow> string gomap \<Rightarrow> 's world
       \<Rightarrow> string gomap \<times> 's world" where
  "authHeaders L U env ps workspace headers w =
     (let kind = auth_Type (env_Auth env)
      in if kind = ''basic'' \<and> env_User env \<noteq> [] then
           (let passwd = strParam ps ''password'';
                (passwd, w) =
                  (if passwd \<noteq> [] then (passwd, w)
                   else (case resolveRef L U (env_SecretRef env) workspace w of
                           (Inl _, w) \<Rightarrow> ([], w)
                         | (Inr secret, w) \<Rightarrow> (secret, w)))
            in if passwd = [] then (headers, w)
               else (let (auth, w) = base64Auth L (env_User env) passwd w
                     in (mput ''Authorization'' (''Basic '' @ auth) headers, w)))
         else if kind = ''bearer'' \<and> env_SecretRef env \<noteq> [] then
           (case resolveRef L U (env_SecretRef env) workspace w of
              (Inl _, w) \<Rightarrow> (headers, w)
            | (Inr secret, w) \<Rightarrow> (mput ''Authorization'' (''Bearer '' @ secret) headers, w))
         else if kind = ''api-key'' \<and> env_SecretRef env \<noteq> [] then
           (case resolveRef L U (env_SecretRef env) workspace w of
              (Inl _, w) \<Rightarrow> (headers, w)
            | (Inr secret, w) \<Rightarrow> (mput (auth_Header (env_Auth env)) secret headers, w))
         else if kind = ''slack-session'' \<and> env_SecretRef env \<noteq> [] then
           addSlackSessionAuth L U headers env workspace w
         else if kind = ''trello'' \<and> env_SecretRef env \<noteq> [] then
           (case resolveRef L U (env_SecretRef env) workspace w of
              (Inl _, w) \<Rightarrow> (headers, w)
            | (Inr secret, w) \<Rightarrow>
                (let (token, w) =
                       (if env_CookieSecretRef env = [] then ([], w)
                        else (case resolveRef L U (env_CookieSecretRef env) workspace w of
                                (Inl _, w) \<Rightarrow> ([], w)
                              | (Inr tok, w) \<Rightarrow> (trimSpace tok, w)));
                     q = [CHR 0x22]
                 in (mput ''Authorization''
                       (''OAuth oauth_consumer_key='' @ q @ trimSpace secret @ q @ '', oauth_token=''
                         @ q @ token @ q) headers, w)))
         else (headers, w))"

section \<open>Trello lists, OAuth refresh\<close>

definition checkTrelloList :: "Workspace \<Rightarrow> Operation \<Rightarrow> params \<Rightarrow> httpError + unit" where
  "checkTrelloList ws op ps =
     (let lists = wp_TrelloAllowedLists (ws_Policy ws)
      in if op_Site op = ''trello'' \<and> 0 < length lists then
           (let listID = strParam ps ''listId'';
                listID = (if listID = [] then strParam ps ''idList'' else listID)
            in if listID = [] then Inl (TrelloListRequired (op_ID op))
               else ensure (List.member lists listID) (TrelloListDenied listID (op_ID op)))
         else Inr ())"

definition refreshForm :: "string \<Rightarrow> string \<Rightarrow> string \<Rightarrow> (string \<times> string) list" where
  "refreshForm token clientID clientSecret =
     [(''grant_type'', ''refresh_token''), (''refresh_token'', trimSpace token), (''client_id'', clientID)]
     @ (if clientSecret \<noteq> [] then [(''client_secret'', clientSecret)] else [])"

text \<open>The two writes to the store once the token endpoint has answered.\<close>

definition storeTokens ::
    "OAuthRefreshConfig \<Rightarrow> Environment \<Rightarrow> string \<Rightarrow> string \<Rightarrow> 's Resolver \<Rightarrow> bool \<times> 's Resolver" where
  "storeTokens oauth env accessToken refreshToken r =
     (let (wsName, secretName) = parseSecretRef (env_SecretRef env);
          (refWs, refName) = parseSecretRef (oauth_RefreshSecretRef oauth)
      in (case SetSecret wsName secretName (trimSpace accessToken) r of
            (Inl _, r) \<Rightarrow> (False, r)
          | (Inr _, r) \<Rightarrow>
              (let rt = trimSpace refreshToken;
                   r = (if rt \<noteq> [] \<and> oauth_RefreshSecretRef oauth \<noteq> []
                        then snd (SetSecret refWs refName rt r) else r)
               in (True, FlushCache r))))"

text \<open>The form sent to the token endpoint, unless the refresh token cannot be resolved.\<close>

definition refreshRequest ::
    "golib \<Rightarrow> upstream \<Rightarrow> OAuthRefreshConfig \<Rightarrow> string \<Rightarrow> 's world \<Rightarrow> string option \<times> 's world" where
  "refreshRequest L U oauth workspace w =
     (case resolveRef L U (oauth_RefreshSecretRef oauth) workspace w of
        (Inl _, w) \<Rightarrow> (None, w)
      | (Inr refreshToken, w) \<Rightarrow>
          (let (clientSecret, w) =
                 (if oauth_ClientSecretRef oauth = [] then ([], w)
                  else (case resolveRef L U (oauth_ClientSecretRef oauth) workspace w of
                          (Inl _, w) \<Rightarrow> ([], w)
                        | (Inr cs, w) \<Rightarrow> (trimSpace cs, w)))
           in (Some (encodeValues (refreshForm refreshToken (oauth_ClientID oauth) clientSecret)), w)))"

definition tokenRequest :: "string \<Rightarrow> string \<Rightarrow> wire" where
  "tokenRequest url form =
     \<lparr>wi_Method = ''POST'', wi_URL = url,
      wi_Headers = [(''Content-Type'', ''application/x-www-form-urlencoded'')],
      wi_Body = Some form, wi_Insecure = False\<rparr>"

text \<open>The new access token and, possibly empty, the rotated refresh token.\<close>

definition readTokens :: "golib \<Rightarrow> netError + answer \<Rightarrow> (string \<times> string) option" where
  "readTokens L reply =
     (case reply of
        Inl _ \<Rightarrow> None
      | Inr a \<Rightarrow>
          if an_Status a \<noteq> 200 then None
          else (case structFields L [''access_token'', ''refresh_token'']
                  (lib_decodeFirst L (an_Body a)) of
                  Some [accessToken, newRefresh] \<Rightarrow>
                    if accessToken = [] then None else Some (accessToken, newRefresh)
                | _ \<Rightarrow> None))"

definition postToken ::
    "golib \<Rightarrow> upstream \<Rightarrow> string \<Rightarrow> string \<Rightarrow> 's world \<Rightarrow> (string \<times> string) option \<times> 's world" where
  "postToken L U url form w =
     (case up_badRequest U ''POST'' url of
        Some _ \<Rightarrow> (None, w)
      | None \<Rightarrow>
          (readTokens L (up_http U (w_sent w) (tokenRequest url form)),
           w\<lparr>w_sent := w_sent w @ [tokenRequest url form]\<rparr>))"

definition refreshOAuthToken ::
    "golib \<Rightarrow> upstream \<Rightarrow> OAuthRefreshConfig \<Rightarrow> Environment \<Rightarrow> string \<Rightarrow> 's world \<Rightarrow> bool \<times> 's world" where
  "refreshOAuthToken L U oauth env workspace w =
     (case refreshRequest L U oauth workspace w of
        (None, w) \<Rightarrow> (False, w)
      | (Some form, w) \<Rightarrow>
          (case postToken L U (oauth_TokenURL oauth) form w of
             (None, w) \<Rightarrow> (False, w)
           | (Some (accessToken, newRefresh), w) \<Rightarrow>
               (let (ok, r) = storeTokens oauth env accessToken newRefresh (w_res w)
                in (ok, w\<lparr>w_res := r\<rparr>))))"

section \<open>The operation\<close>

text \<open>One exchange, and once more with a fresh token after a 401 of a bearer site with OAuth.\<close>

definition retryRequest ::
    "golib \<Rightarrow> upstream \<Rightarrow> OAuthRefreshConfig \<Rightarrow> Environment \<Rightarrow> string \<Rightarrow> Request \<Rightarrow> Response \<Rightarrow> 's world
       \<Rightarrow> (httpError + Response) \<times> 's world" where
  "retryRequest L U oauth env workspace req resp w =
     (case refreshOAuthToken L U oauth env workspace w of
        (False, w) \<Rightarrow> (Inr resp, w)
      | (True, w) \<Rightarrow>
          (case resolveRef L U (env_SecretRef env) workspace w of
             (Inl _, w) \<Rightarrow> (Inr resp, w)
           | (Inr secret, w) \<Rightarrow>
               (case Execute L U (req\<lparr>rq_Headers :=
                    mput ''Authorization'' (''Bearer '' @ trimSpace secret) (rq_Headers req)\<rparr>) w of
                  (res, w) \<Rightarrow> (mapErr RetryFailed res, w))))"

definition sendWithRefresh ::
    "golib \<Rightarrow> upstream \<Rightarrow> Environment \<Rightarrow> string \<Rightarrow> Request \<Rightarrow> 's world
       \<Rightarrow> (httpError + Response) \<times> 's world" where
  "sendWithRefresh L U env workspace req w =
     (case Execute L U req w of
        (Inl e, w) \<Rightarrow> (Inl (UpstreamFailed e), w)
      | (Inr resp, w) \<Rightarrow>
          (case env_OAuth env of
             None \<Rightarrow> (Inr resp, w)
           | Some oauth \<Rightarrow>
               if rs_StatusCode resp = 401 \<and> auth_Type (env_Auth env) = ''bearer'' \<and> env_SecretRef env \<noteq> []
               then retryRequest L U oauth env workspace req resp w
               else (Inr resp, w)))"

text \<open>What the operation will send, before any header: environment, base, URL, body and its type.\<close>

definition prepare ::
    "golib \<Rightarrow> upstream \<Rightarrow> Workspace \<Rightarrow> Operation \<Rightarrow> params
       \<Rightarrow> httpError + (Environment \<times> string \<times> string \<times> string option \<times> string)" where
  "prepare L U ws op ps =
     (case mget (ws_Sites ws) (op_Site op) of
        None \<Rightarrow> Inl (SiteNotFound (op_Site op))
      | Some site \<Rightarrow>
          rbind (mapErr EnvProblem (resolveEnv site (op_Site op) ps)) (\<lambda>(envName, env).
          let baseURL = proxiedBase env
          in if baseURL = [] then Inl (NoBaseURL envName)
             else if baseURL = ''-'' then Inl (PlaceholderBaseURL envName)
             else
               rbind (mapErr PathProblem
                 (expandPathTemplate L (op_Path op) (siteVars env) ps (op_Params op))) (\<lambda>path.
               rbind (requestBody L U op ps) (\<lambda>(body, multipartType).
               Inr (env, baseURL,
                    targetURL baseURL path (encodeValues (queryParams L op ps)) (isSlackForm op),
                    body, multipartType)))))"

definition executeHttpConnector ::
    "golib \<Rightarrow> upstream \<Rightarrow> Workspace \<Rightarrow> Operation \<Rightarrow> params \<Rightarrow> string \<Rightarrow> 's world
       \<Rightarrow> (httpError + (int \<times> string)) \<times> 's world" where
  "executeHttpConnector L U ws op ps workspace w =
     (case prepare L U ws op ps of
        Inl e \<Rightarrow> (Inl e, w)
      | Inr (env, baseURL, urlStr, body, multipartType) \<Rightarrow>
          (let headers = baseHeaders op multipartType;
               (headers, w) = addCrumb L U op env baseURL workspace headers w;
               (headers, w) = authHeaders L U env ps workspace headers w
           in (case checkTrelloList ws op ps of
                 Inl e \<Rightarrow> (Inl e, w)
               | Inr _ \<Rightarrow>
                   (let req = \<lparr>rq_Method = op_Method op, rq_Path = urlStr, rq_Headers = headers,
                               rq_Body = body, rq_Credentials = None,
                               rq_Insecure = env_InsecureSkipVerify env, rq_MaxBodyBytes = 0\<rparr>;
                        (res, w) = sendWithRefresh L U env workspace req w
                    in (rbind res (\<lambda>resp.
                          Inr (rs_StatusCode resp,
                               shapeResponse L (rs_StatusCode resp) (rs_Body resp)
                                 (resp_AllowFields (op_Response op)))), w)))))"

end
