(* ===== verification/HttpSafety.thy ===== *)
theory HttpSafety
  imports HttpOp
begin

text \<open>
  What the http-rest operations guarantee, whatever an agent puts into its parameters and
  whatever the upstream answers: the body keeps the JSON structure of its template, the query
  carries exactly the parameters, a file name stays inside its header, requests go only to
  the configured targets, and an operation of one workspace does not depend on the secrets of
  another.
\<close>

section \<open>Quoted text\<close>

text \<open>
  A reader of double quotes with backslash escapes, and the text it finds outside them: JSON
  string literals and the quoted strings of a MIME header are both read this way.
\<close>

datatype jstate = JOut | JIn | JEsc

fun jstep :: "jstate \<Rightarrow> char \<Rightarrow> jstate" where
  "jstep JOut c = (if c = CHR 0x22 then JIn else JOut)"
| "jstep JIn c = (if c = backslash then JEsc else if c = CHR 0x22 then JOut else JIn)"
| "jstep JEsc c = JIn"

fun jrun :: "jstate \<Rightarrow> string \<Rightarrow> jstate" where
  "jrun st [] = st"
| "jrun st (c # cs) = jrun (jstep st c) cs"

fun outside :: "jstate \<Rightarrow> string \<Rightarrow> string" where
  "outside st [] = []"
| "outside st (c # cs) = (if st = JOut \<or> jstep st c = JOut then [c] else []) @ outside (jstep st c) cs"

lemma jrun_append: "jrun st (s @ t) = jrun (jrun st s) t"
  by (induction s arbitrary: st) simp_all

lemma outside_append: "outside st (s @ t) = outside st s @ outside (jrun st s) t"
  by (induction s arbitrary: st) simp_all

text \<open>Text that stays inside the quotes it starts in.\<close>

definition inside :: "string \<Rightarrow> bool" where
  "inside s \<longleftrightarrow> jrun JIn s = JIn \<and> outside JIn s = []"

lemma inside_append: "inside s \<Longrightarrow> inside t \<Longrightarrow> inside (s @ t)"
  by (simp add: inside_def jrun_append outside_append)

lemma inside_Nil [simp]: "inside []"
  by (simp add: inside_def)

lemma inside_plain: "CHR 0x22 \<notin> set s \<Longrightarrow> backslash \<notin> set s \<Longrightarrow> inside s"
  by (induction s) (auto simp: inside_def)

lemma inside_escape: "inside (backslash # c # s) \<longleftrightarrow> inside s"
  by (simp add: inside_def backslash_def)

lemma inside_concat: "(\<And>c. c \<in> set s \<Longrightarrow> inside (f c)) \<Longrightarrow> inside (concat (map f s))"
  by (induction s) (simp_all add: inside_append)

lemma outside_plain: "CHR 0x22 \<notin> set s \<Longrightarrow> outside JOut s = s \<and> jrun JOut s = JOut"
  by (induction s) auto

lemma outside_quoted: "inside s \<Longrightarrow>
    outside JOut (CHR 0x22 # s @ [CHR 0x22]) = [CHR 0x22, CHR 0x22] \<and> jrun JOut (CHR 0x22 # s @ [CHR 0x22]) = JOut"
  by (simp add: outside_append jrun_append inside_def backslash_def)

lemma lowerHex_plain: "n < 16 \<Longrightarrow> lowerHex n \<noteq> CHR 0x22 \<and> lowerHex n \<noteq> backslash"
proof -
  assume "n < 16"
  then have "of_char (lowerHex n) = (if n < 10 then 48 + n else 87 + n)"
    by (simp add: lowerHex_def)
  moreover have "of_char (CHR 0x22) = (34::nat)" "of_char backslash = (92::nat)"
    by (simp_all add: backslash_def)
  ultimately show ?thesis using \<open>n < 16\<close> by (auto split: if_splits)
qed

lemma inside_uEscape: "n < 256 \<Longrightarrow> inside (uEscape n)"
  unfolding uEscape_def inside_escape
proof -
  assume "n < 256"
  then have "n div 16 < 16" "n mod 16 < 16" by simp_all
  then have "lowerHex (n div 16) \<noteq> CHR 0x22 \<and> lowerHex (n div 16) \<noteq> backslash"
    "lowerHex (n mod 16) \<noteq> CHR 0x22 \<and> lowerHex (n mod 16) \<noteq> backslash"
    by (simp_all add: lowerHex_plain)
  then show "inside [CHR ''0'', CHR ''0'', lowerHex (n div 16), lowerHex (n mod 16)]"
    by (intro inside_plain) (auto simp: backslash_def)
qed

lemma inside_jsonEscapeByte: "inside (jsonEscapeByte html c)"
proof (cases "c = CHR 0x22 \<or> c = backslash")
  case False
  then have "inside [c]" by (intro inside_plain) auto
  then show ?thesis
    using False inside_uEscape [of "of_char c"] of_char_less_256 [of c]
    by (simp add: jsonEscapeByte_def inside_escape)
qed (auto simp: jsonEscapeByte_def inside_escape)

lemma first_of_lengths:
  "(x::nat) = (if p0 then 0 else if p1 then 1 else if p2 then (if q2 then 2 else 0)
      else if p3 then (if q3 then 3 else 0) else if p4 then (if q4 then 4 else 0) else 0) \<Longrightarrow>
    1 < x \<Longrightarrow> x = 2 \<and> p2 \<and> q2 \<or> x = 3 \<and> p3 \<and> q3 \<or> x = 4 \<and> p4 \<and> q4"
  by (simp split: if_splits)

lemma utf8Len_high:
  assumes "1 < utf8Len s"
  shows "\<forall>c\<in>set (take (utf8Len s) s). 128 \<le> (of_char c :: nat)"
proof -
  define b where "b = (\<lambda>i. if i < length s then (of_char (s ! i) :: nat) else 0)"
  have n: "utf8Len s = (if s = [] then 0 else if b 0 < 128 then 1
      else if 194 \<le> b 0 \<and> b 0 \<le> 223 then (if 128 \<le> b 1 \<and> b 1 \<le> 191 then 2 else 0)
      else if 224 \<le> b 0 \<and> b 0 \<le> 239 then
        (if (128 \<le> b 1 \<and> b 1 \<le> 191) \<and> (128 \<le> b 2 \<and> b 2 \<le> 191)
            \<and> (b 0 = 224 \<longrightarrow> 160 \<le> b 1) \<and> (b 0 = 237 \<longrightarrow> b 1 \<le> 159) then 3 else 0)
      else if 240 \<le> b 0 \<and> b 0 \<le> 244 then
        (if (128 \<le> b 1 \<and> b 1 \<le> 191) \<and> (128 \<le> b 2 \<and> b 2 \<le> 191) \<and> (128 \<le> b 3 \<and> b 3 \<le> 191)
            \<and> (b 0 = 240 \<longrightarrow> 144 \<le> b 1) \<and> (b 0 = 244 \<longrightarrow> b 1 \<le> 143) then 4 else 0)
      else 0)"
    unfolding utf8Len_def Let_def b_def by (rule refl)
  have len: "utf8Len s = 2 \<and> 128 \<le> b 0 \<and> 128 \<le> b 1
      \<or> utf8Len s = 3 \<and> 128 \<le> b 0 \<and> 128 \<le> b 1 \<and> 128 \<le> b 2
      \<or> utf8Len s = 4 \<and> 128 \<le> b 0 \<and> 128 \<le> b 1 \<and> 128 \<le> b 2 \<and> 128 \<le> b 3"
    using first_of_lengths [OF n assms] by (elim disjE conjE) simp_all
  have "128 \<le> b i" if "i < utf8Len s" for i
  proof -
    from that len have "i = 0 \<or> i = 1 \<or> (i = 2 \<and> utf8Len s \<noteq> 2) \<or> (i = 3 \<and> utf8Len s = 4)" by linarith
    with len show ?thesis by (elim disjE conjE) simp_all
  qed
  then have "\<forall>i < utf8Len s. i < length s \<longrightarrow> 128 \<le> (of_char (s ! i) :: nat)"
    unfolding b_def by (metis (mono_tags))
  then show ?thesis by (auto simp: set_conv_nth)
qed

lemma inside_high: "\<forall>c\<in>set s. 128 \<le> (of_char c :: nat) \<Longrightarrow> inside s"
  by (rule inside_plain) (auto simp: backslash_def)

lemma inside_jsonBody: "inside (jsonBody html s)"
proof (induction html s rule: jsonBody.induct)
  case (2 html c cs)
  let ?n = "utf8Len (c # cs)"
  show ?case
  proof (cases "?n \<le> 1")
    case True
    moreover have "inside (backslash # ''ufffd'')"
      unfolding inside_escape by (rule inside_plain) (simp_all add: backslash_def)
    ultimately show ?thesis
      using 2 inside_jsonEscapeByte by (subst jsonBody.simps(2)) (simp add: Let_def inside_append)
  next
    case False
    then have "1 < ?n" by simp
    then have "inside (take ?n (c # cs))" by (intro inside_high utf8Len_high)
    moreover have "inside (backslash # ''u2028'')" "inside (backslash # ''u2029'')"
      unfolding inside_escape by (rule inside_plain; simp add: backslash_def)+
    ultimately have "inside (if take ?n (c # cs) = [CHR 0xE2, CHR 0x80, CHR 0xA8] then backslash # ''u2028''
        else if take ?n (c # cs) = [CHR 0xE2, CHR 0x80, CHR 0xA9] then backslash # ''u2029''
        else take ?n (c # cs))" by presburger
    moreover have "inside (jsonBody html (drop ?n (c # cs)))" using 2 False by blast
    ultimately show ?thesis
      using False by (simp only: jsonBody.simps(2) Let_def if_False) (rule inside_append)
  qed
qed simp

section \<open>Bodies\<close>

lemma formatString: "formatParamValue L (JStr v) = jsonBody True v"
  by (simp add: jsonQuote_def)

text \<open>
  The text of a template outside its JSON strings, with the holes that stand there filled in.
  A hole fits when it stands inside a string and its value is text (or the timestamp, or
  nothing), or outside and its value has no quote.
\<close>

fun skeleton :: "golib \<Rightarrow> string \<Rightarrow> params \<Rightarrow> jstate \<Rightarrow> btoken list \<Rightarrow> string" where
  "skeleton L now ps st [] = []"
| "skeleton L now ps st (BLit c # ts) = outside st [c] @ skeleton L now ps (jstep st c) ts"
| "skeleton L now ps st (BHole k # ts) =
     (if st = JOut then fillHole L now ps k else []) @ skeleton L now ps st ts"

fun textual :: "json option \<Rightarrow> bool" where
  "textual None = True"
| "textual (Some (JStr v)) = True"
| "textual _ = False"

fun holesFit :: "golib \<Rightarrow> string \<Rightarrow> params \<Rightarrow> jstate \<Rightarrow> btoken list \<Rightarrow> bool" where
  "holesFit L now ps st [] = True"
| "holesFit L now ps st (BLit c # ts) = holesFit L now ps (jstep st c) ts"
| "holesFit L now ps st (BHole k # ts) =
     ((st = JIn \<and> (k = ''now'' \<or> textual (mget ps k))
       \<or> st = JOut \<and> \<not> List.member (fillHole L now ps k) (CHR 0x22))
      \<and> holesFit L now ps st ts)"

lemma fillHole_inside:
  assumes "inside now" and "k = ''now'' \<or> textual (mget ps k)"
  shows "inside (fillHole L now ps k)"
proof (cases "k = ''now''")
  case True
  then show ?thesis using assms(1) by (simp add: fillHole_def)
next
  case False
  with assms(2) have "mget ps k = None \<or> (\<exists>v. mget ps k = Some (JStr v))"
    by (cases "mget ps k" rule: textual.cases) auto
  then show ?thesis using False inside_jsonBody by (auto simp: fillHole_def formatString simp del: formatParamValue.simps)
qed

lemma filled_structure:
  assumes "inside now" and "holesFit L now ps st ts"
  shows "outside st (concat (map (fillToken L now ps) ts)) = skeleton L now ps st ts"
  using assms(2)
proof (induction ts arbitrary: st)
  case (Cons t ts)
  show ?case
  proof (cases t)
    case (BLit c)
    with Cons show ?thesis by (simp add: outside_append)
  next
    case (BHole k)
    from Cons.prems BHole
    consider "st = JIn" "inside (fillHole L now ps k)" | "st = JOut" "CHR 0x22 \<notin> set (fillHole L now ps k)"
      using fillHole_inside [OF assms(1), of k ps L] by auto
    then show ?thesis
    proof cases
      case 1
      with Cons BHole show ?thesis by (simp add: outside_append inside_def)
    next
      case 2
      with Cons BHole outside_plain [OF 2(2)] show ?thesis by (simp add: outside_append)
    qed
  qed
qed simp

text \<open>C22: Agents cannot change the JSON structure of a request body. Where the template puts a
  parameter inside a string literal and the parameter is a string (which is what its declared
  type makes it), the built body has, outside of its string literals, exactly the text of the
  template, whatever quotes, backslashes or placeholders the value holds; numbers and
  booleans stand where the template puts them.\<close>

theorem body_structure_preserved:
  assumes "holesFit L now ps JOut (btokens template)" and "list_all isDigit now"
  shows "outside JOut (buildBody L now template ps) = skeleton L now ps JOut (btokens template)"
proof -
  have "inside now"
  proof (rule inside_plain)
    have "\<not> isDigit (CHR 0x22)" "\<not> isDigit backslash" by code_simp+
    then show "CHR 0x22 \<notin> set now" "backslash \<notin> set now"
      using assms(2) by (auto simp: list_all_iff)
  qed
  with assms(1) show ?thesis unfolding buildBody_def by (intro filled_structure)
qed

definition exampleTemplate :: string where
  "exampleTemplate = [CHR ''{'', CHR 0x22] @ ''t'' @ [CHR 0x22] @ '':'' @ [CHR 0x22] @ ''{{title}}'' @ [CHR 0x22] @ ''}''"

definition evilTitle :: params where
  "evilTitle = [(''title'', JStr ([CHR 0x22] @ '',{{now}}'' @ [CHR 0x22]))]"

lemma body_structure_preserved_witness:
  "outside JOut (buildBody exampleLib ''2025'' exampleTemplate evilTitle)
     = ''{'' @ [CHR 0x22, CHR 0x22] @ '':'' @ [CHR 0x22, CHR 0x22] @ ''}''"
proof -
  have "outside JOut (buildBody exampleLib ''2025'' exampleTemplate evilTitle)
      = skeleton exampleLib ''2025'' evilTitle JOut (btokens exampleTemplate)"
    by (rule body_structure_preserved) code_simp+
  also have "\<dots> = ''{'' @ [CHR 0x22, CHR 0x22] @ '':'' @ [CHR 0x22, CHR 0x22] @ ''}''" by code_simp
  finally show ?thesis .
qed

section \<open>Queries\<close>

text \<open>A query string as a server reads it.\<close>

definition parsePair :: "string \<Rightarrow> (string \<times> string) option" where
  "parsePair s =
     (case cutAt (CHR ''='') s of
        None \<Rightarrow> map_option (\<lambda>k. (k, [])) (QueryUnescape s)
      | Some (k, v) \<Rightarrow>
          (case (QueryUnescape k, QueryUnescape v) of
             (Some a, Some b) \<Rightarrow> Some (a, b)
           | _ \<Rightarrow> None))"

definition parseQuery :: "string \<Rightarrow> (string \<times> string) list option" where
  "parseQuery s = those (map parsePair (splitOn (CHR ''&'') s))"

lemma QueryEscape_plain: "CHR ''&'' \<notin> set (QueryEscape s)" "CHR ''='' \<notin> set (QueryEscape s)"
proof -
  have "\<not> isUnreserved (CHR ''&'')" "\<not> isUnreserved (CHR ''='')" by code_simp+
  then show "CHR ''&'' \<notin> set (QueryEscape s)" "CHR ''='' \<notin> set (QueryEscape s)"
    by (auto dest!: QueryEscape_bytes)
qed

lemma cutAt_first: "c \<notin> set a \<Longrightarrow> cutAt c (a @ c # b) = Some (a, b)"
  by (induction a) auto

lemma splitOn_word: "c \<notin> set w \<Longrightarrow> splitOn c w = [w]"
  by (induction w) auto

lemma splitOn_app: "c \<notin> set w \<Longrightarrow> splitOn c (w @ c # s) = w # splitOn c s"
  by (induction w) auto

lemma splitOn_join:
  "ws \<noteq> [] \<Longrightarrow> \<forall>w\<in>set ws. c \<notin> set w \<Longrightarrow> splitOn c (join [c] ws) = ws"
  by (induction "[c]" ws rule: join.induct) (simp_all add: splitOn_word splitOn_app)

lemma parsePair_encoded: "parsePair (QueryEscape k @ ''='' @ QueryEscape v) = Some (k, v)"
  by (simp add: parsePair_def cutAt_first QueryEscape_plain QueryUnescape_QueryEscape)

lemma those_map_Some: "(\<And>x. x \<in> set xs \<Longrightarrow> f (g x) = Some x) \<Longrightarrow> those (map f (map g xs)) = Some xs"
  by (induction xs) simp_all

lemma parse_encoded:
  assumes "vs \<noteq> []"
  shows "parseQuery (encodeValues vs) = Some (sort_key fst vs)"
proof -
  let ?ws = "map (\<lambda>(k, v). QueryEscape k @ ''='' @ QueryEscape v) (sort_key fst vs)"
  have "splitOn (CHR ''&'') (join ''&'' ?ws) = ?ws"
  proof (rule splitOn_join)
    show "?ws \<noteq> []" using assms by (metis length_0_conv length_map length_sort)
    show "\<forall>w\<in>set ?ws. CHR ''&'' \<notin> set w" by (auto simp: QueryEscape_plain)
  qed
  then show ?thesis
    unfolding parseQuery_def encodeValues_def
    by (simp only:) (rule those_map_Some, auto simp: parsePair_encoded [simplified])
qed

text \<open>The query of an upstream request says what the agent's parameters say and nothing
  else: reading it back gives exactly the parameters that neither the path, the body nor the
  file part carries, with their values unchanged, in the order of their names. No value can
  add a parameter or hide one.\<close>

theorem query_roundtrip:
  assumes "queryParams L op ps \<noteq> []"
  shows "parseQuery (encodeValues (queryParams L op ps)) = Some (sort_key fst (queryParams L op ps))"
  using assms by (rule parse_encoded)

lemma query_roundtrip_witness:
  "parseQuery ''jql=a%26b%3D1'' = Some [(''jql'', ''a&b=1'')]"
proof -
  have q: "queryParams exampleLib zeroOperation [(''env'', JStr ''prod''), (''jql'', JStr ''a&b=1'')]
      = [(''jql'', ''a&b=1'')]"
    by code_simp
  have "encodeValues [(''jql'', ''a&b=1'')] = ''jql=a%26b%3D1''" by code_simp
  with query_roundtrip [of exampleLib zeroOperation "[(''env'', JStr ''prod''), (''jql'', JStr ''a&b=1'')]"]
  show ?thesis by (simp add: q)
qed

section \<open>File parts\<close>

text \<open>The quoted strings of a header value, read with backslash escapes.\<close>

fun unquote :: "string \<Rightarrow> (string \<times> string) option" where
  "unquote [] = None"
| "unquote (c # cs) =
     (if c = CHR 0x22 then Some ([], cs)
      else if c = backslash then
        (case cs of [] \<Rightarrow> None | d # ds \<Rightarrow> map_option (\<lambda>(s, r). (d # s, r)) (unquote ds))
      else map_option (\<lambda>(s, r). (c # s, r)) (unquote cs))"

definition namePart :: string where
  "namePart = ''form-data; name='' @ [CHR 0x22]"

definition filenamePart :: string where
  "filenamePart = ''; filename='' @ [CHR 0x22]"

definition readDisposition :: "string \<Rightarrow> (string \<times> string) option" where
  "readDisposition s =
     (if \<not> hasPrefix s namePart then None
      else (case unquote (drop (length namePart) s) of
              None \<Rightarrow> None
            | Some (field, r) \<Rightarrow>
                if \<not> hasPrefix r filenamePart then None
                else (case unquote (drop (length filenamePart) r) of
                        Some (filename, []) \<Rightarrow> Some (field, filename)
                      | _ \<Rightarrow> None)))"

lemma unquote_quoted: "unquote (multipartQuote s @ CHR 0x22 # r) = Some (s, r)"
  by (induction s) (auto simp: multipartQuote_def backslash_def)

lemma readDisposition_value: "readDisposition (dispositionValue field filename) = Some (field, filename)"
proof -
  have d: "dispositionValue field filename
      = namePart @ multipartQuote field @ CHR 0x22 # filenamePart @ multipartQuote filename @ CHR 0x22 # []"
    by (simp add: dispositionValue_def namePart_def filenamePart_def)
  have p: "hasPrefix (a @ b) a" for a b :: string by (simp add: hasPrefix_def)
  show ?thesis by (simp add: readDisposition_def d p unquote_quoted)
qed

lemma dispositionValue_clean:
  assumes "\<not> list_ex isCtl field" and "\<not> list_ex isCtl filename"
  shows "\<not> list_ex isCtl (dispositionValue field filename)"
proof -
  have q: "\<not> list_ex isCtl (multipartQuote s)" if "\<not> list_ex isCtl s" for s
  proof -
    have "\<not> isCtl backslash" by code_simp
    with that show ?thesis unfolding multipartQuote_def list_ex_iff by (auto split: if_splits)
  qed
  have "\<not> list_ex isCtl ''form-data; name=''" "\<not> list_ex isCtl [CHR 0x22]" "\<not> list_ex isCtl ''; filename=''"
    by code_simp+
  then show ?thesis using q assms by (simp add: dispositionValue_def)
qed

text \<open>An uploaded file's name stays inside its header: the part header of a multipart body
  has no control byte, so it cannot end early, and reading its quoted strings gives back
  exactly the field of the operation and the name the agent gave, quotes and backslashes
  included; the bytes that follow are the decoded content.\<close>

theorem multipart_name_contained:
  assumes "buildMultipart U spec ps = Inr (body, contentType)" and "\<not> list_ex isCtl (mp_Field spec)"
  shows "\<exists>disp mime content. base64Decode (strParam ps (mp_ContentParam spec)) = Some content
    \<and> body = ''--'' @ up_boundary U @ crlf @ ''Content-Disposition: '' @ disp @ crlf
        @ ''Content-Type: '' @ mime @ crlf @ crlf @ content @ crlf @ ''--'' @ up_boundary U @ ''--'' @ crlf
    \<and> \<not> list_ex isCtl disp
    \<and> readDisposition disp = Some (mp_Field spec, strParam ps (mp_FilenameParam spec))"
proof -
  let ?f = "strParam ps (mp_FilenameParam spec)"
  let ?mime = "if up_mime U ?f = [] then ''application/octet-stream'' else up_mime U ?f"
  let ?disp = "dispositionValue (mp_Field spec) ?f"
  have f: "\<not> list_ex isCtl ?f" and ne: "?f \<noteq> [] \<and> strParam ps (mp_ContentParam spec) \<noteq> []"
    using assms(1) by (simp_all add: buildMultipart_def Let_def split: if_splits)
  with assms(1) obtain content where c: "base64Decode (strParam ps (mp_ContentParam spec)) = Some content"
    by (cases "base64Decode (strParam ps (mp_ContentParam spec))") (simp_all add: buildMultipart_def Let_def)
  with assms(1) f ne
  have b: "body = ''--'' @ up_boundary U @ crlf @ ''Content-Disposition: '' @ ?disp @ crlf
        @ ''Content-Type: '' @ ?mime @ crlf @ crlf @ content @ crlf @ ''--'' @ up_boundary U @ ''--'' @ crlf"
    by (simp add: buildMultipart_def Let_def)
  show ?thesis
    using c b dispositionValue_clean [OF assms(2) f] readDisposition_value by blast
qed

definition exampleUpstream :: upstream where
  "exampleUpstream = \<lparr>up_http = (\<lambda>sent wi. Inr \<lparr>an_Status = 200, an_Headers = [], an_Body = ''{}''\<rparr>),
     up_badRequest = (\<lambda>m u. None), up_mime = (\<lambda>n. []), up_boundary = ''b'', up_now14 = ''2025'',
     up_clock = 0, up_parseURL = (\<lambda>s. None)\<rparr>"

definition fileSpec :: MultipartSpec where
  "fileSpec = \<lparr>mp_Field = ''file'', mp_FilenameParam = ''name'', mp_ContentParam = ''data''\<rparr>"

definition fileParams :: params where
  "fileParams = [(''name'', JStr [CHR ''a'', CHR 0x22]), (''data'', JStr ''aGk='')]"

lemma multipart_name_contained_witness:
  "\<exists>disp. \<not> list_ex isCtl disp \<and> readDisposition disp = Some (''file'', [CHR ''a'', CHR 0x22])"
proof -
  have "isOk (buildMultipart exampleUpstream fileSpec fileParams)" by code_simp
  then obtain body ct where "buildMultipart exampleUpstream fileSpec fileParams = Inr (body, ct)"
    by (auto simp: isOk_iff)
  from multipart_name_contained [OF this]
  have "\<not> list_ex isCtl (mp_Field fileSpec) \<Longrightarrow>
      \<exists>disp. \<not> list_ex isCtl disp \<and> readDisposition disp = Some (mp_Field fileSpec, strParam fileParams (mp_FilenameParam fileSpec))"
    by blast
  moreover have "\<not> list_ex isCtl (mp_Field fileSpec)" by code_simp
  moreover have "mp_Field fileSpec = ''file''" "strParam fileParams (mp_FilenameParam fileSpec) = [CHR ''a'', CHR 0x22]"
    by code_simp+
  ultimately show ?thesis by simp
qed

section \<open>Requests that leave\<close>

text \<open>Between two states at most \<open>n\<close> requests left, each of them a \<open>P\<close>.\<close>

definition sends :: "nat \<Rightarrow> (wire \<Rightarrow> bool) \<Rightarrow> 's world \<Rightarrow> 's world \<Rightarrow> bool" where
  "sends n P w w' \<longleftrightarrow> (\<exists>new. w_sent w' = w_sent w @ new \<and> length new \<le> n \<and> (\<forall>wi\<in>set new. P wi))"

lemma sends_0 [simp]: "sends 0 P w w' \<longleftrightarrow> w_sent w' = w_sent w"
  by (auto simp: sends_def)

lemma sends_same: "w_sent w' = w_sent w \<Longrightarrow> sends n P w w'"
  by (auto simp: sends_def)

lemma sends_cong: "w_sent v' = w_sent w' \<Longrightarrow> w_sent v = w_sent w \<Longrightarrow> sends n P v v' = sends n P w w'"
  by (simp add: sends_def)

lemma sends_trans: "sends m P w v \<Longrightarrow> sends n P v u \<Longrightarrow> sends (m + n) P w u"
  unfolding sends_def by (force intro: add_mono)

lemma sends_mono: "sends m P w v \<Longrightarrow> m \<le> n \<Longrightarrow> (\<And>wi. P wi \<Longrightarrow> Q wi) \<Longrightarrow> sends n Q w v"
  unfolding sends_def by fastforce

lemma sent_taintWorld [simp]: "w_sent (taintWorld L s w) = w_sent w"
  by (simp add: taintWorld_def)

lemma sent_resolveRef [simp]: "w_sent (snd (resolveRef L U ref ws w)) = w_sent w"
  by (simp add: resolveRef_def split_beta Let_def)

lemma sent_resolveRef_eq: "resolveRef L U ref ws w = (r, w') \<Longrightarrow> w_sent w' = w_sent w"
  using sent_resolveRef [of L U ref ws w] by simp

lemma sent_base64Auth [simp]: "w_sent (snd (base64Auth L u p w)) = w_sent w"
  by (simp add: base64Auth_def Let_def)

lemma sent_crumbAuth [simp]: "w_sent (snd (crumbAuth L U env ws w)) = w_sent w"
  by (auto simp: crumbAuth_def Let_def split_beta split: sum.split)

lemma sent_addSlack [simp]: "w_sent (snd (addSlackSessionAuth L U h env ws w)) = w_sent w"
  by (auto simp: addSlackSessionAuth_def Let_def split_beta split: sum.split)

lemma sent_authHeaders [simp]: "w_sent (snd (authHeaders L U env ps ws h w)) = w_sent w"
  by (auto simp: authHeaders_def Let_def split_beta dest!: sent_resolveRef_eq split: sum.split prod.split)

lemma sends_Execute: "sends 1 (\<lambda>wi. wi = wireOf L req) w (snd (Execute L U req w))"
  by (auto simp: Execute_def Let_def sends_def split: option.split sum.split netError.split)

definition mainWire :: "Operation \<Rightarrow> string \<Rightarrow> string option \<Rightarrow> wire \<Rightarrow> bool" where
  "mainWire op url body wi \<longleftrightarrow> wi_Method wi = op_Method op \<and> wi_URL wi = url \<and> wi_Body wi = body"

definition crumbWire :: "string \<Rightarrow> wire \<Rightarrow> bool" where
  "crumbWire baseURL wi \<longleftrightarrow> wi_Method wi = ''GET''
     \<and> wi_URL wi = trimSuffix baseURL ''/'' @ ''/crumbIssuer/api/json'' \<and> wi_Body wi = None"

definition tokenWire :: "Environment \<Rightarrow> wire \<Rightarrow> bool" where
  "tokenWire env wi \<longleftrightarrow> wi_Method wi = ''POST''
     \<and> (\<exists>oauth. env_OAuth env = Some oauth \<and> wi_URL wi = oauth_TokenURL oauth)"

lemma sends_get:
  assumes "w_sent v = w_sent w" and "\<And>wi. wi = wireOf L req \<Longrightarrow> P wi"
  shows "sends 1 P w (snd (Execute L U req v))"
proof -
  have "sends 1 (\<lambda>wi. wi = wireOf L req) w (snd (Execute L U req v))"
    using sends_Execute [of L req v U] assms(1) by (simp add: sends_def)
  then show ?thesis by (rule sends_mono) (simp_all add: assms(2))
qed

lemma sends_addCrumb: "sends 1 (crumbWire baseURL) w (snd (addCrumb L U op env baseURL workspace h w))"
proof (cases "needsCrumb op env")
  case True
  let ?req = "\<lparr>rq_Method = ''GET'', rq_Path = trimSuffix baseURL ''/'' @ ''/crumbIssuer/api/json'',
      rq_Headers = fst (crumbAuth L U env workspace w), rq_Body = None, rq_Credentials = None,
      rq_Insecure = env_InsecureSkipVerify env, rq_MaxBodyBytes = 0\<rparr>"
  have "snd (addCrumb L U op env baseURL workspace h w)
      = snd (Execute L U ?req (snd (crumbAuth L U env workspace w)))"
    using True by (simp add: addCrumb_def Let_def split_beta)
  moreover have "sends 1 (crumbWire baseURL) w (snd (Execute L U ?req (snd (crumbAuth L U env workspace w))))"
    by (rule sends_get) (simp_all add: crumbWire_def wireOf_def)
  ultimately show ?thesis by (simp only:)
qed (simp add: addCrumb_def sends_same)

lemma sent_refreshRequest [simp]: "w_sent (snd (refreshRequest L U oauth ws w)) = w_sent w"
  by (auto simp: refreshRequest_def Let_def split_beta dest!: sent_resolveRef_eq
      split: sum.split prod.split)

lemma sends_refresh:
  assumes "env_OAuth env = Some oauth"
  shows "sends 1 (tokenWire env) w (snd (refreshOAuthToken L U oauth env ws w))"
proof -
  have post: "sends 1 (tokenWire env) w (snd (postToken L U (oauth_TokenURL oauth) form v))"
    if "w_sent v = w_sent w" for form v
    using assms that
    by (auto simp: postToken_def sends_def tokenWire_def tokenRequest_def split: option.split)
  obtain form v where q: "refreshRequest L U oauth ws w = (form, v)" by fastforce
  then have v: "w_sent v = w_sent w" using sent_refreshRequest [of L U oauth ws w] by simp
  show ?thesis
  proof (cases form)
    case None
    with q v show ?thesis by (simp add: refreshOAuthToken_def sends_same)
  next
    case (Some f)
    obtain r u where p: "postToken L U (oauth_TokenURL oauth) f v = (r, u)" by fastforce
    with post [OF v, of f] have "sends 1 (tokenWire env) w u" by simp
    with q p Some show ?thesis
      by (auto simp: refreshOAuthToken_def sends_def split_beta Let_def split: option.split)
  qed
qed

lemma sends_retry:
  assumes "env_OAuth env = Some oauth" and "\<And>h. P (wireOf L (req\<lparr>rq_Headers := h\<rparr>))"
    and "\<And>wi. tokenWire env wi \<Longrightarrow> P wi"
  shows "sends 2 P w (snd (retryRequest L U oauth env ws req resp w))"
proof -
  obtain ok v where r: "refreshOAuthToken L U oauth env ws w = (ok, v)" by fastforce
  with sends_refresh [OF assms(1), of w L U ws] have v: "sends 1 P w v"
    by (auto intro: sends_mono assms(3))
  obtain s u where s: "resolveRef L U (env_SecretRef env) ws v = (s, u)" by fastforce
  then have u: "w_sent u = w_sent v" by (rule sent_resolveRef_eq)
  have x: "sends 1 P v (snd (Execute L U (req\<lparr>rq_Headers := h\<rparr>) u))" for h
    using u by (rule sends_get) (simp add: assms(2))
  have two: "sends 2 P w (snd (Execute L U (req\<lparr>rq_Headers := h\<rparr>) u))" for h
    using sends_trans [OF v x] by (simp add: numeral_2_eq_2)
  have one: "sends 2 P w v" "sends 2 P w u"
    using sends_mono [OF v, of 2 P] u by (simp_all add: sends_def)
  show ?thesis
    using r s two one by (auto simp: retryRequest_def split_beta split: bool.split sum.split)
qed

lemma sends_sendWithRefresh:
  assumes "\<And>h. P (wireOf L (req\<lparr>rq_Headers := h\<rparr>))" and "\<And>wi. tokenWire env wi \<Longrightarrow> P wi"
  shows "sends 3 P w (snd (sendWithRefresh L U env ws req w))"
proof -
  obtain res v where x: "Execute L U req w = (res, v)" by fastforce
  have "P (wireOf L req)" using assms(1) [of "rq_Headers req"] by simp
  then have v: "sends 1 P w v" using sends_get [of w w L req P U] x by simp
  have "sends 3 P w (snd (retryRequest L U oauth env ws req resp v))"
    if "env_OAuth env = Some oauth" for oauth resp
  proof -
    have "sends 2 P v (snd (retryRequest L U oauth env ws req resp v))"
      using that by (rule sends_retry) (simp_all add: assms)
    from sends_trans [OF v this] show ?thesis by (simp add: eval_nat_numeral)
  qed
  moreover have "sends 3 P w v" using sends_mono [OF v, of 3 P] by simp
  ultimately show ?thesis
    using x by (auto simp: sendWithRefresh_def split: sum.split option.split)
qed


definition exampleEnv :: Environment where
  "exampleEnv = zeroEnvironment\<lparr>env_BaseURL := ''https://jira.acme'',
     env_Auth := \<lparr>auth_Type = ''bearer'', auth_Header = []\<rparr>, env_SecretRef := ''secret://acme/jira''\<rparr>"

definition exampleSpace :: Workspace where
  "exampleSpace = zeroWorkspace\<lparr>ws_Sites := [(''jira'', \<lparr>site_Environments = [(''prod'', exampleEnv)],
     site_DefaultEnv = [], site_Disabled = False\<rparr>)]\<rparr>"

definition exampleOp :: Operation where
  "exampleOp = zeroOperation\<lparr>op_ID := ''jira.myself'', op_Connector := ''http-rest'', op_Site := ''jira'',
     op_Method := ''GET'', op_Path := ''/myself''\<rparr>"

definition exampleWorld :: "(secretError + kgroup list) world" where
  "exampleWorld = \<lparr>w_res = newResolver (KeePassStore exampleLib) exampleGroups, w_sent = [], w_calls = [], w_files = []\<rparr>"

abbreviation exampleRun where
  "exampleRun \<equiv> executeHttpConnector exampleLib exampleUpstream exampleSpace exampleOp [] ''acme'' exampleWorld"


section \<open>Tenants\<close>

text \<open>
  Two states agree for a workspace when it cannot tell them apart: the same requests were
  sent, and the store and the cache have the same entries for that workspace. Everything else
  may differ: the secrets of the other workspaces, the taints, even the kind of store.
\<close>

definition agree :: "string \<Rightarrow> 's world \<Rightarrow> 't world \<Rightarrow> bool" where
  "agree k w w' \<longleftrightarrow> w_sent w = w_sent w' \<and> res_ttl (w_res w) = res_ttl (w_res w')
     \<and> (\<forall>n. store_Resolve (res_store (w_res w)) (res_ext (w_res w)) k n
           = store_Resolve (res_store (w_res w')) (res_ext (w_res w')) k n)
     \<and> (\<forall>n. mget (res_cache (w_res w)) (cacheKey k n) = mget (res_cache (w_res w')) (cacheKey k n))"

definition same :: "string \<Rightarrow> 'a \<times> 's world \<Rightarrow> 'a \<times> 't world \<Rightarrow> bool" where
  "same k p q \<longleftrightarrow> fst p = fst q \<and> agree k (snd p) (snd q)"

lemma same_return [intro]: "agree k v v' \<Longrightarrow> same k (x, v) (x, v')"
  by (simp add: same_def)

lemma same_bind:
  "same k p q \<Longrightarrow> (\<And>x v v'. agree k v v' \<Longrightarrow> same k (g x v) (h x v')) \<Longrightarrow>
    same k (case p of (x, v) \<Rightarrow> g x v) (case q of (x, v) \<Rightarrow> h x v)"
  by (cases p; cases q) (auto simp: same_def)

lemma agree_taint: "agree k w w' \<Longrightarrow> agree k (taintWorld L s w) (taintWorld L' s' w')"
  by (simp add: agree_def taintWorld_def)

lemma same_resolveRef: "agree k w w' \<Longrightarrow> same k (resolveRef L U ref k w) (resolveRef L U ref k w')"
proof -
  assume ag: "agree k w w'"
  obtain ws n where ref: "parseSecretRef ref = (ws, n)" by fastforce
  show ?thesis
  proof (cases "ws = k")
    case False
    with ag ref show ?thesis
      by (simp add: resolveRef_def ResolveWithWorkspaceCheck_def same_def)
  next
    case True
    have st: "store_Resolve (res_store (w_res w)) (res_ext (w_res w)) k n
        = store_Resolve (res_store (w_res w')) (res_ext (w_res w')) k n"
      and ca: "mget (res_cache (w_res w)) (cacheKey k n) = mget (res_cache (w_res w')) (cacheKey k n)"
      and ttl: "res_ttl (w_res w) = res_ttl (w_res w')"
      using ag by (simp_all add: agree_def)
    define fe where "fe = store_Resolve (res_store (w_res w')) (res_ext (w_res w')) k n"
    have "same k (let (r, v) = Resolve L t k n (w_res w) in (r, w\<lparr>w_res := v\<rparr>))
        (let (r, v) = Resolve L t k n (w_res w') in (r, w'\<lparr>w_res := v\<rparr>))" for t
      using ag unfolding Resolve_def Let_def st ca ttl fe_def [symmetric]
      by (simp add: same_def agree_def split: option.split prod.split sum.split)
    with True ref show ?thesis
      by (simp add: resolveRef_def ResolveWithWorkspaceCheck_def split_beta Let_def)
  qed
qed

lemma same_base64Auth: "agree k w w' \<Longrightarrow> same k (base64Auth L u p w) (base64Auth L u p w')"
  by (simp add: base64Auth_def Let_def same_def agree_taint)

lemma same_Execute: "agree k w w' \<Longrightarrow> same k (Execute L U req w) (Execute L U req w')"
proof -
  assume ag: "agree k w w'"
  then have s: "w_sent w = w_sent w'" by (simp add: agree_def)
  have snt: "agree k (w\<lparr>w_sent := ws\<rparr>) (w'\<lparr>w_sent := ws\<rparr>)" for ws
    using ag by (simp add: agree_def)
  show ?thesis
    unfolding Execute_def Let_def s
    by (auto simp: ag snt split: option.split sum.split netError.split intro!: agree_taint)
qed

lemmas same_intros = same_bind same_return same_resolveRef same_base64Auth same_Execute

lemma same_addSlack:
  "agree k w w' \<Longrightarrow> same k (addSlackSessionAuth L U h env k w) (addSlackSessionAuth L U h env k w')"
  unfolding addSlackSessionAuth_def Let_def
  by (auto split: sum.split intro!: same_intros)

lemma same_crumbAuth: "agree k w w' \<Longrightarrow> same k (crumbAuth L U env k w) (crumbAuth L U env k w')"
  unfolding crumbAuth_def Let_def by (auto split: sum.split intro!: same_intros)

lemma same_addCrumb:
  "agree k w w' \<Longrightarrow> same k (addCrumb L U op env b k h w) (addCrumb L U op env b k h w')"
  unfolding addCrumb_def Let_def by (auto intro!: same_intros same_crumbAuth)

lemma same_authHeaders:
  "agree k w w' \<Longrightarrow> same k (authHeaders L U env ps k h w) (authHeaders L U env ps k h w')"
  unfolding authHeaders_def Let_def
  by (auto split: sum.split intro!: same_intros same_addSlack)

text \<open>C21: Tenants do not interfere. What an operation of a workspace answers and every request it
  sends are the same in any two states that agree on the secrets of that workspace, whatever
  the other workspaces' secrets are: no secret reference of the configuration, wherever it
  points, lets a request depend on another tenant's secret. (Sites with an OAuth refresh,
  which writes to the store, are outside the claim.)\<close>

theorem tenant_noninterference:
  assumes "agree workspace w w'"
    and "\<And>p env. prepare L U ws op ps = Inr (env, p) \<Longrightarrow> env_OAuth env = None"
  shows "fst (executeHttpConnector L U ws op ps workspace w)
      = fst (executeHttpConnector L U ws op ps workspace w')
    \<and> agree workspace (snd (executeHttpConnector L U ws op ps workspace w))
        (snd (executeHttpConnector L U ws op ps workspace w'))"
proof -
  have send: "same k (sendWithRefresh L U env k req v) (sendWithRefresh L U env k req v')"
    if "agree k v v'" "env_OAuth env = None" for k env req v and v' :: "'b world"
    using that unfolding sendWithRefresh_def by (auto split: sum.split intro!: same_intros)
  have "same workspace (executeHttpConnector L U ws op ps workspace w)
      (executeHttpConnector L U ws op ps workspace w')"
  proof (cases "prepare L U ws op ps")
    case (Inl e)
    then show ?thesis using assms(1) by (auto simp: executeHttpConnector_def)
  next
    case (Inr p)
    obtain env baseURL url body t where p: "p = (env, baseURL, url, body, t)" by (cases p)
    with assms(2) Inr have env: "env_OAuth env = None" by blast
    show ?thesis
      unfolding executeHttpConnector_def Let_def Inr p sum.case prod.case
    proof (intro same_bind [OF same_addCrumb [OF assms(1)]] same_bind [OF same_authHeaders])
      fix h v and v' :: "'b world"
      assume "agree workspace v v'"
      then show "same workspace
          (case checkTrelloList ws op ps of Inl e \<Rightarrow> (Inl e, v)
           | Inr _ \<Rightarrow> (case sendWithRefresh L U env workspace
               \<lparr>rq_Method = op_Method op, rq_Path = url, rq_Headers = h, rq_Body = body, rq_Credentials = None,
                rq_Insecure = env_InsecureSkipVerify env, rq_MaxBodyBytes = 0\<rparr> v of
               (res, w) \<Rightarrow> (rbind res (\<lambda>resp. Inr (rs_StatusCode resp, shapeResponse L (rs_StatusCode resp)
                 (rs_Body resp) (resp_AllowFields (op_Response op)))), w)))
          (case checkTrelloList ws op ps of Inl e \<Rightarrow> (Inl e, v')
           | Inr _ \<Rightarrow> (case sendWithRefresh L U env workspace
               \<lparr>rq_Method = op_Method op, rq_Path = url, rq_Headers = h, rq_Body = body, rq_Credentials = None,
                rq_Insecure = env_InsecureSkipVerify env, rq_MaxBodyBytes = 0\<rparr> v' of
               (res, w) \<Rightarrow> (rbind res (\<lambda>resp. Inr (rs_StatusCode resp, shapeResponse L (rs_StatusCode resp)
                 (rs_Body resp) (resp_AllowFields (op_Response op)))), w)))"
        using send [OF _ env] by (cases "checkTrelloList ws op ps") (auto intro!: same_bind)
    qed
  qed
  then show ?thesis by (simp add: same_def)
qed

definition twoTenants :: "string \<Rightarrow> unit SecretStore" where
  "twoTenants other =
     \<lparr>store_Resolve = (\<lambda>_ ws n. if ws = ''acme'' then Inr ''hunter22'' else Inr other),
      store_Set = (\<lambda>s ws n v. (Inr (), s)), store_Delete = (\<lambda>s ws n. (Inr (), s)), store_LastWritten = None\<rparr>"

definition tenantWorld :: "string \<Rightarrow> unit world" where
  "tenantWorld other = \<lparr>w_res = newResolver (twoTenants other) (), w_sent = [], w_calls = [], w_files = []\<rparr>"

lemma tenant_noninterference_witness:
  "fst (executeHttpConnector exampleLib exampleUpstream exampleSpace exampleOp [] ''acme'' (tenantWorld ''one''))
    = fst (executeHttpConnector exampleLib exampleUpstream exampleSpace exampleOp [] ''acme'' (tenantWorld ''two''))
   \<and> agree ''acme''
      (snd (executeHttpConnector exampleLib exampleUpstream exampleSpace exampleOp [] ''acme'' (tenantWorld ''one'')))
      (snd (executeHttpConnector exampleLib exampleUpstream exampleSpace exampleOp [] ''acme'' (tenantWorld ''two'')))"
proof (rule tenant_noninterference)
  show "agree ''acme'' (tenantWorld ''one'') (tenantWorld ''two'')"
    by (simp add: agree_def tenantWorld_def newResolver_def twoTenants_def)
  show "env_OAuth env = None" if "prepare exampleLib exampleUpstream exampleSpace exampleOp [] = Inr (env, p)" for p env
  proof -
    from that have "env = exampleEnv"
      by (auto simp: prepare_def rbind_Inr_iff exampleSpace_def exampleOp_def resolveEnv_def strParam_def
          sortedKeys_def Let_def split: if_splits)
    then show ?thesis by (simp add: exampleEnv_def zeroEnvironment_def)
  qed
qed

text \<open>With \<open>trello_allowed_lists\<close> set, a Trello operation reaches Trello only for a list on
  the list: without a \<open>listId\<close> or \<open>idList\<close> on it, the operation fails and no request leaves.\<close>

theorem trello_list_enforced:
  assumes "executeHttpConnector L U ws op ps workspace w = (res, w')"
    and "op_Site op = ''trello''" and "wp_TrelloAllowedLists (ws_Policy ws) \<noteq> []"
    and "w_sent w' \<noteq> w_sent w \<or> isOk res"
  shows "\<exists>listID \<in> set (wp_TrelloAllowedLists (ws_Policy ws)).
    listID \<noteq> [] \<and> (strParam ps ''listId'' = listID
      \<or> strParam ps ''listId'' = [] \<and> strParam ps ''idList'' = listID)"
proof -
  have "checkTrelloList ws op ps = Inr ()"
  proof (rule ccontr)
    assume "checkTrelloList ws op ps \<noteq> Inr ()"
    then obtain e where e: "checkTrelloList ws op ps = Inl e" by (cases "checkTrelloList ws op ps") auto
    have crumb: "\<not> needsCrumb op env" for env by (simp add: needsCrumb_def assms(2))
    have "w_sent w' = w_sent w \<and> \<not> isOk res"
      using assms(1) e crumb
      by (auto simp: executeHttpConnector_def addCrumb_def Let_def split_beta split: sum.splits prod.splits
          dest!: arg_cong [where f = "\<lambda>p. w_sent (snd p)"])
    with assms(4) show False by simp
  qed
  then show ?thesis
    using assms(2,3) by (auto simp: checkTrelloList_def Let_def split: if_splits)
qed

definition trelloSpace :: Workspace where
  "trelloSpace = zeroWorkspace\<lparr>ws_Sites := [(''trello'', \<lparr>site_Environments =
       [(''prod'', zeroEnvironment\<lparr>env_BaseURL := ''https://api.trello.com''\<rparr>)],
     site_DefaultEnv = [], site_Disabled = False\<rparr>)],
     ws_Policy := zeroPolicy\<lparr>wp_TrelloAllowedLists := [''L1'']\<rparr>\<rparr>"

definition trelloOp :: Operation where
  "trelloOp = zeroOperation\<lparr>op_Site := ''trello'', op_Method := ''GET'', op_Path := ''/cards''\<rparr>"

abbreviation trelloRun where
  "trelloRun \<equiv> executeHttpConnector exampleLib exampleUpstream trelloSpace trelloOp
     [(''listId'', JStr ''L1'')] ''acme'' exampleWorld"

lemma trello_list_enforced_witness:
  "\<exists>listID \<in> set (wp_TrelloAllowedLists (ws_Policy trelloSpace)).
    listID \<noteq> [] \<and> (strParam [(''listId'', JStr ''L1'')] ''listId'' = listID
      \<or> strParam [(''listId'', JStr ''L1'')] ''listId'' = [] \<and> strParam [(''listId'', JStr ''L1'')] ''idList'' = listID)"
proof (rule trello_list_enforced [OF surjective_pairing])
  have p: "prepare exampleLib exampleUpstream trelloSpace trelloOp [(''listId'', JStr ''L1'')]
      = Inr (zeroEnvironment\<lparr>env_BaseURL := ''https://api.trello.com''\<rparr>, ''https://api.trello.com'',
         ''https://api.trello.com/cards?listId=L1'', None, [])"
    by code_simp
  have up: "up_badRequest exampleUpstream m u = None"
      "up_http exampleUpstream sent wi = Inr \<lparr>an_Status = 200, an_Headers = [], an_Body = ''{}''\<rparr>" for m u sent wi
    by (simp_all add: exampleUpstream_def)
  have trello: "op_Site trelloOp = ''trello''" by (simp add: trelloOp_def)
  have c: "checkTrelloList trelloSpace trelloOp [(''listId'', JStr ''L1'')] = Inr ()" by code_simp
  show "w_sent (snd trelloRun) \<noteq> w_sent exampleWorld \<or> isOk (fst trelloRun)"
    by (simp add: executeHttpConnector_def p c addCrumb_def needsCrumb_def authHeaders_def trello
        zeroEnvironment_def zeroAuth_def sendWithRefresh_def Execute_def up Let_def)
qed (simp_all add: trelloOp_def trelloSpace_def)

section \<open>Limits of the guarantees\<close>

text \<open>
  A parameter named \<open>password\<close> that neither the path nor the body uses (as in the shipped
  \<open>kibana.login\<close>) authenticates the request and is sent in its URL as well.
\<close>

lemma password_in_query:
  "queryParams exampleLib exampleOp [(''password'', JStr ''hunter22'')] = [(''password'', ''hunter22'')]"
  by code_simp

text \<open>\<open>isIntegral\<close> accepts \<open>2 ^ 63\<close>, which no \<open>int64\<close> holds: the digits sent depend on the processor.\<close>

lemma integral_overflow:
  "isIntegral (Dyadic 1 63)" "formatParamValue L (JNum (Dyadic 1 63)) = showInt (lib_int64 L (Dyadic 1 63))"
  by (simp_all add: isIntegral_def toInt64_def)

text \<open>
  The refresh stores the access token under the workspace its reference names, which nothing
  compares with the workspace of the request (reading goes through that check).
\<close>

lemma refresh_writes_named_workspace:
  assumes "parseSecretRef (env_SecretRef env) = (other, name)"
    and "oauth_RefreshSecretRef oauth = []"
    and "store_Set (res_store r) (res_ext r) other name (trimSpace token) = (Inr (), s)"
  shows "fst (storeTokens oauth env token refresh r) \<and> res_ext (snd (storeTokens oauth env token refresh r)) = s"
  using assms by (simp add: storeTokens_def SetSecret_def forget_def FlushCache_def split_beta Let_def)

end
