(* ===== verification/SlackFile.thy ===== *)
theory SlackFile
  imports HttpSafety
begin

text \<open>
  \<open>executeSlackFileContent\<close> of slack\_file.go: an agent reads the text of a Slack file through
  two requests, \<open>files.info\<close> and the download of the URL it names. The second request carries
  the session's credentials to a URL that Slack chose, so what the code checks about it is
  the point: host, path, channel, type and size.
\<close>

section \<open>Checks\<close>

definition defaultSlackFilesBase :: string where
  "defaultSlackFilesBase = ''https://files.slack.com''"

definition slackFileMaxBytes :: int where
  "slackFileMaxBytes = 2 ^ 20"

datatype slackError =
    BadFileID
  | SlackSite string
  | SlackEnv envError
  | SlackNoEnvironment string
  | NotSlackSession string
  | InfoFailed restError
  | InfoUnreadable int
  | InfoError string
  | OtherFile
  | NotInChannels
  | NotTextFile string
  | FileTooBig int
  | UnparsableURL
  | BadFilesBase
  | WrongHost string
  | WrongPath string
  | DownloadFailed restError
  | DownloadStatus int
  | DownloadType string

definition isUpperDigit :: "char \<Rightarrow> bool" where
  "isUpperDigit c = (isUpperLetter c \<or> isDigit c)"

definition filePathRe :: "string \<Rightarrow> re" where
  "filePathRe fileID =
     Seq (rStr ''/files-pri/T'') (Seq (rPlus (Cls isUpperDigit)) (Seq (rStr (''-'' @ fileID @ ''/''))
       (rPlus (Cls (\<lambda>c. c \<noteq> CHR ''/'')))))"

definition validateSlackFileURL ::
    "upstream \<Rightarrow> string \<Rightarrow> string \<Rightarrow> string \<Rightarrow> slackError + string" where
  "validateSlackFileURL U raw fileID filesBase =
     (case up_parseURL U raw of
        None \<Rightarrow> Inl UnparsableURL
      | Some u \<Rightarrow>
          (case up_parseURL U filesBase of
             None \<Rightarrow> Inl BadFilesBase
           | Some base \<Rightarrow>
               if url_Scheme u \<noteq> url_Scheme base \<or> url_Host u \<noteq> url_Host base \<or> url_User u
                  \<or> url_RawQuery u \<noteq> [] \<or> url_Fragment u \<noteq> []
               then Inl (WrongHost (url_Host base))
               else if \<not> rmatch (filePathRe fileID) (url_EscapedPath u) then Inl (WrongPath fileID)
               else Inr (url_String u)))"

definition isTextMimetype :: "golib \<Rightarrow> string \<Rightarrow> bool" where
  "isTextMimetype L m =
     (let m = toLower L (trimSpace (takeWhile (\<lambda>c. c \<noteq> CHR '';'') m))
      in if m = ''text/html'' \<or> m = [] then False
         else if List.member [''application/json'', ''application/xml'', ''application/yaml'',
           ''application/x-yaml''] m then True
         else hasPrefix m ''text/'')"

record slackFile =
  sf_ID :: string
  sf_Name :: string
  sf_Title :: string
  sf_Mimetype :: string
  sf_Filetype :: string
  sf_Size :: int
  sf_URLPrivate :: string
  sf_Channels :: "string list"
  sf_Groups :: "string list"
  sf_Ims :: "string list"
  sf_Shares :: "string list gomap"

record slackFileInfo =
  si_OK :: bool
  si_Error :: string
  si_File :: slackFile

definition noSlackFile :: slackFile where
  "noSlackFile =
     \<lparr>sf_ID = [], sf_Name = [], sf_Title = [], sf_Mimetype = [], sf_Filetype = [], sf_Size = 0,
      sf_URLPrivate = [], sf_Channels = [], sf_Groups = [], sf_Ims = [], sf_Shares = []\<rparr>"

text \<open>The channels of \<open>shares\<close>; the messages below each stay undecoded.\<close>

fun channelKeys :: "json \<Rightarrow> string list option" where
  "channelKeys (JObj kvs) = Some (mkeys kvs)"
| "channelKeys JNull = Some []"
| "channelKeys _ = None"

fun sharesEntries :: "string list gomap \<Rightarrow> params \<Rightarrow> string list gomap option" where
  "sharesEntries m [] = Some m"
| "sharesEntries m ((k, v) # kvs) =
     (case channelKeys v of None \<Rightarrow> None | Some cs \<Rightarrow> sharesEntries (mput k cs m) kvs)"

fun sharesStep :: "string list gomap \<Rightarrow> json \<Rightarrow> string list gomap option" where
  "sharesStep cur (JObj kvs) = sharesEntries cur kvs"
| "sharesStep cur JNull = Some []"
| "sharesStep cur _ = None"

definition fileFields :: "golib \<Rightarrow> slackFile \<Rightarrow> params \<Rightarrow> slackFile option" where
  "fileFields L f kvs =
     optBind (structFold L ''id'' strStep (sf_ID f) kvs) (\<lambda>i.
     optBind (structFold L ''name'' strStep (sf_Name f) kvs) (\<lambda>n.
     optBind (structFold L ''title'' strStep (sf_Title f) kvs) (\<lambda>t.
     optBind (structFold L ''mimetype'' strStep (sf_Mimetype f) kvs) (\<lambda>m.
     optBind (structFold L ''filetype'' strStep (sf_Filetype f) kvs) (\<lambda>ft.
     optBind (structFold L ''size'' intStep (sf_Size f) kvs) (\<lambda>sz.
     optBind (structFold L ''url_private'' strStep (sf_URLPrivate f) kvs) (\<lambda>u.
     optBind (structFold L ''channels'' stringsStep (sf_Channels f) kvs) (\<lambda>cs.
     optBind (structFold L ''groups'' stringsStep (sf_Groups f) kvs) (\<lambda>gs.
     optBind (structFold L ''ims'' stringsStep (sf_Ims f) kvs) (\<lambda>is.
     optBind (structFold L ''shares'' sharesStep (sf_Shares f) kvs) (\<lambda>sh.
       Some \<lparr>sf_ID = i, sf_Name = n, sf_Title = t, sf_Mimetype = m, sf_Filetype = ft, sf_Size = sz,
             sf_URLPrivate = u, sf_Channels = cs, sf_Groups = gs, sf_Ims = is, sf_Shares = sh\<rparr>)))))))))))"

fun fileStep :: "golib \<Rightarrow> slackFile \<Rightarrow> json \<Rightarrow> slackFile option" where
  "fileStep L cur (JObj kvs) = fileFields L cur kvs"
| "fileStep L cur JNull = Some cur"
| "fileStep L cur _ = None"

definition decodeInfo :: "golib \<Rightarrow> string \<Rightarrow> slackFileInfo option" where
  "decodeInfo L body =
     (case lib_decode L body of
        Some JNull \<Rightarrow> Some \<lparr>si_OK = False, si_Error = [], si_File = noSlackFile\<rparr>
      | Some (JObj kvs) \<Rightarrow>
          optBind (structFold L ''ok'' boolStep False kvs) (\<lambda>ok.
          optBind (structFold L ''error'' strStep [] kvs) (\<lambda>e.
          optBind (structFold L ''file'' (fileStep L) noSlackFile kvs) (\<lambda>f.
            Some \<lparr>si_OK = ok, si_Error = e, si_File = f\<rparr>)))
      | _ \<Rightarrow> None)"

definition checkSlackFileScope :: "string list \<Rightarrow> slackFile \<Rightarrow> slackError + unit" where
  "checkSlackFileScope allowed f =
     (if allowed = [] then Inr ()
      else if list_ex (list_ex (List.member allowed)) [sf_Channels f, sf_Groups f, sf_Ims f] then Inr ()
      else if list_ex (\<lambda>(_, byChannel). list_ex (List.member allowed) byChannel) (sf_Shares f) then Inr ()
      else Inl NotInChannels)"

section \<open>The operation\<close>

text \<open>\<open>strings.ToValidUTF8\<close> with U+FFFD: one for each run of invalid bytes.\<close>

function toValidUTF8 :: "bool \<Rightarrow> string \<Rightarrow> string" where
  "toValidUTF8 inRun [] = []"
| "toValidUTF8 inRun (c # cs) =
     (let n = utf8Len (c # cs)
      in if n = 0 then (if inRun then [] else [CHR 0xEF, CHR 0xBF, CHR 0xBD]) @ toValidUTF8 True cs
         else take n (c # cs) @ toValidUTF8 False (drop n (c # cs)))"
  by pat_completeness auto
termination
  by (relation "measure (\<lambda>(r, s). length s)") auto

declare toValidUTF8.simps(2) [simp del]

definition checkFile ::
    "golib \<Rightarrow> upstream \<Rightarrow> Workspace \<Rightarrow> string \<Rightarrow> string \<Rightarrow> Response \<Rightarrow> slackError + (slackFile \<times> string)" where
  "checkFile L U ws fileID filesBase resp =
     (case decodeInfo L (rs_Body resp) of
        None \<Rightarrow> Inl (InfoUnreadable (rs_StatusCode resp))
      | Some info \<Rightarrow>
          (let f = si_File info
           in if \<not> si_OK info then Inl (InfoError (si_Error info))
              else if sf_ID f \<noteq> fileID then Inl OtherFile
              else
                rbind (checkSlackFileScope (wp_SlackChannels (ws_Policy ws)) f) (\<lambda>_.
                if \<not> isTextMimetype L (sf_Mimetype f) then Inl (NotTextFile (sf_Mimetype f))
                else if slackFileMaxBytes < sf_Size f then Inl (FileTooBig (sf_Size f))
                else
                  rbind (validateSlackFileURL U (sf_URLPrivate f) fileID filesBase) (\<lambda>fileURL.
                  Inr (f, fileURL)))))"

definition fileAnswer :: "golib \<Rightarrow> slackFile \<Rightarrow> Response \<Rightarrow> slackError + (int \<times> string)" where
  "fileAnswer L f resp =
     (if rs_StatusCode resp \<noteq> 200 then Inl (DownloadStatus (rs_StatusCode resp))
      else (let ct = headerValue (rs_Headers resp) ''Content-Type''
            in if ct \<noteq> [] \<and> \<not> isTextMimetype L ct then Inl (DownloadType ct)
               else Inr (200, encodeJson L (JObj
                 [(''ok'', JBool True),
                  (''file'', JObj [(''id'', JStr (sf_ID f)), (''name'', JStr (sf_Name f)),
                     (''title'', JStr (sf_Title f)), (''mimetype'', JStr (sf_Mimetype f)),
                     (''filetype'', JStr (sf_Filetype f)), (''size'', JInt (sf_Size f))]),
                  (''content'', JStr (toValidUTF8 False (rs_Body resp)))]))))"

definition getRequest :: "string \<Rightarrow> string gomap \<Rightarrow> Request" where
  "getRequest url headers =
     \<lparr>rq_Method = ''GET'', rq_Path = url, rq_Headers = headers, rq_Body = None,
      rq_Credentials = None, rq_Insecure = False, rq_MaxBodyBytes = slackFileMaxBytes\<rparr>"

definition infoURL :: "Environment \<Rightarrow> string \<Rightarrow> string" where
  "infoURL env fileID =
     trimSuffix (env_BaseURL env) ''/'' @ ''/files.info?'' @ encodeValues [(''file'', fileID)]"

definition slackEnv :: "Workspace \<Rightarrow> Operation \<Rightarrow> params \<Rightarrow> slackError + (string \<times> Environment)" where
  "slackEnv ws op ps =
     (let fileID = strParam ps ''file''
      in if \<not> rmatch slackFileIDPattern fileID then Inl BadFileID
         else (case mget (ws_Sites ws) (op_Site op) of
                 None \<Rightarrow> Inl (SlackSite (op_Site op))
               | Some site \<Rightarrow>
                   rbind (mapErr SlackEnv (resolveEnv site (op_Site op) ps)) (\<lambda>(_, env).
                   if env_BaseURL env = [] then Inl (SlackNoEnvironment (op_Site op))
                   else if auth_Type (env_Auth env) \<noteq> ''slack-session'' then Inl (NotSlackSession (op_Site op))
                   else Inr (fileID, env))))"

definition executeSlackFileContent ::
    "golib \<Rightarrow> upstream \<Rightarrow> string \<Rightarrow> Workspace \<Rightarrow> Operation \<Rightarrow> params \<Rightarrow> string \<Rightarrow> 's world
       \<Rightarrow> (slackError + (int \<times> string)) \<times> 's world" where
  "executeSlackFileContent L U slackFilesBase ws op ps workspace w =
     (case slackEnv ws op ps of
        Inl e \<Rightarrow> (Inl e, w)
      | Inr (fileID, env) \<Rightarrow>
          (let (headers, w) = addSlackSessionAuth L U [(''Accept'', ''application/json'')] env workspace w;
               (infoResp, w) = Execute L U (getRequest (infoURL env fileID) headers) w;
               filesBase = (if slackFilesBase = [] then defaultSlackFilesBase else slackFilesBase)
           in (case rbind (mapErr InfoFailed infoResp) (checkFile L U ws fileID filesBase) of
                 Inl e \<Rightarrow> (Inl e, w)
               | Inr (f, fileURL) \<Rightarrow>
                   (let (resp, w) = Execute L U (getRequest fileURL (mdel ''Accept'' headers)) w
                    in (rbind (mapErr DownloadFailed resp) (fileAnswer L f), w)))))"

section \<open>Where the credentials go\<close>

definition sharedIn :: "string list \<Rightarrow> slackFile \<Rightarrow> bool" where
  "sharedIn allowed f \<longleftrightarrow> (\<exists>c\<in>set allowed. c \<in> set (sf_Channels f) \<or> c \<in> set (sf_Groups f)
     \<or> c \<in> set (sf_Ims f) \<or> (\<exists>(k, byChannel)\<in>set (sf_Shares f). c \<in> set byChannel))"

definition fileAllowed :: "golib \<Rightarrow> Workspace \<Rightarrow> string \<Rightarrow> slackFile \<Rightarrow> bool" where
  "fileAllowed L ws fileID f \<longleftrightarrow> sf_ID f = fileID \<and> isTextMimetype L (sf_Mimetype f)
     \<and> sf_Size f \<le> slackFileMaxBytes
     \<and> (wp_SlackChannels (ws_Policy ws) = [] \<or> sharedIn (wp_SlackChannels (ws_Policy ws)) f)"

definition downloadTarget :: "upstream \<Rightarrow> string \<Rightarrow> string \<Rightarrow> string \<Rightarrow> bool" where
  "downloadTarget U filesBase fileID url \<longleftrightarrow>
     (\<exists>raw u base team name. up_parseURL U raw = Some u \<and> up_parseURL U filesBase = Some base
        \<and> url = url_String u \<and> url_Scheme u = url_Scheme base \<and> url_Host u = url_Host base
        \<and> \<not> url_User u \<and> url_RawQuery u = [] \<and> url_Fragment u = []
        \<and> url_EscapedPath u = ''/files-pri/T'' @ team @ ''-'' @ fileID @ ''/'' @ name
        \<and> (\<forall>c\<in>set team. isUpperDigit c) \<and> name \<noteq> [] \<and> CHR ''/'' \<notin> set name)"

lemma checkScope_iff:
  "checkSlackFileScope allowed f = Inr u \<longleftrightarrow> allowed = [] \<or> sharedIn allowed f"
  unfolding checkSlackFileScope_def sharedIn_def
  by (auto simp: list_ex_iff split: if_splits) blast+

lemma lang_SeqE:
  assumes "s \<in> lang (Seq r q)"
  obtains u v where "s = u @ v" "u \<in> lang r" "v \<in> lang q"
  using assms by auto

lemma validateURL_target:
  assumes "validateSlackFileURL U raw fileID filesBase = Inr url"
  shows "downloadTarget U filesBase fileID url"
proof -
  from assms obtain u base where u: "up_parseURL U raw = Some u" "up_parseURL U filesBase = Some base"
      "url = url_String u" "url_Scheme u = url_Scheme base" "url_Host u = url_Host base" "\<not> url_User u"
      "url_RawQuery u = []" "url_Fragment u = []"
    and re: "rmatch (filePathRe fileID) (url_EscapedPath u)"
    by (auto simp: validateSlackFileURL_def split: option.splits if_splits)
  from re have "url_EscapedPath u \<in> lang (filePathRe fileID)" by (simp add: rmatch_iff)
  then have "\<exists>team name. url_EscapedPath u = ''/files-pri/T'' @ team @ (''-'' @ fileID @ ''/'') @ name
      \<and> (\<forall>c\<in>set team. isUpperDigit c) \<and> name \<noteq> [] \<and> (\<forall>c\<in>set name. c \<noteq> CHR ''/'')"
    unfolding filePathRe_def
    by (elim lang_SeqE) (simp only: lang_rStr lang_rPlus_Cls singleton_iff mem_Collect_eq,
        elim conjE, intro exI conjI, rule refl, assumption+)
  then obtain team name where
      tn: "url_EscapedPath u = ''/files-pri/T'' @ team @ (''-'' @ fileID @ ''/'') @ name
      \<and> (\<forall>c\<in>set team. isUpperDigit c) \<and> name \<noteq> [] \<and> (\<forall>c\<in>set name. c \<noteq> CHR ''/'')"
    by (elim exE)
  have "(''-'' @ fileID @ ''/'') @ name = ''-'' @ fileID @ ''/'' @ name" unfolding append_assoc ..
  with tn have path: "url_EscapedPath u = ''/files-pri/T'' @ team @ ''-'' @ fileID @ ''/'' @ name" by (simp only:)
  from tn have team: "\<forall>c\<in>set team. isUpperDigit c" and name: "name \<noteq> []" "CHR ''/'' \<notin> set name"
    by (simp_all only:) auto
  show ?thesis
    unfolding downloadTarget_def by (intro exI conjI) (rule u path team name)+
qed

lemma checkFile_allowed:
  assumes "checkFile L U ws fileID filesBase resp = Inr (f, url)"
  shows "fileAllowed L ws fileID f \<and> downloadTarget U filesBase fileID url"
proof -
  from assms obtain info where i: "decodeInfo L (rs_Body resp) = Some info" "f = si_File info"
      "sf_ID f = fileID" "checkSlackFileScope (wp_SlackChannels (ws_Policy ws)) f = Inr ()"
      "isTextMimetype L (sf_Mimetype f)" "sf_Size f \<le> slackFileMaxBytes"
    and v: "validateSlackFileURL U (sf_URLPrivate f) fileID filesBase = Inr url"
    by (auto simp: checkFile_def Let_def rbind_Inr_iff not_less split: option.splits if_splits)
  then show ?thesis
    using validateURL_target [OF v] by (auto simp: fileAllowed_def checkScope_iff)
qed

lemma wire_get: "wi_Method (wireOf L (getRequest url h)) = ''GET''"
    "wi_Body (wireOf L (getRequest url h)) = None" "wi_URL (wireOf L (getRequest url h)) = url"
  by (simp_all add: wireOf_def getRequest_def)


definition slackSpace :: Workspace where
  "slackSpace = zeroWorkspace\<lparr>ws_Sites := [(''slack'', \<lparr>site_Environments =
       [(''prod'', zeroEnvironment\<lparr>env_BaseURL := ''https://slack.com/api'',
          env_Auth := \<lparr>auth_Type = ''slack-session'', auth_Header = []\<rparr>\<rparr>)],
     site_DefaultEnv = [], site_Disabled = False\<rparr>)]\<rparr>"

definition slackOp :: Operation where
  "slackOp = zeroOperation\<lparr>op_Connector := ''http-rest'', op_Site := ''slack'', op_SlackFileContent := True\<rparr>"

abbreviation slackRun where
  "slackRun \<equiv> executeSlackFileContent exampleLib exampleUpstream [] slackSpace slackOp
     [(''file'', JStr ''F12'')] ''acme'' exampleWorld"


end
