(* ===== verification/Mcp.thy ===== *)
theory Mcp
  imports HttpSafety
begin

text \<open>
  The MCP connector, \<open>executeMcpConnector\<close> of server.go: the handshake, the session, the call of a
  tool and the reading of its JSON-RPC answer, plain or as an event stream.
\<close>

section \<open>Answers\<close>

definition headerLookup :: "golib \<Rightarrow> string gomap \<Rightarrow> string \<Rightarrow> string" where
  "headerLookup L h key =
     (case mget h key of
        Some v \<Rightarrow> v
      | None \<Rightarrow> (case find (\<lambda>(k, v). equalFold L k key) h of Some (k, v) \<Rightarrow> v | None \<Rightarrow> []))"

text \<open>The \<open>data:\<close> lines of an event stream, joined.\<close>

definition trimCR :: "string \<Rightarrow> string" where
  "trimCR s = rev (dropWhile (\<lambda>c. c = CHR 0x0D) (rev s))"

definition eventData :: "string \<Rightarrow> string" where
  "eventData body =
     concat (List.map_filter
       (\<lambda>line. let line = trimCR line
               in if hasPrefix line ''data:'' then Some (trimSpace (drop 5 line)) else None)
       (splitOn (CHR 0x0A) body))"

record rpcError =
  rpe_Code :: int
  rpe_Message :: string

record rpcReply =
  rpc_Result :: "string option"  \<comment> \<open>the text of the result, \<open>None\<close> when absent\<close>
  rpc_Error :: "rpcError option"

definition errorFields :: "golib \<Rightarrow> rpcError \<Rightarrow> params \<Rightarrow> rpcError option" where
  "errorFields L e kvs =
     optBind (structFold L ''code'' intStep (rpe_Code e) kvs) (\<lambda>c.
     optBind (structFold L ''message'' strStep (rpe_Message e) kvs) (\<lambda>m.
       Some \<lparr>rpe_Code = c, rpe_Message = m\<rparr>))"

text \<open>A pointer to a struct: \<open>null\<close> makes it nil, an object fills it, allocating when it is nil.\<close>

fun errorStep :: "golib \<Rightarrow> rpcError option \<Rightarrow> json \<Rightarrow> rpcError option option" where
  "errorStep L cur JNull = Some None"
| "errorStep L cur (JObj kvs) =
     map_option Some (errorFields L
       (case cur of None \<Rightarrow> \<lparr>rpe_Code = 0, rpe_Message = []\<rparr> | Some e \<Rightarrow> e) kvs)"
| "errorStep L cur _ = None"

definition parseJSONRPCResult :: "golib \<Rightarrow> string \<Rightarrow> string \<Rightarrow> rpcReply option" where
  "parseJSONRPCResult L contentType body =
     (let payload = (if strContains (toLower L contentType) ''text/event-stream'' then eventData body
                     else body)
      in (case lib_decode L payload of
            Some JNull \<Rightarrow> Some \<lparr>rpc_Result = None, rpc_Error = None\<rparr>
          | Some (JObj kvs) \<Rightarrow>
              map_option (\<lambda>e. \<lparr>rpc_Result = lib_member L payload ''result'', rpc_Error = e\<rparr>)
                (structFold L ''error'' (errorStep L) None kvs)
          | _ \<Rightarrow> None))"

section \<open>The call\<close>

datatype mcpError =
    McpSite string
  | McpEnv envError
  | McpNoBaseURL string
  | McpSecret secretError
  | InitFailed restError
  | InitStatus int string
  | NoToolName string
  | CallFailed restError
  | McpUnreadable int string
  | McpRemote int string

definition resolveMcpAuthHeader ::
    "golib \<Rightarrow> upstream \<Rightarrow> Environment \<Rightarrow> string \<Rightarrow> 's world \<Rightarrow> (mcpError + string) \<times> 's world" where
  "resolveMcpAuthHeader L U env workspace w =
     (if auth_Type (env_Auth env) = ''basic'' then
        (case resolveRef L U (env_SecretRef env) workspace w of
           (Inl e, w) \<Rightarrow> (Inl (McpSecret e), w)
         | (Inr secret, w) \<Rightarrow>
             (let (auth, w) = base64Auth L (env_User env) secret w in (Inr (''Basic '' @ auth), w)))
      else if auth_Type (env_Auth env) = ''bearer'' then
        (case resolveRef L U (env_SecretRef env) workspace w of
           (Inl e, w) \<Rightarrow> (Inl (McpSecret e), w)
         | (Inr secret, w) \<Rightarrow> (Inr (''Bearer '' @ trimSpace secret), w))
      else (Inr [], w))"

text \<open>A JSON text of the sources, written with backquotes for its double quotes.\<close>

definition jsonText :: "string \<Rightarrow> string" where
  "jsonText s = map (\<lambda>c. if c = CHR ''`'' then CHR 0x22 else c) s"

definition initBody :: string where
  "initBody = jsonText (''{`jsonrpc`:`2.0`,`id`:1,`method`:`initialize`,`params`:{`protocolVersion`:''
     @ ''`2025-06-18`,`capabilities`:{},`clientInfo`:{`name`:`egw`,`version`:`1.0`}}}'')"

definition initializedBody :: string where
  "initializedBody = jsonText ''{`jsonrpc`:`2.0`,`method`:`notifications/initialized`}''"

definition listBody :: string where
  "listBody = jsonText ''{`jsonrpc`:`2.0`,`id`:2,`method`:`tools/list`}''"

text \<open>
  The arguments are raw JSON: compacted into the call, or, when they are not JSON, lost (the
  encoder's error is ignored, and a nil message is \<open>null\<close>).
\<close>

definition callParams :: "golib \<Rightarrow> string \<Rightarrow> string \<Rightarrow> string" where
  "callParams L toolName argsRaw =
     (case lib_compact L argsRaw of
        None \<Rightarrow> []
      | Some args \<Rightarrow> jsonText ''{`arguments`:'' @ args @ jsonText '',`name`:'' @ jsonQuote True toolName @ ''}'')"

definition callBody :: "golib \<Rightarrow> string \<Rightarrow> string option" where
  "callBody L par =
     (case (if par = [] then Some ''null'' else lib_compact L par) of
        None \<Rightarrow> None
      | Some text \<Rightarrow> Some (jsonText ''{`id`:2,`jsonrpc`:`2.0`,`method`:`tools/call`,`params`:'' @ text @ ''}''))"

definition rpcBody ::
    "golib \<Rightarrow> upstream \<Rightarrow> Operation \<Rightarrow> params \<Rightarrow> mcpError + string option" where
  "rpcBody L U op ps =
     (if op_Path op = ''tools/list'' then Inr (Some listBody)
      else (let toolName = (if op_Path op = [] then strParam ps ''tool'' else op_Path op)
            in if toolName = [] then Inl (NoToolName (op_ID op))
               else (let argsRaw =
                       (if op_BodyTemplate op \<noteq> [] then buildBody L (up_now14 U) (op_BodyTemplate op) ps
                        else if strParam ps ''arguments'' \<noteq> [] then strParam ps ''arguments'' else ''{}'')
                     in Inr (callBody L (callParams L toolName argsRaw)))))"

definition mcpAnswer :: "golib \<Rightarrow> Operation \<Rightarrow> Response \<Rightarrow> mcpError + (int \<times> string)" where
  "mcpAnswer L op resp =
     (case parseJSONRPCResult L (headerLookup L (rs_Headers resp) ''Content-Type'') (rs_Body resp) of
        None \<Rightarrow> Inl (McpUnreadable (rs_StatusCode resp) (take 300 (rs_Body resp)))
      | Some rpc \<Rightarrow>
          (case rpc_Error rpc of
             Some e \<Rightarrow>
               if rpe_Message e \<noteq> [] then Inl (McpRemote (rs_StatusCode resp) (rpe_Message e))
               else Inr (rs_StatusCode resp, [])
           | None \<Rightarrow>
               (let body = (case rpc_Result rpc of None \<Rightarrow> [] | Some b \<Rightarrow> b)
                in Inr (rs_StatusCode resp,
                     if elems (resp_AllowFields (op_Response op)) = [] then body
                     else (case decodeMap L body of
                             None \<Rightarrow> body
                           | Some m \<Rightarrow> encodeJson L (JObj (Shape (resp_AllowFields (op_Response op)) (mapEntries m))))))))"

definition postRequest :: "string \<Rightarrow> string gomap \<Rightarrow> string option \<Rightarrow> Request" where
  "postRequest endpoint headers body =
     \<lparr>rq_Method = ''POST'', rq_Path = endpoint, rq_Headers = headers, rq_Body = body,
      rq_Credentials = None, rq_Insecure = False, rq_MaxBodyBytes = 0\<rparr>"

definition mcpEndpoint :: "Workspace \<Rightarrow> Operation \<Rightarrow> params \<Rightarrow> mcpError + (Environment \<times> string)" where
  "mcpEndpoint ws op ps =
     (case mget (ws_Sites ws) (op_Site op) of
        None \<Rightarrow> Inl (McpSite (op_Site op))
      | Some site \<Rightarrow>
          rbind (mapErr McpEnv (resolveEnv site (op_Site op) ps)) (\<lambda>(_, env).
          if env_BaseURL env = [] \<or> env_BaseURL env = ''-'' then Inl (McpNoBaseURL (op_Site op))
          else Inr (env, env_BaseURL env)))"

definition mcpHeaders :: "string \<Rightarrow> string gomap" where
  "mcpHeaders authHeader =
     [(''Accept'', ''application/json, text/event-stream''), (''Content-Type'', ''application/json'')]
     @ (if authHeader \<noteq> [] then [(''Authorization'', authHeader)] else [])"

text \<open>The session of an initialised server and the call in it.\<close>

definition mcpCall ::
    "golib \<Rightarrow> upstream \<Rightarrow> Operation \<Rightarrow> params \<Rightarrow> string \<Rightarrow> string gomap \<Rightarrow> Response \<Rightarrow> 's world
       \<Rightarrow> (mcpError + (int \<times> string)) \<times> 's world" where
  "mcpCall L U op ps endpoint headers initResp w =
     (if 400 \<le> rs_StatusCode initResp
      then (Inl (InitStatus (rs_StatusCode initResp) (take 300 (rs_Body initResp))), w)
      else (let sessionID = headerLookup L (rs_Headers initResp) ''Mcp-Session-Id'';
                sessHeaders = (if sessionID \<noteq> [] then mput ''Mcp-Session-Id'' sessionID headers else headers);
                (_, w) = Execute L U (postRequest endpoint sessHeaders (Some initializedBody)) w
            in (case rpcBody L U op ps of
                  Inl e \<Rightarrow> (Inl e, w)
                | Inr body \<Rightarrow>
                    (let (callResp, w) = Execute L U (postRequest endpoint sessHeaders body) w
                     in (rbind (mapErr CallFailed callResp) (mcpAnswer L op), w)))))"

definition executeMcpConnector ::
    "golib \<Rightarrow> upstream \<Rightarrow> Workspace \<Rightarrow> Operation \<Rightarrow> params \<Rightarrow> string \<Rightarrow> 's world
       \<Rightarrow> (mcpError + (int \<times> string)) \<times> 's world" where
  "executeMcpConnector L U ws op ps workspace w =
     (case mcpEndpoint ws op ps of
        Inl e \<Rightarrow> (Inl e, w)
      | Inr (env, endpoint) \<Rightarrow>
          (case resolveMcpAuthHeader L U env workspace w of
             (Inl e, w) \<Rightarrow> (Inl e, w)
           | (Inr authHeader, w) \<Rightarrow>
               (case Execute L U (postRequest endpoint (mcpHeaders authHeader) (Some initBody)) w of
                  (Inl e, w) \<Rightarrow> (Inl (InitFailed e), w)
                | (Inr initResp, w) \<Rightarrow> mcpCall L U op ps endpoint (mcpHeaders authHeader) initResp w)))"

section \<open>The session\<close>

lemma sent_mcpAuth [simp]: "w_sent (snd (resolveMcpAuthHeader L U env ws w)) = w_sent w"
  by (auto simp: resolveMcpAuthHeader_def Let_def split_beta dest!: sent_resolveRef_eq
      split: sum.split prod.split)

definition mcpWire :: "string \<Rightarrow> wire \<Rightarrow> bool" where
  "mcpWire endpoint wi \<longleftrightarrow> wi_Method wi = ''POST'' \<and> wi_URL wi = endpoint"

lemma mcpWire_post: "mcpWire endpoint (wireOf L (postRequest endpoint h b))"
  by (simp add: mcpWire_def wireOf_def postRequest_def)

lemma sends_post:
  "w_sent v = w_sent w \<Longrightarrow> sends 1 (mcpWire endpoint) w (snd (Execute L U (postRequest endpoint h b) v))"
  by (rule sends_get) (simp_all add: mcpWire_post)

lemma sends_mcpCall: "sends 2 (mcpWire endpoint) w (snd (mcpCall L U op ps endpoint h resp w))"
proof -
  have two: "sends 2 (mcpWire endpoint) w (snd (Execute L U (postRequest endpoint h' b)
      (snd (Execute L U (postRequest endpoint h' b') w))))" for h' b b'
    using sends_trans [OF sends_post [OF refl] sends_post [OF refl]] by (simp add: numeral_2_eq_2)
  have one: "sends 2 (mcpWire endpoint) w (snd (Execute L U (postRequest endpoint h' b) w))" for h' b
    by (rule sends_mono [OF sends_post [OF refl]]) simp_all
  show ?thesis
    using one two by (auto simp: mcpCall_def Let_def split_beta sends_same split: sum.split)
qed


abbreviation mcpRun where
  "mcpRun \<equiv> executeMcpConnector exampleLib exampleUpstream exampleSpace exampleOp [] ''acme'' exampleWorld"


text \<open>Arguments that are not JSON are not refused: the tool is called with \<open>null\<close> parameters.\<close>

lemma bad_arguments_dropped:
  "lib_compact L args = None \<Longrightarrow> callBody L (callParams L tool args)
     = Some (jsonText ''{`id`:2,`jsonrpc`:`2.0`,`method`:`tools/call`,`params`:'' @ ''null'' @ ''}'')"
  by (simp add: callParams_def callBody_def)

end
