(* ===== verification/PgOp.thy ===== *)
theory PgOp
  imports HttpSafety
begin

text \<open>
  The PostgreSQL connector: the connection string, the read-only session of
  \<open>connectors/postgres\<close> and \<open>executePostgresConnector\<close> of server.go, which puts an agent's SQL or
  a catalogue query on it. The calls on the driver are recorded in the world; the properties
  say which sessions can happen and that the connection string means what its parts say.
\<close>

section \<open>The connection string\<close>

text \<open>\<open>net/url\<close> escapes each part of a URL with its own set of bytes left as they are.\<close>

definition escapeKeeping :: "string \<Rightarrow> string \<Rightarrow> string" where
  "escapeKeeping safe s =
     concat (map (\<lambda>c. if isUnreserved c \<or> List.member safe c then [c] else percent c) s)"

definition userSafe :: string where
  "userSafe = ''$&+,;=''"

definition hostSafe :: string where
  "hostSafe = ''!$&()*+,;=:[]<>'' @ [CHR 0x27, CHR 0x22]"

definition pathSafe :: string where
  "pathSafe = ''$&+,/:;=@''"

definition escapedPath :: "string \<Rightarrow> string" where
  "escapedPath p = (if p = ''*'' then ''*'' else escapeKeeping pathSafe p)"

definition validSSLModes :: "string list" where
  "validSSLModes = [''disable'', ''allow'', ''prefer'', ''require'', ''verify-ca'', ''verify-full'']"

datatype pgConnError = InvalidSSLMode string | Opening string | Pinging string

definition connOptions :: "string \<Rightarrow> string \<Rightarrow> (string \<times> string) list" where
  "connOptions sslmode schema =
     [(''sslmode'', sslmode), (''connect_timeout'', ''10'')]
     @ (if schema \<noteq> [] then [(''search_path'', schema)] else [])"

definition buildConnStr ::
    "string \<Rightarrow> int \<Rightarrow> string \<Rightarrow> string \<Rightarrow> string \<Rightarrow> string \<Rightarrow> string \<Rightarrow> pgConnError + string" where
  "buildConnStr host port user password dbname schema sslmode =
     (let sslmode = (if sslmode = [] then ''prefer'' else sslmode)
      in if \<not> List.member validSSLModes sslmode then Inl (InvalidSSLMode sslmode)
         else (let path = escapedPath dbname
               in Inr (''postgres://'' @ escapeKeeping userSafe user @ '':''
                    @ escapeKeeping userSafe password @ ''@''
                    @ escapeKeeping hostSafe (host @ '':'' @ showInt port)
                    @ (if path \<noteq> [] \<and> hd path \<noteq> CHR ''/'' then ''/'' else []) @ path
                    @ ''?'' @ encodeValues (connOptions sslmode schema))))"

section \<open>The session\<close>

datatype execError =
    Refused queryError
  | Beginning string
  | SettingTimeout string
  | QueryExecution string
  | ReadingRows string

definition maxRows :: nat where
  "maxRows = 1000"

definition timeoutStmt :: string where
  "timeoutStmt = ''SET LOCAL statement_timeout = 5000''"

text \<open>The rows read: at most \<open>maxRows\<close>, each a map from column names, of which the last of a name counts.\<close>

definition readRow :: "string list \<Rightarrow> cell list \<Rightarrow> cell gomap" where
  "readRow columns vals = foldl (\<lambda>m (c, v). mput c v m) [] (zip columns vals)"

definition readRows :: "string list \<Rightarrow> cell list list \<Rightarrow> QueryResult" where
  "readRows columns rows =
     (let kept = map (readRow columns) (take maxRows rows)
      in \<lparr>qr_Columns = columns, qr_Rows = (if kept = [] then None else Some kept),
          qr_Count = length kept\<rparr>)"

text \<open>\<open>sql.Open\<close>, then \<open>finishConnect\<close>, which closes again what it cannot ping.\<close>

definition pgConnect :: "devices \<Rightarrow> string \<Rightarrow> 's world \<Rightarrow> (pgConnError + unit) \<times> 's world" where
  "pgConnect D connStr w =
     (case devCall D (PgOpen connStr) w of
        (Some e, w) \<Rightarrow> (Inl (Opening e), w)
      | (None, w) \<Rightarrow>
          (case devCall D PgPing w of
             (Some e, w) \<Rightarrow> (Inl (Pinging e), record_call PgClose w)
           | (None, w) \<Rightarrow> (Inr (), w)))"

text \<open>
  The query inside the transaction. The driver delivers the columns, the rows and possibly an
  error after them; the loop asks for one row more than it keeps, so it meets the error unless
  more rows than that came before.
\<close>

definition runInTx :: "devices \<Rightarrow> string \<Rightarrow> 's world \<Rightarrow> (execError + QueryResult) \<times> 's world" where
  "runInTx D q w =
     (case devCall D (PgExec timeoutStmt) w of
        (Some e, w) \<Rightarrow> (Inl (SettingTimeout e), w)
      | (None, w) \<Rightarrow>
          (case dv_pgRows D (w_calls w) q of
             Inl e \<Rightarrow> (Inl (QueryExecution e), record_call (PgQuery q) w)
           | Inr (columns, rows, failed) \<Rightarrow>
               (case failed of
                  Some e \<Rightarrow> if length rows \<le> maxRows then (Inl (ReadingRows e), record_call (PgQuery q) w)
                    else (Inr (readRows columns rows), record_call (PgQuery q) w)
                | None \<Rightarrow> (Inr (readRows columns rows), record_call (PgQuery q) w))))"

text \<open>\<open>ExecuteQuery\<close> on an open connection; the transaction is rolled back whatever happens in it.\<close>

definition ExecuteQuery ::
    "golib \<Rightarrow> devices \<Rightarrow> string list \<Rightarrow> string \<Rightarrow> 's world \<Rightarrow> (execError + QueryResult) \<times> 's world" where
  "ExecuteQuery L D allowed query w =
     (case admitQuery L (dv_pgParse D) allowed query of
        Inl e \<Rightarrow> (Inl (Refused e), w)
      | Inr sanitized \<Rightarrow>
          (case devCall D (PgBegin True) w of
             (Some e, w) \<Rightarrow> (Inl (Beginning e), w)
           | (None, w) \<Rightarrow>
               (let (res, w) = runInTx D sanitized w in (res, record_call PgRollback w))))"

section \<open>The operation\<close>

datatype pgError =
    PgSite string
  | PgEnv string
  | PgDatabase string string
  | PgSecret secretError
  | PgConnect pgConnError
  | SqlRequired
  | TableRequired
  | TableDenied string
  | UnknownPgOp string
  | QueryFailed execError

definition pgHost :: "Environment \<Rightarrow> string" where
  "pgHost env = (if env_ProxyHost env \<noteq> [] then env_ProxyHost env else env_Host env)"

definition pgPort :: "Environment \<Rightarrow> int" where
  "pgPort env = (if env_ProxyPort env \<noteq> 0 then env_ProxyPort env else env_Port env)"

text \<open>What follows the last dot of the operation's id, or all of it.\<close>

definition pgAction :: "string \<Rightarrow> string" where
  "pgAction opID = last (splitOn (CHR ''.'') opID)"

definition tablesQuery :: "devices \<Rightarrow> Database \<Rightarrow> string" where
  "tablesQuery D db =
     ''SELECT table_name, table_type FROM information_schema.tables WHERE table_schema = ''
     @ dv_quoteLiteral D (db_Schema db) @ '' ORDER BY table_name''"

definition schemaQuery :: "devices \<Rightarrow> Database \<Rightarrow> string \<Rightarrow> string" where
  "schemaQuery D db tableName =
     ''SELECT column_name, data_type, is_nullable, column_default FROM information_schema.columns WHERE table_schema = ''
     @ dv_quoteLiteral D (db_Schema db) @ '' AND table_name = '' @ dv_quoteLiteral D tableName
     @ '' ORDER BY ordinal_position''"

definition pgTarget :: "Workspace \<Rightarrow> Operation \<Rightarrow> params \<Rightarrow> pgError + (Environment \<times> Database)" where
  "pgTarget ws op ps =
     (case mget (ws_Sites ws) (op_Site op) of
        None \<Rightarrow> Inl (PgSite (op_Site op))
      | Some site \<Rightarrow>
          (let envName = strParam ps ''env''
           in case mget (site_Environments site) envName of
                None \<Rightarrow> Inl (PgEnv envName)
              | Some env \<Rightarrow>
                  (let dbName = strParam ps ''db''
                   in case mget (env_Databases env) dbName of
                        None \<Rightarrow> Inl (PgDatabase dbName envName)
                      | Some db \<Rightarrow> Inr (env, db))))"

definition pgQuery_result ::
    "(execError + QueryResult) \<times> 's world \<Rightarrow> (pgError + QueryResult) \<times> 's world" where
  "pgQuery_result r = (mapErr QueryFailed (fst r), snd r)"

definition pgDispatch ::
    "golib \<Rightarrow> devices \<Rightarrow> Workspace \<Rightarrow> Operation \<Rightarrow> params \<Rightarrow> Database \<Rightarrow> 's world
       \<Rightarrow> (pgError + QueryResult) \<times> 's world" where
  "pgDispatch L D ws op ps db w =
     (let allowed = elems (wp_PgAllowedTables (ws_Policy ws)); action = pgAction (op_ID op)
      in if action = ''query'' then
           (let sqlQuery = strParam ps ''sql''
            in if sqlQuery = [] then (Inl SqlRequired, w)
               else pgQuery_result (ExecuteQuery L D allowed sqlQuery w))
         else if action = ''tables'' then
           (let (res, w) = ExecuteQuery L D [] (tablesQuery D db) w
            in (rbind (mapErr QueryFailed res) (\<lambda>r. Inr (FilterTableRows L r allowed (db_Schema db))), w))
         else if action = ''schema'' then
           (let tableName = strParam ps ''table''
            in if tableName = [] then (Inl TableRequired, w)
               else if \<not> TableAllowed L allowed (db_Schema db) tableName then (Inl (TableDenied tableName), w)
               else pgQuery_result (ExecuteQuery L D [] (schemaQuery D db tableName) w))
         else (Inl (UnknownPgOp (op_ID op)), w))"

text \<open>
  The answer. The encoder's error is ignored: a result with a value that cannot be encoded
  is answered with status 200 and no body.
\<close>

definition encodeCells :: "cell gomap \<Rightarrow> json option" where
  "encodeCells cells = map_option (\<lambda>vs. JObj (zip (map fst cells) vs)) (those (map snd cells))"

definition pgBody :: "golib \<Rightarrow> QueryResult \<Rightarrow> string" where
  "pgBody L r =
     (case those (map encodeCells (elems (qr_Rows r))) of
        None \<Rightarrow> []
      | Some rows \<Rightarrow> encodeJson L (JObj
          [(''columns'', JArr (map JStr (qr_Columns r))),
           (''rows'', if qr_Rows r = None then JNull else JArr rows),
           (''count'', JInt (int (qr_Count r)))]))"

definition executePostgresConnector ::
    "golib \<Rightarrow> upstream \<Rightarrow> devices \<Rightarrow> Workspace \<Rightarrow> Operation \<Rightarrow> params \<Rightarrow> string \<Rightarrow> 's world
       \<Rightarrow> (pgError + (int \<times> string)) \<times> 's world" where
  "executePostgresConnector L U D ws op ps workspace w =
     (case pgTarget ws op ps of
        Inl e \<Rightarrow> (Inl e, w)
      | Inr (env, db) \<Rightarrow>
          (case resolveRef L U (env_SecretRef env) workspace w of
             (Inl e, w) \<Rightarrow> (Inl (PgSecret e), w)
           | (Inr secret, w) \<Rightarrow>
               (case buildConnStr (pgHost env) (pgPort env) (env_User env) secret (db_DB db)
                       (db_Schema db) (env_SSLMode env) of
                  Inl e \<Rightarrow> (Inl (PgConnect e), w)
                | Inr connStr \<Rightarrow>
                    (case pgConnect D connStr w of
                       (Inl e, w) \<Rightarrow> (Inl (PgConnect e), w)
                     | (Inr _, w) \<Rightarrow>
                         (let (res, w) = pgDispatch L D ws op ps db w
                          in (rbind res (\<lambda>r. Inr (200, pgBody L r)), record_call PgClose w))))))"

section \<open>The connection string means its parts\<close>

text \<open>How a connection URL is read: its parts are cut at the delimiters and then unescaped.\<close>

fun percentDecode :: "string \<Rightarrow> string option" where
  "percentDecode [] = Some []"
| "percentDecode (c # cs) =
     (if c = CHR ''%'' then
        (case cs of
           a # b # rest \<Rightarrow>
             (case (hexVal a, hexVal b) of
                (Some x, Some y) \<Rightarrow> map_option (\<lambda>r. char_of (16 * x + y) # r) (percentDecode rest)
              | _ \<Rightarrow> None)
         | _ \<Rightarrow> None)
      else map_option (\<lambda>r. c # r) (percentDecode cs))"

record dsn =
  dsn_User :: string
  dsn_Password :: string
  dsn_Host :: string
  dsn_Database :: string
  dsn_Options :: "(string \<times> string) list"

definition readUser :: "string \<Rightarrow> (string \<times> string) option" where
  "readUser s = optBind (cutAt (CHR '':'') s) (\<lambda>(u, p).
     optBind (percentDecode u) (\<lambda>u. optBind (percentDecode p) (\<lambda>p. Some (u, p))))"

definition readDSN :: "string \<Rightarrow> dsn option" where
  "readDSN s =
     (if \<not> hasPrefix s ''postgres://'' then None
      else optBind (cutAt (CHR ''?'') (drop 11 s)) (\<lambda>(front, query).
        let (authority, path) =
              (case cutAt (CHR ''/'') front of None \<Rightarrow> (front, []) | Some (a, p) \<Rightarrow> (a, p))
        in optBind (cutAt (CHR ''@'') authority) (\<lambda>(userinfo, host).
           optBind (readUser userinfo) (\<lambda>(u, p).
           optBind (percentDecode host) (\<lambda>h.
           optBind (percentDecode path) (\<lambda>d.
           optBind (parseQuery query) (\<lambda>q.
             Some \<lparr>dsn_User = u, dsn_Password = p, dsn_Host = h, dsn_Database = d,
               dsn_Options = q\<rparr>)))))))"

lemma percentDecode_percent:
  "percentDecode (percent c @ r) = map_option (\<lambda>r. c # r) (percentDecode r)"
proof -
  let ?n = "of_char c :: nat"
  have "16 * (?n div 16) + ?n mod 16 = ?n" by (simp add: mult_div_mod_eq)
  then show ?thesis using nibbles [of c] by (simp add: percent_def hexVal_hexDigit)
qed

lemma percentDecode_escaped:
  assumes "CHR ''%'' \<notin> set safe"
  shows "percentDecode (escapeKeeping safe s) = Some s"
proof (induction s)
  case (Cons c s)
  have "\<not> isUnreserved (CHR ''%'')" by code_simp
  with assms have "isUnreserved c \<or> c \<in> set safe \<Longrightarrow> c \<noteq> CHR ''%''" by metis
  with Cons show ?case
    using percentDecode_percent [of c] by (auto simp: escapeKeeping_def List.member_iff)
qed (simp add: escapeKeeping_def)

lemma escapeKeeping_bytes:
  assumes "c \<in> set (escapeKeeping safe s)"
  shows "isUnreserved c \<or> c = CHR ''%'' \<or> c \<in> set safe"
proof -
  from assms obtain b where "c \<in> set (if isUnreserved b \<or> List.member safe b then [b] else percent b)"
    unfolding escapeKeeping_def set_concat set_map by blast
  then show ?thesis
    using percent_bytes [of c b] by (auto simp: isUnreserved_def List.member_iff split: if_splits)
qed

lemma escapeKeeping_avoids:
  assumes "\<not> isUnreserved d" and "d \<noteq> CHR ''%''" and "d \<notin> set safe"
  shows "d \<notin> set (escapeKeeping safe s)"
  using assms escapeKeeping_bytes by blast

lemma delimiters:
  "\<not> isUnreserved (CHR ''?'')" "\<not> isUnreserved (CHR ''/'')" "\<not> isUnreserved (CHR ''@'')"
  "\<not> isUnreserved (CHR '':'')"
  by code_simp+

lemma user_plain:
  "CHR ''?'' \<notin> set (escapeKeeping userSafe s)" "CHR ''/'' \<notin> set (escapeKeeping userSafe s)"
  "CHR ''@'' \<notin> set (escapeKeeping userSafe s)" "CHR '':'' \<notin> set (escapeKeeping userSafe s)"
  by (rule escapeKeeping_avoids; simp add: userSafe_def delimiters)+

lemma host_plain:
  "CHR ''?'' \<notin> set (escapeKeeping hostSafe s)" "CHR ''/'' \<notin> set (escapeKeeping hostSafe s)"
  by (rule escapeKeeping_avoids; simp add: hostSafe_def delimiters)+

lemma path_plain: "CHR ''?'' \<notin> set (escapedPath s)"
  unfolding escapedPath_def
  by (cases "s = ''*''"; simp; rule escapeKeeping_avoids; simp add: pathSafe_def delimiters)

lemma percentDecode_path: "percentDecode (escapedPath s) = Some s"
  by (cases "s = ''*''") (simp_all add: escapedPath_def percentDecode_escaped pathSafe_def)

text \<open>The path as it stands in the URL, read back: a leading slash of the name merges with the separator.\<close>

definition pathText :: "string \<Rightarrow> string" where
  "pathText d = (if escapedPath d \<noteq> [] \<and> hd (escapedPath d) \<noteq> CHR ''/'' then ''/'' else []) @ escapedPath d"

lemma escapedPath_slash: "escapedPath (CHR ''/'' # d) = CHR ''/'' # escapeKeeping pathSafe d"
  by (simp add: escapedPath_def escapeKeeping_def pathSafe_def)

lemma pathText_cases:
  "pathText d = [] \<and> d = []
   \<or> (\<exists>p. pathText d = CHR ''/'' # p \<and> percentDecode p = Some (trimPrefix d ''/''))"
proof (cases d)
  case Nil
  then show ?thesis by (simp add: pathText_def escapedPath_def escapeKeeping_def)
next
  case (Cons c cs)
  show ?thesis
  proof (cases "c = CHR ''/''")
    case True
    then show ?thesis
      by (simp add: Cons pathText_def escapedPath_slash trimPrefix_def hasPrefix_def
          percentDecode_escaped pathSafe_def)
  next
    case False
    have "escapedPath d \<noteq> []"
      using percentDecode_path [of d] Cons by auto
    moreover have "hd (escapedPath d) \<noteq> CHR ''/''"
      using False Cons
      by (auto simp: escapedPath_def escapeKeeping_def percent_def hd_append split: if_splits)
    moreover have "trimPrefix d ''/'' = d"
      using False Cons by (simp add: trimPrefix_def hasPrefix_def)
    ultimately show ?thesis
      using percentDecode_path [of d] by (simp add: pathText_def)
  qed
qed

lemma userDecode: "percentDecode (escapeKeeping userSafe s) = Some s"
  by (rule percentDecode_escaped) (simp add: userSafe_def)

lemma readUser_escaped:
  "readUser (escapeKeeping userSafe u @ CHR '':'' # escapeKeeping userSafe p) = Some (u, p)"
  by (simp add: readUser_def optBind_def cutAt_first user_plain userDecode del: optBind_Some)

lemma readDSN_parts:
  assumes "options \<noteq> []"
  shows "readDSN (''postgres://'' @ escapeKeeping userSafe u @ '':'' @ escapeKeeping userSafe p @ ''@''
      @ escapeKeeping hostSafe h @ pathText d @ ''?'' @ encodeValues options)
    = Some \<lparr>dsn_User = u, dsn_Password = p, dsn_Host = h, dsn_Database = trimPrefix d ''/'',
        dsn_Options = sort_key fst options\<rparr>"
proof -
  let ?ui = "escapeKeeping userSafe u @ CHR '':'' # escapeKeeping userSafe p"
  let ?auth = "?ui @ CHR ''@'' # escapeKeeping hostSafe h"
  have front: "CHR ''?'' \<notin> set (?auth @ pathText d)"
    by (simp add: user_plain host_plain pathText_def path_plain)
  have slash: "CHR ''/'' \<notin> set ?auth" by (simp add: user_plain host_plain)
  have at: "cutAt (CHR ''@'') ?auth = Some (?ui, escapeKeeping hostSafe h)"
    by (rule cutAt_first) (simp add: user_plain)
  have host: "percentDecode (escapeKeeping hostSafe h) = Some h"
    by (rule percentDecode_escaped) (simp add: hostSafe_def)
  have split: "\<exists>path. (case cutAt (CHR ''/'') (?auth @ pathText d) of None \<Rightarrow> (?auth @ pathText d, [])
      | Some (a, p) \<Rightarrow> (a, p)) = (?auth, path) \<and> percentDecode path = Some (trimPrefix d ''/'')"
    using pathText_cases [of d]
  proof (elim disjE exE conjE)
    assume "pathText d = []" "d = []"
    with slash show ?thesis
      by (simp add: cutAt_None_iff [THEN iffD2] trimPrefix_def hasPrefix_def)
  next
    fix q assume "pathText d = CHR ''/'' # q" "percentDecode q = Some (trimPrefix d ''/'')"
    with cutAt_first [OF slash, of q] show ?thesis by simp
  qed
  then obtain path where path: "(case cutAt (CHR ''/'') (?auth @ pathText d) of None \<Rightarrow> (?auth @ pathText d, [])
      | Some (a, p) \<Rightarrow> (a, p)) = (?auth, path)" "percentDecode path = Some (trimPrefix d ''/'')" by blast
  let ?s = "''postgres://'' @ (?auth @ pathText d) @ CHR ''?'' # encodeValues options"
  have pre: "hasPrefix ?s ''postgres://''" by (simp add: hasPrefix_iff)
  have drop: "drop 11 ?s = (?auth @ pathText d) @ CHR ''?'' # encodeValues options" by simp
  have "readDSN ?s = Some \<lparr>dsn_User = u, dsn_Password = p, dsn_Host = h,
      dsn_Database = trimPrefix d ''/'', dsn_Options = sort_key fst options\<rparr>"
    unfolding readDSN_def drop cutAt_first [OF front]
    by (simp only: pre if_False if_True not_True_eq_False)
      (simp only: optBind_def option.case prod.case path Let_def at readUser_escaped host
        parse_encoded [OF assms])
  then show ?thesis by simp
qed

text \<open>C26: The connection string of a database says what the configuration and the secret say and
  nothing else: read back, it gives exactly the user, the password, host and port, the database
  (a leading slash apart) and the three options, whatever bytes they hold. A password cannot
  redirect the connection or add an option such as a weaker \<open>sslmode\<close>.\<close>

theorem conn_string_contained:
  assumes "buildConnStr host port user password dbname schema sslmode = Inr s"
  shows "readDSN s = Some \<lparr>dsn_User = user, dsn_Password = password,
      dsn_Host = host @ '':'' @ showInt port, dsn_Database = trimPrefix dbname ''/'',
      dsn_Options = sort_key fst (connOptions (if sslmode = [] then ''prefer'' else sslmode) schema)\<rparr>"
proof -
  let ?o = "connOptions (if sslmode = [] then ''prefer'' else sslmode) schema"
  let ?bad = "\<not> List.member validSSLModes (if sslmode = [] then ''prefer'' else sslmode)"
  have o: "?o \<noteq> []" by (simp add: connOptions_def)
  from assms have "s = ''postgres://'' @ escapeKeeping userSafe user @ '':''
      @ escapeKeeping userSafe password @ ''@'' @ escapeKeeping hostSafe (host @ '':'' @ showInt port)
      @ pathText dbname @ ''?'' @ encodeValues ?o"
    unfolding buildConnStr_def Let_def
    by (cases ?bad) (simp_all only: if_True if_False sum.inject sum.distinct pathText_def append_assoc not_False_eq_True not_True_eq_False)
  then show ?thesis by (simp only: readDSN_parts [OF o])
qed

lemma digits:
  "char_of (50::nat) = CHR ''2''" "char_of (51::nat) = CHR ''3''" "char_of (52::nat) = CHR ''4''"
  "char_of (53::nat) = CHR ''5''"
  by code_simp+

lemma conn_string_contained_witness:
  "\<exists>s. buildConnStr ''db'' 5432 ''app'' ''p@evil/x?sslmode=disable'' ''main'' ''sales'' [] = Inr s
    \<and> readDSN s = Some \<lparr>dsn_User = ''app'', dsn_Password = ''p@evil/x?sslmode=disable'',
      dsn_Host = ''db:5432'', dsn_Database = ''main'',
      dsn_Options = [(''connect_timeout'', ''10''), (''search_path'', ''sales''), (''sslmode'', ''prefer'')]\<rparr>"
proof -
  have "\<not> \<not> List.member validSSLModes (if ([]::string) = [] then ''prefer'' else [])" by code_simp
  then obtain s where s: "buildConnStr ''db'' 5432 ''app'' ''p@evil/x?sslmode=disable'' ''main'' ''sales'' [] = Inr s"
    unfolding buildConnStr_def Let_def by (simp only: if_False)
  have o: "sort_key fst (connOptions (if ([]::string) = [] then ''prefer'' else []) ''sales'')
      = [(''connect_timeout'', ''10''), (''search_path'', ''sales''), (''sslmode'', ''prefer'')]" by code_simp
  have i: "''db'' @ '':'' @ showInt 5432 = ''db:5432''" "trimPrefix ''main'' ''/'' = ''main''"
    by (simp_all add: showInt_def natDigits.simps trimPrefix_def hasPrefix_def digits)
  show ?thesis by (rule exI, rule conjI, rule s, rule conn_string_contained [OF s, unfolded o i])
qed

section \<open>Which sessions happen\<close>

lemma calls_resolveRef [simp]: "w_calls (snd (resolveRef L U ref ws w)) = w_calls w"
  by (simp add: resolveRef_def split_beta Let_def)

lemma resolveRef_keeps: "resolveRef L U ref ws w = (r, w') \<Longrightarrow> w_calls w' = w_calls w \<and> w_sent w' = w_sent w"
  using calls_resolveRef [of L U ref ws w] sent_resolveRef [of L U ref ws w] by simp

text \<open>The whole session of a query \<open>q\<close>, and the queries a session may hold.\<close>

definition pgSession :: "string \<Rightarrow> string \<Rightarrow> devcall list" where
  "pgSession c q = [PgOpen c, PgPing, PgBegin True, PgExec timeoutStmt, PgQuery q, PgRollback, PgClose]"

definition permittedQuery ::
    "golib \<Rightarrow> devices \<Rightarrow> Workspace \<Rightarrow> Operation \<Rightarrow> params \<Rightarrow> Database \<Rightarrow> string \<Rightarrow> bool" where
  "permittedQuery L D ws op ps db q =
     (let allowed = elems (wp_PgAllowedTables (ws_Policy ws)); parse = dv_pgParse D;
          table = strParam ps ''table''
      in pgAction (op_ID op) = ''query'' \<and> admitQuery L parse allowed (strParam ps ''sql'') = Inr q
         \<or> pgAction (op_ID op) = ''tables'' \<and> admitQuery L parse [] (tablesQuery D db) = Inr q
         \<or> pgAction (op_ID op) = ''schema'' \<and> TableAllowed L allowed (db_Schema db) table
           \<and> admitQuery L parse [] (schemaQuery D db table) = Inr q)"

lemma adds_runInTx:
  "\<exists>new. adds new w (snd (runInTx D q w)) \<and> new \<in> {[PgExec timeoutStmt], [PgExec timeoutStmt, PgQuery q]}"
  by (auto simp: runInTx_def devCall_def adds_def split: option.split sum.split)

lemma adds_ExecuteQuery:
  "\<exists>new. adds new w (snd (ExecuteQuery L D allowed query w))
     \<and> (new \<in> {[], [PgBegin True], [PgBegin True, PgExec timeoutStmt, PgRollback]}
       \<or> (\<exists>q. admitQuery L (dv_pgParse D) allowed query = Inr q
            \<and> new = [PgBegin True, PgExec timeoutStmt, PgQuery q, PgRollback]))"
proof (cases "admitQuery L (dv_pgParse D) allowed query")
  case (Inl e)
  then show ?thesis by (auto simp: ExecuteQuery_def intro!: exI [of _ "[]"])
next
  case (Inr q)
  let ?v = "record_call (PgBegin True) w"
  show ?thesis
  proof (cases "dv_call D (w_calls w) (PgBegin True)")
    case None
    from adds_runInTx [of ?v D q] obtain new where n: "adds new ?v (snd (runInTx D q ?v))"
      and c: "new \<in> {[PgExec timeoutStmt], [PgExec timeoutStmt, PgQuery q]}" by blast
    from adds_simps(2) [OF adds_trans [OF adds_one n], of PgRollback] None Inr c
    show ?thesis by (auto simp: ExecuteQuery_def devCall_def split_beta Let_def)
  next
    case (Some e)
    with Inr show ?thesis by (auto simp: ExecuteQuery_def devCall_def adds_def)
  qed
qed

lemma adds_pgDispatch:
  "\<exists>new. adds new w (snd (pgDispatch L D ws op ps db w))
     \<and> (new \<in> {[], [PgBegin True], [PgBegin True, PgExec timeoutStmt, PgRollback]}
       \<or> (\<exists>q. permittedQuery L D ws op ps db q
            \<and> new = [PgBegin True, PgExec timeoutStmt, PgQuery q, PgRollback]))"
    (is "\<exists>new. ?P new")
proof -
  let ?al = "elems (wp_PgAllowedTables (ws_Policy ws))" and ?a = "pgAction (op_ID op)"
  have none: "\<exists>new. ?P new" if "snd (pgDispatch L D ws op ps db w) = w"
    using that by (auto intro!: exI [of _ "[]"])
  have run: "\<exists>new. ?P new" if "snd (pgDispatch L D ws op ps db w) = snd (ExecuteQuery L D al query w)"
      and "\<And>q. admitQuery L (dv_pgParse D) al query = Inr q \<Longrightarrow> permittedQuery L D ws op ps db q" for al query
    using adds_ExecuteQuery [of w L D al query] that by auto
  consider (q) "?a = ''query''" | (t) "?a = ''tables''" | (s) "?a = ''schema''"
    | (other) "?a \<noteq> ''query''" "?a \<noteq> ''tables''" "?a \<noteq> ''schema''" by blast
  then show ?thesis
  proof cases
    case q
    show ?thesis
    proof (cases "strParam ps ''sql'' = []")
      case True
      with q show ?thesis by (intro none) (simp add: pgDispatch_def)
    next
      case False
      with q show ?thesis
        by (intro run [of ?al "strParam ps ''sql''"])
          (simp_all add: pgDispatch_def permittedQuery_def pgQuery_result_def Let_def)
    qed
  next
    case t
    then show ?thesis
      by (intro run [of "[]" "tablesQuery D db"])
        (simp_all add: pgDispatch_def permittedQuery_def split_beta Let_def)
  next
    case s
    show ?thesis
    proof (cases "strParam ps ''table'' = [] \<or> \<not> TableAllowed L ?al (db_Schema db) (strParam ps ''table'')")
      case True
      with s show ?thesis by (intro none) (auto simp: pgDispatch_def Let_def)
    next
      case False
      with s show ?thesis
        by (intro run [of "[]" "schemaQuery D db (strParam ps ''table'')"])
          (simp_all add: pgDispatch_def permittedQuery_def pgQuery_result_def Let_def)
    qed
  next
    case other
    then show ?thesis by (intro none) (simp add: pgDispatch_def)
  qed
qed

text \<open>The connection that a request may open.\<close>

definition pgConnection ::
    "golib \<Rightarrow> upstream \<Rightarrow> Workspace \<Rightarrow> Operation \<Rightarrow> params \<Rightarrow> string \<Rightarrow> 's world \<Rightarrow> Database \<Rightarrow> string \<Rightarrow> bool" where
  "pgConnection L U ws op ps workspace w db c \<longleftrightarrow>
     (\<exists>env secret. pgTarget ws op ps = Inr (env, db)
        \<and> fst (resolveRef L U (env_SecretRef env) workspace w) = Inr secret
        \<and> buildConnStr (pgHost env) (pgPort env) (env_User env) secret (db_DB db) (db_Schema db)
            (env_SSLMode env) = Inr c)"

text \<open>What the calls of one connection look like.\<close>

definition oneSession :: "(string \<Rightarrow> bool) \<Rightarrow> string \<Rightarrow> devcall list \<Rightarrow> bool" where
  "oneSession permitted c new \<longleftrightarrow> new \<noteq> [] \<and> hd new = PgOpen c
     \<and> (new = [PgOpen c] \<or> last new = PgClose) \<and> (\<forall>c'. PgOpen c' \<notin> set (tl new))
     \<and> (\<forall>q. PgQuery q \<in> set new \<longrightarrow> new = pgSession c q \<and> permitted q)"

lemma pg_connected:
  assumes "pgConnect D c v = (a, u)"
    and "w' = (if isOk a then record_call PgClose (snd (pgDispatch L D ws op ps db u)) else u)"
  shows "\<exists>new. adds new v w' \<and> oneSession (permittedQuery L D ws op ps db) c new"
proof (cases a)
  case (Inl e)
  with assms have "adds [PgOpen c] v w' \<or> adds [PgOpen c, PgPing, PgClose] v w'"
    by (auto simp: pgConnect_def devCall_def adds_def split: option.splits)
  then show ?thesis
    by (auto simp: oneSession_def intro: exI [of _ "[PgOpen c]"] exI [of _ "[PgOpen c, PgPing, PgClose]"])
next
  case (Inr x)
  then have u: "adds [PgOpen c, PgPing] v u"
    using assms(1) by (auto simp: pgConnect_def devCall_def adds_def split: option.splits)
  from assms(2) Inr have w': "w' = record_call PgClose (snd (pgDispatch L D ws op ps db u))" by simp
  from adds_pgDispatch [of u L D ws op ps db] obtain mid
    where m: "adds mid u (snd (pgDispatch L D ws op ps db u))"
      and cases: "mid \<in> {[], [PgBegin True], [PgBegin True, PgExec timeoutStmt, PgRollback]}
        \<or> (\<exists>q. permittedQuery L D ws op ps db q
          \<and> mid = [PgBegin True, PgExec timeoutStmt, PgQuery q, PgRollback])" by blast
  have "adds (([PgOpen c, PgPing] @ mid) @ [PgClose]) v w'"
    unfolding w' by (rule adds_simps(2) [OF adds_trans [OF u m]])
  moreover have "oneSession (permittedQuery L D ws op ps db) c (([PgOpen c, PgPing] @ mid) @ [PgClose])"
    using cases by (auto simp: oneSession_def pgSession_def)
  ultimately show ?thesis by blast
qed

text \<open>C25: A PostgreSQL operation opens at most one connection: to the database that the parameters
  name, with the workspace's own secret. A query reaches the server only in a read-only
  transaction with a statement timeout, which is rolled back before the connection is closed,
  and it is the agent's SQL as admitted under \<open>pg_allowed_tables\<close>, the list of the tables, or
  the columns of a table on the list. Nothing is opened when target or secret fail, and no
  HTTP request leaves.\<close>

theorem pg_session_confined:
  assumes "executePostgresConnector L U D ws op ps workspace w = (res, w')"
  shows "w_sent w' = w_sent w \<and> (\<exists>new. w_calls w' = w_calls w @ new \<and> (new = [] \<or>
    (\<exists>db c. pgConnection L U ws op ps workspace w db c
      \<and> oneSession (permittedQuery L D ws op ps db) c new)))"
proof (cases "\<exists>db c. pgConnection L U ws op ps workspace w db c")
  case True
  then obtain env db secret c where t: "pgTarget ws op ps = Inr (env, db)"
    and s: "fst (resolveRef L U (env_SecretRef env) workspace w) = Inr secret"
    and c: "buildConnStr (pgHost env) (pgPort env) (env_User env) secret (db_DB db) (db_Schema db)
        (env_SSLMode env) = Inr c"
    by (auto simp: pgConnection_def)
  obtain v where r: "resolveRef L U (env_SecretRef env) workspace w = (Inr secret, v)"
    using s by (cases "resolveRef L U (env_SecretRef env) workspace w") simp
  obtain a u where a: "pgConnect D c v = (a, u)" by fastforce
  from assms t r c a have "w' = (if isOk a then record_call PgClose (snd (pgDispatch L D ws op ps db u)) else u)"
    by (cases a) (auto simp: executePostgresConnector_def split_beta Let_def)
  from pg_connected [OF a this] resolveRef_keeps [OF r] True t s c
  show ?thesis by (auto simp: adds_def pgConnection_def)
next
  case False
  have "w_calls w' = w_calls w \<and> w_sent w' = w_sent w"
  proof (cases "pgTarget ws op ps")
    case (Inr p)
    obtain env db where t: "pgTarget ws op ps = Inr (env, db)" using Inr by (cases p) simp
    obtain r v where r: "resolveRef L U (env_SecretRef env) workspace w = (r, v)" by fastforce
    from False t r have "r = Inr secret \<Longrightarrow> \<not> isOk (buildConnStr (pgHost env) (pgPort env) (env_User env)
        secret (db_DB db) (db_Schema db) (env_SSLMode env))" for secret
      by (auto simp: pgConnection_def isOk_iff)
    with assms t r resolveRef_keeps [OF r] show ?thesis
      by (cases r) (auto simp: executePostgresConnector_def isOk_iff split: sum.splits)
  qed (use assms in \<open>simp add: executePostgresConnector_def\<close>)
  then show ?thesis by (intro conjI exI [of _ "[]"]) simp_all
qed

definition pgSpace :: Workspace where
  "pgSpace = zeroWorkspace\<lparr>ws_Sites := [(''db'', \<lparr>site_Environments =
     [(''prod'', zeroEnvironment\<lparr>env_Host := ''db'', env_SecretRef := ''secret://acme/jira'',
        env_Databases := [(''main'', \<lparr>db_DB = ''main'', db_Schema = ''public''\<rparr>)]\<rparr>)],
     site_DefaultEnv = [], site_Disabled = False\<rparr>)]\<rparr>"

definition pgOp :: Operation where
  "pgOp = zeroOperation\<lparr>op_ID := ''db.query'', op_Connector := ''postgres'', op_Site := ''db''\<rparr>"

definition pgParams :: params where
  "pgParams = [(''env'', JStr ''prod''), (''db'', JStr ''main''), (''sql'', JStr ''SELECT 1'')]"

definition exampleDevices :: devices where
  "exampleDevices = \<lparr>dv_call = (\<lambda>cs c. None), dv_pgRows = (\<lambda>cs q. Inr ([''n''], [[Some (JInt 1)]], None)),
     dv_pgParse = exampleParse, dv_quoteLiteral = (\<lambda>s. CHR 0x27 # s @ [CHR 0x27]),
     dv_startTLS = (\<lambda>cs. False), dv_imapList = (\<lambda>cs. []), dv_imapMessages = (\<lambda>cs. 0),
     dv_imapFetch = (\<lambda>cs c. []), dv_service = (\<lambda>cs s. Inr ''RUNNING''), dv_adapters = Inr [],
     dv_parseAddress = Inr, dv_qEncode = (\<lambda>s. s), dv_date = ''now'', dv_windows = True\<rparr>"

abbreviation pgRun where
  "pgRun \<equiv> executePostgresConnector exampleLib exampleUpstream exampleDevices pgSpace pgOp pgParams ''acme'' exampleWorld"

lemma pg_session_confined_witness:
  "(\<exists>env db. pgTarget pgSpace pgOp pgParams = Inr (env, db))
    \<and> w_sent (snd pgRun) = w_sent exampleWorld \<and> (\<exists>new. w_calls (snd pgRun) = w_calls exampleWorld @ new \<and> (new = [] \<or>
    (\<exists>db c. pgConnection exampleLib exampleUpstream pgSpace pgOp pgParams ''acme'' exampleWorld db c
      \<and> oneSession (permittedQuery exampleLib exampleDevices pgSpace pgOp pgParams db) c new)))"
proof
  have "isOk (pgTarget pgSpace pgOp pgParams)" by code_simp
  then show "\<exists>env db. pgTarget pgSpace pgOp pgParams = Inr (env, db)" by (auto simp: isOk_iff)
qed (rule pg_session_confined [where res = "fst pgRun"], simp)

section \<open>The answer\<close>

lemma take_count: "qr_Count (readRows cols rows) = length (elems (qr_Rows (readRows cols rows)))"
  "length (elems (qr_Rows (readRows cols rows))) \<le> maxRows"
  by (simp_all add: readRows_def Let_def)

lemma ExecuteQuery_rows:
  assumes "fst (ExecuteQuery L D allowed q w) = Inr r"
  shows "\<exists>cols rows. r = readRows cols rows"
  using assms
  by (auto simp: ExecuteQuery_def runInTx_def devCall_def Let_def split_beta
      split: sum.splits option.splits if_splits)

definition rowName :: "cell gomap \<Rightarrow> string option" where
  "rowName r = (case mget r ''table_name'' of Some (Some (JStr n)) \<Rightarrow> Some n | _ \<Rightarrow> None)"

definition nameAllowed :: "golib \<Rightarrow> string list \<Rightarrow> string \<Rightarrow> cell gomap \<Rightarrow> bool" where
  "nameAllowed L allowed schema r =
     (case rowName r of None \<Rightarrow> False | Some name \<Rightarrow> TableAllowed L allowed schema name)"

lemma FilterTableRows_named:
  "FilterTableRows L res allowed schema =
     (if allowed = [] then res
      else (let kept = filter (nameAllowed L allowed schema) (elems (qr_Rows res))
            in res\<lparr>qr_Rows := Some kept, qr_Count := length kept\<rparr>))"
proof -
  have "nameAllowed L allowed schema = (\<lambda>row. case mget row ''table_name'' of
      Some (Some (JStr name)) \<Rightarrow> TableAllowed L allowed schema name | _ \<Rightarrow> False)"
    by (rule ext) (simp add: nameAllowed_def rowName_def split: option.split json.split)
  then show ?thesis by (simp add: FilterTableRows_def)
qed

lemma FilterTableRows_rows:
  assumes "qr_Count r = length (elems (qr_Rows r)) \<and> length (elems (qr_Rows r)) \<le> n"
  shows "qr_Count (FilterTableRows L r allowed schema) = length (elems (qr_Rows (FilterTableRows L r allowed schema)))
    \<and> length (elems (qr_Rows (FilterTableRows L r allowed schema))) \<le> n
    \<and> (allowed \<noteq> [] \<longrightarrow> (\<forall>x\<in>set (elems (qr_Rows (FilterTableRows L r allowed schema))).
          \<exists>name. rowName x = Some name \<and> TableAllowed L allowed schema name))"
proof -
  have "length (filter (nameAllowed L allowed schema) (elems (qr_Rows r))) \<le> n"
    using assms length_filter_le le_trans by blast
  with assms show ?thesis
    by (auto simp: FilterTableRows_named Let_def nameAllowed_def split: option.splits)
qed

text \<open>C27: An answer of a PostgreSQL operation holds at most a thousand rows and counts them right;
  the list of the tables holds only names that \<open>pg_allowed_tables\<close> covers, when it is set.\<close>

theorem pg_answer_bounded:
  fixes w :: "'s world"
  assumes "fst (executePostgresConnector L U D ws op ps workspace w) = Inr (status, body)"
  shows "\<exists>env db r. pgTarget ws op ps = Inr (env, db) \<and> status = 200 \<and> body = pgBody L r
    \<and> qr_Count r = length (elems (qr_Rows r)) \<and> length (elems (qr_Rows r)) \<le> 1000
    \<and> (pgAction (op_ID op) = ''tables'' \<and> elems (wp_PgAllowedTables (ws_Policy ws)) \<noteq> [] \<longrightarrow>
        (\<forall>x\<in>set (elems (qr_Rows r)). \<exists>name. rowName x = Some name
          \<and> TableAllowed L (elems (wp_PgAllowedTables (ws_Policy ws))) (db_Schema db) name))"
proof -
  from assms obtain env db r and v :: "'s world" where t: "pgTarget ws op ps = Inr (env, db)"
    and r: "fst (pgDispatch L D ws op ps db v) = Inr r" and "status = 200" "body = pgBody L r"
    by (auto simp: executePostgresConnector_def split_beta Let_def rbind_Inr_iff split: sum.splits prod.splits)
  moreover have "qr_Count r = length (elems (qr_Rows r)) \<and> length (elems (qr_Rows r)) \<le> maxRows
      \<and> (pgAction (op_ID op) = ''tables'' \<and> elems (wp_PgAllowedTables (ws_Policy ws)) \<noteq> [] \<longrightarrow>
        (\<forall>x\<in>set (elems (qr_Rows r)). \<exists>name. rowName x = Some name
          \<and> TableAllowed L (elems (wp_PgAllowedTables (ws_Policy ws))) (db_Schema db) name))"
  proof (cases "pgAction (op_ID op) = ''tables''")
    case True
    then have "\<exists>q al r0. fst (ExecuteQuery L D [] (tablesQuery D db) v) = Inr r0
        \<and> r = FilterTableRows L r0 (elems (wp_PgAllowedTables (ws_Policy ws))) (db_Schema db)"
      using r by (auto simp: pgDispatch_def Let_def split_beta rbind_Inr_iff)
    then show ?thesis using ExecuteQuery_rows FilterTableRows_rows take_count by metis
  next
    case False
    then have "\<exists>al q. fst (ExecuteQuery L D al q v) = Inr r"
      using r by (auto simp: pgDispatch_def Let_def pgQuery_result_def split: if_splits)
    with False show ?thesis using ExecuteQuery_rows take_count by metis
  qed
  ultimately show ?thesis by (auto simp: maxRows_def)
qed

lemma example_resolveRef:
  "fst (resolveRef exampleLib exampleUpstream ''secret://acme/jira'' ''acme'' exampleWorld) = Inr ''hunter22''"
proof -
  have "parseSecretRef ''secret://acme/jira'' = (''acme'', ''jira'')" by code_simp
  then show ?thesis
    using arg_cong [OF example_resolve, of fst]
    by (simp add: resolveRef_def ResolveWithWorkspaceCheck_def exampleWorld_def exampleUpstream_def split_beta Let_def)
qed

lemma pg_answer_bounded_witness:
  "\<exists>body r. fst pgRun = Inr (200, body) \<and> body = pgBody exampleLib r
    \<and> length (elems (qr_Rows r)) \<le> 1000"
proof -
  let ?env = "zeroEnvironment\<lparr>env_Host := ''db'', env_SecretRef := ''secret://acme/jira'',
        env_Databases := [(''main'', \<lparr>db_DB = ''main'', db_Schema = ''public''\<rparr>)]\<rparr>"
  let ?db = "\<lparr>db_DB = ''main'', db_Schema = ''public''\<rparr>"
  have t: "pgTarget pgSpace pgOp pgParams = Inr (?env, ?db)" by code_simp
  have m: "List.member validSSLModes ''prefer''" by code_simp
  have z: "env_SSLMode ?env = []" "env_SecretRef ?env = ''secret://acme/jira''"
    by (simp_all add: zeroEnvironment_def)
  obtain c where c: "buildConnStr (pgHost ?env) (pgPort ?env) (env_User ?env) ''hunter22'' (db_DB ?db)
      (db_Schema ?db) (env_SSLMode ?env) = Inr c"
    unfolding buildConnStr_def Let_def z(1) by (simp only: m if_True if_False refl not_True_eq_False)
  obtain v where r: "resolveRef exampleLib exampleUpstream (env_SecretRef ?env) ''acme'' exampleWorld = (Inr ''hunter22'', v)"
    using example_resolveRef unfolding z by (metis prod.collapse)
  have a: "admitQuery exampleLib exampleParse [] ''SELECT 1'' = Inr ''SELECT 1''" by code_simp
  have p: "pgAction (op_ID pgOp) = ''query''" "strParam pgParams ''sql'' = ''SELECT 1''"
      "elems (wp_PgAllowedTables (ws_Policy pgSpace)) = []" by code_simp+
  have d: "dv_call exampleDevices cs x = None" "dv_pgParse exampleDevices = exampleParse"
      "dv_pgRows exampleDevices cs q = Inr ([''n''], [[Some (JInt 1)]], None)" for cs x q
    by (simp_all add: exampleDevices_def)
  have "\<exists>body. fst pgRun = Inr (200, body)"
    unfolding executePostgresConnector_def t sum.case prod.case r c
    by (simp add: pgConnect_def devCall_def d pgDispatch_def p ExecuteQuery_def a runInTx_def
        pgQuery_result_def Let_def split_beta)
  then obtain body where "fst pgRun = Inr (200, body)" by blast
  with pg_answer_bounded [OF this] show ?thesis by blast
qed

text \<open>One value that JSON cannot express (a NaN) empties the whole answer, whose status stays 200.\<close>

lemma those_None: "None \<in> set xs \<Longrightarrow> those xs = None"
  by (induction xs) (auto split: option.split)

lemma nan_empties_answer:
  assumes "r \<in> set (elems (qr_Rows res))" and "(col, None) \<in> set r"
  shows "pgBody L res = []"
proof -
  from assms(2) have "None \<in> set (map snd r)" by force
  then have "encodeCells r = None" by (simp add: encodeCells_def those_None)
  with assms(1) have "None \<in> set (map encodeCells (elems (qr_Rows res)))" by force
  then show ?thesis by (simp add: pgBody_def those_None)
qed

end
