(* ===== verification/LocalOp.thy ===== *)
theory LocalOp
  imports PgOp
begin

text \<open>
  Tunnels and local services: the checks of \<open>connectors/localservice\<close>, the tunnel checker that
  \<open>cmd/egw/tunnel.go\<close> plugs into the registry, and \<open>executeLocalServiceConnector\<close> of server.go.
  The property is that what the tunnel gate lets through stands on a tunnel that is up.
\<close>

section \<open>Checks\<close>

datatype tunnelType = TunnelTypeWireGuard | TunnelTypeGlobalProtect | TunnelTypeTCP

record TunnelConfig =
  tc_Type :: tunnelType
  tc_Name :: string
  tc_CheckHost :: string
  tc_CheckPort :: int

record TunnelStatus =
  ts_Name :: string
  ts_Type :: tunnelType
  ts_Connected :: bool
  ts_Details :: string

definition wireGuardService :: "string \<Rightarrow> string" where
  "wireGuardService tunnelName = ''WireGuardTunnel$'' @ tunnelName"

definition checkWireGuard :: "devices \<Rightarrow> devcall list \<Rightarrow> string \<Rightarrow> TunnelStatus" where
  "checkWireGuard D cs tunnelName =
     (case dv_service D cs (wireGuardService tunnelName) of
        Inl e \<Rightarrow> \<lparr>ts_Name = tunnelName, ts_Type = TunnelTypeWireGuard, ts_Connected = False,
            ts_Details = ''service query failed: '' @ e\<rparr>
      | Inr output \<Rightarrow>
          (let running = strContains output ''RUNNING'' \<and> \<not> strContains output ''STOPPED''
           in \<lparr>ts_Name = tunnelName, ts_Type = TunnelTypeWireGuard, ts_Connected = running,
                ts_Details = ''service status: '' @ (if running then ''running'' else ''stopped'')\<rparr>))"

definition pangpAdapterPrefix :: string where
  "pangpAdapterPrefix = ''PANGP Virtual Ethernet Adapter''"

text \<open>\<open>%q\<close>: a double-quoted literal of the language.\<close>

definition quoteByte :: "char \<Rightarrow> string" where
  "quoteByte c =
     (if c = CHR 0x22 \<or> c = backslash then [backslash, c]
      else if c = CHR 0x07 then [backslash, CHR ''a'']
      else if c = CHR 0x08 then [backslash, CHR ''b'']
      else if c = CHR 0x0C then [backslash, CHR ''f'']
      else if c = CHR 0x0A then [backslash, CHR ''n'']
      else if c = CHR 0x0D then [backslash, CHR ''r'']
      else if c = CHR 0x09 then [backslash, CHR ''t'']
      else if c = CHR 0x0B then [backslash, CHR ''v'']
      else if (of_char c :: nat) < 32 \<or> c = CHR 0x7F then
        [backslash, CHR ''x'', lowerHex (of_char c div 16), lowerHex (of_char c mod 16)]
      else [c])"

definition quoteQ :: "golib \<Rightarrow> string \<Rightarrow> string" where
  "quoteQ L s = (if list_all isAscii s then CHR 0x22 # concat (map quoteByte s) @ [CHR 0x22] else lib_quote L s)"

text \<open>The loop over the adapters: it stops at the first one that is up, else the last one seen counts.\<close>

fun scanAdapters :: "golib \<Rightarrow> TunnelStatus \<Rightarrow> netAdapter list \<Rightarrow> TunnelStatus" where
  "scanAdapters L status [] = status"
| "scanAdapters L status (a # as) =
     (if \<not> hasPrefix (na_Description a) pangpAdapterPrefix then scanAdapters L status as
      else if na_Up a then status\<lparr>ts_Connected := True,
        ts_Details := ''PANGP adapter '' @ quoteQ L (na_Name a) @ '' up, GlobalProtect connected''\<rparr>
      else scanAdapters L (status\<lparr>ts_Details :=
        ''PANGP adapter '' @ quoteQ L (na_Name a) @ '' not up, GlobalProtect disconnected''\<rparr>) as)"

definition globalProtectStatus :: "golib \<Rightarrow> string \<Rightarrow> netAdapter list \<Rightarrow> TunnelStatus" where
  "globalProtectStatus L portal adapters =
     scanAdapters L \<lparr>ts_Name = portal, ts_Type = TunnelTypeGlobalProtect, ts_Connected = False,
       ts_Details = ''PANGP adapter not found (disabled, or GlobalProtect not installed)''\<rparr> adapters"

text \<open>The adapters can only be listed on Windows.\<close>

definition netAdapters :: "devices \<Rightarrow> string + netAdapter list" where
  "netAdapters D =
     (if dv_windows D then dv_adapters D
      else Inl ''listing network adapters is only supported on Windows'')"

definition checkGlobalProtect :: "golib \<Rightarrow> devices \<Rightarrow> string \<Rightarrow> TunnelStatus" where
  "checkGlobalProtect L D portal =
     (case netAdapters D of
        Inl e \<Rightarrow> \<lparr>ts_Name = portal, ts_Type = TunnelTypeGlobalProtect, ts_Connected = False,
            ts_Details = ''listing network adapters failed: '' @ e\<rparr>
      | Inr adapters \<Rightarrow> globalProtectStatus L portal adapters)"

definition checkTCP :: "devices \<Rightarrow> devcall list \<Rightarrow> string \<Rightarrow> int \<Rightarrow> TunnelStatus" where
  "checkTCP D cs host port =
     (case dv_call D cs (DialTCP host port) of
        Some e \<Rightarrow> \<lparr>ts_Name = host, ts_Type = TunnelTypeTCP, ts_Connected = False,
            ts_Details = ''connection failed: '' @ e\<rparr>
      | None \<Rightarrow> \<lparr>ts_Name = host, ts_Type = TunnelTypeTCP, ts_Connected = True,
            ts_Details = ''port '' @ showInt port @ '' open''\<rparr>)"

fun checkTunnelType :: "golib \<Rightarrow> devices \<Rightarrow> devcall list \<Rightarrow> TunnelConfig \<Rightarrow> tunnelType \<Rightarrow> TunnelStatus" where
  "checkTunnelType L D cs cfg TunnelTypeWireGuard = checkWireGuard D cs (tc_Name cfg)"
| "checkTunnelType L D cs cfg TunnelTypeGlobalProtect = checkGlobalProtect L D (tc_Name cfg)"
| "checkTunnelType L D cs cfg TunnelTypeTCP = checkTCP D cs (tc_CheckHost cfg) (tc_CheckPort cfg)"

section \<open>The checker of the gateway\<close>

definition tunnelTypeOf :: "string \<Rightarrow> tunnelType option" where
  "tunnelTypeOf t =
     (if t = ''wireguard'' then Some TunnelTypeWireGuard
      else if t = ''globalprotect'' then Some TunnelTypeGlobalProtect
      else if t = ''tcp'' then Some TunnelTypeTCP else None)"

definition newTunnelChecker :: "golib \<Rightarrow> devices \<Rightarrow> devcall list \<Rightarrow> Config \<Rightarrow> TunnelChecker" where
  "newTunnelChecker L D cs cfg tunnelName =
     (case GetTunnel cfg tunnelName of
        None \<Rightarrow> Inl (''unknown tunnel: '' @ tunnelName)
      | Some tunnel \<Rightarrow>
          (case tunnelTypeOf (tun_Type tunnel) of
             None \<Rightarrow> Inl (''unsupported tunnel type: '' @ tun_Type tunnel)
           | Some t \<Rightarrow>
               (let status = checkTunnelType L D cs \<lparr>tc_Type = t, tc_Name = tun_Tunnel tunnel,
                      tc_CheckHost = tun_CheckHost tunnel, tc_CheckPort = tun_CheckPort tunnel\<rparr> t
                in Inr (ts_Connected status, ts_Details status))))"

section \<open>The operation\<close>

datatype localError =
    LocalTunnel string
  | LocalSite string
  | ServiceQueryFailed string
  | HostPortRequired
  | UnknownLocalMethod string

text \<open>\<open>strconv.Atoi\<close>, its error ignored: 0 for a text that is no number, the nearest \<open>int\<close> out of range.\<close>

definition digitsValue :: "string \<Rightarrow> int" where
  "digitsValue ds = foldl (\<lambda>n c. 10 * n + (of_char c - 48)) 0 ds"

definition clampInt :: "int \<Rightarrow> int" where
  "clampInt i = max (- (2 ^ 63)) (min (2 ^ 63 - 1) i)"

definition atoi :: "string \<Rightarrow> int" where
  "atoi s =
     (let ds = (if hasPrefix s ''+'' \<or> hasPrefix s ''-'' then tl s else s)
      in if ds = [] \<or> \<not> list_all isDigit ds then 0
         else clampInt (if hasPrefix s ''-'' then - digitsValue ds else digitsValue ds))"

definition localStatus :: "golib \<Rightarrow> devices \<Rightarrow> Workspace \<Rightarrow> Operation \<Rightarrow> string \<Rightarrow> Tunnel \<Rightarrow> 's world
    \<Rightarrow> (localError + string) \<times> 's world" where
  "localStatus L D ws op tunnelName tunCfg w =
     (if mget (ws_Sites ws) (op_Site op) = None then (Inl (LocalSite (op_Site op)), w)
      else (let svcName = wireGuardService (tun_Tunnel tunCfg);
                reply = dv_service D (w_calls w) svcName; w = record_call (ServiceQuery svcName) w
            in (case reply of
                  Inl e \<Rightarrow> (Inl (ServiceQueryFailed e), w)
                | Inr output \<Rightarrow>
                    (Inr (encodeJson L (JObj
                       [(''tunnel'', JStr tunnelName), (''type'', JStr (tun_Type tunCfg)),
                        (''connected'', JBool (strContains output ''RUNNING'')),
                        (''details'', JStr (svcName @ '' status: '' @ output))])), w))))"

definition localTest :: "golib \<Rightarrow> devices \<Rightarrow> params \<Rightarrow> 's world \<Rightarrow> (localError + string) \<times> 's world" where
  "localTest L D ps w =
     (let host = strParam ps ''host''; port = atoi (strParam ps ''port'')
      in if host = [] \<or> port = 0 then (Inl HostPortRequired, w)
         else (let (failed, w) = devCall D (DialTCP host port) w
               in (Inr (encodeJson L (JObj ([(''host'', JStr host), (''port'', JInt port)] @
                    (case failed of
                       Some e \<Rightarrow> [(''reachable'', JBool False), (''error'', JStr e)]
                     | None \<Rightarrow> [(''reachable'', JBool True)])))), w)))"

definition executeLocalServiceConnector ::
    "golib \<Rightarrow> devices \<Rightarrow> Config \<Rightarrow> Workspace \<Rightarrow> Operation \<Rightarrow> params \<Rightarrow> 's world
       \<Rightarrow> (localError + string) \<times> 's world" where
  "executeLocalServiceConnector L D cfg ws op ps w =
     (let tunnelName = strParam ps ''tunnel'';
          tunnelName = (if tunnelName = [] then ''vpn1'' else tunnelName)
      in case GetTunnel cfg tunnelName of
           None \<Rightarrow> (Inl (LocalTunnel tunnelName), w)
         | Some tunCfg \<Rightarrow>
             if op_Method op = ''STATUS'' then localStatus L D ws op tunnelName tunCfg w
             else if op_Method op = ''TEST'' then localTest L D ps w
             else (Inl (UnknownLocalMethod (op_Method op)), w))"

section \<open>The gate and the tunnels\<close>

text \<open>When a tunnel is up, said of the devices themselves.\<close>

definition tunnelUp :: "devices \<Rightarrow> devcall list \<Rightarrow> Tunnel \<Rightarrow> bool" where
  "tunnelUp D cs t \<longleftrightarrow>
     tun_Type t = ''wireguard''
       \<and> (\<exists>output. dv_service D cs (wireGuardService (tun_Tunnel t)) = Inr output
            \<and> sublist ''RUNNING'' output \<and> \<not> sublist ''STOPPED'' output)
     \<or> tun_Type t = ''globalprotect''
       \<and> (\<exists>adapters a. netAdapters D = Inr adapters \<and> a \<in> set adapters \<and> na_Up a
            \<and> prefix pangpAdapterPrefix (na_Description a))
     \<or> tun_Type t = ''tcp'' \<and> dv_call D cs (DialTCP (tun_CheckHost t) (tun_CheckPort t)) = None"

lemma scanAdapters_connected:
  "ts_Connected (scanAdapters L status as) \<longleftrightarrow> ts_Connected status
     \<or> (\<exists>a\<in>set as. na_Up a \<and> prefix pangpAdapterPrefix (na_Description a))"
  by (induction L status as rule: scanAdapters.induct) (auto simp: hasPrefix_iff)

lemma checker_connected:
  "newTunnelChecker L D cs cfg name = Inr (up, details) \<Longrightarrow>
     up \<longleftrightarrow> (\<exists>t. GetTunnel cfg name = Some t \<and> tunnelUp D cs t)"
  by (auto simp: newTunnelChecker_def tunnelTypeOf_def tunnelUp_def checkWireGuard_def checkTCP_def
      checkGlobalProtect_def globalProtectStatus_def scanAdapters_connected Let_def strContains_iff
      split: option.splits if_splits sum.splits)

text \<open>The tunnel gate tells the truth. With the gateway's own checker, and once the environment
  of a request is chosen, the gate lets the request through exactly when the environment
  requires no tunnel or names a configured one that is up at that moment: the WireGuard
  service runs, GlobalProtect's adapter is up, or the probed port accepts a connection. An
  unknown type, a failed query and a stopped service all keep it shut.\<close>

theorem tunnel_gate_exact:
  assumes "reg_TunnelChecker reg = Some (newTunnelChecker L D cs cfg)"
    and "mget (ws_Sites ws) (op_Site op) = Some site"
    and "resolveEnv site (op_Site op) ps = Inr (name, env)"
  shows "isOk (checkTunnelAccess cfg reg ws op ps) \<longleftrightarrow> env_RequiresTunnel env = []
    \<or> (\<exists>t. GetTunnel cfg (env_RequiresTunnel env) = Some t \<and> tunnelUp D cs t)"
proof (cases "env_RequiresTunnel env = []")
  case True
  with assms show ?thesis by (simp add: checkTunnelAccess_def)
next
  case False
  let ?n = "env_RequiresTunnel env"
  have "isOk (CheckTunnel reg ?n) \<longleftrightarrow> (\<exists>details. newTunnelChecker L D cs cfg ?n = Inr (True, details))"
    using assms(1) False by (auto simp: CheckTunnel_def isOk_iff split: sum.split)
  also have "\<dots> \<longleftrightarrow> (\<exists>t. GetTunnel cfg ?n = Some t \<and> tunnelUp D cs t)"
  proof
    assume "\<exists>details. newTunnelChecker L D cs cfg ?n = Inr (True, details)"
    with checker_connected show "\<exists>t. GetTunnel cfg ?n = Some t \<and> tunnelUp D cs t" by blast
  next
    assume up: "\<exists>t. GetTunnel cfg ?n = Some t \<and> tunnelUp D cs t"
    then have "\<exists>c d. newTunnelChecker L D cs cfg ?n = Inr (c, d)"
      by (auto simp: newTunnelChecker_def tunnelUp_def tunnelTypeOf_def Let_def)
    with up checker_connected show "\<exists>details. newTunnelChecker L D cs cfg ?n = Inr (True, details)" by metis
  qed
  finally show ?thesis
    using assms(2,3) False by (auto simp: checkTunnelAccess_def isOk_iff)
qed

definition vpnConfig :: Config where
  "vpnConfig = zeroConfig\<lparr>cfg_Tunnels := Some [(''vpn1'', \<lparr>tun_Type = ''wireguard'', tun_Tunnel = ''wg0'',
     tun_CheckHost = [], tun_CheckPort = 0\<rparr>)]\<rparr>"

definition vpnSite :: Site where
  "vpnSite = \<lparr>site_Environments = [(''prod'', zeroEnvironment\<lparr>env_RequiresTunnel := ''vpn1''\<rparr>)],
     site_DefaultEnv = [], site_Disabled = False\<rparr>"

lemma tunnel_gate_exact_witness:
  "isOk (checkTunnelAccess vpnConfig
      \<lparr>reg_Operations = [], reg_TunnelChecker = Some (newTunnelChecker exampleLib exampleDevices [] vpnConfig)\<rparr>
      (zeroWorkspace\<lparr>ws_Sites := [(''pg'', vpnSite)]\<rparr>) (zeroOperation\<lparr>op_Site := ''pg''\<rparr>) [(''env'', JStr ''prod'')])
    \<longleftrightarrow> zeroEnvironment\<lparr>env_RequiresTunnel := ''vpn1''\<rparr> = zeroEnvironment
    \<or> (\<exists>t. GetTunnel vpnConfig ''vpn1'' = Some t \<and> tunnelUp exampleDevices [] t)"
proof -
  let ?env = "zeroEnvironment\<lparr>env_RequiresTunnel := ''vpn1''\<rparr>"
  have "resolveEnv vpnSite ''pg'' [(''env'', JStr ''prod'')] = Inr (''prod'', ?env)" by code_simp
  from tunnel_gate_exact [of "\<lparr>reg_Operations = [], reg_TunnelChecker =
        Some (newTunnelChecker exampleLib exampleDevices [] vpnConfig)\<rparr>" exampleLib exampleDevices "[]" vpnConfig
      "zeroWorkspace\<lparr>ws_Sites := [(''pg'', vpnSite)]\<rparr>" "zeroOperation\<lparr>op_Site := ''pg''\<rparr>" vpnSite
      "[(''env'', JStr ''prod'')]" "''prod''" ?env] this
  show ?thesis by (simp add: zeroEnvironment_def)
qed

section \<open>An operation that cannot succeed\<close>

text \<open>
  The shipped \<open>wireguard.test\<close> declares its port an \<open>int\<close>, the connector wants a string: every
  request that passes validation is then told that host and port are required.
\<close>

lemma int_port_never_tested:
  assumes "ValidateParams L op ps ws = Inr u" and "mget (op_Params op) ''port'' = Some d"
    and "pd_Type d = ''int''" and "op_Method op = ''TEST''"
  shows "\<not> isOk (fst (executeLocalServiceConnector L D cfg ws op ps w))"
proof -
  have "strParam ps ''port'' = []"
  proof (cases "mget ps ''port''")
    case (Some v)
    with ValidateParams_hasType [OF assms(1,2)] assms(3) show ?thesis by (auto simp: strParam_def)
  qed (simp add: strParam_def)
  then have "atoi (strParam ps ''port'') = 0" by (simp add: atoi_def hasPrefix_def)
  then show ?thesis
    using assms(4) by (simp add: executeLocalServiceConnector_def localTest_def Let_def split: option.split)
qed

end
