(* ===== verification/EmailOp.thy ===== *)
theory EmailOp
  imports PgOp
begin

text \<open>
  Mail: the IMAP and SMTP sessions of \<open>connectors/email\<close> and \<open>executeEmailConnector\<close> of server.go
  with its allow and deny lists. The clients' calls are recorded in the world; the properties
  say which mailboxes, senders and recipients a request can reach and that a message has the
  headers the gateway gives it.
\<close>

section \<open>Patterns of a policy\<close>

text \<open>\<open>filepath.Match\<close>: a pattern is read into tokens, or is malformed.\<close>

datatype gtok = GOne | GLit char | GClass bool "(nat \<times> nat) list" | GStar

definition decodeRune :: "string \<Rightarrow> nat \<times> nat" where
  "decodeRune s =
     (let n = utf8Len s; b = (\<lambda>i. of_char (s ! i) :: nat)
      in if n = 0 then (65533, 1)
         else if n = 1 then (b 0, 1)
         else if n = 2 then (b 0 mod 32 * 64 + b 1 mod 64, 2)
         else if n = 3 then (b 0 mod 16 * 4096 + b 1 mod 64 * 64 + b 2 mod 64, 3)
         else (b 0 mod 8 * 262144 + b 1 mod 64 * 4096 + b 2 mod 64 * 64 + b 3 mod 64, 4))"

definition pathSeparator :: "bool \<Rightarrow> char" where
  "pathSeparator windows = (if windows then backslash else CHR ''/'')"

definition getEsc :: "bool \<Rightarrow> string \<Rightarrow> (nat \<times> string) option" where
  "getEsc windows chunk =
     (if chunk = [] \<or> hd chunk = CHR ''-'' \<or> hd chunk = CHR '']'' then None
      else (let chunk = (if hd chunk = backslash \<and> \<not> windows then tl chunk else chunk)
            in if chunk = [] then None
               else (let (r, n) = decodeRune chunk; nchunk = drop n chunk
                     in if r = 65533 \<and> n = 1 \<or> nchunk = [] then None else Some (r, nchunk))))"

lemma getEsc_shorter: "getEsc windows s = Some (r, t) \<Longrightarrow> length t < length s"
  by (cases s) (auto simp: getEsc_def decodeRune_def Let_def split: if_splits prod.splits)

function (sequential) parseClass ::
    "bool \<Rightarrow> string \<Rightarrow> (nat \<times> nat) list \<Rightarrow> ((nat \<times> nat) list \<times> string) option" where
  "parseClass windows chunk rs =
     (if rs \<noteq> [] \<and> chunk \<noteq> [] \<and> hd chunk = CHR '']'' then Some (rs, tl chunk)
      else (case getEsc windows chunk of
              None \<Rightarrow> None
            | Some (lo, r) \<Rightarrow>
                if hd r = CHR ''-'' then
                  (case getEsc windows (tl r) of
                     None \<Rightarrow> None
                   | Some (hi, r') \<Rightarrow> parseClass windows r' (rs @ [(lo, hi)]))
                else parseClass windows r (rs @ [(lo, lo)])))"
  by pat_completeness auto
termination
  by (relation "measure (\<lambda>(w, s, rs). length s)")
    (auto dest!: getEsc_shorter simp: less_diff_conv)

declare parseClass.simps [simp del]

lemma parseClass_shorter: "parseClass windows s rs = Some (rs', t) \<Longrightarrow> length t < length s"
proof (induction windows s rs rule: parseClass.induct)
  case (1 windows chunk rs)
  show ?case
  proof (cases "rs \<noteq> [] \<and> chunk \<noteq> [] \<and> hd chunk = CHR '']''")
    case True
    with "1.prems" have "t = tl chunk" by (simp add: parseClass.simps [of windows chunk])
    with True show ?thesis by (cases chunk) simp_all
  next
    case False
    with "1.prems" obtain lo r where r: "getEsc windows chunk = Some (lo, r)"
      by (subst (asm) parseClass.simps) (auto split: option.splits if_splits)
    show ?thesis
    proof (cases "hd r = CHR ''-''")
      case True
      with "1.prems" False r obtain hi r' where r': "getEsc windows (tl r) = Some (hi, r')"
        and rest: "parseClass windows r' (rs @ [(lo, hi)]) = Some (rs', t)"
        by (subst (asm) parseClass.simps) (auto split: option.splits)
      from "1.IH"(1) [OF False r refl True r' refl rest] getEsc_shorter [OF r] getEsc_shorter [OF r']
      show ?thesis by simp
    next
      case minus: False
      with "1.prems" False r have "parseClass windows r (rs @ [(lo, lo)]) = Some (rs', t)"
        by (subst (asm) parseClass.simps) auto
      from "1.IH"(2) [OF False r refl minus this] getEsc_shorter [OF r] show ?thesis by simp
    qed
  qed
qed

function (sequential) parseGlob :: "bool \<Rightarrow> string \<Rightarrow> gtok list option" where
  "parseGlob windows [] = Some []"
| "parseGlob windows (c # cs) =
     (if c = CHR ''*'' then map_option (Cons GStar) (parseGlob windows cs)
      else if c = CHR ''?'' then map_option (Cons GOne) (parseGlob windows cs)
      else if c = CHR ''['' then
        (let negated = cs \<noteq> [] \<and> hd cs = CHR ''^''
         in case parseClass windows (if negated then tl cs else cs) [] of
              None \<Rightarrow> None
            | Some (rs, rest) \<Rightarrow> map_option (Cons (GClass negated rs)) (parseGlob windows rest))
      else if c = backslash \<and> \<not> windows then
        (case cs of [] \<Rightarrow> None | d # ds \<Rightarrow> map_option (Cons (GLit d)) (parseGlob windows ds))
      else map_option (Cons (GLit c)) (parseGlob windows cs))"
  by pat_completeness auto
termination
  by (relation "measure (\<lambda>(w, s). length s)") (auto dest!: parseClass_shorter split: if_splits)

text \<open>A chunk, which has no star, is matched at one place; the result is what is left of the name.\<close>

fun matchChunk :: "char \<Rightarrow> gtok list \<Rightarrow> string \<Rightarrow> string option" where
  "matchChunk sep [] name = Some name"
| "matchChunk sep (t # ts) [] = None"
| "matchChunk sep (GLit d # ts) (c # cs) = (if c = d then matchChunk sep ts cs else None)"
| "matchChunk sep (GOne # ts) (c # cs) =
     (if c = sep then None else matchChunk sep ts (drop (snd (decodeRune (c # cs))) (c # cs)))"
| "matchChunk sep (GClass negated rs # ts) (c # cs) =
     (let (r, n) = decodeRune (c # cs)
      in if list_ex (\<lambda>(lo, hi). lo \<le> r \<and> r \<le> hi) rs = negated then None
         else matchChunk sep ts (drop n (c # cs)))"
| "matchChunk sep (GStar # ts) (c # cs) = None"

text \<open>After a star: the first place where the chunk matches, and to the end when it is the last one.\<close>

fun firstHit :: "char \<Rightarrow> gtok list \<Rightarrow> bool \<Rightarrow> string \<Rightarrow> string option" where
  "firstHit sep ts final [] = None"
| "firstHit sep ts final (c # cs) =
     (if c = sep then None
      else (case matchChunk sep ts cs of
              Some t \<Rightarrow> if final \<and> t \<noteq> [] then firstHit sep ts final cs else Some t
            | None \<Rightarrow> firstHit sep ts final cs))"

text \<open>The pattern cut into chunks, each with whether a star stands before it.\<close>

fun globChunks :: "bool \<Rightarrow> gtok list \<Rightarrow> gtok list \<Rightarrow> (bool \<times> gtok list) list" where
  "globChunks starred chunk [] = (if starred \<or> chunk \<noteq> [] then [(starred, chunk)] else [])"
| "globChunks starred chunk (GStar # ts) =
     (if chunk = [] then globChunks True [] ts else (starred, chunk) # globChunks True [] ts)"
| "globChunks starred chunk (t # ts) = globChunks starred (chunk @ [t]) ts"

fun matchChunks :: "char \<Rightarrow> (bool \<times> gtok list) list \<Rightarrow> string \<Rightarrow> bool" where
  "matchChunks sep [] name = (name = [])"
| "matchChunks sep ((starred, chunk) # rest) name =
     (if starred \<and> chunk = [] then \<not> List.member name sep
      else (case matchChunk sep chunk name of
              Some t \<Rightarrow> if t = [] \<or> rest \<noteq> [] then matchChunks sep rest t
                else if starred then (case firstHit sep chunk (rest = []) name of
                    None \<Rightarrow> False | Some u \<Rightarrow> matchChunks sep rest u) else False
            | None \<Rightarrow> if starred then (case firstHit sep chunk (rest = []) name of
                    None \<Rightarrow> False | Some u \<Rightarrow> matchChunks sep rest u) else False))"

definition filepathMatch :: "bool \<Rightarrow> string \<Rightarrow> string \<Rightarrow> bool" where
  "filepathMatch windows pat name =
     (case parseGlob windows pat of
        None \<Rightarrow> False
      | Some toks \<Rightarrow> matchChunks (pathSeparator windows) (globChunks False [] toks) name)"

definition matchPolicyPattern :: "golib \<Rightarrow> bool \<Rightarrow> string \<Rightarrow> string \<Rightarrow> bool" where
  "matchPolicyPattern L windows val pat =
     (if \<not> List.member pat (CHR ''*'') \<and> \<not> List.member pat (CHR ''?'') then equalFold L val pat
      else filepathMatch windows (toLower L pat) (toLower L val))"

definition denyResource :: "golib \<Rightarrow> bool \<Rightarrow> string \<Rightarrow> string list \<Rightarrow> string list \<Rightarrow> bool" where
  "denyResource L windows val denied allowed =
     (if list_ex (matchPolicyPattern L windows val) denied then True
      else if allowed = [] then False
      else \<not> list_ex (matchPolicyPattern L windows val) allowed)"

section \<open>Addresses\<close>

definition formatAddress :: "imapAddress \<Rightarrow> string" where
  "formatAddress a =
     (if ia_MailboxName a \<noteq> [] \<and> ia_HostName a \<noteq> [] then ia_MailboxName a @ ''@'' @ ia_HostName a
      else if ia_MailboxName a \<noteq> [] then ia_MailboxName a else [])"

definition formatAddresses :: "imapAddress list \<Rightarrow> string" where
  "formatAddresses addrs = join ''; '' (map formatAddress addrs)"

definition joinAddresses :: "imapAddress list \<Rightarrow> string" where
  "joinAddresses addrs = join '' '' (map (\<lambda>a. ia_MailboxName a @ ''@'' @ ia_HostName a) addrs)"

definition containsSubstr :: "string \<Rightarrow> string \<Rightarrow> bool" where
  "containsSubstr s substr =
     (if substr = [] then True else strContains (map asciiUpper s) (map asciiUpper substr))"

section \<open>IMAP\<close>

datatype emailError =
    DialImap string
  | ImapCapabilityError string
  | ImapStartTLSError string
  | ImapLoginError string
  | ListingMailboxes string
  | Selecting string string
  | MessageNotFound nat
  | ReadingBody string
  | ControlCharacters string
  | InvalidRecipient string
  | NotBareAddress
  | SmtpDialError string
  | SmtpClientError string
  | SmtpAuthError string
  | MailFrom string
  | RcptTo string
  | DataError string
  | WriteError string
  | EndDataError string
  | SendMailError string
  | SmtpStartTLSError string
  | EmailSite string
  | EmailEnv envError
  | EmailSecret secretError
  | MailboxDenied string
  | UidRequired
  | SenderDenied string
  | ToRequired
  | RecipientDenied string
  | UnknownEmailOp string

text \<open>A call whose failure is the failure of the whole; \<open>after\<close> is what is called before giving up.\<close>

definition tryCall ::
    "devices \<Rightarrow> devcall \<Rightarrow> (string \<Rightarrow> emailError) \<Rightarrow> devcall list \<Rightarrow> 's world \<Rightarrow> (emailError + unit) \<times> 's world" where
  "tryCall D c err after w =
     (case devCall D c w of
        (Some e, w) \<Rightarrow> (Inl (err e), fold record_call after w)
      | (None, w) \<Rightarrow> (Inr (), w))"

definition andThen ::
    "('e + 'a) \<times> 's world \<Rightarrow> ('a \<Rightarrow> 's world \<Rightarrow> ('e + 'b) \<times> 's world) \<Rightarrow> ('e + 'b) \<times> 's world" where
  "andThen r f = (case r of (Inl e, w) \<Rightarrow> (Inl e, w) | (Inr x, w) \<Rightarrow> f x w)"

definition dialImap :: "devices \<Rightarrow> EmailConfig \<Rightarrow> 's world \<Rightarrow> (emailError + unit) \<times> 's world" where
  "dialImap D cfg w =
     andThen (tryCall D (ImapDial (em_ImapTLS cfg) (em_ImapHost cfg) (em_ImapPort cfg)) DialImap [] w) (\<lambda>_ w.
     andThen (if em_ImapTLS cfg then (Inr (), w)
       else andThen (tryCall D ImapCapability ImapCapabilityError [ImapTerminate] w) (\<lambda>_ w.
         if dv_startTLS D (w_calls w)
         then tryCall D (ImapStartTLS (em_ImapHost cfg)) ImapStartTLSError [ImapTerminate] w
         else (Inr (), w))) (\<lambda>_ w.
     tryCall D (ImapLogin (em_User cfg) (em_Password cfg)) ImapLoginError [ImapLogout] w))"

text \<open>Every session ends with a logout once it is open.\<close>

definition imapSession ::
    "devices \<Rightarrow> EmailConfig \<Rightarrow> 's world \<Rightarrow> ('s world \<Rightarrow> (emailError + 'a) \<times> 's world) \<Rightarrow> (emailError + 'a) \<times> 's world" where
  "imapSession D cfg w body =
     andThen (dialImap D cfg w) (\<lambda>_ w. let (res, w) = body w in (res, record_call ImapLogout w))"

definition jsonStrings :: "string list option \<Rightarrow> json" where
  "jsonStrings xs = (case xs of None \<Rightarrow> JNull | Some ss \<Rightarrow> JArr (map JStr ss))"

definition ListMailboxes :: "devices \<Rightarrow> EmailConfig \<Rightarrow> 's world \<Rightarrow> (emailError + params list) \<times> 's world" where
  "ListMailboxes D cfg w =
     imapSession D cfg w (\<lambda>w.
       let boxes = map (\<lambda>(name, attrs). [(''name'', JStr name), (''attrs'', jsonStrings attrs)])
             (dv_imapList D (w_calls w))
       in andThen (tryCall D ImapListAll ListingMailboxes [] w) (\<lambda>_ w. (Inr boxes, w)))"

definition searchEntry :: "imapMessage option \<Rightarrow> string \<Rightarrow> params option" where
  "searchEntry msg criteria =
     (case msg of
        None \<Rightarrow> None
      | Some m \<Rightarrow>
          if \<not> im_HasEnvelope m then None
          else if criteria \<noteq> [] \<and> \<not> containsSubstr
              (im_Subject m @ '' '' @ joinAddresses (im_From m) @ '' '' @ joinAddresses (im_Sender m)) criteria
          then None
          else Some [(''uid'', JInt (int (im_Uid m))), (''seq'', JInt (int (im_SeqNum m))),
            (''date'', JStr (im_Date m)), (''subject'', JStr (im_Subject m)),
            (''from'', JStr (formatAddresses (im_From m))), (''to'', JStr (formatAddresses (im_To m))),
            (''flags'', jsonStrings (im_Flags m))])"

text \<open>The last fifty messages of a mailbox. The error of the fetch is not looked at.\<close>

definition Search :: "devices \<Rightarrow> EmailConfig \<Rightarrow> string \<Rightarrow> string \<Rightarrow> 's world \<Rightarrow> (emailError + params list) \<times> 's world" where
  "Search D cfg mailbox criteria w =
     imapSession D cfg w (\<lambda>w.
       andThen (tryCall D (ImapSelect mailbox) (Selecting mailbox) [] w) (\<lambda>_ w.
         let n = dv_imapMessages D (w_calls w)
         in if n = 0 then (Inr [], w)
            else (let c = ImapFetch (if 50 < n then n - 49 else 1) n;
                      messages = dv_imapFetch D (w_calls w) c
                  in (Inr (List.map_filter (\<lambda>m. searchEntry m criteria) messages), record_call c w))))"

definition maxBodyBytes :: nat where
  "maxBodyBytes = 10 * 2 ^ 20"

text \<open>The body of a message, cut at the limit, and whether it was cut; the error of a read counts only before.\<close>

definition readBody :: "string \<times> string option \<Rightarrow> nat \<Rightarrow> string \<times> bool \<times> string option" where
  "readBody r limit =
     (if limit < length (fst r) then (take limit (fst r), True, None) else (fst r, False, snd r))"

definition bodyFields :: "(string \<times> string option) list \<Rightarrow> emailError + params" where
  "bodyFields sections =
     (case sections of
        [] \<Rightarrow> Inr []
      | literal # _ \<Rightarrow>
          (case readBody literal maxBodyBytes of
             (_, _, Some e) \<Rightarrow> Inl (ReadingBody e)
           | (body, truncated, None) \<Rightarrow>
               Inr ((''body'', JStr body) # (if truncated then [(''body_truncated'', JBool True)] else []))))"

definition ReadMessage :: "devices \<Rightarrow> EmailConfig \<Rightarrow> string \<Rightarrow> nat \<Rightarrow> 's world \<Rightarrow> (emailError + params) \<times> 's world" where
  "ReadMessage D cfg mailbox uid w =
     imapSession D cfg w (\<lambda>w.
       andThen (tryCall D (ImapSelect mailbox) (Selecting mailbox) [] w) (\<lambda>_ w.
         let c = ImapUidFetch uid; messages = dv_imapFetch D (w_calls w) c; w = record_call c w
         in case messages of
              Some m # _ \<Rightarrow>
                if \<not> im_HasEnvelope m then (Inl (MessageNotFound uid), w)
                else (rbind (bodyFields (im_Body m)) (\<lambda>body. Inr
                  ([(''uid'', JInt (int (im_Uid m))), (''seq'', JInt (int (im_SeqNum m))),
                    (''subject'', JStr (im_Subject m)), (''from'', JStr (formatAddresses (im_From m))),
                    (''to'', JStr (formatAddresses (im_To m))), (''cc'', JStr (formatAddresses (im_Cc m))),
                    (''date'', JStr (im_Date m)), (''flags'', jsonStrings (im_Flags m))] @ body)), w)
            | _ \<Rightarrow> (Inl (MessageNotFound uid), w)))"

section \<open>SMTP\<close>

text \<open>Whether a text holds a control character other than a tab; invalid UTF-8 is none.\<close>

function hasControl :: "string \<Rightarrow> bool" where
  "hasControl [] = False"
| "hasControl (c # cs) =
     (let (r, n) = decodeRune (c # cs)
      in r \<noteq> 9 \<and> (r < 32 \<or> 127 \<le> r \<and> r < 160) \<or> hasControl (drop (max 1 n) (c # cs)))"
  by pat_completeness auto
termination
  by (relation "measure length") auto

declare hasControl.simps(2) [simp del]

definition checkHeaderValue :: "string \<Rightarrow> string \<Rightarrow> emailError + unit" where
  "checkHeaderValue name v = ensure (\<not> hasControl v) (ControlCharacters name)"

definition ParseRecipient :: "devices \<Rightarrow> string \<Rightarrow> emailError + string" where
  "ParseRecipient D rcpt =
     rbind (checkHeaderValue ''recipient'' rcpt) (\<lambda>_.
     let trimmed = trimSpace rcpt
     in rbind (mapErr InvalidRecipient (dv_parseAddress D trimmed)) (\<lambda>address.
        if address \<noteq> trimmed then Inl NotBareAddress else Inr address))"

definition buildMessage :: "devices \<Rightarrow> string \<Rightarrow> string \<Rightarrow> string \<Rightarrow> string \<Rightarrow> string" where
  "buildMessage D sender rcpt subject body =
     ''From: '' @ sender @ crlf @ ''To: '' @ rcpt @ crlf @ ''Subject: '' @ dv_qEncode D subject @ crlf
     @ ''Date: '' @ dv_date D @ crlf @ ''MIME-Version: 1.0'' @ crlf
     @ ''Content-Type: text/plain; charset='' @ [CHR 0x22] @ ''UTF-8'' @ [CHR 0x22] @ crlf
     @ crlf @ body @ crlf"

definition sendPlain :: "devices \<Rightarrow> EmailConfig \<Rightarrow> string \<Rightarrow> string \<Rightarrow> string \<Rightarrow> 's world \<Rightarrow> (emailError + unit) \<times> 's world" where
  "sendPlain D cfg rcpt subject body w =
     tryCall D (SmtpSendMail (em_SmtpHost cfg) (em_SmtpPort cfg) (em_User cfg) (em_Password cfg)
       (em_User cfg) rcpt (buildMessage D (em_User cfg) rcpt subject body)) SendMailError [] w"

definition sendTLS :: "devices \<Rightarrow> EmailConfig \<Rightarrow> string \<Rightarrow> string \<Rightarrow> string \<Rightarrow> 's world \<Rightarrow> (emailError + unit) \<times> 's world" where
  "sendTLS D cfg rcpt subject body w =
     andThen (tryCall D (SmtpDial True (em_SmtpHost cfg) (em_SmtpPort cfg)) SmtpDialError [] w) (\<lambda>_ w.
     andThen (tryCall D (SmtpClient (em_SmtpHost cfg)) SmtpClientError [] w) (\<lambda>_ w.
     let (res, w) =
       andThen (tryCall D (SmtpAuth (em_User cfg) (em_Password cfg) (em_SmtpHost cfg)) SmtpAuthError [] w) (\<lambda>_ w.
       andThen (tryCall D (SmtpMail (em_User cfg)) MailFrom [] w) (\<lambda>_ w.
       andThen (tryCall D (SmtpRcpt rcpt) RcptTo [] w) (\<lambda>_ w.
       andThen (tryCall D SmtpData DataError [] w) (\<lambda>_ w.
       andThen (tryCall D (SmtpWrite (buildMessage D (em_User cfg) rcpt subject body)) WriteError [] w) (\<lambda>_ w.
       tryCall D SmtpEndData EndDataError [] w)))))
     in (res, record_call SmtpClose w)))"

definition Send :: "devices \<Rightarrow> EmailConfig \<Rightarrow> string \<Rightarrow> string \<Rightarrow> string \<Rightarrow> 's world \<Rightarrow> (emailError + unit) \<times> 's world" where
  "Send D cfg rcpt subject body w =
     (case rbind (ParseRecipient D rcpt) (\<lambda>rcpt.
           rbind (checkHeaderValue ''subject'' subject) (\<lambda>_.
           rbind (checkHeaderValue ''from'' (em_User cfg)) (\<lambda>_. Inr rcpt))) of
        Inl e \<Rightarrow> (Inl e, w)
      | Inr rcpt \<Rightarrow>
          if em_SmtpTLS cfg then sendTLS D cfg rcpt subject body w
          else sendPlain D cfg rcpt subject body w)"

definition VerifySMTP :: "devices \<Rightarrow> EmailConfig \<Rightarrow> 's world \<Rightarrow> (emailError + string) \<times> 's world" where
  "VerifySMTP D cfg w =
     andThen (tryCall D (SmtpDial False (em_SmtpHost cfg) (em_SmtpPort cfg)) SmtpDialError [] w) (\<lambda>_ w.
     andThen (tryCall D (SmtpClient (em_SmtpHost cfg)) SmtpClientError [SmtpClose] w) (\<lambda>_ w.
     let (res, w) =
       andThen (if em_SmtpTLS cfg then tryCall D (SmtpStartTLS (em_SmtpHost cfg)) SmtpStartTLSError [] w
         else (Inr (), w)) (\<lambda>_ w.
       andThen (tryCall D (SmtpAuth (em_User cfg) (em_Password cfg) (em_SmtpHost cfg)) SmtpAuthError [] w)
         (\<lambda>_ w. (Inr ''ok'', w)))
     in (res, record_call SmtpClose w)))"

section \<open>The operation\<close>

definition emailConfig :: "Environment \<Rightarrow> string \<Rightarrow> EmailConfig" where
  "emailConfig env secret =
     \<lparr>em_ImapHost = (if env_Host env = [] then env_ImapHost env else env_Host env),
      em_ImapPort = (if env_ImapPort env = 0 then 993 else env_ImapPort env), em_ImapTLS = True,
      em_SmtpHost = (if env_SmtpHost env = [] then env_Host env else env_SmtpHost env),
      em_SmtpPort = (if env_SmtpPort env = 0 then 587 else env_SmtpPort env), em_SmtpTLS = True,
      em_User = env_User env, em_Password = secret\<rparr>"

text \<open>What follows the first dot of the id, or all of it.\<close>

definition emailAction :: "string \<Rightarrow> string" where
  "emailAction opID =
     (case cutAt (CHR ''.'') opID of Some (_, b) \<Rightarrow> if b \<noteq> [] then b else opID | None \<Rightarrow> opID)"

definition filterMailboxes ::
    "golib \<Rightarrow> bool \<Rightarrow> params list \<Rightarrow> string list \<Rightarrow> string list \<Rightarrow> params list" where
  "filterMailboxes L windows mboxes allowed denied =
     filter (\<lambda>m. \<not> denyResource L windows (strParam m ''name'') denied allowed) mboxes"

definition filterMessagesByFrom ::
    "golib \<Rightarrow> bool \<Rightarrow> params list \<Rightarrow> string list \<Rightarrow> string list \<Rightarrow> params list" where
  "filterMessagesByFrom L windows msgs allowed denied =
     (if allowed = [] \<and> denied = [] then msgs
      else filter (\<lambda>m. \<not> denyResource L windows (strParam m ''from'') denied allowed) msgs)"

definition denyMessageByFrom ::
    "golib \<Rightarrow> bool \<Rightarrow> params \<Rightarrow> string list \<Rightarrow> string list \<Rightarrow> bool" where
  "denyMessageByFrom L windows msg allowed denied = denyResource L windows (strParam msg ''from'') denied allowed"

text \<open>\<open>uint32(f)\<close> on a 64-bit processor: by way of an \<open>int64\<close>, its low half kept.\<close>

fun truncFloat :: "float64 \<Rightarrow> int" where
  "truncFloat (Dyadic m e) = (if 0 \<le> e then m * 2 ^ nat e else sgn m * (\<bar>m\<bar> div 2 ^ nat (- e)))"

definition toUint32 :: "golib \<Rightarrow> float64 \<Rightarrow> nat" where
  "toUint32 L f =
     (let t = truncFloat f
      in nat ((if - (2 ^ 63) \<le> t \<and> t < 2 ^ 63 then t else lib_int64 L f) mod 2 ^ 32))"

text \<open>A list that is nil when it is empty.\<close>

definition nilList :: "params list \<Rightarrow> json" where
  "nilList ms = (if ms = [] then JNull else JArr (map JObj ms))"

definition mailboxParam :: "params \<Rightarrow> string" where
  "mailboxParam ps = (let m = strParam ps ''mailbox'' in if m = [] then ''INBOX'' else m)"

definition emailRead ::
    "golib \<Rightarrow> devices \<Rightarrow> WorkspacePolicy \<Rightarrow> params \<Rightarrow> EmailConfig \<Rightarrow> 's world \<Rightarrow> (emailError + json) \<times> 's world" where
  "emailRead L D p ps cfg w =
     (if denyResource L (dv_windows D) (mailboxParam ps) (wp_EmailDeniedMailboxes p) (wp_EmailAllowedMailboxes p)
      then (Inl (MailboxDenied (mailboxParam ps)), w)
      else (case mget ps ''uid'' of
              Some (JNum f) \<Rightarrow>
                andThen (ReadMessage D cfg (mailboxParam ps) (toUint32 L f) w) (\<lambda>msg w.
                if denyMessageByFrom L (dv_windows D) msg (wp_EmailAllowedSenders p) (wp_EmailDeniedSenders p)
                then (Inl (SenderDenied (strParam msg ''from'')), w) else (Inr (JObj msg), w))
            | _ \<Rightarrow> (Inl UidRequired, w)))"

definition emailSearch ::
    "golib \<Rightarrow> devices \<Rightarrow> WorkspacePolicy \<Rightarrow> params \<Rightarrow> EmailConfig \<Rightarrow> 's world \<Rightarrow> (emailError + json) \<times> 's world" where
  "emailSearch L D p ps cfg w =
     (if denyResource L (dv_windows D) (mailboxParam ps) (wp_EmailDeniedMailboxes p) (wp_EmailAllowedMailboxes p)
      then (Inl (MailboxDenied (mailboxParam ps)), w)
      else andThen (Search D cfg (mailboxParam ps) (strParam ps ''criteria'') w) (\<lambda>messages w.
        (Inr (JObj [(''messages'', nilList (filterMessagesByFrom L (dv_windows D) messages
           (wp_EmailAllowedSenders p) (wp_EmailDeniedSenders p)))]), w)))"

definition emailSend ::
    "golib \<Rightarrow> devices \<Rightarrow> WorkspacePolicy \<Rightarrow> params \<Rightarrow> EmailConfig \<Rightarrow> 's world \<Rightarrow> (emailError + json) \<times> 's world" where
  "emailSend L D p ps cfg w =
     (if strParam ps ''to'' = [] then (Inl ToRequired, w)
      else (case ParseRecipient D (strParam ps ''to'') of
              Inl e \<Rightarrow> (Inl e, w)
            | Inr rcpt \<Rightarrow>
                if denyResource L (dv_windows D) rcpt (wp_EmailDeniedSenders p) (wp_EmailAllowedSenders p)
                then (Inl (RecipientDenied rcpt), w)
                else andThen (Send D cfg rcpt (strParam ps ''subject'') (strParam ps ''body'') w) (\<lambda>_ w.
                  (Inr (JObj [(''status'', JStr ''sent''), (''to'', JStr rcpt)]), w))))"

definition emailDispatch ::
    "golib \<Rightarrow> devices \<Rightarrow> WorkspacePolicy \<Rightarrow> Operation \<Rightarrow> params \<Rightarrow> EmailConfig \<Rightarrow> 's world \<Rightarrow> (emailError + json) \<times> 's world" where
  "emailDispatch L D p op ps cfg w =
     (let action = emailAction (op_ID op)
      in if action = ''list_mailboxes'' then
           andThen (ListMailboxes D cfg w) (\<lambda>mboxes w.
             (Inr (JObj [(''mailboxes'', nilList (filterMailboxes L (dv_windows D) mboxes
                (wp_EmailAllowedMailboxes p) (wp_EmailDeniedMailboxes p)))]), w))
         else if action = ''search'' then emailSearch L D p ps cfg w
         else if action = ''read'' then emailRead L D p ps cfg w
         else if action = ''send'' then emailSend L D p ps cfg w
         else (Inl (UnknownEmailOp (op_ID op)), w))"

definition emailTarget :: "Workspace \<Rightarrow> Operation \<Rightarrow> params \<Rightarrow> emailError + Environment" where
  "emailTarget ws op ps =
     (case mget (ws_Sites ws) (op_Site op) of
        None \<Rightarrow> Inl (EmailSite (op_Site op))
      | Some site \<Rightarrow> rbind (mapErr EmailEnv (resolveEnv site (op_Site op) ps)) (\<lambda>(_, env). Inr env))"

definition executeEmailConnector ::
    "golib \<Rightarrow> upstream \<Rightarrow> devices \<Rightarrow> Workspace \<Rightarrow> Operation \<Rightarrow> params \<Rightarrow> string \<Rightarrow> 's world
       \<Rightarrow> (emailError + (int \<times> string)) \<times> 's world" where
  "executeEmailConnector L U D ws op ps workspace w =
     (case emailTarget ws op ps of
        Inl e \<Rightarrow> (Inl e, w)
      | Inr env \<Rightarrow>
          (case resolveRef L U (env_SecretRef env) workspace w of
             (Inl e, w) \<Rightarrow> (Inl (EmailSecret e), w)
           | (Inr secret, w) \<Rightarrow>
               andThen (emailDispatch L D (ws_Policy ws) op ps (emailConfig env secret) w) (\<lambda>result w.
                 (Inr (200, encodeJson L result), w))))"

section \<open>What a request can reach\<close>

definition callsOnly :: "(devcall \<Rightarrow> bool) \<Rightarrow> 's world \<Rightarrow> 's world \<Rightarrow> bool" where
  "callsOnly P w w' \<longleftrightarrow> w_sent w' = w_sent w
     \<and> (\<exists>new. w_calls w' = w_calls w @ new \<and> (\<forall>c\<in>set new. P c))"

lemma callsOnly_refl [simp]: "callsOnly P w w"
  by (auto simp: callsOnly_def)

lemma callsOnly_trans: "callsOnly P w v \<Longrightarrow> callsOnly P v u \<Longrightarrow> callsOnly P w u"
  unfolding callsOnly_def by (metis (no_types, lifting) Un_iff append.assoc set_append)

lemma callsOnly_record: "callsOnly P w v \<Longrightarrow> P c \<Longrightarrow> callsOnly P w (record_call c v)"
  unfolding callsOnly_def by force

lemma callsOnly_fold: "callsOnly P w v \<Longrightarrow> \<forall>c\<in>set cs. P c \<Longrightarrow> callsOnly P w (fold record_call cs v)"
  by (induction cs arbitrary: v) (auto intro: callsOnly_record)

lemma callsOnly_tryCall:
  "P c \<Longrightarrow> \<forall>a\<in>set after. P a \<Longrightarrow> callsOnly P w (snd (tryCall D c err after w))"
  by (auto simp: tryCall_def devCall_def intro!: callsOnly_fold callsOnly_record split: option.split)

lemma callsOnly_andThen:
  assumes "callsOnly P w (snd r)" and "\<And>x v. r = (Inr x, v) \<Longrightarrow> callsOnly P v (snd (f x v))"
  shows "callsOnly P w (snd (andThen r f))"
  using assms by (auto simp: andThen_def intro: callsOnly_trans split: prod.split sum.split)

lemma callsOnly_let:
  "callsOnly P w (snd r) \<Longrightarrow> P c \<Longrightarrow> callsOnly P w (snd (case r of (res, v) \<Rightarrow> (res, record_call c v)))"
  by (simp add: split_beta callsOnly_record)

lemmas calls_intros = callsOnly_refl callsOnly_tryCall callsOnly_andThen callsOnly_let

text \<open>
  The calls a request may cause: to the servers of its environment, as its user, and in its own
  session only what its action needs, on a mailbox or to a recipient that the policy lets pass.
\<close>

definition mailCall ::
    "golib \<Rightarrow> devices \<Rightarrow> WorkspacePolicy \<Rightarrow> string \<Rightarrow> params \<Rightarrow> EmailConfig \<Rightarrow> devcall \<Rightarrow> bool" where
  "mailCall L D p action ps cfg c =
     (let mailboxOK = (\<lambda>m. m = mailboxParam ps
            \<and> \<not> denyResource L (dv_windows D) m (wp_EmailDeniedMailboxes p) (wp_EmailAllowedMailboxes p));
          rcptOK = (\<lambda>t. t = trimSpace (strParam ps ''to'') \<and> \<not> hasControl t
            \<and> \<not> denyResource L (dv_windows D) t (wp_EmailDeniedSenders p) (wp_EmailAllowedSenders p))
      in case c of
           ImapDial tls host port \<Rightarrow> action \<noteq> ''send'' \<and> tls \<and> host = em_ImapHost cfg \<and> port = em_ImapPort cfg
         | ImapLogin user password \<Rightarrow> user = em_User cfg \<and> password = em_Password cfg
         | ImapLogout \<Rightarrow> True
         | ImapListAll \<Rightarrow> action = ''list_mailboxes''
         | ImapSelect m \<Rightarrow> mailboxOK m
         | ImapFetch lo hi \<Rightarrow> action = ''search'' \<and> hi < lo + 50
         | ImapUidFetch uid \<Rightarrow> action = ''read''
         | SmtpDial tls host port \<Rightarrow> action = ''send'' \<and> tls \<and> host = em_SmtpHost cfg \<and> port = em_SmtpPort cfg
         | SmtpClient host \<Rightarrow> host = em_SmtpHost cfg
         | SmtpAuth user password host \<Rightarrow> user = em_User cfg \<and> password = em_Password cfg \<and> host = em_SmtpHost cfg
         | SmtpMail sender \<Rightarrow> sender = em_User cfg
         | SmtpRcpt rcpt \<Rightarrow> rcptOK rcpt
         | SmtpData \<Rightarrow> action = ''send''
         | SmtpWrite msg \<Rightarrow> (\<exists>rcpt. rcptOK rcpt \<and> \<not> hasControl (em_User cfg)
             \<and> msg = buildMessage D (em_User cfg) rcpt (strParam ps ''subject'') (strParam ps ''body''))
         | SmtpEndData \<Rightarrow> action = ''send''
         | SmtpClose \<Rightarrow> True
         | _ \<Rightarrow> False)"

definition tlsBoth :: "EmailConfig \<Rightarrow> bool" where
  "tlsBoth cfg \<longleftrightarrow> em_ImapTLS cfg \<and> em_SmtpTLS cfg"

lemma calls_imapSession:
  assumes "tlsBoth cfg" and "action \<noteq> ''send''"
    and "\<And>v. callsOnly (mailCall L D p action ps cfg) v (snd (body v))"
  shows "callsOnly (mailCall L D p action ps cfg) w (snd (imapSession D cfg w body))"
  unfolding imapSession_def dialImap_def
  using assms by (auto intro!: calls_intros simp: mailCall_def tlsBoth_def)

lemma calls_ListMailboxes:
  assumes "tlsBoth cfg" and "action = ''list_mailboxes''"
  shows "callsOnly (mailCall L D p action ps cfg) w (snd (ListMailboxes D cfg w))"
  unfolding ListMailboxes_def Let_def
  by (rule calls_imapSession [OF assms(1)])
    (use assms(2) in \<open>auto intro!: calls_intros simp: mailCall_def\<close>)

lemma calls_Search:
  assumes "tlsBoth cfg" and "action = ''search''"
    and "\<not> denyResource L (dv_windows D) (mailboxParam ps) (wp_EmailDeniedMailboxes p) (wp_EmailAllowedMailboxes p)"
  shows "callsOnly (mailCall L D p action ps cfg) w (snd (Search D cfg (mailboxParam ps) criteria w))"
  unfolding Search_def Let_def
  by (rule calls_imapSession [OF assms(1)])
    (use assms(2,3) in \<open>auto intro!: calls_intros callsOnly_record simp: mailCall_def\<close>)

lemma calls_ReadMessage:
  assumes "tlsBoth cfg" and "action = ''read''"
    and "\<not> denyResource L (dv_windows D) (mailboxParam ps) (wp_EmailDeniedMailboxes p) (wp_EmailAllowedMailboxes p)"
  shows "callsOnly (mailCall L D p action ps cfg) w (snd (ReadMessage D cfg (mailboxParam ps) uid w))"
  unfolding ReadMessage_def Let_def
  by (rule calls_imapSession [OF assms(1)])
    (use assms(2,3) in \<open>auto intro!: calls_intros callsOnly_record simp: mailCall_def
      split: list.split option.split\<close>)

lemma ParseRecipient_bare:
  "ParseRecipient D s = Inr a \<Longrightarrow> a = trimSpace s \<and> \<not> hasControl s"
  by (auto simp: ParseRecipient_def checkHeaderValue_def rbind_Inr_iff Let_def split: if_splits)

lemma calls_Send:
  assumes "tlsBoth cfg" and "action = ''send''" and "rcpt = trimSpace (strParam ps ''to'')"
    and "\<not> denyResource L (dv_windows D) rcpt (wp_EmailDeniedSenders p) (wp_EmailAllowedSenders p)"
  shows "callsOnly (mailCall L D p action ps cfg) w
    (snd (Send D cfg rcpt (strParam ps ''subject'') (strParam ps ''body'') w))"
proof (cases "rbind (ParseRecipient D rcpt) (\<lambda>rcpt. rbind (checkHeaderValue ''subject'' (strParam ps ''subject''))
    (\<lambda>_. rbind (checkHeaderValue ''from'' (em_User cfg)) (\<lambda>_. Inr rcpt)))")
  case (Inl e)
  then show ?thesis by (simp add: Send_def)
next
  case (Inr r)
  then have "ParseRecipient D rcpt = Inr r" and u: "\<not> hasControl (em_User cfg)"
    by (auto simp: rbind_Inr_iff checkHeaderValue_def)
  then have r: "r = rcpt" "\<not> hasControl rcpt"
    using ParseRecipient_bare [of D rcpt r] by (simp_all add: assms(3) trimSpace_idem)
  have "callsOnly (mailCall L D p action ps cfg) w
      (snd (sendTLS D cfg rcpt (strParam ps ''subject'') (strParam ps ''body'') w))"
    unfolding sendTLS_def
    using assms r u by (auto intro!: calls_intros simp: mailCall_def tlsBoth_def)
  with Inr r assms(1) show ?thesis by (simp add: Send_def tlsBoth_def)
qed

lemma tlsBoth_emailConfig: "tlsBoth (emailConfig env secret)"
  by (simp add: tlsBoth_def emailConfig_def)

lemma calls_emailDispatch:
  assumes "tlsBoth cfg"
  shows "callsOnly (mailCall L D p (emailAction (op_ID op)) ps cfg) w (snd (emailDispatch L D p op ps cfg w))"
proof -
  let ?a = "emailAction (op_ID op)"
  consider (l) "?a = ''list_mailboxes''" | (s) "?a = ''search''" | (r) "?a = ''read''" | (t) "?a = ''send''"
    | (other) "?a \<notin> {''list_mailboxes'', ''search'', ''read'', ''send''}" by blast
  then show ?thesis
  proof cases
    case l
    then show ?thesis
      by (simp add: emailDispatch_def callsOnly_andThen calls_ListMailboxes [OF assms])
  next
    case s
    then show ?thesis
      by (auto simp: emailDispatch_def emailSearch_def intro!: callsOnly_andThen calls_Search [OF assms])
  next
    case r
    then show ?thesis
      by (auto simp: emailDispatch_def emailRead_def intro!: callsOnly_andThen calls_ReadMessage [OF assms]
          split: option.split json.split)
  next
    case t
    then show ?thesis
      by (auto simp: emailDispatch_def emailSend_def dest!: ParseRecipient_bare
          intro!: callsOnly_andThen calls_Send [OF assms] split: sum.split)
  qed (simp add: emailDispatch_def)
qed

lemma mail_calls:
  assumes "executeEmailConnector L U D ws op ps workspace w = (res, w')"
  shows "w_sent w' = w_sent w \<and> (\<exists>new. w_calls w' = w_calls w @ new \<and> (\<forall>c\<in>set new. \<exists>env secret.
    emailTarget ws op ps = Inr env \<and> fst (resolveRef L U (env_SecretRef env) workspace w) = Inr secret
    \<and> mailCall L D (ws_Policy ws) (emailAction (op_ID op)) ps (emailConfig env secret) c))"
proof (cases "emailTarget ws op ps")
  case (Inl e)
  with assms show ?thesis by (simp add: executeEmailConnector_def)
next
  case (Inr env)
  obtain r v where r: "resolveRef L U (env_SecretRef env) workspace w = (r, v)" by fastforce
  note v = resolveRef_keeps [OF r]
  show ?thesis
  proof (cases r)
    case (Inl e)
    with assms \<open>emailTarget ws op ps = Inr env\<close> r v show ?thesis
      by (auto simp: executeEmailConnector_def)
  next
    case secret: (Inr secret)
    let ?P = "mailCall L D (ws_Policy ws) (emailAction (op_ID op)) ps (emailConfig env secret)"
    have "callsOnly ?P v (snd (emailDispatch L D (ws_Policy ws) op ps (emailConfig env secret) v))"
      by (rule calls_emailDispatch [OF tlsBoth_emailConfig])
    then have "callsOnly ?P v w'"
      using assms Inr r secret
      by (auto simp: executeEmailConnector_def andThen_def split: prod.splits sum.splits)
    with Inr r secret v show ?thesis by (auto simp: callsOnly_def)
  qed
qed

text \<open>C28: A mail operation reaches only what it may: it connects, over TLS, to the servers of the
  environment the request selects, logs in as that environment's user with the workspace's own
  secret, opens only the mailbox it names and only when the policy does not deny it, and mails
  only the one bare address it names and only when the policy does not deny that. Other
  actions send nothing, and no HTTP request leaves.\<close>

theorem mail_session_confined:
  assumes "executeEmailConnector L U D ws op ps workspace w = (res, w')"
  shows "w_sent w' = w_sent w \<and> (\<exists>new. w_calls w' = w_calls w @ new \<and> (\<forall>c\<in>set new. \<exists>env secret.
    emailTarget ws op ps = Inr env \<and> fst (resolveRef L U (env_SecretRef env) workspace w) = Inr secret
    \<and> mailCall L D (ws_Policy ws) (emailAction (op_ID op)) ps (emailConfig env secret) c))"
  using assms by (rule mail_calls)

definition mailSpace :: Workspace where
  "mailSpace = zeroWorkspace\<lparr>ws_Sites := [(''mail'', \<lparr>site_Environments =
     [(''prod'', zeroEnvironment\<lparr>env_Host := ''mx'', env_User := ''bot@acme'',
        env_SecretRef := ''secret://acme/jira''\<rparr>)],
     site_DefaultEnv = [], site_Disabled = False\<rparr>)]\<rparr>"

definition mailOp :: Operation where
  "mailOp = zeroOperation\<lparr>op_ID := ''mail.send'', op_Connector := ''email'', op_Site := ''mail''\<rparr>"

definition mailParams :: params where
  "mailParams = [(''to'', JStr ''a@b''), (''subject'', JStr ''hi''), (''body'', JStr ''text'')]"

abbreviation mailRun where
  "mailRun \<equiv> executeEmailConnector exampleLib exampleUpstream exampleDevices mailSpace mailOp mailParams ''acme'' exampleWorld"

lemma mail_session_confined_witness:
  "isOk (emailTarget mailSpace mailOp mailParams) \<and> w_sent (snd mailRun) = w_sent exampleWorld
    \<and> (\<exists>new. w_calls (snd mailRun) = w_calls exampleWorld @ new \<and> (\<forall>c\<in>set new. \<exists>env secret.
      emailTarget mailSpace mailOp mailParams = Inr env
      \<and> fst (resolveRef exampleLib exampleUpstream (env_SecretRef env) ''acme'' exampleWorld) = Inr secret
      \<and> mailCall exampleLib exampleDevices (ws_Policy mailSpace) (emailAction (op_ID mailOp)) mailParams
          (emailConfig env secret) c))"
proof
  show "isOk (emailTarget mailSpace mailOp mailParams)" by code_simp
qed (rule mail_session_confined [where res = "fst mailRun"], simp)

section \<open>The headers of a message\<close>

text \<open>The lines of a message up to the first empty one.\<close>

fun crlfLines :: "string \<Rightarrow> string \<Rightarrow> string list" where
  "crlfLines acc [] = [acc]"
| "crlfLines acc [c] = [acc @ [c]]"
| "crlfLines acc (c # d # cs) =
     (if c = CHR 0x0D \<and> d = CHR 0x0A then acc # crlfLines [] cs else crlfLines (acc @ [c]) (d # cs))"

definition headerLines :: "string \<Rightarrow> string list" where
  "headerLines msg = takeWhile (\<lambda>l. l \<noteq> []) (crlfLines [] msg)"

definition oneLine :: "string \<Rightarrow> bool" where
  "oneLine s \<longleftrightarrow> CHR 0x0D \<notin> set s \<and> CHR 0x0A \<notin> set s"

lemma crlfLines_line: "oneLine l \<Longrightarrow> crlfLines acc (l @ crlf @ r) = (acc @ l) # crlfLines [] r"
proof (induction l arbitrary: acc)
  case Nil
  then show ?case by (simp add: crlf_def)
next
  case (Cons c l)
  then have c: "c \<noteq> CHR 0x0D" "oneLine l" by (auto simp: oneLine_def)
  obtain d ds where d: "l @ crlf @ r = d # ds" by (cases l) (auto simp: crlf_def)
  have "crlfLines acc ((c # l) @ crlf @ r) = crlfLines (acc @ [c]) (l @ crlf @ r)"
    using c(1) by (simp add: d)
  with Cons.IH [OF c(2)] show ?case by simp
qed

lemma decodeRune_ascii: "(of_char c :: nat) < 128 \<Longrightarrow> decodeRune (c # cs) = (of_char c, 1)"
  by (simp add: decodeRune_def utf8Len_def Let_def)

lemma utf8Len_le4: "utf8Len s \<le> 4"
proof -
  have "(if p0 then 0 else if p1 then 1 else if p2 then (if q2 then 2 else 0)
      else if p3 then (if q3 then 3 else 0) else if p4 then (if q4 then 4 else 0) else 0) \<le> (4::nat)"
    for p0 p1 p2 q2 p3 q3 p4 q4
    by simp
  then show ?thesis unfolding utf8Len_def Let_def .
qed

lemma control_oneLine: "\<not> hasControl s \<Longrightarrow> oneLine s"
proof (induction s rule: hasControl.induct)
  case (2 c cs)
  obtain r n where rn: "decodeRune (c # cs) = (r, n)" by fastforce
  with 2 have ih: "oneLine (drop (max 1 n) (c # cs))" and r: "r \<noteq> 9 \<longrightarrow> 32 \<le> r"
    by (auto simp: hasControl.simps(2))
  have split: "set (c # cs) \<subseteq> set (take (max 1 n) (c # cs)) \<union> set (drop (max 1 n) (c # cs))"
    by (metis append_take_drop_id order_refl set_append)
  have "oneLine (take (max 1 n) (c # cs))"
  proof (cases "1 < utf8Len (c # cs)")
    case True
    then have "n = utf8Len (c # cs)"
      using rn utf8Len_le4 [of "c # cs"] by (auto simp: decodeRune_def Let_def split: if_splits)
    with True utf8Len_high [OF True] show ?thesis by (auto simp: oneLine_def max_def)
  next
    case False
    then have "n \<le> 1" using rn by (auto simp: decodeRune_def Let_def split: if_splits)
    moreover have "c \<noteq> CHR 0x0D \<and> c \<noteq> CHR 0x0A"
      using r rn decodeRune_ascii [of c cs] by (cases "(of_char c :: nat) < 128") auto
    ultimately show ?thesis by (auto simp: oneLine_def max_def)
  qed
  with ih split show ?case by (auto simp: oneLine_def)
qed (simp add: oneLine_def)

lemma oneLine_append [simp]: "oneLine (a @ b) \<longleftrightarrow> oneLine a \<and> oneLine b"
  by (auto simp: oneLine_def)

lemma oneLine_literals:
  "oneLine ''From: ''" "oneLine ''To: ''" "oneLine ''Subject: ''" "oneLine ''Date: ''" "oneLine ''MIME-Version: 1.0''"
  "oneLine ''Content-Type: text/plain; charset=''" "oneLine [CHR 0x22]" "oneLine ''UTF-8''"
  by (simp_all add: oneLine_def)

lemma headerLines_message:
  assumes "oneLine user" and "oneLine rcpt" and "oneLine (dv_qEncode D subject)" and "oneLine (dv_date D)"
  shows "headerLines (buildMessage D user rcpt subject body) = [''From: '' @ user, ''To: '' @ rcpt,
        ''Subject: '' @ dv_qEncode D subject, ''Date: '' @ dv_date D, ''MIME-Version: 1.0'',
        ''Content-Type: text/plain; charset='' @ [CHR 0x22] @ ''UTF-8'' @ [CHR 0x22]]"
    (is "_ = [?l1, ?l2, ?l3, ?l4, ?l5, ?l6]")
proof -
  have m: "buildMessage D user rcpt subject body =
      ?l1 @ crlf @ ?l2 @ crlf @ ?l3 @ crlf @ ?l4 @ crlf @ ?l5 @ crlf @ ?l6 @ crlf @ [] @ crlf @ body @ crlf"
    unfolding buildMessage_def by (simp only: append_assoc append_Nil)
  have one: "oneLine ?l1" "oneLine ?l2" "oneLine ?l3" "oneLine ?l4" "oneLine ?l5" "oneLine ?l6" "oneLine []"
    using assms oneLine_literals by (simp_all only: oneLine_append) (simp add: oneLine_def)
  show ?thesis
    unfolding headerLines_def m one [THEN crlfLines_line] append_Nil by (simp add: crlf_def)
qed

text \<open>C29: A mail has exactly the headers the gateway writes. Whatever recipient, subject and body a
  request gives, a message handed to the server reads as the six header lines of
  \<open>buildMessage\<close>, in their order, each on a line of its own and without a line break inside,
  provided that the header encoder and the date of the standard library yield one line.\<close>

theorem mail_headers_fixed:
  assumes "executeEmailConnector L U D ws op ps workspace w = (res, w')"
    and "w_calls w' = w_calls w @ new" and "SmtpWrite msg \<in> set new"
    and "oneLine (dv_qEncode D (strParam ps ''subject''))" and "oneLine (dv_date D)"
  shows "\<exists>env. emailTarget ws op ps = Inr env
    \<and> headerLines msg = [''From: '' @ env_User env, ''To: '' @ trimSpace (strParam ps ''to''),
        ''Subject: '' @ dv_qEncode D (strParam ps ''subject''), ''Date: '' @ dv_date D,
        ''MIME-Version: 1.0'', ''Content-Type: text/plain; charset='' @ [CHR 0x22] @ ''UTF-8'' @ [CHR 0x22]]
    \<and> oneLine (env_User env) \<and> oneLine (trimSpace (strParam ps ''to''))"
proof -
  from mail_calls [OF assms(1)] assms(2,3) obtain env secret where env: "emailTarget ws op ps = Inr env"
    and call: "mailCall L D (ws_Policy ws) (emailAction (op_ID op)) ps (emailConfig env secret) (SmtpWrite msg)"
    by auto
  have u: "em_User (emailConfig env secret) = env_User env" by (simp add: emailConfig_def)
  from call have lines: "oneLine (env_User env)" "oneLine (trimSpace (strParam ps ''to''))"
    and msg: "msg = buildMessage D (env_User env) (trimSpace (strParam ps ''to''))
        (strParam ps ''subject'') (strParam ps ''body'')"
    by (auto simp: mailCall_def Let_def u dest: control_oneLine)
  show ?thesis
    unfolding msg headerLines_message [OF lines assms(4,5)] using env lines by blast
qed

lemma mail_headers_fixed_witness:
  "\<exists>msg new. w_calls (snd mailRun) = w_calls exampleWorld @ new \<and> SmtpWrite msg \<in> set new
    \<and> (\<exists>env. emailTarget mailSpace mailOp mailParams = Inr env
    \<and> headerLines msg = [''From: '' @ env_User env, ''To: '' @ trimSpace (strParam mailParams ''to''),
        ''Subject: '' @ dv_qEncode exampleDevices (strParam mailParams ''subject''), ''Date: '' @ dv_date exampleDevices,
        ''MIME-Version: 1.0'', ''Content-Type: text/plain; charset='' @ [CHR 0x22] @ ''UTF-8'' @ [CHR 0x22]]
    \<and> oneLine (env_User env) \<and> oneLine (trimSpace (strParam mailParams ''to'')))"
proof -
  let ?env = "zeroEnvironment\<lparr>env_Host := ''mx'', env_User := ''bot@acme'', env_SecretRef := ''secret://acme/jira''\<rparr>"
  have t: "emailTarget mailSpace mailOp mailParams = Inr ?env" by code_simp
  have z: "env_SecretRef ?env = ''secret://acme/jira''" "env_User ?env = ''bot@acme''" by simp_all
  obtain v where r: "resolveRef exampleLib exampleUpstream (env_SecretRef ?env) ''acme'' exampleWorld = (Inr ''hunter22'', v)"
    using example_resolveRef unfolding z by (metis prod.collapse)
  have a: "emailAction (op_ID mailOp) = ''send''" "strParam mailParams ''to'' = ''a@b''"
      "strParam mailParams ''subject'' = ''hi''" "ParseRecipient exampleDevices ''a@b'' = Inr ''a@b''"
      "hasControl ''hi'' = False" "hasControl ''bot@acme'' = False"
      "wp_EmailDeniedSenders (ws_Policy mailSpace) = []" "wp_EmailAllowedSenders (ws_Policy mailSpace) = []"
    by code_simp+
  have d: "dv_call exampleDevices cs x = None" for cs x by (simp add: exampleDevices_def)
  have c: "em_SmtpTLS (emailConfig ?env s) = True" "em_User (emailConfig ?env s) = ''bot@acme''" for s
    by (simp_all add: emailConfig_def)
  have vs: "w_calls v = w_calls exampleWorld" using resolveRef_keeps [OF r] by simp
  have "\<exists>new msg. w_calls (snd mailRun) = w_calls exampleWorld @ new \<and> SmtpWrite msg \<in> set new"
    unfolding executeEmailConnector_def t sum.case prod.case r
    by (simp add: emailDispatch_def a emailSend_def denyResource_def Send_def checkHeaderValue_def ensure_def c
        sendTLS_def tryCall_def devCall_def d andThen_def vs)
  then obtain new msg where n: "w_calls (snd mailRun) = w_calls exampleWorld @ new" "SmtpWrite msg \<in> set new"
    by blast
  have one: "oneLine (dv_qEncode exampleDevices (strParam mailParams ''subject''))" "oneLine (dv_date exampleDevices)"
    by (simp_all add: exampleDevices_def oneLine_def a)
  show ?thesis
    by (intro exI) (rule conjI [OF n(1) conjI [OF n(2) mail_headers_fixed [OF surjective_pairing n one]]])
qed

section \<open>The answers\<close>

definition mailboxPermitted :: "golib \<Rightarrow> devices \<Rightarrow> WorkspacePolicy \<Rightarrow> string \<Rightarrow> bool" where
  "mailboxPermitted L D p m \<longleftrightarrow>
     \<not> denyResource L (dv_windows D) m (wp_EmailDeniedMailboxes p) (wp_EmailAllowedMailboxes p)"

definition senderPermitted :: "golib \<Rightarrow> devices \<Rightarrow> WorkspacePolicy \<Rightarrow> string \<Rightarrow> bool" where
  "senderPermitted L D p s \<longleftrightarrow>
     \<not> denyResource L (dv_windows D) s (wp_EmailDeniedSenders p) (wp_EmailAllowedSenders p)"

text \<open>What a mail operation answers has passed the policy: the mailboxes listed, the messages
  found and the message read are none that the deny and allow lists refuse by name or sender
  (the sender as the text of the whole \<open>From\<close> list).\<close>

theorem mail_answer_permitted:
  fixes w :: "'s world"
  assumes "fst (executeEmailConnector L U D ws op ps workspace w) = Inr (status, body)"
  shows "status = 200 \<and> (\<exists>result. body = encodeJson L result
    \<and> (emailAction (op_ID op) = ''list_mailboxes'' \<longrightarrow> (\<exists>ms. result = JObj [(''mailboxes'', nilList ms)]
        \<and> (\<forall>m\<in>set ms. mailboxPermitted L D (ws_Policy ws) (strParam m ''name''))))
    \<and> (emailAction (op_ID op) = ''search'' \<longrightarrow> (\<exists>ms. result = JObj [(''messages'', nilList ms)]
        \<and> (\<forall>m\<in>set ms. senderPermitted L D (ws_Policy ws) (strParam m ''from''))))
    \<and> (emailAction (op_ID op) = ''read'' \<longrightarrow> (\<exists>m. result = JObj m
        \<and> senderPermitted L D (ws_Policy ws) (strParam m ''from''))))"
proof -
  from assms obtain cfg result and v :: "'s world"
    where r: "fst (emailDispatch L D (ws_Policy ws) op ps cfg v) = Inr result"
      and "status = 200" and "body = encodeJson L result"
    by (auto simp: executeEmailConnector_def andThen_def split: sum.splits prod.splits) (metis fst_conv)
  have filtered: "\<forall>m\<in>set (filterMessagesByFrom L (dv_windows D) ms (wp_EmailAllowedSenders (ws_Policy ws))
      (wp_EmailDeniedSenders (ws_Policy ws))). senderPermitted L D (ws_Policy ws) (strParam m ''from'')" for ms
    by (simp add: filterMessagesByFrom_def senderPermitted_def denyResource_def)
  consider (l) "emailAction (op_ID op) = ''list_mailboxes''" | (s) "emailAction (op_ID op) = ''search''"
    | (t) "emailAction (op_ID op) = ''read''"
    | (other) "emailAction (op_ID op) \<notin> {''list_mailboxes'', ''search'', ''read''}" by blast
  then show ?thesis
  proof cases
    case l
    with r obtain ms where "result = JObj [(''mailboxes'', nilList ms)]"
      "\<forall>m\<in>set ms. mailboxPermitted L D (ws_Policy ws) (strParam m ''name'')"
      by (auto simp: emailDispatch_def andThen_def filterMailboxes_def mailboxPermitted_def
          split: prod.splits sum.splits)
    with l \<open>status = 200\<close> \<open>body = _\<close> show ?thesis by (intro conjI exI [of _ result]) auto
  next
    case s
    with r filtered obtain ms where "result = JObj [(''messages'', nilList ms)]"
      "\<forall>m\<in>set ms. senderPermitted L D (ws_Policy ws) (strParam m ''from'')"
      by (auto simp: emailDispatch_def emailSearch_def andThen_def split: prod.splits sum.splits if_splits)
    with s \<open>status = 200\<close> \<open>body = _\<close> show ?thesis by (intro conjI exI [of _ result]) auto
  next
    case t
    with r obtain m where "result = JObj m" "senderPermitted L D (ws_Policy ws) (strParam m ''from'')"
      by (auto simp: emailDispatch_def emailRead_def andThen_def denyMessageByFrom_def senderPermitted_def
          split: prod.splits sum.splits if_splits option.splits json.splits)
    with t \<open>status = 200\<close> \<open>body = _\<close> show ?thesis by (intro conjI exI [of _ result]) auto
  next
    case other
    with \<open>status = 200\<close> \<open>body = _\<close> show ?thesis by (intro conjI exI [of _ result]) auto
  qed
qed

definition inboxDevices :: devices where
  "inboxDevices = exampleDevices\<lparr>dv_imapMessages := (\<lambda>cs. 1), dv_imapFetch := (\<lambda>cs c. [Some
     \<lparr>im_Uid = 7, im_SeqNum = 1, im_HasEnvelope = True, im_Subject = ''hi'',
      im_From = [\<lparr>ia_MailboxName = ''a'', ia_HostName = ''b''\<rparr>], im_Sender = [], im_To = [], im_Cc = [],
      im_Date = ''now'', im_Flags = None, im_Body = []\<rparr>])\<rparr>"

abbreviation searchRun where
  "searchRun \<equiv> executeEmailConnector exampleLib exampleUpstream inboxDevices mailSpace
     (mailOp\<lparr>op_ID := ''mail.search''\<rparr>) [] ''acme'' exampleWorld"

lemma mail_answer_permitted_witness:
  "\<exists>body ms. fst searchRun = Inr (200, body) \<and> body = encodeJson exampleLib (JObj [(''messages'', nilList ms)])
    \<and> (\<forall>m\<in>set ms. senderPermitted exampleLib inboxDevices (ws_Policy mailSpace) (strParam m ''from''))"
proof -
  let ?env = "zeroEnvironment\<lparr>env_Host := ''mx'', env_User := ''bot@acme'', env_SecretRef := ''secret://acme/jira''\<rparr>"
  let ?op = "mailOp\<lparr>op_ID := ''mail.search''\<rparr>"
  have t: "emailTarget mailSpace ?op [] = Inr ?env" by code_simp
  have z: "env_SecretRef ?env = ''secret://acme/jira''" by simp
  obtain v where r: "resolveRef exampleLib exampleUpstream (env_SecretRef ?env) ''acme'' exampleWorld = (Inr ''hunter22'', v)"
    using example_resolveRef unfolding z by (metis prod.collapse)
  have a: "emailAction (op_ID ?op) = ''search''" by code_simp
  have q: "wp_EmailDeniedMailboxes (ws_Policy mailSpace) = []" "wp_EmailAllowedMailboxes (ws_Policy mailSpace) = []"
    by code_simp+
  have d: "dv_call inboxDevices cs x = None" for cs x by (simp add: inboxDevices_def exampleDevices_def)
  have c: "em_ImapTLS (emailConfig ?env s) = True" for s by (simp add: emailConfig_def)
  have "\<exists>body. fst searchRun = Inr (200, body)"
    unfolding executeEmailConnector_def t sum.case prod.case r
    using a by (simp add: emailDispatch_def emailSearch_def denyResource_def q Search_def imapSession_def
        dialImap_def tryCall_def devCall_def d andThen_def c Let_def)
  then obtain body where "fst searchRun = Inr (200, body)" by blast
  with mail_answer_permitted [OF this] a show ?thesis by auto
qed

section \<open>Limits of the policy\<close>

text \<open>A star stops at a separator: a deny-all pattern does not deny a mailbox below another.\<close>

lemma star_stops_at_separator:
  "\<not> denyResource exampleLib False ''Archive/Secret'' [''*''] []"
  "denyResource exampleLib False ''Archive'' [''*''] []"
  by code_simp+

text \<open>A sender hides from the deny list behind a second \<open>From\<close> address.\<close>

lemma second_sender_hides:
  "denyResource exampleLib True (formatAddresses [\<lparr>ia_MailboxName = ''eve'', ia_HostName = ''evil.com''\<rparr>])
     [''*@evil.com''] []"
  "\<not> denyResource exampleLib True (formatAddresses [\<lparr>ia_MailboxName = ''eve'', ia_HostName = ''evil.com''\<rparr>,
       \<lparr>ia_MailboxName = ''x'', ia_HostName = ''y.org''\<rparr>]) [''*@evil.com''] []"
  by code_simp+

end
