(* ===== verification/Calendar.thy ===== *)
theory Calendar
  imports Prelude "HOL-Library.Signed_Division"
begin

text \<open>
  Package \<open>internal/workcal\<close>: the Polish working-day calendar. A \<open>time.Time\<close> of this package is the
  midnight (UTC) of a calendar date, here the number of the day counted from 1 January of the
  year 1, which is a Monday. The first section is the part of package \<open>time\<close> that the sources
  use: \<open>Date\<close>, \<open>Year\<close>, \<open>Month\<close>, \<open>Day\<close>, \<open>Weekday\<close> and \<open>AddDate\<close> on such days.
\<close>

section \<open>Days and dates\<close>

type_synonym date = int

definition leap :: "int \<Rightarrow> bool" where
  "leap y \<longleftrightarrow> y mod 4 = 0 \<and> (y mod 100 \<noteq> 0 \<or> y mod 400 = 0)"

text \<open>The days before 1 January of a year.\<close>

definition yearStart :: "int \<Rightarrow> int" where
  "yearStart y = 365 * (y - 1) + (y - 1) div 4 - (y - 1) div 100 + (y - 1) div 400"

text \<open>The days before the first of a month (1 to 12) in its year.\<close>

definition monthStart :: "bool \<Rightarrow> int \<Rightarrow> int" where
  "monthStart lp m =
     [0, 31, 59, 90, 120, 151, 181, 212, 243, 273, 304, 334] ! nat (m - 1) + (if lp \<and> 2 < m then 1 else 0)"

text \<open>\<open>time.Date\<close>: months and days out of range carry over.\<close>

definition Date :: "int \<Rightarrow> int \<Rightarrow> int \<Rightarrow> date" where
  "Date year month day =
     (let y = year + (month - 1) div 12; m = (month - 1) mod 12 + 1
      in yearStart y + monthStart (leap y) m + (day - 1))"

text \<open>The year of a day: the last of four candidates that has begun.\<close>

definition yearOf :: "date \<Rightarrow> int" where
  "yearOf d =
     (let y = d * 400 div 146097
      in if yearStart (y + 2) \<le> d then y + 2 else if yearStart (y + 1) \<le> d then y + 1
         else if yearStart y \<le> d then y else y - 1)"

fun monthFrom :: "bool \<Rightarrow> int \<Rightarrow> nat \<Rightarrow> int" where
  "monthFrom lp r 0 = 1"
| "monthFrom lp r (Suc n) = (if monthStart lp (int (Suc n) + 1) \<le> r then int (Suc n) + 1 else monthFrom lp r n)"

definition monthOf :: "date \<Rightarrow> int" where
  "monthOf d = monthFrom (leap (yearOf d)) (d - yearStart (yearOf d)) 11"

definition dayOf :: "date \<Rightarrow> int" where
  "dayOf d = d - yearStart (yearOf d) - monthStart (leap (yearOf d)) (monthOf d) + 1"

text \<open>\<open>Weekday\<close>: Sunday is 0.\<close>

definition Weekday :: "date \<Rightarrow> int" where
  "Weekday d = (d + 1) mod 7"

definition AddDate :: "date \<Rightarrow> int \<Rightarrow> int \<Rightarrow> int \<Rightarrow> date" where
  "AddDate d years months days = Date (yearOf d + years) (monthOf d + months) (dayOf d + days)"

text \<open>The length of a month.\<close>

definition monthLength :: "int \<Rightarrow> int \<Rightarrow> int" where
  "monthLength y m =
     (if m \<in> {4, 6, 9, 11} then 30 else if m = 2 then (if leap y then 29 else 28) else 31)"

definition validDate :: "int \<Rightarrow> int \<Rightarrow> int \<Rightarrow> bool" where
  "validDate y m d \<longleftrightarrow> 1 \<le> m \<and> m \<le> 12 \<and> 1 \<le> d \<and> d \<le> monthLength y m"

subsection \<open>Dates and days are the same thing\<close>

lemma div_step: "0 < n \<Longrightarrow> (y::int) div n = (y - 1) div n + (if y mod n = 0 then 1 else 0)"
proof -
  assume n: "0 < n"
  have y: "y = n * (y div n) + y mod n" by simp
  have "(y - 1) div n = (if y mod n = 0 then y div n - 1 else y div n)"
  proof (cases "y mod n = 0")
    case True
    have "(y - 1) div n = y div n - 1"
      by (rule int_div_pos_eq [where r = "n - 1"]) (use y True n in \<open>simp_all add: right_diff_distrib\<close>)
    with True show ?thesis by simp
  next
    case False
    have "0 \<le> y mod n" "y mod n < n" using n by simp_all
    with False have "1 \<le> y mod n" "y mod n \<le> n" by linarith+
    then have "(y - 1) div n = y div n"
      by (intro int_div_pos_eq [where r = "y mod n - 1"]) (use y in simp_all)
    with False show ?thesis by simp
  qed
  then show ?thesis by auto
qed

lemma yearStart_Suc: "yearStart (y + 1) = yearStart y + (if leap y then 366 else 365)"
proof -
  let ?i = "\<lambda>b. if b then 1 else (0::int)"
  have "y mod 100 = y mod 400 mod 100" "y mod 4 = y mod 100 mod 4" by (simp_all add: mod_mod_cancel)
  then have nested: "y mod 400 = 0 \<Longrightarrow> y mod 100 = 0" "y mod 100 = 0 \<Longrightarrow> y mod 4 = 0" by auto
  have gen: "365 * z + a' - b' + c' = 365 * (z - 1) + a - b + c + 365 + i - j + k"
    if "a' = a + i" "b' = b + j" "c' = c + k" for z a b c a' b' c' i j k :: int
    using that by simp
  have "yearStart (y + 1) = yearStart y + 365 + ?i (y mod 4 = 0) - ?i (y mod 100 = 0) + ?i (y mod 400 = 0)"
    unfolding yearStart_def add_diff_cancel by (intro gen div_step zero_less_numeral)
  moreover have "x + 365 + ?i P - ?i Q + ?i R = x + (if P \<and> (\<not> Q \<or> R) then 366 else 365)"
    if "R \<Longrightarrow> Q" "Q \<Longrightarrow> P" for P Q R x
    using that by auto
  ultimately show ?thesis using nested unfolding leap_def by (simp only:)
qed

lemma yearStart_mono: "y \<le> z \<Longrightarrow> yearStart y \<le> yearStart z"
proof (induction rule: int_ge_induct)
  case (step i)
  then show ?case using yearStart_Suc [of i] by auto
qed simp

lemma div_bounds: "0 < n \<Longrightarrow> n * (y div n) \<le> y \<and> y < n * (y div n) + (n::int)"
  using pos_mod_bound [of n y] pos_mod_sign [of n y] mult_div_mod_eq [of n y] by linarith

lemma yearStart_bounds:
  "400 * yearStart z \<le> 146097 * (z - 1) + 400 \<and> 146097 * (z - 1) - 1200 \<le> 400 * yearStart z"
proof -
  have gen: "400 * (365 * x + a - b + c) \<le> 146097 * x + 400 \<and> 146097 * x - 1200 \<le> 400 * (365 * x + a - b + c)"
    if "4 * a \<le> x \<and> x < 4 * a + 4" "100 * b \<le> x \<and> x < 100 * b + 100" "400 * c \<le> x \<and> x < 400 * c + 400"
    for x a b c :: int
    using that by auto
  show ?thesis unfolding yearStart_def by (rule gen) (rule div_bounds; simp)+
qed

lemma yearOf_spec: "yearStart (yearOf d) \<le> d \<and> d < yearStart (yearOf d + 1)"
proof -
  define y where "y = d * 400 div 146097"
  have q: "146097 * y \<le> d * 400 \<and> d * 400 < 146097 * y + 146097"
    unfolding y_def by (rule div_bounds) simp
  have "yearStart (y - 1) \<le> d" "d < yearStart (y + 3)"
    using yearStart_bounds [of "y - 1"] yearStart_bounds [of "y + 3"] q by auto
  then show ?thesis by (auto simp: yearOf_def Let_def y_def [symmetric] algebra_simps)
qed

lemma yearOf_eq: "yearStart y \<le> d \<Longrightarrow> d < yearStart (y + 1) \<Longrightarrow> yearOf d = y"
  using yearOf_spec [of d] yearStart_mono [of "y + 1" "yearOf d"] yearStart_mono [of "yearOf d + 1" y] by linarith

lemma yearStart_strict: "y < z \<Longrightarrow> yearStart y + 365 \<le> yearStart z"
  using yearStart_mono [of "y + 1" z] yearStart_Suc [of y] by (auto split: if_splits)

lemma monthStart_simps [simp]:
  "monthStart lp 1 = 0" "monthStart lp 2 = 31"
  "monthStart lp 3 = 59 + (if lp then 1 else 0)" "monthStart lp 4 = 90 + (if lp then 1 else 0)"
  "monthStart lp 5 = 120 + (if lp then 1 else 0)" "monthStart lp 6 = 151 + (if lp then 1 else 0)"
  "monthStart lp 7 = 181 + (if lp then 1 else 0)" "monthStart lp 8 = 212 + (if lp then 1 else 0)"
  "monthStart lp 9 = 243 + (if lp then 1 else 0)" "monthStart lp 10 = 273 + (if lp then 1 else 0)"
  "monthStart lp 11 = 304 + (if lp then 1 else 0)" "monthStart lp 12 = 334 + (if lp then 1 else 0)"
  by (simp_all add: monthStart_def)

lemma month_cases:
  assumes "1 \<le> m" "m \<le> (12::int)"
  obtains "m = 1" | "m = 2" | "m = 3" | "m = 4" | "m = 5" | "m = 6" | "m = 7" | "m = 8" | "m = 9" | "m = 10"
    | "m = 11" | "m = 12"
  using assms by atomize_elim presburger

lemma monthFrom_11:
  "monthFrom lp r 11 =
     (if monthStart lp 12 \<le> r then 12 else if monthStart lp 11 \<le> r then 11 else if monthStart lp 10 \<le> r then 10
      else if monthStart lp 9 \<le> r then 9 else if monthStart lp 8 \<le> r then 8 else if monthStart lp 7 \<le> r then 7
      else if monthStart lp 6 \<le> r then 6 else if monthStart lp 5 \<le> r then 5 else if monthStart lp 4 \<le> r then 4
      else if monthStart lp 3 \<le> r then 3 else if monthStart lp 2 \<le> r then 2 else 1)"
  by (simp add: eval_nat_numeral)

lemma monthFrom_at:
  assumes "validDate y m d"
  shows "monthFrom (leap y) (monthStart (leap y) m + (d - 1)) 11 = m
    \<and> 0 \<le> monthStart (leap y) m \<and> monthStart (leap y) m + (d - 1) < (if leap y then 366 else 365)"
proof -
  from assms have m: "1 \<le> m" "m \<le> 12" and d: "1 \<le> d" "d \<le> monthLength y m" by (simp_all add: validDate_def)
  show ?thesis
    by (cases "leap y"; rule month_cases [OF m]) (use d in \<open>simp_all add: monthFrom_11 monthLength_def\<close>)
qed

lemma Date_valid: "validDate y m d \<Longrightarrow> Date y m d = yearStart y + monthStart (leap y) m + (d - 1)"
  by (auto simp: Date_def validDate_def Let_def)

text \<open>A valid date reads back from its day.\<close>

lemma Date_read:
  assumes "validDate y m d"
  shows "yearOf (Date y m d) = y" "monthOf (Date y m d) = m" "dayOf (Date y m d) = d"
proof -
  note D = Date_valid [OF assms] and M = monthFrom_at [OF assms]
  have d: "1 \<le> d" using assms by (simp add: validDate_def)
  show y: "yearOf (Date y m d) = y"
    by (rule yearOf_eq) (use D M d yearStart_Suc [of y] in auto)
  show m: "monthOf (Date y m d) = m" unfolding monthOf_def y unfolding D using M by simp
  show "dayOf (Date y m d) = d" unfolding dayOf_def y m unfolding D by simp
qed

lemma monthFrom_spec:
  assumes "0 \<le> r" "r < (if lp then 366 else 365)"
  defines "m \<equiv> monthFrom lp r 11"
  shows "1 \<le> m \<and> m \<le> 12 \<and> monthStart lp m \<le> r
    \<and> r - monthStart lp m + 1 \<le> (if m \<in> {4, 6, 9, 11} then 30 else if m = 2 then (if lp then 29 else 28) else 31)"
  using assms by (auto simp: m_def monthStart_def eval_nat_numeral)

lemma valid_of_day: "validDate (yearOf d) (monthOf d) (dayOf d)" "Date (yearOf d) (monthOf d) (dayOf d) = d"
proof -
  let ?r = "d - yearStart (yearOf d)"
  have "0 \<le> ?r" "?r < (if leap (yearOf d) then 366 else 365)"
    using yearOf_spec [of d] yearStart_Suc [of "yearOf d"] by (auto split: if_splits)
  from monthFrom_spec [OF this]
  show v: "validDate (yearOf d) (monthOf d) (dayOf d)"
    by (simp add: validDate_def monthLength_def monthOf_def dayOf_def)
  show "Date (yearOf d) (monthOf d) (dayOf d) = d" unfolding Date_valid [OF v] by (simp add: dayOf_def)
qed

section \<open>Holidays\<close>

definition HoursPerDay :: int where
  "HoursPerDay = 8"

record Holiday =
  ho_Date :: date
  ho_Name :: string

text \<open>\<open>Civil\<close> is the identity on the midnights of this package.\<close>

definition Civil :: "date \<Rightarrow> date" where
  "Civil t = Date (yearOf t) (monthOf t) (dayOf t)"

definition easter :: "int \<Rightarrow> date" where
  "easter year =
     (let a = year smod 19; b = year sdiv 100; c = year smod 100; d = b sdiv 4; e = b smod 4;
          f = (b + 8) sdiv 25; g = (b - f + 1) sdiv 3; h = (19 * a + b - d - g + 15) smod 30;
          i = c sdiv 4; k = c smod 4; l = (32 + 2 * e + 2 * i - h - k) smod 7;
          m = (a + 11 * h + 22 * l) sdiv 451;
          month = (h + l - 7 * m + 114) sdiv 31; day = (h + l - 7 * m + 114) smod 31 + 1
      in Date year month day)"

text \<open>The names as the bytes of the source, in UTF-8.\<close>

definition trzechKroli :: string where
  "trzechKroli = ''Trzech Kr'' @ [CHR 0xC3, CHR 0xB3] @ ''li''"

definition poniedzialek :: string where
  "poniedzialek = ''Poniedzia'' @ [CHR 0xC5, CHR 0x82] @ ''ek Wielkanocny''"

definition swieto :: string where
  "swieto = [CHR 0xC5, CHR 0x9A] @ ''wi'' @ [CHR 0xC4, CHR 0x99] @ ''to ''"

definition zieloneSwiatki :: string where
  "zieloneSwiatki = ''Zielone '' @ [CHR 0xC5, CHR 0x9A] @ ''wi'' @ [CHR 0xC4, CHR 0x85] @ ''tki''"

definition bozeCialo :: string where
  "bozeCialo = ''Bo'' @ [CHR 0xC5, CHR 0xBC] @ ''e Cia'' @ [CHR 0xC5, CHR 0x82] @ ''o''"

definition wniebowziecie :: string where
  "wniebowziecie = ''Wniebowzi'' @ [CHR 0xC4, CHR 0x99] @ ''cie NMP''"

definition wszystkichSwietych :: string where
  "wszystkichSwietych = ''Wszystkich '' @ [CHR 0xC5, CHR 0x9A] @ ''wi'' @ [CHR 0xC4, CHR 0x99] @ ''tych''"

definition niepodleglosci :: string where
  "niepodleglosci = ''Narodowe '' @ swieto @ ''Niepodleg'' @ [CHR 0xC5, CHR 0x82] @ ''o''
     @ [CHR 0xC5, CHR 0x9B] @ ''ci''"

definition bozeNarodzenie :: string where
  "bozeNarodzenie = ''Bo'' @ [CHR 0xC5, CHR 0xBC] @ ''e Narodzenie''"

definition drugiDzien :: string where
  "drugiDzien = ''Drugi dzie'' @ [CHR 0xC5, CHR 0x84] @ '' Bo'' @ [CHR 0xC5, CHR 0xBC] @ ''ego Narodzenia''"

definition holiday :: "date \<Rightarrow> string \<Rightarrow> Holiday" where
  "holiday d name = \<lparr>ho_Date = d, ho_Name = name\<rparr>"

definition PolishHolidays :: "int \<Rightarrow> Holiday list" where
  "PolishHolidays year =
     (let e = easter year
      in [holiday (Date year 1 1) ''Nowy Rok'', holiday (Date year 1 6) trzechKroli,
          holiday e ''Wielkanoc'', holiday (AddDate e 0 0 1) poniedzialek,
          holiday (Date year 5 1) (swieto @ ''Pracy''),
          holiday (Date year 5 3) (swieto @ ''Konstytucji 3 Maja''),
          holiday (AddDate e 0 0 49) zieloneSwiatki, holiday (AddDate e 0 0 60) bozeCialo,
          holiday (Date year 8 15) wniebowziecie, holiday (Date year 11 1) wszystkichSwietych,
          holiday (Date year 11 11) niepodleglosci]
         @ (if 2025 \<le> year then [holiday (Date year 12 24) ''Wigilia''] else [])
         @ [holiday (Date year 12 25) bozeNarodzenie, holiday (Date year 12 26) drugiDzien])"

definition HolidayName :: "date \<Rightarrow> string \<times> bool" where
  "HolidayName d =
     (let d = Civil d
      in case find (\<lambda>h. ho_Date h = d) (PolishHolidays (yearOf d)) of
           Some h \<Rightarrow> (ho_Name h, True)
         | None \<Rightarrow> ([], False))"

definition IsWorkingDay :: "date \<Rightarrow> bool" where
  "IsWorkingDay d =
     (if Weekday d = 6 \<or> Weekday d = 0 then False else \<not> snd (HolidayName d))"

function countFrom :: "date \<Rightarrow> date \<Rightarrow> int \<Rightarrow> int" where
  "countFrom d to n =
     (if to < d then n else countFrom (AddDate d 0 0 1) to (if IsWorkingDay d then n + 1 else n))"
  by pat_completeness auto

definition WorkingDays :: "date \<Rightarrow> date \<Rightarrow> int" where
  "WorkingDays from to = countFrom (Civil from) (Civil to) 0"

definition HolidaysBetween :: "date \<Rightarrow> date \<Rightarrow> Holiday list" where
  "HolidaysBetween from to =
     (let from = Civil from; to = Civil to
      in concat (map (\<lambda>y. filter (\<lambda>h. \<not> ho_Date h < from \<and> \<not> to < ho_Date h) (PolishHolidays y))
           [yearOf from..yearOf to]))"

section \<open>Days one after the other\<close>

lemma monthOf_range: "1 \<le> monthOf d" "monthOf d \<le> 12"
  using valid_of_day(1) [of d] by (simp_all add: validDate_def)

lemma Date_days: "1 \<le> m \<Longrightarrow> m \<le> 12 \<Longrightarrow> Date y m (d + n) = Date y m d + n"
  by (simp add: Date_def Let_def)

lemma AddDate_days [simp]: "AddDate d 0 0 n = d + n"
  by (simp add: AddDate_def Date_days [OF monthOf_range] valid_of_day(2))

lemma Civil_id [simp]: "Civil d = d"
  by (simp add: Civil_def valid_of_day(2))

termination countFrom
  by (relation "measure (\<lambda>(d, to, n). nat (to + 1 - d))") auto

declare countFrom.simps [simp del]

section \<open>Easter\<close>

lemma sdiv_pos: "0 \<le> (a::int) \<Longrightarrow> 0 < b \<Longrightarrow> a sdiv b = a div b"
  by (auto simp: signed_divide_int_def sgn_if)

lemma smod_pos: "0 \<le> (a::int) \<Longrightarrow> 0 < b \<Longrightarrow> a smod b = a mod b"
  by (auto simp: signed_modulo_int_def sgn_if)

text \<open>
  The ecclesiastical rule: the paschal full moon from the golden number and the epact of Lilius
  and Clavius (in Knuth's formulation), Easter the first Sunday after it.
\<close>

definition epact :: "int \<Rightarrow> int" where
  "epact y =
     (let golden = y mod 19 + 1; century = y div 100 + 1;
          sunCorrection = 3 * century div 4 - 12; moonCorrection = (8 * century + 5) div 25 - 5;
          e = (11 * golden + 20 + moonCorrection - sunCorrection) mod 30
      in if e = 24 \<or> e = 25 \<and> 11 < golden then e + 1 else e)"

definition paschalMoon :: "int \<Rightarrow> date" where
  "paschalMoon y = (let n = 44 - epact y in Date y 3 (if n < 21 then n + 30 else n))"

text \<open>The moon's age in the terms of the code.\<close>

definition moonTerm :: "int \<Rightarrow> int" where
  "moonTerm y = (19 * (y mod 19) + y div 100 - y div 100 div 4 - (y div 100 - (y div 100 + 8) div 25 + 1) div 3 + 15) mod 30"

lemma third: "(b - (b + 8) div 25 + 1) div 3 = (8 * b + 13) div (25::int)"
proof -
  define q r where "q = b div 25" and "r = b mod 25"
  have b: "b = 25 * q + r" and r: "0 \<le> r" "r < 25" by (simp_all add: q_def r_def)
  have "(b + 8) div 25 = q + (r + 8) div 25" unfolding b by simp
  then have "(b - (b + 8) div 25 + 1) div 3 = (3 * (8 * q) + (r - (r + 8) div 25 + 1)) div 3" using b by simp
  also have "\<dots> = 8 * q + (r - (r + 8) div 25 + 1) div 3" by (rule div_mult_self4) simp
  also have "(r - (r + 8) div 25 + 1) div 3 = (8 * r + 13) div 25"
  proof -
    have "r \<in> set [0..24]" using r by simp
    moreover have "\<forall>r\<in>set [0..24]. (r - (r + 8) div 25 + 1) div 3 = (8 * r + 13) div (25::int)" by code_simp
    ultimately show ?thesis by blast
  qed
  also have "8 * q + (8 * r + 13) div 25 = (25 * (8 * q) + (8 * r + 13)) div 25" by (rule div_mult_self4 [symmetric]) simp
  also have "25 * (8 * q) + (8 * r + 13) = 8 * b + 13" using b by simp
  finally show ?thesis .
qed

lemma three_quarters: "3 * (b + 1) div 4 = b - b div (4::int)"
proof -
  define q r where "q = b div 4" and "r = b mod 4"
  have b: "b = 4 * q + r" and r: "r \<in> set [0..3]" by (simp_all add: q_def r_def)
  have "3 * (b + 1) = 4 * (3 * q) + (3 * r + 3)" using b by simp
  then have "3 * (b + 1) div 4 = 3 * q + (3 * r + 3) div 4" using div_mult_self4 [of 4 "3 * q" "3 * r + 3"] by simp
  moreover have "\<forall>r\<in>set [0..3]. (3 * r + 3) div 4 = (r::int)" by code_simp
  ultimately have "3 * (b + 1) div 4 = 3 * q + r" using r by simp
  then show ?thesis using b unfolding q_def [symmetric] by simp
qed

lemma epact_moon:
  "(11 * (y mod 19 + 1) + 20 + ((8 * (y div 100 + 1) + 5) div 25 - 5) - (3 * (y div 100 + 1) div 4 - 12)) mod 30
     = (23 - moonTerm y) mod 30"
proof -
  define a b where "a = y mod 19" and "b = y div 100"
  define g d where "g = (8 * b + 13) div 25" and "d = b div 4"
  have g: "(8 * (b + 1) + 5) div 25 = g" unfolding g_def by (rule arg_cong [where f = "\<lambda>x. x div 25"]) simp
  have "11 * (a + 1) + 20 + (g - 5) - ((b - d) - 12) = 23 - (19 * a + b - d - g + 15) + (a + 1) * 30" by simp
  then have "(11 * (a + 1) + 20 + ((8 * (b + 1) + 5) div 25 - 5) - (3 * (b + 1) div 4 - 12)) mod 30
      = (23 - (19 * a + b - d - g + 15)) mod 30"
    unfolding g three_quarters d_def [symmetric] by (simp only: mod_mult_self1)
  also have "\<dots> = (23 - (19 * a + b - d - g + 15) mod 30) mod 30" by (simp only: mod_diff_right_eq)
  finally show ?thesis
    unfolding moonTerm_def third a_def [symmetric] b_def [symmetric] g_def [symmetric] d_def [symmetric] .
qed

lemma paschalMoon_offset:
  "paschalMoon y = Date y 3 1 + 20
     + (let h = moonTerm y in if h = 29 \<or> h = 28 \<and> 10 < y mod 19 then h - 1 else h)"
proof -
  define h e where "h = moonTerm y" and "e = (23 - h) mod 30"
  have h: "0 \<le> h" "h < 30" by (simp_all add: h_def moonTerm_def)
  have e: "e = (if h \<le> 23 then 23 - h else 53 - h)"
  proof (cases "h \<le> 23")
    case False
    have "(23 - h) mod 30 = (53 - h) mod 30" using mod_add_self2 [of "23 - h" 30] by (simp add: algebra_simps)
    with False h show ?thesis by (simp add: e_def)
  qed (use h in \<open>simp add: e_def\<close>)
  define late where "late \<longleftrightarrow> 10 < y mod 19"
  have p: "epact y = (if e = 24 \<or> e = 25 \<and> late then e + 1 else e)"
    unfolding epact_def Let_def epact_moon e_def h_def late_def by simp
  have "Date y 3 n = Date y 3 1 + (n - 1)" for n using Date_days [of 3 y 1 "n - 1"] by simp
  then have "paschalMoon y = Date y 3 1 + ((if 44 - epact y < 21 then 44 - epact y + 30 else 44 - epact y) - 1)"
    unfolding paschalMoon_def Let_def by blast
  also have "(if 44 - epact y < 21 then 44 - epact y + 30 else 44 - epact y) - 1
      = 20 + (if h = 29 \<or> h = 28 \<and> late then h - 1 else h)"
    unfolding p e using h by (cases late; cases "h \<le> 23") (simp_all split: if_split)
  finally show ?thesis by (simp add: h_def late_def Let_def)
qed

text \<open>The date the code computes, counted from 1 March.\<close>

lemma easter_offset:
  assumes "0 \<le> y"
  defines "h \<equiv> moonTerm y"
  defines "l \<equiv> (32 + 2 * (y div 100 mod 4) + 2 * (y mod 100 div 4) - h - y mod 100 mod 4) mod 7"
  defines "m \<equiv> (y mod 19 + 11 * h + 22 * l) div 451"
  shows "easter y = Date y 3 1 + 21 + (h + l - 7 * m)" "0 \<le> h + l - 7 * m" "h + l - 7 * m \<le> 34"
    "m = (if (h = 29 \<or> h = 28 \<and> 10 < y mod 19) \<and> l = 6 then 1 else 0)"
proof -
  define a b c where "a = y mod 19" and "b = y div 100" and "c = y mod 100"
  have a: "0 \<le> a" "a \<le> 18" and b: "0 \<le> b" and c: "0 \<le> c" using assms(1) by (simp_all add: a_def b_def c_def)
  have h: "0 \<le> h" "h \<le> 29" by (simp_all add: h_def moonTerm_def)
  have l: "0 \<le> l" "l \<le> 6" by (simp_all add: l_def)
  show m: "m = (if (h = 29 \<or> h = 28 \<and> 10 < y mod 19) \<and> l = 6 then 1 else 0)"
  proof (cases "451 \<le> a + 11 * h + 22 * l")
    case True
    then have "m = 1" using a h l by (simp add: m_def a_def [symmetric] div_pos_geq)
    moreover have "l = 6" "h = 29 \<or> h = 28 \<and> 10 < a" using True a h l by linarith+
    ultimately show ?thesis by (simp add: a_def)
  next
    case False
    then have "m = 0" using a h l by (simp add: m_def a_def [symmetric])
    moreover have "\<not> ((h = 29 \<or> h = 28 \<and> 10 < a) \<and> l = 6)" using False a by auto
    ultimately show ?thesis by (auto simp: a_def)
  qed
  show s: "0 \<le> h + l - 7 * m" "h + l - 7 * m \<le> 34" using m h l by (auto split: if_splits)
  define s where "s = h + l - 7 * m"
  have lin: "0 \<le> b - F + 1 \<and> 0 \<le> 19 * a + b - D - T + 15"
    if "25 * F \<le> b + 8 \<and> b + 8 < 25 * F + 25" "4 * D \<le> b \<and> b < 4 * D + 4"
      "3 * T \<le> b - F + 1 \<and> b - F + 1 < 3 * T + 3" for F D T
    using that a b by auto
  have g: "0 \<le> b - (b + 8) div 25 + 1 \<and> 0 \<le> 19 * a + b - b div 4 - (b - (b + 8) div 25 + 1) div 3 + 15"
    by (rule lin) (rule div_bounds; simp)+
  have "0 \<le> b mod 4" "0 \<le> c div 4" "c mod 4 \<le> 3" using c pos_mod_bound [of 4 c] by simp_all
  moreover have "0 \<le> 32 + 2 * e + 2 * i - h - j" if "0 \<le> e" "0 \<le> i" "j \<le> 3" for e i j using that h by linarith
  ultimately have k: "0 \<le> 32 + 2 * (b mod 4) + 2 * (c div 4) - h - c mod 4" by blast
  have "y smod 19 = a" "y sdiv 100 = b" "y smod 100 = c" "b sdiv 4 = b div 4" "b smod 4 = b mod 4"
    "(b + 8) sdiv 25 = (b + 8) div 25" "c sdiv 4 = c div 4" "c smod 4 = c mod 4"
    using assms(1) b c by (simp_all add: sdiv_pos smod_pos a_def b_def c_def)
  moreover have "(b - (b + 8) div 25 + 1) sdiv 3 = (b - (b + 8) div 25 + 1) div 3"
    using conjunct1 [OF g] by (rule sdiv_pos) simp
  moreover have "(19 * a + b - b div 4 - (b - (b + 8) div 25 + 1) div 3 + 15) smod 30 = h"
    unfolding h_def moonTerm_def a_def [symmetric] b_def [symmetric] by (rule smod_pos [OF conjunct2 [OF g]]) simp
  moreover have "(32 + 2 * (b mod 4) + 2 * (c div 4) - h - c mod 4) smod 7 = l"
    unfolding l_def b_def [symmetric] c_def [symmetric] by (rule smod_pos [OF k]) simp
  moreover have "(a + 11 * h + 22 * l) sdiv 451 = m"
    unfolding m_def a_def [symmetric] using a h l by (intro sdiv_pos) simp_all
  moreover have "(h + l - 7 * m + 114) sdiv 31 = (s + 114) div 31" "(h + l - 7 * m + 114) smod 31 = (s + 114) mod 31"
    using s by (simp_all add: sdiv_pos smod_pos s_def)
  ultimately have e: "easter y = Date y ((s + 114) div 31) ((s + 114) mod 31 + 1)"
    unfolding easter_def Let_def by (simp only:)
  show "easter y = Date y 3 1 + 21 + (h + l - 7 * m)"
  proof (cases "s < 10")
    case True
    then have "(s + 114) div 31 = 3" "(s + 114) mod 31 = s + 21"
      using s by (simp_all add: s_def [symmetric] div_pos_geq mod_pos_geq)
    moreover have "Date y 3 (s + 21 + 1) = Date y 3 1 + 21 + s"
      using Date_days [of 3 y 1 "s + 21"] by (simp add: algebra_simps)
    ultimately show ?thesis unfolding e s_def [symmetric] by (simp only:)
  next
    case False
    then have "(s + 114) div 31 = 4" "(s + 114) mod 31 = s - 10"
      using s by (simp_all add: s_def [symmetric] div_pos_geq mod_pos_geq)
    moreover have "Date y 4 1 = Date y 3 1 + 31" by (simp add: Date_def)
    then have "Date y 4 (s - 10 + 1) = Date y 3 1 + 21 + s"
      using Date_days [of 4 y 1 "s - 10"] by (simp add: algebra_simps)
    ultimately show ?thesis unfolding e s_def [symmetric] by (simp only:)
  qed
qed

lemma march_weekday:
  assumes "y = 100 * b + c" and "0 \<le> c" "c < 100"
  shows "Date y 3 1 = 36524 * b + 365 * c + c div 4 + b div 4 - 306"
proof -
  have "Date y 3 1 = yearStart (y + 1) - 306"
    using yearStart_Suc [of y] by (simp add: Date_def)
  also have "yearStart (y + 1) = 365 * y + y div 4 - y div 100 + y div 400" by (simp add: yearStart_def)
  also have "y div 4 = 25 * b + c div 4" unfolding assms(1) using div_mult_self4 [of 4 "25 * b" c] by simp
  also have y: "y div 100 = b" unfolding assms(1) using assms(2,3) by simp
  also have "y div 400 = b div 4" using zdiv_zmult2_eq [of 4 y 100] y by simp
  finally show ?thesis using assms(1) by simp
qed

lemma easter_sunday:
  assumes "0 \<le> y"
  shows "Weekday (easter y) = 0"
proof -
  define b c h where "b = y div 100" and "c = y mod 100" and "h = moonTerm y"
  define v where "v = 32 + 2 * (b mod 4) + 2 * (c div 4) - h - c mod 4"
  note e = easter_offset(1) [OF assms, folded b_def c_def h_def, folded v_def]
  have M: "Date y 3 1 = 36524 * b + 365 * c + c div 4 + b div 4 - 306"
    by (rule march_weekday) (simp_all add: b_def c_def)
  define m where "m = (y mod 19 + 11 * h + 22 * (v mod 7)) div 451"
  obtain q where q: "v mod 7 = v - 7 * q" using minus_mult_div_eq_mod [of v 7] by metis
  define B E I K where "B = b div 4" and "E = b mod 4" and "I = c div 4" and "K = c mod 4"
  have v: "v = 32 + 2 * E + 2 * I - h - K" by (simp add: v_def E_def I_def K_def)
  have bc: "b = 4 * B + E" "c = 4 * I + K" by (simp_all add: B_def E_def I_def K_def)
  have "easter y + 1 = 36524 * b + 365 * c + I + B - 306 + 21 + (h + (v - 7 * q) - 7 * m) + 1"
    unfolding e M m_def [symmetric] unfolding q B_def I_def by simp
  also have "\<dots> = 7 * (20871 * B + 5218 * E + 209 * I + 52 * K - 36 - q - m)"
    unfolding v bc by simp
  finally show ?thesis unfolding Weekday_def by (simp only: mod_mult_self1_is_0)
qed

text \<open>C37: Easter is computed right. For every year the code's date is the first Sunday after the
  paschal full moon of the ecclesiastical calendar (golden number and epact with both of its
  exceptions), and it falls on 22 March to 25 April.\<close>

theorem easter_correct:
  assumes "0 \<le> year"
  shows "Weekday (easter year) = 0 \<and> paschalMoon year < easter year \<and> easter year \<le> paschalMoon year + 7
    \<and> Date year 3 22 \<le> easter year \<and> easter year \<le> Date year 4 25"
proof -
  define h where "h = moonTerm year"
  define late where "late \<longleftrightarrow> 10 < year mod 19"
  define l where "l = (32 + 2 * (year div 100 mod 4) + 2 * (year mod 100 div 4) - h - year mod 100 mod 4) mod 7"
  define m where "m = (year mod 19 + 11 * h + 22 * l) div 451"
  note o = easter_offset [OF assms, folded h_def, folded l_def, folded m_def, folded late_def]
  have moon: "paschalMoon year = Date year 3 1 + 20 + (if h = 29 \<or> h = 28 \<and> late then h - 1 else h)"
    by (simp add: paschalMoon_offset h_def late_def Let_def)
  have "0 \<le> l" "l \<le> 6" by (simp_all add: l_def)
  then have near: "paschalMoon year < easter year \<and> easter year \<le> paschalMoon year + 7"
    unfolding moon o(1) o(4) by (auto split: if_splits)
  have "Date year 3 22 = Date year 3 1 + 21" "Date year 4 25 = Date year 3 1 + 55" by (simp_all add: Date_def)
  with o(1-3) near easter_sunday [OF assms] show ?thesis by simp
qed

lemma easter_correct_witness:
  "Weekday (easter 2025) = 0 \<and> paschalMoon 2025 < easter 2025 \<and> easter 2025 \<le> paschalMoon 2025 + 7
    \<and> Date 2025 3 22 \<le> easter 2025 \<and> easter 2025 \<le> Date 2025 4 25"
  by (rule easter_correct) simp

section \<open>Holidays in order\<close>

lemma easter_range: "0 \<le> y \<Longrightarrow> Date y 3 1 + 21 \<le> easter y \<and> easter y \<le> Date y 3 1 + 55"
proof -
  have "d + 21 \<le> e \<and> e \<le> d + 55" if "e = d + 21 + s" "0 \<le> s" "s \<le> 34" for e d s :: int using that by simp
  then show "0 \<le> y \<Longrightarrow> Date y 3 1 + 21 \<le> easter y \<and> easter y \<le> Date y 3 1 + 55"
    using easter_offset(1-3) by blast
qed

lemma Date_march:
  "Date y 1 d = Date y 3 1 - (if leap y then 60 else 59) + d - 1" "Date y 5 d = Date y 3 1 + 60 + d"
  "Date y 8 d = Date y 3 1 + 152 + d" "Date y 11 d = Date y 3 1 + 244 + d" "Date y 12 d = Date y 3 1 + 274 + d"
  by (simp_all add: Date_def)

lemma holiday_date [simp]: "ho_Date (holiday d n) = d"
  by (simp add: holiday_def)

lemma holidays_sorted:
  assumes "0 \<le> y"
  shows "sorted_wrt (<) (map ho_Date (PolishHolidays y))"
    "h \<in> set (PolishHolidays y) \<Longrightarrow> Date y 1 1 \<le> ho_Date h \<and> ho_Date h < Date y 12 27"
  using easter_range [OF assms] by (auto simp: PolishHolidays_def Let_def Date_march)

lemma holiday_year:
  assumes "0 \<le> y" and "h \<in> set (PolishHolidays y)"
  shows "yearOf (ho_Date h) = y"
proof (rule yearOf_eq)
  have "Date y 1 1 = yearStart y" "Date y 12 27 \<le> yearStart (y + 1)"
    using yearStart_Suc [of y] by (simp_all add: Date_def)
  with holidays_sorted(2) [OF assms] show "yearStart y \<le> ho_Date h" "ho_Date h < yearStart (y + 1)" by auto
qed

lemma HolidayName_iff: "snd (HolidayName d) \<longleftrightarrow> d \<in> ho_Date ` set (PolishHolidays (yearOf d))"
  by (auto simp: HolidayName_def Let_def find_None_iff find_Some_iff image_iff split: option.split) (metis nth_mem)+

lemma yearOf_mono: "d \<le> e \<Longrightarrow> yearOf d \<le> yearOf e"
  using yearOf_spec [of d] yearOf_spec [of e] yearStart_mono [of "yearOf e + 1" "yearOf d"] by linarith

lemma HolidaysBetween_set:
  assumes "0 \<le> yearOf from"
  shows "h \<in> set (HolidaysBetween from to) \<longleftrightarrow>
    h \<in> set (PolishHolidays (yearOf (ho_Date h))) \<and> from \<le> ho_Date h \<and> ho_Date h \<le> to"
proof
  assume "h \<in> set (HolidaysBetween from to)"
  then obtain y where "yearOf from \<le> y" "h \<in> set (PolishHolidays y)" "from \<le> ho_Date h" "ho_Date h \<le> to"
    by (auto simp: HolidaysBetween_def Let_def)
  with holiday_year [of y h] assms
  show "h \<in> set (PolishHolidays (yearOf (ho_Date h))) \<and> from \<le> ho_Date h \<and> ho_Date h \<le> to" by auto
next
  assume "h \<in> set (PolishHolidays (yearOf (ho_Date h))) \<and> from \<le> ho_Date h \<and> ho_Date h \<le> to"
  then show "h \<in> set (HolidaysBetween from to)"
    using yearOf_mono [of "from" "ho_Date h"] yearOf_mono [of "ho_Date h" "to"] by (auto simp: HolidaysBetween_def Let_def)
qed

lemma sorted_wrt_concat:
  assumes "\<And>y. y \<in> set ys \<Longrightarrow> sorted_wrt R (f y)"
    and "\<And>y z a b. y \<in> set ys \<Longrightarrow> z \<in> set ys \<Longrightarrow> y < z \<Longrightarrow> a \<in> set (f y) \<Longrightarrow> b \<in> set (f z) \<Longrightarrow> R a b"
    and "sorted_wrt (<) ys"
  shows "sorted_wrt R (concat (map f ys))"
  using assms
proof (induction ys)
  case (Cons y ys)
  have "sorted_wrt R (concat (map f ys))"
    by (rule Cons.IH) (use Cons.prems in \<open>simp_all, blast\<close>)
  moreover have "R a b" if "a \<in> set (f y)" "z \<in> set ys" "b \<in> set (f z)" for a b z
    by (rule Cons.prems(2) [of y z]) (use that Cons.prems(3) in auto)
  ultimately show ?case using Cons.prems(1) [of y] by (auto simp: sorted_wrt_append)
qed simp

text \<open>The holidays between two dates are listed completely and in order: every Polish public
  holiday of the period, of each year it touches, stands in the list exactly once, and the dates
  ascend strictly.\<close>

theorem HolidaysBetween_exact:
  assumes "0 \<le> yearOf from"
  shows "sorted_wrt (<) (map ho_Date (HolidaysBetween from to))
    \<and> set (HolidaysBetween from to)
      = {h. h \<in> set (PolishHolidays (yearOf (ho_Date h))) \<and> from \<le> ho_Date h \<and> ho_Date h \<le> to}"
proof (intro conjI)
  have le: "0 \<le> y" if "y \<in> set [yearOf from..yearOf to]" for y using that assms by simp
  let ?f = "\<lambda>y. filter (\<lambda>h. \<not> ho_Date h < from \<and> \<not> to < ho_Date h) (PolishHolidays y)"
  have "sorted_wrt (\<lambda>h k. ho_Date h < ho_Date k) (concat (map ?f [yearOf from..yearOf to]))"
  proof (rule sorted_wrt_concat)
    fix y assume "y \<in> set [yearOf from..yearOf to]"
    then show "sorted_wrt (\<lambda>h k. ho_Date h < ho_Date k) (?f y)"
      using holidays_sorted(1) [OF le, of y] by (simp add: sorted_wrt_map sorted_wrt_filter)
  next
    fix y z a b
    assume yz: "y \<in> set [yearOf from..yearOf to]" "z \<in> set [yearOf from..yearOf to]" "y < z"
      and ab: "a \<in> set (?f y)" "b \<in> set (?f z)"
    then have "yearOf (ho_Date a) = y" "yearOf (ho_Date b) = z" using holiday_year le by auto
    with yz(3) yearOf_mono [of "ho_Date b" "ho_Date a"] show "ho_Date a < ho_Date b" by linarith
  qed simp
  then show "sorted_wrt (<) (map ho_Date (HolidaysBetween from to))"
    by (simp add: HolidaysBetween_def Let_def sorted_wrt_map)
qed (use HolidaysBetween_set [OF assms] in blast)

lemma year_2025: "yearOf (Date 2025 1 1) = 2025"
  by (rule Date_read) (simp add: validDate_def monthLength_def)

lemma HolidaysBetween_exact_witness:
  "sorted_wrt (<) (map ho_Date (HolidaysBetween (Date 2025 1 1) (Date 2026 1 6)))
    \<and> set (HolidaysBetween (Date 2025 1 1) (Date 2026 1 6))
      = {h. h \<in> set (PolishHolidays (yearOf (ho_Date h))) \<and> Date 2025 1 1 \<le> ho_Date h \<and> ho_Date h \<le> Date 2026 1 6}"
  by (rule HolidaysBetween_exact) (simp add: year_2025)

section \<open>Working days\<close>

lemma IsWorkingDay_iff:
  "IsWorkingDay d \<longleftrightarrow> Weekday d \<noteq> 0 \<and> Weekday d \<noteq> 6 \<and> d \<notin> ho_Date ` set (PolishHolidays (yearOf d))"
  by (auto simp: IsWorkingDay_def HolidayName_iff)

lemma countFrom_card: "countFrom d to n = n + int (card {x \<in> {d..to}. IsWorkingDay x})"
proof (induction d to n rule: countFrom.induct)
  case (1 d to n)
  show ?case
  proof (cases "to < d")
    case False
    have "{x \<in> {d..to}. IsWorkingDay x} =
        (if IsWorkingDay d then insert d {x \<in> {d + 1..to}. IsWorkingDay x} else {x \<in> {d + 1..to}. IsWorkingDay x})"
      using False by (auto simp: order_le_less)
    moreover have "finite {x \<in> {d + 1..to}. IsWorkingDay x}" by (rule finite_subset [of _ "{d + 1..to}"]) auto
    ultimately show ?thesis using 1 False by (subst countFrom.simps) simp
  qed (simp add: countFrom.simps)
qed

text \<open>Working days are counted exactly. The loop ends, and its count is the number of days of
  the period, both ends included, that are neither Saturday nor Sunday nor one of the listed
  holidays; it is 0 when the period is empty.\<close>

theorem WorkingDays_exact:
  assumes "0 \<le> yearOf from"
  shows "WorkingDays from to =
    int (card {d. from \<le> d \<and> d \<le> to \<and> Weekday d \<noteq> 0 \<and> Weekday d \<noteq> 6
      \<and> d \<notin> ho_Date ` set (HolidaysBetween from to)})"
proof -
  have "d \<in> ho_Date ` set (HolidaysBetween from to) \<longleftrightarrow> d \<in> ho_Date ` set (PolishHolidays (yearOf d))"
    if "from \<le> d" "d \<le> to" for d
    using that HolidaysBetween_set [OF assms] by (auto simp: image_iff)
  then have "{x \<in> {from..to}. IsWorkingDay x} = {d. from \<le> d \<and> d \<le> to \<and> Weekday d \<noteq> 0 \<and> Weekday d \<noteq> 6
      \<and> d \<notin> ho_Date ` set (HolidaysBetween from to)}"
    by (auto simp: IsWorkingDay_iff)
  then show ?thesis by (simp add: WorkingDays_def countFrom_card)
qed


lemma WorkingDays_exact_witness:
  "WorkingDays (Date 2025 1 1) (Date 2025 12 31) =
    int (card {d. Date 2025 1 1 \<le> d \<and> d \<le> Date 2025 12 31 \<and> Weekday d \<noteq> 0 \<and> Weekday d \<noteq> 6
      \<and> d \<notin> ho_Date ` set (HolidaysBetween (Date 2025 1 1) (Date 2025 12 31))})"
  by (rule WorkingDays_exact) (simp add: year_2025)

end
