(* ===== verification/Worklog.thy ===== *)
theory Worklog
  imports EmailOp Calendar
begin

text \<open>
  server/jira\_worklog.go: time tracking on Tempo worklogs, with Jira for accounts and issues, and
  the map of activities in a file beside the configuration. Hours are kept as hundredths in an
  \<open>int\<close>: for times below \<open>2 ^ 45\<close> seconds the rounded doubles of the sources are exactly these
  numbers divided by 100. The two paging loops run while the upstream hands out further pages;
  their fuel \<open>wl_pages\<close> bounds the pages followed, and a run that exhausts it (or meets the one
  panic of the file) ends in \<open>WlNoReturn\<close>, which stands for a request that is not answered.
\<close>

section \<open>Clients\<close>

record restClient =
  rc_api :: string
  rc_baseURL :: string
  rc_headers :: "string gomap"
  rc_insecure :: bool

record jiraClient =
  jc_jira :: restClient
  jc_tempo :: restClient

datatype worklogError =
    WlSite string
  | WlOnlyEnv string
  | WlEnv envError
  | WlBaseURL string
  | WlCredentials string secretError
  | WlUpstream restError
  | WlReturned string string string int string
  | WlUnreadable string string
  | WlAccount
  | WlTooManyIssues
  | WlDate string
  | WlDateParam string
  | WlHours
  | WlHoursSmall
  | WlHoursMissing
  | WlKey
  | WlProject string
  | WlAction string string
  | WlKeyOrActivity
  | WlActivity string
  | WlStart
  | WlIssueID string
  | WlWorklogID
  | WlNotOn string string
  | WlBelongs string string
  | WlNothing
  | WlActivityName
  | WlReadMap string
  | WlMapInvalid string
  | WlWriteMap string
  | WlNoReturn

text \<open>What lies outside: the network, the calendar day and minute in Warsaw, files, the directory of a path.\<close>

record worklogEnv =
  wl_up :: upstream
  wl_today :: date
  wl_minute :: string
  wl_beside :: "string \<Rightarrow> string \<Rightarrow> string"  \<comment> \<open>\<open>Join(Dir(p), name)\<close>\<close>
  wl_files :: fsFaults
  wl_pages :: nat

definition worklogMaxIssues :: nat where "worklogMaxIssues = 500"
definition worklogDefaultStart :: string where "worklogDefaultStart = ''09:00''"
definition worklogTempoSite :: string where "worklogTempoSite = ''tempo''"
definition worklogTimezone :: string where "worklogTimezone = ''Europe/Warsaw''"
definition worklogTempoPage :: nat where "worklogTempoPage = 1000"
definition worklogSearchChunk :: nat where "worklogSearchChunk = 100"

definition newRestClient ::
    "golib \<Rightarrow> upstream \<Rightarrow> string \<Rightarrow> string \<Rightarrow> Site \<Rightarrow> params \<Rightarrow> string \<Rightarrow> 's world
       \<Rightarrow> (worklogError + restClient) \<times> 's world" where
  "newRestClient L U api siteName site ps workspace w =
     (case resolveEnv site siteName ps of
        Inl e \<Rightarrow> (Inl (WlEnv e), w)
      | Inr (envName, env) \<Rightarrow>
          if env_BaseURL env = [] then (Inl (WlBaseURL envName), w)
          else (let plain = [(''Accept'', ''application/json''), (''Content-Type'', ''application/json'')];
                    client = (\<lambda>headers. \<lparr>rc_api = api, rc_baseURL = trimSuffix (env_BaseURL env) ''/'',
                      rc_headers = headers, rc_insecure = env_InsecureSkipVerify env\<rparr>);
                    kind = auth_Type (env_Auth env)
                in if env_SecretRef env \<noteq> [] \<and> (kind = ''basic'' \<or> kind = ''bearer'') then
                     (case resolveRef L U (env_SecretRef env) workspace w of
                        (Inl e, w) \<Rightarrow> (Inl (WlCredentials (env_SecretRef env) e), w)
                      | (Inr secret, w) \<Rightarrow>
                          if kind = ''basic'' then
                            (let (enc, w) = base64Auth L (env_User env) (trimSpace secret) w
                             in (Inr (client (plain @ [(''Authorization'', ''Basic '' @ enc)])), w))
                          else (Inr (client (plain @ [(''Authorization'', ''Bearer '' @ trimSpace secret)])), w))
                   else (Inr (client plain), w)))"

definition newJiraClient ::
    "golib \<Rightarrow> upstream \<Rightarrow> Workspace \<Rightarrow> Operation \<Rightarrow> params \<Rightarrow> string \<Rightarrow> 's world
       \<Rightarrow> (worklogError + jiraClient) \<times> 's world" where
  "newJiraClient L U ws op ps workspace w =
     (case mget (ws_Sites ws) (op_Site op) of
        None \<Rightarrow> (Inl (WlSite (op_Site op)), w)
      | Some site \<Rightarrow>
          (let e = strParam ps ''env''
           in if e \<noteq> [] \<and> site_DefaultEnv site \<noteq> [] \<and> e \<noteq> site_DefaultEnv site
              then (Inl (WlOnlyEnv (site_DefaultEnv site)), w)
              else andThen (newRestClient L U ''jira'' (op_Site op) site ps workspace w) (\<lambda>jira w.
                (case mget (ws_Sites ws) worklogTempoSite of
                   None \<Rightarrow> (Inl (WlSite worklogTempoSite), w)
                 | Some tempoSite \<Rightarrow>
                     andThen (newRestClient L U ''tempo'' worklogTempoSite tempoSite [] workspace w) (\<lambda>tempo w.
                       (Inr \<lparr>jc_jira = jira, jc_tempo = tempo\<rparr>, w))))))"

section \<open>One request\<close>

definition beforeQuery :: "string \<Rightarrow> string" where
  "beforeQuery path = takeWhile (\<lambda>c. c \<noteq> CHR ''?'') path"

definition restCall ::
    "golib \<Rightarrow> upstream \<Rightarrow> restClient \<Rightarrow> string \<Rightarrow> string \<Rightarrow> json option \<Rightarrow> 's world
       \<Rightarrow> (worklogError + string) \<times> 's world" where
  "restCall L U c method path body w =
     (case Execute L U \<lparr>rq_Method = method, rq_Path = rc_baseURL c @ path, rq_Headers = rc_headers c,
         rq_Body = map_option (encodeJson L) body, rq_Credentials = None, rq_Insecure = rc_insecure c,
         rq_MaxBodyBytes = 0\<rparr> w of
        (Inl e, w) \<Rightarrow> (Inl (WlUpstream e), w)
      | (Inr resp, w) \<Rightarrow>
          if 400 \<le> rs_StatusCode resp
          then (Inl (WlReturned (rc_api c) method (beforeQuery path) (rs_StatusCode resp) (take 300 (rs_Body resp))), w)
          else (Inr (rs_Body resp), w))"

text \<open>\<open>do\<close> with a value to decode into: \<open>step\<close> decodes into the zero value \<open>z\<close>; an empty body leaves it.\<close>

definition restDo ::
    "golib \<Rightarrow> upstream \<Rightarrow> restClient \<Rightarrow> string \<Rightarrow> string \<Rightarrow> json option \<Rightarrow> ('a \<Rightarrow> json \<Rightarrow> 'a option) \<Rightarrow> 'a
       \<Rightarrow> 's world \<Rightarrow> (worklogError + 'a) \<times> 's world" where
  "restDo L U c method path body step z w =
     andThen (restCall L U c method path body w) (\<lambda>text w.
       if text = [] then (Inr z, w)
       else (case optBind (lib_decode L text) (step z) of
               None \<Rightarrow> (Inl (WlUnreadable (rc_api c) (beforeQuery path)), w)
             | Some x \<Rightarrow> (Inr x, w)))"

section \<open>Decoding\<close>

text \<open>A nested struct, a slice of structs, a pointer to a struct.\<close>

definition objStep :: "('a \<Rightarrow> params \<Rightarrow> 'a option) \<Rightarrow> 'a \<Rightarrow> json \<Rightarrow> 'a option" where
  "objStep dec cur v = (case v of JObj kvs \<Rightarrow> dec cur kvs | JNull \<Rightarrow> Some cur | _ \<Rightarrow> None)"

definition arrStep :: "('a \<Rightarrow> params \<Rightarrow> 'a option) \<Rightarrow> 'a \<Rightarrow> 'a list \<Rightarrow> json \<Rightarrow> 'a list option" where
  "arrStep dec z cur v =
     (case v of JArr vs \<Rightarrow> those (map (objStep dec z) vs) | JNull \<Rightarrow> Some [] | _ \<Rightarrow> None)"

definition ptrStep :: "('a \<Rightarrow> params \<Rightarrow> 'a option) \<Rightarrow> 'a \<Rightarrow> 'a option \<Rightarrow> json \<Rightarrow> 'a option option" where
  "ptrStep dec z cur v =
     (case v of
        JObj kvs \<Rightarrow> map_option Some (dec (case cur of None \<Rightarrow> z | Some x \<Rightarrow> x) kvs)
      | JNull \<Rightarrow> Some None
      | _ \<Rightarrow> None)"

text \<open>A struct of one field.\<close>

definition oneField :: "golib \<Rightarrow> string \<Rightarrow> ('a \<Rightarrow> json \<Rightarrow> 'a option) \<Rightarrow> 'a \<Rightarrow> json \<Rightarrow> 'a option" where
  "oneField L name step = objStep (\<lambda>cur kvs. structFold L name step cur kvs)"

record jiraUser =
  ju_AccountID :: string
  ju_DisplayName :: string

definition zeroUser :: jiraUser where
  "zeroUser = \<lparr>ju_AccountID = [], ju_DisplayName = []\<rparr>"

definition userStep :: "golib \<Rightarrow> jiraUser \<Rightarrow> json \<Rightarrow> jiraUser option" where
  "userStep L = objStep (\<lambda>u kvs.
     optBind (structFold L ''accountId'' strStep (ju_AccountID u) kvs) (\<lambda>a.
     optBind (structFold L ''displayName'' strStep (ju_DisplayName u) kvs) (\<lambda>d.
       Some \<lparr>ju_AccountID = a, ju_DisplayName = d\<rparr>)))"

record tempoAttribute =
  ta_Key :: string
  ta_Value :: string

definition attributeFields :: "golib \<Rightarrow> tempoAttribute \<Rightarrow> params \<Rightarrow> tempoAttribute option" where
  "attributeFields L a kvs =
     optBind (structFold L ''key'' strStep (ta_Key a) kvs) (\<lambda>k.
     optBind (structFold L ''value'' strStep (ta_Value a) kvs) (\<lambda>v. Some \<lparr>ta_Key = k, ta_Value = v\<rparr>))"

record tempoWorklog =
  tw_TempoWorklogID :: int
  tw_IssueID :: int
  tw_AuthorAccountID :: string
  tw_StartDate :: string
  tw_StartTime :: string
  tw_TimeSpentSeconds :: int
  tw_BillableSeconds :: int
  tw_Description :: string
  tw_Attributes :: "tempoAttribute list"

definition zeroWorklog :: tempoWorklog where
  "zeroWorklog =
     \<lparr>tw_TempoWorklogID = 0, tw_IssueID = 0, tw_AuthorAccountID = [], tw_StartDate = [], tw_StartTime = [],
      tw_TimeSpentSeconds = 0, tw_BillableSeconds = 0, tw_Description = [], tw_Attributes = []\<rparr>"

definition worklogFields :: "golib \<Rightarrow> tempoWorklog \<Rightarrow> params \<Rightarrow> tempoWorklog option" where
  "worklogFields L t kvs =
     optBind (structFold L ''tempoWorklogId'' intStep (tw_TempoWorklogID t) kvs) (\<lambda>tid.
     optBind (structFold L ''issue'' (oneField L ''id'' intStep) (tw_IssueID t) kvs) (\<lambda>issue.
     optBind (structFold L ''author'' (oneField L ''accountId'' strStep) (tw_AuthorAccountID t) kvs) (\<lambda>author.
     optBind (structFold L ''startDate'' strStep (tw_StartDate t) kvs) (\<lambda>startDate.
     optBind (structFold L ''startTime'' strStep (tw_StartTime t) kvs) (\<lambda>startTime.
     optBind (structFold L ''timeSpentSeconds'' intStep (tw_TimeSpentSeconds t) kvs) (\<lambda>spent.
     optBind (structFold L ''billableSeconds'' intStep (tw_BillableSeconds t) kvs) (\<lambda>billable.
     optBind (structFold L ''description'' strStep (tw_Description t) kvs) (\<lambda>description.
     optBind (structFold L ''attributes''
         (oneField L ''values'' (arrStep (attributeFields L) \<lparr>ta_Key = [], ta_Value = []\<rparr>)) (tw_Attributes t) kvs) (\<lambda>attributes.
       Some \<lparr>tw_TempoWorklogID = tid, tw_IssueID = issue, tw_AuthorAccountID = author, tw_StartDate = startDate,
         tw_StartTime = startTime, tw_TimeSpentSeconds = spent, tw_BillableSeconds = billable,
         tw_Description = description, tw_Attributes = attributes\<rparr>)))))))))"

record worklogPage =
  tp_Next :: string
  tp_Results :: "tempoWorklog list"

definition pageStep :: "golib \<Rightarrow> worklogPage \<Rightarrow> json \<Rightarrow> worklogPage option" where
  "pageStep L = objStep (\<lambda>p kvs.
     optBind (structFold L ''metadata'' (oneField L ''next'' strStep) (tp_Next p) kvs) (\<lambda>next.
     optBind (structFold L ''results'' (arrStep (worklogFields L) zeroWorklog) (tp_Results p) kvs) (\<lambda>results.
       Some \<lparr>tp_Next = next, tp_Results = results\<rparr>)))"

record jiraIssueRef =
  ir_ID :: string
  ir_Key :: string
  ir_Summary :: string
  ir_IssueType :: string
  ir_Status :: string
  ir_Parent :: "string option"
  ir_OriginalEstimate :: int
  ir_RemainingEstimate :: int
  ir_TimeSpent :: int

definition zeroIssue :: jiraIssueRef where
  "zeroIssue =
     \<lparr>ir_ID = [], ir_Key = [], ir_Summary = [], ir_IssueType = [], ir_Status = [], ir_Parent = None,
      ir_OriginalEstimate = 0, ir_RemainingEstimate = 0, ir_TimeSpent = 0\<rparr>"

definition trackingFields :: "golib \<Rightarrow> jiraIssueRef \<Rightarrow> params \<Rightarrow> jiraIssueRef option" where
  "trackingFields L r kvs =
     optBind (structFold L ''originalEstimateSeconds'' intStep (ir_OriginalEstimate r) kvs) (\<lambda>a.
     optBind (structFold L ''remainingEstimateSeconds'' intStep (ir_RemainingEstimate r) kvs) (\<lambda>b.
     optBind (structFold L ''timeSpentSeconds'' intStep (ir_TimeSpent r) kvs) (\<lambda>c.
       Some (r\<lparr>ir_OriginalEstimate := a, ir_RemainingEstimate := b, ir_TimeSpent := c\<rparr>))))"

definition issueFields :: "golib \<Rightarrow> jiraIssueRef \<Rightarrow> params \<Rightarrow> jiraIssueRef option" where
  "issueFields L r kvs =
     optBind (structFold L ''summary'' strStep (ir_Summary r) kvs) (\<lambda>summary.
     optBind (structFold L ''issuetype'' (oneField L ''name'' strStep) (ir_IssueType r) kvs) (\<lambda>type.
     optBind (structFold L ''status'' (oneField L ''name'' strStep) (ir_Status r) kvs) (\<lambda>status.
     optBind (structFold L ''parent'' (ptrStep (\<lambda>k kvs. structFold L ''key'' strStep k kvs) []) (ir_Parent r) kvs) (\<lambda>parent.
     structFold L ''timetracking'' (objStep (trackingFields L))
       (r\<lparr>ir_Summary := summary, ir_IssueType := type, ir_Status := status, ir_Parent := parent\<rparr>) kvs))))"

definition issueRefFields :: "golib \<Rightarrow> jiraIssueRef \<Rightarrow> params \<Rightarrow> jiraIssueRef option" where
  "issueRefFields L r kvs =
     optBind (structFold L ''id'' strStep (ir_ID r) kvs) (\<lambda>i.
     optBind (structFold L ''key'' strStep (ir_Key r) kvs) (\<lambda>k.
       structFold L ''fields'' (objStep (issueFields L)) (r\<lparr>ir_ID := i, ir_Key := k\<rparr>) kvs))"

definition parentKey :: "jiraIssueRef \<Rightarrow> string" where
  "parentKey r = (case ir_Parent r of None \<Rightarrow> [] | Some k \<Rightarrow> k)"

record searchPage =
  sp_Issues :: "jiraIssueRef list"
  sp_NextPageToken :: string
  sp_IsLast :: bool

definition searchStep :: "golib \<Rightarrow> searchPage \<Rightarrow> json \<Rightarrow> searchPage option" where
  "searchStep L = objStep (\<lambda>p kvs.
     optBind (structFold L ''issues'' (arrStep (issueRefFields L) zeroIssue) (sp_Issues p) kvs) (\<lambda>issues.
     optBind (structFold L ''nextPageToken'' strStep (sp_NextPageToken p) kvs) (\<lambda>next.
     optBind (structFold L ''isLast'' boolStep (sp_IsLast p) kvs) (\<lambda>last.
       Some \<lparr>sp_Issues = issues, sp_NextPageToken = next, sp_IsLast = last\<rparr>))))"

section \<open>Jira and Tempo\<close>

definition myself :: "golib \<Rightarrow> upstream \<Rightarrow> jiraClient \<Rightarrow> 's world \<Rightarrow> (worklogError + jiraUser) \<times> 's world" where
  "myself L U c w =
     andThen (restDo L U (jc_jira c) ''GET'' ''/rest/api/3/myself'' None (userStep L) zeroUser w) (\<lambda>u w.
       if ju_AccountID u = [] then (Inl WlAccount, w) else (Inr u, w))"

definition issue ::
    "golib \<Rightarrow> upstream \<Rightarrow> jiraClient \<Rightarrow> string \<Rightarrow> string \<Rightarrow> 's world \<Rightarrow> (worklogError + jiraIssueRef) \<times> 's world" where
  "issue L U c key fieldNames w =
     restDo L U (jc_jira c) ''GET''
       (''/rest/api/3/issue/'' @ PathEscape key @ ''?fields='' @ QueryEscape fieldNames) None
       (objStep (issueRefFields L)) zeroIssue w"

definition userName :: "golib \<Rightarrow> upstream \<Rightarrow> jiraClient \<Rightarrow> string \<Rightarrow> 's world \<Rightarrow> string \<times> 's world" where
  "userName L U c accountID w =
     (case restDo L U (jc_jira c) ''GET'' (''/rest/api/3/user?accountId='' @ QueryEscape accountID) None
         (userStep L) zeroUser w of
        (Inl e, w) \<Rightarrow> (accountID, w)
      | (Inr u, w) \<Rightarrow> (if ju_DisplayName u = [] then accountID else ju_DisplayName u, w))"

fun tempoPages ::
    "golib \<Rightarrow> upstream \<Rightarrow> jiraClient \<Rightarrow> string \<Rightarrow> string gomap \<Rightarrow> nat \<Rightarrow> nat \<Rightarrow> tempoWorklog list \<Rightarrow> 's world
       \<Rightarrow> (worklogError + tempoWorklog list) \<times> 's world" where
  "tempoPages L U c path q 0 offset all w = (Inl WlNoReturn, w)"
| "tempoPages L U c path q (Suc n) offset all w =
     (let q = mput ''limit'' (natDigits worklogTempoPage) (mput ''offset'' (natDigits offset) q)
      in andThen (restDo L U (jc_tempo c) ''GET'' (path @ ''?'' @ encodeValues q) None (pageStep L)
             \<lparr>tp_Next = [], tp_Results = []\<rparr> w) (\<lambda>page w.
           let all = all @ tp_Results page; offset = offset + length (tp_Results page)
           in if tp_Results page = [] \<or> tp_Next page = [] then (Inr all, w)
              else tempoPages L U c path q n offset all w))"

definition tempoWorklogs ::
    "golib \<Rightarrow> worklogEnv \<Rightarrow> jiraClient \<Rightarrow> string \<Rightarrow> string gomap \<Rightarrow> 's world
       \<Rightarrow> (worklogError + tempoWorklog list) \<times> 's world" where
  "tempoWorklogs L J c path q w = tempoPages L (wl_up J) c path q (wl_pages J) 0 [] w"

fun searchPages ::
    "golib \<Rightarrow> upstream \<Rightarrow> jiraClient \<Rightarrow> string \<Rightarrow> nat \<Rightarrow> string \<Rightarrow> jiraIssueRef list \<Rightarrow> 's world
       \<Rightarrow> (worklogError + jiraIssueRef list) \<times> 's world" where
  "searchPages L U c jql 0 token issues w = (Inl WlNoReturn, w)"
| "searchPages L U c jql (Suc n) token issues w =
     (let req = JObj ([(''jql'', JStr jql), (''maxResults'', JInt 100),
            (''fields'', JArr [JStr ''summary'', JStr ''issuetype'', JStr ''parent''])]
            @ (if token \<noteq> [] then [(''nextPageToken'', JStr token)] else []))
      in andThen (restDo L U (jc_jira c) ''POST'' ''/rest/api/3/search/jql'' (Some req) (searchStep L)
             \<lparr>sp_Issues = [], sp_NextPageToken = [], sp_IsLast = False\<rparr> w) (\<lambda>page w.
           let issues = issues @ sp_Issues page
           in if sp_IsLast page \<or> sp_NextPageToken page = [] \<or> sp_Issues page = [] then (Inr issues, w)
              else searchPages L U c jql n (sp_NextPageToken page) issues w))"

definition searchIssues ::
    "golib \<Rightarrow> worklogEnv \<Rightarrow> jiraClient \<Rightarrow> string \<Rightarrow> 's world \<Rightarrow> (worklogError + jiraIssueRef list) \<times> 's world" where
  "searchIssues L J c jql w = searchPages L (wl_up J) c jql (wl_pages J) [] [] w"

definition issueID :: "tempoWorklog \<Rightarrow> string" where
  "issueID t = showInt (tw_IssueID t)"

definition worklogID :: "tempoWorklog \<Rightarrow> string" where
  "worklogID t = showInt (tw_TempoWorklogID t)"

definition addNew :: "'a list \<Rightarrow> 'a \<Rightarrow> 'a list" where
  "addNew xs x = (if List.member xs x then xs else xs @ [x])"

fun chunks :: "nat \<Rightarrow> nat \<Rightarrow> 'a list \<Rightarrow> 'a list list" where
  "chunks n 0 xs = []"
| "chunks n (Suc k) xs = (if xs = [] then [] else take n xs # chunks n k (drop n xs))"

definition issuesJql :: "Workspace \<Rightarrow> string list \<Rightarrow> string" where
  "issuesJql ws ids =
     (let jql = ''id in ('' @ join '','' ids @ '')''; projects = wp_JiraProjects (ws_Policy ws)
      in if 0 < length projects then jql @ '' AND project in ('' @ join '','' projects @ '')'' else jql)"

fun lookUpIssues ::
    "golib \<Rightarrow> worklogEnv \<Rightarrow> jiraClient \<Rightarrow> Workspace \<Rightarrow> string list list \<Rightarrow> jiraIssueRef gomap \<Rightarrow> 's world
       \<Rightarrow> (worklogError + jiraIssueRef gomap) \<times> 's world" where
  "lookUpIssues L J c ws [] issues w = (Inr issues, w)"
| "lookUpIssues L J c ws (ids # rest) issues w =
     andThen (searchIssues L J c (issuesJql ws ids) w) (\<lambda>found w.
       lookUpIssues L J c ws rest (foldl (\<lambda>m iss. mput (ir_ID iss) iss m) issues found) w)"

definition scopedIssues ::
    "golib \<Rightarrow> worklogEnv \<Rightarrow> jiraClient \<Rightarrow> Workspace \<Rightarrow> tempoWorklog list \<Rightarrow> 's world
       \<Rightarrow> (worklogError + jiraIssueRef gomap) \<times> 's world" where
  "scopedIssues L J c ws wls w =
     (let ids = foldl addNew [] (map issueID wls)
      in if worklogMaxIssues < length ids then (Inl WlTooManyIssues, w)
         else lookUpIssues L J c ws (chunks worklogSearchChunk (length ids) ids) [] w)"

section \<open>Hours\<close>

text \<open>\<open>Round(seconds / 36)\<close>, halves away from zero: the hours in hundredths.\<close>

definition hoursOf :: "int \<Rightarrow> int" where
  "hoursOf seconds = (if 0 \<le> seconds then (seconds + 18) div 36 else - ((18 - seconds) div 36))"

text \<open>The double nearest to a number of hundredths, ties to even.\<close>

definition divEven :: "int \<Rightarrow> int \<Rightarrow> int" where
  "divEven p q =
     (let d = p div q; r = p mod q
      in if 2 * r < q then d else if q < 2 * r then d + 1 else if even d then d else d + 1)"

definition hundredths :: "int \<Rightarrow> float64" where
  "hundredths h =
     (if h mod 100 = 0 then Dyadic (h div 100) 0
      else (let n = \<bar>h\<bar>; k = 59 - bitLen (nat n); k = (if n * 2 ^ k < 100 * 2 ^ 52 then Suc k else k)
            in Dyadic (sgn h * divEven (n * 2 ^ k) 100) (- int k)))"

definition hoursText :: "golib \<Rightarrow> int \<Rightarrow> string" where
  "hoursText L h = encodeJson L (JNum (hundredths h))"

text \<open>\<open>math.Round\<close>, and the product of a double with 60.\<close>

fun roundAway :: "float64 \<Rightarrow> int" where
  "roundAway (Dyadic m e) =
     (if 0 \<le> e then m * 2 ^ nat e
      else (let d = 2 ^ nat (- e) in sgn m * ((2 * \<bar>m\<bar> + d) div (2 * d))))"

fun times60 :: "float64 \<Rightarrow> float64" where
  "times60 (Dyadic m e) =
     (let p = m * 60; b = bitLen (nat \<bar>p\<bar>)
      in if b \<le> 53 then Dyadic p e
         else Dyadic (sgn p * int (roundEven (nat \<bar>p\<bar>) (b - 53))) (e + int (b - 53)))"

section \<open>Dates in text\<close>

definition digitsVal :: "string \<Rightarrow> int" where
  "digitsVal s = foldl (\<lambda>n c. 10 * n + (of_char c - 48)) 0 s"

text \<open>\<open>time.Parse("2006-01-02", s)\<close>.\<close>

definition parseDate :: "string \<Rightarrow> date option" where
  "parseDate s =
     (let y = take 4 s; m = take 2 (drop 5 s); d = drop 8 s
      in if length s = 10 \<and> list_all isDigit (y @ m @ d) \<and> s ! 4 = CHR ''-'' \<and> s ! 7 = CHR ''-''
           \<and> validDate (digitsVal y) (digitsVal m) (digitsVal d)
         then Some (Date (digitsVal y) (digitsVal m) (digitsVal d)) else None)"

definition padZero :: "nat \<Rightarrow> int \<Rightarrow> string" where
  "padZero n i =
     (let s = natDigits (nat \<bar>i\<bar>)
      in (if i < 0 then ''-'' else []) @ replicate (n - length s) (CHR ''0'') @ s)"

definition formatDate :: "date \<Rightarrow> string" where
  "formatDate d = padZero 4 (yearOf d) @ ''-'' @ padZero 2 (monthOf d) @ ''-'' @ padZero 2 (dayOf d)"

definition weekdayName :: "date \<Rightarrow> string" where
  "weekdayName d =
     [''Sunday'', ''Monday'', ''Tuesday'', ''Wednesday'', ''Thursday'', ''Friday'', ''Saturday''] ! nat (Weekday d)"

section \<open>Parameters\<close>

definition paramDate :: "worklogEnv \<Rightarrow> params \<Rightarrow> string \<Rightarrow> worklogError + (date \<times> bool)" where
  "paramDate J ps name =
     (let s = strParam ps name
      in if s = [] then Inr (wl_today J, False)
         else (case parseDate s of None \<Rightarrow> Inl (WlDateParam name) | Some d \<Rightarrow> Inr (d, True)))"

definition paramHours :: "params \<Rightarrow> worklogError + int option" where
  "paramHours ps =
     (case mget ps ''hours'' of
        None \<Rightarrow> Inr None
      | Some v \<Rightarrow>
          (case asNumber v of
             None \<Rightarrow> Inl WlHours
           | Some h \<Rightarrow>
               if \<not> fLess (Dyadic 0 0) h \<or> fLess (Dyadic 24 0) h then Inl WlHours
               else (let minutes = roundAway (times60 h)
                     in if minutes < 1 then Inl WlHoursSmall else Inr (Some (minutes * 60)))))"

text \<open>\<open>^([A-Z][A-Z0-9_]*)-[1-9][0-9]*$\<close> and its group; \<open>^[1-9][0-9]*$\<close>; the activity and the start.\<close>

definition oneToNine :: re where
  "oneToNine = Cls (\<lambda>c. isDigit c \<and> c \<noteq> CHR ''0'')"

definition jiraIssueKeyRe :: re where
  "jiraIssueKeyRe =
     Seq (Cls isUpperLetter) (Seq (Star (Cls (\<lambda>c. isUpperLetter c \<or> isDigit c \<or> c = CHR ''_'')))
       (Seq (rChar (CHR ''-'')) (Seq oneToNine (Star (Cls isDigit)))))"

definition keyProject :: "string \<Rightarrow> string" where
  "keyProject key = takeWhile (\<lambda>c. c \<noteq> CHR ''-'') key"

definition worklogIDRe :: re where
  "worklogIDRe = Seq oneToNine (Star (Cls isDigit))"

definition worklogActivityOk :: "string \<Rightarrow> bool" where
  "worklogActivityOk s \<longleftrightarrow> s \<noteq> [] \<and> length s \<le> 40 \<and> (isLowerLetter (hd s) \<or> isDigit (hd s))
     \<and> list_all (\<lambda>c. isLowerLetter c \<or> isDigit c \<or> c = CHR ''-'') s"

definition worklogStartRe :: re where
  "worklogStartRe =
     Seq (Alt (Seq (Cls (\<lambda>c. c = CHR ''0'' \<or> c = CHR ''1'')) (Cls isDigit))
           (Seq (rChar (CHR ''2'')) (Cls (\<lambda>c. CHR ''0'' \<le> c \<and> c \<le> CHR ''3''))))
       (Seq (rChar (CHR '':'')) (Seq (Cls (\<lambda>c. CHR ''0'' \<le> c \<and> c \<le> CHR ''5'')) (Cls isDigit)))"

definition scopedIssueKey :: "Workspace \<Rightarrow> string \<Rightarrow> worklogError + unit" where
  "scopedIssueKey ws key =
     (if \<not> rmatch jiraIssueKeyRe key then Inl WlKey
      else if 0 < length (wp_JiraProjects (ws_Policy ws))
        \<and> \<not> List.member (wp_JiraProjects (ws_Policy ws)) (keyProject key)
      then Inl (WlProject (keyProject key))
      else Inr ())"

definition tempoStartTime :: "string \<Rightarrow> worklogError + string" where
  "tempoStartTime hhmm = (if \<not> rmatch worklogStartRe hhmm then Inl WlStart else Inr (hhmm @ '':00''))"

text \<open>\<open>strconv.ParseInt(s, 10, 64)\<close>.\<close>

definition parseInt64 :: "string \<Rightarrow> int option" where
  "parseInt64 s =
     (let digits = (if s \<noteq> [] \<and> (hd s = CHR ''+'' \<or> hd s = CHR ''-'') then tl s else s);
          v = digitsVal digits * (if s \<noteq> [] \<and> hd s = CHR ''-'' then - 1 else 1)
      in if digits \<noteq> [] \<and> list_all isDigit digits \<and> - (2 ^ 63) \<le> v \<and> v < 2 ^ 63 then Some v else None)"

definition issueIDNumber :: "jiraIssueRef \<Rightarrow> worklogError + int" where
  "issueIDNumber iss =
     (case parseInt64 (ir_ID iss) of None \<Rightarrow> Inl (WlIssueID (ir_Key iss)) | Some i \<Rightarrow> Inr i)"

definition dayNote :: "date \<Rightarrow> string" where
  "dayNote d =
     (case HolidayName d of
        (name, True) \<Rightarrow> formatDate d @ '' is a public holiday ('' @ name @ '')''
      | _ \<Rightarrow> if \<not> IsWorkingDay d then formatDate d @ '' is a '' @ weekdayName d else [])"

section \<open>Entries\<close>

record worklogEntry =
  we_ID :: string
  we_IssueKey :: string
  we_Summary :: string
  we_ParentKey :: string
  we_Author :: string
  we_Started :: string
  we_Hours :: int
  we_Comment :: string
  we_date :: date
  we_seconds :: int

definition startHHMM :: "tempoWorklog \<Rightarrow> string" where
  "startHHMM t = (if length (tw_StartTime t) < 5 then [] else take 5 (tw_StartTime t))"

definition toEntry :: "tempoWorklog \<Rightarrow> jiraIssueRef \<Rightarrow> worklogError + worklogEntry" where
  "toEntry t iss =
     (case parseDate (tw_StartDate t) of
        None \<Rightarrow> Inl (WlDate (tw_StartDate t))
      | Some d \<Rightarrow> Inr
          \<lparr>we_ID = worklogID t, we_IssueKey = ir_Key iss, we_Summary = ir_Summary iss,
           we_ParentKey = parentKey iss, we_Author = [],
           we_Started = trimSpace (tw_StartDate t @ '' '' @ startHHMM t), we_Hours = hoursOf (tw_TimeSpentSeconds t),
           we_Comment = tw_Description t, we_date = d, we_seconds = tw_TimeSpentSeconds t\<rparr>)"

definition entryText :: "golib \<Rightarrow> worklogEntry \<Rightarrow> string" where
  "entryText L e =
     objectText ([(''id'', jsonQuote True (we_ID e)), (''issue_key'', jsonQuote True (we_IssueKey e))]
       @ unlessEmpty ''summary'' (we_Summary e) @ unlessEmpty ''parent_key'' (we_ParentKey e)
       @ unlessEmpty ''author'' (we_Author e)
       @ [(''started'', jsonQuote True (we_Started e)), (''hours'', hoursText L (we_Hours e))]
       @ unlessEmpty ''comment'' (we_Comment e))"

fun ownEntries ::
    "string \<Rightarrow> jiraIssueRef gomap \<Rightarrow> date \<Rightarrow> date \<Rightarrow> tempoWorklog list \<Rightarrow> worklogError + worklogEntry list" where
  "ownEntries account issues since till [] = Inr []"
| "ownEntries account issues since till (t # ts) =
     (case mget issues (issueID t) of
        None \<Rightarrow> ownEntries account issues since till ts
      | Some iss \<Rightarrow>
          if tw_AuthorAccountID t \<noteq> account then ownEntries account issues since till ts
          else rbind (toEntry t iss) (\<lambda>e.
            rbind (ownEntries account issues since till ts) (\<lambda>es.
            Inr (if since \<le> we_date e \<and> we_date e \<le> till then e # es else es))))"

definition myEntries ::
    "golib \<Rightarrow> worklogEnv \<Rightarrow> jiraClient \<Rightarrow> Workspace \<Rightarrow> jiraUser \<Rightarrow> date \<Rightarrow> date \<Rightarrow> 's world
       \<Rightarrow> (worklogError + worklogEntry list) \<times> 's world" where
  "myEntries L J c ws me since till w =
     andThen (tempoWorklogs L J c (''/4/worklogs/user/'' @ PathEscape (ju_AccountID me))
         [(''from'', formatDate since), (''to'', formatDate till)] w) (\<lambda>wls w.
     andThen (scopedIssues L J c ws wls w) (\<lambda>issues w.
       (rbind (ownEntries (ju_AccountID me) issues since till wls) (\<lambda>es. Inr (sort_key we_Started es)), w)))"

section \<open>The report\<close>

definition periodRange :: "string \<Rightarrow> date \<Rightarrow> date \<times> date" where
  "periodRange period d =
     (if period = ''week'' then
        (let since = AddDate d 0 0 (- ((Weekday d + 6) mod 7)) in (since, AddDate since 0 0 6))
      else if period = ''month'' then
        (let since = Date (yearOf d) (monthOf d) 1 in (since, AddDate since 0 1 (- 1)))
      else (d, d))"

record worklogNorm =
  wn_From :: date
  wn_To :: date
  wn_WorkingDays :: int
  wn_NormHours :: int
  wn_NormToDateHours :: int
  wn_LoggedHours :: int
  wn_LeftHours :: int
  wn_OvertimeHours :: int
  wn_BalanceToDate :: int
  wn_Holidays :: "Holiday list"

definition normOf :: "date \<Rightarrow> date \<Rightarrow> date \<Rightarrow> int \<Rightarrow> worklogNorm" where
  "normOf since till asOf logged =
     (let days = WorkingDays since till; normHours = days * HoursPerDay * 100; loggedHours = hoursOf logged;
          toDate = (if since \<le> asOf
            then WorkingDays since (if asOf < till then asOf else till) * HoursPerDay * 100 else 0)
      in \<lparr>wn_From = since, wn_To = till, wn_WorkingDays = days, wn_NormHours = normHours,
          wn_NormToDateHours = toDate, wn_LoggedHours = loggedHours,
          wn_LeftHours = max (normHours - loggedHours) 0, wn_OvertimeHours = max (loggedHours - normHours) 0,
          wn_BalanceToDate = loggedHours - toDate, wn_Holidays = HolidaysBetween since till\<rparr>)"

definition holidayText :: "Holiday \<Rightarrow> string" where
  "holidayText h =
     objectText [(''date'', jsonQuote True (formatDate (ho_Date h))), (''name'', jsonQuote True (ho_Name h))]"

definition normText :: "golib \<Rightarrow> worklogNorm \<Rightarrow> string" where
  "normText L n =
     objectText ([(''from'', jsonQuote True (formatDate (wn_From n))), (''to'', jsonQuote True (formatDate (wn_To n))),
         (''working_days'', showInt (wn_WorkingDays n)), (''norm_hours'', hoursText L (wn_NormHours n)),
         (''norm_to_date_hours'', hoursText L (wn_NormToDateHours n)), (''logged_hours'', hoursText L (wn_LoggedHours n)),
         (''left_hours'', hoursText L (wn_LeftHours n)), (''overtime_hours'', hoursText L (wn_OvertimeHours n)),
         (''balance_to_date_hours'', hoursText L (wn_BalanceToDate n))]
       @ (if wn_Holidays n = [] then [] else [(''holidays'', arrayText (map holidayText (wn_Holidays n)))]))"

definition secondsBetween :: "worklogEntry list \<Rightarrow> date \<Rightarrow> date \<Rightarrow> int" where
  "secondsBetween entries a b =
     sum_list (map we_seconds (filter (\<lambda>e. a \<le> we_date e \<and> we_date e \<le> b) entries))"

record worklogIssueTotal =
  wi_Key :: string
  wi_Summary :: string
  wi_ParentKey :: string
  wi_Seconds :: int

definition addToIssue :: "worklogIssueTotal gomap \<Rightarrow> worklogEntry \<Rightarrow> worklogIssueTotal gomap" where
  "addToIssue totals e =
     (let t = (case mget totals (we_IssueKey e) of
            Some t \<Rightarrow> t
          | None \<Rightarrow> \<lparr>wi_Key = we_IssueKey e, wi_Summary = we_Summary e, wi_ParentKey = we_ParentKey e, wi_Seconds = 0\<rparr>)
      in mput (we_IssueKey e) (t\<lparr>wi_Seconds := wi_Seconds t + we_seconds e\<rparr>) totals)"

text \<open>By hours, the most first, then by key.\<close>

definition byIssue :: "worklogEntry list \<Rightarrow> worklogIssueTotal list" where
  "byIssue entries =
     sort_key (\<lambda>t. - hoursOf (wi_Seconds t)) (sort_key wi_Key (map snd (foldl addToIssue [] entries)))"

definition issueTotalText :: "golib \<Rightarrow> worklogIssueTotal \<Rightarrow> string" where
  "issueTotalText L t =
     objectText ([(''key'', jsonQuote True (wi_Key t)), (''summary'', jsonQuote True (wi_Summary t))]
       @ unlessEmpty ''parent_key'' (wi_ParentKey t) @ [(''hours'', hoursText L (hoursOf (wi_Seconds t)))])"

definition dayEntries :: "worklogEntry list \<Rightarrow> date \<Rightarrow> worklogEntry list" where
  "dayEntries entries d = filter (\<lambda>e. we_date e = d) entries"

definition dayText :: "golib \<Rightarrow> worklogEntry list \<Rightarrow> date \<Rightarrow> string" where
  "dayText L entries d =
     (let es = dayEntries entries d
      in objectText ([(''date'', jsonQuote True (formatDate d)), (''weekday'', jsonQuote True (take 3 (weekdayName d))),
             (''working_day'', if IsWorkingDay d then ''true'' else ''false'')]
           @ unlessEmpty ''holiday'' (fst (HolidayName d))
           @ [(''logged_hours'', hoursText L (hoursOf (sum_list (map we_seconds es)))),
              (''worklogs'', arrayText (map (entryText L) es))]))"

text \<open>The object is written with its keys in order; an empty list of projects counts as nil.\<close>

definition reportText :: "golib \<Rightarrow> Workspace \<Rightarrow> jiraUser \<Rightarrow> string \<Rightarrow> date \<Rightarrow> worklogEntry list \<Rightarrow> string" where
  "reportText L ws me period asOf entries =
     (let (pFrom, pTo) = periodRange period asOf; (wFrom, wTo) = periodRange ''week'' asOf;
          (mFrom, mTo) = periodRange ''month'' asOf; days = [pFrom..pTo];
          sums = secondsBetween entries;
          periodNorm = (normOf pFrom pTo asOf (sums pFrom pTo))\<lparr>wn_Holidays := []\<rparr>
      in objectText
        [(''as_of'', jsonQuote True (formatDate asOf)),
         (''month'', normText L (normOf mFrom mTo asOf (sums mFrom mTo))),
         (''period'', objectText
            [(''by_issue'', arrayText (map (issueTotalText L) (byIssue (concat (map (dayEntries entries) days))))),
             (''days'', arrayText (map (dayText L entries) days)),
             (''norm'', normText L periodNorm), (''type'', jsonQuote True period)]),
         (''projects'', sliceText (map (jsonQuote True) (wp_JiraProjects (ws_Policy ws)))),
         (''timezone'', jsonQuote True worklogTimezone), (''user'', jsonQuote True (ju_DisplayName me)),
         (''week'', normText L (normOf wFrom wTo asOf (sums wFrom wTo)))])"

definition report ::
    "golib \<Rightarrow> worklogEnv \<Rightarrow> jiraClient \<Rightarrow> Workspace \<Rightarrow> params \<Rightarrow> 's world \<Rightarrow> (worklogError + string) \<times> 's world" where
  "report L J c ws ps w =
     (let period = (if strParam ps ''period'' = [] then ''week'' else strParam ps ''period'')
      in case paramDate J ps ''date'' of
           Inl e \<Rightarrow> (Inl e, w)
         | Inr (asOf, _) \<Rightarrow>
             (let ranges = map (\<lambda>p. periodRange p asOf) [period, ''week'', ''month''];
                  since = foldl min (fst (hd ranges)) (map fst (tl ranges));
                  till = foldl max (snd (hd ranges)) (map snd (tl ranges))
              in andThen (myself L (wl_up J) c w) (\<lambda>me w.
                 andThen (myEntries L J c ws me since till w) (\<lambda>entries w.
                   (Inr (reportText L ws me period asOf entries), w)))))"

section \<open>One issue\<close>

text \<open>The display name of every author is asked for once.\<close>

fun issueEntries ::
    "golib \<Rightarrow> worklogEnv \<Rightarrow> jiraClient \<Rightarrow> jiraIssueRef \<Rightarrow> string gomap \<Rightarrow> tempoWorklog list \<Rightarrow> 's world
       \<Rightarrow> (worklogError + worklogEntry list) \<times> 's world" where
  "issueEntries L J c iss names [] w = (Inr [], w)"
| "issueEntries L J c iss names (t # ts) w =
     (case toEntry t iss of
        Inl e \<Rightarrow> (Inl e, w)
      | Inr e \<Rightarrow>
          (let (name, w) = (case mget names (tw_AuthorAccountID t) of
                 Some name \<Rightarrow> (name, w)
               | None \<Rightarrow> userName L (wl_up J) c (tw_AuthorAccountID t) w)
           in andThen (issueEntries L J c iss (mput (tw_AuthorAccountID t) name names) ts w) (\<lambda>es w.
                (Inr (e\<lparr>we_Summary := [], we_ParentKey := [], we_Author := name\<rparr> # es), w))))"

definition addToAuthor :: "int gomap \<Rightarrow> worklogEntry \<Rightarrow> int gomap" where
  "addToAuthor totals e =
     mput (we_Author e) ((case mget totals (we_Author e) of None \<Rightarrow> 0 | Some s \<Rightarrow> s) + we_seconds e) totals"

definition byAuthor :: "worklogEntry list \<Rightarrow> (string \<times> int) list" where
  "byAuthor entries = sort_key (\<lambda>(_, s). - hoursOf s) (sort_key fst (foldl addToAuthor [] entries))"

definition issueTimeText ::
    "golib \<Rightarrow> jiraIssueRef \<Rightarrow> jiraUser \<Rightarrow> tempoWorklog list \<Rightarrow> worklogEntry list \<Rightarrow> string" where
  "issueTimeText L iss me wls entries =
     (let q = jsonQuote True; hours = (\<lambda>s. hoursText L (hoursOf s));
          mine = filter (\<lambda>t. tw_AuthorAccountID t = ju_AccountID me) wls
      in objectText
        [(''by_author'', arrayText (map (\<lambda>(name, s). objectText [(''author'', q name), (''hours'', hours s)]) (byAuthor entries))),
         (''issue_type'', q (ir_IssueType iss)), (''key'', q (ir_Key iss)),
         (''logged_hours'', hours (sum_list (map tw_TimeSpentSeconds wls))),
         (''my_hours'', hours (sum_list (map tw_TimeSpentSeconds mine))),
         (''parent_key'', q (parentKey iss)), (''status'', q (ir_Status iss)), (''summary'', q (ir_Summary iss)),
         (''time_tracking'', objectText
            [(''original_estimate_hours'', hours (ir_OriginalEstimate iss)),
             (''remaining_estimate_hours'', hours (ir_RemainingEstimate iss)),
             (''time_spent_hours'', hours (ir_TimeSpent iss))]),
         (''worklogs'', arrayText (map (entryText L) (sort_key we_Started entries)))])"

definition issueTime ::
    "golib \<Rightarrow> worklogEnv \<Rightarrow> jiraClient \<Rightarrow> Workspace \<Rightarrow> params \<Rightarrow> 's world \<Rightarrow> (worklogError + string) \<times> 's world" where
  "issueTime L J c ws ps w =
     (let key = strParam ps ''key''; U = wl_up J
      in andThen (scopedIssueKey ws key, w) (\<lambda>_ w.
         andThen (issue L U c key ''summary,issuetype,status,parent,timetracking'' w) (\<lambda>iss w.
         andThen (myself L U c w) (\<lambda>me w.
         andThen (tempoWorklogs L J c (''/4/worklogs/issue/'' @ PathEscape (ir_ID iss)) [] w) (\<lambda>wls w.
         andThen (issueEntries L J c iss [(ju_AccountID me, ju_DisplayName me)] wls w) (\<lambda>entries w.
           (Inr (issueTimeText L iss me wls entries), w)))))))"

section \<open>Writes\<close>

text \<open>The map of activities; \<open>None\<close> is the nil map that a file with \<open>null\<close> decodes to.\<close>

record worklogActivity =
  ac_Key :: string
  ac_Summary :: string
  ac_IssueType :: string
  ac_Updated :: string

definition activityFields :: "golib \<Rightarrow> worklogActivity \<Rightarrow> params \<Rightarrow> worklogActivity option" where
  "activityFields L a kvs =
     optBind (structFold L ''key'' strStep (ac_Key a) kvs) (\<lambda>k.
     optBind (structFold L ''summary'' strStep (ac_Summary a) kvs) (\<lambda>s.
     optBind (structFold L ''issue_type'' strStep (ac_IssueType a) kvs) (\<lambda>i.
     optBind (structFold L ''updated'' strStep (ac_Updated a) kvs) (\<lambda>u.
       Some \<lparr>ac_Key = k, ac_Summary = s, ac_IssueType = i, ac_Updated = u\<rparr>))))"

definition zeroActivity :: worklogActivity where
  "zeroActivity = \<lparr>ac_Key = [], ac_Summary = [], ac_IssueType = [], ac_Updated = []\<rparr>"

fun activityEntries :: "golib \<Rightarrow> params \<Rightarrow> worklogActivity gomap \<Rightarrow> worklogActivity gomap option" where
  "activityEntries L [] acts = Some acts"
| "activityEntries L ((name, v) # kvs) acts =
     (case objStep (activityFields L) zeroActivity v of
        None \<Rightarrow> None
      | Some a \<Rightarrow> activityEntries L kvs (mput name a acts))"

definition worklogActivitiesPath :: "worklogEnv \<Rightarrow> Config \<Rightarrow> string \<Rightarrow> string" where
  "worklogActivitiesPath J cfg workspace =
     wl_beside J (cfg_ConfigPath cfg) (''worklog-activities.'' @ workspace @ ''.json'')"

definition loadWorklogActivities ::
    "golib \<Rightarrow> worklogEnv \<Rightarrow> Config \<Rightarrow> string \<Rightarrow> 's world \<Rightarrow> worklogError + worklogActivity gomap option" where
  "loadWorklogActivities L J cfg workspace w =
     (let path = worklogActivitiesPath J cfg workspace
      in case fs_read (wl_files J) path of
           Some e \<Rightarrow> Inl (WlReadMap e)
         | None \<Rightarrow>
             (case mget (w_files w) path of
                None \<Rightarrow> Inr (Some [])
              | Some text \<Rightarrow>
                  (case lib_decode L text of
                     Some JNull \<Rightarrow> Inr None
                   | Some (JObj kvs) \<Rightarrow>
                       (case activityEntries L kvs [] of
                          None \<Rightarrow> Inl (WlMapInvalid path) | Some acts \<Rightarrow> Inr (Some acts))
                   | _ \<Rightarrow> Inl (WlMapInvalid path))))"

definition readWorklogActivities ::
    "golib \<Rightarrow> worklogEnv \<Rightarrow> Config \<Rightarrow> string \<Rightarrow> 's world \<Rightarrow> worklogError + worklogActivity gomap option" where
  "readWorklogActivities L J cfg workspace w = loadWorklogActivities L J cfg workspace w"

definition activityPairs :: "worklogActivity \<Rightarrow> (string \<times> string) list" where
  "activityPairs a =
     [(''key'', jsonQuote True (ac_Key a)), (''summary'', jsonQuote True (ac_Summary a)),
      (''issue_type'', jsonQuote True (ac_IssueType a)), (''updated'', jsonQuote True (ac_Updated a))]"

definition sortedActivities :: "worklogActivity gomap \<Rightarrow> (string \<times> worklogActivity) list" where
  "sortedActivities acts = sort_key fst acts"

definition activitiesText :: "worklogActivity gomap option \<Rightarrow> string" where
  "activitiesText acts =
     (case acts of
        None \<Rightarrow> ''null''
      | Some m \<Rightarrow> objectText (map (\<lambda>(name, a). (name, objectText (activityPairs a))) (sortedActivities m)))"

text \<open>\<open>MarshalIndent\<close> with an indentation of two spaces.\<close>

definition eol :: string where
  "eol = [CHR 0x0A]"

definition indented :: "string \<Rightarrow> (string \<times> string) list \<Rightarrow> string" where
  "indented indent kvs =
     (if kvs = [] then ''{}''
      else ''{'' @ join '','' (map (\<lambda>(k, v). eol @ indent @ ''  '' @ jsonQuote True k @ '': '' @ v) kvs)
        @ eol @ indent @ ''}'')"

definition activitiesFile :: "worklogActivity gomap \<Rightarrow> string" where
  "activitiesFile acts =
     indented [] (map (\<lambda>(name, a). (name, indented ''  '' (activityPairs a))) (sortedActivities acts))"

definition saveWorklogActivities ::
    "worklogEnv \<Rightarrow> Config \<Rightarrow> string \<Rightarrow> worklogActivity gomap \<Rightarrow> 's world \<Rightarrow> (worklogError + unit) \<times> 's world" where
  "saveWorklogActivities J cfg workspace acts w =
     (let path = worklogActivitiesPath J cfg workspace; data = activitiesFile acts; tmp = path @ ''.tmp''
      in case fs_write (wl_files J) tmp of
           Some e \<Rightarrow> (Inl (WlWriteMap e), w\<lparr>w_files := mput tmp [] (w_files w)\<rparr>)
         | None \<Rightarrow>
             (let w = w\<lparr>w_files := mput tmp data (w_files w)\<rparr>
              in case fs_rename (wl_files J) path of
                   Some e \<Rightarrow> (Inl (WlWriteMap e), w)
                 | None \<Rightarrow> (Inr (), w\<lparr>w_files := mput path data (mdel tmp (w_files w))\<rparr>)))"

definition paramActivity :: "params \<Rightarrow> worklogError + string" where
  "paramActivity ps =
     (let name = strParam ps ''name'' in if worklogActivityOk name then Inr name else Inl WlActivityName)"

text \<open>Assigning into the nil map panics.\<close>

definition setActivity ::
    "golib \<Rightarrow> worklogEnv \<Rightarrow> Config \<Rightarrow> jiraClient \<Rightarrow> Workspace \<Rightarrow> params \<Rightarrow> string \<Rightarrow> 's world
       \<Rightarrow> (worklogError + string) \<times> 's world" where
  "setActivity L J cfg c ws ps workspace w =
     andThen (paramActivity ps, w) (\<lambda>name w.
     let key = strParam ps ''key''
     in andThen (scopedIssueKey ws key, w) (\<lambda>_ w.
        andThen (issue L (wl_up J) c key ''summary,issuetype'' w) (\<lambda>iss w.
        andThen (loadWorklogActivities L J cfg workspace w, w) (\<lambda>acts w.
        (case acts of
           None \<Rightarrow> (Inl WlNoReturn, w)
         | Some acts \<Rightarrow>
             (let acts = mput name \<lparr>ac_Key = ir_Key iss, ac_Summary = ir_Summary iss,
                    ac_IssueType = ir_IssueType iss, ac_Updated = wl_minute J\<rparr> acts
              in andThen (saveWorklogActivities J cfg workspace acts w) (\<lambda>_ w.
                   (Inr (objectText [(''activities'', activitiesText (Some acts)), (''set'', jsonQuote True name)]), w))))))))"

definition removeActivity ::
    "golib \<Rightarrow> worklogEnv \<Rightarrow> Config \<Rightarrow> params \<Rightarrow> string \<Rightarrow> 's world \<Rightarrow> (worklogError + string) \<times> 's world" where
  "removeActivity L J cfg ps workspace w =
     andThen (paramActivity ps, w) (\<lambda>name w.
     andThen (loadWorklogActivities L J cfg workspace w, w) (\<lambda>acts w.
       let acts = (case acts of None \<Rightarrow> [] | Some m \<Rightarrow> m)
       in if \<not> mhas acts name then (Inl (WlActivity name), w)
          else (let acts = mdel name acts
                in andThen (saveWorklogActivities J cfg workspace acts w) (\<lambda>_ w.
                     (Inr (objectText [(''activities'', activitiesText (Some acts)), (''removed'', jsonQuote True name)]), w)))))"

text \<open>The issue a worklog is to be added to, and the activity it stands for.\<close>

definition addKey ::
    "golib \<Rightarrow> worklogEnv \<Rightarrow> Config \<Rightarrow> params \<Rightarrow> string \<Rightarrow> 's world \<Rightarrow> worklogError + string" where
  "addKey L J cfg ps workspace w =
     (let key = strParam ps ''key''; activity = strParam ps ''activity''
      in if (key = []) = (activity = []) then Inl WlKeyOrActivity
         else if activity = [] then Inr key
         else rbind (readWorklogActivities L J cfg workspace w) (\<lambda>acts.
           (case mget (case acts of None \<Rightarrow> [] | Some m \<Rightarrow> m) activity of
              None \<Rightarrow> Inl (WlActivity activity) | Some a \<Rightarrow> Inr (ac_Key a))))"

definition required :: "'e \<Rightarrow> 'a option \<Rightarrow> 'e + 'a" where
  "required e x = (case x of None \<Rightarrow> Inl e | Some y \<Rightarrow> Inr y)"

definition noteField :: "date \<Rightarrow> (string \<times> string) list" where
  "noteField d = unlessEmpty ''note'' (dayNote d)"

definition addWorklog ::
    "golib \<Rightarrow> worklogEnv \<Rightarrow> Config \<Rightarrow> jiraClient \<Rightarrow> Workspace \<Rightarrow> params \<Rightarrow> string \<Rightarrow> 's world
       \<Rightarrow> (worklogError + string) \<times> 's world" where
  "addWorklog L J cfg c ws ps workspace w =
     (let U = wl_up J; activity = strParam ps ''activity'';
          start = (if strParam ps ''start'' = [] then worklogDefaultStart else strParam ps ''start'')
      in andThen (addKey L J cfg ps workspace w, w) (\<lambda>key w.
         andThen (scopedIssueKey ws key, w) (\<lambda>_ w.
         andThen (rbind (paramHours ps) (required WlHoursMissing), w) (\<lambda>secs w.
         andThen (paramDate J ps ''date'', w) (\<lambda>(d, _) w.
         andThen (tempoStartTime start, w) (\<lambda>startTime w.
         andThen (issue L U c key ''summary'' w) (\<lambda>iss w.
         andThen (issueIDNumber iss, w) (\<lambda>number w.
         andThen (myself L U c w) (\<lambda>me w.
         let comment = strParam ps ''comment'';
             req = JObj ([(''issueId'', JInt number), (''authorAccountId'', JStr (ju_AccountID me)),
                 (''startDate'', JStr (formatDate d)), (''startTime'', JStr startTime), (''timeSpentSeconds'', JInt secs)]
               @ (if comment \<noteq> [] then [(''description'', JStr comment)] else []))
         in andThen (restDo L U (jc_tempo c) ''POST'' ''/4/worklogs'' (Some req)
                (objStep (worklogFields L)) zeroWorklog w) (\<lambda>created w.
            andThen (toEntry created (zeroIssue\<lparr>ir_Key := ir_Key iss\<rparr>), w) (\<lambda>e w.
              (Inr (objectText (unlessEmpty ''activity'' activity @ [(''created'', ''true'')] @ noteField d
                 @ [(''worklog'', entryText L e)])), w))))))))))))"

definition ownWorklog ::
    "golib \<Rightarrow> worklogEnv \<Rightarrow> jiraClient \<Rightarrow> Workspace \<Rightarrow> params \<Rightarrow> 's world
       \<Rightarrow> (worklogError + (jiraIssueRef \<times> tempoWorklog)) \<times> 's world" where
  "ownWorklog L J c ws ps w =
     (let U = wl_up J; key = strParam ps ''key''; wid = strParam ps ''worklog_id''
      in andThen (scopedIssueKey ws key, w) (\<lambda>_ w.
         if \<not> rmatch worklogIDRe wid then (Inl WlWorklogID, w)
         else andThen (myself L U c w) (\<lambda>me w.
           andThen (restDo L U (jc_tempo c) ''GET'' (''/4/worklogs/'' @ wid) None
             (objStep (worklogFields L)) zeroWorklog w) (\<lambda>t w.
           andThen (issue L U c key ''summary'' w) (\<lambda>iss w.
             if ir_ID iss \<noteq> issueID t then (Inl (WlNotOn wid key), w)
             else if tw_AuthorAccountID t \<noteq> ju_AccountID me
             then (let (name, w) = userName L U c (tw_AuthorAccountID t) w in (Inl (WlBelongs wid name), w))
             else (Inr (iss, t), w))))))"

definition firstSet :: "string list \<Rightarrow> string" where
  "firstSet xs = (case find (\<lambda>x. x \<noteq> []) xs of None \<Rightarrow> [] | Some x \<Rightarrow> x)"

text \<open>What an update writes; an absent parameter keeps the old value, and a worklog that was billed in full stays so.\<close>

definition updateRequest ::
    "tempoWorklog \<Rightarrow> date \<Rightarrow> string \<Rightarrow> int \<Rightarrow> string \<Rightarrow> json" where
  "updateRequest old d startTime secs comment =
     JObj ([(''authorAccountId'', JStr (tw_AuthorAccountID old)), (''startDate'', JStr (formatDate d)),
         (''startTime'', JStr startTime), (''timeSpentSeconds'', JInt secs),
         (''billableSeconds'', JInt (if tw_BillableSeconds old = tw_TimeSpentSeconds old then secs
            else tw_BillableSeconds old)),
         (''description'', JStr comment)]
       @ (if tw_Attributes old = [] then []
          else [(''attributes'', JArr (map (\<lambda>a. JObj [(''key'', JStr (ta_Key a)), (''value'', JStr (ta_Value a))])
                  (tw_Attributes old)))]))"

definition strGiven :: "params \<Rightarrow> string \<Rightarrow> string option" where
  "strGiven ps k = (case mget ps k of None \<Rightarrow> None | Some v \<Rightarrow> asString v)"

definition updateWorklog ::
    "golib \<Rightarrow> worklogEnv \<Rightarrow> jiraClient \<Rightarrow> Workspace \<Rightarrow> params \<Rightarrow> 's world \<Rightarrow> (worklogError + string) \<times> 's world" where
  "updateWorklog L J c ws ps w =
     andThen (ownWorklog L J c ws ps w) (\<lambda>(iss, old) w.
     andThen (toEntry old iss, w) (\<lambda>before w.
     andThen (paramHours ps, w) (\<lambda>hours w.
     andThen (paramDate J ps ''date'', w) (\<lambda>(given, dateSet) w.
     let start = strParam ps ''start''; comment = strGiven ps ''comment'';
         d = (if dateSet then given else we_date before);
         secs = (case hours of Some s \<Rightarrow> s | None \<Rightarrow> tw_TimeSpentSeconds old)
     in if hours = None \<and> \<not> dateSet \<and> start = [] \<and> comment = None then (Inl WlNothing, w)
        else andThen (tempoStartTime (firstSet [start, startHHMM old, worklogDefaultStart]), w) (\<lambda>startTime w.
          andThen (restDo L (wl_up J) (jc_tempo c) ''PUT'' (''/4/worklogs/'' @ worklogID old)
              (Some (updateRequest old d startTime secs
                 (case comment of Some t \<Rightarrow> t | None \<Rightarrow> tw_Description old)))
              (objStep (worklogFields L)) zeroWorklog w) (\<lambda>updated w.
          andThen (toEntry updated iss, w) (\<lambda>after w.
            (Inr (objectText ([(''before'', entryText L before)] @ noteField d
               @ [(''updated'', ''true''), (''worklog'', entryText L after)])), w))))))))"

definition deleteWorklog ::
    "golib \<Rightarrow> worklogEnv \<Rightarrow> jiraClient \<Rightarrow> Workspace \<Rightarrow> params \<Rightarrow> 's world \<Rightarrow> (worklogError + string) \<times> 's world" where
  "deleteWorklog L J c ws ps w =
     andThen (ownWorklog L J c ws ps w) (\<lambda>(iss, old) w.
     andThen (toEntry old iss, w) (\<lambda>e w.
     andThen (restCall L (wl_up J) (jc_tempo c) ''DELETE'' (''/4/worklogs/'' @ worklogID old) None w) (\<lambda>_ w.
       (Inr (objectText [(''deleted'', ''true''), (''worklog'', entryText L e)]), w))))"

section \<open>Dispatch\<close>

definition executeJiraWorklog ::
    "golib \<Rightarrow> worklogEnv \<Rightarrow> Config \<Rightarrow> Workspace \<Rightarrow> Operation \<Rightarrow> params \<Rightarrow> string \<Rightarrow> 's world
       \<Rightarrow> (worklogError + (int \<times> string)) \<times> 's world" where
  "executeJiraWorklog L J cfg ws op ps workspace w =
     andThen (newJiraClient L (wl_up J) ws op ps workspace w) (\<lambda>c w.
     andThen (let path = op_Path op
        in if path = ''report'' then report L J c ws ps w
           else if path = ''issue'' then issueTime L J c ws ps w
           else if path = ''add'' then addWorklog L J cfg c ws ps workspace w
           else if path = ''update'' then updateWorklog L J c ws ps w
           else if path = ''delete'' then deleteWorklog L J c ws ps w
           else if path = ''activities'' then
             (rbind (readWorklogActivities L J cfg workspace w) (\<lambda>acts.
                Inr (objectText [(''activities'', activitiesText acts)])), w)
           else if path = ''activity_set'' then setActivity L J cfg c ws ps workspace w
           else if path = ''activity_remove'' then removeActivity L J cfg ps workspace w
           else (Inl (WlAction (op_ID op) path), w)) (\<lambda>body w.
       (Inr (200, body), w)))"

end
