(* ===== verification/Feedback.thy ===== *)
theory Feedback
  imports EmailOp
begin

text \<open>
  server/feedback.go: the text of a TODO item and its append-only file.
\<close>

section \<open>The text of an item\<close>

definition maxTodoTextLen :: nat where
  "maxTodoTextLen = 400"

definition maxFeedbackBody :: nat where
  "maxFeedbackBody = 64 * 2 ^ 10"

definition maxTodoFileBytes :: nat where
  "maxTodoFileBytes = 2 ^ 20"

text \<open>The Unicode classes \<open>IsSpace\<close>, \<open>IsControl\<close> and \<open>Cf\<close>.\<close>

definition isSpaceRune :: "nat \<Rightarrow> bool" where
  "isSpaceRune r \<longleftrightarrow> 9 \<le> r \<and> r \<le> 13 \<or> r = 32 \<or> r = 133 \<or> r = 160 \<or> r = 5760 \<or> 8192 \<le> r \<and> r \<le> 8202
     \<or> r = 8232 \<or> r = 8233 \<or> r = 8239 \<or> r = 8287 \<or> r = 12288"

definition isControlRune :: "nat \<Rightarrow> bool" where
  "isControlRune r \<longleftrightarrow> r < 32 \<or> 127 \<le> r \<and> r < 160"

definition formatRanges :: "(nat \<times> nat) list" where
  "formatRanges =
     [(173, 173), (1536, 1541), (1564, 1564), (1757, 1757), (1807, 1807), (2192, 2193), (2274, 2274),
      (6158, 6158), (8203, 8207), (8234, 8238), (8288, 8292), (8294, 8303), (65279, 65279), (65529, 65531),
      (69821, 69821), (69837, 69837), (78896, 78911), (113824, 113827), (119155, 119162), (917505, 917505),
      (917536, 917631)]"

definition isFormatRune :: "nat \<Rightarrow> bool" where
  "isFormatRune r \<longleftrightarrow> list_ex (\<lambda>(lo, hi). lo \<le> r \<and> r \<le> hi) formatRanges"

definition dropsRune :: "nat \<Rightarrow> bool" where
  "dropsRune r \<longleftrightarrow> \<not> isSpaceRune r \<and> (isControlRune r \<or> isFormatRune r)"

text \<open>\<open>strings.Map\<close>: a byte that is no UTF-8 becomes the replacement character.\<close>

definition runeError :: string where
  "runeError = [CHR 0xEF, CHR 0xBF, CHR 0xBD]"

function mapRunes :: "string \<Rightarrow> string" where
  "mapRunes [] = []"
| "mapRunes (c # cs) =
     (let (r, n) = decodeRune (c # cs); rest = drop (max 1 n) (c # cs)
      in if dropsRune r then mapRunes rest
         else (if utf8Len (c # cs) = 0 then runeError else take (max 1 n) (c # cs)) @ mapRunes rest)"
  by pat_completeness auto
termination
  by (relation "measure length") auto

declare mapRunes.simps(2) [simp del]

text \<open>\<open>strings.Fields\<close>.\<close>

function fieldsFrom :: "string \<Rightarrow> string \<Rightarrow> string list" where
  "fieldsFrom cur [] = (if cur = [] then [] else [cur])"
| "fieldsFrom cur (c # cs) =
     (let n = spaceLen spaceRunes (c # cs)
      in if 0 < n then (if cur = [] then [] else [cur]) @ fieldsFrom [] (drop n (c # cs))
         else fieldsFrom (cur @ [c]) cs)"
  by pat_completeness auto
termination
  by (relation "measure (\<lambda>(cur, s). length s)") auto

declare fieldsFrom.simps(2) [simp del]

definition fields :: "string \<Rightarrow> string list" where
  "fields s = fieldsFrom [] s"

definition normalizeTodoText :: "string \<Rightarrow> string" where
  "normalizeTodoText s = join '' '' (fields (mapRunes s))"

text \<open>\<open>^ \(\d{4}-\d{2}-\d{2}, via /feedback( by [^()]+)?\)\.$\<close>\<close>

definition digitRe :: re where
  "digitRe = Cls isDigit"

definition todoSuffixRe :: re where
  "todoSuffixRe =
     foldr Seq [rStr '' ('', digitRe, digitRe, digitRe, digitRe, rStr ''-'', digitRe, digitRe, rStr ''-'',
         digitRe, digitRe, rStr '', via /feedback'',
         rOpt (Seq (rStr '' by '') (rPlus (Cls (\<lambda>c. c \<noteq> CHR ''('' \<and> c \<noteq> CHR '')''))))]
       (rStr '').'')"

fun firstItem :: "string list \<Rightarrow> string \<Rightarrow> string \<Rightarrow> bool" where
  "firstItem [] line text = False"
| "firstItem (p # ps) line text =
     (if hasPrefix line p then
        (let rest = drop (length p) line
         in rest = text \<or> hasPrefix rest text \<and> rmatch todoSuffixRe (drop (length text) rest))
      else firstItem ps line text)"

definition hasTodoItem :: "string \<Rightarrow> string \<Rightarrow> bool" where
  "hasTodoItem line text =
     firstItem [''- [ ] '', ''- [x] '', ''- [X] ''] (normalizeTodoText line) text"

section \<open>Appending\<close>

datatype todoError = TodoTooLarge | TodoFile string

definition lf :: string where
  "lf = [CHR 0x0A]"

definition eolOf :: "string \<Rightarrow> string" where
  "eolOf content =
     (case indexOf content lf of
        None \<Rightarrow> lf
      | Some i \<Rightarrow> if 0 < i \<and> content ! (i - 1) = CHR 0x0D then crlf else lf)"

definition noParens :: "string \<Rightarrow> string" where
  "noParens s = map (\<lambda>c. if c = CHR ''('' \<or> c = CHR '')'' then CHR ''_'' else c) s"

definition todoLine :: "string \<Rightarrow> string \<Rightarrow> string \<Rightarrow> string" where
  "todoLine today text agentID =
     ''- [ ] '' @ text @ '' ('' @ today @ '', via /feedback''
       @ (if agentID \<noteq> [] then '' by '' @ noParens agentID else []) @ '').''"

definition todoPrefix :: "string \<Rightarrow> string" where
  "todoPrefix content = (if content \<noteq> [] \<and> \<not> hasSuffix content lf then eolOf content else [])"

definition appendTodo ::
    "fsFaults \<Rightarrow> string \<Rightarrow> string \<Rightarrow> string \<Rightarrow> string \<Rightarrow> files \<Rightarrow> (todoError + bool) \<times> files" where
  "appendTodo X today path text agentID F =
     (let write = (\<lambda>pre eol.
        (case appendFile X path (pre @ todoLine today text agentID @ eol) F of
           (Some e, F) \<Rightarrow> (Inl (TodoFile e), F)
         | (None, F) \<Rightarrow> (Inr True, F)))
      in case fs_read X path of
           Some e \<Rightarrow> (Inl (TodoFile e), F)
         | None \<Rightarrow>
             (case mget F path of
                None \<Rightarrow> write (''# TODO'' @ lf @ lf) lf
              | Some content \<Rightarrow>
                  if maxTodoFileBytes < length content then (Inl TodoTooLarge, F)
                  else if list_ex (\<lambda>line. hasTodoItem line text) (splitOn (CHR 0x0A) content) then (Inr False, F)
                  else write (todoPrefix content) (eolOf content)))"

section \<open>An item is one line, added once\<close>

lemma decodeRune_pos: "0 < snd (decodeRune (c # cs))"
  by (auto simp: decodeRune_def Let_def)

end
