(* ===== verification/Gateway.thy ===== *)
theory Gateway
  imports AuditLog SlackFile Mcp LocalOp Worklog Feedback
begin

text \<open>
  The request path of server.go: the state a server holds, its replies, the order of checks
  that stands before every operation, the dispatch to the connectors, the audit records and the
  redacted answer. \<open>admitOp\<close> is the part of \<open>executeOp\<close> before the dispatch; its specification
  \<open>admitted\<close> states the conditions themselves.
\<close>

section \<open>State, requests, replies\<close>

datatype opError =
    ParamProblem paramError
  | ConstraintProblem constraintError
  | ScopeProblem scopeError
  | SelectionProblem envError
  | TunnelProblem tunnelAccessError
  | SlackProblem slackError
  | HttpProblem httpError
  | PgProblem pgError
  | LocalProblem localError
  | McpProblem mcpError
  | EmailProblem emailError
  | WorklogProblem worklogError

text \<open>
  What a request meets while it is served: the network, the devices, the clock, a fresh request
  id and the time taken; the text of an error (a function of its constructor); the day and minute
  in Warsaw and the pages the upstream hands out; the faults of the file system; and what decoding
  the configuration, the operations and the checksum of a file yield.
\<close>

record 's moment =
  mo_up :: upstream
  mo_dev :: devices
  mo_clock :: clock
  mo_requestID :: string
  mo_latency :: int
  mo_text :: "opError \<Rightarrow> string"
  mo_wallDate :: date
  mo_wallMinute :: string
  mo_pages :: nat
  mo_beside :: "string \<Rightarrow> string \<Rightarrow> string"
  mo_now :: string
  mo_today :: string
  mo_jsonError :: "string \<Rightarrow> string"
  mo_secretText :: "secretError \<Rightarrow> string"
  mo_pgText :: "pgConnError \<Rightarrow> string"
  mo_mailText :: "emailError \<Rightarrow> string"
  mo_restText :: "restError \<Rightarrow> string"
  mo_timeText :: "nat \<Rightarrow> string"
  mo_files :: fsFaults
  mo_isAbs :: "string \<Rightarrow> bool"
  mo_readConfig :: "string \<Rightarrow> string + Config"
  mo_configText :: "configError \<Rightarrow> string"
  mo_readOps :: "string \<Rightarrow> string + Operation option gomap"
  mo_opsText :: "opsError \<Rightarrow> string"
  mo_checksum :: "string \<Rightarrow> string"

record runtimeState =
  st_cfg :: Config
  st_reg :: OperationRegistry

record 's Server =
  sv_state :: runtimeState
  sv_auditLog :: Logger
  sv_checksum :: string
  sv_opsPath :: string
  sv_slackFilesBase :: string
  sv_world :: "'s world"
  
  sv_tunnelFactory :: "(Config \<Rightarrow> TunnelChecker) option"

text \<open>A request: its query as the first value of each key, an absent header as the empty string.\<close>

record httpReq =
  hr_Method :: string
  hr_Path :: string
  hr_Query :: "string gomap"
  hr_Auth :: string
  hr_Body :: string

record reply =
  rp_Status :: int
  rp_Headers :: "string gomap"
  rp_Body :: string

text \<open>A handler that panics, or never returns, leaves the request without an answer.\<close>

datatype outcome = Reply reply | Aborted

definition queryGet :: "httpReq \<Rightarrow> string \<Rightarrow> string" where
  "queryGet r k = (case mget (hr_Query r) k of None \<Rightarrow> [] | Some v \<Rightarrow> v)"

definition withFiles :: "files \<Rightarrow> 's Server \<Rightarrow> 's Server" where
  "withFiles F s = s\<lparr>sv_world := (sv_world s)\<lparr>w_files := F\<rparr>\<rparr>"

definition newline :: string where
  "newline = [CHR 0x0A]"

text \<open>\<open>http.Error\<close>, and \<open>json.NewEncoder(w).Encode\<close> after the headers are set.\<close>

definition errorReply :: "string \<Rightarrow> int \<Rightarrow> reply" where
  "errorReply msg code =
     \<lparr>rp_Status = code, rp_Headers = [(''Content-Type'', ''text/plain; charset=utf-8''),
        (''X-Content-Type-Options'', ''nosniff'')], rp_Body = msg @ newline\<rparr>"

definition jsonHeader :: "string gomap" where
  "jsonHeader = [(''Content-Type'', ''application/json'')]"

definition jsonReply :: "golib \<Rightarrow> int \<Rightarrow> string gomap \<Rightarrow> json \<Rightarrow> reply" where
  "jsonReply L status headers v =
     \<lparr>rp_Status = status, rp_Headers = headers, rp_Body = encodeJson L v @ newline\<rparr>"

text \<open>The outbound backstop: the encoded answer with every known secret replaced.\<close>

definition writeRedactedJSON :: "golib \<Rightarrow> TaintRegistry \<Rightarrow> string gomap \<Rightarrow> json \<Rightarrow> reply" where
  "writeRedactedJSON L t headers v =
     \<lparr>rp_Status = 200, rp_Headers = headers, rp_Body = Redact t (encodeJson L v)\<rparr>"

definition idHeaders :: "'s moment \<Rightarrow> string gomap" where
  "idHeaders M = jsonHeader @ [(''X-Request-ID'', mo_requestID M)]"

definition logDeny ::
    "golib \<Rightarrow> 's moment \<Rightarrow> string \<Rightarrow> string \<Rightarrow> string \<Rightarrow> string \<Rightarrow> string \<Rightarrow> 's Server \<Rightarrow> 's Server" where
  "logDeny L M agentID workspace opID rule detail s =
     s\<lparr>sv_auditLog := snd (LogDeny L (mo_clock M) (mo_requestID M) agentID workspace opID rule detail
       (sv_auditLog s))\<rparr>"

definition writeDeny ::
    "golib \<Rightarrow> 's moment \<Rightarrow> string \<Rightarrow> string \<Rightarrow> string \<Rightarrow> string \<Rightarrow> string \<Rightarrow> 's Server \<Rightarrow> outcome \<times> 's Server" where
  "writeDeny L M agentID workspace opID rule detail s =
     (Reply (jsonReply L 403 (idHeaders M) (JObj
        [(''error'', JStr ''denied''), (''rule'', JStr rule), (''detail'', JStr detail)])),
      logDeny L M agentID workspace opID rule detail s)"

definition writeUnknownOp ::
    "golib \<Rightarrow> 's moment \<Rightarrow> Agent \<Rightarrow> string \<Rightarrow> string \<Rightarrow> string \<Rightarrow> 's Server \<Rightarrow> outcome \<times> 's Server" where
  "writeUnknownOp L M agent agentID workspace opID s =
     (let best = closestAllowedOps (st_cfg (sv_state s)) (st_reg (sv_state s)) agent workspace opID
      in (Reply (jsonReply L 404 (idHeaders M) (JObj
            ([(''error'', JStr ''not_found''), (''detail'', JStr ''operation not found''), (''op'', JStr opID)]
             @ (if best \<noteq> [] then [(''did_you_mean'', JArr (map JStr best))] else [])))),
          logDeny L M agentID workspace opID ''operation'' ''operation not found'' s))"

section \<open>The checks before an operation\<close>

text \<open>How a request is turned away: with an audited denial, as an unknown operation, or plainly.\<close>

datatype refusal =
    Denied string string
  | UnknownOp Agent
  | Plain string int

definition writeRefusal ::
    "golib \<Rightarrow> 's moment \<Rightarrow> string \<Rightarrow> string \<Rightarrow> string \<Rightarrow> refusal \<Rightarrow> 's Server \<Rightarrow> outcome \<times> 's Server" where
  "writeRefusal L M agentID workspace opID refusal s =
     (case refusal of
        Denied rule detail \<Rightarrow> writeDeny L M agentID workspace opID rule detail s
      | UnknownOp agent \<Rightarrow> writeUnknownOp L M agent agentID workspace opID s
      | Plain msg code \<Rightarrow> (Reply (errorReply msg code), s))"

definition lookupOp ::
    "runtimeState \<Rightarrow> Agent \<Rightarrow> string \<Rightarrow> string \<Rightarrow> refusal + (Workspace \<times> Operation)" where
  "lookupOp st agent workspace opID =
     (case GetWorkspace (st_cfg st) workspace of
        None \<Rightarrow> Inl (Denied ''workspace'' ''workspace not found'')
      | Some ws \<Rightarrow>
          (case Get (st_reg st) opID of
             None \<Rightarrow> Inl (UnknownOp agent)
           | Some op \<Rightarrow>
               if \<not> agentHasOp (st_cfg st) agent workspace opID
               then Inl (Denied ''grant'' ''operation not allowed for this agent'')
               else if siteDisabled ws (op_Site op)
               then Inl (Denied ''disabled''
                 (''integration '' @ op_Site op @ '' is disabled in this workspace''))
               else Inr (ws, op)))"

definition maxOpBodyBytes :: nat where
  "maxOpBodyBytes = 20 * 2 ^ 20"

definition opBody :: "golib \<Rightarrow> string \<Rightarrow> refusal + goMapVal" where
  "opBody L body =
     (if maxOpBodyBytes < length body
      then Inl (Plain (''request body exceeds '' @ natDigits maxOpBodyBytes @ '' bytes'') 413)
      else if body = [] then Inr NilMap
      else (case decodeMap L body of
              None \<Rightarrow> Inl (Plain ''invalid JSON body'' 400)
            | Some m \<Rightarrow> Inr m))"

definition denied :: "'s moment \<Rightarrow> string \<Rightarrow> ('e \<Rightarrow> opError) \<Rightarrow> 'e + 'a \<Rightarrow> refusal + 'a" where
  "denied M rule wrap r = mapErr (\<lambda>e. Denied rule (mo_text M (wrap e))) r"

definition withDefaults :: "Operation \<Rightarrow> params \<Rightarrow> params" where
  "withDefaults op ps = mapEntries (ApplyDefaults op (MapOf ps))"

definition admitOp ::
    "golib \<Rightarrow> 's moment \<Rightarrow> runtimeState \<Rightarrow> string \<Rightarrow> string \<Rightarrow> string \<Rightarrow> string
       \<Rightarrow> refusal + (Workspace \<times> Operation \<times> params)" where
  "admitOp L M st agentID workspace opID body =
     (case GetAgentByTokenSHA (st_cfg st) agentID of
        None \<Rightarrow> Inl (Denied ''agent'' ''agent not found'')
      | Some agent \<Rightarrow>
          rbind (lookupOp st agent workspace opID) (\<lambda>(ws, op).
          rbind (opBody L body) (\<lambda>m.
          rbind (denied M ''validation'' ParamProblem (ValidateParams L op (mapEntries m) ws)) (\<lambda>_.
          rbind (denied M ''constraint'' ConstraintProblem (CheckConstraints op (mapEntries m) ws)) (\<lambda>ps.
          rbind (denied M ''scope'' ScopeProblem (checkParamScopes ws op ps)) (\<lambda>_.
          let ps = withDefaults op ps
          in rbind (denied M ''validation'' SelectionProblem (checkEnvSelection ws op ps)) (\<lambda>_.
             rbind (denied M ''tunnel'' TunnelProblem (checkTunnelAccess (st_cfg st) (st_reg st) ws op ps)) (\<lambda>_.
             Inr (ws, op, ps)))))))))"

section \<open>The operation\<close>

fun errorStatus :: "opError \<Rightarrow> int" where
  "errorStatus (LocalProblem e) = 200"
| "errorStatus (McpProblem (InitStatus status body)) = status"
| "errorStatus (McpProblem (McpUnreadable status body)) = status"
| "errorStatus (McpProblem (McpRemote status msg)) = status"
| "errorStatus e = 0"

definition wrapErr :: "('e \<Rightarrow> 'f) \<Rightarrow> ('e + 'a) \<times> 's world \<Rightarrow> ('f + 'a) \<times> 's world" where
  "wrapErr f r = (mapErr f (fst r), snd r)"

definition worklogEnvOf :: "'s moment \<Rightarrow> worklogEnv" where
  "worklogEnvOf M =
     \<lparr>wl_up = mo_up M, wl_today = mo_wallDate M, wl_minute = mo_wallMinute M, wl_beside = mo_beside M,
      wl_files = mo_files M, wl_pages = mo_pages M\<rparr>"

definition dispatchOp ::
    "golib \<Rightarrow> 's moment \<Rightarrow> Config \<Rightarrow> string \<Rightarrow> Workspace \<Rightarrow> Operation \<Rightarrow> params \<Rightarrow> string \<Rightarrow> 's world
       \<Rightarrow> (opError + (int \<times> string)) \<times> 's world" where
  "dispatchOp L M cfg slackFilesBase ws op ps workspace w =
     (let U = mo_up M; D = mo_dev M
      in if op_Connector op = ''http-rest'' \<and> op_SlackFileContent op then
           wrapErr SlackProblem (executeSlackFileContent L U slackFilesBase ws op ps workspace w)
         else if op_Connector op = ''http-rest'' then
           wrapErr HttpProblem (executeHttpConnector L U ws op ps workspace w)
         else if op_Connector op = ''postgres'' then
           wrapErr PgProblem (executePostgresConnector L U D ws op ps workspace w)
         else if op_Connector op = ''local-service'' then
           (let (res, w) = executeLocalServiceConnector L D cfg ws op ps w
            in (rbind (mapErr LocalProblem res) (\<lambda>body. Inr (200, body)), w))
         else if op_Connector op = ''mcp'' then
           wrapErr McpProblem (executeMcpConnector L U ws op ps workspace w)
         else if op_Connector op = ''email'' then
           wrapErr EmailProblem (executeEmailConnector L U D ws op ps workspace w)
         else if op_Connector op = ''jira-worklog'' then
           wrapErr WorklogProblem (executeJiraWorklog L (worklogEnvOf M) cfg ws op ps workspace w)
         else (Inr (0, []), w))"

definition auditParams :: "Operation \<Rightarrow> params \<Rightarrow> params" where
  "auditParams op ps =
     (case op_Multipart op of
        None \<Rightarrow> ps
      | Some m \<Rightarrow>
          (case mget ps (mp_ContentParam m) of
             Some (JStr data) \<Rightarrow>
               mput (mp_ContentParam m)
                 (JStr (''<'' @ natDigits (length data) @ '' base64 chars>'')) ps
           | _ \<Rightarrow> ps))"

definition logAllow ::
    "golib \<Rightarrow> 's moment \<Rightarrow> string \<Rightarrow> string \<Rightarrow> string \<Rightarrow> params \<Rightarrow> int \<Rightarrow> 's Server \<Rightarrow> 's Server" where
  "logAllow L M agentID workspace opID ps status s =
     s\<lparr>sv_auditLog := snd (LogAllow L (res_taint (w_res (sv_world s))) (mo_clock M) (mo_requestID M)
       agentID workspace opID (MapOf ps) (mo_latency M) status (sv_auditLog s))\<rparr>"

text \<open>
  The answer to the agent. A JSON \<open>null\<close> from the upstream leaves the map nil, and the handler
  panics when it writes the request id into it.
\<close>

definition answerOp ::
    "golib \<Rightarrow> 's moment \<Rightarrow> TaintRegistry \<Rightarrow> string \<Rightarrow> string \<Rightarrow> opError + (int \<times> string) \<Rightarrow> outcome" where
  "answerOp L M t workspace opID res =
     (case res of
        Inl e \<Rightarrow> Reply (writeRedactedJSON L t (idHeaders M) (JObj
          [(''request_id'', JStr (mo_requestID M)), (''status'', JStr ''error''),
           (''operation'', JStr opID), (''workspace'', JStr workspace), (''error'', JStr (mo_text M e))]))
      | Inr (status, body) \<Rightarrow>
          (case decodeMap L body of
             None \<Rightarrow> Reply (writeRedactedJSON L t (idHeaders M) (JObj
               [(''request_id'', JStr (mo_requestID M)), (''operation'', JStr opID),
                (''workspace'', JStr workspace), (''upstream_status'', JInt status),
                (''upstream_body'', JStr body)]))
           | Some NilMap \<Rightarrow> Aborted
           | Some (MapOf m) \<Rightarrow> Reply (writeRedactedJSON L t (idHeaders M) (JObj
               (mput ''upstream_status'' (JInt status) (mput ''workspace'' (JStr workspace)
                 (mput ''operation'' (JStr opID) (mput ''request_id'' (JStr (mo_requestID M)) m))))))))"

definition resultStatus :: "opError + (int \<times> string) \<Rightarrow> int" where
  "resultStatus res = (case res of Inl e \<Rightarrow> errorStatus e | Inr (status, _) \<Rightarrow> status)"

text \<open>The one result that stands for a handler that never gets to its answer.\<close>

definition noReturn :: "opError + (int \<times> string) \<Rightarrow> bool" where
  "noReturn res \<longleftrightarrow> res = Inl (WorklogProblem WlNoReturn)"

definition executeOp ::
    "golib \<Rightarrow> 's moment \<Rightarrow> httpReq \<Rightarrow> string \<Rightarrow> string \<Rightarrow> string \<Rightarrow> 's Server \<Rightarrow> outcome \<times> 's Server" where
  "executeOp L M r agentID workspace opID s =
     (let st = sv_state s
      in case admitOp L M st agentID workspace opID (hr_Body r) of
           Inl refusal \<Rightarrow> writeRefusal L M agentID workspace opID refusal s
         | Inr (ws, op, ps) \<Rightarrow>
             (let (res, w) = dispatchOp L M (st_cfg st) (sv_slackFilesBase s) ws op ps workspace (sv_world s);
                  s = s\<lparr>sv_world := w\<rparr>
              in if noReturn res then (Aborted, s)
                 else (answerOp L M (res_taint (w_res w)) workspace opID res,
                   logAllow L M agentID workspace opID (auditParams op ps) (resultStatus res) s)))"

section \<open>Dry runs\<close>

text \<open>The decoder stops after the first value; an empty body is an error here.\<close>

definition dryBody :: "golib \<Rightarrow> string \<Rightarrow> refusal + goMapVal" where
  "dryBody L body =
     (case toMap (map_option normJson (lib_decodeFirst L (take maxOpBodyBytes body))) of
        None \<Rightarrow> Inl (Plain ''invalid JSON body'' 400)
      | Some m \<Rightarrow> Inr m)"

definition admitDry ::
    "golib \<Rightarrow> 's moment \<Rightarrow> runtimeState \<Rightarrow> string \<Rightarrow> string \<Rightarrow> string \<Rightarrow> string \<Rightarrow> refusal + unit" where
  "admitDry L M st agentID workspace opID body =
     (case GetAgentByTokenSHA (st_cfg st) agentID of
        None \<Rightarrow> Inl (Plain ''agent not found'' 404)
      | Some agent \<Rightarrow>
          rbind (lookupOp st agent workspace opID) (\<lambda>(ws, op).
          rbind (dryBody L body) (\<lambda>m.
          rbind (denied M ''validation'' ParamProblem (ValidateParams L op (mapEntries m) ws)) (\<lambda>_.
          rbind (denied M ''constraint'' ConstraintProblem (CheckConstraints op (mapEntries m) ws)) (\<lambda>ps.
          denied M ''validation'' SelectionProblem (checkEnvSelection ws op (withDefaults op ps)))))))"

definition handleDryRun ::
    "golib \<Rightarrow> 's moment \<Rightarrow> httpReq \<Rightarrow> string \<Rightarrow> string \<Rightarrow> string \<Rightarrow> 's Server \<Rightarrow> outcome \<times> 's Server" where
  "handleDryRun L M r agentID workspace opID s =
     (case admitDry L M (sv_state s) agentID workspace opID (hr_Body r) of
        Inl refusal \<Rightarrow> writeRefusal L M agentID workspace opID refusal s
      | Inr _ \<Rightarrow> (Reply (jsonReply L 200 jsonHeader (JObj
          [(''decision'', JStr ''allow''),
           (''message'', JStr ''dry run - no secret resolved, no upstream called'')])), s))"

definition handleWorkspaceOp ::
    "golib \<Rightarrow> 's moment \<Rightarrow> httpReq \<Rightarrow> 's Server \<Rightarrow> outcome \<times> 's Server" where
  "handleWorkspaceOp L M r s =
     (if hr_Method r \<noteq> ''POST'' \<and> hr_Method r \<noteq> ''GET''
      then (Reply (errorReply ''method not allowed'' 405), s)
      else (let agentID = authenticate L (st_cfg (sv_state s)) (hr_Auth r)
            in if agentID = []
               then writeDeny L M [] [] [] ''authentication'' ''missing or invalid token'' s
               else (let parts = splitN 4 (CHR ''/'') (trimPrefix (hr_Path r) ''/v1/workspaces/'')
                     in if length parts < 3 \<or> parts ! 0 = [] \<or> parts ! 1 \<noteq> ''op''
                        then (Reply (errorReply ''invalid path'' 400), s)
                        else if queryGet r ''dry_run'' = ''true''
                        then handleDryRun L M r agentID (parts ! 0) (parts ! 2) s
                        else executeOp L M r agentID (parts ! 0) (parts ! 2) s)))"

end
