(* ===== verification/Connectors.thy ===== *)
theory Connectors
  imports Gateway
begin

text \<open>
  What every connector promises the server: the secrets it has been given stay known to the
  redaction, and without a configured site it contacts nobody. The contract is a locale, which
  each connector of the model interprets; the dispatch inherits it.
\<close>

section \<open>Known secrets only grow\<close>

definition known :: "'s world \<Rightarrow> string set" where
  "known w = set (taint_values (res_taint (w_res w)))"

definition grows :: "'s world \<Rightarrow> 's world \<Rightarrow> bool" where
  "grows w w' \<longleftrightarrow> known w \<subseteq> known w'"

lemma grows_refl [simp]: "grows w w"
  by (simp add: grows_def)

lemma grows_trans: "grows w v \<Longrightarrow> grows v u \<Longrightarrow> grows w u"
  unfolding grows_def by blast

lemma grows_same: "w_res w' = w_res w \<Longrightarrow> grows w w'"
  by (simp add: grows_def known_def)

lemma grows_taint: "grows w (taintWorld L s w)"
  by (simp add: grows_def known_def taintWorld_def Taint_mono)

lemma grows_taint_trans: "grows w v \<Longrightarrow> grows w (taintWorld L s v)"
  using grows_taint grows_trans by blast

lemma Resolve_known:
  "set (taint_values (res_taint r)) \<subseteq> set (taint_values (res_taint (snd (Resolve L now ws n r))))"
  using Taint_mono by (auto simp: Resolve_def Let_def split: option.split sum.split)

lemma grows_resolveRef: "grows w (snd (resolveRef L U ref ws w))"
  using Resolve_known by (fastforce simp: resolveRef_def ResolveWithWorkspaceCheck_def grows_def known_def
      Let_def split_beta)

lemma grows_resolveRef_eq: "resolveRef L U ref ws w = (x, v) \<Longrightarrow> grows w v"
  using grows_resolveRef [of w L U ref ws] by simp

lemma grows_base64Auth: "grows w (snd (base64Auth L u p w))"
  by (simp add: base64Auth_def grows_taint Let_def)

lemma grows_base64Auth_eq: "base64Auth L u p w = (x, v) \<Longrightarrow> grows w v"
  using grows_base64Auth [of w L u p] by simp

lemma grows_Execute: "grows w (snd (Execute L U req w))"
proof -
  have "grows w (w\<lparr>w_sent := xs\<rparr>)" for xs by (rule grows_same) simp
  then show ?thesis
    by (auto simp: Execute_def Let_def intro!: grows_taint_trans split: option.split sum.split netError.split)
qed

lemma grows_Execute_eq: "Execute L U req w = (x, v) \<Longrightarrow> grows w v"
  using grows_Execute [of w L U req] by simp

lemma grows_record [simp]: "grows w (record_call c v) \<longleftrightarrow> grows w v"
  by (simp add: grows_def known_def)

lemmas grows_eqs = grows_resolveRef_eq grows_base64Auth_eq grows_Execute_eq

text \<open>A step run after another.\<close>

lemma grows_bind: "grows w (snd r) \<Longrightarrow> (\<And>x v. r = (x, v) \<Longrightarrow> grows v (snd (f x v))) \<Longrightarrow>
    grows w (snd (case r of (x, v) \<Rightarrow> f x v))"
  by (cases r) (auto intro: grows_trans)

section \<open>The HTTP connector\<close>

lemma grows_addSlack: "grows w (snd (addSlackSessionAuth L U h env ws w))"
  unfolding addSlackSessionAuth_def Let_def
  by (auto intro!: grows_bind grows_resolveRef split: sum.split)

lemma grows_crumbAuth: "grows w (snd (crumbAuth L U env ws w))"
  unfolding crumbAuth_def Let_def
  by (auto intro!: grows_bind grows_resolveRef grows_base64Auth split: sum.split)

lemma grows_addCrumb: "grows w (snd (addCrumb L U op env b ws h w))"
  unfolding addCrumb_def Let_def
  by (auto intro!: grows_bind grows_crumbAuth grows_Execute)

lemma grows_pick: "grows w (snd (case resolveRef L U ref ws w of (Inl e, v) \<Rightarrow> (a, v) | (Inr s, v) \<Rightarrow> (f s, v)))"
  by (auto dest: grows_resolveRef_eq split: prod.split sum.split)

lemma grows_authHeaders: "grows w (snd (authHeaders L U env ps ws h w))"
  unfolding authHeaders_def Let_def
  by (auto intro!: grows_bind grows_pick grows_addSlack grows_base64Auth grows_resolveRef split: sum.split)

lemma grows_refreshRequest: "grows w (snd (refreshRequest L U oauth ws w))"
  unfolding refreshRequest_def Let_def
  by (auto intro!: grows_bind grows_resolveRef grows_pick split: sum.split)

lemma SetSecret_known: "res_taint (snd (SetSecret ws n v r)) = res_taint r"
  by (simp add: SetSecret_def forget_def Let_def split_beta)

lemma storeTokens_known: "res_taint (snd (storeTokens oauth env a b r)) = res_taint r"
  using SetSecret_known
  by (auto simp: storeTokens_def Let_def FlushCache_def split_beta split: sum.split prod.split)

lemma grows_postToken: "grows w (snd (postToken L U url form w))"
  by (auto simp: postToken_def intro!: grows_same split: option.split)

lemma grows_refresh: "grows w (snd (refreshOAuthToken L U oauth env ws w))"
proof -
  have store: "grows v (v\<lparr>w_res := snd (storeTokens oauth env a b (w_res v))\<rparr>)" for v a b
    by (simp add: grows_def known_def storeTokens_known)
  obtain f v where f: "refreshRequest L U oauth ws w = (f, v)" by fastforce
  then have v: "grows w v" using grows_refreshRequest [of w L U oauth ws] by simp
  show ?thesis
  proof (cases f)
    case (Some form)
    obtain p u where p: "postToken L U (oauth_TokenURL oauth) form v = (p, u)" by fastforce
    then have "grows w u" using grows_postToken [of v L U "oauth_TokenURL oauth" form] v grows_trans by fastforce
    then show ?thesis
      using f Some p store by (auto simp: refreshOAuthToken_def Let_def split_beta intro: grows_trans split: option.split)
  qed (use f v in \<open>simp add: refreshOAuthToken_def\<close>)
qed

lemma grows_retry: "grows w (snd (retryRequest L U oauth env ws req resp w))"
proof -
  obtain b v where b: "refreshOAuthToken L U oauth env ws w = (b, v)" by fastforce
  then have v: "grows w v" using grows_refresh [of w L U oauth env ws] by simp
  then show ?thesis
    using b by (cases b) (auto simp: retryRequest_def intro: grows_trans dest!: grows_eqs split: prod.split sum.split)
qed

lemma grows_snd: "(\<And>x v. r = (x, v) \<Longrightarrow> grows w v) \<Longrightarrow> grows w (snd r)"
  by (cases r) simp

lemma grows_eq: "grows w (snd r) \<Longrightarrow> r = (x, v) \<Longrightarrow> grows w v"
  by simp

lemma grows_sendWithRefresh: "grows w (snd (sendWithRefresh L U env ws req w))"
proof -
  obtain r v where r: "Execute L U req w = (r, v)" by fastforce
  then have v: "grows w v" by (rule grows_Execute_eq)
  show ?thesis
    using r v grows_trans [OF v grows_retry]
    by (cases r) (auto simp: sendWithRefresh_def split: option.split)
qed

lemmas http_eqs = grows_addCrumb [THEN grows_eq] grows_authHeaders [THEN grows_eq]
  grows_sendWithRefresh [THEN grows_eq] grows_addSlack [THEN grows_eq] grows_Execute_eq

lemma grows_http: "grows w (snd (executeHttpConnector L U ws op ps workspace w))"
  unfolding executeHttpConnector_def Let_def
  by (rule grows_snd) (auto dest!: http_eqs intro: grows_trans split: sum.splits prod.splits)

lemma grows_slack: "grows w (snd (executeSlackFileContent L U base ws op ps workspace w))"
  unfolding executeSlackFileContent_def Let_def
  by (rule grows_snd) (auto dest!: http_eqs intro: grows_trans split: sum.splits prod.splits)

lemma grows_mcpAuth: "grows w (snd (resolveMcpAuthHeader L U env ws w))"
  unfolding resolveMcpAuthHeader_def Let_def
  by (auto intro!: grows_bind grows_resolveRef grows_base64Auth split: sum.split)

lemma grows_mcpCall: "grows w (snd (mcpCall L U op ps endpoint h resp w))"
  unfolding mcpCall_def Let_def
  by (auto intro!: grows_bind grows_Execute split: sum.split)

lemma grows_mcp: "grows w (snd (executeMcpConnector L U ws op ps workspace w))"
  unfolding executeMcpConnector_def
  by (rule grows_snd) (auto dest!: grows_mcpAuth [THEN grows_eq] grows_mcpCall [THEN grows_eq] grows_Execute_eq
    intro: grows_trans split: sum.splits prod.splits)

section \<open>The device connectors\<close>

lemma grows_ExecuteQuery: "grows w (snd (ExecuteQuery L D allowed q w))"
  using adds_ExecuteQuery [of w L D allowed q] by (auto simp: adds_def intro: grows_same)

lemma grows_pgDispatch: "grows w (snd (pgDispatch L D ws op ps db w))"
  using adds_pgDispatch [of w L D ws op ps db] by (auto simp: adds_def intro: grows_same)

lemma grows_pgConnect: "grows w (snd (pgConnect D c w))"
  by (auto simp: pgConnect_def devCall_def split: option.split)

lemma grows_pg: "grows w (snd (executePostgresConnector L U D ws op ps workspace w))"
  unfolding executePostgresConnector_def Let_def
  by (rule grows_snd) (auto dest!: grows_eqs grows_pgConnect [THEN grows_eq] grows_pgDispatch [THEN grows_eq]
    intro: grows_trans split: sum.splits prod.splits)

lemma grows_local: "grows w (snd (executeLocalServiceConnector L D cfg ws op ps w))"
  by (auto simp: executeLocalServiceConnector_def localStatus_def localTest_def devCall_def Let_def
      split: option.split sum.split)

lemma grows_tryCall: "grows w (snd (tryCall D c err after w))"
proof -
  have "grows w (fold record_call cs v)" if "grows w v" for cs v
    using that by (induction cs arbitrary: v) auto
  then show ?thesis by (auto simp: tryCall_def devCall_def split: option.split)
qed

lemma grows_andThen: "grows w (snd r) \<Longrightarrow> (\<And>x v. r = (Inr x, v) \<Longrightarrow> grows v (snd (f x v))) \<Longrightarrow>
    grows w (snd (andThen r f))"
  by (auto simp: andThen_def intro: grows_trans split: prod.split sum.split)

lemma grows_close: "grows w (snd r) \<Longrightarrow> grows w (snd (case r of (res, v) \<Rightarrow> (res, record_call c v)))"
  by (simp add: split_beta)

lemma grows_imapSession:
  "(\<And>v. grows v (snd (body v))) \<Longrightarrow> grows w (snd (imapSession D cfg w body))"
  unfolding imapSession_def dialImap_def
  by (auto intro!: grows_andThen grows_tryCall grows_close)

lemma grows_mailOps:
  "grows w (snd (ListMailboxes D cfg w))" "grows w (snd (Search D cfg m c w))"
  "grows w (snd (ReadMessage D cfg m uid w))"
  unfolding ListMailboxes_def Search_def ReadMessage_def Let_def
  by (auto intro!: grows_imapSession grows_andThen grows_tryCall split: list.split option.split)

lemma grows_Send: "grows w (snd (Send D cfg rcpt subject body w))"
  unfolding Send_def sendTLS_def sendPlain_def
  by (auto intro!: grows_andThen grows_tryCall grows_close split: sum.split)

lemma grows_VerifySMTP: "grows w (snd (VerifySMTP D cfg w))"
  unfolding VerifySMTP_def
  by (auto intro!: grows_andThen grows_tryCall grows_close)

lemma grows_emailDispatch: "grows w (snd (emailDispatch L D p op ps cfg w))"
  unfolding emailDispatch_def emailRead_def emailSearch_def emailSend_def Let_def
  by (auto intro!: grows_andThen grows_mailOps grows_Send split: sum.split option.split json.split)

lemma grows_email: "grows w (snd (executeEmailConnector L U D ws op ps workspace w))"
  by (auto simp: executeEmailConnector_def dest!: grows_eqs
      intro!: grows_andThen intro: grows_trans [OF _ grows_emailDispatch] split: sum.split prod.split)

lemma grows_restCall: "grows w (snd (restCall L U c method path body w))"
  by (auto simp: restCall_def dest: grows_Execute_eq split: prod.split sum.split)

lemma grows_restDo: "grows w (snd (restDo L U c method path body step z w))"
  unfolding restDo_def by (auto intro!: grows_andThen grows_restCall split: option.split)

lemma grows_issue: "grows w (snd (issue L U c key f w))"
  unfolding issue_def by (rule grows_restDo)

lemma grows_myself: "grows w (snd (myself L U c w))"
  unfolding myself_def by (auto intro!: grows_andThen grows_restDo)

lemma grows_userName: "grows w (snd (userName L U c a w))"
  unfolding userName_def by (auto dest: grows_eq [OF grows_restDo] split: prod.split sum.split)

lemma grows_userName_eq: "userName L U c a w = (x, v) \<Longrightarrow> grows w v"
  using grows_userName [of w L U c a] by simp

lemma grows_tempoPages: "grows w (snd (tempoPages L U c path q n offset all w))"
  by (induction n arbitrary: q offset all w) (auto simp: Let_def intro!: grows_andThen grows_restDo)

lemma grows_searchPages: "grows w (snd (searchPages L U c jql n token issues w))"
  by (induction n arbitrary: token issues w) (auto simp: Let_def intro!: grows_andThen grows_restDo)

lemma grows_lookUpIssues: "grows w (snd (lookUpIssues L J c ws ids issues w))"
  by (induction ids arbitrary: issues w) (auto simp: searchIssues_def intro!: grows_andThen grows_searchPages)

lemma grows_myEntries: "grows w (snd (myEntries L J c ws me a b w))"
  unfolding myEntries_def tempoWorklogs_def scopedIssues_def Let_def
  by (auto intro!: grows_andThen grows_tempoPages grows_lookUpIssues)

lemma grows_report: "grows w (snd (report L J c ws ps w))"
  unfolding report_def Let_def
  by (auto intro!: grows_andThen grows_myself grows_myEntries split: sum.split)

lemma grows_issueEntries: "grows w (snd (issueEntries L J c iss names ts w))"
proof (induction ts arbitrary: names w)
  case (Cons t ts)
  show ?case
    by (auto simp: Let_def intro!: grows_andThen Cons.IH dest!: grows_userName_eq
        intro: grows_trans [OF _ Cons.IH] split: sum.split option.split prod.split)
qed simp

lemma grows_issueTime: "grows w (snd (issueTime L J c ws ps w))"
  unfolding issueTime_def tempoWorklogs_def Let_def
  by (auto intro!: grows_andThen grows_issue grows_myself grows_tempoPages grows_issueEntries)

lemma grows_save: "grows w (snd (saveWorklogActivities J cfg workspace acts w))"
  unfolding saveWorklogActivities_def Let_def by (auto intro!: grows_same split: option.split)

lemma grows_activities:
  "grows w (snd (setActivity L J cfg c ws ps workspace w))" "grows w (snd (removeActivity L J cfg ps workspace w))"
  unfolding setActivity_def removeActivity_def Let_def
  by (auto intro!: grows_andThen grows_issue grows_save split: option.split)

lemma grows_addWorklog: "grows w (snd (addWorklog L J cfg c ws ps workspace w))"
  unfolding addWorklog_def Let_def
  by (auto intro!: grows_andThen grows_issue grows_myself grows_restDo)

lemma grows_ownWorklog: "grows w (snd (ownWorklog L J c ws ps w))"
  unfolding ownWorklog_def Let_def
  by (auto intro!: grows_andThen grows_issue grows_myself grows_restDo split: prod.split) (rule grows_userName_eq)

lemma grows_changes:
  "grows w (snd (updateWorklog L J c ws ps w))" "grows w (snd (deleteWorklog L J c ws ps w))"
  unfolding updateWorklog_def deleteWorklog_def Let_def
  by (auto intro!: grows_andThen grows_ownWorklog grows_restDo grows_restCall)

lemma grows_newRestClient: "grows w (snd (newRestClient L U api siteName site ps workspace w))"
  unfolding newRestClient_def Let_def
  by (auto dest: grows_eqs intro: grows_trans split: sum.split prod.split)

lemma grows_newJiraClient: "grows w (snd (newJiraClient L U ws op ps workspace w))"
  unfolding newJiraClient_def Let_def
  by (auto intro!: grows_andThen grows_newRestClient split: option.split)

lemma grows_worklog: "grows w (snd (executeJiraWorklog L J cfg ws op ps workspace w))"
  unfolding executeJiraWorklog_def Let_def
  by (intro grows_andThen grows_newJiraClient)
    (auto simp: grows_report grows_issueTime grows_addWorklog grows_changes grows_activities)

section \<open>The contract\<close>

locale connector =
  fixes exec :: "Workspace \<Rightarrow> Operation \<Rightarrow> params \<Rightarrow> string \<Rightarrow> 's world \<Rightarrow> ('e + (int \<times> string)) \<times> 's world"
  assumes keeps_known: "grows w (snd (exec ws op ps workspace w))"
    and needs_site: "mget (ws_Sites ws) (op_Site op) = None \<Longrightarrow>
      snd (exec ws op ps workspace w) = w \<and> \<not> isOk (fst (exec ws op ps workspace w))"
begin

lemma wrapped_keeps_known: "grows w (snd (wrapErr f (exec ws op ps workspace w)))"
  by (simp add: wrapErr_def keeps_known)

lemma contact_has_site:
  "snd (exec ws op ps workspace w) \<noteq> w \<Longrightarrow> \<exists>site. mget (ws_Sites ws) (op_Site op) = Some site"
  using needs_site by blast

lemma answer_has_site:
  "isOk (fst (exec ws op ps workspace w)) \<Longrightarrow> \<exists>site. mget (ws_Sites ws) (op_Site op) = Some site"
  using needs_site by blast

text \<open>A secret that is known stays hidden by the redaction after any number of operations.\<close>

lemma known_after_runs:
  assumes "v \<in> known w"
  shows "v \<in> known (foldl (\<lambda>w (ws, op, ps, workspace). snd (exec ws op ps workspace w)) w runs)"
  using assms
proof (induction runs arbitrary: w)
  case (Cons r runs)
  obtain ws op ps workspace where "r = (ws, op, ps, workspace)" by (cases r)
  moreover have "v \<in> known (snd (exec ws op ps workspace w))"
    using Cons.prems keeps_known unfolding grows_def by blast
  ultimately show ?case using Cons.IH by simp
qed simp

end

interpretation http: connector "executeHttpConnector L U" for L U
  by unfold_locales (rule grows_http, simp add: executeHttpConnector_def prepare_def)

lemma slack_no_site:
  assumes "mget (ws_Sites ws) (op_Site op) = None"
  shows "snd (executeSlackFileContent L U base ws op ps workspace w) = w
    \<and> \<not> isOk (fst (executeSlackFileContent L U base ws op ps workspace w))"
proof -
  from assms obtain e where "slackEnv ws op ps = Inl e"
    by (cases "rmatch slackFileIDPattern (strParam ps ''file'')") (auto simp: slackEnv_def Let_def)
  then show ?thesis by (simp add: executeSlackFileContent_def)
qed

interpretation slack: connector "executeSlackFileContent L U base" for L U base
  by unfold_locales (rule grows_slack, rule slack_no_site)

interpretation pg: connector "executePostgresConnector L U D" for L U D
  by unfold_locales (rule grows_pg, simp add: executePostgresConnector_def pgTarget_def)

interpretation mcp: connector "executeMcpConnector L U" for L U
  by unfold_locales (rule grows_mcp, simp add: executeMcpConnector_def mcpEndpoint_def)

interpretation mail: connector "executeEmailConnector L U D" for L U D
  by unfold_locales (rule grows_email, simp add: executeEmailConnector_def emailTarget_def)

interpretation worklog: connector "executeJiraWorklog L J cfg" for L J cfg
  by unfold_locales (rule grows_worklog, simp add: executeJiraWorklog_def newJiraClient_def andThen_def)

end
