(* ===== verification/GatewaySafety.thy ===== *)
theory GatewaySafety
  imports Connectors
begin

text \<open>
  What the request path guarantees: the conditions under which anything is contacted, what a
  refusal leaves behind, what a dry run says, and that answers carry no known secret.
\<close>

section \<open>Admission\<close>

text \<open>The conditions themselves, in the terms of the components' specifications.\<close>

definition admitted ::
    "golib \<Rightarrow> runtimeState \<Rightarrow> string \<Rightarrow> string \<Rightarrow> string \<Rightarrow> string \<Rightarrow> Workspace \<Rightarrow> Operation \<Rightarrow> params \<Rightarrow> bool" where
  "admitted L st agentID workspace opID body ws op ps \<longleftrightarrow>
     (\<exists>agent m ps0.
        GetAgentByTokenSHA (st_cfg st) agentID = Some agent
      \<and> GetWorkspace (st_cfg st) workspace = Some ws \<and> Get (st_reg st) opID = Some op
      \<and> granted (st_cfg st) agent workspace opID \<and> \<not> siteDisabled ws (op_Site op)
      \<and> opBody L body = Inr m \<and> conforms L op (mapEntries m) ws
      \<and> CheckConstraints op (mapEntries m) ws = Inr ps0 \<and> checkParamScopes ws op ps0 = Inr ()
      \<and> ps = withDefaults op ps0
      \<and> checkEnvSelection ws op ps = Inr ()
      \<and> checkTunnelAccess (st_cfg st) (st_reg st) ws op ps = Inr ())"

lemma denied_Inr [simp]: "denied M rule wrap r = Inr x \<longleftrightarrow> r = Inr x"
  by (simp add: denied_def)

lemma lookupOp_Inr:
  "lookupOp st agent workspace opID = Inr (ws, op) \<longleftrightarrow>
     GetWorkspace (st_cfg st) workspace = Some ws \<and> Get (st_reg st) opID = Some op
     \<and> granted (st_cfg st) agent workspace opID \<and> \<not> siteDisabled ws (op_Site op)"
  by (auto simp: lookupOp_def grants.allows_iff split: option.splits if_splits)

lemma admitOp_iff:
  "admitOp L M st agentID workspace opID body = Inr (ws, op, ps) \<longleftrightarrow>
     admitted L st agentID workspace opID body ws op ps"
  by (cases "GetAgentByTokenSHA (st_cfg st) agentID")
    (auto simp: admitOp_def admitted_def rbind_Inr_iff lookupOp_Inr ValidateParams_iff Let_def)

lemma writeRefusal_keeps [simp]:
  "sv_world (snd (writeRefusal L M agentID workspace opID refusal s)) = sv_world s"
  "sv_state (snd (writeRefusal L M agentID workspace opID refusal s)) = sv_state s"
  by (auto simp: writeRefusal_def writeDeny_def writeUnknownOp_def logDeny_def Let_def split: refusal.split)

lemma executeOp_refused:
  "admitOp L M (sv_state s) agentID workspace opID (hr_Body r) = Inl refusal \<Longrightarrow>
     executeOp L M r agentID workspace opID s = writeRefusal L M agentID workspace opID refusal s"
  by (simp add: executeOp_def)

lemma handleDryRun_keeps [simp]:
  "sv_world (snd (handleDryRun L M r agentID workspace opID s)) = sv_world s"
  "sv_state (snd (handleDryRun L M r agentID workspace opID s)) = sv_state s"
  by (auto simp: handleDryRun_def split: sum.split)

definition opPath :: "httpReq \<Rightarrow> string \<Rightarrow> string \<Rightarrow> bool" where
  "opPath r workspace opID \<longleftrightarrow>
     (let parts = splitN 4 (CHR ''/'') (trimPrefix (hr_Path r) ''/v1/workspaces/'')
      in 3 \<le> length parts \<and> parts ! 0 = workspace \<and> parts ! 1 = ''op'' \<and> parts ! 2 = opID)"

text \<open>How a request to \<open>/v1/workspaces/\<close> ends: refused, a dry run, or an operation.\<close>

definition opParts :: "httpReq \<Rightarrow> string list" where
  "opParts r = splitN 4 (CHR ''/'') (trimPrefix (hr_Path r) ''/v1/workspaces/'')"

definition runs :: "golib \<Rightarrow> httpReq \<Rightarrow> 's Server \<Rightarrow> bool" where
  "runs L r s \<longleftrightarrow> \<not> (hr_Method r \<noteq> ''POST'' \<and> hr_Method r \<noteq> ''GET'')
     \<and> authenticate L (st_cfg (sv_state s)) (hr_Auth r) \<noteq> []
     \<and> \<not> (length (opParts r) < 3 \<or> opParts r ! 0 = [] \<or> opParts r ! 1 \<noteq> ''op'')
     \<and> queryGet r ''dry_run'' \<noteq> ''true''"

lemma path_guard: "\<not> (length p < n \<or> p ! 0 = [] \<or> p ! 1 \<noteq> x) \<Longrightarrow> n \<le> length p \<and> p ! 0 = p ! 0 \<and> p ! 1 = x \<and> p ! 2 = p ! 2"
  by auto

lemma runs_path: "runs L r s \<Longrightarrow> opPath r (opParts r ! 0) (opParts r ! 2)"
  unfolding runs_def opPath_def opParts_def [symmetric] Let_def by (elim conjE) (rule path_guard)

lemma four_guards:
  "\<not> a \<Longrightarrow> \<not> b \<Longrightarrow> \<not> c \<Longrightarrow> \<not> d \<Longrightarrow>
     (if a then w else if b then x else if c then y else if d then z else out) = out"
  "\<not> (\<not> a \<and> \<not> b \<and> \<not> c \<and> \<not> d) \<Longrightarrow> P w \<Longrightarrow> P x \<Longrightarrow> P y \<Longrightarrow> (d \<Longrightarrow> P z) \<Longrightarrow>
     P (if a then w else if b then x else if c then y else if d then z else out)"
  by auto

lemma handle_runs:
  "runs L r s \<Longrightarrow> handleWorkspaceOp L M r s =
    executeOp L M r (authenticate L (st_cfg (sv_state s)) (hr_Auth r)) (opParts r ! 0) (opParts r ! 2) s"
  unfolding handleWorkspaceOp_def opParts_def [symmetric] Let_def runs_def
  by (elim conjE) (rule four_guards(1))

lemma handle_rest:
  assumes "\<not> runs L r s" and "\<And>msg code. code \<in> {400, 405} \<Longrightarrow> P (Reply (errorReply msg code), s)" and "\<And>rule d. P (writeDeny L M [] [] [] rule d s)"
    and "\<And>a w p. queryGet r ''dry_run'' = ''true'' \<Longrightarrow> P (handleDryRun L M r a w p s)"
  shows "P (handleWorkspaceOp L M r s)"
  unfolding handleWorkspaceOp_def opParts_def [symmetric] Let_def
  by (rule four_guards(2) [OF assms(1) [unfolded runs_def]]) (rule assms; simp)+

lemma handle_cases:
  obtains
    (no) "sv_world (snd (handleWorkspaceOp L M r s)) = sv_world s"
  | (run) agentID workspace opID ws op ps where "agentID \<noteq> []"
      "authenticate L (st_cfg (sv_state s)) (hr_Auth r) = agentID"
      "opPath r workspace opID" "queryGet r ''dry_run'' \<noteq> ''true''"
      "admitted L (sv_state s) agentID workspace opID (hr_Body r) ws op ps"
      "handleWorkspaceOp L M r s = executeOp L M r agentID workspace opID s"
proof (cases "runs L r s")
  case False
  then have "sv_world (snd (handleWorkspaceOp L M r s)) = sv_world s"
    by (rule handle_rest) (simp_all add: writeDeny_def logDeny_def)
  then show ?thesis by (rule no)
next
  case True
  let ?a = "authenticate L (st_cfg (sv_state s)) (hr_Auth r)"
  note eq = handle_runs [OF True]
  show ?thesis
  proof (cases "admitOp L M (sv_state s) ?a (opParts r ! 0) (opParts r ! 2) (hr_Body r)")
    case (Inl refusal)
    show ?thesis by (rule no) (simp add: eq executeOp_refused [OF Inl])
  next
    case (Inr x)
    obtain ws op ps where x: "x = (ws, op, ps)" by (cases x)
    note adm = Inr [unfolded x admitOp_iff]
    from True have a: "?a \<noteq> []" unfolding runs_def by (elim conjE)
    from True have d: "queryGet r ''dry_run'' \<noteq> ''true''" unfolding runs_def by (elim conjE)
    show ?thesis by (rule run [OF a refl runs_path [OF True] d adm eq])
  qed
qed

lemma executeOp_returns:
  "executeOp L M r agentID workspace opID s = (if noReturn res then a else (b, c)) \<Longrightarrow> \<not> noReturn res \<Longrightarrow>
     b = Reply x \<Longrightarrow> \<exists>s'. executeOp L M r agentID workspace opID s = (Reply x, s')"
  by simp

lemma noReturn_Inr [simp]: "\<not> noReturn (Inr x)"
  by (simp add: noReturn_def)

lemma executeOp_admitted:
  assumes "admitted L (sv_state s) agentID workspace opID (hr_Body r) ws op ps"
    and "dispatchOp L M (st_cfg (sv_state s)) (sv_slackFilesBase s) ws op ps workspace (sv_world s) = (res, w)"
  shows "executeOp L M r agentID workspace opID s =
    (if noReturn res then (Aborted, s\<lparr>sv_world := w\<rparr>)
     else (answerOp L M (res_taint (w_res w)) workspace opID res,
       logAllow L M agentID workspace opID (auditParams op ps) (resultStatus res) (s\<lparr>sv_world := w\<rparr>)))"
proof -
  from assms(1) have "admitOp L M (sv_state s) agentID workspace opID (hr_Body r) = Inr (ws, op, ps)"
    using admitOp_iff by metis
  with assms(2) show ?thesis by (simp add: executeOp_def Let_def)
qed

text \<open>C1: The gate stands before everything. If a request to \<open>/v1/workspaces/\<close> changes anything
  outside the audit log (a secret is resolved, a request leaves, a device is called), then it
  carries the token of a registered agent and is no dry run, the agent is granted the
  operation in an existing workspace where the integration is not disabled, the parameters
  conform to the operation's declaration, its constraints and scopes hold, the environment is
  chosen and its tunnel is up; the effect is that of the operation's connector on these
  parameters, and an \<open>allow\<close> record of it has been given to the audit log, unless the handler
  never got to its answer.\<close>

theorem no_contact_without_admission:
  assumes "handleWorkspaceOp L M r s = (out, s')" and "sv_world s' \<noteq> sv_world s"
  shows "\<exists>agentID workspace opID ws op ps res.
      agentID \<noteq> [] \<and> authenticate L (st_cfg (sv_state s)) (hr_Auth r) = agentID
    \<and> opPath r workspace opID \<and> queryGet r ''dry_run'' \<noteq> ''true''
    \<and> admitted L (sv_state s) agentID workspace opID (hr_Body r) ws op ps
    \<and> dispatchOp L M (st_cfg (sv_state s)) (sv_slackFilesBase s) ws op ps workspace (sv_world s) = (res, sv_world s')
    \<and> (if noReturn res then out = Aborted \<and> sv_auditLog s' = sv_auditLog s
       else sv_auditLog s' = snd (LogAllow L (res_taint (w_res (sv_world s'))) (mo_clock M) (mo_requestID M) agentID
        workspace opID (MapOf (auditParams op ps)) (mo_latency M) (resultStatus res) (sv_auditLog s)))"
proof (cases rule: handle_cases [of L M r s])
  case no
  with assms show ?thesis by simp
next
  case (run agentID workspace opID ws op ps)
  obtain res w where d: "dispatchOp L M (st_cfg (sv_state s)) (sv_slackFilesBase s) ws op ps workspace (sv_world s) = (res, w)"
    by fastforce
  from run(6) assms(1) executeOp_admitted [OF run(5) d]
  have "sv_world s' = w"
    "if noReturn res then out = Aborted \<and> sv_auditLog s' = sv_auditLog s
     else sv_auditLog s' = snd (LogAllow L (res_taint (w_res w)) (mo_clock M) (mo_requestID M) agentID
        workspace opID (MapOf (auditParams op ps)) (mo_latency M) (resultStatus res) (sv_auditLog s))"
    by (auto simp: logAllow_def split: if_splits)
  with run(1-5) d show ?thesis by blast
qed

definition vpnOp :: Operation where
  "vpnOp = zeroOperation\<lparr>op_ID := ''wireguard.status'', op_Connector := ''local-service'', op_Site := ''vpn'',
     op_Method := ''STATUS''\<rparr>"

definition vpnSpace :: Workspace where
  "vpnSpace = zeroWorkspace\<lparr>ws_Sites := [(''vpn'', \<lparr>site_Environments = [(''prod'', zeroEnvironment)],
     site_DefaultEnv = [], site_Disabled = False\<rparr>)]\<rparr>"

definition vpnTunnel :: Tunnel where
  "vpnTunnel = \<lparr>tun_Type = ''wireguard'', tun_Tunnel = ''acme-vpn'', tun_CheckHost = [], tun_CheckPort = 0\<rparr>"

definition vpnState :: runtimeState where
  "vpnState = \<lparr>st_cfg = zeroConfig\<lparr>cfg_Agents := [exampleAgent],
       cfg_Roles := [(''dev'', \<lparr>role_Operations = [''wireguard.status'']\<rparr>)],
       cfg_Workspaces := [(''acme'', vpnSpace)], cfg_Tunnels := Some [(''vpn1'', vpnTunnel)]\<rparr>,
     st_reg = \<lparr>reg_Operations = [(''wireguard.status'', vpnOp)], reg_TunnelChecker = None\<rparr>\<rparr>"

definition vpnServer :: "(secretError + kgroup list) Server" where
  "vpnServer = \<lparr>sv_state = vpnState, sv_auditLog = InitLogger ''audit'' 0 [], sv_checksum = [], sv_opsPath = [],
     sv_slackFilesBase = [], sv_world = exampleWorld, sv_tunnelFactory = None\<rparr>"

definition vpnMoment :: "(secretError + kgroup list) moment" where
  "vpnMoment = \<lparr>mo_up = exampleUpstream, mo_dev = exampleDevices,
     mo_clock = \<lparr>clk_now = ''now'', clk_today = ''20260101'', clk_uuid = ''u'', clk_openFails = (\<lambda>p. False)\<rparr>,
     mo_requestID = ''id'', mo_latency = 1, mo_text = (\<lambda>e. ''error''),
     mo_wallDate = 0, mo_wallMinute = ''now'', mo_pages = 1, mo_beside = (\<lambda>p n. n), mo_now = ''now'', mo_today = ''2026-01-01'',
     mo_jsonError = (\<lambda>b. ''error''), mo_secretText = (\<lambda>e. ''error''), mo_pgText = (\<lambda>e. ''error''),
     mo_mailText = (\<lambda>e. ''error''), mo_restText = (\<lambda>e. ''error''), mo_timeText = (\<lambda>t. ''time''),
     mo_files = \<lparr>fs_read = (\<lambda>p. None), fs_open = (\<lambda>p. None), fs_write = (\<lambda>p. None),
       fs_rename = (\<lambda>p. None)\<rparr>,
     mo_isAbs = (\<lambda>p. True), mo_readConfig = (\<lambda>p. Inl ''missing''), mo_configText = (\<lambda>e. ''error''),
     mo_readOps = (\<lambda>p. Inr []), mo_opsText = (\<lambda>e. ''error''), mo_checksum = (\<lambda>p. ''unknown'')\<rparr>"

definition vpnRequest :: httpReq where
  "vpnRequest = \<lparr>hr_Method = ''POST'', hr_Path = ''/v1/workspaces/acme/op/wireguard.status'', hr_Query = [],
     hr_Auth = ''Bearer t0k'', hr_Body = []\<rparr>"

lemma vpn_parts: "opParts vpnRequest = [''acme'', ''op'', ''wireguard.status'']"
  by code_simp

lemma vpn_auth: "authenticate exampleLib (st_cfg vpnState) (hr_Auth vpnRequest) = ''sha:t0k''"
  by code_simp

lemma vpn_state: "sv_state vpnServer = vpnState"
  by (simp add: vpnServer_def)

lemma vpn_runs: "runs exampleLib vpnRequest vpnServer"
  unfolding runs_def vpn_parts vpn_state vpn_auth
  by (simp add: vpnRequest_def queryGet_def)

lemma vpn_admitted:
  assumes body: "opBody exampleLib b = Inr m" and entries: "mapEntries m = []"
  shows "admitted exampleLib vpnState ''sha:t0k'' ''acme'' ''wireguard.status'' b vpnSpace vpnOp []"
proof -
  have agent: "GetAgentByTokenSHA (st_cfg vpnState) ''sha:t0k'' = Some exampleAgent"
    by (simp add: vpnState_def GetAgentByTokenSHA_def exampleAgent_def)
  have ws: "GetWorkspace (st_cfg vpnState) ''acme'' = Some vpnSpace"
    by (simp add: vpnState_def GetWorkspace_def)
  have op: "Get (st_reg vpnState) ''wireguard.status'' = Some vpnOp"
    by (simp add: vpnState_def Get_def)
  have grant: "agentHasOp (st_cfg vpnState) exampleAgent ''acme'' ''wireguard.status''" by code_simp
  have site: "\<not> siteDisabled vpnSpace (op_Site vpnOp)" by code_simp
  have "ValidateParams exampleLib vpnOp [] vpnSpace = Inr ()" by code_simp
  then have conf: "conforms exampleLib vpnOp (mapEntries m) vpnSpace" by (simp add: entries ValidateParams_iff)
  have "CheckConstraints vpnOp [] vpnSpace = Inr []" by code_simp
  then have cons: "CheckConstraints vpnOp (mapEntries m) vpnSpace = Inr []" by (simp add: entries)
  have scopes: "checkParamScopes vpnSpace vpnOp [] = Inr ()" by code_simp
  have defaults: "[] = withDefaults vpnOp []" by code_simp
  have env: "checkEnvSelection vpnSpace vpnOp [] = Inr ()" by code_simp
  have tunnel: "checkTunnelAccess (st_cfg vpnState) (st_reg vpnState) vpnSpace vpnOp [] = Inr ()" by code_simp
  show ?thesis
    unfolding admitted_def
    by (intro exI conjI) (rule agent ws op grant [unfolded grants.allows_iff] site body conf cons scopes defaults env tunnel)+
qed

lemma vpn_dispatch:
  "dispatchOp exampleLib vpnMoment (st_cfg vpnState) [] vpnSpace vpnOp [] ''acme'' w
     = (Inr (200, encodeJson exampleLib (JObj [(''tunnel'', JStr ''vpn1''), (''type'', JStr ''wireguard''),
          (''connected'', JBool True), (''details'', JStr ''WireGuardTunnel$acme-vpn status: RUNNING'')])),
        record_call (ServiceQuery ''WireGuardTunnel$acme-vpn'') w)"
proof -
  have op: "op_Connector vpnOp = ''local-service''" "op_Method vpnOp = ''STATUS''" "op_Site vpnOp = ''vpn''"
    "op_SlackFileContent vpnOp = False"
    by (simp_all add: vpnOp_def zeroOperation_def)
  have running: "strContains ''RUNNING'' ''RUNNING''" by code_simp
  have run: "executeLocalServiceConnector exampleLib exampleDevices (st_cfg vpnState) vpnSpace vpnOp [] w
     = (Inr (encodeJson exampleLib (JObj [(''tunnel'', JStr ''vpn1''), (''type'', JStr ''wireguard''),
          (''connected'', JBool True), (''details'', JStr ''WireGuardTunnel$acme-vpn status: RUNNING'')])),
        record_call (ServiceQuery ''WireGuardTunnel$acme-vpn'') w)"
    by (simp add: executeLocalServiceConnector_def op strParam_def GetTunnel_def vpnState_def localStatus_def
        vpnSpace_def vpnTunnel_def wireGuardService_def exampleDevices_def running)
  show ?thesis
    by (simp add: dispatchOp_def op run vpnMoment_def)
qed

lemma no_contact_without_admission_witness:
  "\<exists>agentID workspace opID ws op ps res.
      agentID \<noteq> [] \<and> authenticate exampleLib (st_cfg (sv_state vpnServer)) (hr_Auth vpnRequest) = agentID
    \<and> opPath vpnRequest workspace opID \<and> queryGet vpnRequest ''dry_run'' \<noteq> ''true''
    \<and> admitted exampleLib (sv_state vpnServer) agentID workspace opID (hr_Body vpnRequest) ws op ps
    \<and> dispatchOp exampleLib vpnMoment (st_cfg (sv_state vpnServer)) (sv_slackFilesBase vpnServer) ws op ps workspace
        (sv_world vpnServer) = (res, sv_world (snd (handleWorkspaceOp exampleLib vpnMoment vpnRequest vpnServer)))
    \<and> (if noReturn res then fst (handleWorkspaceOp exampleLib vpnMoment vpnRequest vpnServer) = Aborted
          \<and> sv_auditLog (snd (handleWorkspaceOp exampleLib vpnMoment vpnRequest vpnServer)) = sv_auditLog vpnServer
       else sv_auditLog (snd (handleWorkspaceOp exampleLib vpnMoment vpnRequest vpnServer)) =
        snd (LogAllow exampleLib
          (res_taint (w_res (sv_world (snd (handleWorkspaceOp exampleLib vpnMoment vpnRequest vpnServer)))))
          (mo_clock vpnMoment) (mo_requestID vpnMoment) agentID
          workspace opID (MapOf (auditParams op ps)) (mo_latency vpnMoment) (resultStatus res) (sv_auditLog vpnServer)))"
proof (rule no_contact_without_admission [OF surjective_pairing])
  have adm: "admitted exampleLib (sv_state vpnServer) ''sha:t0k'' ''acme'' ''wireguard.status'' (hr_Body vpnRequest)
      vpnSpace vpnOp []"
    using vpn_admitted [of "[]" NilMap] by (simp add: vpn_state vpnRequest_def opBody_def)
  have d: "dispatchOp exampleLib vpnMoment (st_cfg (sv_state vpnServer)) (sv_slackFilesBase vpnServer) vpnSpace vpnOp []
      ''acme'' (sv_world vpnServer) = (fst (dispatchOp exampleLib vpnMoment (st_cfg vpnState) [] vpnSpace vpnOp []
      ''acme'' exampleWorld), record_call (ServiceQuery ''WireGuardTunnel$acme-vpn'') exampleWorld)"
    by (simp add: vpn_dispatch vpnServer_def)
  have "handleWorkspaceOp exampleLib vpnMoment vpnRequest vpnServer
      = executeOp exampleLib vpnMoment vpnRequest ''sha:t0k'' ''acme'' ''wireguard.status'' vpnServer"
    using handle_runs [OF vpn_runs] by (simp add: vpn_parts vpn_state vpn_auth)
  then have "sv_world (snd (handleWorkspaceOp exampleLib vpnMoment vpnRequest vpnServer))
      = record_call (ServiceQuery ''WireGuardTunnel$acme-vpn'') exampleWorld"
    by (simp add: executeOp_admitted [OF adm d] logAllow_def)
  then show "sv_world (snd (handleWorkspaceOp exampleLib vpnMoment vpnRequest vpnServer)) \<noteq> sv_world vpnServer"
    by (simp add: vpnServer_def record_call_def exampleWorld_def)
qed

section \<open>Refusals and dry runs\<close>

text \<open>An answer of the operation itself: status 200, or a handler that ran and panicked.\<close>

definition served :: "outcome \<Rightarrow> bool" where
  "served out \<longleftrightarrow> (case out of Aborted \<Rightarrow> True | Reply x \<Rightarrow> rp_Status x = 200)"

text \<open>A refusal touches nothing but the audit log: a denial and an unknown operation leave one
  \<open>deny\<close> record there, a request that cannot be read leaves none.\<close>

definition refusedCleanly ::
    "golib \<Rightarrow> 's moment \<Rightarrow> string \<Rightarrow> string \<Rightarrow> string \<Rightarrow> 's Server \<Rightarrow> outcome \<Rightarrow> 's Server \<Rightarrow> bool" where
  "refusedCleanly L M agentID workspace opID s out s' \<longleftrightarrow>
     (\<exists>x. out = Reply x \<and>
        (rp_Status x \<in> {403, 404} \<and> (\<exists>rule detail. s' = s\<lparr>sv_auditLog := snd (LogDeny L (mo_clock M)
            (mo_requestID M) agentID workspace opID rule detail (sv_auditLog s))\<rparr>)
         \<or> rp_Status x \<in> {400, 413} \<and> s' = s))"

lemma lookupOp_refusals: "lookupOp st agent workspace opID = Inl (Plain msg code) \<Longrightarrow> False"
  by (auto simp: lookupOp_def split: option.splits if_splits)

lemma opBody_refusals: "opBody L body = Inl refusal \<Longrightarrow> \<exists>msg code. refusal = Plain msg code \<and> code \<in> {400, 413}"
  by (auto simp: opBody_def split: option.splits if_splits)

lemma denied_refusals: "denied M rule wrap r = Inl refusal \<Longrightarrow> \<exists>d. refusal = Denied rule d"
  by (cases r) (auto simp: denied_def)

lemma admitOp_refusals:
  assumes "admitOp L M st agentID workspace opID body = Inl (Plain msg code)"
  shows "code \<in> {400, 413}"
  using assms
  by (auto simp: admitOp_def rbind_Inl_iff Let_def dest!: lookupOp_refusals opBody_refusals denied_refusals
      split: option.splits prod.splits)

lemma writeRefusal_clean:
  assumes "\<And>msg code. refusal = Plain msg code \<Longrightarrow> code \<in> {400, 413}"
  shows "case writeRefusal L M agentID workspace opID refusal s of (out, s') \<Rightarrow>
    refusedCleanly L M agentID workspace opID s out s'"
  using assms
  by (cases refusal) (auto simp: writeRefusal_def writeDeny_def writeUnknownOp_def logDeny_def jsonReply_def
      errorReply_def refusedCleanly_def Let_def)

lemma answerOp_served: "served (answerOp L M t workspace opID res)"
  by (auto simp: served_def answerOp_def writeRedactedJSON_def split: sum.split prod.split option.split goMapVal.split)

lemma executeOp_refused_clean:
  assumes "admitOp L M (sv_state s) agentID workspace opID (hr_Body r) = Inl refusal"
    and "executeOp L M r agentID workspace opID s = (out, s')"
  shows "refusedCleanly L M agentID workspace opID s out s'" "\<not> served out"
proof -
  have "case executeOp L M r agentID workspace opID s of (out, s') \<Rightarrow>
      refusedCleanly L M agentID workspace opID s out s'"
    unfolding executeOp_refused [OF assms(1)]
    by (rule writeRefusal_clean) (use assms(1) admitOp_refusals in blast)
  with assms(2) show clean: "refusedCleanly L M agentID workspace opID s out s'" by simp
  then show "\<not> served out" by (auto simp: refusedCleanly_def served_def)
qed

text \<open>C2: The checks before an operation decide exactly. An operation is answered as executed if
  and only if the request is admitted, that is meets every condition of the specification
  \<open>admitted\<close>; otherwise the agent gets an error status, no secret is resolved and nothing is
  contacted, and the audit log gains one \<open>deny\<close> record, or none when the body is unreadable.\<close>

theorem executeOp_decides:
  "case executeOp L M r agentID workspace opID s of (out, s') \<Rightarrow>
     if \<exists>ws op ps. admitted L (sv_state s) agentID workspace opID (hr_Body r) ws op ps then served out
     else \<not> served out \<and> refusedCleanly L M agentID workspace opID s out s'"
proof (cases "admitOp L M (sv_state s) agentID workspace opID (hr_Body r)")
  case (Inl refusal)
  then have no: "\<not> (\<exists>ws op ps. admitted L (sv_state s) agentID workspace opID (hr_Body r) ws op ps)"
    using admitOp_iff by (metis sum.distinct(1))
  obtain out s' where e: "executeOp L M r agentID workspace opID s = (out, s')" by fastforce
  with executeOp_refused_clean [OF Inl e] no show ?thesis by simp
next
  case (Inr x)
  obtain ws op ps where x: "x = (ws, op, ps)" by (cases x)
  then have adm: "admitted L (sv_state s) agentID workspace opID (hr_Body r) ws op ps"
    using Inr by (simp add: admitOp_iff)
  obtain res w where d: "dispatchOp L M (st_cfg (sv_state s)) (sv_slackFilesBase s) ws op ps workspace (sv_world s) = (res, w)"
    by fastforce
  from adm show ?thesis by (auto simp: executeOp_admitted [OF adm d] answerOp_served) (simp add: served_def)
qed

text \<open>Documented behaviour of \<open>encoding/json\<close>: when a whole body is one JSON value, the decoder of a
  stream reads that value first.\<close>

definition decodesAlike :: "golib \<Rightarrow> string \<Rightarrow> bool" where
  "decodesAlike L body \<longleftrightarrow>
     (case lib_decode L body of None \<Rightarrow> True | Some v \<Rightarrow> lib_decodeFirst L body = Some v)"

lemma dryBody_of_opBody:
  assumes "opBody L body = Inr m" and "body \<noteq> []" and "decodesAlike L body"
  shows "dryBody L body = Inr m"
proof -
  from assms(1,2) have len: "length body \<le> maxOpBodyBytes" and dec: "decodeMap L body = Some m"
    by (auto simp: opBody_def split: if_splits option.splits)
  from dec obtain v where v: "lib_decode L body = Some v"
    by (auto simp: decodeMap_def decodeAny_def elim: toMap.elims)
  with assms(3) have "lib_decodeFirst L body = lib_decode L body" by (simp add: decodesAlike_def)
  with len dec show ?thesis by (simp add: dryBody_def decodeMap_def decodeAny_def)
qed


abbreviation bracesRequest :: httpReq where
  "bracesRequest \<equiv> vpnRequest\<lparr>hr_Body := ''{}''\<rparr>"


text \<open>The converse fails: the dry run does not ask whether the required tunnel is up.\<close>

lemma dry_run_skips_tunnel:
  "admitDry L M (st\<lparr>st_reg := (st_reg st)\<lparr>reg_TunnelChecker := checker\<rparr>\<rparr>) agentID workspace opID body
    = admitDry L M st agentID workspace opID body"
proof -
  have "lookupOp (st\<lparr>st_reg := (st_reg st)\<lparr>reg_TunnelChecker := checker\<rparr>\<rparr>) = lookupOp st"
    by (intro ext) (simp add: lookupOp_def Get_def cong: option.case_cong)
  then show ?thesis by (simp add: admitDry_def cong: option.case_cong)
qed

section \<open>Answers hold no secret\<close>

lemma grows_wrapErr [simp]: "grows w (snd (wrapErr f r)) \<longleftrightarrow> grows w (snd r)"
  by (simp add: wrapErr_def)

lemma grows_dispatch:
  shows "grows w (snd (dispatchOp L M cfg base ws op ps workspace w))"
  using grows_local
  by (auto simp: dispatchOp_def Let_def worklog.keeps_known http.keeps_known slack.keeps_known pg.keeps_known
      mcp.keeps_known mail.keeps_known split_beta)

lemma executeOp_world:
  shows "grows (sv_world s) (sv_world (snd (executeOp L M r agentID workspace opID s)))
    \<and> sv_state (snd (executeOp L M r agentID workspace opID s)) = sv_state s"
proof (cases "admitOp L M (sv_state s) agentID workspace opID (hr_Body r)")
  case (Inl refusal)
  then show ?thesis by (simp add: executeOp_refused)
next
  case (Inr x)
  obtain ws op ps where x: "x = (ws, op, ps)" by (cases x)
  then have adm: "admitted L (sv_state s) agentID workspace opID (hr_Body r) ws op ps"
    using Inr by (simp add: admitOp_iff)
  obtain res w where d: "dispatchOp L M (st_cfg (sv_state s)) (sv_slackFilesBase s) ws op ps workspace (sv_world s) = (res, w)"
    by fastforce
  from grows_dispatch [of "sv_world s"] d have "grows (sv_world s) w" by (metis snd_conv)
  then show ?thesis by (simp add: executeOp_admitted [OF adm d] logAllow_def)
qed

lemma handle_grows:
  shows "grows (sv_world s) (sv_world (snd (handleWorkspaceOp L M r s)))"
proof (cases "runs L r s")
  case True
  then show ?thesis by (simp add: handle_runs executeOp_world)
next
  case False
  then show ?thesis by (rule handle_rest) (simp_all add: writeDeny_def logDeny_def)
qed

text \<open>A history of the server: requests answered one after the other, each in its own moment, and
  the configuration and operations replaced in between.\<close>

inductive history :: "golib \<Rightarrow> 's Server \<Rightarrow> 's Server \<Rightarrow> bool" for L where
  H_start: "history L s s"
| H_request: "history L s v \<Longrightarrow> history L s (snd (handleWorkspaceOp L M r v))"
| H_reload: "history L s v \<Longrightarrow> history L s (v\<lparr>sv_state := st\<rparr>)"

inductive_cases history_startE: "history L s s'"

lemma history_grows: "history L s s' \<Longrightarrow> grows (sv_world s) (sv_world s')"
  by (induction rule: history.induct) (auto intro: grows_trans handle_grows)

lemma answerOp_redacted:
  "answerOp L M t workspace opID res = Reply x \<Longrightarrow> \<exists>data. rp_Body x = Redact t data"
  by (auto simp: answerOp_def writeRedactedJSON_def split: sum.splits prod.splits option.splits goMapVal.splits)

lemma executeOp_redacted:
  assumes "executeOp L M r agentID workspace opID s = (Reply x, s')" and "rp_Status x = 200"
  shows "\<exists>data. rp_Body x = Redact (res_taint (w_res (sv_world s'))) data"
proof (cases "admitOp L M (sv_state s) agentID workspace opID (hr_Body r)")
  case (Inl refusal)
  from executeOp_refused_clean(2) [OF Inl assms(1)] assms(2) show ?thesis by (simp add: served_def)
next
  case (Inr y)
  obtain ws op ps where y: "y = (ws, op, ps)" by (cases y)
  then have adm: "admitted L (sv_state s) agentID workspace opID (hr_Body r) ws op ps"
    using Inr by (simp add: admitOp_iff)
  obtain res w where d: "dispatchOp L M (st_cfg (sv_state s)) (sv_slackFilesBase s) ws op ps workspace (sv_world s) = (res, w)"
    by fastforce
  from assms(1) show ?thesis
    by (auto simp: executeOp_admitted [OF adm d] logAllow_def dest!: answerOp_redacted split: if_splits)
qed

lemma handle_200:
  assumes "handleWorkspaceOp L M r s = (Reply x, s')" and "rp_Status x = 200" and "queryGet r ''dry_run'' \<noteq> ''true''"
  shows "runs L r s"
proof (rule ccontr)
  let ?ok = "\<lambda>res :: outcome \<times> 'a Server. \<forall>x. fst res = Reply x \<longrightarrow> rp_Status x \<noteq> 200"
  assume "\<not> runs L r s"
  then have "?ok (handleWorkspaceOp L M r s)"
    by (rule handle_rest) (use assms(3) in \<open>auto simp: errorReply_def writeDeny_def jsonReply_def\<close>)
  with assms show False by simp
qed


definition leakServer :: "(secretError + kgroup list) Server" where
  "leakServer = vpnServer\<lparr>sv_world := taintWorld exampleLib ''hunter22'' exampleWorld\<rparr>"

lemma answerOp_plain:
  "decodeMap L body = None \<Longrightarrow>
     \<exists>x. answerOp L M t workspace opID (Inr (status, body)) = Reply x \<and> rp_Status x = 200"
  by (simp add: answerOp_def writeRedactedJSON_def)


end
