(* ===== verification/Endpoints.thy ===== *)
theory Endpoints
  imports GatewaySafety
begin

text \<open>
  The other endpoints an agent may call, from server.go: health, identity, capabilities, help and
  feedback. Each is a function of the request and the server, as in theory \<open>Gateway\<close>.
\<close>

section \<open>Replies\<close>

definition rawReply :: "string \<Rightarrow> reply" where
  "rawReply text = \<lparr>rp_Status = 200, rp_Headers = jsonHeader, rp_Body = text @ newline\<rparr>"

definition plainHeader :: "string gomap" where
  "plainHeader = [(''Content-Type'', ''text/plain'')]"

definition fails :: "string \<Rightarrow> int \<Rightarrow> 's Server \<Rightarrow> outcome \<times> 's Server" where
  "fails msg code s = (Reply (errorReply msg code), s)"

definition cfgOf :: "'s Server \<Rightarrow> Config" where
  "cfgOf s = st_cfg (sv_state s)"

section \<open>Health and identity\<close>

definition handleHealthz :: "golib \<Rightarrow> httpReq \<Rightarrow> 's Server \<Rightarrow> outcome \<times> 's Server" where
  "handleHealthz L r s =
     (if hr_Method r \<noteq> ''GET'' then fails ''method not allowed'' 405 s
      else (Reply (jsonReply L 200 jsonHeader (JObj [(''status'', JStr ''ok'')])), s))"

text \<open>\<open>authenticate\<close> followed by the lookup of the agent, as three handlers do it.\<close>

definition knownAgent :: "golib \<Rightarrow> httpReq \<Rightarrow> 's Server \<Rightarrow> (string \<times> int) + Agent" where
  "knownAgent L r s =
     (let agentID = authenticate L (cfgOf s) (hr_Auth r)
      in if agentID = [] then Inl (''unauthorized'', 401)
         else (case GetAgentByTokenSHA (cfgOf s) agentID of
                 None \<Rightarrow> Inl (''agent not found'', 404)
               | Some agent \<Rightarrow> Inr agent))"

definition grantText :: "Config \<Rightarrow> Grant \<Rightarrow> string list" where
  "grantText cfg grant =
     (case GetRole cfg (grant_Role grant) of
        None \<Rightarrow> []
      | Some role \<Rightarrow> [objectText [(''workspace'', jsonQuote True (grant_Workspace grant)),
          (''operations'', sliceText (map (jsonQuote True) (role_Operations role)))]])"

definition handleWhoami :: "golib \<Rightarrow> httpReq \<Rightarrow> 's Server \<Rightarrow> outcome \<times> 's Server" where
  "handleWhoami L r s =
     (if hr_Method r \<noteq> ''GET'' then fails ''method not allowed'' 405 s
      else (case knownAgent L r s of
              Inl (msg, code) \<Rightarrow> fails msg code s
            | Inr agent \<Rightarrow>
                (Reply (rawReply (objectText
                   [(''agent_id'', jsonQuote True (agent_ID agent)),
                    (''grants'', sliceText (concat (map (grantText (cfgOf s)) (agent_Grants agent))))])), s)))"

section \<open>Capabilities\<close>

definition exampleValue :: "string \<Rightarrow> string \<Rightarrow> string" where
  "exampleValue name t =
     (if t = ''bool'' then ''$true'' else if t = ''int'' then ''42'' else if t = ''object'' then ''@'' @ ''{}''
      else [CHR 0x22] @ name @ ''_value'' @ [CHR 0x22])"

definition buildExample :: "Config \<Rightarrow> string \<Rightarrow> string \<Rightarrow> ParamDef gomap \<Rightarrow> string" where
  "buildExample cfg workspace opID ps =
     (let port = (if srv_Port (cfg_Server cfg) = 0 then 8443 else srv_Port (cfg_Server cfg));
          bodyParts = map (\<lambda>(name, d). name @ ''='' @ exampleValue name (pd_Type d))
            (filter (\<lambda>(name, d). name \<noteq> ''env'') ps);
          q = [CHR 0x22];
          body = ''@'' @ ''{env='' @ [CHR 0x60] @ q @ ''prod'' @ [CHR 0x60] @ q @ '';'' @ join '';'' bodyParts
            @ ''} | ConvertTo-Json''
      in ''$h=@'' @ ''{Authorization='' @ q @ ''Bearer <token>'' @ q @ ''}; Invoke-RestMethod -Uri '' @ q
         @ ''http://127.0.0.1:'' @ showInt port @ ''/v1/workspaces/'' @ workspace @ ''/op/'' @ opID @ q
         @ '' -Method Post -Body ('' @ body @ '') -ContentType '' @ q @ ''application/json'' @ q @ '' -Headers $h'')"

text \<open>What is shown of a parameter; \<open>values\<close> and \<open>keys\<close> only when they are configured.\<close>

definition paramCapability :: "ParamDef \<Rightarrow> json" where
  "paramCapability d =
     JObj ([(''type'', JStr (pd_Type d)), (''required'', JBool (pd_Required d))]
       @ (case pd_Values d of None \<Rightarrow> [] | Some vs \<Rightarrow> [(''values'', JArr (map JStr vs))])
       @ (if 0 < pd_MaxLen d then [(''maxlen'', JInt (pd_MaxLen d))] else [])
       @ (if pd_Pattern d \<noteq> [] then [(''pattern'', JStr (pd_Pattern d))] else [])
       @ (case pd_Keys d of None \<Rightarrow> [] | Some ks \<Rightarrow> [(''keys'', JArr (map JStr ks))]))"

definition opCapability :: "golib \<Rightarrow> Config \<Rightarrow> string \<Rightarrow> string \<Rightarrow> Operation \<Rightarrow> string" where
  "opCapability L cfg workspace opID op =
     objectText
       ([(''id'', jsonQuote True opID),
         (''params'', encodeJson L (JObj (map (\<lambda>(name, d). (name, paramCapability d)) (op_Params op)))),
         (''site'', jsonQuote True (op_Site op))]
        @ (if op_Method op = [] then [] else [(''method'', jsonQuote True (op_Method op))])
        @ (if op_Path op = [] then [] else [(''path'', jsonQuote True (op_Path op))])
        @ [(''example'', jsonQuote True (buildExample cfg workspace opID (op_Params op)))])"

definition features :: "Config \<Rightarrow> json" where
  "features cfg =
     JObj (map (\<lambda>(k, v). (k, JStr v))
       [(''postgres_ast_parsing'', ''semicolon-multi-statement-detect''),
        (''response_field_filter'', ''enabled''),
        (''admin_auth'', if cfg_AdminTokenSHA cfg \<noteq> [] then ''enabled'' else ''unconfigured''),
        (''cross_tenant_isolation'', ''enabled''), (''config_signing'', ''sha256-checksum''),
        (''config_hot_reload'', ''enabled''), (''clockify_scheduler'', ''stub-not-wired''),
        (''secret_empty_detect'', ''enabled'')])"

text \<open>The operations of an agent in a workspace, in the order of their ids.\<close>

definition listedOps :: "'s Server \<Rightarrow> Agent \<Rightarrow> string \<Rightarrow> Workspace \<Rightarrow> (string \<times> Operation) list" where
  "listedOps s agent workspace ws =
     (let ops = grantedOperations (cfgOf s) (st_reg (sv_state s)) agent workspace ws
      in map (\<lambda>opID. (opID, the (mget ops opID))) (sortedKeys ops))"

definition capabilitiesText :: "golib \<Rightarrow> 's Server \<Rightarrow> Agent \<Rightarrow> string \<Rightarrow> Workspace \<Rightarrow> string" where
  "capabilitiesText L s agent workspace ws =
     objectText
       [(''config_checksum'', jsonQuote True (sv_checksum s)),
        (''features'', encodeJson L (features (cfgOf s))),
        (''operations'', arrayText (map (\<lambda>(opID, op). opCapability L (cfgOf s) workspace opID op)
           (listedOps s agent workspace ws))),
        (''workspace'', jsonQuote True workspace)]"

definition handleCapabilities :: "golib \<Rightarrow> httpReq \<Rightarrow> 's Server \<Rightarrow> outcome \<times> 's Server" where
  "handleCapabilities L r s =
     (if hr_Method r \<noteq> ''GET'' then fails ''method not allowed'' 405 s
      else (case knownAgent L r s of
              Inl (msg, code) \<Rightarrow> fails msg code s
            | Inr agent \<Rightarrow>
                (let workspace = queryGet r ''workspace''
                 in if workspace = [] then fails ''workspace query param required'' 400 s
                    else if \<not> agentHasWorkspace agent workspace then fails ''workspace not accessible'' 403 s
                    else (case GetWorkspace (cfgOf s) workspace of
                            None \<Rightarrow> fails ''workspace not found'' 404 s
                          | Some ws \<Rightarrow> (Reply (rawReply (capabilitiesText L s agent workspace ws)), s)))))"

section \<open>Help\<close>

definition banner :: "string list" where
  "banner =
     [''=== external_gateway ==='', [], ''Endpoints:'',
      ''  GET /healthz                        liveness check'',
      ''  GET /help[?workspace=<name>]        this page'',
      ''  GET /whoami                         your identity + grants'',
      ''  GET /capabilities?workspace=<name>  operation schemas'',
      ''  POST /v1/workspaces/<w>/op/<id>     execute operation'',
      ''  POST /v1/workspaces/<w>/op/<id>?dry_run=true  validate only'',
      ''  POST /feedback                      report bug / feature / todo (needs token)'',
      [], ''Auth:'', ''  Authorization: Bearer <token>'', ''  Get your token from the operator.'', []]"

text \<open>Only a field that starts with \<open>@\<close> is shown; every shown field has the same placeholder or one by its name.\<close>

definition exampleFieldValue :: "string \<Rightarrow> string \<Rightarrow> string" where
  "exampleFieldValue site field =
     (if List.member [''email'', ''login'', ''user'', ''username'', ''from'', ''to''] field then ''...@...''
      else if List.member [''created_at'', ''updated_at'', ''date'', ''start'', ''end'', ''timestamp'', ''createdTime'',
        ''modifiedTime''] field then ''2026-...''
      else ''...'')"

definition setExampleValue :: "params \<Rightarrow> string \<Rightarrow> string \<Rightarrow> params" where
  "setExampleValue root field site =
     (if hasPrefix field ''@'' then mput field (JStr (exampleFieldValue site field)) root else root)"

definition buildExampleResponse :: "golib \<Rightarrow> string \<Rightarrow> string list \<Rightarrow> string" where
  "buildExampleResponse L opID allowFields =
     (let parts = splitN 2 (CHR ''.'') opID; site = (if 0 < length parts then parts ! 0 else [])
      in encodeJson L (JObj (foldl (\<lambda>root field. setExampleValue root field site) [] allowFields)))"

definition siteLines :: "Workspace \<Rightarrow> string list" where
  "siteLines ws =
     [''Services:'']
     @ map (\<lambda>(siteType, site). ''  '' @ siteType @ '': '' @ join '', '' (mkeys (site_Environments site))) (ws_Sites ws)
     @ [[]]"

definition databaseLines :: "Workspace \<Rightarrow> string list" where
  "databaseLines ws =
     (case mget (ws_Sites ws) ''postgres'' of
        None \<Rightarrow> []
      | Some site \<Rightarrow>
          [''PostgreSQL databases:'']
          @ map (\<lambda>(envName, env). ''  '' @ envName @ '': '' @ join '', '' (sortedKeys (env_Databases env)))
              (site_Environments site)
          @ [[]])"

definition tunnelRefs :: "Workspace \<Rightarrow> string list" where
  "tunnelRefs ws =
     remdups (filter (\<lambda>t. t \<noteq> [])
       (concat (map (\<lambda>(_, site). map (\<lambda>(_, env). env_RequiresTunnel env) (site_Environments site)) (ws_Sites ws))))"

definition tunnelLines :: "Config \<Rightarrow> Workspace \<Rightarrow> string list" where
  "tunnelLines cfg ws =
     (if tunnelRefs ws = [] then []
      else [''Required tunnels:'']
        @ concat (map (\<lambda>t. case GetTunnel cfg t of
             None \<Rightarrow> [] | Some tun \<Rightarrow> [''  '' @ t @ '' ('' @ tun_Type tun @ '')'']) (tunnelRefs ws))
        @ [[]])"

definition opLines :: "golib \<Rightarrow> Workspace \<Rightarrow> string \<times> Operation \<Rightarrow> string list" where
  "opLines L ws idOp =
     (let (opID, op) = idOp;
          req = map fst (filter (\<lambda>(n, p). pd_Required p) (op_Params op));
          required = (if req = [] then [] else ''  params: '' @ join '', '' req);
          method = (if op_Method op = [] then ''POST'' else op_Method op);
          envNames = (if op_Site op = [] then []
            else (case mget (ws_Sites ws) (op_Site op) of None \<Rightarrow> [] | Some site \<Rightarrow> mkeys (site_Environments site)));
          envHint = (if envNames = [] then [] else ''  env: '' @ join ''|'' envNames)
      in [''  '' @ opID]
         @ (if required = [] then [] else [''    '' @ required])
         @ (if envHint = [] then [] else [''    '' @ envHint])
         @ (if method = ''POST'' then [] else [''    method: '' @ method])
         @ (if op_Path op = [] then [] else [''    path: '' @ op_Path op])
         @ (let allow = elems (resp_AllowFields (op_Response op))
            in if allow = [] then [] else [''    example response: '' @ buildExampleResponse L opID allow]))"

definition quoted :: "string \<Rightarrow> string" where
  "quoted s = [CHR 0x22] @ s @ [CHR 0x22]"

text \<open>A body of string members, as the examples write it.\<close>

definition exampleBody :: "(string \<times> string) list \<Rightarrow> string" where
  "exampleBody kvs = ''{'' @ join '','' (map (\<lambda>(k, v). quoted k @ '':'' @ v) kvs) @ ''}''"

definition exampleLines :: "string \<Rightarrow> string \<Rightarrow> string list" where
  "exampleLines name siteType =
     (let q = quoted; line = (\<lambda>op body. ''  '' @ name @ ''.'' @ op @ body)
      in if siteType = ''jira'' then
           [line ''jira.search  POST '' (exampleBody [(''jql'', q ''project=MD''), (''env'', q ''prod'')]),
            line ''jira.issue   POST '' (exampleBody [(''key'', q ''MD-123''), (''env'', q ''prod'')]),
            line ''jira.create  POST '' (exampleBody [(''project'', q ''MD''), (''summary'', q ''...''), (''env'', q ''prod'')])]
         else if siteType = ''bitbucket'' then
           [line ''bitbucket.pr  POST '' (exampleBody [(''repo'', q ''my-repo''), (''pr_id'', ''1'')])]
         else if siteType = ''gitlab'' then
           [line ''gitlab.mr    POST '' (exampleBody [(''project_id'', q ''group/repo''), (''mr_iid'', ''1'')]),
            line ''gitlab.projects POST '' (exampleBody [(''search'', q ''name'')]) @ ''  (lists visible projects)'']
         else if siteType = ''postgres'' then
           [line ''postgres.query  POST ''
              (exampleBody [(''env'', q ''dev''), (''db'', q ''mydb''), (''sql'', q ''SELECT 1'')]),
            line ''postgres.tables POST '' (exampleBody [(''env'', q ''dev''), (''db'', q ''mydb'')])]
         else if siteType = ''kibana'' then
           [line ''kibana.search POST '' (exampleBody [(''env'', q ''dev''), (''query'', q ''...'')]),
            line ''kibana.login  POST '' (exampleBody [(''env'', q ''dev''), (''password'', q ''...'')])]
         else if siteType = ''clockify'' then
           [line ''clockify.entries POST '' (exampleBody [(''env'', q ''prod'')])]
         else [])"

definition workspaceHelp :: "golib \<Rightarrow> 's Server \<Rightarrow> Agent \<Rightarrow> string \<Rightarrow> Workspace \<Rightarrow> string list" where
  "workspaceHelp L s agent name ws =
     [''Workspace: '' @ name]
     @ (if ws_Description ws = [] then [] else [''  '' @ ws_Description ws])
     @ [[]] @ siteLines ws @ databaseLines ws @ tunnelLines (cfgOf s) ws
     @ [''Operations:''] @ concat (map (opLines L ws) (listedOps s agent name ws)) @ [[]]
     @ [''Examples:''] @ concat (map (\<lambda>(siteType, _). exampleLines name siteType) (ws_Sites ws)) @ [[]]"

text \<open>The workspaces of an agent's grants, each once, in the order of the grants.\<close>

fun firstGrants :: "string list \<Rightarrow> Grant list \<Rightarrow> string list" where
  "firstGrants seen [] = []"
| "firstGrants seen (g # gs) =
     (if List.member seen (grant_Workspace g) then firstGrants seen gs
      else grant_Workspace g # firstGrants (grant_Workspace g # seen) gs)"

definition grantHelp :: "golib \<Rightarrow> 's Server \<Rightarrow> Agent \<Rightarrow> string list" where
  "grantHelp L s agent =
     concat (map (\<lambda>name. case GetWorkspace (cfgOf s) name of
         None \<Rightarrow> [] | Some ws \<Rightarrow> workspaceHelp L s agent name ws) (firstGrants [] (agent_Grants agent)))"

definition helpReply :: "string list \<Rightarrow> reply" where
  "helpReply out = \<lparr>rp_Status = 200, rp_Headers = plainHeader, rp_Body = join crlf (banner @ out)\<rparr>"

definition handleHelp :: "golib \<Rightarrow> httpReq \<Rightarrow> 's Server \<Rightarrow> outcome \<times> 's Server" where
  "handleHelp L r s =
     (let wsName = queryGet r ''workspace''
      in if hr_Auth r = [] \<and> wsName = [] then
           (Reply (helpReply [''Authenticate to see your workspaces: GET /help with the Authorization header.'']), s)
         else (case knownAgent L r s of
                 Inl _ \<Rightarrow> fails ''unauthorized'' 401 s
               | Inr agent \<Rightarrow>
                   if wsName \<noteq> [] then
                     (case GetWorkspace (cfgOf s) wsName of
                        None \<Rightarrow> fails ''workspace not accessible'' 403 s
                      | Some ws \<Rightarrow>
                          if \<not> agentHasWorkspace agent wsName then fails ''workspace not accessible'' 403 s
                          else (Reply (helpReply (workspaceHelp L s agent wsName ws)), s))
                   else (Reply (helpReply (grantHelp L s agent)), s)))"

section \<open>Feedback\<close>

text \<open>\<open>strings.NewReplacer("\\r", " ", "\\n", " ")\<close>.\<close>

definition oneLineText :: "string \<Rightarrow> string" where
  "oneLineText s = map (\<lambda>c. if c = CHR 0x0D \<or> c = CHR 0x0A then CHR 0x20 else c) s"

definition feedbackLine :: "string \<Rightarrow> string \<Rightarrow> string \<Rightarrow> string \<Rightarrow> string" where
  "feedbackLine now fbType agentID text =
     now @ '' | '' @ oneLineText fbType @ '' | agent='' @ agentID @ '' | '' @ oneLineText text @ crlf"

text \<open>The first runes of a text.\<close>

function takeRunes :: "nat \<Rightarrow> string \<Rightarrow> string" where
  "takeRunes 0 s = []"
| "takeRunes (Suc k) [] = []"
| "takeRunes (Suc k) (c # cs) =
     (let n = max 1 (snd (decodeRune (c # cs)))
      in (if utf8Len (c # cs) = 0 then runeError else take n (c # cs)) @ takeRunes k (drop n (c # cs)))"
  by pat_completeness auto
termination
  by (relation "measure fst") auto

function countRunes :: "string \<Rightarrow> nat" where
  "countRunes [] = 0"
| "countRunes (c # cs) = Suc (countRunes (drop (max 1 (snd (decodeRune (c # cs)))) (c # cs)))"
  by pat_completeness auto
termination
  by (relation "measure length") auto

declare takeRunes.simps(3) [simp del] countRunes.simps(2) [simp del]

definition todoTextOf :: "string \<Rightarrow> string" where
  "todoTextOf text =
     (let t = normalizeTodoText text
      in if maxTodoTextLen < countRunes t then trimSpace (takeRunes maxTodoTextLen t) else t)"

definition feedbackLog :: string where
  "feedbackLog = ''feedback.log''"

text \<open>The checks before anything is written: the agent's id, the type and the text, and the item
  when one is to be filed.\<close>

definition admitFeedback ::
    "golib \<Rightarrow> 's moment \<Rightarrow> httpReq \<Rightarrow> 's Server \<Rightarrow> (string \<times> int) + (string \<times> string \<times> string \<times> string option)" where
  "admitFeedback L M r s =
     (if hr_Method r \<noteq> ''POST'' then Inl (''POST only'', 405)
      else rbind (case knownAgent L r s of Inl _ \<Rightarrow> Inl (''unauthorized'', 401) | Inr a \<Rightarrow> Inr a) (\<lambda>agent.
        let agentID = normalizeTodoText (agent_ID agent); body = hr_Body r
        in if maxFeedbackBody < length body then Inl (''feedback body too large'', 413)
           else if body = [] then Inl (''empty body'', 400)
           else (case structFields L [''type'', ''text''] (lib_decode L body) of
                   Some [fbType, text] \<Rightarrow>
                     (let fbType = (if fbType = [] then ''feedback'' else fbType);
                          files = (fbType = ''todo'' \<and> fb_TodoPath (cfg_Feedback (cfgOf s)) \<noteq> [])
                      in if files \<and> todoTextOf text = [] then Inl (''empty text'', 400)
                         else Inr (agentID, fbType, text, if files then Some (todoTextOf text) else None))
                 | _ \<Rightarrow> Inl (''invalid JSON: '' @ mo_jsonError M body, 400))))"

definition statusReply :: "golib \<Rightarrow> string \<Rightarrow> reply" where
  "statusReply L status = jsonReply L 200 jsonHeader (JObj [(''status'', JStr status)])"

text \<open>The log is opened first; when that fails nothing is written. A failed write to it goes unnoticed.\<close>

definition handleFeedback :: "golib \<Rightarrow> 's moment \<Rightarrow> httpReq \<Rightarrow> 's Server \<Rightarrow> outcome \<times> 's Server" where
  "handleFeedback L M r s =
     (case admitFeedback L M r s of
        Inl (msg, code) \<Rightarrow> fails msg code s
      | Inr (agentID, fbType, text, item) \<Rightarrow>
          if fs_open (mo_files M) feedbackLog \<noteq> None then fails ''failed to write feedback'' 500 s
          else (let F = snd (appendFile (mo_files M) feedbackLog (feedbackLine (mo_now M) fbType agentID text) (w_files (sv_world s)))
                in case item of
                     None \<Rightarrow> (Reply (statusReply L ''recorded''), withFiles F s)
                   | Some t \<Rightarrow>
                       (let (res, F) = appendTodo (mo_files M) (mo_today M) (fb_TodoPath (cfg_Feedback (cfgOf s))) t agentID F;
                            s = withFiles F s
                        in case res of
                             Inl TodoTooLarge \<Rightarrow>
                               fails ''feedback logged, but the TODO file is over 1 MB so nothing was appended'' 500 s
                           | Inl (TodoFile _) \<Rightarrow> fails ''feedback logged, but writing the TODO file failed'' 500 s
                           | Inr added \<Rightarrow> (Reply (statusReply L (if added then ''added'' else ''duplicate'')), s))))"

end
