(* ===== verification/TokenCheck.thy ===== *)
theory TokenCheck
  imports Gateway
begin

text \<open>
  Package \<open>internal/tokencheck\<close>: the kind of a credential and its check against the upstream
  with an identity call. The requests go through the same network as those of the operations;
  a proxy of the environment only decides their route and is left out.
\<close>

section \<open>Results and kinds\<close>

datatype State = StateOK | StateRejected | StateUnreachable | StateUnchecked

fun stateText :: "State \<Rightarrow> string" where
  "stateText StateOK = ''ok''"
| "stateText StateRejected = ''rejected''"
| "stateText StateUnreachable = ''unreachable''"
| "stateText StateUnchecked = ''unchecked''"

datatype Kind =
    KindGitLab | KindGitHub | KindAtlassian | KindJira | KindJenkins | KindBitbucket | KindKibana
  | KindClockify | KindAuthentik | KindSlack | KindTrello | KindPostgres | KindIMAP | KindOAuth
  | KindMCP | KindGeneric

fun kindText :: "Kind \<Rightarrow> string" where
  "kindText KindGitLab = ''gitlab''"
| "kindText KindGitHub = ''github''"
| "kindText KindAtlassian = ''atlassian''"
| "kindText KindJira = ''jira-server''"
| "kindText KindJenkins = ''jenkins''"
| "kindText KindBitbucket = ''bitbucket''"
| "kindText KindKibana = ''kibana''"
| "kindText KindClockify = ''clockify''"
| "kindText KindAuthentik = ''authentik''"
| "kindText KindSlack = ''slack-session''"
| "kindText KindTrello = ''trello''"
| "kindText KindPostgres = ''postgres''"
| "kindText KindIMAP = ''imap''"
| "kindText KindOAuth = ''oauth''"
| "kindText KindMCP = ''atlassian-mcp''"
| "kindText KindGeneric = ''generic''"

record Result =
  rt_State :: State
  rt_Detail :: string
  rt_Identity :: string
  rt_ExpiresAt :: string
  rt_Scopes :: "string list"
  rt_HTTPStatus :: int

definition result :: "State \<Rightarrow> string \<Rightarrow> int \<Rightarrow> Result" where
  "result state detail status =
     \<lparr>rt_State = state, rt_Detail = detail, rt_Identity = [], rt_ExpiresAt = [], rt_Scopes = [],
      rt_HTTPStatus = status\<rparr>"

definition DetectKind :: "golib \<Rightarrow> string \<Rightarrow> Environment \<Rightarrow> Kind" where
  "DetectKind L site env =
     (let base = toLower L (env_BaseURL env)
      in if env_OAuth env \<noteq> None then KindOAuth
         else if auth_Type (env_Auth env) = ''slack-session'' then KindSlack
         else if auth_Type (env_Auth env) = ''trello'' then KindTrello
         else if auth_Type (env_Auth env) = ''api-key'' \<and> strContains base ''clockify'' then KindClockify
         else if strContains base ''mcp.atlassian.com'' then KindMCP
         else if strContains base ''atlassian.net'' then KindAtlassian
         else if strContains base ''gitlab'' then KindGitLab
         else if strContains base ''api.github.com'' then KindGitHub
         else if strContains base ''api.bitbucket.org'' then KindBitbucket
         else if site = ''postgres'' \<or> 0 < length (env_Databases env) then KindPostgres
         else if site = ''gmail'' \<or> site = ''email'' \<or> env_ImapHost env \<noteq> []
           \<or> env_BaseURL env = [] \<and> hasPrefix (env_Host env) ''imap.'' then KindIMAP
         else if site = ''jenkins'' then KindJenkins
         else if site = ''kibana'' then KindKibana
         else if site = ''authentik'' then KindAuthentik
         else if hasSuffix site ''jira'' then KindJira
         else KindGeneric)"

definition Checkable :: "Kind \<Rightarrow> bool" where
  "Checkable kind \<longleftrightarrow> kind \<notin> {KindOAuth, KindMCP, KindGeneric}"

section \<open>One request\<close>

definition trimSlashes :: "string \<Rightarrow> string" where
  "trimSlashes s = rev (dropWhile (\<lambda>c. c = CHR ''/'') (rev s))"

definition basicHeader :: "string \<Rightarrow> string \<Rightarrow> string gomap" where
  "basicHeader user secret = [(''Authorization'', ''Basic '' @ base64Encode (user @ '':'' @ secret))]"

definition bearerHeader :: "string \<Rightarrow> string gomap" where
  "bearerHeader token = [(''Authorization'', ''Bearer '' @ token)]"

record tokResponse =
  tk_status :: int
  tk_header :: "(string \<times> string list) list"
  tk_body :: string

definition tokBodyLimit :: nat where
  "tokBodyLimit = 2 ^ 20"

definition tokResponseOf :: "answer \<Rightarrow> tokResponse" where
  "tokResponseOf a = \<lparr>tk_status = an_Status a, tk_header = an_Headers a, tk_body = take tokBodyLimit (an_Body a)\<rparr>"

text \<open>An error while the body is read is ignored: what arrived is the body.\<close>

definition tokDo ::
    "upstream \<Rightarrow> Environment \<Rightarrow> string \<Rightarrow> string \<Rightarrow> string gomap \<Rightarrow> string option \<Rightarrow> 's world
       \<Rightarrow> (string + tokResponse) \<times> 's world" where
  "tokDo U env method u headers body w =
     (case up_badRequest U method u of
        Some e \<Rightarrow> (Inl e, w)
      | None \<Rightarrow>
          (let wi = \<lparr>wi_Method = method, wi_URL = u,
                 wi_Headers = foldl (\<lambda>h (k, v). setHeader k v h) [(''Accept'', ''application/json'')] headers,
                 wi_Body = body, wi_Insecure = env_InsecureSkipVerify env\<rparr>;
               reply = up_http U (w_sent w) wi; w = w\<lparr>w_sent := w_sent w @ [wi]\<rparr>
           in (case reply of
                 Inl (DoFailed e) \<Rightarrow> (Inl e, w)
               | Inl (ReadFailed e a) \<Rightarrow> (Inr (tokResponseOf a), w)
               | Inr a \<Rightarrow> (Inr (tokResponseOf a), w))))"

definition headerGet :: "tokResponse \<Rightarrow> string \<Rightarrow> string" where
  "headerGet resp k =
     (case map_of (tk_header resp) (canonicalKey k) of Some (v # _) \<Rightarrow> v | _ \<Rightarrow> [])"

definition unreachable :: "golib \<Rightarrow> Environment \<Rightarrow> string \<Rightarrow> Result" where
  "unreachable L env err =
     result StateUnreachable
       (err @ (if env_RequiresTunnel env \<noteq> [] then '' (needs tunnel '' @ quoteQ L (env_RequiresTunnel env) @ '' up)''
               else [])) 0"

section \<open>Reading the answer\<close>

fun firstKey :: "params \<Rightarrow> string list \<Rightarrow> json option" where
  "firstKey m [] = None"
| "firstKey m (k # ks) = (case mget m k of Some v \<Rightarrow> Some v | None \<Rightarrow> firstKey m ks)"

definition upstreamMessage :: "golib \<Rightarrow> string \<Rightarrow> string" where
  "upstreamMessage L body =
     (let plain = (let s = trimSpace body
            in if hasPrefix s ''<'' then ''HTML page returned (login wall or proxy?)'' else take 200 s)
      in case decodeMap L body of
           None \<Rightarrow> plain
         | Some m \<Rightarrow>
             (case firstKey (mapEntries m) [''error_description'', ''message'', ''error'', ''errorMessages''] of
                Some v \<Rightarrow> trimSpace (sprintV L v)
              | None \<Rightarrow> plain))"

definition classify :: "golib \<Rightarrow> tokResponse \<Rightarrow> Result" where
  "classify L resp =
     (let status = tk_status resp; msg = upstreamMessage L (tk_body resp)
      in if status = 401 \<or> status = 403 then result StateRejected msg status
         else if 200 \<le> status \<and> status < 300 then result StateOK [] status
         else if 500 \<le> status then result StateUnreachable msg status
         else result StateRejected msg status)"

text \<open>A missing member is nil, as is one that is \<open>null\<close>.\<close>

fun lookupIn :: "json \<Rightarrow> string list \<Rightarrow> json option" where
  "lookupIn cur [] = Some cur"
| "lookupIn cur (p # ps) =
     (case cur of
        JObj m \<Rightarrow> lookupIn (case mget m p of None \<Rightarrow> JNull | Some v \<Rightarrow> v) ps
      | _ \<Rightarrow> None)"

definition lookup :: "golib \<Rightarrow> params \<Rightarrow> string \<Rightarrow> string" where
  "lookup L m path =
     (case lookupIn (JObj m) (splitOn (CHR ''.'') path) of
        None \<Rightarrow> []
      | Some v \<Rightarrow> if v = JNull then [] else sprintV L v)"

definition checkJSON ::
    "golib \<Rightarrow> upstream \<Rightarrow> Environment \<Rightarrow> string \<Rightarrow> string gomap \<Rightarrow> string list \<Rightarrow> 's world \<Rightarrow> Result \<times> 's world" where
  "checkJSON L U env u headers identityFields w =
     (case tokDo U env ''GET'' u headers None w of
        (Inl err, w) \<Rightarrow> (unreachable L env err, w)
      | (Inr resp, w) \<Rightarrow>
          (let res = classify L resp
           in if rt_State res \<noteq> StateOK then (res, w)
              else (case decodeMap L (tk_body resp) of
                      None \<Rightarrow> (result StateRejected (''unexpected non-JSON response: '' @ upstreamMessage L (tk_body resp))
                        (tk_status resp), w)
                    | Some m \<Rightarrow> (res\<lparr>rt_Identity := join '' / ''
                        (filter (\<lambda>v. v \<noteq> []) (map (lookup L (mapEntries m)) identityFields))\<rparr>, w))))"

section \<open>The checks\<close>

text \<open>\<open>json.Unmarshal\<close> into the struct of a GitLab token.\<close>

definition gitLabSelf :: "golib \<Rightarrow> string \<Rightarrow> (string \<times> string \<times> string list) option" where
  "gitLabSelf L body =
     (case lib_decode L body of
        Some (JObj kvs) \<Rightarrow>
          (case (structFold L ''name'' strStep [] kvs, structFold L ''expires_at'' strStep [] kvs,
              structFold L ''scopes'' stringsStep [] kvs) of
             (Some n, Some e, Some s) \<Rightarrow> Some (n, e, s)
           | _ \<Rightarrow> None)
      | Some JNull \<Rightarrow> Some ([], [], [])
      | _ \<Rightarrow> None)"

definition checkGitLab :: "golib \<Rightarrow> upstream \<Rightarrow> Environment \<Rightarrow> string \<Rightarrow> 's world \<Rightarrow> Result \<times> 's world" where
  "checkGitLab L U env token w =
     (let base = trimSlashes (env_BaseURL env);
          (res, w) = checkJSON L U env (base @ ''/user'') (bearerHeader token) [''username'', ''name''] w
      in if rt_State res \<noteq> StateOK then (res, w)
         else (case tokDo U env ''GET'' (base @ ''/personal_access_tokens/self'') (bearerHeader token) None w of
                 (Inl _, w) \<Rightarrow> (res, w)
               | (Inr resp, w) \<Rightarrow>
                   if tk_status resp \<noteq> 200 then (res, w)
                   else (case gitLabSelf L (tk_body resp) of
                           None \<Rightarrow> (res, w)
                         | Some (name, expires, scopes) \<Rightarrow>
                             (let res = res\<lparr>rt_ExpiresAt := expires, rt_Scopes := scopes\<rparr>
                              in (if name \<noteq> [] then res\<lparr>rt_Detail := ''token name: '' @ name\<rparr> else res, w)))))"

definition checkGitHub :: "golib \<Rightarrow> upstream \<Rightarrow> Environment \<Rightarrow> string \<Rightarrow> 's world \<Rightarrow> Result \<times> 's world" where
  "checkGitHub L U env token w =
     (case tokDo U env ''GET'' (trimSlashes (env_BaseURL env) @ ''/user'') (bearerHeader token) None w of
        (Inl err, w) \<Rightarrow> (unreachable L env err, w)
      | (Inr resp, w) \<Rightarrow>
          (let res = classify L resp
           in if rt_State res \<noteq> StateOK then (res, w)
              else (let m = (case decodeMap L (tk_body resp) of None \<Rightarrow> [] | Some m \<Rightarrow> mapEntries m);
                        scopes = headerGet resp ''X-OAuth-Scopes''
                    in (res\<lparr>rt_Identity := lookup L m ''login'',
                          rt_ExpiresAt := headerGet resp ''github-authentication-token-expiration'',
                          rt_Scopes := (if scopes = [] then [] else map trimSpace (splitOn (CHR '','') scopes))\<rparr>, w))))"

record slackAuth =
  sa_OK :: bool
  sa_Error :: string
  sa_User :: string
  sa_Team :: string
  sa_URL :: string

definition slackAuthOf :: "golib \<Rightarrow> string \<Rightarrow> slackAuth option" where
  "slackAuthOf L body =
     (case lib_decode L body of
        Some (JObj kvs) \<Rightarrow>
          optBind (structFold L ''ok'' boolStep False kvs) (\<lambda>k.
          optBind (structFold L ''error'' strStep [] kvs) (\<lambda>e.
          optBind (structFold L ''user'' strStep [] kvs) (\<lambda>u.
          optBind (structFold L ''team'' strStep [] kvs) (\<lambda>t.
          optBind (structFold L ''url'' strStep [] kvs) (\<lambda>l.
            Some \<lparr>sa_OK = k, sa_Error = e, sa_User = u, sa_Team = t, sa_URL = l\<rparr>)))))
      | Some JNull \<Rightarrow> Some \<lparr>sa_OK = False, sa_Error = [], sa_User = [], sa_Team = [], sa_URL = []\<rparr>
      | _ \<Rightarrow> None)"

definition checkSlack ::
    "golib \<Rightarrow> upstream \<Rightarrow> Environment \<Rightarrow> string \<Rightarrow> string \<Rightarrow> 's world \<Rightarrow> Result \<times> 's world" where
  "checkSlack L U env xoxc xoxd w =
     (if xoxd = [] then (result StateUnchecked ''needs both the xoxc token and the d (xoxd) cookie'' 0, w)
      else (case tokDo U env ''POST'' (trimSlashes (env_BaseURL env) @ ''/auth.test'')
              [(''Content-Type'', ''application/x-www-form-urlencoded''), (''Cookie'', ''d='' @ xoxd)]
              (Some (encodeValues [(''token'', xoxc)])) w of
              (Inl err, w) \<Rightarrow> (unreachable L env err, w)
            | (Inr resp, w) \<Rightarrow>
                (case slackAuthOf L (tk_body resp) of
                   None \<Rightarrow> (classify L resp, w)
                 | Some out \<Rightarrow>
                     if \<not> sa_OK out then (result StateRejected (sa_Error out) (tk_status resp), w)
                     else ((result StateOK (sa_URL out) (tk_status resp))
                       \<lparr>rt_Identity := sa_User out @ '' @ '' @ sa_Team out\<rparr>, w))))"

definition rejectedBy :: "string \<Rightarrow> string list \<Rightarrow> bool" where
  "rejectedBy msg parts = list_ex (strContains msg) parts"

definition firstDatabase :: "Environment \<Rightarrow> string" where
  "firstDatabase env =
     (case sortedKeys (env_Databases env) of
        [] \<Rightarrow> ''postgres''
      | n # _ \<Rightarrow>
          (case mget (env_Databases env) n of
             None \<Rightarrow> ''postgres''
           | Some db \<Rightarrow> if db_DB db = [] then ''postgres'' else db_DB db))"

definition checkPostgres ::
    "golib \<Rightarrow> (pgConnError \<Rightarrow> string) \<Rightarrow> devices \<Rightarrow> Environment \<Rightarrow> string \<Rightarrow> 's world \<Rightarrow> Result \<times> 's world" where
  "checkPostgres L pgText D env password w =
     (let host = (if env_Host env = [] then env_BaseURL env else env_Host env);
          port = (if env_Port env = 0 then 5432 else env_Port env); db = firstDatabase env;
          (res, w) = (case buildConnStr host port (env_User env) password db [] (env_SSLMode env) of
             Inl e \<Rightarrow> (Inl e, w)
           | Inr c \<Rightarrow> pgConnect D c w)
      in case res of
           Inl e \<Rightarrow>
             (if rejectedBy (pgText e) [''password authentication failed'', ''SASL authentication failed'', ''28P01'', ''28000'']
              then result StateRejected (pgText e) 0 else unreachable L env (pgText e), w)
         | Inr _ \<Rightarrow> ((result StateOK [] 0)\<lparr>rt_Identity := env_User env @ ''@'' @ db\<rparr>, record_call PgClose w))"

definition checkIMAP ::
    "golib \<Rightarrow> (emailError \<Rightarrow> string) \<Rightarrow> devices \<Rightarrow> Environment \<Rightarrow> string \<Rightarrow> 's world \<Rightarrow> Result \<times> 's world" where
  "checkIMAP L mailText D env password w =
     (let host = (if env_ImapHost env \<noteq> [] then env_ImapHost env else if env_Host env \<noteq> [] then env_Host env
            else env_BaseURL env);
          port = (if env_ImapPort env = 0 then 993 else env_ImapPort env);
          cfg = \<lparr>em_ImapHost = host, em_ImapPort = port, em_ImapTLS = True, em_SmtpHost = [], em_SmtpPort = 0,
            em_SmtpTLS = False, em_User = env_User env, em_Password = password\<rparr>
      in case ListMailboxes D cfg w of
           (Inl e, w) \<Rightarrow>
             (if rejectedBy (toLower L (mailText e)) [''auth'', ''credentials'', ''login'']
              then result StateRejected (mailText e) 0 else unreachable L env (mailText e), w)
         | (Inr _, w) \<Rightarrow> ((result StateOK [] 0)\<lparr>rt_Identity := env_User env\<rparr>, w))"

definition checkTrello :: "golib \<Rightarrow> upstream \<Rightarrow> Environment \<Rightarrow> string \<Rightarrow> string \<Rightarrow> 's world \<Rightarrow> Result \<times> 's world" where
  "checkTrello L U env primary secondary w =
     (if secondary = [] then (result StateUnchecked ''needs both the API key and the token'' 0, w)
      else checkJSON L U env (trimSlashes (env_BaseURL env) @ ''/members/me?key='' @ QueryEscape primary
        @ ''&token='' @ QueryEscape secondary) [] [''username'', ''fullName''] w)"

definition Check ::
    "golib \<Rightarrow> 's moment \<Rightarrow> Kind \<Rightarrow> Environment \<Rightarrow> string \<Rightarrow> string \<Rightarrow> 's world \<Rightarrow> Result \<times> 's world" where
  "Check L M kind env primary secondary w =
     (let U = mo_up M; primary = trimSpace primary; secondary = trimSpace secondary;
          base = trimSlashes (env_BaseURL env); basic = basicHeader (env_User env) primary
      in if primary = [] then (result StateUnchecked ''no value'' 0, w)
         else (case kind of
             KindGitLab \<Rightarrow> checkGitLab L U env primary w
           | KindGitHub \<Rightarrow> checkGitHub L U env primary w
           | KindAtlassian \<Rightarrow>
               checkJSON L U env (trimSuffix base ''/wiki'' @ ''/rest/api/3/myself'') basic [''displayName'', ''emailAddress''] w
           | KindJira \<Rightarrow>
               checkJSON L U env (base @ ''/rest/api/2/myself'')
                 (if auth_Type (env_Auth env) = ''bearer'' then bearerHeader primary else basic) [''displayName'', ''name''] w
           | KindJenkins \<Rightarrow> checkJSON L U env (base @ ''/me/api/json'') basic [''fullName'', ''id''] w
           | KindBitbucket \<Rightarrow> checkJSON L U env (base @ ''/2.0/user'') basic [''display_name'', ''username''] w
           | KindKibana \<Rightarrow>
               if env_BaseURL env = [] then (result StateUnchecked ''no base_url configured'' 0, w)
               else checkJSON L U env (base @ ''/api/status'') basic [''name''] w
           | KindClockify \<Rightarrow>
               (let header = (if auth_Header (env_Auth env) = [] then ''X-Api-Key'' else auth_Header (env_Auth env))
                in checkJSON L U env (base @ ''/user'') [(header, primary)] [''name'', ''email''] w)
           | KindAuthentik \<Rightarrow>
               checkJSON L U env (base @ ''/api/v3/core/users/me/'') (bearerHeader primary) [''user.username'', ''user.email''] w
           | KindSlack \<Rightarrow> checkSlack L U env primary secondary w
           | KindTrello \<Rightarrow> checkTrello L U env primary secondary w
           | KindPostgres \<Rightarrow> checkPostgres L (mo_pgText M) (mo_dev M) env primary w
           | KindIMAP \<Rightarrow> checkIMAP L (mo_mailText M) (mo_dev M) env primary w
           | _ \<Rightarrow> (result StateUnchecked ''no automatic check for this credential type'' 0, w)))"

end
