(* ===== verification/Admin.thy ===== *)
theory Admin
  imports Endpoints TokenCheck
begin

text \<open>
  The administration endpoints, from server.go (\<open>handleAdmin\<close>) and admin\_status.go: the status
  of the secrets a workspace uses, setting and deleting a secret, the diagnosis of a site, and
  the reload of configuration and operations. The identity checks of the status endpoint run
  concurrently in the sources; here they run in the order of the list.
\<close>

section \<open>The secrets of a workspace\<close>

record secretUsage =
  us_Site :: string
  us_Env :: string
  us_Role :: string
  us_User :: string
  us_BaseURL :: string
  us_Tunnel :: string
  us_Disabled :: bool

record secretStatus =
  sc_Name :: string
  sc_Role :: string
  sc_Kind :: Kind
  sc_Pair :: string
  sc_Stored :: bool
  sc_LastWritten :: string
  sc_UsedBy :: "secretUsage list"
  sc_Disabled :: bool
  sc_Check :: "Result option"

definition usageOf :: "Workspace \<Rightarrow> string \<Rightarrow> string \<Rightarrow> string \<Rightarrow> Environment \<Rightarrow> secretUsage" where
  "usageOf ws role site envName env =
     \<lparr>us_Site = site, us_Env = envName, us_Role = role, us_User = env_User env,
      us_BaseURL = (if env_BaseURL env = [] then env_Host env else env_BaseURL env),
      us_Tunnel = env_RequiresTunnel env, us_Disabled = siteDisabled ws site\<rparr>"

text \<open>The closure \<open>add\<close>: an entry per name, in the order of the first use.\<close>

definition addSecret ::
    "golib \<Rightarrow> string \<Rightarrow> Workspace \<Rightarrow> string \<Rightarrow> Environment
       \<Rightarrow> string \<times> string \<times> string \<Rightarrow> string \<Rightarrow> secretStatus gomap \<Rightarrow> secretStatus gomap" where
  "addSecret L wsName ws site env use envName found =
     (case use of (ref, role, pair) \<Rightarrow>
        if ref = [] then found
        else (let (refWs, name) = parseSecretRef ref
              in if refWs \<noteq> wsName then found
                 else (let st = (case mget found name of
                             Some st \<Rightarrow> st
                           | None \<Rightarrow> \<lparr>sc_Name = name, sc_Role = role, sc_Kind = DetectKind L site env, sc_Pair = [],
                               sc_Stored = False, sc_LastWritten = [], sc_UsedBy = [], sc_Disabled = False,
                               sc_Check = None\<rparr>);
                           st = (if pair \<noteq> [] then st\<lparr>sc_Pair := snd (parseSecretRef pair)\<rparr> else st)
                       in mput name (st\<lparr>sc_UsedBy := sc_UsedBy st @ [usageOf ws role site envName env]\<rparr>) found)))"

definition envUses :: "Environment \<Rightarrow> (string \<times> string \<times> string) list" where
  "envUses env =
     [(env_SecretRef env, ''primary'', env_CookieSecretRef env),
      (env_CookieSecretRef env, ''secondary'', env_SecretRef env)]
     @ (case env_OAuth env of
          None \<Rightarrow> []
        | Some oauth \<Rightarrow> [(oauth_ClientSecretRef oauth, ''oauth-client'', []),
            (oauth_RefreshSecretRef oauth, ''oauth-refresh'', [])])"

definition sortedEnvs :: "Workspace \<Rightarrow> (string \<times> string \<times> Environment) list" where
  "sortedEnvs ws =
     concat (map (\<lambda>site.
       let envs = site_Environments (the (mget (ws_Sites ws) site))
       in map (\<lambda>envName. (site, envName, the (mget envs envName))) (sortedKeys envs)) (sortedKeys (ws_Sites ws)))"

definition collectSecrets :: "golib \<Rightarrow> string \<Rightarrow> Workspace \<Rightarrow> secretStatus list" where
  "collectSecrets L wsName ws =
     (let found = foldl (\<lambda>found (site, envName, env).
            foldl (\<lambda>found use. addSecret L wsName ws site env use envName found) found (envUses env)) [] (sortedEnvs ws)
      in map (\<lambda>(_, st). st\<lparr>sc_Disabled := list_all us_Disabled (sc_UsedBy st)\<rparr>) found)"

section \<open>Status\<close>

definition usageText :: "secretUsage \<Rightarrow> string" where
  "usageText u =
     objectText ([(''site'', jsonQuote True (us_Site u)), (''env'', jsonQuote True (us_Env u)),
         (''role'', jsonQuote True (us_Role u))]
       @ unlessEmpty ''user'' (us_User u) @ unlessEmpty ''base_url'' (us_BaseURL u)
       @ unlessEmpty ''tunnel'' (us_Tunnel u) @ whenTrue ''disabled'' (us_Disabled u))"

definition resultText :: "Result \<Rightarrow> string" where
  "resultText res =
     objectText ([(''state'', jsonQuote True (stateText (rt_State res)))]
       @ unlessEmpty ''detail'' (rt_Detail res) @ unlessEmpty ''identity'' (rt_Identity res)
       @ unlessEmpty ''expires_at'' (rt_ExpiresAt res)
       @ (if rt_Scopes res = [] then [] else [(''scopes'', arrayText (map (jsonQuote True) (rt_Scopes res)))])
       @ (if rt_HTTPStatus res = 0 then [] else [(''http_status'', showInt (rt_HTTPStatus res))]))"

definition statusText :: "secretStatus \<Rightarrow> string" where
  "statusText st =
     objectText ([(''name'', jsonQuote True (sc_Name st)), (''role'', jsonQuote True (sc_Role st)),
         (''kind'', jsonQuote True (kindText (sc_Kind st)))]
       @ unlessEmpty ''pair'' (sc_Pair st)
       @ [(''stored'', if sc_Stored st then ''true'' else ''false'')]
       @ unlessEmpty ''last_written'' (sc_LastWritten st)
       @ [(''used_by'', arrayText (map usageText (sc_UsedBy st)))]
       @ whenTrue ''disabled'' (sc_Disabled st)
       @ (case sc_Check st of None \<Rightarrow> [] | Some res \<Rightarrow> [(''check'', resultText res)]))"

text \<open>The values resolved for a list of secrets, each filled in with what is stored of it.\<close>

fun lookUpSecrets ::
    "golib \<Rightarrow> 's moment \<Rightarrow> string \<Rightarrow> secretStatus list \<Rightarrow> 's world
       \<Rightarrow> (secretStatus list \<times> string gomap) \<times> 's world" where
  "lookUpSecrets L M wsName [] w = (([], []), w)"
| "lookUpSecrets L M wsName (st # sts) w =
     (let (res, r) = ResolveWithWorkspaceCheck L (up_clock (mo_up M)) wsName (sc_Name st) wsName (w_res w);
          w = w\<lparr>w_res := r\<rparr>;
          st = (case res of Inl _ \<Rightarrow> st | Inr v \<Rightarrow> st\<lparr>sc_Stored := True\<rparr>);
          st = (case LastWritten wsName (sc_Name st) r of
                  None \<Rightarrow> st | Some t \<Rightarrow> st\<lparr>sc_LastWritten := mo_timeText M t\<rparr>);
          ((sts, values), w) = lookUpSecrets L M wsName sts w
      in ((st # sts, (case res of Inl _ \<Rightarrow> values | Inr v \<Rightarrow> mput (sc_Name st) v values)), w))"

definition valueOf :: "string gomap \<Rightarrow> string \<Rightarrow> string" where
  "valueOf values name = (case mget values name of None \<Rightarrow> [] | Some v \<Rightarrow> v)"

definition usedEnv :: "Workspace \<Rightarrow> secretUsage \<Rightarrow> Environment" where
  "usedEnv ws u =
     (case mget (ws_Sites ws) (us_Site u) of
        None \<Rightarrow> zeroEnvironment
      | Some site \<Rightarrow>
          (case mget (site_Environments site) (us_Env u) of None \<Rightarrow> zeroEnvironment | Some env \<Rightarrow> env))"

definition checkedVia :: "secretUsage \<Rightarrow> Result \<Rightarrow> Result" where
  "checkedVia u res =
     (let via = ''checked via '' @ us_Site u @ ''/'' @ us_Env u
      in res\<lparr>rt_Detail := (if rt_Detail res = [] then via else rt_Detail res @ '' ('' @ via @ '')'')\<rparr>)"

fun checkUses ::
    "golib \<Rightarrow> 's moment \<Rightarrow> Workspace \<Rightarrow> string \<Rightarrow> string gomap \<Rightarrow> secretUsage list \<Rightarrow> 's world \<Rightarrow> Result \<times> 's world" where
  "checkUses L M ws name values [] w =
     (result StateUnchecked ''no automatic check for this credential type'' 0, w)"
| "checkUses L M ws name values (u # us) w =
     (let env = usedEnv ws u; kind = DetectKind L (us_Site u) env
      in if us_Disabled u \<or> \<not> Checkable kind then checkUses L M ws name values us w
         else (let secondary = (if env_CookieSecretRef env = [] then []
                      else valueOf values (snd (parseSecretRef (env_CookieSecretRef env))));
                   (res, w) = Check L M kind env (valueOf values name) secondary w
               in (checkedVia u res, w)))"

definition checkSecret ::
    "golib \<Rightarrow> 's moment \<Rightarrow> Workspace \<Rightarrow> secretStatus \<Rightarrow> string gomap \<Rightarrow> 's world \<Rightarrow> Result \<times> 's world" where
  "checkSecret L M ws st values w = checkUses L M ws (sc_Name st) values (sc_UsedBy st) w"

fun runSecretChecks ::
    "golib \<Rightarrow> 's moment \<Rightarrow> Workspace \<Rightarrow> string gomap \<Rightarrow> secretStatus list \<Rightarrow> 's world
       \<Rightarrow> secretStatus list \<times> 's world" where
  "runSecretChecks L M ws values [] w = ([], w)"
| "runSecretChecks L M ws values (st # sts) w =
     (let (st, w) = (if sc_Role st \<noteq> ''primary'' \<or> \<not> sc_Stored st \<or> sc_Disabled st then (st, w)
            else (let (res, w) = checkSecret L M ws st values w in (st\<lparr>sc_Check := Some res\<rparr>, w)));
          (sts, w) = runSecretChecks L M ws values sts w
      in (st # sts, w))"

text \<open>A secondary secret shows the check of its pair; entries before it are already filled in.\<close>

fun pairChecks :: "secretStatus list \<Rightarrow> secretStatus list \<Rightarrow> secretStatus list" where
  "pairChecks done [] = done"
| "pairChecks done (st # sts) =
     (let st' = (if sc_Role st = ''secondary'' \<and> sc_Pair st \<noteq> [] then
            foldl (\<lambda>st p. if sc_Name p = sc_Pair st \<and> sc_Check p \<noteq> None then st\<lparr>sc_Check := sc_Check p\<rparr> else st)
              st (done @ st # sts) else st)
      in pairChecks (done @ [st']) sts)"

definition handleSecretStatus ::
    "golib \<Rightarrow> 's moment \<Rightarrow> httpReq \<Rightarrow> 's Server \<Rightarrow> outcome \<times> 's Server" where
  "handleSecretStatus L M r s =
     (if hr_Method r \<noteq> ''GET'' then fails ''GET required'' 405 s
      else (let wsName = queryGet r ''workspace''
            in case mget (cfg_Workspaces (cfgOf s)) wsName of
                 None \<Rightarrow> fails ''workspace not found'' 404 s
               | Some ws \<Rightarrow>
                   (let ((sts, values), w) = lookUpSecrets L M wsName (collectSecrets L wsName ws) (sv_world s);
                        (sts, w) = (if queryGet r ''check'' \<noteq> ''0'' then
                            (let (sts, w) = runSecretChecks L M ws values sts w in (pairChecks [] sts, w))
                          else (sts, w))
                    in (Reply (rawReply (objectText
                          [(''secrets'', arrayText (map statusText sts)), (''workspace'', jsonQuote True wsName)])),
                        s\<lparr>sv_world := w\<rparr>))))"

section \<open>Setting and deleting a secret\<close>

definition maxAdminSecretBody :: nat where
  "maxAdminSecretBody = 2 ^ 20"

definition maxAdminDiagBody :: nat where
  "maxAdminDiagBody = 64 * 2 ^ 10"

definition idsAllowed :: "string \<Rightarrow> string \<Rightarrow> bool" where
  "idsAllowed workspace name \<longleftrightarrow> rmatch secretIDRe workspace \<and> rmatch secretIDRe name"

definition badIDs :: string where
  "badIDs = ''workspace and name may contain only letters, digits, '' @ [CHR 0x27, CHR ''_'', CHR 0x27] @ '' and '' @ [CHR 0x27, CHR ''-'', CHR 0x27]"

definition withResolver :: "'s Resolver \<Rightarrow> 's Server \<Rightarrow> 's Server" where
  "withResolver res s = s\<lparr>sv_world := (sv_world s)\<lparr>w_res := res\<rparr>\<rparr>"

definition deleteSecret :: "golib \<Rightarrow> 's moment \<Rightarrow> httpReq \<Rightarrow> 's Server \<Rightarrow> outcome \<times> 's Server" where
  "deleteSecret L M r s =
     (let workspace = queryGet r ''workspace''; name = queryGet r ''name''
      in if workspace = [] \<or> name = [] then fails ''workspace and name query params required'' 400 s
         else if \<not> idsAllowed workspace name then fails badIDs 400 s
         else (case DeleteSecret workspace name (w_res (sv_world s)) of
                 (Inl e, res) \<Rightarrow> fails (''delete failed: '' @ mo_secretText M e) 500 (withResolver res s)
               | (Inr _, res) \<Rightarrow> (Reply (statusReply L ''deleted''), withResolver res s)))"

definition setSecret :: "golib \<Rightarrow> 's moment \<Rightarrow> httpReq \<Rightarrow> 's Server \<Rightarrow> outcome \<times> 's Server" where
  "setSecret L M r s =
     (if maxAdminSecretBody < length (hr_Body r) then fails ''request body too large'' 413 s
      else (case structFields L [''workspace'', ''name'', ''value''] (lib_decode L (hr_Body r)) of
              Some [workspace, name, val] \<Rightarrow>
                if workspace = [] \<or> name = [] \<or> val = [] then fails ''workspace, name, value required'' 400 s
                else if \<not> idsAllowed workspace name then fails badIDs 400 s
                else (case SetSecret workspace name val (w_res (sv_world s)) of
                        (Inl e, res) \<Rightarrow> fails (''failed: '' @ mo_secretText M e) 500 (withResolver res s)
                      | (Inr _, res) \<Rightarrow> (Reply (statusReply L ''ok''), withResolver res s))
            | _ \<Rightarrow> fails ''invalid JSON'' 400 s))"

definition adminSecrets :: "golib \<Rightarrow> 's moment \<Rightarrow> httpReq \<Rightarrow> string list \<Rightarrow> 's Server \<Rightarrow> outcome \<times> 's Server" where
  "adminSecrets L M r parts s =
     (if \<not> authenticateAdmin L (cfgOf s) (hr_Auth r) then fails ''unauthorized'' 401 s
      else if length parts = 2 \<and> parts ! 1 = ''status'' then handleSecretStatus L M r s
      else if hr_Method r = ''DELETE'' then deleteSecret L M r s
      else if hr_Method r \<noteq> ''POST'' \<and> hr_Method r \<noteq> ''PUT'' then fails ''POST, PUT, or DELETE required'' 405 s
      else setSecret L M r s)"

section \<open>Diagnosis of a site\<close>

definition orElse :: "string \<Rightarrow> string \<Rightarrow> string" where
  "orElse a b = (if a = [] then b else a)"

text \<open>A secret whose resolution failed is used as the empty string.\<close>

definition secretOr :: "secretError + string \<Rightarrow> string" where
  "secretOr res = (case res of Inl _ \<Rightarrow> [] | Inr v \<Rightarrow> v)"

definition loginResult :: "'s moment \<Rightarrow> string \<Rightarrow> string \<Rightarrow> emailError + 'a \<Rightarrow> params" where
  "loginResult M loginKey errorKey res =
     (case res of
        Inr _ \<Rightarrow> [(loginKey, JStr ''ok'')]
      | Inl e \<Rightarrow> [(loginKey, JStr ''failed''), (errorKey, JStr (mo_mailText M e))])"

definition diagImap ::
    "golib \<Rightarrow> 's moment \<Rightarrow> string \<Rightarrow> Environment \<Rightarrow> 's world \<Rightarrow> params \<times> 's world" where
  "diagImap L M workspace env w =
     (let host = orElse (env_Host env) (env_ImapHost env)
      in if host = [] then ([], w)
         else (let (sec, w) = resolveRef L (mo_up M) (env_SecretRef env) workspace w;
                   (res, w) = ListMailboxes (mo_dev M)
                     \<lparr>em_ImapHost = host, em_ImapPort = (if env_ImapPort env = 0 then 993 else env_ImapPort env),
                      em_ImapTLS = True, em_SmtpHost = [], em_SmtpPort = 0, em_SmtpTLS = False,
                      em_User = env_User env, em_Password = secretOr sec\<rparr> w
               in (loginResult M ''imap_login'' ''imap_error'' res, w)))"

definition diagSmtp ::
    "golib \<Rightarrow> 's moment \<Rightarrow> string \<Rightarrow> Environment \<Rightarrow> 's world \<Rightarrow> params \<times> 's world" where
  "diagSmtp L M workspace env w =
     (let host = orElse (env_SmtpHost env) (env_Host env)
      in if host = [] then ([], w)
         else (let (sec, w) = resolveRef L (mo_up M) (env_SecretRef env) workspace w;
                   (res, w) = VerifySMTP (mo_dev M)
                     \<lparr>em_ImapHost = [], em_ImapPort = 0, em_ImapTLS = False, em_SmtpHost = host,
                      em_SmtpPort = (if env_SmtpPort env = 0 then 587 else env_SmtpPort env), em_SmtpTLS = True,
                      em_User = env_User env, em_Password = secretOr sec\<rparr> w
               in (loginResult M ''smtp_login'' ''smtp_error'' res, w)))"

text \<open>The request is made only when a credential was set beside the \<open>Accept\<close> header.\<close>

definition diagHeaders ::
    "golib \<Rightarrow> 's moment \<Rightarrow> string \<Rightarrow> Environment \<Rightarrow> 's world \<Rightarrow> string gomap \<times> 's world" where
  "diagHeaders L M workspace env w =
     (let headers = [(''Accept'', ''application/json'')]; U = mo_up M
      in if auth_Type (env_Auth env) = ''bearer'' then
           (let (sec, w) = resolveRef L U (env_SecretRef env) workspace w
            in case sec of
                 Inl _ \<Rightarrow> (headers, w)
               | Inr v \<Rightarrow> (mput ''Authorization'' (''Bearer '' @ trimSpace v) headers, w))
         else if auth_Type (env_Auth env) = ''basic'' then
           (let (sec, w) = resolveRef L U (env_SecretRef env) workspace w
            in case sec of
                 Inl _ \<Rightarrow> (headers, w)
               | Inr v \<Rightarrow>
                   (let (enc, w) = base64Auth L (env_User env) (trimSpace v) w
                    in (mput ''Authorization'' (''Basic '' @ enc) headers, w)))
         else (headers, w))"

definition diagHttp ::
    "golib \<Rightarrow> 's moment \<Rightarrow> string \<Rightarrow> Environment \<Rightarrow> 's world \<Rightarrow> params \<times> 's world" where
  "diagHttp L M workspace env w =
     (let (headers, w) = diagHeaders L M workspace env w
      in if length headers \<le> 1 then ([], w)
         else (let (res, w) = Execute L (mo_up M)
                     \<lparr>rq_Method = ''GET'', rq_Path = env_BaseURL env, rq_Headers = headers, rq_Body = None,
                      rq_Credentials = None, rq_Insecure = env_InsecureSkipVerify env, rq_MaxBodyBytes = 0\<rparr> w
               in (case res of
                     Inl e \<Rightarrow> [(''http_auth'', JStr ''failed''), (''http_error'', JStr (mo_restText M e))]
                   | Inr resp \<Rightarrow>
                       [(''http_auth'', JStr (if 0 < rs_StatusCode resp \<and> rs_StatusCode resp < 500 then ''ok'' else ''failed'')),
                        (''http_status'', JInt (rs_StatusCode resp))], w)))"

definition diagEnv ::
    "golib \<Rightarrow> 's moment \<Rightarrow> string \<Rightarrow> Environment \<Rightarrow> 's world \<Rightarrow> params \<times> 's world" where
  "diagEnv L M workspace env w =
     (let (resolved, w) = (if env_SecretRef env = [] then (False, w)
            else (let (sec, w) = resolveRef L (mo_up M) (env_SecretRef env) workspace w in (isOk sec, w)));
          (imap, w) = (if resolved \<and> env_User env \<noteq> [] then diagImap L M workspace env w else ([], w));
          (smtp, w) = (if resolved \<and> env_User env \<noteq> [] then diagSmtp L M workspace env w else ([], w));
          (http, w) = (if resolved \<and> env_BaseURL env \<noteq> [] then diagHttp L M workspace env w else ([], w))
      in ((''secret_resolved'', JBool resolved) # imap @ smtp @ http, w))"

fun diagEnvs ::
    "golib \<Rightarrow> 's moment \<Rightarrow> string \<Rightarrow> Environment gomap \<Rightarrow> 's world \<Rightarrow> params \<times> 's world" where
  "diagEnvs L M workspace [] w = ([], w)"
| "diagEnvs L M workspace ((envName, env) # envs) w =
     (let (res, w) = diagEnv L M workspace env w; (rest, w) = diagEnvs L M workspace envs w
      in ((envName, JObj res) # rest, w))"

definition adminDiag :: "golib \<Rightarrow> 's moment \<Rightarrow> httpReq \<Rightarrow> 's Server \<Rightarrow> outcome \<times> 's Server" where
  "adminDiag L M r s =
     (if \<not> authenticateAdmin L (cfgOf s) (hr_Auth r) then fails ''unauthorized'' 401 s
      else if hr_Method r \<noteq> ''POST'' then fails ''POST required'' 405 s
      else if maxAdminDiagBody < length (hr_Body r) then fails ''request body too large'' 413 s
      else (case structFields L [''workspace'', ''site''] (lib_decode L (hr_Body r)) of
              Some [workspace, siteName] \<Rightarrow>
                if workspace = [] \<or> siteName = [] then fails ''workspace and site required'' 400 s
                else (case mget (cfg_Workspaces (cfgOf s)) workspace of
                        None \<Rightarrow> fails ''workspace not found'' 404 s
                      | Some ws \<Rightarrow>
                          (case mget (ws_Sites ws) siteName of
                             None \<Rightarrow> fails ''site not found'' 404 s
                           | Some site \<Rightarrow>
                               (let (res, w) = diagEnvs L M workspace (site_Environments site) (sv_world s)
                                in (Reply (jsonReply L 200 jsonHeader (JObj res)), s\<lparr>sv_world := w\<rparr>))))
            | _ \<Rightarrow> fails ''workspace and site required'' 400 s))"

section \<open>Reload\<close>

text \<open>Both files are read and checked before the state is replaced.\<close>

datatype reloadError = ConfigFailed configError | OpsFailed opsError

definition loadState :: "golib \<Rightarrow> 's moment \<Rightarrow> 's Server \<Rightarrow> reloadError + runtimeState" where
  "loadState L M s =
     rbind (mapErr ConfigFailed
       (Load (mo_isAbs M) (mo_readConfig M) (cfg_ConfigPath (cfgOf s)))) (\<lambda>cfg.
     rbind (mapErr OpsFailed (NewRegistry L (mo_readOps M) (sv_opsPath s))) (\<lambda>newReg.
     Inr \<lparr>st_cfg = cfg,
          st_reg = (case sv_tunnelFactory s of
             None \<Rightarrow> newReg | Some f \<Rightarrow> newReg\<lparr>reg_TunnelChecker := Some (f cfg)\<rparr>)\<rparr>))"

text \<open>An operation that the file sets to \<open>null\<close> makes the loader, and so the handler, panic.\<close>

fun reloadFailure :: "'s moment \<Rightarrow> reloadError \<Rightarrow> outcome" where
  "reloadFailure M (ConfigFailed e) = Reply (errorReply (''config reload failed: '' @ mo_configText M e) 500)"
| "reloadFailure M (OpsFailed (NilOperation opId)) = Aborted"
| "reloadFailure M (OpsFailed e) = Reply (errorReply (''ops reload failed: '' @ mo_opsText M e) 500)"

definition adminReload :: "golib \<Rightarrow> 's moment \<Rightarrow> httpReq \<Rightarrow> 's Server \<Rightarrow> outcome \<times> 's Server" where
  "adminReload L M r s =
     (if hr_Method r \<noteq> ''POST'' then fails ''POST required'' 405 s
      else if \<not> authenticateAdmin L (cfgOf s) (hr_Auth r) then fails ''unauthorized'' 401 s
      else (case loadState L M s of
              Inl e \<Rightarrow> (reloadFailure M e, s)
            | Inr st \<Rightarrow>
                (let checksum = mo_checksum M (cfg_ConfigPath (st_cfg st))
                 in (Reply (jsonReply L 200 jsonHeader (JObj
                       [(''config_checksum'', JStr checksum), (''status'', JStr ''ok'')])),
                     s\<lparr>sv_state := st, sv_checksum := checksum\<rparr>))))"

definition adminEndpoints :: string where
  "adminEndpoints =
     ''POST /admin/secrets, GET /admin/secrets/status?workspace=, POST /admin/reload, POST /admin/diag''"

definition handleAdmin :: "golib \<Rightarrow> 's moment \<Rightarrow> httpReq \<Rightarrow> 's Server \<Rightarrow> outcome \<times> 's Server" where
  "handleAdmin L M r s =
     (let parts = splitN 2 (CHR ''/'') (trimPrefix (hr_Path r) ''/admin/'')
      in if parts = [] \<or> hd parts = [] then
           (Reply (jsonReply L 200 jsonHeader (JObj [(''endpoints'', JStr adminEndpoints)])), s)
         else if hd parts = ''secrets'' then adminSecrets L M r parts s
         else if hd parts = ''diag'' then adminDiag L M r s
         else if hd parts = ''reload'' then adminReload L M r s
         else fails ''unknown admin endpoint'' 404 s)"

end
