(* ===== verification/Routes.thy ===== *)
theory Routes
  imports Admin
begin

text \<open>
  The server as a whole: \<open>New\<close>, the routes of \<open>setupRoutes\<close> and \<open>ServeHTTP\<close>, which together are
  the step function of the system.
\<close>

section \<open>A new server\<close>

definition New ::
    "Config \<Rightarrow> OperationRegistry \<Rightarrow> string \<Rightarrow> (string \<Rightarrow> string) \<Rightarrow> (Config \<Rightarrow> TunnelChecker) option \<Rightarrow> Logger
       \<Rightarrow> 's Resolver \<Rightarrow> files \<Rightarrow> 's Server" where
  "New cfg reg opsPath checksum factory log res F =
     \<lparr>sv_state = \<lparr>st_cfg = cfg, st_reg = reg\<rparr>, sv_auditLog = log, sv_checksum = checksum (cfg_ConfigPath cfg),
      sv_opsPath = opsPath, sv_slackFilesBase = [], sv_world = \<lparr>w_res = res, w_sent = [], w_calls = [], w_files = F\<rparr>,
      sv_tunnelFactory = factory\<rparr>"

section \<open>The mux\<close>

text \<open>
  \<open>ServeMux\<close> cleans the path as it was written, then matches its segments one by one, each
  decoded; a path that cleaning changes, or that lacks the final slash of a pattern, is redirected.
\<close>

fun pathUnescape :: "string \<Rightarrow> string option" where
  "pathUnescape [] = Some []"
| "pathUnescape (c # cs) =
     (if c \<noteq> CHR ''%'' then map_option (Cons c) (pathUnescape cs)
      else (case cs of
              a # b # rest \<Rightarrow>
                (case (hexVal a, hexVal b) of
                   (Some x, Some y) \<Rightarrow> map_option (Cons (char_of (16 * x + y))) (pathUnescape rest)
                 | _ \<Rightarrow> None)
            | _ \<Rightarrow> None))"

definition segment :: "string \<Rightarrow> string" where
  "segment s = (case pathUnescape s of None \<Rightarrow> s | Some t \<Rightarrow> t)"

fun cleanSegs :: "string list \<Rightarrow> string list \<Rightarrow> string list" where
  "cleanSegs kept [] = rev kept"
| "cleanSegs kept (s # ss) =
     (if s = [] \<or> s = ''.'' then cleanSegs kept ss
      else if s = ''..'' then cleanSegs (tl kept) ss
      else cleanSegs (s # kept) ss)"

definition cleanPath :: "string \<Rightarrow> string" where
  "cleanPath p =
     (if p = [] then ''/''
      else (let kept = cleanSegs [] (splitOn (CHR ''/'') p); np = ''/'' @ join ''/'' kept
            in if kept \<noteq> [] \<and> last p = CHR ''/'' then np @ ''/'' else np))"

datatype endpoint =
    Healthz | Whoami | Capabilities | Help | FeedbackEndpoint | WorkspaceOps | AdminEndpoint
  | Moved string | NoRoute

definition endpointOf :: "string list \<Rightarrow> endpoint" where
  "endpointOf segs =
     (if segs = [''healthz''] then Healthz
      else if segs = [''whoami''] then Whoami
      else if segs = [''capabilities''] then Capabilities
      else if segs = [''help''] then Help
      else if segs = [''feedback''] then FeedbackEndpoint
      else if 3 \<le> length segs \<and> take 2 segs = [''v1'', ''workspaces''] then WorkspaceOps
      else if 2 \<le> length segs \<and> hd segs = ''admin'' then AdminEndpoint
      else NoRoute)"

definition route :: "string \<Rightarrow> endpoint" where
  "route asked =
     (let p = cleanPath asked; segs = map segment (splitOn (CHR ''/'') (tl p))
      in if segs = [''admin''] \<or> segs = [''v1'', ''workspaces''] then Moved (p @ ''/'')
         else if p \<noteq> asked then Moved p
         else endpointOf segs)"

text \<open>A redirect is left to the library; the other answers are those of the handlers.\<close>

datatype response = Served outcome | Redirected string

definition notFound :: reply where
  "notFound = errorReply ''404 page not found'' 404"

definition handleEndpoint ::
    "golib \<Rightarrow> 's moment \<Rightarrow> endpoint \<Rightarrow> httpReq \<Rightarrow> 's Server \<Rightarrow> outcome \<times> 's Server" where
  "handleEndpoint L M e r s =
     (case e of
        Healthz \<Rightarrow> handleHealthz L r s
      | Whoami \<Rightarrow> handleWhoami L r s
      | Capabilities \<Rightarrow> handleCapabilities L r s
      | Help \<Rightarrow> handleHelp L r s
      | FeedbackEndpoint \<Rightarrow> handleFeedback L M r s
      | WorkspaceOps \<Rightarrow> handleWorkspaceOp L M r s
      | AdminEndpoint \<Rightarrow> handleAdmin L M r s
      | _ \<Rightarrow> (Reply notFound, s))"

definition ServeHTTP ::
    "golib \<Rightarrow> 's moment \<Rightarrow> string \<Rightarrow> httpReq \<Rightarrow> 's Server \<Rightarrow> response \<times> 's Server" where
  "ServeHTTP L M asked r s =
     (case route asked of
        Moved p \<Rightarrow> (Redirected p, s)
      | e \<Rightarrow> (let (out, s) = handleEndpoint L M e r s in (Served out, s)))"


end
