(* ===== verification/Serving.thy ===== *)
theory Serving
  imports Routes
begin

text \<open>
  What holds of the server as a whole: what a caller without a token can see, who can change
  which part of its state, and the invariant of the configuration over every history of requests.
\<close>

section \<open>What a handler leaves alone\<close>

lemma knownAgent_stranger:
  "authenticate L (cfgOf s) (hr_Auth r) = [] \<Longrightarrow> knownAgent L r s = Inl (''unauthorized'', 401)"
  by (simp add: knownAgent_def)

lemma knownAgent_Inr:
  "knownAgent L r s = Inr a \<Longrightarrow> authenticate L (cfgOf s) (hr_Auth r) \<noteq> []"
  by (auto simp: knownAgent_def Let_def split: if_splits)

lemma fails_snd [simp]: "snd (fails msg code s) = s"
  by (simp add: fails_def)

lemma read_only [simp]:
  "snd (handleHealthz L r s) = s" "snd (handleWhoami L r s) = s"
  "snd (handleCapabilities L r s) = s" "snd (handleHelp L r s) = s"
  by (simp_all add: handleHealthz_def handleWhoami_def handleCapabilities_def handleHelp_def Let_def
      split: sum.split option.split prod.split)

text \<open>Nothing was resolved, sent or called between two worlds; only files may differ.\<close>

definition sameContacts :: "'s world \<Rightarrow> 's world \<Rightarrow> bool" where
  "sameContacts w w' \<longleftrightarrow> w_res w' = w_res w \<and> w_sent w' = w_sent w \<and> w_calls w' = w_calls w"

lemma sameContacts_refl [simp]: "sameContacts w w"
  by (simp add: sameContacts_def)

lemma withFiles_keeps [simp]:
  "sv_state (withFiles F s) = sv_state s" "sv_tunnelFactory (withFiles F s) = sv_tunnelFactory s"
  "sameContacts (sv_world s) (sv_world (withFiles F s))"
  by (simp_all add: withFiles_def sameContacts_def)

lemma handleFeedback_keeps:
  "sv_state (snd (handleFeedback L M r s)) = sv_state s"
  "sameContacts (sv_world s) (sv_world (snd (handleFeedback L M r s)))"
  "sv_tunnelFactory (snd (handleFeedback L M r s)) = sv_tunnelFactory s"
  by (auto simp: handleFeedback_def Let_def split: sum.split prod.split option.split todoError.split)

text \<open>Of a server, only the audit log and the world may have changed.\<close>

definition onlyLogsAndWorld :: "'s Server \<Rightarrow> 's Server \<Rightarrow> bool" where
  "onlyLogsAndWorld s s' \<longleftrightarrow> sv_state s' = sv_state s \<and> sv_checksum s' = sv_checksum s
     \<and> sv_tunnelFactory s' = sv_tunnelFactory s \<and> sv_opsPath s' = sv_opsPath s"

lemma onlyLogsAndWorld_log [simp]:
  "onlyLogsAndWorld s s" "onlyLogsAndWorld s (s\<lparr>sv_auditLog := log\<rparr>)" "onlyLogsAndWorld s (s\<lparr>sv_world := w\<rparr>)"
  "onlyLogsAndWorld s (s\<lparr>sv_world := w, sv_auditLog := log\<rparr>)"
  by (simp_all add: onlyLogsAndWorld_def)

lemma onlyLogsAndWorld_keeps:
  assumes "onlyLogsAndWorld s s'"
  shows "sv_state s' = sv_state s" "sv_tunnelFactory s' = sv_tunnelFactory s"
  using assms by (simp_all add: onlyLogsAndWorld_def)

lemma refusal_logs: "onlyLogsAndWorld s (snd (writeRefusal L M agentID workspace opID refusal s))"
  by (simp add: writeRefusal_def writeDeny_def writeUnknownOp_def logDeny_def Let_def split: refusal.split)

lemma executeOp_logs: "onlyLogsAndWorld s (snd (executeOp L M r agentID workspace opID s))"
  by (simp add: executeOp_def logAllow_def Let_def refusal_logs split: sum.split prod.split)

lemma handleWorkspaceOp_logs: "onlyLogsAndWorld s (snd (handleWorkspaceOp L M r s))"
proof (cases "runs L r s")
  case True
  then show ?thesis by (simp only: handle_runs executeOp_logs)
next
  case False
  then show ?thesis
    by (rule handle_rest)
      (simp_all add: writeDeny_def logDeny_def handleDryRun_def refusal_logs split: sum.split)
qed

section \<open>Administration\<close>

text \<open>Without the token of the administrator the endpoints under \<open>/admin/\<close> change nothing.\<close>

lemma handleAdmin_stranger:
  "\<not> authenticateAdmin L (cfgOf s) (hr_Auth r) \<Longrightarrow> snd (handleAdmin L M r s) = s"
  by (simp add: handleAdmin_def adminSecrets_def adminDiag_def adminReload_def Let_def)

lemma withResolver_logs [simp]: "onlyLogsAndWorld s (withResolver res s)"
  by (simp add: withResolver_def)

lemma handleSecretStatus_logs: "onlyLogsAndWorld s (snd (handleSecretStatus L M r s))"
  by (simp add: handleSecretStatus_def Let_def split: option.split prod.split)

lemma deleteSecret_logs: "onlyLogsAndWorld s (snd (deleteSecret L M r s))"
  by (simp add: deleteSecret_def Let_def split: sum.split prod.split)

lemma setSecret_logs: "onlyLogsAndWorld s (snd (setSecret L M r s))"
  by (simp add: setSecret_def split: sum.split prod.split option.split list.split)

lemma adminSecrets_logs: "onlyLogsAndWorld s (snd (adminSecrets L M r parts s))"
  by (simp add: adminSecrets_def handleSecretStatus_logs deleteSecret_logs setSecret_logs)

lemma adminDiag_logs: "onlyLogsAndWorld s (snd (adminDiag L M r s))"
  by (simp add: adminDiag_def split: prod.split option.split list.split)

lemma adminReload_cases:
  "snd (adminReload L M r s) = s \<or>
     hr_Method r = ''POST'' \<and> authenticateAdmin L (cfgOf s) (hr_Auth r)
     \<and> loadState L M s = Inr (sv_state (snd (adminReload L M r s)))"
  by (simp add: adminReload_def Let_def split: sum.split)

lemma handleAdmin_cases:
  "onlyLogsAndWorld s (snd (handleAdmin L M r s)) \<or> snd (handleAdmin L M r s) = snd (adminReload L M r s)"
  by (simp add: handleAdmin_def Let_def adminSecrets_logs adminDiag_logs)

section \<open>A caller without a token\<close>

definition stranger :: "golib \<Rightarrow> httpReq \<Rightarrow> 's Server \<Rightarrow> bool" where
  "stranger L r s \<longleftrightarrow> authenticate L (cfgOf s) (hr_Auth r) = [] \<and> \<not> authenticateAdmin L (cfgOf s) (hr_Auth r)"

text \<open>The answer a stranger gets: a function of the request alone.\<close>

definition plainFail :: "string \<Rightarrow> int \<Rightarrow> outcome" where
  "plainFail msg code = Reply (errorReply msg code)"

definition strangerReply :: "golib \<Rightarrow> 's moment \<Rightarrow> endpoint \<Rightarrow> httpReq \<Rightarrow> outcome" where
  "strangerReply L M e r =
     (let get = hr_Method r = ''GET''; unauthorized = plainFail ''unauthorized'' 401
      in case e of
        Healthz \<Rightarrow> if get then Reply (jsonReply L 200 jsonHeader (JObj [(''status'', JStr ''ok'')]))
          else plainFail ''method not allowed'' 405
      | Whoami \<Rightarrow> if get then unauthorized else plainFail ''method not allowed'' 405
      | Capabilities \<Rightarrow> if get then unauthorized else plainFail ''method not allowed'' 405
      | Help \<Rightarrow> if hr_Auth r = [] \<and> queryGet r ''workspace'' = []
          then Reply (helpReply [''Authenticate to see your workspaces: GET /help with the Authorization header.''])
          else unauthorized
      | FeedbackEndpoint \<Rightarrow> if hr_Method r \<noteq> ''POST'' then plainFail ''POST only'' 405 else unauthorized
      | WorkspaceOps \<Rightarrow> if hr_Method r \<noteq> ''POST'' \<and> \<not> get then plainFail ''method not allowed'' 405
          else Reply (jsonReply L 403 (idHeaders M) (JObj [(''error'', JStr ''denied''),
            (''rule'', JStr ''authentication''), (''detail'', JStr ''missing or invalid token'')]))
      | AdminEndpoint \<Rightarrow>
          (let parts = splitN 2 (CHR ''/'') (trimPrefix (hr_Path r) ''/admin/'')
           in if parts = [] \<or> hd parts = []
              then Reply (jsonReply L 200 jsonHeader (JObj [(''endpoints'', JStr adminEndpoints)]))
              else if hd parts = ''secrets'' \<or> hd parts = ''diag'' then unauthorized
              else if hd parts = ''reload'' then if hr_Method r \<noteq> ''POST'' then plainFail ''POST required'' 405 else unauthorized
              else plainFail ''unknown admin endpoint'' 404)
      | _ \<Rightarrow> Reply notFound)"

lemma stranger_agent_endpoints:
  assumes "authenticate L (cfgOf s) (hr_Auth r) = []"
  shows "fst (handleWhoami L r s) = strangerReply L M Whoami r"
    "fst (handleCapabilities L r s) = strangerReply L M Capabilities r"
    "fst (handleHelp L r s) = strangerReply L M Help r"
    "fst (handleFeedback L M r s) = strangerReply L M FeedbackEndpoint r"
  using knownAgent_stranger [OF assms]
  by (simp_all add: handleWhoami_def handleCapabilities_def handleHelp_def handleFeedback_def admitFeedback_def
      strangerReply_def fails_def plainFail_def Let_def)

lemma stranger_workspace:
  assumes "authenticate L (cfgOf s) (hr_Auth r) = []"
  shows "fst (handleWorkspaceOp L M r s) = strangerReply L M WorkspaceOps r"
  using assms by (simp add: handleWorkspaceOp_def strangerReply_def plainFail_def writeDeny_def cfgOf_def Let_def)

lemma stranger_admin:
  assumes "\<not> authenticateAdmin L (cfgOf s) (hr_Auth r)"
  shows "fst (handleAdmin L M r s) = strangerReply L M AdminEndpoint r"
  using assms by (simp add: handleAdmin_def adminSecrets_def adminDiag_def adminReload_def strangerReply_def
      fails_def plainFail_def Let_def)

lemma stranger_reply:
  assumes "stranger L r s"
  shows "fst (handleEndpoint L M e r s) = strangerReply L M e r"
  using assms stranger_agent_endpoints [of L s r M] stranger_workspace [of L s r M] stranger_admin [of L s r M]
  by (cases e) (simp_all add: stranger_def handleEndpoint_def strangerReply_def handleHealthz_def fails_def plainFail_def)

lemma stranger_changes:
  assumes "stranger L r s"
  shows "\<exists>log. snd (handleEndpoint L M e r s) = s\<lparr>sv_auditLog := log\<rparr>"
proof -
  have same: "\<exists>log. s = s\<lparr>sv_auditLog := log\<rparr>" by (rule exI [of _ "sv_auditLog s"]) simp
  have fb: "snd (handleFeedback L M r s) = s"
    using assms knownAgent_stranger [of L s r] by (simp add: stranger_def handleFeedback_def admitFeedback_def)
  have ws: "\<exists>log. snd (handleWorkspaceOp L M r s) = s\<lparr>sv_auditLog := log\<rparr>"
    using assms same by (auto simp: stranger_def handleWorkspaceOp_def writeDeny_def logDeny_def cfgOf_def Let_def)
  show ?thesis
    using assms same fb ws handleAdmin_stranger [of L s r M]
    by (cases e) (simp_all add: handleEndpoint_def stranger_def)
qed

text \<open>C5: A caller who shows neither a registered token nor that of the administrator learns nothing
  of the server: the answer is the same for any two servers to which he is unknown, whatever their
  configuration, their secrets and their files; and of the server only the audit log changes.\<close>

theorem stranger_learns_nothing:
  assumes "stranger L r s" and "stranger L r t"
  shows "fst (ServeHTTP L M asked r s) = fst (ServeHTTP L M asked r t)
    \<and> (\<exists>log. snd (ServeHTTP L M asked r s) = s\<lparr>sv_auditLog := log\<rparr>)"
proof -
  have same: "\<exists>log. s = s\<lparr>sv_auditLog := log\<rparr>" by (rule exI [of _ "sv_auditLog s"]) simp
  show ?thesis
    using stranger_reply [OF assms(1)] stranger_reply [OF assms(2)] stranger_changes [OF assms(1)] same
    by (cases "route asked") (simp_all add: ServeHTTP_def Let_def split_beta)
qed

lemma stranger_learns_nothing_witness:
  "fst (ServeHTTP exampleLib vpnMoment ''/whoami'' (vpnRequest\<lparr>hr_Auth := ''Bearer guess''\<rparr>) vpnServer)
     = fst (ServeHTTP exampleLib vpnMoment ''/whoami'' (vpnRequest\<lparr>hr_Auth := ''Bearer guess''\<rparr>) leakServer)"
proof -
  have "authenticate exampleLib (st_cfg vpnState) ''Bearer guess'' = []"
    "\<not> authenticateAdmin exampleLib (st_cfg vpnState) ''Bearer guess''"
    by code_simp+
  then have "stranger exampleLib (vpnRequest\<lparr>hr_Auth := ''Bearer guess''\<rparr>) vpnServer"
    "stranger exampleLib (vpnRequest\<lparr>hr_Auth := ''Bearer guess''\<rparr>) leakServer"
    by (simp_all add: stranger_def cfgOf_def leakServer_def vpn_state)
  from stranger_learns_nothing [OF this] show ?thesis by simp
qed

section \<open>Who can change what\<close>

definition byAgent :: "golib \<Rightarrow> httpReq \<Rightarrow> 's Server \<Rightarrow> bool" where
  "byAgent L r s \<longleftrightarrow> (\<exists>agent. GetAgentByTokenSHA (cfgOf s) (authenticate L (cfgOf s) (hr_Auth r)) = Some agent)"

lemma feedback_agent: "\<not> byAgent L r s \<Longrightarrow> snd (handleFeedback L M r s) = s"
proof -
  assume "\<not> byAgent L r s"
  then have "\<exists>e. knownAgent L r s = Inl e"
    by (auto simp: byAgent_def knownAgent_def Let_def)
  then have "\<exists>e. admitFeedback L M r s = Inl e"
    by (auto simp: admitFeedback_def)
  then show ?thesis by (auto simp: handleFeedback_def)
qed

definition admittedOp :: "golib \<Rightarrow> httpReq \<Rightarrow> 's Server \<Rightarrow> bool" where
  "admittedOp L r s \<longleftrightarrow> (\<exists>workspace opID ws op ps.
     admitted L (sv_state s) (authenticate L (cfgOf s) (hr_Auth r)) workspace opID (hr_Body r) ws op ps)"

lemma admittedOp_agent: "admittedOp L r s \<Longrightarrow> byAgent L r s"
  by (auto simp: admittedOp_def byAgent_def admitted_def cfgOf_def)

lemma workspace_admitted:
  assumes "sv_world (snd (handleWorkspaceOp L M r s)) \<noteq> sv_world s"
  shows "admittedOp L r s"
proof (cases rule: handle_cases [of L M r s])
  case no
  with assms show ?thesis by simp
next
  case (run agentID workspace opID ws op ps)
  then show ?thesis unfolding admittedOp_def cfgOf_def by metis
qed

lemma ServeHTTP_snd:
  "snd (ServeHTTP L M asked r s) = s \<or> (\<exists>e. snd (ServeHTTP L M asked r s) = snd (handleEndpoint L M e r s))"
  by (cases "route asked") (auto simp: ServeHTTP_def Let_def split_beta)

text \<open>The authority a change of the server's state from \<open>s\<close> to \<open>s'\<close> by a request \<open>r\<close> rests on.\<close>

definition authorised :: "golib \<Rightarrow> 's moment \<Rightarrow> httpReq \<Rightarrow> 's Server \<Rightarrow> 's Server \<Rightarrow> bool" where
  "authorised L M r s s' \<longleftrightarrow>
     (let admin = authenticateAdmin L (cfgOf s) (hr_Auth r)
      in (sv_state s' = sv_state s \<or> hr_Method r = ''POST'' \<and> admin \<and> loadState L M s = Inr (sv_state s'))
       \<and> (sameContacts (sv_world s) (sv_world s') \<or> admin \<or> admittedOp L r s)
       \<and> (w_files (sv_world s') = w_files (sv_world s) \<or> admin \<or> byAgent L r s))"

lemma authorised_refl [simp]: "authorised L M r s s"
  by (simp add: authorised_def)

lemma authorised_workspace: "authorised L M r s (snd (handleWorkspaceOp L M r s))"
proof (cases "admittedOp L r s")
  case True
  with admittedOp_agent [OF True] show ?thesis
    by (simp add: authorised_def Let_def onlyLogsAndWorld_keeps [OF handleWorkspaceOp_logs])
next
  case False
  then have "sv_world (snd (handleWorkspaceOp L M r s)) = sv_world s" using workspace_admitted by blast
  then show ?thesis
    by (simp add: authorised_def Let_def onlyLogsAndWorld_keeps [OF handleWorkspaceOp_logs])
qed

lemma authorised_feedback: "authorised L M r s (snd (handleFeedback L M r s))"
  by (cases "byAgent L r s") (simp_all add: authorised_def Let_def handleFeedback_keeps feedback_agent)

lemma authorised_reload: "authorised L M r s (snd (adminReload L M r s))"
  by (simp add: adminReload_def authorised_def Let_def split: sum.split)

lemma authorised_admin: "authorised L M r s (snd (handleAdmin L M r s))"
proof (cases "authenticateAdmin L (cfgOf s) (hr_Auth r)")
  case True
  then have "authorised L M r s s'" if "onlyLogsAndWorld s s'" for s'
    using that by (simp add: authorised_def onlyLogsAndWorld_def)
  with handleAdmin_cases [of s L M r] authorised_reload [of L M r s] show ?thesis by metis
next
  case False
  then show ?thesis by (simp add: handleAdmin_stranger)
qed

text \<open>C6: Every change of the server's state has its authority. The configuration and the operations
  are replaced only by a reload of the administrator, and then by what was loaded and validated as a
  whole; the secrets, the requests sent and the devices used change only for the administrator or for
  an admitted operation of an agent; a file is written only for the administrator or a registered
  agent.\<close>

theorem changes_need_authority: "authorised L M r s (snd (ServeHTTP L M asked r s))"
proof -
  have "authorised L M r s (snd (handleEndpoint L M e r s))" for e
    by (cases e) (simp_all add: handleEndpoint_def authorised_workspace authorised_feedback authorised_admin)
  with ServeHTTP_snd [of L M asked r s] show ?thesis by (metis authorised_refl)
qed

section \<open>The configuration over time\<close>

text \<open>What the loader checks of the operations.\<close>

definition opChecked :: "golib \<Rightarrow> string \<Rightarrow> Operation \<Rightarrow> bool" where
  "opChecked L opId op \<longleftrightarrow> op_ID op = opId \<and> loadPatterns L opId op = Inr () \<and> loadMultipart opId op = Inr ()"

definition opsChecked :: "golib \<Rightarrow> OperationRegistry \<Rightarrow> bool" where
  "opsChecked L reg \<longleftrightarrow> (\<forall>(opId, op)\<in>set (reg_Operations reg). opChecked L opId op)"

text \<open>
  The invariant of a server: its configuration is well formed, its operations are checked, and
  they ask the tunnel checker that was built from this very configuration.
\<close>

definition coherent :: "golib \<Rightarrow> (string \<Rightarrow> bool) \<Rightarrow> 's Server \<Rightarrow> bool" where
  "coherent L isAbs s \<longleftrightarrow> wellFormedConfig isAbs (cfgOf s) \<and> opsChecked L (st_reg (sv_state s))
     \<and> reg_TunnelChecker (st_reg (sv_state s)) = map_option (\<lambda>f. f (cfgOf s)) (sv_tunnelFactory s)"

lemma wellFormed_path: "wellFormedConfig isAbs (c\<lparr>cfg_ConfigPath := p\<rparr>) \<longleftrightarrow> wellFormedConfig isAbs c"
  by (simp add: wellFormedConfig_def grantResolves_def GetWorkspace_def GetRole_def)

lemma Load_wellFormed: "Load isAbs read path = Inr c \<Longrightarrow> wellFormedConfig isAbs c"
  by (auto simp: Load_def rbind_Inr_iff Validate_iff wellFormed_path)

lemma loadOperations_checker:
  "loadOperations L ops reg = Inr reg' \<Longrightarrow> reg_TunnelChecker reg' = reg_TunnelChecker reg"
  by (induction L ops reg rule: loadOperations.induct) (auto simp: rbind_Inr_iff Let_def split: option.splits if_splits)

lemma registerBuiltIn_checker [simp]: "reg_TunnelChecker (registerBuiltIn reg) = reg_TunnelChecker reg"
  by (simp add: registerBuiltIn_def)

lemma NewRegistry_checker: "NewRegistry L read path = Inr reg \<Longrightarrow> reg_TunnelChecker reg = None"
  by (auto simp: NewRegistry_def loadFromFile_def Let_def rbind_Inr_iff dest: loadOperations_checker split: if_splits)

lemma checked_mput:
  "\<forall>(opId, op)\<in>set ops. opChecked L opId op \<Longrightarrow> opChecked L k v \<Longrightarrow>
     \<forall>(opId, op)\<in>set (mput k v ops). opChecked L opId op"
  using set_mput [of k v ops] by fast

lemma checks_ID:
  "loadPatterns L opId (op\<lparr>op_ID := x\<rparr>) = loadPatterns L opId op"
  "loadMultipart opId (op\<lparr>op_ID := x\<rparr>) = loadMultipart opId op"
  by (simp_all add: loadPatterns_def loadMultipart_def Let_def split: option.split)

lemma opsChecked_put:
  assumes "loadPatterns L opId op = Inr ()" and "loadMultipart opId op = Inr ()" and "opsChecked L reg"
  shows "opsChecked L (reg\<lparr>reg_Operations := mput opId (op\<lparr>op_ID := opId\<rparr>) (reg_Operations reg)\<rparr>)"
proof -
  have "opChecked L opId (op\<lparr>op_ID := opId\<rparr>)" using assms(1,2) by (simp add: opChecked_def checks_ID)
  with assms(3) show ?thesis by (simp add: opsChecked_def checked_mput)
qed

lemma loadOperations_checked:
  "loadOperations L ops reg = Inr reg' \<Longrightarrow> opsChecked L reg \<Longrightarrow> opsChecked L reg'"
  by (induction L ops reg rule: loadOperations.induct) (auto simp: rbind_Inr_iff opsChecked_put)

lemma opsChecked_empty: "opsChecked L \<lparr>reg_Operations = [], reg_TunnelChecker = c\<rparr>"
  by (simp add: opsChecked_def)

lemma builtin_checked:
  "opChecked L ''pg.query'' pgQuery" "opChecked L ''jira.status'' jiraStatus"
  "opChecked L ''jira.comment'' jiraComment" "opChecked L ''jira.create'' jiraCreate"
  "opChecked L ''jira.search'' jiraSearch"
  by (simp_all add: pgQuery_def jiraStatus_def jiraComment_def jiraCreate_def jiraSearch_def opChecked_def
      loadPatterns_def loadMultipart_def zeroOperation_def zeroParam_def ensure_def)

lemma registerBuiltIn_checked: "opsChecked L reg \<Longrightarrow> opsChecked L (registerBuiltIn reg)"
  unfolding opsChecked_def registerBuiltIn_def
  by simp (intro checked_mput builtin_checked)

lemma NewRegistry_checked:
  assumes "NewRegistry L read path = Inr reg"
  shows "opsChecked L reg"
proof -
  let ?empty = "\<lparr>reg_Operations = [], reg_TunnelChecker = None\<rparr>"
  obtain reg0 where reg0: "(if path \<noteq> [] then loadFromFile L read path ?empty else Inr ?empty) = Inr reg0"
    and reg: "reg = (if reg_Operations reg0 = [] then registerBuiltIn reg0 else reg0)"
    using assms by (auto simp: NewRegistry_def Let_def rbind_Inr_iff)
  from reg0 opsChecked_empty have "opsChecked L reg0"
    by (auto simp: loadFromFile_def rbind_Inr_iff dest: loadOperations_checked split: if_splits)
  with reg registerBuiltIn_checked show ?thesis by simp
qed

lemma opsChecked_checker [simp]: "opsChecked L (reg\<lparr>reg_TunnelChecker := c\<rparr>) \<longleftrightarrow> opsChecked L reg"
  by (simp add: opsChecked_def)

lemma loadState_coherent:
  "loadState L M s = Inr st \<Longrightarrow> coherent L (mo_isAbs M) (s\<lparr>sv_state := st, sv_checksum := c\<rparr>)"
  by (auto simp: loadState_def coherent_def cfgOf_def rbind_Inr_iff
      dest: Load_wellFormed NewRegistry_checker NewRegistry_checked split: option.split)

text \<open>A history of the server: requests served one after the other, each in a moment of its own.\<close>

inductive serving :: "golib \<Rightarrow> (string \<Rightarrow> bool) \<Rightarrow> 's Server \<Rightarrow> 's Server \<Rightarrow> bool" for L isAbs where
  S_start: "serving L isAbs s s"
| S_request: "serving L isAbs s v \<Longrightarrow> mo_isAbs M = isAbs \<Longrightarrow> serving L isAbs s (snd (ServeHTTP L M asked r v))"

inductive_cases serving_startE: "serving L isAbs s s'"

lemma coherent_logs: "coherent L isAbs s \<Longrightarrow> onlyLogsAndWorld s s' \<Longrightarrow> coherent L isAbs s'"
  by (simp add: coherent_def onlyLogsAndWorld_def cfgOf_def)

lemma coherent_reload:
  "coherent L (mo_isAbs M) s \<Longrightarrow> coherent L (mo_isAbs M) (snd (adminReload L M r s))"
  by (simp add: adminReload_def Let_def loadState_coherent split: sum.split)

lemma coherent_feedback: "coherent L isAbs s \<Longrightarrow> coherent L isAbs (snd (handleFeedback L M r s))"
  by (simp add: coherent_def cfgOf_def handleFeedback_keeps)

lemma coherent_step:
  assumes "coherent L (mo_isAbs M) s"
  shows "coherent L (mo_isAbs M) (snd (ServeHTTP L M asked r s))"
proof -
  have "coherent L (mo_isAbs M) (snd (handleAdmin L M r s))"
    using handleAdmin_cases [of s L M r] coherent_logs [OF assms] coherent_reload [OF assms] by metis
  then have "coherent L (mo_isAbs M) (snd (handleEndpoint L M e r s))" for e
    using assms coherent_logs [OF assms handleWorkspaceOp_logs] coherent_feedback [OF assms]
    by (cases e) (simp_all add: handleEndpoint_def)
  with ServeHTTP_snd [of L M asked r s] assms show ?thesis by metis
qed

lemma serving_coherent: "serving L isAbs s s' \<Longrightarrow> coherent L isAbs s \<Longrightarrow> coherent L isAbs s'"
  by (induction rule: serving.induct) (auto intro: coherent_step)

end
