(* ===== verification/Startup.thy ===== *)
theory Startup
  imports Serving
begin

text \<open>
  cmd/egw/main.go: how the gateway comes up. The flags, the file system and the socket are
  arguments; every \<open>Fatal\<close> ends the process, which is the left of the result. Registering a
  Windows service and the service loop are left to the service library.
\<close>

record commandLine =
  cl_configPath :: string
  cl_opsPath :: string
  cl_port :: "int option"  \<comment> \<open>\<open>None\<close> when the flag was not given\<close>

record 's host =
  ho_cwd :: string
  ho_join :: "string \<Rightarrow> string \<Rightarrow> string"
  ho_missing :: "string \<Rightarrow> bool"
  ho_mkdir :: "string \<Rightarrow> string option"
  ho_listen :: "string \<Rightarrow> string option"
  ho_auditFiles :: "string gomap"
  ho_passStore :: "string \<Rightarrow> 's SecretStore"
  ho_keepassStore :: "string \<Rightarrow> string \<Rightarrow> 's SecretStore"
  ho_resolver :: "'s Resolver"  \<comment> \<open>as \<open>GetResolver\<close> first makes it\<close>
  ho_fileSystem :: files

datatype fatal =
    FatalConfig configError
  | FatalAudit string
  | FatalOps opsError
  | FatalListen string

definition defaultPort :: int where
  "defaultPort = 8443"

definition pathOr :: "'s host \<Rightarrow> string \<Rightarrow> string \<Rightarrow> string" where
  "pathOr H given name =
     (if given \<noteq> [] then given
      else (let p = ho_join H (ho_cwd H) name
            in if ho_missing H p then ho_join H (ho_join H (ho_cwd H) ''config.example'') name else p))"

definition resolveConfig ::
    "'s moment \<Rightarrow> 's host \<Rightarrow> commandLine \<Rightarrow> fatal + (Config \<times> string \<times> int)" where
  "resolveConfig M H cl =
     rbind (mapErr FatalConfig
       (Load (mo_isAbs M) (mo_readConfig M) (pathOr H (cl_configPath cl) ''config.yaml''))) (\<lambda>cfg.
     Inr (cfg, pathOr H (cl_opsPath cl) ''operations.yaml'',
       (case cl_port cl of
          Some p \<Rightarrow> p
        | None \<Rightarrow> if 0 < srv_Port (cfg_Server cfg) then srv_Port (cfg_Server cfg) else defaultPort)))"

definition chooseStore :: "'s host \<Rightarrow> SecretStoreConfig \<Rightarrow> 's Resolver" where
  "chooseStore H ss =
     (if ss_Backend ss = ''pass'' then SetStore (ho_passStore H (ss_PassDir ss)) (ho_resolver H)
      else if ss_Backend ss = ''keepass''
      then SetStore (ho_keepassStore H (ss_KDBXPath ss) (ss_KDBXSecret ss)) (ho_resolver H)
      else ho_resolver H)"

definition refuse :: "('a \<Rightarrow> fatal) \<Rightarrow> 'a option \<Rightarrow> fatal + unit" where
  "refuse f e = (case e of None \<Rightarrow> Inr () | Some x \<Rightarrow> Inl (f x))"

text \<open>The server, with the checker factory set, and the address it listens on.\<close>

definition setupGateway ::
    "golib \<Rightarrow> 's moment \<Rightarrow> 's host \<Rightarrow> Config \<Rightarrow> string \<Rightarrow> int \<Rightarrow> fatal + ('s Server \<times> string)" where
  "setupGateway L M H cfg opsPath port =
     rbind (refuse FatalAudit (ho_mkdir H (aud_Dir (cfg_Audit cfg)))) (\<lambda>_.
     rbind (mapErr FatalOps (NewRegistry L (mo_readOps M) opsPath)) (\<lambda>reg.
     let factory = newTunnelChecker L (mo_dev M) [];
         log = InitLogger (aud_Dir (cfg_Audit cfg)) (aud_MaxSizeMB (cfg_Audit cfg)) (ho_auditFiles H);
         srv = New cfg (reg\<lparr>reg_TunnelChecker := Some (factory cfg)\<rparr>) opsPath (mo_checksum M) (Some factory) log
           (chooseStore H (cfg_SecretStore cfg)) (ho_fileSystem H);
         listenAddr = ''127.0.0.1:'' @ showInt port
     in rbind (refuse FatalListen (ho_listen H listenAddr)) (\<lambda>_. Inr (srv, listenAddr))))"

definition startGateway ::
    "golib \<Rightarrow> 's moment \<Rightarrow> 's host \<Rightarrow> commandLine \<Rightarrow> fatal + ('s Server \<times> string)" where
  "startGateway L M H cl =
     rbind (resolveConfig M H cl) (\<lambda>(cfg, opsPath, port). setupGateway L M H cfg opsPath port)"

section \<open>What is served\<close>

lemma setup_coherent:
  assumes "wellFormedConfig isAbs cfg" and "setupGateway L M H cfg opsPath port = Inr (s, addr)"
  shows "coherent L isAbs s \<and> addr = ''127.0.0.1:'' @ showInt port"
proof -
  obtain reg where reg: "NewRegistry L (mo_readOps M) opsPath = Inr reg"
    and s: "s = New cfg (reg\<lparr>reg_TunnelChecker := Some (newTunnelChecker L (mo_dev M) [] cfg)\<rparr>) opsPath
      (mo_checksum M) (Some (newTunnelChecker L (mo_dev M) []))
      (InitLogger (aud_Dir (cfg_Audit cfg)) (aud_MaxSizeMB (cfg_Audit cfg)) (ho_auditFiles H))
      (chooseStore H (cfg_SecretStore cfg)) (ho_fileSystem H)"
    and addr: "addr = ''127.0.0.1:'' @ showInt port"
    using assms(2) unfolding setupGateway_def Let_def by (auto simp: rbind_Inr_iff)
  from assms(1) NewRegistry_checked [OF reg] show ?thesis
    by (simp add: s addr New_def coherent_def cfgOf_def)
qed

text \<open>C4: A gateway that comes up listens on the loopback address only, and in every state it
  reaches, whatever requests and reloads it serves, its configuration is well formed, its operations
  have passed the checks of the loader, and tunnels are checked against this very configuration.\<close>

theorem gateway_stays_coherent:
  assumes "startGateway L M H cl = Inr (start, addr)" and "serving L (mo_isAbs M) start s"
  shows "coherent L (mo_isAbs M) s \<and> (\<exists>port. addr = ''127.0.0.1:'' @ showInt port)"
proof -
  obtain cfg opsPath port where "resolveConfig M H cl = Inr (cfg, opsPath, port)"
    and started: "setupGateway L M H cfg opsPath port = Inr (start, addr)"
    using assms(1) by (auto simp: startGateway_def rbind_Inr_iff)
  then have "wellFormedConfig (mo_isAbs M) cfg"
    by (auto simp: resolveConfig_def rbind_Inr_iff dest: Load_wellFormed)
  with started setup_coherent serving_coherent [OF assms(2)] show ?thesis by blast
qed

definition smallConfig :: Config where
  "smallConfig = zeroConfig\<lparr>cfg_Agents := [\<lparr>agent_ID = ''bot'', agent_TokenSHA = ''sha:t0k'', agent_Grants = []\<rparr>]\<rparr>"

definition smallHost :: "(secretError + kgroup list) host" where
  "smallHost = \<lparr>ho_cwd = ''/srv'', ho_join = joinPath, ho_missing = (\<lambda>p. False), ho_mkdir = (\<lambda>p. None),
     ho_listen = (\<lambda>a. None), ho_auditFiles = [], ho_passStore = (\<lambda>d. KeePassStore exampleLib),
     ho_keepassStore = (\<lambda>p k. KeePassStore exampleLib), ho_resolver = w_res exampleWorld, ho_fileSystem = []\<rparr>"

definition smallMoment :: "(secretError + kgroup list) moment" where
  "smallMoment = vpnMoment\<lparr>mo_readConfig := (\<lambda>p. Inr smallConfig)\<rparr>"

definition plainCommand :: commandLine where
  "plainCommand = \<lparr>cl_configPath = [], cl_opsPath = [], cl_port = None\<rparr>"

lemma gateway_stays_coherent_witness:
  "\<exists>s. startGateway exampleLib smallMoment smallHost plainCommand = Inr (s, ''127.0.0.1:8443'')
     \<and> coherent exampleLib (\<lambda>p. True) (snd (ServeHTTP exampleLib smallMoment ''/healthz'' vpnRequest s))"
proof -
  have isAbs: "mo_isAbs smallMoment = (\<lambda>p. True)" by (simp add: smallMoment_def vpnMoment_def)
  have read: "mo_readConfig smallMoment = (\<lambda>p. Inr smallConfig)" by (simp add: smallMoment_def)
  have port: "srv_Port (cfg_Server smallConfig) = 0" by (simp add: smallConfig_def zeroConfig_def)
  have paths: "pathOr smallHost [] ''config.yaml'' = ''/srv/config.yaml''"
    "pathOr smallHost [] ''operations.yaml'' = ''/srv/operations.yaml''"
    by (simp_all add: pathOr_def smallHost_def joinPath_def)
  have host: "ho_mkdir smallHost d = None" "ho_listen smallHost a = None" for d a
    by (simp_all add: smallHost_def)
  have valid: "Validate (\<lambda>p. True) smallConfig = Inr ()" by code_simp
  have r: "resolveConfig smallMoment smallHost plainCommand
      = Inr (smallConfig\<lparr>cfg_ConfigPath := ''/srv/config.yaml''\<rparr>, ''/srv/operations.yaml'', 8443)"
    by (simp add: resolveConfig_def Load_def isAbs plainCommand_def paths read valid port defaultPort_def)
  have "\<exists>reg. NewRegistry exampleLib (mo_readOps smallMoment) ''/srv/operations.yaml'' = Inr reg"
    by (simp add: NewRegistry_def loadFromFile_def smallMoment_def vpnMoment_def Let_def)
  moreover have "showInt 8443 = ''8443''" by (simp add: showInt_def natDigits.simps [of 8443] natDigits.simps [of 844] natDigits.simps [of 84]
      natDigits.simps [of 8]) code_simp
  ultimately obtain s where s: "startGateway exampleLib smallMoment smallHost plainCommand = Inr (s, ''127.0.0.1:8443'')"
    by (auto simp: startGateway_def r setupGateway_def refuse_def host Let_def)
  have "serving exampleLib (mo_isAbs smallMoment) s
      (snd (ServeHTTP exampleLib smallMoment ''/healthz'' vpnRequest s))"
    by (rule S_request [OF S_start refl])
  from gateway_stays_coherent [OF s this] s isAbs show ?thesis by auto
qed

end
