(* ===== verification/FeedbackSafety.thy ===== *)
theory FeedbackSafety
  imports Startup
begin

text \<open>
  What \<open>/feedback\<close> may do to files: it appends, one line at a time, and no text an agent sends can
  break out of its line.
\<close>

section \<open>Normalised text is one line\<close>

lemma plainLine_append [simp]: "oneLine (s @ t) \<longleftrightarrow> oneLine s \<and> oneLine t"
  by (auto simp: oneLine_def)

lemma oneLine_Nil [simp]: "oneLine []"
  by (simp add: oneLine_def)

lemma oneLine_Cons [simp]: "oneLine (c # s) \<longleftrightarrow> c \<noteq> CHR 0x0D \<and> c \<noteq> CHR 0x0A \<and> oneLine s"
  by (auto simp: oneLine_def)

lemma oneLine_subset: "oneLine s \<Longrightarrow> set t \<subseteq> set s \<Longrightarrow> oneLine t"
  by (auto simp: oneLine_def)

lemma oneLine_text [simp]: "oneLine (oneLineText s)"
  by (auto simp: oneLine_def oneLineText_def)

lemma oneLine_join: "oneLine sep \<Longrightarrow> list_all oneLine ws \<Longrightarrow> oneLine (join sep ws)"
  by (induction sep ws rule: join.induct) auto

lemma break_is_space: "c = CHR 0x0A \<or> c = CHR 0x0D \<Longrightarrow> 0 < spaceLen spaceRunes (c # cs)"
  by (auto simp: spaceLen_def spaceRunes_def hasPrefix_def)

lemma oneLine_fieldsFrom: "oneLine cur \<Longrightarrow> list_all oneLine (fieldsFrom cur s)"
proof (induction cur s rule: fieldsFrom.induct)
  case (1 cur)
  then show ?case by simp
next
  case (2 cur c cs)
  show ?case
  proof (cases "0 < spaceLen spaceRunes (c # cs)")
    case True
    with 2 show ?thesis by (subst fieldsFrom.simps) (simp add: Let_def)
  next
    case False
    with break_is_space [of c cs] have "c \<noteq> CHR 0x0D" "c \<noteq> CHR 0x0A" by auto
    with False 2 show ?thesis by (subst fieldsFrom.simps) (simp add: Let_def)
  qed
qed

lemma oneLine_normalize [simp]: "oneLine (normalizeTodoText s)"
  unfolding normalizeTodoText_def Feedback.fields_def by (rule oneLine_join) (simp_all add: oneLine_fieldsFrom)

lemma takeRunes_set: "set (takeRunes k s) \<subseteq> set s \<union> set runeError"
proof (induction k s rule: takeRunes.induct)
  case (3 k c cs)
  let ?n = "max 1 (snd (decodeRune (c # cs)))"
  from 3 have ih: "set (takeRunes k (drop ?n (c # cs))) \<subseteq> set (drop ?n (c # cs)) \<union> set runeError" by simp
  show ?case
    using ih set_take_subset [of ?n "c # cs"] set_drop_subset [of ?n "c # cs"]
    by (subst takeRunes.simps) (auto simp: Let_def split: if_splits)
qed simp_all

lemma oneLine_todoTextOf [simp]: "oneLine (todoTextOf text)"
proof -
  have "oneLine (takeRunes maxTodoTextLen (normalizeTodoText text))"
    using takeRunes_set [of maxTodoTextLen "normalizeTodoText text"] oneLine_normalize [of "text"]
    by (auto simp: oneLine_def runeError_def)
  then show ?thesis
    using set_mono_sublist [OF sublist_trimSpace] by (auto simp: todoTextOf_def Let_def intro: oneLine_subset)
qed

lemma oneLine_feedbackLine:
  "oneLine now \<Longrightarrow> oneLine agentID \<Longrightarrow> \<exists>line. oneLine line \<and> feedbackLine now fbType agentID text = line @ crlf"
  unfolding feedbackLine_def by (rule exI [of _ "now @ '' | '' @ oneLineText fbType @ '' | agent='' @ agentID @ '' | '' @ oneLineText text"]) simp

lemma oneLine_todoLine: "oneLine today \<Longrightarrow> oneLine text \<Longrightarrow> oneLine agentID \<Longrightarrow> oneLine (todoLine today text agentID)"
  by (auto simp: todoLine_def noParens_def oneLine_def)

section \<open>Files only grow\<close>

text \<open>A text a line may be appended to: it is empty or its last line is complete.\<close>

definition atLineStart :: "string \<Rightarrow> bool" where
  "atLineStart t \<longleftrightarrow> t = [] \<or> last t = CHR 0x0A"

text \<open>The log gains at most one line, and a TODO file at most one item, which stands on a line of
  its own and was not there before.\<close>

definition logGrows :: "files \<Rightarrow> files \<Rightarrow> bool" where
  "logGrows F F' \<longleftrightarrow> fileText F' feedbackLog = fileText F feedbackLog
     \<or> (\<exists>line. oneLine line \<and> fileText F' feedbackLog = fileText F feedbackLog @ line @ crlf)"

definition itemGrows :: "string \<Rightarrow> string \<Rightarrow> files \<Rightarrow> files \<Rightarrow> bool" where
  "itemGrows today path F F' \<longleftrightarrow> fileText F' path = fileText F path
     \<or> (\<exists>lead item agentID brk. oneLine (todoLine today item agentID) \<and> (brk = lf \<or> brk = crlf)
          \<and> fileText F' path = fileText F path @ lead @ todoLine today item agentID @ brk
          \<and> atLineStart (fileText F path @ lead)
          \<and> \<not> list_ex (\<lambda>line. hasTodoItem line item) (splitOn (CHR 0x0A) (fileText F path)))"

lemma fileText_mput [simp]: "fileText (mput p t F) q = (if q = p then t else fileText F q)"
  by (simp add: fileText_def)

lemma appendFile_other: "q \<noteq> p \<Longrightarrow> mget (snd (appendFile X p t F)) q = mget F q"
  by (auto simp: appendFile_def split: option.split)

lemma appendFile_text:
  "fileText (snd (appendFile X p t F)) p = fileText F p \<or> fileText (snd (appendFile X p t F)) p = fileText F p @ t"
  by (auto simp: appendFile_def split: option.split)

lemma appendFile_cases: "\<exists>res. appendFile X p t F = (res, snd (appendFile X p t F))"
  by (metis prod.collapse)

lemma eolOf_cases: "eolOf t = lf \<or> eolOf t = crlf"
  by (auto simp: eolOf_def split: option.split)

lemma last_hasSuffix: "hasSuffix t lf \<longleftrightarrow> t \<noteq> [] \<and> last t = CHR 0x0A"
  by (cases t rule: rev_cases) (auto simp: hasSuffix_def hasPrefix_def lf_def)

lemma prefix_lineStart: "atLineStart (t @ todoPrefix t)"
  using eolOf_cases [of t]
  by (auto simp: atLineStart_def todoPrefix_def last_hasSuffix) (auto simp: lf_def crlf_def)

lemma no_item_empty: "\<not> hasTodoItem [] item"
  by (simp add: hasTodoItem_def normalizeTodoText_def Feedback.fields_def hasPrefix_def)

lemma itemGrows_append:
  assumes "oneLine (todoLine today item agentID)" and "brk = lf \<or> brk = crlf"
    and "atLineStart (fileText F path @ lead)"
    and "\<not> list_ex (\<lambda>line. hasTodoItem line item) (splitOn (CHR 0x0A) (fileText F path))"
  shows "itemGrows today path F (snd (appendFile X path (lead @ todoLine today item agentID @ brk) F))"
  using appendFile_text [of X path "lead @ todoLine today item agentID @ brk" F] assms
  unfolding itemGrows_def by blast

lemma appendTodo_grows:
  assumes "oneLine today" and "oneLine item" and "oneLine agentID"
  shows "itemGrows today path F (snd (appendTodo X today path item agentID F))"
proof -
  note line = oneLine_todoLine [OF assms]
  have same: "itemGrows today path F F" by (simp add: itemGrows_def)
  show ?thesis
  proof (cases "mget F path")
    case None
    have "atLineStart (fileText F path @ ''# TODO'' @ lf @ lf)"
      by (simp add: atLineStart_def lf_def fileText_def None)
    moreover have "\<not> list_ex (\<lambda>line. hasTodoItem line item) (splitOn (CHR 0x0A) (fileText F path))"
      by (simp add: fileText_def None no_item_empty)
    ultimately show ?thesis
      using itemGrows_append [OF line, of lf F path "''# TODO'' @ lf @ lf" X] same None
      by (auto simp: appendTodo_def Let_def split: option.split prod.split)
  next
    case (Some t)
    then have now: "fileText F path = t" by (simp add: fileText_def)
    show ?thesis
      using itemGrows_append [OF line eolOf_cases [of t], of F path "todoPrefix t" X] prefix_lineStart [of t] same Some
      by (auto simp: now appendTodo_def Let_def split: option.split prod.split)
  qed
qed

lemma appendTodo_other: "q \<noteq> path \<Longrightarrow> mget (snd (appendTodo X today path item agentID F)) q = mget F q"
  using appendFile_other [of q path X]
  by (auto simp: appendTodo_def Let_def split: option.split prod.split) (metis snd_conv)+

lemma logGrows_append:
  "oneLine now \<Longrightarrow> oneLine agentID \<Longrightarrow> logGrows F (snd (appendFile X feedbackLog (feedbackLine now fbType agentID t) F))"
  using appendFile_text [of X feedbackLog "feedbackLine now fbType agentID t" F] oneLine_feedbackLine [of now agentID]
  unfolding logGrows_def by metis

lemma fileText_cong: "mget F' p = mget F p \<Longrightarrow> fileText F' p = fileText F p"
  by (simp add: fileText_def)

lemma admitFeedback_oneLine:
  "admitFeedback L M r s = Inr (agentID, fbType, t, item) \<Longrightarrow> oneLine agentID \<and> (\<forall>i. item = Some i \<longrightarrow> oneLine i)"
  by (auto simp: admitFeedback_def rbind_Inr_iff Let_def split: if_splits option.splits list.splits)

definition onlyGrows :: "string \<Rightarrow> string \<Rightarrow> files \<Rightarrow> files \<Rightarrow> bool" where
  "onlyGrows today path F F' \<longleftrightarrow> logGrows F F' \<and> itemGrows today path F F'
     \<and> (\<forall>q. q = feedbackLog \<or> q = path \<or> mget F' q = mget F q)"

lemma onlyGrows_refl [simp]: "onlyGrows today path F F"
  by (simp add: onlyGrows_def logGrows_def itemGrows_def)

lemma onlyGrows_log:
  assumes "oneLine now" and "oneLine agentID" and "path \<noteq> feedbackLog"
  shows "onlyGrows today path F (snd (appendFile X feedbackLog (feedbackLine now fbType agentID t) F))"
  using logGrows_append [OF assms(1,2)] fileText_cong [OF appendFile_other [OF assms(3)]] appendFile_other
  unfolding onlyGrows_def itemGrows_def by blast

lemma onlyGrows_item:
  assumes "oneLine today" and "oneLine agentID" and "oneLine item" and "path \<noteq> feedbackLog"
    and "onlyGrows today path F F'" and "fileText F' path = fileText F path"
  shows "onlyGrows today path F (snd (appendTodo X today path item agentID F'))"
proof -
  let ?F = "snd (appendTodo X today path item agentID F')"
  have "fileText ?F feedbackLog = fileText F' feedbackLog"
    using assms(4) by (intro fileText_cong appendTodo_other) simp
  moreover have "itemGrows today path F' ?F" by (rule appendTodo_grows [OF assms(1,3,2)])
  ultimately show ?thesis
    using assms(5,6) appendTodo_other [of _ path X today item agentID F']
    unfolding onlyGrows_def itemGrows_def logGrows_def by metis
qed


definition todoServer :: "(secretError + kgroup list) Server" where
  "todoServer = vpnServer\<lparr>sv_state := vpnState\<lparr>st_cfg := (st_cfg vpnState)\<lparr>cfg_Feedback := \<lparr>fb_TodoPath = ''TODO.md''\<rparr>\<rparr>\<rparr>\<rparr>"

definition todoLib :: golib where
  "todoLib = exampleLib\<lparr>lib_decode := (\<lambda>b. Some (JObj [(''type'', JStr ''todo''), (''text'', JStr b)]))\<rparr>"

definition todoRequest :: httpReq where
  "todoRequest = vpnRequest\<lparr>hr_Body := ''one'' @ lf @ ''- [ ] two''\<rparr>"


end
