(* ===== verification/Scheduler.thy ===== *)
theory Scheduler
  imports World
begin

text \<open>
  Package \<open>internal/scheduler\<close>: the store of jobs and the workers that run them. The store hands
  out and takes in copies (\<open>clone\<close>), so jobs are values here. Every method holds the store's lock,
  so it is one atomic step; between two steps any other may happen. \<open>Stop\<close> followed by \<open>Start\<close> can
  leave an old worker running beside the new one, so a state has any number of workers.
\<close>

section \<open>Jobs\<close>

text \<open>A \<open>time.Time\<close> is an integer, 0 the zero time.\<close>

type_synonym instant = int

record JobResult =
  jr_Success :: bool
  jr_Output :: string
  jr_Error :: string
  jr_StartedAt :: instant
  jr_FinishedAt :: instant

record Job =
  jb_ID :: string
  jb_AgentID :: string
  jb_Workspace :: string
  jb_Type :: string
  jb_Params :: goMapVal
  jb_ScheduledAt :: instant
  jb_CreatedAt :: instant
  jb_Status :: string
  jb_LastRun :: "instant option"
  jb_NextRun :: "instant option"
  jb_Result :: "JobResult option"

type_synonym Store = "Job gomap"

datatype jobError =
    JobNotFound string
  | Unauthorized
  | JobAlready string

definition NewStore :: Store where
  "NewStore = []"

text \<open>\<open>Add\<close> completes the caller's job in place, then stores a copy.\<close>

definition Add :: "string \<Rightarrow> instant \<Rightarrow> Job \<Rightarrow> Store \<Rightarrow> Job \<times> Store" where
  "Add uuid now job s =
     (let job = (if jb_ID job = [] then job\<lparr>jb_ID := uuid\<rparr> else job);
          job = (if jb_CreatedAt job = 0 then job\<lparr>jb_CreatedAt := now\<rparr> else job);
          job = job\<lparr>jb_Status := ''pending''\<rparr>
      in (job, mput (jb_ID job) job s))"

definition GetJob :: "string \<Rightarrow> Store \<Rightarrow> Job option" where
  "GetJob jid s = mget s jid"

definition ListByAgent :: "string \<Rightarrow> Store \<Rightarrow> Job list" where
  "ListByAgent agentID s = filter (\<lambda>job. jb_AgentID job = agentID) (map snd s)"

definition ListByWorkspace :: "string \<Rightarrow> Store \<Rightarrow> Job list" where
  "ListByWorkspace workspace s = filter (\<lambda>job. jb_Workspace job = workspace) (map snd s)"

definition Update :: "Job \<Rightarrow> Store \<Rightarrow> (jobError + unit) \<times> Store" where
  "Update job s =
     (if mget s (jb_ID job) = None then (Inl (JobNotFound (jb_ID job)), s)
      else (Inr (), mput (jb_ID job) job s))"

definition claim :: "string \<Rightarrow> instant \<Rightarrow> Store \<Rightarrow> Job option \<times> Store" where
  "claim jid now s =
     (case mget s jid of
        None \<Rightarrow> (None, s)
      | Some job \<Rightarrow>
          if jb_Status job \<noteq> ''pending'' then (None, s)
          else (let job = job\<lparr>jb_Status := ''running'', jb_LastRun := Some now\<rparr>
                in (Some job, mput jid job s)))"

definition finish :: "string \<Rightarrow> JobResult \<Rightarrow> Store \<Rightarrow> Store" where
  "finish jid result s =
     (case mget s jid of
        None \<Rightarrow> s
      | Some job \<Rightarrow>
          (let job = job\<lparr>jb_Result := Some result\<rparr>
           in if jb_Status job \<noteq> ''running'' then mput jid job s
              else mput jid (job\<lparr>jb_Status := if jr_Success result then ''completed'' else ''failed''\<rparr>) s))"

definition DeleteJob :: "string \<Rightarrow> Store \<Rightarrow> (jobError + unit) \<times> Store" where
  "DeleteJob jid s =
     (if mget s jid = None then (Inl (JobNotFound jid), s) else (Inr (), mdel jid s))"

definition Cancel :: "string \<Rightarrow> string \<Rightarrow> Store \<Rightarrow> (jobError + unit) \<times> Store" where
  "Cancel jid agentID s =
     (case mget s jid of
        None \<Rightarrow> (Inl (JobNotFound jid), s)
      | Some job \<Rightarrow>
          if jb_AgentID job \<noteq> agentID then (Inl Unauthorized, s)
          else if jb_Status job = ''completed'' \<or> jb_Status job = ''failed'' then (Inl (JobAlready (jb_Status job)), s)
          else (Inr (), mput jid (job\<lparr>jb_Status := ''cancelled''\<rparr>) s))"

section \<open>Workers\<close>

text \<open>\<open>executeClockifyWrapup\<close> is not wired: it fails.\<close>

definition clockifyError :: string where
  "clockifyError = ''clockify scheduler not yet connected to gateway '' @ [CHR 0xE2, CHR 0x80, CHR 0x94]
     @ '' requires POST /admin/jobs endpoint and connector wiring; see roadmap M5''"

definition runJob :: "Job \<Rightarrow> instant \<Rightarrow> instant \<Rightarrow> JobResult" where
  "runJob job started finished =
     \<lparr>jr_Success = False, jr_Output = [],
      jr_Error = (if jb_Type job = ''clockify.wrapup'' then clockifyError else ''unknown job type: '' @ jb_Type job),
      jr_StartedAt = started, jr_FinishedAt = finished\<rparr>"

text \<open>The first half of \<open>processJobs\<close>, under the read lock.\<close>

definition dueJobs :: "instant \<Rightarrow> Store \<Rightarrow> string list" where
  "dueJobs now s =
     map fst (filter (\<lambda>(jid, job). jb_Status job = ''pending'' \<and> jb_ScheduledAt job < now) s)"

text \<open>A worker: the jobs it still has to look at and the one it runs, with the time it claimed it.\<close>

record worker =
  wk_Queue :: "string list"
  wk_Job :: "(Job \<times> string \<times> instant) option"

record Scheduler =
  sc_store :: Store
  sc_running :: bool
  sc_workers :: "worker list"

definition NewScheduler :: "Store \<Rightarrow> Scheduler" where
  "NewScheduler s = \<lparr>sc_store = s, sc_running = False, sc_workers = []\<rparr>"

definition StartScheduler :: "Scheduler \<Rightarrow> bool \<times> Scheduler" where
  "StartScheduler sc =
     (if sc_running sc then (False, sc)
      else (True, sc\<lparr>sc_running := True, sc_workers := sc_workers sc @ [\<lparr>wk_Queue = [], wk_Job = None\<rparr>]\<rparr>))"

text \<open>The worker notices the closed channel only when it waits: it is not removed at once.\<close>

definition StopScheduler :: "Scheduler \<Rightarrow> Scheduler" where
  "StopScheduler sc = sc\<lparr>sc_running := False\<rparr>"

text \<open>The steps of a worker: an idle one ticks, one with a queue claims, one with a job finishes.\<close>

definition tickWorker :: "instant \<Rightarrow> Store \<Rightarrow> worker \<Rightarrow> worker" where
  "tickWorker now s w = w\<lparr>wk_Queue := dueJobs now s\<rparr>"

definition claimNext :: "instant \<Rightarrow> Store \<Rightarrow> worker \<Rightarrow> worker \<times> Store" where
  "claimNext now s w =
     (case wk_Queue w of
        [] \<Rightarrow> (w, s)
      | jid # rest \<Rightarrow>
          (case claim jid now s of
             (None, s) \<Rightarrow> (w\<lparr>wk_Queue := rest\<rparr>, s)
           | (Some job, s) \<Rightarrow> (w\<lparr>wk_Queue := rest, wk_Job := Some (job, jid, now)\<rparr>, s)))"

definition finishJob :: "instant \<Rightarrow> Store \<Rightarrow> worker \<Rightarrow> worker \<times> Store" where
  "finishJob now s w =
     (case wk_Job w of
        None \<Rightarrow> (w, s)
      | Some (job, jid, started) \<Rightarrow> (w\<lparr>wk_Job := None\<rparr>, finish jid (runJob job started now) s))"

definition WrapupFields :: "string list" where
  "WrapupFields = [''jira_key'', ''end_time'', ''source_branch'', ''target_branch'', ''on_end_status'', ''clockify_project'']"

record WrapupParams =
  wu_JiraKey :: string
  wu_EndTime :: string
  wu_SourceBranch :: string
  wu_TargetBranch :: string
  wu_OnEndStatus :: string
  wu_ClockifyProject :: string

definition ParseWrapupParams :: "golib \<Rightarrow> string \<Rightarrow> WrapupParams option" where
  "ParseWrapupParams L data =
     (case structFields L WrapupFields (lib_decode L data) of
        Some [k, e, s, t, o1, c] \<Rightarrow>
          Some \<lparr>wu_JiraKey = k, wu_EndTime = e, wu_SourceBranch = s, wu_TargetBranch = t, wu_OnEndStatus = o1,
            wu_ClockifyProject = c\<rparr>
      | _ \<Rightarrow> None)"

section \<open>Runs\<close>

text \<open>What can happen, with the caller's arguments; \<open>Put\<close> covers \<open>Add\<close> and \<open>Update\<close>, which write a whole job.\<close>

datatype jobEvent =
    Put string
  | Claimed string nat
  | Finished string
  | Cancelled string
  | Deleted string
  | Other

inductive jobStep :: "Scheduler \<Rightarrow> jobEvent \<Rightarrow> Scheduler \<Rightarrow> bool" where
  J_add: "Add uuid now job (sc_store sc) = (job', s) \<Longrightarrow> jobStep sc (Put (jb_ID job')) (sc\<lparr>sc_store := s\<rparr>)"
| J_update: "Update job (sc_store sc) = (Inr (), s) \<Longrightarrow> jobStep sc (Put (jb_ID job)) (sc\<lparr>sc_store := s\<rparr>)"
| J_cancel: "Cancel jid agentID (sc_store sc) = (Inr (), s) \<Longrightarrow> jobStep sc (Cancelled jid) (sc\<lparr>sc_store := s\<rparr>)"
| J_delete: "DeleteJob jid (sc_store sc) = (Inr (), s) \<Longrightarrow> jobStep sc (Deleted jid) (sc\<lparr>sc_store := s\<rparr>)"
| J_start: "StartScheduler sc = (ok, sc') \<Longrightarrow> jobStep sc Other sc'"
| J_stop: "jobStep sc Other (StopScheduler sc)"
| J_exit: "\<not> sc_running sc \<Longrightarrow> i < length (sc_workers sc) \<Longrightarrow> wk_Queue (sc_workers sc ! i) = []
     \<Longrightarrow> wk_Job (sc_workers sc ! i) = None
     \<Longrightarrow> jobStep sc Other (sc\<lparr>sc_workers := take i (sc_workers sc) @ drop (Suc i) (sc_workers sc)\<rparr>)"
| J_tick: "i < length (sc_workers sc) \<Longrightarrow> wk_Queue (sc_workers sc ! i) = [] \<Longrightarrow> wk_Job (sc_workers sc ! i) = None
     \<Longrightarrow> jobStep sc Other (sc\<lparr>sc_workers := (sc_workers sc)[i := tickWorker now (sc_store sc) (sc_workers sc ! i)]\<rparr>)"
| J_claim: "i < length (sc_workers sc) \<Longrightarrow> wk_Job (sc_workers sc ! i) = None
     \<Longrightarrow> claimNext now (sc_store sc) (sc_workers sc ! i) = (w, s) \<Longrightarrow> wk_Job w = Some (job, jid, t)
     \<Longrightarrow> jobStep sc (Claimed jid i) (sc\<lparr>sc_store := s, sc_workers := (sc_workers sc)[i := w]\<rparr>)"
| J_skip: "i < length (sc_workers sc) \<Longrightarrow> wk_Job (sc_workers sc ! i) = None
     \<Longrightarrow> claimNext now (sc_store sc) (sc_workers sc ! i) = (w, s) \<Longrightarrow> wk_Job w = None
     \<Longrightarrow> jobStep sc Other (sc\<lparr>sc_store := s, sc_workers := (sc_workers sc)[i := w]\<rparr>)"
| J_finish: "i < length (sc_workers sc) \<Longrightarrow> wk_Job (sc_workers sc ! i) = Some (job, jid, t)
     \<Longrightarrow> finishJob now (sc_store sc) (sc_workers sc ! i) = (w, s)
     \<Longrightarrow> jobStep sc (Finished jid) (sc\<lparr>sc_store := s, sc_workers := (sc_workers sc)[i := w]\<rparr>)"

inductive_cases jobStepE: "jobStep sc e sc'"

inductive jobRun :: "Scheduler \<Rightarrow> jobEvent list \<Rightarrow> Scheduler \<Rightarrow> bool" where
  JR_nil: "jobRun sc [] sc"
| JR_snoc: "jobRun sc es sc' \<Longrightarrow> jobStep sc' e sc'' \<Longrightarrow> jobRun sc (es @ [e]) sc''"

section \<open>The life of a job\<close>

definition statusOf :: "Scheduler \<Rightarrow> string \<Rightarrow> string option" where
  "statusOf sc jid = map_option jb_Status (mget (sc_store sc) jid)"

text \<open>What one step can do to the status of a job that no caller writes.\<close>

definition moves :: "jobEvent \<Rightarrow> string \<Rightarrow> string option \<Rightarrow> string option \<Rightarrow> bool" where
  "moves e jid a b \<longleftrightarrow>
     b = a
   \<or> b = None \<and> e = Deleted jid
   \<or> b = Some ''cancelled'' \<and> e = Cancelled jid \<and> a \<noteq> Some ''completed'' \<and> a \<noteq> Some ''failed'' \<and> a \<noteq> None
   \<or> (\<exists>i. e = Claimed jid i) \<and> a = Some ''pending'' \<and> b = Some ''running''
   \<or> e = Finished jid \<and> a = Some ''running'' \<and> b \<in> {Some ''completed'', Some ''failed''}"

lemma claimNext_cases:
  "claimNext now s w = (w', s') \<Longrightarrow>
     wk_Job w' = wk_Job w \<and> s' = s
   \<or> (\<exists>jid job. mget s jid = Some job \<and> jb_Status job = ''pending''
        \<and> wk_Job w' = Some (job\<lparr>jb_Status := ''running'', jb_LastRun := Some now\<rparr>, jid, now)
        \<and> s' = mput jid (job\<lparr>jb_Status := ''running'', jb_LastRun := Some now\<rparr>) s)"
  by (auto simp: claimNext_def claim_def Let_def split: list.splits option.splits if_splits)

lemma status_mput: "map_option jb_Status (mget (mput j job s) jid) = (if jid = j then Some (jb_Status job) else map_option jb_Status (mget s jid))"
  by simp

lemma step_moves:
  assumes "jobStep sc e sc'" and "e \<noteq> Put jid"
  shows "moves e jid (statusOf sc jid) (statusOf sc' jid)"
  using assms(1)
proof cases
  case (J_add uuid now job job' s)
  with assms(2) show ?thesis by (auto simp: Add_def Let_def statusOf_def moves_def)
next
  case (J_update job s)
  with assms(2) show ?thesis by (auto simp: Update_def statusOf_def moves_def split: if_splits)
next
  case (J_cancel j agentID s)
  then show ?thesis by (auto simp: Cancel_def statusOf_def moves_def split: option.splits if_splits)
next
  case (J_delete j s)
  then show ?thesis by (auto simp: DeleteJob_def statusOf_def moves_def split: if_splits)
next
  case (J_start ok)
  then show ?thesis by (auto simp: StartScheduler_def statusOf_def moves_def split: if_splits)
next
  case J_stop
  then show ?thesis by (simp add: StopScheduler_def statusOf_def moves_def)
next
  case (J_claim i now w s job j t)
  with claimNext_cases [OF J_claim(5)] show ?thesis
    by (cases "j = jid") (auto simp: statusOf_def moves_def)
next
  case (J_skip i now w s)
  with claimNext_cases [OF J_skip(5)] show ?thesis by (auto simp: statusOf_def moves_def)
next
  case (J_finish i job j t now w s)
  then show ?thesis
    by (auto simp: finishJob_def finish_def statusOf_def moves_def Let_def split: option.splits if_splits)
qed (simp_all add: statusOf_def moves_def)

lemma claim_starts:
  assumes "jobStep sc (Claimed jid i) sc'"
  shows "statusOf sc jid = Some ''pending'' \<and> statusOf sc' jid = Some ''running''"
  using assms
proof cases
  case (J_claim now w s job t)
  with claimNext_cases [OF J_claim(4)] show ?thesis by (auto simp: statusOf_def)
qed

text \<open>The states a job can still reach while no caller writes it.\<close>

fun future :: "string option \<Rightarrow> string option set" where
  "future None = {None}"
| "future (Some s) =
     (if s = ''pending'' then {Some s, Some ''running'', Some ''completed'', Some ''failed'', Some ''cancelled'', None}
      else if s = ''running'' then {Some s, Some ''completed'', Some ''failed'', Some ''cancelled'', None}
      else if s = ''completed'' \<or> s = ''failed'' \<or> s = ''cancelled'' then {Some s, None}
      else {Some s, Some ''cancelled'', None})"

lemma future_refl: "a \<in> future a"
  by (cases a) auto

lemma future_moves: "moves e jid b c \<Longrightarrow> b \<in> future a \<Longrightarrow> c \<in> future a"
  by (cases a) (auto simp: moves_def split: if_splits)

lemma future_pending: "Some ''pending'' \<in> future a \<Longrightarrow> a = Some ''pending''"
  by (cases a) (auto split: if_splits)

definition claims :: "string \<Rightarrow> jobEvent list \<Rightarrow> nat" where
  "claims jid es = length (filter (\<lambda>e. case e of Claimed j _ \<Rightarrow> j = jid | _ \<Rightarrow> False) es)"

lemma claims_snoc: "claims jid (es @ [e]) = claims jid es + (case e of Claimed j _ \<Rightarrow> if j = jid then 1 else 0 | _ \<Rightarrow> 0)"
  by (simp add: claims_def split: jobEvent.split)

lemma moves_pending: "moves e jid a (Some ''pending'') \<Longrightarrow> a = Some ''pending''"
  by (auto simp: moves_def)

lemma life_invariant:
  assumes "jobRun sc es sc'" and "Put jid \<notin> set es"
  shows "statusOf sc' jid \<in> future (statusOf sc jid)
    \<and> claims jid es + (if statusOf sc' jid = Some ''pending'' then 1 else 0)
      \<le> (if statusOf sc jid = Some ''pending'' then 1 else 0)"
  using assms
proof (induction rule: jobRun.induct)
  case (JR_nil sc)
  then show ?case by (simp add: claims_def future_refl)
next
  case (JR_snoc sc es v e w)
  then have IH: "statusOf v jid \<in> future (statusOf sc jid)"
    "claims jid es + (if statusOf v jid = Some ''pending'' then 1 else 0)
      \<le> (if statusOf sc jid = Some ''pending'' then 1 else 0)"
    and m: "moves e jid (statusOf v jid) (statusOf w jid)"
    using step_moves by auto
  show ?case
  proof (cases "\<exists>i. e = Claimed jid i")
    case True
    with JR_snoc(2) claim_starts have "statusOf v jid = Some ''pending''" "statusOf w jid = Some ''running''" by blast+
    with IH future_moves [OF m IH(1)] True show ?thesis by (auto simp: claims_snoc)
  next
    case False
    then have "claims jid (es @ [e]) = claims jid es" by (auto simp: claims_snoc split: jobEvent.split)
    moreover have "statusOf w jid = Some ''pending'' \<Longrightarrow> statusOf v jid = Some ''pending''"
      using m moves_pending by metis
    ultimately show ?thesis using IH future_moves [OF m IH(1)] by (auto split: if_splits)
  qed
qed

text \<open>C32: A job runs at most once and its end is final, however the workers and the callers
  interleave and even when stopping and starting leaves two workers. As long as no caller writes
  the job anew, it is claimed at most once, and only if it was pending; its status only moves
  forward, and a completed, failed or cancelled job keeps its status or is deleted.\<close>

theorem job_runs_once:
  assumes "jobRun sc es sc'" and "Put jid \<notin> set es"
  shows "claims jid es \<le> (if statusOf sc jid = Some ''pending'' then 1 else 0)
    \<and> statusOf sc' jid \<in> future (statusOf sc jid)"
  using life_invariant [OF assms] by simp

definition exampleJob :: Job where
  "exampleJob = \<lparr>jb_ID = ''j'', jb_AgentID = ''claude'', jb_Workspace = ''acme'', jb_Type = ''clockify.wrapup'',
     jb_Params = NilMap, jb_ScheduledAt = 1, jb_CreatedAt = 1, jb_Status = ''pending'', jb_LastRun = None,
     jb_NextRun = None, jb_Result = None\<rparr>"

definition exampleScheduler :: Scheduler where
  "exampleScheduler = \<lparr>sc_store = [(''j'', exampleJob)], sc_running = True,
     sc_workers = [\<lparr>wk_Queue = [''j''], wk_Job = None\<rparr>, \<lparr>wk_Queue = [''j''], wk_Job = None\<rparr>]\<rparr>"

lemma job_runs_once_witness:
  "\<exists>sc'. claims ''j'' [Claimed ''j'' 0] \<le> 1 \<and> claims ''j'' [Claimed ''j'' 0] = 1
    \<and> statusOf sc' ''j'' \<in> future (Some ''pending'')"
proof -
  let ?w = "\<lparr>wk_Queue = [''j''], wk_Job = None\<rparr>"
  obtain w s where c: "claimNext 5 (sc_store exampleScheduler) ?w = (w, s)" by fastforce
  then have "wk_Job w = Some (exampleJob\<lparr>jb_Status := ''running'', jb_LastRun := Some 5\<rparr>, ''j'', 5)"
    by (auto simp: claimNext_def claim_def exampleScheduler_def exampleJob_def Let_def)
  with c have "jobStep exampleScheduler (Claimed ''j'' 0)
      (exampleScheduler\<lparr>sc_store := s, sc_workers := (sc_workers exampleScheduler)[0 := w]\<rparr>)"
    by (intro J_claim) (auto simp: exampleScheduler_def)
  from JR_snoc [OF JR_nil this] obtain sc' where run: "jobRun exampleScheduler [Claimed ''j'' 0] sc'" by auto
  have "statusOf exampleScheduler ''j'' = Some ''pending''"
    by (simp add: statusOf_def exampleScheduler_def exampleJob_def)
  with job_runs_once [OF run, of "''j''"] show ?thesis by (auto simp: claims_def)
qed

text \<open>A job that was cancelled while it ran keeps that status but gets the result of the run.\<close>

lemma cancelled_gets_result:
  "mget s jid = Some job \<Longrightarrow> jb_Status job = ''cancelled'' \<Longrightarrow>
     mget (finish jid result s) jid = Some (job\<lparr>jb_Result := Some result\<rparr>)"
  by (simp add: finish_def)

end
