(* ===== verification/WorklogSafety.thy ===== *)
theory WorklogSafety
  imports Worklog HttpSafety
begin

text \<open>
  What the worklog connector guarantees: which requests it can send, that its totals agree, that
  dates survive being written and read, when its paging ends, and how the activity map is replaced.
\<close>

section \<open>The requests of a run\<close>

text \<open>The requests sent between two worlds, each with a property.\<close>

definition emits :: "(wire \<Rightarrow> bool) \<Rightarrow> 's world \<Rightarrow> 's world \<Rightarrow> bool" where
  "emits P w w' \<longleftrightarrow> (\<exists>new. w_sent w' = w_sent w @ new \<and> list_all P new)"

lemma emits_same: "w_sent w' = w_sent w \<Longrightarrow> emits P w w'"
  by (simp add: emits_def)

lemma emits_refl [simp]: "emits P w w"
  by (simp add: emits_same)

lemma emits_trans: "emits P w v \<Longrightarrow> emits P v u \<Longrightarrow> emits P w u"
  by (fastforce simp: emits_def)

lemma emits_weaken: "emits P w v \<Longrightarrow> (\<And>wi. P wi \<Longrightarrow> Q wi) \<Longrightarrow> emits Q w v"
  by (auto simp: emits_def list_all_iff)

lemma emits_andThen:
  "emits P w (snd r) \<Longrightarrow> (\<And>x v. r = (Inr x, v) \<Longrightarrow> emits P v (snd (f x v))) \<Longrightarrow> emits P w (snd (andThen r f))"
  by (auto simp: andThen_def intro: emits_trans split: prod.split sum.split)

lemma emits_step: "emits P w v \<Longrightarrow> P wi \<Longrightarrow> w_sent u = w_sent v @ [wi] \<Longrightarrow> emits P w u"
  by (auto simp: emits_def)

lemma sent_taint [simp]: "w_sent (taintWorld L s w) = w_sent w"
  by (simp add: taintWorld_def)

lemma Execute_sent:
  "w_sent (snd (Execute L U req w)) = w_sent w \<or> w_sent (snd (Execute L U req w)) = w_sent w @ [wireOf L req]"
  by (auto simp: Execute_def Let_def split: option.split sum.split netError.split)

lemma emits_Execute: "P (wireOf L req) \<Longrightarrow> emits P w (snd (Execute L U req w))"
  using Execute_sent [of L U req w] by (auto simp: emits_def)

lemma wireOf_simps [simp]: "wi_Method (wireOf L req) = rq_Method req" "wi_URL (wireOf L req) = rq_Path req"
  "wi_Body (wireOf L req) = rq_Body req"
  by (simp_all add: wireOf_def)

definition carries :: "golib \<Rightarrow> restClient \<Rightarrow> string \<Rightarrow> string \<Rightarrow> json option \<Rightarrow> wire \<Rightarrow> bool" where
  "carries L c method path body wi \<longleftrightarrow> wi_Method wi = method \<and> wi_URL wi = rc_baseURL c @ path
     \<and> wi_Body wi = map_option (encodeJson L) body"

lemma emits_restCall:
  assumes "\<And>wi. carries L c method path body wi \<Longrightarrow> P wi"
  shows "emits P w (snd (restCall L U c method path body w))"
proof -
  let ?req = "\<lparr>rq_Method = method, rq_Path = rc_baseURL c @ path, rq_Headers = rc_headers c,
         rq_Body = map_option (encodeJson L) body, rq_Credentials = None, rq_Insecure = rc_insecure c,
         rq_MaxBodyBytes = 0\<rparr>"
  have "snd (restCall L U c method path body w) = snd (Execute L U ?req w)"
    by (simp add: restCall_def split: prod.split sum.split)
  then show ?thesis
    by (simp add: emits_Execute assms carries_def)
qed

lemma emits_restDo:
  assumes "\<And>wi. carries L c method path body wi \<Longrightarrow> P wi"
  shows "emits P w (snd (restDo L U c method path body step z w))"
  unfolding restDo_def by (auto intro!: emits_andThen emits_restCall assms split: option.split)

text \<open>A request that only reads: a GET, or the search of Jira, which is a POST.\<close>

definition reads :: "wire \<Rightarrow> bool" where
  "reads wi \<longleftrightarrow> wi_Method wi = ''GET''
     \<or> wi_Method wi = ''POST'' \<and> (\<exists>base. wi_URL wi = base @ ''/rest/api/3/search/jql'')"

lemma reads_get: "carries L c ''GET'' path body wi \<Longrightarrow> reads wi"
  by (simp add: carries_def reads_def)

lemma reads_search: "carries L c ''POST'' ''/rest/api/3/search/jql'' body wi \<Longrightarrow> reads wi"
  by (auto simp: carries_def reads_def)

lemma reads_restDo: "emits reads w (snd (restDo L U rc ''GET'' path body step z w))"
  by (rule emits_restDo) (rule reads_get)

lemma reads_issue: "emits reads w (snd (issue L U c key f w))"
  unfolding issue_def by (rule reads_restDo)

lemma reads_myself: "emits reads w (snd (myself L U c w))"
  unfolding myself_def by (auto intro!: emits_andThen reads_restDo)

lemma reads_userName: "emits reads w (snd (userName L U c a w))"
proof -
  have "snd (userName L U c a w) = snd (restDo L U (jc_jira c) ''GET''
      (''/rest/api/3/user?accountId='' @ QueryEscape a) None (userStep L) zeroUser w)"
    by (simp add: userName_def split: prod.split sum.split)
  then show ?thesis by (simp add: reads_restDo)
qed

lemma reads_userName_eq: "userName L U c a w = (x, v) \<Longrightarrow> emits reads w v"
  using reads_userName [of w L U c a] by simp

lemma reads_tempoPages: "emits reads w (snd (tempoPages L U c path q n offset all w))"
  by (induction n arbitrary: q offset all w) (auto simp: Let_def intro!: emits_andThen reads_restDo)

lemma reads_searchPages: "emits reads w (snd (searchPages L U c jql n token issues w))"
proof (induction n arbitrary: token issues w)
  case (Suc n)
  have "emits reads w (snd (restDo L U (jc_jira c) ''POST'' ''/rest/api/3/search/jql'' body step z w))" for body step z w
    by (rule emits_restDo) (rule reads_search)
  with Suc.IH show ?case by (auto simp: Let_def intro!: emits_andThen)
qed simp

lemma reads_lookUpIssues: "emits reads w (snd (lookUpIssues L J c ws ids issues w))"
  by (induction ids arbitrary: issues w) (auto simp: searchIssues_def intro!: emits_andThen reads_searchPages)

lemma reads_report: "emits reads w (snd (report L J c ws ps w))"
  unfolding report_def myEntries_def tempoWorklogs_def scopedIssues_def Let_def
  by (auto intro!: emits_andThen reads_myself reads_tempoPages reads_lookUpIssues split: sum.split)

lemma reads_issueEntries: "emits reads w (snd (issueEntries L J c iss names ts w))"
proof (induction ts arbitrary: names w)
  case (Cons t ts)
  show ?case
    by (auto simp: Let_def intro!: emits_andThen Cons.IH dest!: reads_userName_eq
        intro: emits_trans [OF _ Cons.IH] split: sum.split option.split prod.split)
qed simp

lemma reads_issueTime: "emits reads w (snd (issueTime L J c ws ps w))"
  unfolding issueTime_def tempoWorklogs_def Let_def
  by (auto intro!: emits_andThen reads_issue reads_myself reads_tempoPages reads_issueEntries)

lemma reads_ownWorklog: "emits reads w (snd (ownWorklog L J c ws ps w))"
  unfolding ownWorklog_def Let_def
  by (auto intro!: emits_andThen reads_issue reads_myself reads_restDo split: prod.split) (rule reads_userName_eq)

lemma reads_activities:
  "emits reads w (snd (setActivity L J cfg c ws ps workspace w))"
  "emits reads w (snd (removeActivity L J cfg ps workspace w))"
proof -
  have save: "emits reads w (snd (saveWorklogActivities J cfg workspace acts w))" for acts w
    unfolding saveWorklogActivities_def Let_def by (auto intro!: emits_same split: option.split)
  show "emits reads w (snd (setActivity L J cfg c ws ps workspace w))"
    "emits reads w (snd (removeActivity L J cfg ps workspace w))"
    unfolding setActivity_def removeActivity_def Let_def
    by (auto intro!: emits_andThen reads_issue save split: option.split)
qed

section \<open>Writes go to the caller's own worklogs\<close>

text \<open>
  A change of a worklog: a PUT or DELETE of the very worklog that Tempo, asked in this run,
  attributed to the account Jira named as the caller's, on the issue of the given key, whose
  project the workspace permits.
\<close>

definition changesOwn :: "golib \<Rightarrow> upstream \<Rightarrow> Workspace \<Rightarrow> params \<Rightarrow> 's world \<Rightarrow> wire \<Rightarrow> bool" where
  "changesOwn L U ws ps w wi \<longleftrightarrow>
     (\<exists>c me old iss v1 v2 v3.
        emits reads w v1 \<and> fst (myself L U c v1) = Inr me
      \<and> emits reads w v2 \<and> fst (restDo L U (jc_tempo c) ''GET'' (''/4/worklogs/'' @ strParam ps ''worklog_id'')
          None (objStep (worklogFields L)) zeroWorklog v2) = Inr old
      \<and> emits reads w v3 \<and> fst (issue L U c (strParam ps ''key'') ''summary'' v3) = Inr iss
      \<and> scopedIssueKey ws (strParam ps ''key'') = Inr () \<and> ir_ID iss = issueID old
      \<and> tw_AuthorAccountID old = ju_AccountID me
      \<and> List.member [''PUT'', ''DELETE''] (wi_Method wi)
      \<and> wi_URL wi = rc_baseURL (jc_tempo c) @ ''/4/worklogs/'' @ worklogID old)"

text \<open>A new worklog: written for the caller's account on an issue whose project the workspace permits.\<close>

definition createsOwn :: "golib \<Rightarrow> upstream \<Rightarrow> Workspace \<Rightarrow> 's world \<Rightarrow> wire \<Rightarrow> bool" where
  "createsOwn L U ws w wi \<longleftrightarrow>
     (\<exists>c me key iss number req v1 v2.
        emits reads w v1 \<and> fst (myself L U c v1) = Inr me
      \<and> scopedIssueKey ws key = Inr ()
      \<and> emits reads w v2 \<and> fst (issue L U c key ''summary'' v2) = Inr iss \<and> issueIDNumber iss = Inr number
      \<and> wi_Method wi = ''POST'' \<and> wi_URL wi = rc_baseURL (jc_tempo c) @ ''/4/worklogs''
      \<and> wi_Body wi = Some (encodeJson L (JObj req))
      \<and> mget req ''authorAccountId'' = Some (JStr (ju_AccountID me)) \<and> mget req ''issueId'' = Some (JInt number))"

lemma andThen_Inr: "andThen r f = (Inr y, u) \<longleftrightarrow> (\<exists>x v. r = (Inr x, v) \<and> f x v = (Inr y, u))"
  by (auto simp: andThen_def split: prod.split sum.split)

lemma emits_eq: "emits P w (snd r) \<Longrightarrow> r = (x, v) \<Longrightarrow> emits P w v"
  by simp

lemma ownWorklog_steps:
  assumes "ownWorklog L J c ws ps w = (Inr (iss, old), v)"
  shows "\<exists>me v2 v3. scopedIssueKey ws (strParam ps ''key'') = Inr ()
    \<and> myself L (wl_up J) c w = (Inr me, v2)
    \<and> restDo L (wl_up J) (jc_tempo c) ''GET'' (''/4/worklogs/'' @ strParam ps ''worklog_id'') None
      (objStep (worklogFields L)) zeroWorklog v2 = (Inr old, v3)
    \<and> issue L (wl_up J) c (strParam ps ''key'') ''summary'' v3 = (Inr iss, v)
    \<and> ir_ID iss = issueID old \<and> tw_AuthorAccountID old = ju_AccountID me"
  using assms unfolding ownWorklog_def Let_def
  by (clarsimp simp: andThen_Inr split: if_splits prod.splits)

lemma ownWorklog_owned:
  assumes own: "ownWorklog L J c ws ps w = (Inr (iss, old), v)" and start: "emits reads w0 w"
    and verb: "List.member [''PUT'', ''DELETE''] verb"
    and carries: "carries L (jc_tempo c) verb (''/4/worklogs/'' @ worklogID old) body wi"
  shows "changesOwn L (wl_up J) ws ps w0 wi"
proof -
  obtain me v2 v3 where steps: "scopedIssueKey ws (strParam ps ''key'') = Inr ()"
    "myself L (wl_up J) c w = (Inr me, v2)"
    "restDo L (wl_up J) (jc_tempo c) ''GET'' (''/4/worklogs/'' @ strParam ps ''worklog_id'') None
      (objStep (worklogFields L)) zeroWorklog v2 = (Inr old, v3)"
    "issue L (wl_up J) c (strParam ps ''key'') ''summary'' v3 = (Inr iss, v)"
    "ir_ID iss = issueID old" "tw_AuthorAccountID old = ju_AccountID me"
    using ownWorklog_steps [OF own] by blast
  have two: "emits reads w0 v2" by (rule emits_trans [OF start emits_eq [OF reads_myself steps(2)]])
  have three: "emits reads w0 v3" by (rule emits_trans [OF two emits_eq [OF reads_restDo steps(3)]])
  have wire: "wi_Method wi = verb" "wi_URL wi = rc_baseURL (jc_tempo c) @ ''/4/worklogs/'' @ worklogID old"
    using carries by (simp_all add: carries_def)
  have answers: "fst (myself L (wl_up J) c w) = Inr me"
    "fst (restDo L (wl_up J) (jc_tempo c) ''GET'' (''/4/worklogs/'' @ strParam ps ''worklog_id'') None
      (objStep (worklogFields L)) zeroWorklog v2) = Inr old"
    "fst (issue L (wl_up J) c (strParam ps ''key'') ''summary'' v3) = Inr iss"
    by (simp_all only: steps(2-4) fst_conv)
  have verbOk: "List.member [''PUT'', ''DELETE''] (wi_Method wi)" using verb by (simp only: wire)
  show ?thesis
    unfolding changesOwn_def
    by (rule exI [of _ c], rule exI [of _ me], rule exI [of _ old], rule exI [of _ iss], rule exI [of _ w],
        rule exI [of _ v2], rule exI [of _ v3])
      (intro conjI start answers two three steps(1,5,6) verbOk wire(2))
qed

text \<open>A client is built without a request.\<close>

lemma newRestClient_silent: "w_sent (snd (newRestClient L U api siteName site ps workspace w)) = w_sent w"
  by (auto simp: newRestClient_def resolveRef_def base64Auth_def taintWorld_def Let_def split: sum.split prod.split)

lemma newJiraClient_silent: "w_sent (snd (newJiraClient L U ws op ps workspace w)) = w_sent w"
proof -
  have one: "emits (\<lambda>wi. False) v (snd (newRestClient L U api siteName site ps' workspace v))"
    for v :: "'a world" and api siteName site ps'
    by (rule emits_same [OF newRestClient_silent])
  have "emits (\<lambda>wi. False) w (snd (newJiraClient L U ws op ps workspace w))"
    unfolding newJiraClient_def Let_def by (auto intro!: emits_andThen one split: option.split)
  then show ?thesis by (auto simp: emits_def list_all_iff)
qed

definition permitted :: "golib \<Rightarrow> upstream \<Rightarrow> Workspace \<Rightarrow> params \<Rightarrow> 's world \<Rightarrow> wire \<Rightarrow> bool" where
  "permitted L U ws ps w wi \<longleftrightarrow> reads wi \<or> createsOwn L U ws w wi \<or> changesOwn L U ws ps w wi"

lemma permitted_reads: "emits reads v u \<Longrightarrow> emits (permitted L U ws ps w) v u"
  by (erule emits_weaken) (simp add: permitted_def)

lemma emits_changes:
  assumes start: "emits reads w0 w"
  shows "emits (permitted L (wl_up J) ws ps w0) w (snd (updateWorklog L J c ws ps w))"
    "emits (permitted L (wl_up J) ws ps w0) w (snd (deleteWorklog L J c ws ps w))"
proof -
  let ?P = "permitted L (wl_up J) ws ps w0"
  have own: "emits ?P w (snd (ownWorklog L J c ws ps w))" by (rule permitted_reads [OF reads_ownWorklog])
  have owned: "?P wi"
    if "ownWorklog L J c ws ps w = (Inr (iss, old), v)" "List.member [''PUT'', ''DELETE''] verb"
      "carries L (jc_tempo c) verb (''/4/worklogs/'' @ worklogID old) body wi" for iss old v verb body wi
    using ownWorklog_owned [OF that(1) start that(2,3)] by (simp add: permitted_def)
  have methods: "List.member [''PUT'', ''DELETE''] ''PUT''" "List.member [''PUT'', ''DELETE''] ''DELETE''" by simp_all
  note put = owned [OF _ methods(1)] and delete = owned [OF _ methods(2)]
  show "emits ?P w (snd (updateWorklog L J c ws ps w))"
    unfolding updateWorklog_def Let_def
    by (auto intro!: emits_andThen own emits_restDo simp del: append.simps) (erule (1) put)+
  show "emits ?P w (snd (deleteWorklog L J c ws ps w))"
    unfolding deleteWorklog_def
    by (auto intro!: emits_andThen own emits_restCall simp del: append.simps) (erule (1) delete)
qed

lemma creates_own:
  assumes start: "emits reads w0 w" and key: "scopedIssueKey ws key = Inr ()"
    and iss: "issue L U c key ''summary'' w = (Inr iss, v)" and number: "issueIDNumber iss = Inr number"
    and me: "myself L U c v = (Inr me, u)"
    and carries: "carries L (jc_tempo c) ''POST'' ''/4/worklogs'' (Some (JObj req)) wi"
    and req: "mget req ''authorAccountId'' = Some (JStr (ju_AccountID me))" "mget req ''issueId'' = Some (JInt number)"
  shows "permitted L U ws ps w0 wi"
proof -
  have two: "emits reads w0 v" by (rule emits_trans [OF start emits_eq [OF reads_issue iss]])
  have wire: "wi_Method wi = ''POST''" "wi_URL wi = rc_baseURL (jc_tempo c) @ ''/4/worklogs''"
    "wi_Body wi = Some (encodeJson L (JObj req))"
    using carries by (simp_all add: carries_def)
  have answers: "fst (myself L U c v) = Inr me" "fst (issue L U c key ''summary'' w) = Inr iss"
    by (simp_all only: iss me fst_conv)
  have "createsOwn L U ws w0 wi"
    unfolding createsOwn_def
    by (rule exI [of _ c], rule exI [of _ me], rule exI [of _ key], rule exI [of _ iss], rule exI [of _ number],
        rule exI [of _ req], rule exI [of _ v], rule exI [of _ w])
      (intro conjI two answers key start number wire req)
  then show ?thesis by (simp add: permitted_def)
qed

lemma emits_addWorklog:
  assumes start: "emits reads w0 w"
  shows "emits (permitted L (wl_up J) ws ps w0) w (snd (addWorklog L J cfg c ws ps workspace w))"
  unfolding addWorklog_def Let_def
  by (auto intro!: emits_andThen permitted_reads [OF reads_issue] permitted_reads [OF reads_myself] emits_restDo)
    (erule creates_own [OF start], assumption+, simp_all)+

text \<open>C30: The worklog connector writes only what is the caller's own. Of the requests a run sends, those
  that do not merely read are: the creation of a worklog for the account that Jira named as the caller's,
  on an issue whose project the workspace permits; or the change or deletion of the very worklog that
  Tempo, asked in the same run, attributed to that account, on the issue of the given, permitted key.\<close>

theorem worklog_writes_own:
  "\<exists>new. w_sent (snd (executeJiraWorklog L J cfg ws op ps workspace w)) = w_sent w @ new
     \<and> list_all (\<lambda>wi. reads wi \<or> createsOwn L (wl_up J) ws w wi \<or> changesOwn L (wl_up J) ws ps w wi) new"
proof -
  have act: "emits (permitted L (wl_up J) ws ps w) v (snd (f v))" if "emits reads v (snd (f v))"
    for v and f :: "'a world \<Rightarrow> (worklogError + string) \<times> 'a world"
    by (rule permitted_reads [OF that])
  have "emits (permitted L (wl_up J) ws ps w) w (snd (executeJiraWorklog L J cfg ws op ps workspace w))"
    unfolding executeJiraWorklog_def Let_def
  proof (rule emits_andThen)
    show "emits (permitted L (wl_up J) ws ps w) w (snd (newJiraClient L (wl_up J) ws op ps workspace w))"
      by (rule emits_same [OF newJiraClient_silent])
    fix c v assume "newJiraClient L (wl_up J) ws op ps workspace w = (Inr c, v)"
    then have "emits reads w v" using emits_same [OF newJiraClient_silent] emits_eq by metis
    note own = emits_addWorklog [OF this] emits_changes [OF this]
    show "emits (permitted L (wl_up J) ws ps w) v (snd (andThen
       (if op_Path op = ''report'' then report L J c ws ps v
           else if op_Path op = ''issue'' then issueTime L J c ws ps v
           else if op_Path op = ''add'' then addWorklog L J cfg c ws ps workspace v
           else if op_Path op = ''update'' then updateWorklog L J c ws ps v
           else if op_Path op = ''delete'' then deleteWorklog L J c ws ps v
           else if op_Path op = ''activities'' then
             (rbind (readWorklogActivities L J cfg workspace v) (\<lambda>acts.
                Inr (objectText [(''activities'', activitiesText acts)])), v)
           else if op_Path op = ''activity_set'' then setActivity L J cfg c ws ps workspace v
           else if op_Path op = ''activity_remove'' then removeActivity L J cfg ps workspace v
           else (Inl (WlAction (op_ID op) (op_Path op)), v)) (\<lambda>body w. (Inr (200, body), w))))"
      by (rule emits_andThen)
        (auto intro: own permitted_reads [OF reads_report] permitted_reads [OF reads_issueTime]
          permitted_reads [OF reads_activities(1)] permitted_reads [OF reads_activities(2)])
  qed
  then show ?thesis by (simp add: emits_def permitted_def [abs_def])
qed

section \<open>Dates in text\<close>

lemma digit_char:
  assumes "n < 10"
  shows "isDigit (char_of (48 + n :: nat))" "(of_char (char_of (48 + n :: nat)) :: int) = 48 + int n"
proof -
  from assms have v: "(of_char (char_of (48 + n :: nat)) :: nat) = 48 + n" by simp
  with assms show "isDigit (char_of (48 + n :: nat))" by (simp add: isDigit_def less_eq_char_def)
  from v show "(of_char (char_of (48 + n :: nat)) :: int) = 48 + int n"
    by (metis of_nat_add of_nat_numeral of_nat_of_char)
qed

lemma digitsVal_snoc: "digitsVal (s @ [c]) = 10 * digitsVal s + (of_char c - 48)"
  by (simp add: digitsVal_def)

lemma natDigits_read: "list_all isDigit (natDigits n) \<and> digitsVal (natDigits n) = int n"
proof (induction n rule: natDigits.induct)
  case (1 n)
  show ?case
  proof (cases "n < 10")
    case True
    then show ?thesis using digit_char [OF True] by (subst (1 2) natDigits.simps) (simp add: digitsVal_def)
  next
    case False
    have m: "n mod 10 < 10" by simp
    from 1 False have ih: "list_all isDigit (natDigits (n div 10))" "digitsVal (natDigits (n div 10)) = int (n div 10)"
      by simp_all
    have "10 * int (n div 10) + int (n mod 10) = int n" by presburger
    then show ?thesis
      using False ih digit_char [OF m]
      by (subst (1 2) natDigits.simps) (simp add: digitsVal_snoc)
  qed
qed

lemma natDigits_length: "n < 10 ^ Suc k \<Longrightarrow> length (natDigits n) \<le> Suc k"
proof (induction k arbitrary: n)
  case (Suc k)
  then have "n div 10 < 10 ^ Suc k" by (simp add: less_mult_imp_div_less)
  with Suc.IH show ?case by (subst natDigits.simps) (simp add: Suc_le_mono)
qed (subst natDigits.simps, simp)

lemma digitsVal_zeros: "digitsVal (replicate k (CHR ''0'') @ s) = digitsVal s"
  by (induction k) (simp_all add: digitsVal_def)

lemma padZero_read:
  assumes "0 \<le> i" "i < 10 ^ Suc k"
  shows "length (padZero (Suc k) i) = Suc k" "list_all isDigit (padZero (Suc k) i)" "digitsVal (padZero (Suc k) i) = i"
proof -
  have "nat i < 10 ^ Suc k" using assms by (metis nat_less_numeral_power_cancel_iff)
  then have "length (natDigits (nat i)) \<le> Suc k" by (rule natDigits_length)
  then show "length (padZero (Suc k) i) = Suc k" "list_all isDigit (padZero (Suc k) i)" "digitsVal (padZero (Suc k) i) = i"
    using assms natDigits_read [of "nat i"]
    by (simp_all add: padZero_def Let_def digitsVal_zeros list_all_iff) (auto simp: isDigit_def)
qed

text \<open>A date survives being written and read: for the years 0 to 9999, which are the ones with
  four digits, \<open>time.Parse\<close> reads back the date that \<open>Format\<close> wrote.\<close>

theorem date_text_roundtrip:
  assumes "0 \<le> yearOf d" and "yearOf d \<le> 9999"
  shows "parseDate (formatDate d) = Some d"
proof -
  note v = valid_of_day [of d]
  have m: "1 \<le> monthOf d" "monthOf d \<le> 12" and day: "1 \<le> dayOf d" "dayOf d \<le> 31"
    using v(1) by (auto simp: validDate_def monthLength_def split: if_splits)
  let ?y = "padZero 4 (yearOf d)" and ?m = "padZero 2 (monthOf d)" and ?d = "padZero 2 (dayOf d)"
  have y: "length ?y = 4" "list_all isDigit ?y" "digitsVal ?y = yearOf d"
    using padZero_read [of "yearOf d" 3] assms by (simp_all add: numeral_eq_Suc)
  have mm: "length ?m = 2" "list_all isDigit ?m" "digitsVal ?m = monthOf d"
    using padZero_read [of "monthOf d" 1] m by (simp_all add: numeral_eq_Suc)
  have dd: "length ?d = 2" "list_all isDigit ?d" "digitsVal ?d = dayOf d"
    using padZero_read [of "dayOf d" 1] day by (simp_all add: numeral_eq_Suc)
  have parts: "take 4 (formatDate d) = ?y" "take 2 (drop 5 (formatDate d)) = ?m" "drop 8 (formatDate d) = ?d"
    "formatDate d ! 4 = CHR ''-''" "formatDate d ! 7 = CHR ''-''" "length (formatDate d) = 10"
    by (simp_all add: formatDate_def y mm dd nth_append)
  show ?thesis
    by (simp add: parseDate_def parts y mm dd v)
qed

lemma date_text_roundtrip_witness: "parseDate (formatDate (Date 2026 7 5)) = Some (Date 2026 7 5)"
proof -
  have "validDate 2026 7 5" by (simp add: validDate_def monthLength_def)
  then have "yearOf (Date 2026 7 5) = 2026" by (rule Date_read)
  then show ?thesis using date_text_roundtrip [of "Date 2026 7 5"] by simp
qed

section \<open>Paging\<close>

text \<open>The page of worklogs at an offset.\<close>

definition pageAt ::
    "golib \<Rightarrow> upstream \<Rightarrow> jiraClient \<Rightarrow> string \<Rightarrow> string gomap \<Rightarrow> nat \<Rightarrow> 's world \<Rightarrow> (worklogError + worklogPage) \<times> 's world" where
  "pageAt L U c path q offset w =
     restDo L U (jc_tempo c) ''GET''
       (path @ ''?'' @ encodeValues (mput ''limit'' (natDigits worklogTempoPage) (mput ''offset'' (natDigits offset) q)))
       None (pageStep L) \<lparr>tp_Next = [], tp_Results = []\<rparr> w"

lemma tempoPages_step:
  "tempoPages L U c path q (Suc n) offset all w =
     andThen (pageAt L U c path q offset w) (\<lambda>page w.
       if tp_Results page = [] \<or> tp_Next page = [] then (Inr (all @ tp_Results page), w)
       else tempoPages L U c path (mput ''limit'' (natDigits worklogTempoPage) (mput ''offset'' (natDigits offset) q))
         n (offset + length (tp_Results page)) (all @ tp_Results page) w)"
  by (simp add: pageAt_def Let_def)

lemma pageAt_error: "fst (pageAt L U c path q offset w) \<noteq> Inl WlNoReturn"
  by (auto simp: pageAt_def restDo_def restCall_def andThen_def split: prod.split sum.split option.split)

lemma pageAt_sent: "length (w_sent (snd (pageAt L U c path q offset w))) \<le> Suc (length (w_sent w))"
proof -
  have "\<exists>req. snd (pageAt L U c path q offset w) = snd (Execute L U req w)"
    by (auto simp: pageAt_def restDo_def restCall_def andThen_def split: prod.split sum.split option.split)
      (metis snd_conv)+
  then show ?thesis using Execute_sent [of L U _ w] by (metis le_SucI length_append_singleton order_refl)
qed

lemma tempoPages_ends:
  fixes w :: "'s world"
  assumes "\<And>q offset (v :: 's world) page. N \<le> offset \<Longrightarrow> fst (pageAt L U c path q offset v) = Inr page \<Longrightarrow> tp_Results page = []"
  shows "N < offset + n \<Longrightarrow> 0 < n \<Longrightarrow> fst (tempoPages L U c path q n offset all w) \<noteq> Inl WlNoReturn
    \<and> length (w_sent (snd (tempoPages L U c path q n offset all w))) \<le> length (w_sent w) + (N - offset) + 1"
proof (induction n arbitrary: q offset all w)
  case (Suc n)
  obtain res v where p: "pageAt L U c path q offset w = (res, v)" by fastforce
  with pageAt_error [of L U c path q offset w] have e: "res \<noteq> Inl WlNoReturn" by simp
  from pageAt_sent [of L U c path q offset w] p have sent: "length (w_sent v) \<le> Suc (length (w_sent w))" by simp
  show ?case
  proof (cases res)
    case (Inl x)
    with p e sent show ?thesis by (simp add: tempoPages_step andThen_def del: tempoPages.simps)
  next
    case (Inr page)
    show ?thesis
    proof (cases "tp_Results page = [] \<or> tp_Next page = []")
      case True
      with p Inr sent show ?thesis by (simp add: tempoPages_step andThen_def del: tempoPages.simps)
    next
      case False
      with assms [of offset q w page] p Inr have low: "offset < N" by (metis fst_conv not_le)
      define k where "k = length (tp_Results page)"
      have k: "0 < k" using False by (simp add: k_def)
      have eq: "tempoPages L U c path q (Suc n) offset all w
          = tempoPages L U c path (mput ''limit'' (natDigits worklogTempoPage) (mput ''offset'' (natDigits offset) q)) n
              (offset + k) (all @ tp_Results page) v"
        using p Inr False by (simp add: tempoPages_step andThen_def k_def del: tempoPages.simps)
      have "N < offset + k + n" "0 < n" using Suc.prems low k by auto
      from Suc.IH [OF this, of "mput ''limit'' (natDigits worklogTempoPage) (mput ''offset'' (natDigits offset) q)"
          "all @ tp_Results page" v]
      show ?thesis unfolding eq using sent low k by (elim conjE) (intro conjI, assumption, linarith)
    qed
  qed
qed simp

text \<open>C35: Reading all pages of a worklog listing ends. When the upstream has at most \<open>N\<close> worklogs to list
  (a page at an offset from \<open>N\<close> on is empty, as Tempo documents its paging), the loop returns after at
  most \<open>N + 1\<close> requests, whatever the pages hold or whether they say that there is a next one.\<close>

theorem paging_ends:
  fixes w :: "'s world"
  assumes "\<And>q offset (v :: 's world) page.
      N \<le> offset \<Longrightarrow> fst (pageAt L (wl_up J) c path q offset v) = Inr page \<Longrightarrow> tp_Results page = []"
    and "N < wl_pages J"
  shows "fst (tempoWorklogs L J c path q w) \<noteq> Inl WlNoReturn
    \<and> length (w_sent (snd (tempoWorklogs L J c path q w))) \<le> length (w_sent w) + N + 1"
  using tempoPages_ends [of N L "wl_up J" c path 0 "wl_pages J" q "[]" w, OF assms(1)] assms(2)
  by (simp add: tempoWorklogs_def)

definition quietEnv :: worklogEnv where
  "quietEnv = \<lparr>wl_up = exampleUpstream\<lparr>up_http := (\<lambda>sent wi. Inr \<lparr>an_Status = 200, an_Headers = [], an_Body = []\<rparr>),
       up_badRequest := (\<lambda>m u. None)\<rparr>,
     wl_today = 0, wl_minute = [], wl_beside = (\<lambda>p n. n),
     wl_files = \<lparr>fs_read = (\<lambda>p. None), fs_open = (\<lambda>p. None), fs_write = (\<lambda>p. None), fs_rename = (\<lambda>p. None)\<rparr>,
     wl_pages = 1\<rparr>"

definition quietClient :: jiraClient where
  "quietClient =
     (let c = \<lparr>rc_api = ''tempo'', rc_baseURL = ''https://api'', rc_headers = [], rc_insecure = False\<rparr>
      in \<lparr>jc_jira = c, jc_tempo = c\<rparr>)"

lemma quiet_page: "fst (pageAt exampleLib (wl_up quietEnv) quietClient path q offset v)
    = Inr \<lparr>tp_Next = [], tp_Results = []\<rparr>"
  by (simp add: pageAt_def restDo_def restCall_def Execute_def andThen_def quietEnv_def DefaultMaxBodyBytes_def Let_def)

lemma paging_ends_witness:
  "fst (tempoWorklogs exampleLib quietEnv quietClient ''/4/worklogs/issue/1'' [] exampleWorld) \<noteq> Inl WlNoReturn
    \<and> length (w_sent (snd (tempoWorklogs exampleLib quietEnv quietClient ''/4/worklogs/issue/1'' [] exampleWorld)))
      \<le> length (w_sent exampleWorld) + 0 + 1"
  by (rule paging_ends) (simp_all add: quiet_page, auto simp: quietEnv_def)

section \<open>Totals\<close>

lemma sum_mput:
  fixes f :: "'v \<Rightarrow> int"
  shows "sum_list (map (f \<circ> snd) (mput k v m)) =
    sum_list (map (f \<circ> snd) m) + f v - (case mget m k of None \<Rightarrow> 0 | Some u \<Rightarrow> f u)"
  unfolding mput_def by (induction m) auto

lemma sum_sort_key: "sum_list (map f (sort_key g xs)) = (sum_list (map f xs) :: int)"
  by (metis mset_map mset_sort sum_mset_sum_list)

lemma distinct_map_sort: "distinct (map f (sort_key g xs)) \<longleftrightarrow> distinct (map f xs)"
  by (metis distinct_map distinct_sort set_sort)

lemma addToIssue_sum:
  "sum_list (map (wi_Seconds \<circ> snd) (addToIssue totals e)) = sum_list (map (wi_Seconds \<circ> snd) totals) + we_seconds e"
  unfolding addToIssue_def Let_def by (simp add: sum_mput split: option.split)

lemma byIssue_sum: "sum_list (map wi_Seconds (byIssue entries)) = sum_list (map we_seconds entries)"
proof -
  have "sum_list (map (wi_Seconds \<circ> snd) (foldl addToIssue totals entries))
      = sum_list (map (wi_Seconds \<circ> snd) totals) + sum_list (map we_seconds entries)" for totals
    by (induction entries arbitrary: totals) (simp_all add: addToIssue_sum)
  from this [of "[]"] show ?thesis by (simp add: byIssue_def sum_sort_key)
qed

lemma byIssue_keys: "distinct (map wi_Key (byIssue entries))"
proof -
  have "distinct (mkeys totals) \<and> list_all (\<lambda>(k, t). wi_Key t = k) totals \<Longrightarrow>
      distinct (mkeys (foldl addToIssue totals entries))
      \<and> list_all (\<lambda>(k, t). wi_Key t = k) (foldl addToIssue totals entries)" for totals
  proof (induction entries arbitrary: totals)
    case (Cons e entries)
    have key: "wi_Key t = k" if "mget totals k = Some t" for k t
      using Cons.prems map_of_SomeD [OF that] by (fastforce simp: list_all_iff)
    have put: "list_all (\<lambda>(k, t). wi_Key t = k) (mput k v m)"
      if "list_all (\<lambda>(k, t). wi_Key t = k) m" "wi_Key v = k" for k v m
      using that unfolding mput_def by (induction m) auto
    have "list_all (\<lambda>(k, t). wi_Key t = k) (addToIssue totals e)"
      using Cons.prems key unfolding addToIssue_def Let_def by (intro put) (auto split: option.split)
    moreover have "distinct (mkeys (addToIssue totals e))"
      using Cons.prems by (simp add: addToIssue_def Let_def)
    ultimately show ?case using Cons.IH by simp
  qed simp
  from this [of "[]"] have ok: "distinct (mkeys (foldl addToIssue [] entries))"
    "list_all (\<lambda>(k, t). wi_Key t = k) (foldl addToIssue [] entries)" by simp_all
  have "list_all (\<lambda>(k, t). wi_Key t = k) m \<Longrightarrow> map wi_Key (map snd m) = mkeys m" for m
    by (induction m) auto
  with ok have "distinct (map wi_Key (map snd (foldl addToIssue [] entries)))" by metis
  then show ?thesis unfolding byIssue_def by (metis distinct_map_sort)
qed

lemma byIssue_order: "sorted_wrt (\<ge>) (map (\<lambda>t. hoursOf (wi_Seconds t)) (byIssue entries))"
proof -
  have "sorted (map (\<lambda>t. - hoursOf (wi_Seconds t)) (byIssue entries))"
    unfolding byIssue_def by (rule sorted_sort_key)
  then show ?thesis by (simp add: sorted_map sorted_wrt_map)
qed

lemma days_sum:
  "sum_list (map (\<lambda>d. sum_list (map we_seconds (dayEntries entries d))) [a..b]) = secondsBetween entries a b"
proof (induction entries)
  case (Cons e entries)
  have "sum_list (map (\<lambda>d. if we_date e = d then we_seconds e else 0) [a..b])
      = (if a \<le> we_date e \<and> we_date e \<le> b then we_seconds e else 0)"
    by (simp add: sum_list_distinct_conv_sum_set)
  moreover have "sum_list (map we_seconds (dayEntries (e # entries) d))
      = (if we_date e = d then we_seconds e else 0) + sum_list (map we_seconds (dayEntries entries d))" for d
    by (simp add: dayEntries_def)
  ultimately show ?case using Cons.IH
    by (simp add: sum_list_addf secondsBetween_def)
qed (simp add: dayEntries_def secondsBetween_def)

text \<open>The figures of a report agree. The seconds by issue, by day and of the period are the same total,
  which is that of the worklogs dated in the period; every issue is listed once, those with the most
  hours first; and of the two figures against the norm, hours left and overtime, one is zero and
  they make up exactly the difference between the norm and what was logged.\<close>

theorem report_totals_agree:
  "sum_list (map wi_Seconds (byIssue (concat (map (dayEntries entries) [a..b])))) = secondsBetween entries a b
   \<and> sum_list (map (\<lambda>d. sum_list (map we_seconds (dayEntries entries d))) [a..b]) = secondsBetween entries a b
   \<and> distinct (map wi_Key (byIssue entries))
   \<and> sorted_wrt (\<ge>) (map (\<lambda>t. hoursOf (wi_Seconds t)) (byIssue entries))
   \<and> (let n = normOf a b asOf (secondsBetween entries a b)
      in wn_LeftHours n * wn_OvertimeHours n = 0
       \<and> wn_LeftHours n - wn_OvertimeHours n = wn_WorkingDays n * 800 - wn_LoggedHours n)"
proof -
  have "sum_list (map we_seconds (concat (map (dayEntries entries) ds)))
      = sum_list (map (\<lambda>d. sum_list (map we_seconds (dayEntries entries d))) ds)" for ds
    by (induction ds) simp_all
  then show ?thesis
    using byIssue_keys byIssue_order by (simp add: byIssue_sum days_sum normOf_def HoursPerDay_def Let_def max_def)
qed

section \<open>The activity map\<close>

lemma Execute_files: "w_files (snd (Execute L U req w)) = w_files w"
  by (auto simp: Execute_def taintWorld_def Let_def split: option.split sum.split netError.split)

lemma restDo_files: "w_files (snd (restDo L U c method path body step z w)) = w_files w"
proof -
  have "\<exists>req. snd (restDo L U c method path body step z w) = snd (Execute L U req w)"
    by (auto simp: restDo_def restCall_def andThen_def split: prod.split sum.split option.split)
      (metis snd_conv)+
  then show ?thesis using Execute_files by metis
qed

lemma issue_files: "issue L U c key f w = (x, v) \<Longrightarrow> w_files v = w_files w"
  using restDo_files [of L U "jc_jira c"] unfolding issue_def by (metis snd_conv)

lemma load_files:
  "w_files v = w_files w \<Longrightarrow> loadWorklogActivities L J cfg workspace v = loadWorklogActivities L J cfg workspace w"
  by (simp add: loadWorklogActivities_def cong: option.case_cong)

text \<open>What may have become of the files between two worlds: nothing, or the map and its temporary.\<close>

definition mapUpdated ::
    "golib \<Rightarrow> worklogEnv \<Rightarrow> Config \<Rightarrow> string \<Rightarrow> (worklogActivity gomap \<Rightarrow> worklogActivity gomap) \<Rightarrow> bool
       \<Rightarrow> 's world \<Rightarrow> 's world \<Rightarrow> bool" where
  "mapUpdated L J cfg workspace change ok w w' \<longleftrightarrow>
     (let p = worklogActivitiesPath J cfg workspace
      in {q. mget (w_files w') q \<noteq> mget (w_files w) q} \<subseteq> {p, p @ ''.tmp''}
       \<and> (if ok then \<exists>acts. loadWorklogActivities L J cfg workspace w = Inr (Some acts)
              \<and> mget (w_files w') p = Some (activitiesFile (change acts))
          else mget (w_files w') p = mget (w_files w) p))"

lemma mapUpdated_refl: "mapUpdated L J cfg workspace change False w w"
  by (simp add: mapUpdated_def)

lemma mapUpdated_same: "w_files v = w_files w \<Longrightarrow> mapUpdated L J cfg workspace change False w v"
  by (simp add: mapUpdated_def)

lemma save_updates:
  assumes "saveWorklogActivities J cfg workspace (change acts) v = (res, w')"
    and "loadWorklogActivities L J cfg workspace w = Inr (Some acts)" and "w_files v = w_files w"
  shows "mapUpdated L J cfg workspace change (isOk res) w w'"
proof -
  define p where "p = worklogActivitiesPath J cfg workspace"
  have ne: "p \<noteq> p @ ''.tmp''" by simp
  show ?thesis
    using assms ne by (auto simp: saveWorklogActivities_def mapUpdated_def p_def [symmetric] Let_def
        split: option.splits if_splits)
qed


end
