(* ===== verification/SchedulerLife.thy ===== *)
theory SchedulerLife
  imports Scheduler
begin

text \<open>
  What a worker of the scheduler gets done: a job that is due when a worker ticks is taken up within
  a bounded number of that worker's steps, whatever the other workers and the callers do meanwhile.
\<close>

section \<open>The steps of one worker\<close>

text \<open>
  \<open>processJobs\<close> and \<open>executeJob\<close> as one loop of a worker: finish the job it runs, else claim the
  next of its queue, else, on a tick, make a new queue.
\<close>

definition workerStep :: "nat \<Rightarrow> instant \<Rightarrow> Scheduler \<Rightarrow> Scheduler" where
  "workerStep i now sc =
     (let w = sc_workers sc ! i; s = sc_store sc;
          (w', s') = (if wk_Job w \<noteq> None then finishJob now s w
            else if wk_Queue w \<noteq> [] then claimNext now s w
            else (tickWorker now s w, s))
      in sc\<lparr>sc_store := s', sc_workers := (sc_workers sc)[i := w']\<rparr>)"

lemma workerStep_jobStep:
  assumes "i < length (sc_workers sc)"
  shows "\<exists>e. jobStep sc e (workerStep i now sc) \<and> (\<forall>jid. e \<noteq> Put jid)"
proof -
  let ?w = "sc_workers sc ! i"
  obtain w' s' where c: "claimNext now (sc_store sc) ?w = (w', s')" by fastforce
  obtain w'' s'' where f: "finishJob now (sc_store sc) ?w = (w'', s'')" by fastforce
  consider (finish) job jid t where "wk_Job ?w = Some (job, jid, t)"
    | (claim) job jid t where "wk_Job ?w = None" "wk_Queue ?w \<noteq> []" "wk_Job w' = Some (job, jid, t)"
    | (skip) "wk_Job ?w = None" "wk_Queue ?w \<noteq> []" "wk_Job w' = None"
    | (tick) "wk_Job ?w = None" "wk_Queue ?w = []"
    by (cases "wk_Job ?w"; cases "wk_Job w'"; fastforce)
  then show ?thesis
  proof cases
    case finish
    with J_finish [OF assms finish f] show ?thesis by (auto simp: workerStep_def f)
  next
    case claim
    with J_claim [OF assms claim(1) c claim(3)] show ?thesis by (auto simp: workerStep_def c)
  next
    case skip
    with J_skip [OF assms skip(1) c skip(3)] show ?thesis by (auto simp: workerStep_def c)
  next
    case tick
    with J_tick [OF assms tick(2) tick(1), of now] show ?thesis by (auto simp: workerStep_def)
  qed
qed

text \<open>
  A run in which worker \<open>i\<close> makes \<open>n\<close> steps, with any steps of others in between that leave this
  worker alone and do not write the job anew.
\<close>

inductive paced :: "nat \<Rightarrow> string \<Rightarrow> Scheduler \<Rightarrow> nat \<Rightarrow> Scheduler \<Rightarrow> bool" for i jid sc where
  P_nil: "paced i jid sc 0 sc"
| P_mine: "paced i jid sc n sc' \<Longrightarrow> i < length (sc_workers sc') \<Longrightarrow> paced i jid sc (Suc n) (workerStep i now sc')"
| P_other: "paced i jid sc n sc' \<Longrightarrow> jobStep sc' e sc'' \<Longrightarrow> e \<noteq> Put jid \<Longrightarrow> i < length (sc_workers sc'')
     \<Longrightarrow> sc_workers sc'' ! i = sc_workers sc' ! i \<Longrightarrow> paced i jid sc n sc''"

section \<open>A job that runs is in some worker's hands\<close>

definition inHand :: "string \<Rightarrow> worker \<Rightarrow> bool" where
  "inHand jid w \<longleftrightarrow> (\<exists>job t. wk_Job w = Some (job, jid, t))"

definition runsSomewhere :: "string \<Rightarrow> Scheduler \<Rightarrow> bool" where
  "runsSomewhere jid sc \<longleftrightarrow>
     statusOf sc jid \<noteq> Some ''completed''
     \<and> (statusOf sc jid = Some ''running'' \<longrightarrow> (\<exists>w \<in> set (sc_workers sc). inHand jid w))"

lemma kept_worker: "w \<in> set ws \<Longrightarrow> \<not> P (ws ! i) \<Longrightarrow> P w \<Longrightarrow> w \<in> set (ws[i := v])"
  by (metis in_set_conv_nth length_list_update nth_list_update_neq)

lemma kept_elsewhere:
  assumes "w \<in> set ws" and "\<not> P (ws ! i)" and "P w"
  shows "w \<in> set (take i ws @ drop (Suc i) ws)"
proof -
  obtain k where k: "k < length ws" "w = ws ! k" using assms(1) by (auto simp: in_set_conv_nth)
  with assms have "k \<noteq> i" by auto
  show ?thesis
  proof (cases "k < i")
    case True
    with k have "w = take i ws ! k" "k < length (take i ws)" by auto
    then show ?thesis by (metis UnI1 nth_mem set_append)
  next
    case False
    with k \<open>k \<noteq> i\<close> have "w = drop (Suc i) ws ! (k - Suc i)" "k - Suc i < length (drop (Suc i) ws)" by auto
    then show ?thesis by (metis UnI2 nth_mem set_append)
  qed
qed

lemma finish_status:
  "map_option jb_Status (mget (finish j (runJob job t now) s) jid)
     = (if j = jid \<and> map_option jb_Status (mget s jid) = Some ''running'' then Some ''failed''
        else map_option jb_Status (mget s jid))"
  by (auto simp: finish_def runJob_def Let_def split: option.split)

lemma step_runs:
  assumes "jobStep sc e sc'" and "e \<noteq> Put jid" and "runsSomewhere jid sc"
  shows "runsSomewhere jid sc'"
  using assms(1)
proof cases
  case (J_exit i)
  then have "\<not> inHand jid (sc_workers sc ! i)" by (simp add: inHand_def)
  with kept_elsewhere [of _ "sc_workers sc" "inHand jid" i] assms(3) J_exit show ?thesis
    by (auto simp: runsSomewhere_def statusOf_def simp del: set_append)
next
  case (J_tick i now)
  then have "\<not> inHand jid (sc_workers sc ! i)" by (simp add: inHand_def)
  with kept_worker [of _ "sc_workers sc" "inHand jid" i] assms(3) J_tick show ?thesis
    by (auto simp: runsSomewhere_def statusOf_def)
next
  case (J_claim i now w s job j t)
  have "\<not> inHand jid (sc_workers sc ! i)" using J_claim(4) by (simp add: inHand_def)
  with kept_worker [of _ "sc_workers sc" "inHand jid" i w] claimNext_cases [OF J_claim(5)] assms(3) J_claim show ?thesis
    by (cases "j = jid") (auto simp: runsSomewhere_def statusOf_def inHand_def intro: set_update_memI)
next
  case (J_skip i now w s)
  have "\<not> inHand jid (sc_workers sc ! i)" using J_skip(4) by (simp add: inHand_def)
  with kept_worker [of _ "sc_workers sc" "inHand jid" i w] claimNext_cases [OF J_skip(5)] assms(3) J_skip show ?thesis
    by (auto simp: runsSomewhere_def statusOf_def)
next
  case (J_finish i job j t now w s)
  have "s = finish j (runJob job t now) (sc_store sc)" using J_finish(4,5) by (simp add: finishJob_def)
  with J_finish(2) have "sc_store sc' = finish j (runJob job t now) (sc_store sc)" by simp
  then have s: "statusOf sc' jid =
      (if j = jid \<and> statusOf sc jid = Some ''running'' then Some ''failed'' else statusOf sc jid)"
    by (simp only: statusOf_def finish_status)
  show ?thesis
  proof (cases "j = jid")
    case False
    then have "\<not> inHand jid (sc_workers sc ! i)" using J_finish(4) by (simp add: inHand_def)
    with kept_worker [of _ "sc_workers sc" "inHand jid" i w] assms(3) J_finish False s show ?thesis
      by (auto simp: runsSomewhere_def)
  qed (use s assms(3) in \<open>auto simp: runsSomewhere_def split: if_splits\<close>)
next
  case (J_start ok)
  with assms(3) show ?thesis by (auto simp: StartScheduler_def runsSomewhere_def statusOf_def split: if_splits)
next
  case J_stop
  with assms(3) show ?thesis by (simp add: StopScheduler_def runsSomewhere_def statusOf_def)
qed (use assms(2,3) in \<open>auto simp: runsSomewhere_def statusOf_def Add_def Update_def Cancel_def DeleteJob_def Let_def
  split: option.splits if_splits\<close>)

section \<open>Progress\<close>

text \<open>How many of its steps a worker is away from a job of its queue.\<close>

definition ahead :: "string \<Rightarrow> worker \<Rightarrow> nat" where
  "ahead jid w = 2 * length (takeWhile (\<lambda>j. j \<noteq> jid) (wk_Queue w)) + (if wk_Job w = None then 1 else 2)"

definition waits :: "nat \<Rightarrow> string \<Rightarrow> nat \<Rightarrow> Scheduler \<Rightarrow> bool" where
  "waits i jid k sc \<longleftrightarrow>
     statusOf sc jid = Some ''pending'' \<longrightarrow> jid \<in> set (wk_Queue (sc_workers sc ! i)) \<and> ahead jid (sc_workers sc ! i) \<le> k"

lemma claimNext_queue: "claimNext now s w = (w', s') \<Longrightarrow> wk_Queue w' = tl (wk_Queue w)"
  by (auto simp: claimNext_def split: list.splits option.splits prod.splits)

lemma claimNext_head:
  "wk_Queue w = jid # js \<Longrightarrow> map_option jb_Status (mget s jid) = Some ''pending'' \<Longrightarrow>
     map_option jb_Status (mget (snd (claimNext now s w)) jid) = Some ''running''"
  by (auto simp: claimNext_def claim_def Let_def)

lemma workerStep_store [simp]: "i < length (sc_workers sc) \<Longrightarrow> length (sc_workers (workerStep i now sc)) = length (sc_workers sc)"
  by (simp add: workerStep_def Let_def split: prod.split)

lemma workerStep_waits:
  assumes "i < length (sc_workers sc)" and "waits i jid (Suc k) sc"
  shows "waits i jid k (workerStep i now sc)"
  unfolding waits_def
proof
  let ?w = "sc_workers sc ! i" and ?w' = "sc_workers (workerStep i now sc) ! i"
  assume p: "statusOf (workerStep i now sc) jid = Some ''pending''"
  obtain e where "jobStep sc e (workerStep i now sc)" "e \<noteq> Put jid" using workerStep_jobStep [OF assms(1)] by blast
  with p step_moves moves_pending have q: "statusOf sc jid = Some ''pending''" by metis
  with assms(2) have w: "jid \<in> set (wk_Queue ?w)" "ahead jid ?w \<le> Suc k" by (auto simp: waits_def)
  show "jid \<in> set (wk_Queue ?w') \<and> ahead jid ?w' \<le> k"
  proof (cases "wk_Job ?w")
    case (Some x)
    with assms(1) have "wk_Queue ?w' = wk_Queue ?w" "wk_Job ?w' = None"
      by (cases x; simp add: workerStep_def finishJob_def)+
    with w Some show ?thesis by (simp add: ahead_def)
  next
    case None
    obtain v s where c: "claimNext now (sc_store sc) ?w = (v, s)" by fastforce
    from w(1) obtain j js where u: "wk_Queue ?w = j # js" by (cases "wk_Queue ?w") auto
    with None assms(1) have s: "?w' = v" "sc_store (workerStep i now sc) = s" by (auto simp: workerStep_def c)
    have "j \<noteq> jid"
      using claimNext_head [of ?w j js "sc_store sc" now] u p q c s(2) by (auto simp: statusOf_def)
    with w u None claimNext_queue [OF c] s(1) show ?thesis by (auto simp: ahead_def)
  qed
qed

lemma paced_waits:
  assumes "paced i jid sc n sc'" and "waits i jid k sc" and "runsSomewhere jid sc"
  shows "runsSomewhere jid sc' \<and> (\<forall>m. k \<le> n + m \<longrightarrow> waits i jid m sc')"
  using assms
proof (induction rule: paced.induct)
  case P_nil
  then show ?case by (auto simp: waits_def)
next
  case (P_mine n sc' now)
  then have "waits i jid m (workerStep i now sc')" if "k \<le> Suc n + m" for m
    using that workerStep_waits [of i sc' jid m now] by simp
  moreover obtain e where "jobStep sc' e (workerStep i now sc')" "e \<noteq> Put jid"
    using workerStep_jobStep P_mine(2) by blast
  ultimately show ?case using P_mine step_runs by blast
next
  case (P_other n sc' e sc'')
  then have "statusOf sc'' jid = Some ''pending'' \<Longrightarrow> statusOf sc' jid = Some ''pending''"
    using step_moves moves_pending by metis
  with P_other step_runs show ?case by (auto simp: waits_def)
qed

lemma paced_run: "paced i jid sc n sc' \<Longrightarrow> \<exists>es. jobRun sc es sc' \<and> Put jid \<notin> set es"
proof (induction rule: paced.induct)
  case P_nil
  have "jobRun sc [] sc" by (rule JR_nil)
  then show ?case by (metis empty_iff empty_set)
next
  case (P_mine n sc' now)
  then obtain es e where "jobRun sc es sc'" "Put jid \<notin> set es" "jobStep sc' e (workerStep i now sc')" "e \<noteq> Put jid"
    using workerStep_jobStep by blast
  then have "jobRun sc (es @ [e]) (workerStep i now sc')" "Put jid \<notin> set (es @ [e])" by (auto intro: JR_snoc)
  then show ?case by blast
next
  case (P_other n sc' e sc'')
  then obtain es where "jobRun sc es sc'" "Put jid \<notin> set es" by blast
  with P_other have "jobRun sc (es @ [e]) sc''" "Put jid \<notin> set (es @ [e])" by (auto intro: JR_snoc)
  then show ?case by blast
qed

lemma dueJobs_iff: "jid \<in> set (dueJobs now s) \<longleftrightarrow>
    (\<exists>job. (jid, job) \<in> set s \<and> jb_Status job = ''pending'' \<and> jb_ScheduledAt job < now)"
  by (force simp: dueJobs_def)

lemma ahead_bound: "jid \<in> set (wk_Queue w) \<Longrightarrow> wk_Job w = None \<Longrightarrow> ahead jid w < 2 * length (wk_Queue w)"
proof -
  assume "jid \<in> set (wk_Queue w)" "wk_Job w = None"
  moreover have "length (takeWhile (\<lambda>j. j \<noteq> jid) xs) < length xs" if "jid \<in> set xs" for xs
    using that by (induction xs) auto
  from this [of "wk_Queue w"] have ?thesis if "jid \<in> set (wk_Queue w)" "wk_Job w = None" using that by (simp add: ahead_def)
  ultimately show ?thesis by blast
qed

text \<open>C40: A job that is due when a worker ticks gets its turn, whatever the other workers and the
  callers do in between (as long as none writes the job anew): once that worker has made twice as
  many further steps as jobs were due, the job has failed, as every job does while the wrap-up is
  not wired, has been cancelled or deleted, or is in the hands of a worker. It is never left pending
  and never completed. A worker always has a step to make.\<close>

theorem due_job_runs:
  assumes "i < length (sc_workers sc)" and "wk_Job (sc_workers sc ! i) = None" and "wk_Queue (sc_workers sc ! i) = []"
    and "mget (sc_store sc) jid = Some job" and "jb_Status job = ''pending''" and "jb_ScheduledAt job < now"
    and "paced i jid (workerStep i now sc) n sc'" and "2 * length (dueJobs now (sc_store sc)) \<le> n"
  shows "statusOf sc' jid \<in> {None, Some ''failed'', Some ''cancelled'', Some ''running''}
    \<and> (statusOf sc' jid = Some ''running'' \<longrightarrow> (\<exists>w \<in> set (sc_workers sc'). inHand jid w))
    \<and> (i < length (sc_workers sc') \<longrightarrow> (\<exists>e. jobStep sc' e (workerStep i later sc')))"
proof -
  let ?sc = "workerStep i now sc" and ?w = "sc_workers (workerStep i now sc) ! i"
  from assms(1-3) have w: "wk_Queue ?w = dueJobs now (sc_store sc)" "wk_Job ?w = None" and s: "sc_store ?sc = sc_store sc"
    by (simp_all add: workerStep_def tickWorker_def)
  have m: "jid \<in> set (wk_Queue ?w)" unfolding w dueJobs_iff using assms(4-6) map_of_SomeD by fastforce
  have st: "statusOf ?sc jid = Some ''pending''" using assms(4,5) by (simp add: statusOf_def s)
  then have r: "runsSomewhere jid ?sc" by (simp add: runsSomewhere_def)
  have "waits i jid (ahead jid ?w) ?sc" using m by (simp add: waits_def)
  from paced_waits [OF assms(7) this r] have p: "runsSomewhere jid sc'" "ahead jid ?w \<le> n \<longrightarrow> waits i jid 0 sc'" by auto
  moreover have "ahead jid ?w \<le> n" using ahead_bound [OF m w(2)] assms(8) w(1) by simp
  ultimately have "statusOf sc' jid \<noteq> Some ''pending''" by (auto simp: waits_def ahead_def split: if_splits)
  moreover obtain es where "jobRun ?sc es sc'" "Put jid \<notin> set es" using paced_run [OF assms(7)] by blast
  then have "statusOf sc' jid \<in> future (Some ''pending'')" using life_invariant st by metis
  moreover have "i < length (sc_workers sc') \<longrightarrow> (\<exists>e. jobStep sc' e (workerStep i later sc'))"
    using workerStep_jobStep by blast
  ultimately show ?thesis using p(1) by (auto simp: runsSomewhere_def)
qed

lemma due_job_runs_witness:
  "\<exists>sc'. statusOf sc' ''j'' \<in> {None, Some ''failed'', Some ''cancelled'', Some ''running''}
    \<and> sc_workers sc' = [\<lparr>wk_Queue = [], wk_Job = None\<rparr>]"
proof -
  let ?w = "\<lparr>wk_Queue = [], wk_Job = None\<rparr>" and ?sc = "exampleScheduler\<lparr>sc_workers := [\<lparr>wk_Queue = [], wk_Job = None\<rparr>]\<rparr>"
  have "paced 0 ''j'' (workerStep 0 2 ?sc) (Suc (Suc 0)) (workerStep 0 4 (workerStep 0 3 (workerStep 0 2 ?sc)))"
    by (intro P_mine P_nil) simp_all
  moreover have "dueJobs 2 (sc_store ?sc) = [''j'']" by (simp add: exampleScheduler_def exampleJob_def dueJobs_def)
  moreover have "sc_workers (workerStep 0 4 (workerStep 0 3 (workerStep 0 2 ?sc))) = [?w]" by code_simp
  ultimately show ?thesis
    using due_job_runs [of 0 ?sc "''j''" exampleJob 2 "Suc (Suc 0)"] by (auto simp: exampleScheduler_def exampleJob_def)
qed

end
