(* ===== verification/LineDiff.thy ===== *)
theory LineDiff
  imports Feedback
begin

text \<open>
  cmd/egw-desktop/yamledit.go, the text side: \<open>diffLines\<close>, a line diff by longest common
  subsequence, and \<open>patched\<close>, which carries the change between two renderings of a document over
  to the original lines. The dynamic table of the sources (32-bit entries, so for fewer than
  \<open>2 ^ 31\<close> lines) is a list of rows, filled from the last line up.
\<close>

section \<open>The diff\<close>

datatype diffOp = Keep nat nat | Drop nat nat | Plus nat nat

text \<open>Row \<open>i\<close> of the table from the row below it; \<open>lcs[i][m] = 0\<close>.\<close>

fun lcsRow :: "'a \<Rightarrow> 'a list \<Rightarrow> nat list \<Rightarrow> nat list" where
  "lcsRow x (y # ys) (d # below) =
     (let r = lcsRow x ys below
      in (if x = y then hd below + 1 else if hd r \<le> d then d else hd r) # r)"
| "lcsRow x _ _ = [0]"

fun lcsTable :: "'a list \<Rightarrow> 'a list \<Rightarrow> nat list list" where
  "lcsTable [] ys = [replicate (length ys + 1) 0]"
| "lcsTable (x # xs) ys = (let t = lcsTable xs ys in lcsRow x ys (hd t) # t)"

text \<open>The walk; the table is cut to the rows from \<open>i\<close> and the columns from \<open>j\<close> on.\<close>

function diffFrom :: "nat \<Rightarrow> nat \<Rightarrow> 'a list \<Rightarrow> 'a list \<Rightarrow> nat list list \<Rightarrow> diffOp list" where
  "diffFrom i j (x # xs) (y # ys) t =
     (if x = y then Keep i j # diffFrom (i + 1) (j + 1) xs ys (map tl (tl t))
      else if hd (tl (hd t)) \<le> hd (hd (tl t)) then Drop i j # diffFrom (i + 1) j xs (y # ys) (tl t)
      else Plus i j # diffFrom i (j + 1) (x # xs) ys (map tl t))"
| "diffFrom i j (x # xs) [] t = Drop i j # diffFrom (i + 1) j xs [] (tl t)"
| "diffFrom i j [] (y # ys) t = Plus i j # diffFrom i (j + 1) [] ys (map tl t)"
| "diffFrom i j [] [] t = []"
  by pat_completeness auto
termination
  by (relation "measure (\<lambda>(i, j, xs, ys, t). length xs + length ys)") auto

definition diffLines :: "'a list \<Rightarrow> 'a list \<Rightarrow> diffOp list" where
  "diffLines a b = diffFrom 0 0 a b (lcsTable a b)"

section \<open>The patch\<close>

text \<open>\<open>Split\<close> after \<open>ReplaceAll\<close> of CRLF and \<open>TrimSuffix\<close>; the empty text has no lines.\<close>

definition linesOf :: "string \<Rightarrow> string list" where
  "linesOf s = (if s = [] then [] else splitOn (CHR 0x0A) s)"

definition splitLines :: "string \<Rightarrow> string list" where
  "splitLines s = linesOf (trimSuffix (replaceAll s crlf lf) lf)"

definition normLine :: "string \<Rightarrow> string" where
  "normLine s = join '' '' (fields s)"

text \<open>The lines of the original that hold more than white space, with their numbers.\<close>

definition keyLines :: "string list \<Rightarrow> nat list" where
  "keyLines orig = filter (\<lambda>i. trimSpace (orig ! i) \<noteq> []) [0..<length orig]"

text \<open>\<open>aToOrig\<close>: the original line that a rendered line stands for.\<close>

definition lineMap :: "string list \<Rightarrow> string list \<Rightarrow> (nat \<times> nat) list" where
  "lineMap orig a =
     (let idx = keyLines orig
      in concat (map (\<lambda>p. case p of Keep i j \<Rightarrow> [(i, idx ! j)] | _ \<Rightarrow> [])
           (diffLines (map normLine a) (map (\<lambda>i. normLine (orig ! i)) idx))))"

text \<open>\<open>flushTo\<close>; \<open>nxt\<close> is \<open>last + 1\<close>.\<close>

definition flushLines :: "string list \<Rightarrow> nat set \<Rightarrow> nat \<Rightarrow> nat \<Rightarrow> string list" where
  "flushLines orig mapped nxt till = map (\<lambda>k. orig ! k) (filter (\<lambda>k. k \<notin> mapped) [nxt..<till])"

fun patchFrom ::
    "string list \<Rightarrow> string list \<Rightarrow> string \<Rightarrow> (nat \<times> nat) list \<Rightarrow> nat set \<Rightarrow> nat \<Rightarrow> diffOp list \<Rightarrow> string list" where
  "patchFrom orig b nl m mapped nxt [] = flushLines orig mapped nxt (length orig)"
| "patchFrom orig b nl m mapped nxt (Keep i j # ops) =
     (case map_of m i of
        Some o' \<Rightarrow> if nxt \<le> o'
          then flushLines orig mapped nxt o' @ orig ! o' # patchFrom orig b nl m mapped (o' + 1) ops
          else patchFrom orig b nl m mapped nxt ops
      | None \<Rightarrow> patchFrom orig b nl m mapped nxt ops)"
| "patchFrom orig b nl m mapped nxt (Drop i j # ops) =
     (case map_of m i of
        Some o' \<Rightarrow> if nxt \<le> o'
          then flushLines orig mapped nxt o' @ patchFrom orig b nl m mapped (o' + 1) ops
          else patchFrom orig b nl m mapped nxt ops
      | None \<Rightarrow> patchFrom orig b nl m mapped nxt ops)"
| "patchFrom orig b nl m mapped nxt (Plus i j # ops) = (b ! j @ nl) # patchFrom orig b nl m mapped nxt ops"

definition patchLines :: "string list \<Rightarrow> string list \<Rightarrow> string list \<Rightarrow> string \<Rightarrow> string list" where
  "patchLines orig a b nl =
     (let m = lineMap orig a in patchFrom orig b nl m (snd ` set m) 0 (diffLines a b))"

text \<open>A file that mostly ends its lines with CRLF gets new lines of that kind.\<close>

fun countSub :: "string \<Rightarrow> nat" where
  "countSub (c # d # s) = (if c = CHR 0x0D \<and> d = CHR 0x0A then Suc (countSub s) else countSub (d # s))"
| "countSub _ = 0"

definition newLineEnd :: "string \<Rightarrow> string" where
  "newLineEnd s = (if count_list s (CHR 0x0A) < 2 * countSub s then [CHR 0x0D] else [])"

definition patchText :: "string \<Rightarrow> string \<Rightarrow> string \<Rightarrow> string" where
  "patchText original r0 r1 =
     (if r0 = r1 then original
      else join lf (patchLines (linesOf (trimSuffix original lf)) (splitLines r0) (splitLines r1) (newLineEnd original))
        @ (if hasSuffix original lf then lf else []))"

section \<open>The diff is a shortest edit script\<close>

text \<open>The specification: the length of a longest common subsequence.\<close>

function lcsLen :: "'a list \<Rightarrow> 'a list \<Rightarrow> nat" where
  "lcsLen (x # xs) (y # ys) =
     (if x = y then Suc (lcsLen xs ys) else max (lcsLen xs (y # ys)) (lcsLen (x # xs) ys))"
| "lcsLen [] ys = 0"
| "lcsLen xs [] = 0"
  by pat_completeness auto
termination
  by (relation "measure (\<lambda>(xs, ys). length xs + length ys)") auto

lemma lcsLen_Nil [simp]: "lcsLen xs [] = 0"
  by (cases xs) simp_all

fun sufs :: "'a list \<Rightarrow> 'a list list" where
  "sufs [] = [[]]"
| "sufs (x # xs) = (x # xs) # sufs xs"

lemma sufs_hd [simp]: "hd (sufs xs) = xs" "sufs xs \<noteq> []"
  by (cases xs; simp)+

lemma lcsRow_spec: "lcsRow x ys (map (lcsLen xs) (sufs ys)) = map (lcsLen (x # xs)) (sufs ys)"
proof (induction ys)
  case (Cons y ys)
  have "hd (map (lcsLen zs) (sufs ys)) = lcsLen zs ys" for zs :: "'a list" by (simp add: hd_map)
  with Cons show ?case by (simp add: Let_def max_def)
qed simp

lemma lcsTable_spec: "lcsTable xs ys = map (\<lambda>s. map (lcsLen s) (sufs ys)) (sufs xs)"
proof (induction xs)
  case Nil
  have "map (lcsLen []) (sufs ys) = replicate (length ys + 1) 0" by (induction ys) simp_all
  then show ?case by simp
next
  case (Cons x xs)
  then show ?case by (simp add: Let_def hd_map lcsRow_spec)
qed

lemma table_cuts:
  "tl (lcsTable (x # xs) ys) = lcsTable xs ys" "map tl (lcsTable xs (y # ys)) = lcsTable xs ys"
  "map tl (tl (lcsTable (x # xs) (y # ys))) = lcsTable xs ys"
  by (simp_all add: lcsTable_spec comp_def)

lemma table_entry: "hd (hd (lcsTable xs ys)) = lcsLen xs ys"
  by (simp add: lcsTable_spec hd_map)

lemma table_right: "hd (tl (hd (lcsTable xs (y # ys)))) = lcsLen xs ys"
  by (cases ys; simp add: lcsTable_spec hd_map)

text \<open>The walk without its table.\<close>

function walk :: "nat \<Rightarrow> nat \<Rightarrow> 'a list \<Rightarrow> 'a list \<Rightarrow> diffOp list" where
  "walk i j (x # xs) (y # ys) =
     (if x = y then Keep i j # walk (i + 1) (j + 1) xs ys
      else if lcsLen (x # xs) ys \<le> lcsLen xs (y # ys) then Drop i j # walk (i + 1) j xs (y # ys)
      else Plus i j # walk i (j + 1) (x # xs) ys)"
| "walk i j (x # xs) [] = Drop i j # walk (i + 1) j xs []"
| "walk i j [] (y # ys) = Plus i j # walk i (j + 1) [] ys"
| "walk i j [] [] = []"
  by pat_completeness auto
termination
  by (relation "measure (\<lambda>(i, j, xs, ys). length xs + length ys)") auto

lemma diffFrom_walk: "diffFrom i j xs ys (lcsTable xs ys) = walk i j xs ys"
proof (induction i j xs ys rule: walk.induct)
  case (1 i j x xs y ys)
  have below: "hd (hd (tl (lcsTable (x # xs) (y # ys)))) = lcsLen xs (y # ys)"
    by (simp only: table_cuts table_entry)
  show ?case
  proof (cases "x = y")
    case True
    show ?thesis
      unfolding diffFrom.simps(1) walk.simps(1) if_P [OF True] table_cuts 1(1) [OF True] ..
  next
    case False
    show ?thesis
      unfolding diffFrom.simps(1) walk.simps(1) if_not_P [OF False] below table_right
      using 1(2,3) [OF False] by (auto simp only: table_cuts split: if_split)
  qed
qed (simp_all only: diffFrom.simps walk.simps table_cuts)

lemma diffLines_walk: "diffLines a b = walk 0 0 a b"
  by (simp add: diffLines_def diffFrom_walk)

fun oldLine :: "diffOp \<Rightarrow> nat list" where
  "oldLine (Keep i j) = [i]" | "oldLine (Drop i j) = [i]" | "oldLine (Plus i j) = []"

fun newLine :: "diffOp \<Rightarrow> nat list" where
  "newLine (Keep i j) = [j]" | "newLine (Drop i j) = []" | "newLine (Plus i j) = [j]"

definition kept :: "diffOp list \<Rightarrow> (nat \<times> nat) list" where
  "kept ops = concat (map (\<lambda>p. case p of Keep i j \<Rightarrow> [(i, j)] | _ \<Rightarrow> []) ops)"

lemma kept_simps [simp]:
  "kept [] = []" "kept (Keep i j # ops) = (i, j) # kept ops" "kept (Drop i j # ops) = kept ops"
  "kept (Plus i j # ops) = kept ops"
  by (simp_all add: kept_def)

lemma walk_old: "concat (map oldLine (walk i j xs ys)) = [i..<i + length xs]"
  by (induction i j xs ys rule: walk.induct) (simp_all del: upt_Suc add: upt_conv_Cons)

lemma walk_new: "concat (map newLine (walk i j xs ys)) = [j..<j + length ys]"
  by (induction i j xs ys rule: walk.induct) (simp_all del: upt_Suc add: upt_conv_Cons)

lemma walk_kept: "(k, l) \<in> set (kept (walk i j xs ys)) \<Longrightarrow> i \<le> k \<and> j \<le> l \<and> k < i + length xs \<and> l < j + length ys \<and> xs ! (k - i) = ys ! (l - j)"
proof (induction i j xs ys rule: walk.induct)
  case (1 i j x xs y ys)
  then show ?case by (auto split: if_splits simp: nth_Cons')
next
  case (2 i j x xs)
  then show ?case by fastforce
next
  case (3 i j y ys)
  then show ?case by fastforce
qed simp

lemma walk_count: "length (kept (walk i j xs ys)) = lcsLen xs ys"
  by (induction i j xs ys rule: walk.induct) (simp_all add: max_def)

text \<open>\<open>lcsLen\<close> is what it says: no common subsequence is longer.\<close>

lemma lcsLen_max: "subseq zs xs \<Longrightarrow> subseq zs ys \<Longrightarrow> length zs \<le> lcsLen xs ys"
proof (induction xs ys arbitrary: zs rule: lcsLen.induct)
  case (1 x xs y ys)
  show ?case
  proof (cases zs)
    case (Cons z zs')
    show ?thesis
    proof (cases "x = y")
      case True
      from 1(4,5) Cons have "subseq zs' xs" "subseq zs' ys"
        by (auto split: if_splits dest: subseq_Cons')
      with 1(1) [OF True] have "length zs' \<le> lcsLen xs ys" by blast
      with True Cons show ?thesis by simp
    next
      case False
      with 1(4,5) Cons have "subseq zs xs \<or> subseq zs ys" by (cases "z = x") simp_all
      then show ?thesis
        using False 1(2) [OF False] 1(3) [OF False] 1(4,5) by (auto simp: le_max_iff_disj)
    qed
  qed simp
qed simp_all

lemma lcsLen_common: "\<exists>zs. subseq zs xs \<and> subseq zs ys \<and> length zs = lcsLen xs ys"
proof (induction xs ys rule: lcsLen.induct)
  case (1 x xs y ys)
  show ?case
  proof (cases "x = y")
    case True
    with 1(1) obtain zs where "subseq zs xs" "subseq zs ys" "length zs = lcsLen xs ys" by blast
    with True have "subseq (x # zs) (x # xs) \<and> subseq (x # zs) (y # ys) \<and> length (x # zs) = lcsLen (x # xs) (y # ys)"
      by simp
    then show ?thesis by blast
  next
    case False
    from 1(2) [OF False] 1(3) [OF False] show ?thesis
      using False by (auto simp: max_def intro: list_emb.intros)
  qed
qed auto

text \<open>C33: The line diff is a shortest edit script. Its operations run through all lines of the old text
  and through all lines of the new one in order, a line is kept only where both agree, and no common
  subsequence of the two is longer than the lines it keeps.\<close>

theorem diffLines_shortest:
  "concat (map oldLine (diffLines a b)) = [0..<length a]
   \<and> concat (map newLine (diffLines a b)) = [0..<length b]
   \<and> list_all (\<lambda>(i, j). i < length a \<and> j < length b \<and> a ! i = b ! j) (kept (diffLines a b))
   \<and> length (kept (diffLines a b)) = Max (length ` {zs. subseq zs a \<and> subseq zs b})"
proof -
  let ?Z = "{zs. subseq zs a \<and> subseq zs b}"
  have fin: "finite (length ` ?Z)"
    by (rule finite_imageI, rule finite_subset [of _ "set (subseqs a)"]) auto
  from lcsLen_common [of a b] have "lcsLen a b \<in> length ` ?Z" by (metis (mono_tags, lifting) image_iff mem_Collect_eq)
  moreover have "n \<le> lcsLen a b" if "n \<in> length ` ?Z" for n using that lcsLen_max by auto
  ultimately have "Max (length ` ?Z) = lcsLen a b" by (intro Max_eqI fin) auto
  then show ?thesis
    using walk_old [of 0 0 a b] walk_new [of 0 0 a b] walk_count [of 0 0 a b] walk_kept [of _ _ 0 0 a b]
    by (auto simp: diffLines_walk list_all_iff)
qed

section \<open>The patch keeps what was not edited\<close>

lemma kept_old: "(k, l) \<in> set (kept ops) \<Longrightarrow> k \<in> set (concat (map oldLine ops))"
  by (induction ops rule: list.induct) (auto simp: kept_def split: diffOp.splits)

lemma walk_sorted:
  "sorted_wrt (\<lambda>p q. fst p < fst q \<and> snd p < snd q) (kept (walk i j xs ys))"
  by (induction i j xs ys rule: walk.induct) (auto dest!: walk_kept)

lemma lineMap_kept:
  "lineMap orig a = map (\<lambda>(i, j). (i, keyLines orig ! j))
     (kept (diffLines (map normLine a) (map (\<lambda>i. normLine (orig ! i)) (keyLines orig))))"
  by (simp add: lineMap_def kept_def Let_def map_concat comp_def)
    (rule arg_cong [of _ _ concat], rule map_cong, auto split: diffOp.split)

lemma keyLines_props: "sorted_wrt (<) (keyLines orig)" "set (keyLines orig) \<subseteq> {..<length orig}"
  by (auto simp: keyLines_def sorted_wrt_filter)

lemma lineMap_sorted: "sorted_wrt (\<lambda>p q. fst p < fst q \<and> snd p < snd q) (lineMap orig a)"
  "\<forall>(i, k)\<in>set (lineMap orig a). k < length orig"
proof -
  let ?idx = "keyLines orig"
  let ?ops = "diffLines (map normLine a) (map (\<lambda>i. normLine (orig ! i)) ?idx)"
  have bound: "l < length ?idx" if "(k, l) \<in> set (kept ?ops)" for k l
    using walk_kept [OF that [unfolded diffLines_walk]] by simp
  have "sorted_wrt (\<lambda>p q. fst p < fst q \<and> snd p < snd q) (kept ?ops)"
    unfolding diffLines_walk by (rule walk_sorted)
  then have "sorted_wrt (\<lambda>p q. fst p < fst q \<and> ?idx ! snd p < ?idx ! snd q) (kept ?ops)"
    using bound keyLines_props(1) [of orig]
    by (elim sorted_wrt_mono_rel [rotated]) (auto simp: sorted_wrt_iff_nth_less)
  then show "sorted_wrt (\<lambda>p q. fst p < fst q \<and> snd p < snd q) (lineMap orig a)"
    by (simp add: lineMap_kept sorted_wrt_map case_prod_beta)
  show "\<forall>(i, k)\<in>set (lineMap orig a). k < length orig"
    using nth_mem [OF bound] keyLines_props(2) [of orig] unfolding lineMap_kept by fastforce
qed

text \<open>The original lines an edit removes, and the new lines it adds.\<close>

definition removedLines :: "(nat \<times> nat) list \<Rightarrow> diffOp list \<Rightarrow> nat set" where
  "removedLines m ops = {o'. \<exists>i j. Drop i j \<in> set ops \<and> map_of m i = Some o'}"

fun addedLines :: "diffOp list \<Rightarrow> nat list" where
  "addedLines [] = []"
| "addedLines (Plus i j # ops) = j # addedLines ops"
| "addedLines (Keep i j # ops) = addedLines ops"
| "addedLines (Drop i j # ops) = addedLines ops"

lemma shuffles_append_left: "zs \<in> shuffles xs ys \<Longrightarrow> us @ zs \<in> shuffles (us @ xs) ys"
  by (induction us) (auto intro: Cons_in_shuffles_leftI)

lemma upt_split3: "k \<le> l \<Longrightarrow> l < n \<Longrightarrow> [k..<n] = [k..<l] @ l # [Suc l..<n]"
  using upt_add_eq_append [of k l "n - l"] by (simp add: upt_conv_Cons)

locale line_patch =
  fixes orig :: "string list" and m :: "(nat \<times> nat) list"
  assumes rising: "map_of m i = Some k \<Longrightarrow> map_of m i' = Some k' \<Longrightarrow> i < i' \<Longrightarrow> k < k'"
    and inside: "map_of m i = Some k \<Longrightarrow> k < length orig"
    and single: "distinct (map fst m)"
begin

text \<open>All mapped lines from \<open>nxt\<close> on are those of the old lines still to come.\<close>

definition pending :: "nat \<Rightarrow> nat list \<Rightarrow> bool" where
  "pending nxt old \<longleftrightarrow> sorted_wrt (<) old
     \<and> (\<forall>i k. map_of m i = Some k \<longrightarrow> (nxt \<le> k \<longleftrightarrow> i \<in> set old))"

lemma pending_step:
  assumes "pending nxt (i # old)" and "map_of m i = Some k"
  shows "pending (Suc k) old" "nxt \<le> k" "\<And>i' k'. map_of m i' = Some k' \<Longrightarrow> nxt \<le> k' \<Longrightarrow> k \<le> k'"
proof -
  from assms have s: "sorted_wrt (<) old" "\<forall>i'\<in>set old. i < i'"
    and iff: "\<And>i' k'. map_of m i' = Some k' \<Longrightarrow> nxt \<le> k' \<longleftrightarrow> i' = i \<or> i' \<in> set old"
    by (auto simp: pending_def)
  show "nxt \<le> k" using iff assms(2) by blast
  have "Suc k \<le> k' \<longleftrightarrow> i' \<in> set old" if "map_of m i' = Some k'" for i' k'
    using rising [OF assms(2) that] rising [OF that assms(2)] iff [OF that] s(2) that assms(2) \<open>nxt \<le> k\<close>
    by (metis Suc_le_eq less_le_not_le linorder_neqE_nat option.inject order.trans)
  with s(1) show "pending (Suc k) old" by (simp add: pending_def)
  show "k \<le> k'" if "map_of m i' = Some k'" "nxt \<le> k'" for i' k'
    using iff [OF that(1)] that rising [OF assms(2) that(1)] s(2) assms(2) by fastforce
qed

lemma pending_skip: "pending nxt (i # old) \<Longrightarrow> map_of m i = None \<Longrightarrow> pending nxt old"
  by (auto simp: pending_def)

lemma flush_all:
  assumes "\<And>i k. map_of m i = Some k \<Longrightarrow> nxt \<le> k \<Longrightarrow> till \<le> k"
  shows "flushLines orig (snd ` set m) nxt till = map ((!) orig) [nxt..<till]"
proof -
  have "k \<notin> snd ` set m" if "k \<in> set [nxt..<till]" for k
    using assms [OF map_of_is_SomeI [OF single]] that by fastforce
  then show ?thesis by (simp add: flushLines_def filter_id_conv)
qed

lemma removed_pending:
  assumes "pending nxt (concat (map oldLine ops))" and "k \<in> removedLines m ops"
  shows "nxt \<le> k"
proof -
  from assms(2) obtain i j where "Drop i j \<in> set ops" "map_of m i = Some k" by (auto simp: removedLines_def)
  moreover from this have "i \<in> set (concat (map oldLine ops))" by force
  ultimately show ?thesis using assms(1) by (auto simp: pending_def)
qed

definition remaining :: "nat \<Rightarrow> nat set \<Rightarrow> string list" where
  "remaining nxt R = map ((!) orig) (filter (\<lambda>k. k \<notin> R) [nxt..<length orig])"

lemma remaining_split:
  assumes "\<And>l. l \<in> R \<Longrightarrow> Suc k \<le> l" and "nxt \<le> k" and "k < length orig"
  shows "remaining nxt R = map ((!) orig) [nxt..<k] @ orig ! k # remaining (Suc k) R"
    and "remaining nxt (insert k R) = map ((!) orig) [nxt..<k] @ remaining (Suc k) R"
proof -
  have "filter (\<lambda>l. l \<notin> R) [nxt..<k] = [nxt..<k]" "filter (\<lambda>l. l \<notin> insert k R) [nxt..<k] = [nxt..<k]"
    "filter (\<lambda>l. l \<notin> insert k R) [Suc k..<length orig] = filter (\<lambda>l. l \<notin> R) [Suc k..<length orig]" "k \<notin> R"
    using assms(1) by (fastforce simp: filter_id_conv intro: filter_cong)+
  then show "remaining nxt R = map ((!) orig) [nxt..<k] @ orig ! k # remaining (Suc k) R"
    and "remaining nxt (insert k R) = map ((!) orig) [nxt..<k] @ remaining (Suc k) R"
    unfolding remaining_def upt_split3 [OF assms(2,3)] by (simp_all del: upt_Suc)
qed

lemma removed_simps:
  "removedLines m (Keep i j # ops) = removedLines m ops" "removedLines m (Plus i j # ops) = removedLines m ops"
  "removedLines m (Drop i j # ops) = (case map_of m i of None \<Rightarrow> id | Some k \<Rightarrow> insert k) (removedLines m ops)"
  by (auto simp: removedLines_def split: option.split)

lemma patchFrom_shuffles:
  "pending nxt (concat (map oldLine ops)) \<Longrightarrow> nxt \<le> length orig \<Longrightarrow>
   patchFrom orig b nl m (snd ` set m) nxt ops
     \<in> shuffles (remaining nxt (removedLines m ops)) (map (\<lambda>j. b ! j @ nl) (addedLines ops))"
proof (induction ops arbitrary: nxt)
  case Nil
  then have "flushLines orig (snd ` set m) nxt (length orig) = map ((!) orig) [nxt..<length orig]"
    by (intro flush_all) (simp add: pending_def)
  then show ?case by (simp add: remaining_def removedLines_def)
next
  case (Cons p ops)
  show ?case
  proof (cases p)
    case (Plus i j)
    with Cons show ?thesis by (auto simp: removed_simps intro: Cons_in_shuffles_rightI)
  next
    case (Keep i j)
    show ?thesis
    proof (cases "map_of m i")
      case None
      with Cons Keep show ?thesis by (auto simp: removed_simps intro: pending_skip)
    next
      case (Some k)
      note step = pending_step [OF Cons.prems(1) [unfolded Keep, simplified] Some]
      note rest = Cons.IH [OF step(1)] and inside [OF Some]
      with Keep Some step show ?thesis
        using removed_pending [OF step(1)] flush_all [of nxt k]
        by (auto simp: removed_simps remaining_split(1) [of _ k, OF _ step(2) inside [OF Some]]
            intro!: shuffles_append_left Cons_in_shuffles_leftI)
    qed
  next
    case (Drop i j)
    show ?thesis
    proof (cases "map_of m i")
      case None
      with Cons Drop show ?thesis by (auto simp: removed_simps intro: pending_skip)
    next
      case (Some k)
      note step = pending_step [OF Cons.prems(1) [unfolded Drop, simplified] Some]
      note rest = Cons.IH [OF step(1)] and inside [OF Some]
      with Drop Some step show ?thesis
        using removed_pending [OF step(1)] flush_all [of nxt k]
        by (auto simp: removed_simps remaining_split(2) [of _ k, OF _ step(2) inside [OF Some]]
            intro!: shuffles_append_left)
    qed
  qed
qed

end

lemma sorted_map_of:
  assumes "sorted_wrt (\<lambda>p q. fst p < fst q \<and> snd p < snd q) (ps :: (nat \<times> nat) list)"
  shows "distinct (map fst ps)"
    and "map_of ps i = Some k \<Longrightarrow> map_of ps i' = Some k' \<Longrightarrow> i < i' \<Longrightarrow> k < k'"
proof -
  show "distinct (map fst ps)" using assms by (induction ps) auto
  show "k < k'" if "map_of ps i = Some k" "map_of ps i' = Some k'" "i < i'"
    using assms that by (induction ps) (fastforce split: if_splits dest: map_of_SomeD)+
qed

interpretation patch: line_patch orig "lineMap orig a" for orig a
proof unfold_locales
  show "distinct (map fst (lineMap orig a))" by (rule sorted_map_of(1) [OF lineMap_sorted(1)])
  show "k < k'" if "map_of (lineMap orig a) i = Some k" "map_of (lineMap orig a) i' = Some k'" "i < i'" for i k i' k'
    by (rule sorted_map_of(2) [OF lineMap_sorted(1) that])
  show "k < length orig" if "map_of (lineMap orig a) i = Some k" for i k
    using map_of_SomeD [OF that] lineMap_sorted(2) [of orig a] by auto
qed

lemma lineMap_keys: "map_of (lineMap orig a) i = Some k \<Longrightarrow> i < length a"
  using walk_kept [of i _ 0 0 "map normLine a"] unfolding lineMap_kept diffLines_walk
  by (auto dest!: map_of_SomeD)

text \<open>C34: An edit of a YAML file keeps every line it does not have to touch. The patched lines are the
  original ones, byte for byte and in order, without those that stand for a line the edit removed,
  merged with the new lines in order; blank lines, comments and whatever renders differently stay. A
  file whose document is unchanged is unchanged.\<close>

theorem patch_keeps_lines:
  "patchText original r r = original
   \<and> patchLines orig a b nl \<in> shuffles
       (map (\<lambda>k. orig ! k) (filter (\<lambda>k. k \<notin> removedLines (lineMap orig a) (diffLines a b)) [0..<length orig]))
       (map (\<lambda>j. b ! j @ nl) (addedLines (diffLines a b)))"
proof -
  have "patch.pending orig a 0 (concat (map oldLine (diffLines a b)))"
    by (auto simp: patch.pending_def diffLines_walk walk_old lineMap_keys)
  from patch.patchFrom_shuffles [OF this, of b nl] show ?thesis
    by (simp add: patchText_def patchLines_def Let_def patch.remaining_def)
qed

text \<open>
  A line that the renderer writes differently cannot be removed: here the list was written over
  two lines and rendered on one, and taking \<open>b\<close> out of it leaves the old list behind the new one.
\<close>

lemma wrapped_list_stays:
  "patchText (''ops: [a,'' @ lf @ ''  b]'' @ lf) (''ops: [a, b]'' @ lf) (''ops: [a]'' @ lf)
     = ''ops: [a]'' @ lf @ ''ops: [a,'' @ lf @ ''  b]'' @ lf"
  by code_simp

end
