(* ===== verification/YamlTree.thy ===== *)
theory YamlTree
  imports LineDiff World
begin

text \<open>
  cmd/egw-desktop/yamledit.go, the tree side: YAML nodes and the operations that read and edit
  mappings and sequences. A node is edited through a pointer in the sources; here an operation
  on a mapping inside a document is carried out \<^emph>\<open>at\<close> its path (\<open>mapAt\<close>), which puts the changed
  child back in place. The parser and the printer are parameters.
\<close>

section \<open>Nodes\<close>

datatype nodeKind = NoKind | DocumentNode | SequenceNode | MappingNode | ScalarNode | AliasNode

text \<open>\<open>nd_Rest\<close> stands for comments, anchors and positions, which no operation looks at.\<close>

datatype node = Node (nd_Kind: nodeKind) (nd_Tag: string) (nd_Value: string) (nd_Style: nat) (nd_Rest: string)
  (nd_Content: "node list")

definition scalar :: "string \<Rightarrow> node" where
  "scalar v = Node ScalarNode ''!!str'' v 0 [] []"

definition typedScalar :: "string \<Rightarrow> string \<Rightarrow> node" where
  "typedScalar v tag = Node ScalarNode tag v 0 [] []"

definition emptyMap :: node where
  "emptyMap = Node MappingNode ''!!map'' [] 0 [] []"

definition emptySeq :: node where
  "emptySeq = Node SequenceNode ''!!seq'' [] 0 [] []"

text \<open>The arguments of \<open>mapping\<close>: an empty string leaves its key out.\<close>

datatype mapArg = NodeArg node | StrArg string

definition withContent :: "node list \<Rightarrow> node \<Rightarrow> node" where
  "withContent c n = (case n of Node k t v s r _ \<Rightarrow> Node k t v s r c)"

definition mapping :: "(string \<times> mapArg) list \<Rightarrow> node" where
  "mapping kvs =
     withContent (concat (map (\<lambda>(k, a). case a of
         NodeArg v \<Rightarrow> [scalar k, v]
       | StrArg v \<Rightarrow> if v \<noteq> [] then [scalar k, scalar v] else []) kvs)) emptyMap"

section \<open>Mappings\<close>

text \<open>The content of a mapping alternates keys and values; a last key without a value is not read.\<close>

fun pairGet :: "string \<Rightarrow> node list \<Rightarrow> node option" where
  "pairGet key (k # v # rest) = (if nd_Value k = key then Some v else pairGet key rest)"
| "pairGet key _ = None"

fun pairSet :: "string \<Rightarrow> node \<Rightarrow> node list \<Rightarrow> node list option" where
  "pairSet key n (k # v # rest) =
     (if nd_Value k = key then Some (k # n # rest) else map_option (\<lambda>r. k # v # r) (pairSet key n rest))"
| "pairSet key n _ = None"

fun pairDelete :: "string \<Rightarrow> node list \<Rightarrow> node list option" where
  "pairDelete key (k # v # rest) =
     (if nd_Value k = key then Some rest else map_option (\<lambda>r. k # v # r) (pairDelete key rest))"
| "pairDelete key _ = None"

fun pairKeys :: "node list \<Rightarrow> string list" where
  "pairKeys (k # v # rest) = nd_Value k # pairKeys rest"
| "pairKeys _ = []"

definition mapGet :: "node \<Rightarrow> string \<Rightarrow> node option" where
  "mapGet m key = (if nd_Kind m \<noteq> MappingNode then None else pairGet key (nd_Content m))"

text \<open>\<open>mapGet\<close> of a node that may be nil.\<close>

definition optGet :: "node option \<Rightarrow> string \<Rightarrow> node option" where
  "optGet m key = (case m of None \<Rightarrow> None | Some n \<Rightarrow> mapGet n key)"

definition mapSet :: "node \<Rightarrow> string \<Rightarrow> node \<Rightarrow> node" where
  "mapSet m key v =
     withContent (case pairSet key v (nd_Content m) of
         Some c \<Rightarrow> c
       | None \<Rightarrow> nd_Content m @ [scalar key, v]) m"

definition mapDelete :: "node \<Rightarrow> string \<Rightarrow> node option" where
  "mapDelete m key = map_option (\<lambda>c. withContent c m) (pairDelete key (nd_Content m))"

definition mapKeys :: "node \<Rightarrow> string list" where
  "mapKeys m = (if nd_Kind m \<noteq> MappingNode then [] else pairKeys (nd_Content m))"

text \<open>What \<open>mapEnsure\<close> returns: the child, turned into an empty mapping when it is no mapping.\<close>

definition asMapping :: "node \<Rightarrow> node" where
  "asMapping n = (if nd_Kind n = MappingNode then n else Node MappingNode ''!!map'' [] (nd_Style n) (nd_Rest n) [])"

definition ensured :: "node \<Rightarrow> string \<Rightarrow> node" where
  "ensured m key = (case mapGet m key of Some v \<Rightarrow> asMapping v | None \<Rightarrow> emptyMap)"

text \<open>\<open>mapEnsure\<close>, followed by what is done to the child.\<close>

definition mapEnsure :: "node \<Rightarrow> string \<Rightarrow> (node \<Rightarrow> node) \<Rightarrow> node" where
  "mapEnsure m key f = mapSet m key (f (ensured m key))"

section \<open>Sequences\<close>

definition seqEnsured :: "node \<Rightarrow> string \<Rightarrow> node" where
  "seqEnsured m key =
     (case mapGet m key of
        Some v \<Rightarrow> if nd_Kind v = SequenceNode then v else emptySeq
      | None \<Rightarrow> emptySeq)"

definition seqEnsure :: "node \<Rightarrow> string \<Rightarrow> (node \<Rightarrow> node) \<Rightarrow> node" where
  "seqEnsure m key f = mapSet m key (f (seqEnsured m key))"

definition seqHas :: "node \<Rightarrow> string \<Rightarrow> bool" where
  "seqHas s v \<longleftrightarrow> list_ex (\<lambda>c. nd_Value c = v) (nd_Content s)"

fun removeFirst :: "string \<Rightarrow> node list \<Rightarrow> node list" where
  "removeFirst v [] = []"
| "removeFirst v (c # cs) = (if nd_Value c = v then cs else c # removeFirst v cs)"

definition seqRemove :: "node \<Rightarrow> string \<Rightarrow> node" where
  "seqRemove s v = withContent (removeFirst v (nd_Content s)) s"

definition seqAppend :: "node \<Rightarrow> node \<Rightarrow> node" where
  "seqAppend s n = withContent (nd_Content s @ [n]) s"

text \<open>\<open>deepCopy\<close> shares nothing with its argument; as a value it is equal to it.\<close>

primrec deepCopy :: "node \<Rightarrow> node" where
  "deepCopy (Node k t v s r c) = Node k t v s r (map deepCopy c)"

definition identRe :: re where
  "identRe = Seq (Cls isLowerLetter) (Star (Cls (\<lambda>c. isLowerLetter c \<or> isDigit c \<or> c = CHR ''_'' \<or> c = CHR ''-'')))"

section \<open>Files\<close>

text \<open>The YAML library: decoding a document (an empty one has no content) and printing a node.\<close>

record yamlLib =
  yl_parse :: "string \<Rightarrow> string + node"
  yl_render :: "node \<Rightarrow> string + string"

record yamlFile =
  yf_path :: string
  yf_original :: string
  yf_doc :: node

datatype yamlError = YamlRead string string | YamlParse string string | YamlRender string

definition openYAML :: "yamlLib \<Rightarrow> fsFaults \<Rightarrow> files \<Rightarrow> string \<Rightarrow> yamlError + yamlFile" where
  "openYAML Y X F path =
     (case fs_read X path of
        Some e \<Rightarrow> Inl (YamlRead path e)
      | None \<Rightarrow>
          (case mget F path of
             None \<Rightarrow> Inl (YamlRead path ''does not exist'')
           | Some text \<Rightarrow>
               rbind (mapErr (YamlParse path) (yl_parse Y text)) (\<lambda>doc.
                 Inr \<lparr>yf_path = path, yf_original = text,
                   yf_doc = (if nd_Content doc = []
                     then Node DocumentNode (nd_Tag doc) (nd_Value doc) (nd_Style doc) (nd_Rest doc)
                       [Node MappingNode [] [] 0 [] []]
                     else doc)\<rparr>)))"

definition rootNode :: "yamlFile \<Rightarrow> node" where
  "rootNode f = hd (nd_Content (yf_doc f))"

definition withRoot :: "node \<Rightarrow> yamlFile \<Rightarrow> yamlFile" where
  "withRoot n f = f\<lparr>yf_doc := withContent (n # tl (nd_Content (yf_doc f))) (yf_doc f)\<rparr>"

definition patched :: "yamlLib \<Rightarrow> yamlFile \<Rightarrow> yamlError + string" where
  "patched Y f =
     rbind (mapErr (YamlParse (yf_path f)) (yl_parse Y (yf_original f))) (\<lambda>origDoc.
     rbind (mapErr YamlRender (yl_render Y origDoc)) (\<lambda>r0.
     rbind (mapErr YamlRender (yl_render Y (yf_doc f))) (\<lambda>r1.
     Inr (patchText (yf_original f) r0 r1))))"

section \<open>A mapping is a keyed store\<close>

text \<open>What an editor of keyed data relies on.\<close>

locale keyed_store =
  fixes good :: "'m \<Rightarrow> bool" and get :: "'m \<Rightarrow> string \<Rightarrow> 'v option"
    and put :: "'m \<Rightarrow> string \<Rightarrow> 'v \<Rightarrow> 'm" and del :: "'m \<Rightarrow> string \<Rightarrow> 'm option"
  assumes get_put: "good m \<Longrightarrow> get (put m k v) k' = (if k' = k then Some v else get m k')"
    and good_put: "good m \<Longrightarrow> good (put m k v)"
    and del_None: "good m \<Longrightarrow> del m k = None \<longleftrightarrow> get m k = None"
    and get_del: "good m \<Longrightarrow> del m k = Some m' \<Longrightarrow> get m' k' = (if k' = k then None else get m k')"
    and good_del: "good m \<Longrightarrow> del m k = Some m' \<Longrightarrow> good m'"
begin

text \<open>Two stores that hold the same but for one key.\<close>

definition differsAt :: "string \<Rightarrow> 'm \<Rightarrow> 'm \<Rightarrow> bool" where
  "differsAt k m m' \<longleftrightarrow> (\<forall>k'. k' = k \<or> get m' k' = get m k')"

lemma differsAt_refl: "differsAt k m m"
  by (simp add: differsAt_def)

lemma differsAt_trans: "differsAt k m1 m2 \<Longrightarrow> differsAt k m2 m3 \<Longrightarrow> differsAt k m1 m3"
  unfolding differsAt_def by metis

lemma put_differs: "good m \<Longrightarrow> differsAt k m (put m k v)"
  by (simp add: differsAt_def get_put)

lemma del_differs: "good m \<Longrightarrow> del m k = Some m' \<Longrightarrow> differsAt k m m'"
  by (simp add: differsAt_def get_del)

lemma put_back: "good m \<Longrightarrow> get m k = None \<Longrightarrow> del (put m k v) k = Some m' \<Longrightarrow> get m' k' = get m k'"
  using get_del [OF good_put] get_put by metis

end

definition goodMap :: "node \<Rightarrow> bool" where
  "goodMap m \<longleftrightarrow> nd_Kind m = MappingNode \<and> even (length (nd_Content m)) \<and> distinct (pairKeys (nd_Content m))"

lemma withContent_simps [simp]:
  "nd_Content (withContent c n) = c" "nd_Kind (withContent c n) = nd_Kind n" "nd_Tag (withContent c n) = nd_Tag n"
  "nd_Value (withContent c n) = nd_Value n"
  by (cases n; simp add: withContent_def)+

lemma scalar_simps [simp]: "nd_Value (scalar v) = v" "nd_Kind (scalar v) = ScalarNode" "nd_Content (scalar v) = []"
  by (simp_all add: scalar_def)

lemma pairGet_None: "pairGet key c = None \<longleftrightarrow> key \<notin> set (pairKeys c)"
  by (induction key c rule: pairGet.induct) auto

lemma pairSet_None: "pairSet key n c = None \<longleftrightarrow> key \<notin> set (pairKeys c)"
  by (induction key n c rule: pairSet.induct) auto

lemma pairDelete_None: "pairDelete key c = None \<longleftrightarrow> key \<notin> set (pairKeys c)"
  by (induction key c rule: pairDelete.induct) auto

lemma pairSet_keys: "pairSet key n c = Some c' \<Longrightarrow> pairKeys c' = pairKeys c \<and> length c' = length c"
  by (induction key n c arbitrary: c' rule: pairSet.induct) (auto split: if_split_asm)

lemma pairSet_get:
  "pairSet key n c = Some c' \<Longrightarrow> pairGet key' c' = (if key' = key then Some n else pairGet key' c)"
  by (induction key n c arbitrary: c' rule: pairSet.induct) (auto split: if_split_asm)

lemmas pairSet_Some = pairSet_keys pairSet_get

lemma pairDelete_keys:
  "pairDelete key c = Some c' \<Longrightarrow> distinct (pairKeys c) \<Longrightarrow> set (pairKeys c') = set (pairKeys c) - {key} \<and> distinct (pairKeys c')"
  by (induction key c arbitrary: c' rule: pairDelete.induct) (auto split: if_split_asm)

lemma pairDelete_length: "pairDelete key c = Some c' \<Longrightarrow> even (length c') \<longleftrightarrow> even (length c)"
  by (induction key c arbitrary: c' rule: pairDelete.induct) (auto split: if_split_asm)

lemma pairDelete_get:
  "pairDelete key c = Some c' \<Longrightarrow> distinct (pairKeys c) \<Longrightarrow> pairGet key' c' = (if key' = key then None else pairGet key' c)"
proof (induction key c arbitrary: c' rule: pairDelete.induct)
  case (1 key k v rest)
  show ?case
  proof (cases "nd_Value k = key")
    case True
    with 1 have "key \<notin> set (pairKeys c')" and c: "c' = rest" by auto
    then have "pairGet key c' = None" by (simp add: pairGet_None)
    with True c show ?thesis by simp
  next
    case False
    with 1(2) obtain r where r: "pairDelete key rest = Some r" "c' = k # v # r" by auto
    from 1(1) [OF False r(1)] 1(3) False r(2) show ?thesis by (cases "key' = key") simp_all
  qed
qed simp_all

lemma pairKeys_append: "even (length c) \<Longrightarrow> pairKeys (c @ [k, v]) = pairKeys c @ [nd_Value k]"
  by (induction c rule: pairKeys.induct) auto

lemma pairGet_append:
  "even (length c) \<Longrightarrow> pairGet key (c @ [k, v]) = (case pairGet key c of Some x \<Rightarrow> Some x | None \<Rightarrow> if nd_Value k = key then Some v else None)"
  by (induction key c rule: pairGet.induct) auto

lemma mapGet_mapSet:
  assumes "goodMap m"
  shows "mapGet (mapSet m k v) k' = (if k' = k then Some v else mapGet m k')"
proof (cases "pairSet k v (nd_Content m)")
  case None
  then have "pairGet k (nd_Content m) = None" by (simp add: pairSet_None pairGet_None)
  with None assms show ?thesis
    by (auto simp: goodMap_def mapGet_def mapSet_def pairGet_append split: option.split)
next
  case (Some c)
  with assms pairSet_get [OF Some, of k'] show ?thesis by (simp add: goodMap_def mapGet_def mapSet_def)
qed

lemma goodMap_mapSet: "goodMap m \<Longrightarrow> goodMap (mapSet m k v)"
  using pairSet_keys [of k v "nd_Content m"] pairSet_None [of k v "nd_Content m"]
  by (cases "pairSet k v (nd_Content m)") (auto simp: goodMap_def mapSet_def pairKeys_append)

lemma mapDelete_simps:
  assumes "goodMap m"
  shows "mapDelete m k = None \<longleftrightarrow> mapGet m k = None"
    and "mapDelete m k = Some m' \<Longrightarrow> mapGet m' k' = (if k' = k then None else mapGet m k') \<and> goodMap m'"
  using assms pairDelete_keys [of k "nd_Content m"] pairDelete_length [of k "nd_Content m"] pairDelete_get [of k "nd_Content m"]
  by (auto simp: goodMap_def mapDelete_def mapGet_def pairDelete_None pairGet_None)

interpretation ymap: keyed_store goodMap mapGet mapSet mapDelete
  by unfold_locales (simp_all add: mapGet_mapSet goodMap_mapSet mapDelete_simps)

interpretation gomap: keyed_store "\<lambda>m. True" mget "\<lambda>m k v. mput k v m" "\<lambda>m k. if mhas m k then Some (mdel k m) else None"
  by unfold_locales (auto simp: mhas_def split: if_splits)

lemma mapKeys_iff: "nd_Kind m = MappingNode \<Longrightarrow> k \<in> set (mapKeys m) \<longleftrightarrow> mapGet m k \<noteq> None"
  by (simp add: mapKeys_def mapGet_def pairGet_None)

lemma goodMap_empty [simp]: "goodMap emptyMap" "mapGet emptyMap k = None"
  by (simp_all add: goodMap_def emptyMap_def mapGet_def)

lemma deepCopy_id [simp]: "deepCopy n = n"
  by (induction n) (simp add: list.map_ident_strong)

lemma seqHas_append: "seqHas (seqAppend s n) v \<longleftrightarrow> seqHas s v \<or> nd_Value n = v"
  by (auto simp: seqHas_def seqAppend_def)

lemma removeFirst_other: "u \<noteq> v \<Longrightarrow> list_ex (\<lambda>c. nd_Value c = u) (removeFirst v cs) \<longleftrightarrow> list_ex (\<lambda>c. nd_Value c = u) cs"
  by (induction cs) auto

lemma seqRemove_other: "u \<noteq> v \<Longrightarrow> seqHas (seqRemove s v) u \<longleftrightarrow> seqHas s u"
  by (simp add: seqHas_def seqRemove_def removeFirst_other)

lemma removeFirst_distinct:
  "distinct (map nd_Value cs) \<Longrightarrow> \<not> list_ex (\<lambda>c. nd_Value c = v) (removeFirst v cs)"
  by (induction cs) (auto simp: list_ex_iff image_iff)

lemma removeFirst_set: "set (removeFirst v cs) \<subseteq> set cs"
  by (induction cs) auto

lemma seqRemove_gone: "distinct (map nd_Value (nd_Content s)) \<Longrightarrow> \<not> seqHas (seqRemove s v) v"
  by (simp add: seqHas_def seqRemove_def removeFirst_distinct)

end
