(* ===== verification/Desktop.thy ===== *)
theory Desktop
  imports YamlTree Startup
begin

text \<open>
  cmd/egw-desktop/gateway.go and elevate.go: what the desktop companion knows of a workspace, the
  file of agent keys, its calls to the running gateway, and publishing. Glob, joining paths, the
  service manager, the random token and the decoders of the configuration are parameters.
\<close>

section \<open>The application and its surroundings\<close>

record app =
  ap_buildDir :: string
  ap_installDir :: string
  ap_dataDir :: string
  ap_adminTokens :: "string gomap"

record deskEnv =
  de_join :: "string \<Rightarrow> string \<Rightarrow> string"
  de_base :: "string \<Rightarrow> string"
  de_glob :: "files \<Rightarrow> string \<Rightarrow> string list"
  de_upper :: "string \<Rightarrow> string"
  de_yaml :: yamlLib
  de_config :: "string \<Rightarrow> string + Config"
  de_ops :: "string \<Rightarrow> string + Operation option gomap"
  de_mkdir :: "string \<Rightarrow> string option"
  de_isAbs :: "string \<Rightarrow> bool"
  de_tempDir :: "string + string"  \<comment> \<open>\<open>MkdirTemp\<close>\<close>
  de_stamp :: string
  de_now :: int  \<comment> \<open>nanoseconds from the start of year 1\<close>
  de_rfc3339 :: "string \<Rightarrow> int option"  \<comment> \<open>the same, of a parsed time\<close>
  de_token :: string
  de_service :: "string \<Rightarrow> bool \<times> string"
  de_controlService :: "string \<Rightarrow> string \<Rightarrow> string option"

datatype deskError =
    DeskRead string string
  | DeskDecode string string
  | DeskWrite string string
  | DeskUnreachable int string
  | DeskBadRequest
  | DeskRefused string int string
  | DeskNameValue
  | DeskTokenMismatch string
  | DeskName
  | DeskServiceAction
  | DeskService string
  | DeskHelperAction string
  | DeskElevation string
  | DeskLate

definition readText :: "fsFaults \<Rightarrow> files \<Rightarrow> string \<Rightarrow> deskError + string" where
  "readText X F path =
     (case fs_read X path of
        Some e \<Rightarrow> Inl (DeskRead path e)
      | None \<Rightarrow> (case mget F path of None \<Rightarrow> Inl (DeskRead path ''does not exist'') | Some t \<Rightarrow> Inr t))"

text \<open>\<open>WriteFile\<close>: a failed write leaves the file truncated.\<close>

definition writeText :: "fsFaults \<Rightarrow> string \<Rightarrow> string \<Rightarrow> files \<Rightarrow> (deskError + unit) \<times> files" where
  "writeText X path t F =
     (case fs_open X path of
        Some e \<Rightarrow> (Inl (DeskWrite path e), F)
      | None \<Rightarrow>
          (case fs_write X path of
             Some e \<Rightarrow> (Inl (DeskWrite path e), mput path [] F)
           | None \<Rightarrow> (Inr (), mput path t F)))"

section \<open>Workspaces\<close>

definition loadConfig :: "deskEnv \<Rightarrow> fsFaults \<Rightarrow> files \<Rightarrow> string \<Rightarrow> deskError + Config" where
  "loadConfig E X F path = rbind (readText X F path) (\<lambda>t. mapErr (DeskDecode path) (de_config E t))"

definition workspaceNames :: "deskEnv \<Rightarrow> files \<Rightarrow> 'x app_scheme \<Rightarrow> string list" where
  "workspaceNames E F a =
     sort (filter (\<lambda>n. n \<noteq> [] \<and> \<not> strContains n ''example'')
       (map (\<lambda>m. trimSuffix (trimPrefix (de_base E m) ''config.'') ''.yaml'')
         (de_glob E F (de_join E (ap_buildDir a) ''config.*.yaml''))))"

definition repoConfigPath :: "deskEnv \<Rightarrow> 'x app_scheme \<Rightarrow> string \<Rightarrow> string" where
  "repoConfigPath E a ws = de_join E (ap_buildDir a) (''config.'' @ ws @ ''.yaml'')"

definition repoOpsPath :: "deskEnv \<Rightarrow> 'x app_scheme \<Rightarrow> string \<Rightarrow> string" where
  "repoOpsPath E a ws = de_join E (ap_buildDir a) (''operations.'' @ ws @ ''.yaml'')"

definition deployedConfigPath :: "deskEnv \<Rightarrow> 'x app_scheme \<Rightarrow> string \<Rightarrow> string" where
  "deployedConfigPath E a ws = de_join E (de_join E (ap_installDir a) ws) ''config.yaml''"

definition deployedOpsPath :: "deskEnv \<Rightarrow> 'x app_scheme \<Rightarrow> string \<Rightarrow> string" where
  "deployedOpsPath E a ws = de_join E (de_join E (ap_installDir a) ws) ''operations.yaml''"

definition effectiveConfig :: "deskEnv \<Rightarrow> fsFaults \<Rightarrow> files \<Rightarrow> 'x app_scheme \<Rightarrow> string \<Rightarrow> deskError + Config" where
  "effectiveConfig E X F a ws =
     loadConfig E X F (if mhas F (deployedConfigPath E a ws) then deployedConfigPath E a ws else repoConfigPath E a ws)"

fun portFrom :: "int \<Rightarrow> string \<Rightarrow> string list \<Rightarrow> int" where
  "portFrom i ws [] = 0"
| "portFrom i ws (n # ns) = (if n = ws then 8443 + i else portFrom (i + 1) ws ns)"

definition portFor :: "deskEnv \<Rightarrow> files \<Rightarrow> 'x app_scheme \<Rightarrow> string \<Rightarrow> Config \<Rightarrow> int" where
  "portFor E F a ws cfg =
     (if srv_Port (cfg_Server cfg) \<noteq> 0 then srv_Port (cfg_Server cfg) else portFrom 0 ws (workspaceNames E F a))"

definition workspaceKey :: "string \<Rightarrow> Config \<Rightarrow> string" where
  "workspaceKey ws cfg =
     (if mhas (cfg_Workspaces cfg) ws then ws
      else (case sortedKeys (cfg_Workspaces cfg) of [] \<Rightarrow> ws | k # _ \<Rightarrow> k))"

section \<open>The file of keys\<close>

record keyEntry =
  ke_Label :: string
  ke_Token :: string
  ke_SHA :: string

definition keysFile :: "deskEnv \<Rightarrow> 'x app_scheme \<Rightarrow> string" where
  "keysFile E a = de_join E (ap_buildDir a) ''agent-keys.txt''"

definition adminLabel :: "deskEnv \<Rightarrow> string \<Rightarrow> string" where
  "adminLabel E ws = ''['' @ de_upper E ws @ '' Admin]''"

definition labelStart :: string where
  "labelStart = ''--- Key : [''"

definition labelEnd :: string where
  "labelEnd = ''] ---''"

text \<open>The last occurrence of a pattern: what stands before it.\<close>

fun beforeLast :: "string \<Rightarrow> string \<Rightarrow> string option" where
  "beforeLast pat [] = None"
| "beforeLast pat (c # s) =
     (case beforeLast pat s of
        Some t \<Rightarrow> Some (c # t)
      | None \<Rightarrow> if hasPrefix (c # s) pat then Some [] else None)"

text \<open>\<open>--- Key : (\[.*\]) ---\<close> in a line: the first start that matches, up to the last end.\<close>

definition labelOf :: "string \<Rightarrow> string option" where
  "labelOf l =
     (case indexOf l labelStart of
        None \<Rightarrow> None
      | Some i \<Rightarrow> map_option (\<lambda>t. ''['' @ t @ '']'') (beforeLast labelEnd (drop (i + length labelStart) l)))"

text \<open>\<open>^\s*Token:\s*(\S+)\<close>, and the same for the hash.\<close>

definition fieldOf :: "string \<Rightarrow> string \<Rightarrow> string option" where
  "fieldOf name l =
     (let s = dropWhile isReSpace l; v = takeWhile (\<lambda>c. \<not> isReSpace c) (dropWhile isReSpace (drop (length name) s))
      in if hasPrefix s name \<and> v \<noteq> [] then Some v else None)"

definition readField :: "golib \<Rightarrow> string \<Rightarrow> keyEntry \<Rightarrow> keyEntry" where
  "readField L l e =
     (let e = (case fieldOf ''Token:'' l of None \<Rightarrow> e | Some v \<Rightarrow> e\<lparr>ke_Token := v\<rparr>)
      in case fieldOf ''SHA256:'' l of None \<Rightarrow> e | Some v \<Rightarrow> e\<lparr>ke_SHA := lib_lower L v\<rparr>)"

text \<open>The loop over the lines; \<open>cur\<close> is the entry that is being read.\<close>

fun readEntries :: "golib \<Rightarrow> keyEntry option \<Rightarrow> string list \<Rightarrow> keyEntry list" where
  "readEntries L cur [] = (case cur of None \<Rightarrow> [] | Some e \<Rightarrow> [e])"
| "readEntries L cur (l # ls) =
     (case labelOf l of
        Some t \<Rightarrow>
          (case cur of None \<Rightarrow> [] | Some e \<Rightarrow> [e])
            @ readEntries L (Some \<lparr>ke_Label = t, ke_Token = [], ke_SHA = []\<rparr>) ls
      | None \<Rightarrow> readEntries L (map_option (readField L l) cur) ls)"

definition keyEntries :: "golib \<Rightarrow> deskEnv \<Rightarrow> fsFaults \<Rightarrow> 'x app_scheme \<Rightarrow> files \<Rightarrow> keyEntry list" where
  "keyEntries L E X a F =
     (case readText X F (keysFile E a) of
        Inl _ \<Rightarrow> []
      | Inr t \<Rightarrow> readEntries L None (splitOn (CHR 0x0A) (replaceAll t crlf lf)))"

definition keyByLabel :: "golib \<Rightarrow> deskEnv \<Rightarrow> fsFaults \<Rightarrow> 'x app_scheme \<Rightarrow> files \<Rightarrow> string \<Rightarrow> string" where
  "keyByLabel L E X a F label =
     (case find (\<lambda>e. ke_Label e = label) (keyEntries L E X a F) of None \<Rightarrow> [] | Some e \<Rightarrow> ke_Token e)"

definition keyBySHA :: "golib \<Rightarrow> deskEnv \<Rightarrow> fsFaults \<Rightarrow> 'x app_scheme \<Rightarrow> files \<Rightarrow> string \<Rightarrow> keyEntry option" where
  "keyBySHA L E X a F sha =
     find (\<lambda>e. ke_SHA e = lib_lower L sha \<or> ke_Token e \<noteq> [] \<and> lib_sha256hex L (ke_Token e) = lib_lower L sha)
       (keyEntries L E X a F)"

definition keyBlock :: "string \<Rightarrow> string \<Rightarrow> string \<Rightarrow> string \<Rightarrow> string" where
  "keyBlock label token sha endpoint =
     ''--- Key : '' @ label @ '' ---'' @ crlf @ ''  Token:    '' @ token @ crlf @ ''  SHA256:   '' @ sha @ crlf
       @ ''  Endpoint: '' @ endpoint @ crlf @ ''  Header:   Authorization: Bearer '' @ token @ crlf"

text \<open>
  \<open>(?s)--- Key : \[[^\n]*\] ---\r?\n.*?Header:[^\n]*\n\<close> at the start of a text: the match and the
  rest. The label's line must end with the end of a label; the block ends with the line of the first
  \<open>Header:\<close> after it.
\<close>

definition endsLine :: "string \<Rightarrow> bool" where
  "endsLine l \<longleftrightarrow> hasSuffix l labelEnd \<or> hasSuffix l (labelEnd @ [CHR 0x0D])"

definition blockAt :: "string \<Rightarrow> (string \<times> string) option" where
  "blockAt s =
     (if \<not> hasPrefix s labelStart then None
      else (case cutAt (CHR 0x0A) (drop (length labelStart) s) of
              None \<Rightarrow> None
            | Some (l, rest) \<Rightarrow>
                if \<not> endsLine l then None
                else (case indexOf rest ''Header:'' of
                        None \<Rightarrow> None
                      | Some i \<Rightarrow>
                          map_option (\<lambda>(h, rest'). (labelStart @ l @ lf @ take i rest @ h @ lf, rest'))
                            (cutAt (CHR 0x0A) (drop i rest)))))"

lemma cutAt_split: "cutAt c s = Some (a, b) \<Longrightarrow> s = a @ c # b"
  by (induction s arbitrary: a) (auto split: if_splits)

lemma cutAt_shorter: "cutAt c (drop k s) = Some (a, b) \<Longrightarrow> length b < length s"
  using cutAt_split [of c "drop k s" a b] length_drop [of k s] by simp

lemma blockAt_shorter: "blockAt s = Some (b, rest) \<Longrightarrow> length rest < length s"
  by (auto simp: blockAt_def split: if_splits option.splits dest!: cutAt_shorter)

text \<open>\<open>ReplaceAllStringFunc\<close> with the closure that replaces the first block of its kind.\<close>

function replaceBlock :: "(string \<Rightarrow> bool) \<Rightarrow> string \<Rightarrow> string \<Rightarrow> string option" where
  "replaceBlock P new [] = None"
| "replaceBlock P new (c # s) =
     (case blockAt (c # s) of
        Some (b, rest) \<Rightarrow>
          if P b then Some (new @ rest) else map_option (\<lambda>r. b @ r) (replaceBlock P new rest)
      | None \<Rightarrow> map_option (Cons c) (replaceBlock P new s))"
  by pat_completeness auto
termination
  by (relation "measure (\<lambda>(P, new, s). length s)") (auto dest: blockAt_shorter)

definition trimRightBytes :: "string \<Rightarrow> string \<Rightarrow> string" where
  "trimRightBytes s bytes = rev (dropWhile (\<lambda>c. c \<in> set bytes) (rev s))"

definition upsertKey ::
    "golib \<Rightarrow> deskEnv \<Rightarrow> fsFaults \<Rightarrow> 'x app_scheme \<Rightarrow> string \<Rightarrow> string \<Rightarrow> string \<Rightarrow> string \<Rightarrow> string \<Rightarrow> files
       \<Rightarrow> (deskError + unit) \<times> files" where
  "upsertKey L E X a label oldSHA token sha endpoint F =
     (let block = keyBlock label token sha endpoint;
          t = (case readText X F (keysFile E a) of Inl _ \<Rightarrow> [] | Inr t \<Rightarrow> t);
          mine = (\<lambda>b. strContains b (''--- Key : '' @ label @ '' ---'')
            \<or> oldSHA \<noteq> [] \<and> strContains (lib_lower L b) (lib_lower L oldSHA))
      in writeText X (keysFile E a)
           (case replaceBlock mine block t of
              Some t \<Rightarrow> t
            | None \<Rightarrow> trimRightBytes t crlf @ crlf @ crlf @ block) F)"

definition adminToken ::
    "golib \<Rightarrow> deskEnv \<Rightarrow> fsFaults \<Rightarrow> 'x app_scheme \<Rightarrow> files \<Rightarrow> string \<Rightarrow> string \<times> string" where
  "adminToken L E X a F ws =
     (let t = (case mget (ap_adminTokens a) ws of None \<Rightarrow> [] | Some t \<Rightarrow> t)
      in if t \<noteq> [] then (t, ''entered this session'')
         else (let t = keyByLabel L E X a F (adminLabel E ws)
               in if t \<noteq> [] then (t, ''agent-keys.txt '' @ adminLabel E ws) else ([], [])))"

section \<open>Comparing and publishing\<close>

definition isBlank :: "char \<Rightarrow> bool" where
  "isBlank c \<longleftrightarrow> c = CHR 0x09 \<or> c = CHR 0x20"

definition byteOrderMark :: string where
  "byteOrderMark = [CHR 0xEF, CHR 0xBB, CHR 0xBF]"

text \<open>\<open>[\\t ]+(\\r?)$\<close> in one line, and the line without that match: \<open>end\<close> is what stays of its CR.\<close>

definition cutBlanks :: "(string \<Rightarrow> string) \<Rightarrow> string \<Rightarrow> string" where
  "cutBlanks end l =
     (let cr = (if l \<noteq> [] \<and> last l = CHR 0x0D then [CHR 0x0D] else []);
          core = take (length l - length cr) l;
          cut = rev (dropWhile isBlank (rev core))
      in if cut = core then l else cut @ end cr)"

definition eachLine :: "(string \<Rightarrow> string) \<Rightarrow> string \<Rightarrow> string" where
  "eachLine f s = join lf (map f (splitOn (CHR 0x0A) s))"

definition normFileText :: "string \<Rightarrow> string" where
  "normFileText s = trimSpace (replaceAll (eachLine (cutBlanks (\<lambda>_. [])) (trimPrefix s byteOrderMark)) crlf lf)"

definition normalizedEqual :: "fsFaults \<Rightarrow> files \<Rightarrow> string \<Rightarrow> string \<Rightarrow> bool" where
  "normalizedEqual X F p1 p2 =
     (case (readText X F p1, readText X F p2) of (Inr a, Inr b) \<Rightarrow> normFileText a = normFileText b | _ \<Rightarrow> False)"

definition publishedText :: "string \<Rightarrow> string" where
  "publishedText s = eachLine (cutBlanks (\<lambda>cr. cr)) (trimPrefix s byteOrderMark)"

text \<open>\<open>publishFiles\<close>; the two files are visited in the order of a map, here \<open>order\<close>.\<close>

fun copyFiles :: "fsFaults \<Rightarrow> (string \<times> string) list \<Rightarrow> files \<Rightarrow> (deskError + unit) \<times> files" where
  "copyFiles X [] F = (Inr (), F)"
| "copyFiles X ((src, dst) # rest) F =
     (case readText X F src of
        Inl e \<Rightarrow> (Inl e, F)
      | Inr t \<Rightarrow>
          (case writeText X dst (publishedText t) F of
             (Inl e, F) \<Rightarrow> (Inl e, F)
           | (Inr _, F) \<Rightarrow> copyFiles X rest F))"

definition publishPairs :: "deskEnv \<Rightarrow> 'x app_scheme \<Rightarrow> string \<Rightarrow> (string \<times> string) list" where
  "publishPairs E a ws =
     [(repoConfigPath E a ws, deployedConfigPath E a ws), (repoOpsPath E a ws, deployedOpsPath E a ws)]"

definition publishFiles ::
    "deskEnv \<Rightarrow> fsFaults \<Rightarrow> bool \<Rightarrow> 'x app_scheme \<Rightarrow> string \<Rightarrow> files \<Rightarrow> (deskError + unit) \<times> files" where
  "publishFiles E X configFirst a ws F =
     (case de_mkdir E (de_join E (ap_installDir a) ws) of
        Some e \<Rightarrow> (Inl (DeskWrite (de_join E (ap_installDir a) ws) e), F)
      | None \<Rightarrow> copyFiles X (if configFirst then publishPairs E a ws else rev (publishPairs E a ws)) F)"

definition validName :: re where
  "validName = Seq (Cls isWordByte) (Star (Cls isWordByte))"

text \<open>The elevated helper; what the deployment script does is left to the system (\<open>sy_script\<close>).\<close>

record helperResult =
  hp_OK :: bool
  hp_Error :: "deskError option"
  hp_Output :: string

record helperSystem =
  sy_script :: "files \<Rightarrow> (string option \<times> string) \<times> files"
  sy_configFirst :: bool
  sy_relaunch :: "string option"
  sy_late :: bool

definition helperDone :: "(deskError + unit) \<times> files \<Rightarrow> helperResult \<times> files" where
  "helperDone r =
     (case r of
        (Inl e, F) \<Rightarrow> (\<lparr>hp_OK = False, hp_Error = Some e, hp_Output = []\<rparr>, F)
      | (Inr _, F) \<Rightarrow> (\<lparr>hp_OK = True, hp_Error = None, hp_Output = []\<rparr>, F))"

definition controlService :: "deskEnv \<Rightarrow> string \<Rightarrow> string \<Rightarrow> files \<Rightarrow> (deskError + unit) \<times> files" where
  "controlService E ws act F =
     (case de_controlService E (''egw-'' @ ws) act of Some e \<Rightarrow> (Inl (DeskService e), F) | None \<Rightarrow> (Inr (), F))"

definition doHelper ::
    "deskEnv \<Rightarrow> fsFaults \<Rightarrow> helperSystem \<Rightarrow> 'x app_scheme \<Rightarrow> string \<Rightarrow> string \<Rightarrow> string \<Rightarrow> bool \<Rightarrow> files
       \<Rightarrow> helperResult \<times> files" where
  "doHelper E X S a act ws svcAction restart F =
     (if ws \<noteq> [] \<and> \<not> rmatch validName ws then helperDone (Inl DeskName, F)
      else if act = ''deploy'' then
        (case sy_script S F of
           ((Some e, out), F) \<Rightarrow> (\<lparr>hp_OK = False, hp_Error = Some (DeskService e), hp_Output = out\<rparr>, F)
         | ((None, out), F) \<Rightarrow> (\<lparr>hp_OK = True, hp_Error = None, hp_Output = out\<rparr>, F))
      else if act = ''service'' then
        helperDone (if svcAction \<noteq> ''start'' \<and> svcAction \<noteq> ''stop'' \<and> svcAction \<noteq> ''restart'' then (Inl DeskServiceAction, F)
          else controlService E ws svcAction F)
      else if act = ''publish'' then
        helperDone (case publishFiles E X (sy_configFirst S) a ws F of
             (Inl e, F) \<Rightarrow> (Inl e, F)
           | (Inr _, F) \<Rightarrow> if restart then controlService E ws ''restart'' F else (Inr (), F))
      else helperDone (Inl (DeskHelperAction act), F))"

text \<open>In-process when elevated; otherwise in a process of its own, whose result comes back through a file.\<close>

definition runElevated ::
    "deskEnv \<Rightarrow> fsFaults \<Rightarrow> helperSystem \<Rightarrow> bool \<Rightarrow> 'x app_scheme \<Rightarrow> string \<Rightarrow> string \<Rightarrow> string \<Rightarrow> bool \<Rightarrow> files
       \<Rightarrow> (helperResult \<times> deskError option) \<times> files" where
  "runElevated E X S elevated a act ws svcAction restart F =
     (let none = \<lparr>hp_OK = False, hp_Error = None, hp_Output = []\<rparr>
      in if elevated then (case doHelper E X S a act ws svcAction restart F of (r, F) \<Rightarrow> ((r, None), F))
         else (case sy_relaunch S of
                 Some e \<Rightarrow> ((none, Some (DeskElevation e)), F)
               | None \<Rightarrow>
                   (case doHelper E X S a act ws svcAction restart F of
                      (r, F) \<Rightarrow>
                        if sy_late S then ((none, Some DeskLate), F)
                        else ((r, if hp_OK r then None else hp_Error r), F))))"

text \<open>An elevated companion takes a failed action for a success.\<close>

lemma elevated_failure_hidden:
  "runElevated E X S True a ''service'' ws ''pause'' restart F
     = ((\<lparr>hp_OK = False, hp_Error = Some (if ws \<noteq> [] \<and> \<not> rmatch validName ws then DeskName else DeskServiceAction),
          hp_Output = []\<rparr>, None), F)"
  by (simp add: runElevated_def doHelper_def helperDone_def)


section \<open>An instance\<close>

text \<open>Surroundings in which examples are evaluated: a document is its text, as one scalar.\<close>

definition exampleYaml :: yamlLib where
  "exampleYaml = \<lparr>yl_parse = (\<lambda>s. Inr (Node DocumentNode [] [] 0 [] [Node ScalarNode [] s 0 [] []])),
     yl_render = (\<lambda>n. Inr (case nd_Content n of [] \<Rightarrow> [] | m # _ \<Rightarrow> nd_Value m @ concat (map nd_Value (nd_Content m))))\<rparr>"

definition exampleDesk :: deskEnv where
  "exampleDesk = \<lparr>de_join = (\<lambda>a b. a @ ''/'' @ b), de_base = (\<lambda>s. s), de_glob = (\<lambda>F p. []), de_upper = (\<lambda>s. s),
     de_yaml = exampleYaml, de_config = (\<lambda>s. Inr (zeroConfig\<lparr>cfg_Agents := [exampleAgent\<lparr>agent_Grants := []\<rparr>]\<rparr>)),
     de_ops = (\<lambda>s. Inr []), de_mkdir = (\<lambda>p. None),
     de_isAbs = (\<lambda>p. True), de_tempDir = Inr ''tmp'', de_stamp = ''now'', de_now = 0, de_rfc3339 = (\<lambda>s. None),
     de_token = ''token'', de_service = (\<lambda>s. (True, ''running'')), de_controlService = (\<lambda>s x. None)\<rparr>"

definition exampleApp :: app where
  "exampleApp = \<lparr>ap_buildDir = ''src'', ap_installDir = ''dst'', ap_dataDir = ''data'', ap_adminTokens = []\<rparr>"

definition noFaults :: fsFaults where
  "noFaults = \<lparr>fs_read = (\<lambda>p. None), fs_open = (\<lambda>p. None), fs_write = (\<lambda>p. None), fs_rename = (\<lambda>p. None)\<rparr>"

end
