(* ===== verification/ConfigEdit.thy ===== *)
theory ConfigEdit
  imports Desktop
begin

text \<open>
  cmd/egw-desktop/configedit.go: editing the configuration and the operations of a workspace. An
  edit works on the two parsed documents; \<open>commit\<close> renders them, checks the new texts with the
  gateway's own loaders, backs the old ones up and writes. An operation that fails leaves no edit
  behind, as every caller drops it then, so it returns an error or the changed edit.
\<close>

section \<open>An edit\<close>

record fileChange =
  fc_Path :: string
  fc_Before :: string
  fc_After :: string

record wsEdit =
  ed_ws :: string
  ed_key :: string
  ed_cfg :: yamlFile
  ed_ops :: yamlFile
  ed_parsed :: Config

datatype editError =
    EdWorkspace
  | EdYaml yamlError
  | EdDesk deskError
  | EdNothing
  | EdTemp string
  | EdConfig configError
  | EdOps opsError
  | EdBackup string
  | EdCatalogSource
  | EdNotFound string
  | EdUnknownRole string
  | EdMethod
  | EdPath
  | EdParamName string
  | EdOpID
  | EdNoSite string string
  | EdOpName string
  | EdExists string
  | EdTemplate
  | EdNames
  | EdSecretNames
  | EdUser
  | EdHost
  | EdBaseURL
  | EdSiteVar string
  | EdTunnel string
  | EdNeedsVar string string
  | EdAgentName
  | EdNotDisabled string
  | EdKeys deskError
  | EdPanic

definition openEdit :: "deskEnv \<Rightarrow> fsFaults \<Rightarrow> 'x app_scheme \<Rightarrow> files \<Rightarrow> string \<Rightarrow> editError + wsEdit" where
  "openEdit E X a F ws =
     (if \<not> rmatch validName ws then Inl EdWorkspace
      else rbind (mapErr EdYaml (openYAML (de_yaml E) X F (repoConfigPath E a ws))) (\<lambda>cfg.
           rbind (mapErr EdYaml (openYAML (de_yaml E) X F (repoOpsPath E a ws))) (\<lambda>ops.
           rbind (mapErr EdDesk (loadConfig E X F (repoConfigPath E a ws))) (\<lambda>parsed.
             Inr \<lparr>ed_ws = ws, ed_key = workspaceKey ws parsed, ed_cfg = cfg, ed_ops = ops, ed_parsed = parsed\<rparr>))))"

text \<open>
  \<open>workspaceNode\<close>, \<open>sitesNode\<close>, \<open>opsNode\<close> and \<open>rolesNode\<close> hand out a node of the document, made if
  it is not there. The node as it is read, and the edit with the node changed.
\<close>

definition workspaceNode :: "wsEdit \<Rightarrow> node" where
  "workspaceNode e = ensured (ensured (rootNode (ed_cfg e)) ''workspaces'') (ed_key e)"

definition withWorkspace :: "(node \<Rightarrow> node) \<Rightarrow> wsEdit \<Rightarrow> wsEdit" where
  "withWorkspace f e =
     e\<lparr>ed_cfg := withRoot (mapEnsure (rootNode (ed_cfg e)) ''workspaces'' (\<lambda>w. mapEnsure w (ed_key e) f)) (ed_cfg e)\<rparr>"

definition sitesNode :: "wsEdit \<Rightarrow> node" where
  "sitesNode e = ensured (workspaceNode e) ''sites''"

definition withSites :: "(node \<Rightarrow> node) \<Rightarrow> wsEdit \<Rightarrow> wsEdit" where
  "withSites f = withWorkspace (\<lambda>w. mapEnsure w ''sites'' f)"

definition opsNode :: "wsEdit \<Rightarrow> node" where
  "opsNode e = ensured (rootNode (ed_ops e)) ''operations''"

definition withOps :: "(node \<Rightarrow> node) \<Rightarrow> wsEdit \<Rightarrow> wsEdit" where
  "withOps f e = e\<lparr>ed_ops := withRoot (mapEnsure (rootNode (ed_ops e)) ''operations'' f) (ed_ops e)\<rparr>"

definition rolesNode :: "wsEdit \<Rightarrow> node" where
  "rolesNode e = ensured (rootNode (ed_cfg e)) ''roles''"

definition withRoles :: "(node \<Rightarrow> node) \<Rightarrow> wsEdit \<Rightarrow> wsEdit" where
  "withRoles f e = e\<lparr>ed_cfg := withRoot (mapEnsure (rootNode (ed_cfg e)) ''roles'' f) (ed_cfg e)\<rparr>"

definition changes :: "yamlLib \<Rightarrow> wsEdit \<Rightarrow> yamlError + fileChange list" where
  "changes Y e =
     (let change = (\<lambda>f after. if after \<noteq> yf_original f
            then [\<lparr>fc_Path = yf_path f, fc_Before = yf_original f, fc_After = after\<rparr>] else [])
      in rbind (patched Y (ed_cfg e)) (\<lambda>c.
         rbind (patched Y (ed_ops e)) (\<lambda>p.
         Inr (change (ed_cfg e) c @ change (ed_ops e) p))))"

text \<open>The loop of \<open>commit\<close> that picks the new text of each file.\<close>

fun newTexts :: "string \<Rightarrow> fileChange list \<Rightarrow> string \<times> string \<Rightarrow> string \<times> string" where
  "newTexts cfgPath [] ts = ts"
| "newTexts cfgPath (c # cs) (cfgText, opsText) =
     newTexts cfgPath cs (if fc_Path c = cfgPath then (fc_After c, opsText) else (cfgText, fc_After c))"

text \<open>Backing up and writing, one file after the other; what was written before an error stays.\<close>

fun writeChanges :: "deskEnv \<Rightarrow> fsFaults \<Rightarrow> string \<Rightarrow> fileChange list \<Rightarrow> files \<Rightarrow> (deskError + unit) \<times> files" where
  "writeChanges E X dir [] F = (Inr (), F)"
| "writeChanges E X dir (c # cs) F =
     (case writeText X (de_join E dir (de_base E (fc_Path c))) (fc_Before c) F of
        (Inl e, F) \<Rightarrow> (Inl e, F)
      | (Inr _, F) \<Rightarrow>
          (case writeText X (fc_Path c) (fc_After c) F of
             (Inl e, F) \<Rightarrow> (Inl e, F)
           | (Inr _, F) \<Rightarrow> writeChanges E X dir cs F))"

text \<open>
  The first half of \<open>commit\<close>: the changes, once the loaders have accepted the new texts. The temporary
  directory is fresh and removed in the end, so it is not part of the files; that the two files in it
  can be written is not checked by the source either.
\<close>

definition checkedChanges :: "golib \<Rightarrow> deskEnv \<Rightarrow> wsEdit \<Rightarrow> editError + fileChange list" where
  "checkedChanges L E e =
     rbind (mapErr EdYaml (changes (de_yaml E) e)) (\<lambda>cs.
     rbind (ensure (cs \<noteq> []) EdNothing) (\<lambda>_.
     rbind (mapErr EdTemp (de_tempDir E)) (\<lambda>tmp.
     let ts = newTexts (yf_path (ed_cfg e)) cs (yf_original (ed_cfg e), yf_original (ed_ops e))
     in rbind (mapErr EdConfig (Load (de_isAbs E) (\<lambda>_. de_config E (fst ts)) (de_join E tmp ''config.yaml''))) (\<lambda>_.
        rbind (mapErr EdOps (NewRegistry L (\<lambda>_. de_ops E (snd ts)) (de_join E tmp ''operations.yaml''))) (\<lambda>_.
        Inr cs)))))"

definition backupDir :: "deskEnv \<Rightarrow> 'x app_scheme \<Rightarrow> string" where
  "backupDir E a = de_join E (de_join E (ap_dataDir a) ''backups'') (de_stamp E)"

definition commit ::
    "golib \<Rightarrow> deskEnv \<Rightarrow> fsFaults \<Rightarrow> 'x app_scheme \<Rightarrow> bool \<Rightarrow> wsEdit \<Rightarrow> files
       \<Rightarrow> (editError + fileChange list) \<times> files" where
  "commit L E X a apply e F =
     (case checkedChanges L E e of
        Inl x \<Rightarrow> (Inl x, F)
      | Inr cs \<Rightarrow>
          if \<not> apply then (Inr cs, F)
          else (case de_mkdir E (backupDir E a) of
                  Some x \<Rightarrow> (Inl (EdBackup x), F)
                | None \<Rightarrow>
                    (case writeChanges E X (backupDir E a) cs F of
                       (Inl x, F) \<Rightarrow> (Inl (EdDesk x), F)
                     | (Inr _, F) \<Rightarrow> (Inr cs, F))))"

section \<open>Grants\<close>

text \<open>What \<open>setGrants\<close> does to one role, and its loop; \<open>want\<close> holds the roles not met yet.\<close>

definition setGrant :: "string \<Rightarrow> bool \<Rightarrow> node \<Rightarrow> node" where
  "setGrant op want role =
     seqEnsure role ''operations'' (\<lambda>ops.
       if want then (if seqHas ops op then ops else seqAppend ops (scalar op)) else seqRemove ops op)"

fun grantRoles :: "string \<Rightarrow> string list \<Rightarrow> string list \<Rightarrow> node \<Rightarrow> node \<times> string list" where
  "grantRoles op want [] R = (R, want)"
| "grantRoles op want (r # rs) R =
     (case mapGet R r of
        None \<Rightarrow> grantRoles op want rs R
      | Some role \<Rightarrow>
          grantRoles op (removeAll r want) rs (mapSet R r (setGrant op (List.member want r) role)))"

text \<open>Of several unknown roles the source names any.\<close>

definition setGrants :: "string \<Rightarrow> string list \<Rightarrow> wsEdit \<Rightarrow> editError + wsEdit" where
  "setGrants op roles e =
     (case grantRoles op roles (mapKeys (rolesNode e)) (rolesNode e) of
        (R, []) \<Rightarrow> Inr (withRoles (\<lambda>_. R) e)
      | (R, r # _) \<Rightarrow> Inl (EdUnknownRole r))"

fun grantEach :: "string \<Rightarrow> string list \<Rightarrow> node \<Rightarrow> editError + node" where
  "grantEach op [] R = Inr R"
| "grantEach op (r # rs) R =
     (case mapGet R r of
        None \<Rightarrow> Inl (EdUnknownRole r)
      | Some role \<Rightarrow> grantEach op rs (mapSet R r (setGrant op True role)))"

definition addGrants :: "string \<Rightarrow> string list \<Rightarrow> wsEdit \<Rightarrow> editError + wsEdit" where
  "addGrants op roles e = rbind (grantEach op roles (rolesNode e)) (\<lambda>R. Inr (withRoles (\<lambda>_. R) e))"

section \<open>Operations and their catalog\<close>

record opInfo =
  oi_ID :: string
  oi_Site :: string
  oi_Connector :: string
  oi_Method :: string
  oi_Path :: string
  oi_Params :: "string list"
  oi_Roles :: "string list"
  oi_Source :: string
  oi_YAML :: string
  oi_Write :: bool

definition opField :: "node \<Rightarrow> string \<Rightarrow> string" where
  "opField n k = (case mapGet n k of None \<Rightarrow> [] | Some v \<Rightarrow> nd_Value v)"

definition describeOp :: "deskEnv \<Rightarrow> string \<Rightarrow> node \<Rightarrow> opInfo" where
  "describeOp E op n =
     (let m = de_upper E (opField n ''method'')
      in \<lparr>oi_ID = op,
          oi_Site = (if opField n ''site'' = [] then hd (splitN 2 (CHR ''.'') op) else opField n ''site''),
          oi_Connector = opField n ''connector'', oi_Method = opField n ''method'', oi_Path = opField n ''path'',
          oi_Params = (case mapGet n ''params'' of None \<Rightarrow> [] | Some p \<Rightarrow> mapKeys p),
          oi_Roles = [], oi_Source = [],
          oi_YAML = (case yl_render (de_yaml E) (mapping [(op, NodeArg n)]) of Inl _ \<Rightarrow> [] | Inr t \<Rightarrow> t),
          oi_Write = (if m = ''POST'' \<and> (strContains op ''search'' \<or> strContains op ''query'') then False
            else m = ''POST'' \<or> m = ''PUT'' \<or> m = ''PATCH'' \<or> m = ''DELETE'')\<rparr>)"

text \<open>The loops over the content of a node by twos, whatever its kind.\<close>

fun contentPairs :: "node list \<Rightarrow> (string \<times> node) list" where
  "contentPairs (k # v # rest) = (nd_Value k, v) # contentPairs rest"
| "contentPairs _ = []"

definition catalogFile :: "deskEnv \<Rightarrow> fsFaults \<Rightarrow> files \<Rightarrow> string \<Rightarrow> opInfo gomap \<Rightarrow> opInfo gomap" where
  "catalogFile E X F f out =
     (case openYAML (de_yaml E) X F f of
        Inl _ \<Rightarrow> out
      | Inr y \<Rightarrow>
          (case mapGet (rootNode y) ''operations'' of
             None \<Rightarrow> out
           | Some ops \<Rightarrow>
               fold (\<lambda>(op, n) out. if mhas out op then out
                   else mput op ((describeOp E op n)\<lparr>oi_Source := de_base E f\<rparr>) out)
                 (contentPairs (nd_Content ops)) out))"

definition catalog :: "deskEnv \<Rightarrow> fsFaults \<Rightarrow> 'x app_scheme \<Rightarrow> files \<Rightarrow> opInfo gomap" where
  "catalog E X a F =
     fold (catalogFile E X F)
       (de_glob E F (de_join E (ap_buildDir a) ''operations*.yaml'')
         @ de_glob E F (de_join E (de_join E (ap_buildDir a) ''config.example'') ''operations*.yaml'')) []"

definition catalogNode :: "deskEnv \<Rightarrow> fsFaults \<Rightarrow> 'x app_scheme \<Rightarrow> files \<Rightarrow> string \<Rightarrow> string \<Rightarrow> editError + node" where
  "catalogNode E X a F op source =
     (let path = de_join E (ap_buildDir a) source;
          path = (if mhas F path then path else de_join E (de_join E (ap_buildDir a) ''config.example'') source)
      in if containsAny source [backslash, CHR ''/''] \<or> \<not> hasPrefix source ''operations'' then Inl EdCatalogSource
         else rbind (mapErr EdYaml (openYAML (de_yaml E) X F path)) (\<lambda>y.
           case optGet (mapGet (rootNode y) ''operations'') op of
             None \<Rightarrow> Inl (EdNotFound op)
           | Some n \<Rightarrow> Inr n))"

record customParam =
  cp_Name :: string
  cp_Type :: string
  cp_Required :: bool
  cp_Default :: string

record customOp =
  cu_Method :: string
  cu_Path :: string
  cu_Connector :: string
  cu_BodyTemplate :: string
  cu_AllowFields :: "string list"
  cu_Params :: "customParam list"

definition customParamNode :: "customParam \<Rightarrow> node" where
  "customParamNode p =
     (let typ = (if cp_Type p = [] then ''string'' else cp_Type p);
          def = mapping [(''type'', StrArg typ)];
          def = (if cp_Required p then mapSet def ''required'' (typedScalar ''true'' ''!!bool'') else def)
      in if cp_Default p \<noteq> []
         then mapSet def ''default'' (typedScalar (cp_Default p) (if typ = ''int'' then ''!!int'' else ''!!str''))
         else def)"

fun customParams :: "customParam list \<Rightarrow> node \<Rightarrow> editError + node" where
  "customParams [] n = Inr n"
| "customParams (p # ps) n =
     (if \<not> rmatch identRe (cp_Name p) then Inl (EdParamName (cp_Name p))
      else customParams ps (mapSet n (cp_Name p) (customParamNode p)))"

text \<open>The style of a block scalar in the YAML library.\<close>

definition literalStyle :: nat where
  "literalStyle = 8"

definition buildCustomOp :: "deskEnv \<Rightarrow> string \<Rightarrow> customOp \<Rightarrow> editError + node" where
  "buildCustomOp E site c =
     (let m = de_upper E (trimSpace (cu_Method c));
          connector = (if cu_Connector c = [] then ''http-rest'' else cu_Connector c);
          n = mapping [(''connector'', StrArg connector), (''site'', StrArg site), (''method'', StrArg m),
                (''path'', StrArg (cu_Path c))];
          allow = map scalar (filter (\<lambda>f. f \<noteq> []) (map trimSpace (cu_AllowFields c)))
      in rbind (ensure (List.member [''GET'', ''POST'', ''PUT'', ''PATCH'', ''DELETE''] m) EdMethod) (\<lambda>_.
         rbind (ensure (hasPrefix (cu_Path c) ''/'') EdPath) (\<lambda>_.
         rbind (if cu_Params c = [] then Inr n
                else rbind (customParams (cu_Params c) emptyMap) (\<lambda>ps. Inr (mapSet n ''params'' ps))) (\<lambda>n.
         let n = (if trimSpace (cu_BodyTemplate c) = [] then n
                  else mapSet n ''body_template''
                    (Node ScalarNode ''!!str'' (trimSpace (cu_BodyTemplate c) @ lf) literalStyle [] []))
         in Inr (if allow = [] then n
                 else mapSet n ''response'' (mapping [(''allow_fields'', NodeArg (withContent allow emptySeq))]))))))"

definition withValue :: "string \<Rightarrow> node \<Rightarrow> node" where
  "withValue v n = (case n of Node k t _ s r c \<Rightarrow> Node k t v s r c)"

text \<open>A copy of a catalog definition, moved to another site.\<close>

definition movedTo :: "string \<Rightarrow> node \<Rightarrow> node" where
  "movedTo site n = (case mapGet n ''site'' of None \<Rightarrow> n | Some s \<Rightarrow> mapSet n ''site'' (withValue site s))"

definition parsedSites :: "wsEdit \<Rightarrow> Site gomap" where
  "parsedSites e = (case mget (cfg_Workspaces (ed_parsed e)) (ed_key e) of None \<Rightarrow> [] | Some w \<Rightarrow> ws_Sites w)"

definition addOperation ::
    "deskEnv \<Rightarrow> fsFaults \<Rightarrow> 'x app_scheme \<Rightarrow> files \<Rightarrow> string \<Rightarrow> string \<Rightarrow> string \<Rightarrow> customOp option \<Rightarrow> wsEdit
       \<Rightarrow> editError + wsEdit" where
  "addOperation E X a F op source targetSite custom e =
     (case splitN 2 (CHR ''.'') op of
        [first, name] \<Rightarrow>
          (let site = (if targetSite \<noteq> [] then targetSite else first); newID = site @ ''.'' @ name
           in rbind (ensure (name \<noteq> []) EdOpID) (\<lambda>_.
              rbind (ensure (mhas (parsedSites e) site) (EdNoSite (ed_ws e) site)) (\<lambda>_.
              rbind (ensure (rmatch identRe name) (EdOpName name)) (\<lambda>_.
              rbind (ensure (mapGet (opsNode e) newID = None) (EdExists newID)) (\<lambda>_.
              rbind (case custom of
                       Some c \<Rightarrow> buildCustomOp E site c
                     | None \<Rightarrow> rbind (catalogNode E X a F op source) (\<lambda>src. Inr (movedTo site (deepCopy src)))) (\<lambda>n.
              Inr (withOps (\<lambda>ops. mapSet ops newID n) e)))))))
      | _ \<Rightarrow> Inl EdOpID)"

definition removeOperation :: "string \<Rightarrow> wsEdit \<Rightarrow> editError + wsEdit" where
  "removeOperation op e =
     (case mapDelete (opsNode e) op of
        None \<Rightarrow> Inl (EdNotFound op)
      | Some ops \<Rightarrow> setGrants op [] (withOps (\<lambda>_. ops) e))"


section \<open>What the workspace can do\<close>

record envSummary =
  es_Name :: string
  es_BaseURL :: string
  es_Auth :: string
  es_User :: string
  es_Secret :: string
  es_Tunnel :: string

record serviceTemplate =
  svt_ID :: string
  svt_Label :: string
  svt_Site :: string
  svt_BaseURL :: string
  svt_AuthType :: string
  svt_AuthHeader :: string
  svt_NeedsUser :: bool
  svt_UserHint :: string
  svt_Secret :: string
  svt_CookieSecret :: string
  svt_Postgres :: bool
  svt_Hint :: string
  svt_CatalogSites :: "string list"

definition zeroTemplate :: serviceTemplate where
  "zeroTemplate = \<lparr>svt_ID = [], svt_Label = [], svt_Site = [], svt_BaseURL = [], svt_AuthType = [],
     svt_AuthHeader = [], svt_NeedsUser = False, svt_UserHint = [], svt_Secret = [], svt_CookieSecret = [],
     svt_Postgres = False, svt_Hint = [], svt_CatalogSites = []\<rparr>"

definition serviceTemplates :: "serviceTemplate list" where
  "serviceTemplates = [
    zeroTemplate\<lparr>svt_ID := ''gitlab'', svt_Label := ''GitLab'', svt_Site := ''gitlab'',
      svt_BaseURL := ''https://gitlab.com/api/v4'', svt_AuthType := ''bearer'',
      svt_Secret := ''gitlab'',
      svt_Hint := ''Personal access token with read_api (+ read_repository).'',
      svt_CatalogSites := [''gitlab'']\<rparr>,
    zeroTemplate\<lparr>svt_ID := ''github'', svt_Label := ''GitHub'', svt_Site := ''github'',
      svt_BaseURL := ''https://api.github.com'', svt_AuthType := ''bearer'', svt_Secret := ''github'',
      svt_Hint := ''Classic or fine-grained personal access token.'',
      svt_CatalogSites := [''github'']\<rparr>,
    zeroTemplate\<lparr>svt_ID := ''jira'', svt_Label := ''Jira Cloud'', svt_Site := ''jira'',
      svt_BaseURL := ''https://<your-site>.atlassian.net'', svt_AuthType := ''basic'',
      svt_NeedsUser := True, svt_UserHint := ''your Atlassian account email'', svt_Secret := ''jira'',
      svt_Hint := ''Atlassian API token; add `jira_projects` to the workspace policy for jql_scope.'',
      svt_CatalogSites := [''jira'']\<rparr>,
    zeroTemplate\<lparr>svt_ID := ''confluence'', svt_Label := ''Confluence Cloud'',
      svt_Site := ''confluence'', svt_BaseURL := ''https://<your-site>.atlassian.net/wiki'',
      svt_AuthType := ''basic'', svt_NeedsUser := True,
      svt_UserHint := ''your Atlassian account email'', svt_Secret := ''jira'',
      svt_Hint := ''Usually shares the Jira API token secret.'',
      svt_CatalogSites := [''confluence'']\<rparr>,
    zeroTemplate\<lparr>svt_ID := ''jenkins'', svt_Label := ''Jenkins'', svt_Site := ''jenkins'',
      svt_BaseURL := ''https://jenkins.example.com'', svt_AuthType := ''basic'', svt_NeedsUser := True,
      svt_UserHint := ''your Jenkins user id'', svt_Secret := ''jenkins'',
      svt_Hint := ''Jenkins user API token.'', svt_CatalogSites := [''jenkins'']\<rparr>,
    zeroTemplate\<lparr>svt_ID := ''bitbucket'', svt_Label := ''Bitbucket Cloud'',
      svt_Site := ''bitbucket'', svt_BaseURL := ''https://api.bitbucket.org'',
      svt_AuthType := ''basic'', svt_NeedsUser := True,
      svt_UserHint := ''Atlassian email (API token) or username'', svt_Secret := ''bitbucket'',
      svt_Hint := ''Atlassian API token with Bitbucket scopes.'',
      svt_CatalogSites := [''bitbucket'']\<rparr>,
    zeroTemplate\<lparr>svt_ID := ''slack'', svt_Label := ''Slack (session token)'',
      svt_Site := ''slack'', svt_BaseURL := ''https://slack.com/api'',
      svt_AuthType := ''slack-session'', svt_Secret := ''slack-xoxc'',
      svt_CookieSecret := ''slack-xoxd'', svt_Hint := ''Browser session: xoxc token + d cookie.'',
      svt_CatalogSites := [''slack'']\<rparr>,
    zeroTemplate\<lparr>svt_ID := ''clockify'', svt_Label := ''Clockify'', svt_Site := ''clockify'',
      svt_BaseURL := ''https://api.clockify.me/api/v1'', svt_AuthType := ''api-key'',
      svt_AuthHeader := ''X-Api-Key'', svt_Secret := ''clockify'', svt_Hint := ''Clockify API key.'',
      svt_CatalogSites := [''clockify'']\<rparr>,
    zeroTemplate\<lparr>svt_ID := ''kibana'', svt_Label := ''Kibana'', svt_Site := ''kibana'',
      svt_BaseURL := ''https://kibana.example.com'', svt_AuthType := ''basic'', svt_NeedsUser := True,
      svt_Secret := ''kibana'', svt_Hint := ''Kibana user password.'',
      svt_CatalogSites := [''kibana'']\<rparr>,
    zeroTemplate\<lparr>svt_ID := ''postgres'', svt_Label := ''PostgreSQL'', svt_Site := ''postgres'',
      svt_NeedsUser := True, svt_Secret := ''pg'', svt_Postgres := True,
      svt_Hint := ''Read-only database user; host, port and one database.'',
      svt_CatalogSites := [''postgres'']\<rparr>,
    zeroTemplate\<lparr>svt_ID := ''rest-bearer'', svt_Label := ''Other REST API (bearer token)'',
      svt_BaseURL := ''https://api.example.com'', svt_AuthType := ''bearer'',
      svt_Hint := ''Any API that takes Authorization: Bearer <token>.''\<rparr>,
    zeroTemplate\<lparr>svt_ID := ''rest-basic'',
      svt_Label := ''Other REST API (user + password/token)'',
      svt_BaseURL := ''https://api.example.com'', svt_AuthType := ''basic'', svt_NeedsUser := True,
      svt_Hint := ''Any API with HTTP basic auth.''\<rparr>,
    zeroTemplate\<lparr>svt_ID := ''rest-apikey'', svt_Label := ''Other REST API (API key header)'',
      svt_BaseURL := ''https://api.example.com'', svt_AuthType := ''api-key'',
      svt_AuthHeader := ''X-Api-Key'', svt_Hint := ''Any API that takes the key in a header.''\<rparr>]"

record capabilities =
  ca_Sites :: "string list"
  ca_Roles :: "string list"
  ca_Tunnels :: "string list"
  ca_Ops :: "opInfo list"
  ca_Catalog :: "opInfo list"
  ca_Templates :: "serviceTemplate list"
  ca_Envs :: "envSummary list gomap"
  ca_Disabled :: "bool gomap"

definition splitRef :: "string \<Rightarrow> string \<times> string" where
  "splitRef ref =
     (let rest = trimPrefix ref ''secret://''
      in case cutAt (CHR ''/'') rest of Some (a, b) \<Rightarrow> (a, b) | None \<Rightarrow> ([], rest))"

definition summaryOf :: "string \<times> Environment \<Rightarrow> envSummary" where
  "summaryOf = (\<lambda>(name, env).
     \<lparr>es_Name = name, es_BaseURL = (if env_BaseURL env = [] then env_Host env else env_BaseURL env),
      es_Auth = auth_Type (env_Auth env), es_User = env_User env, es_Secret = snd (splitRef (env_SecretRef env)),
      es_Tunnel = env_RequiresTunnel env\<rparr>)"

text \<open>The entries of a map by \<open>sortedKeys\<close>.\<close>

definition sortedEntries :: "'v gomap \<Rightarrow> (string \<times> 'v) list" where
  "sortedEntries m = List.map_filter (\<lambda>k. map_option (Pair k) (mget m k)) (sortedKeys m)"

text \<open>Which roles grant an operation, in the order of the roles.\<close>

definition grantedBy :: "Role gomap \<Rightarrow> string \<Rightarrow> string list" where
  "grantedBy roles op =
     concat (map (\<lambda>(r, role). map (\<lambda>_. r) (filter (\<lambda>o'. o' = op) (role_Operations role))) (sortedEntries roles))"

definition capabilitiesOf ::
    "deskEnv \<Rightarrow> fsFaults \<Rightarrow> 'x app_scheme \<Rightarrow> files \<Rightarrow> string \<Rightarrow> editError + capabilities" where
  "capabilitiesOf E X a F ws =
     rbind (openEdit E X a F ws) (\<lambda>e.
       let sites = parsedSites e; roles = cfg_Roles (ed_parsed e);
           ops = contentPairs (nd_Content (opsNode e)); have = map fst ops;
           enabled = sortedEntries sites
       in Inr \<lparr>ca_Sites = sortedKeys sites, ca_Roles = sortedKeys roles,
            ca_Tunnels = (case cfg_Tunnels (ed_parsed e) of None \<Rightarrow> [] | Some t \<Rightarrow> sortedKeys t),
            ca_Ops = map (\<lambda>(op, n). (describeOp E op n)\<lparr>oi_Roles := grantedBy roles op\<rparr>) ops,
            ca_Catalog = map snd (filter (\<lambda>(op, i). op \<notin> set have) (sortedEntries (catalog E X a F))),
            ca_Templates = serviceTemplates,
            ca_Envs = filter (\<lambda>(s, es). es \<noteq> [])
              (map (\<lambda>(s, site). (s, map summaryOf (sortedEntries (site_Environments site)))) enabled),
            ca_Disabled = map (\<lambda>(s, site). (s, site_Disabled site)) enabled\<rparr>)"

section \<open>Adding a service\<close>

record addServiceRequest =
  as_WS :: string
  as_Template :: string
  as_Site :: string
  as_Env :: string
  as_BaseURL :: string
  as_AuthHeader :: string
  as_User :: string
  as_Secret :: string
  as_CookieSecret :: string
  as_Tunnel :: string
  as_Insecure :: bool
  as_Host :: string
  as_Port :: int
  as_Database :: string
  as_Ops :: "string list"
  as_Roles :: "string list"
  as_SiteVars :: "string gomap"
  as_Apply :: bool

definition siteVarKeys :: "string list" where
  "siteVarKeys = [''org'', ''group'', ''workspace'', ''workspace_id'', ''user_id'']"

definition siteVar :: "addServiceRequest \<Rightarrow> string \<Rightarrow> string" where
  "siteVar req k = trimSpace (case mget (as_SiteVars req) k of None \<Rightarrow> [] | Some v \<Rightarrow> v)"

text \<open>The names in all matches of \<open>\{site\.([a-z_]+)\}\<close>.\<close>

fun serviceVars :: "string \<Rightarrow> string list" where
  "serviceVars [] = []"
| "serviceVars (c # s) =
     (let name = takeWhile (\<lambda>c. isLowerLetter c \<or> c = CHR ''_'') (drop 5 s)
      in if hasPrefix (c # s) ''{site.'' \<and> name \<noteq> [] \<and> hasPrefix (drop (5 + length name) s) ''}''
         then name # serviceVars s else serviceVars s)"

definition secretRefOf :: "wsEdit \<Rightarrow> string \<Rightarrow> node" where
  "secretRefOf e name = scalar (''secret://'' @ ed_key e @ ''/'' @ name)"

definition postgresEnv :: "addServiceRequest \<Rightarrow> wsEdit \<Rightarrow> editError + node" where
  "postgresEnv req e =
     rbind (ensure (as_Host req \<noteq> [] \<and> as_Database req \<noteq> []) EdHost) (\<lambda>_.
       let env = mapSet emptyMap ''host'' (scalar (as_Host req));
           env = mapSet env ''port'' (typedScalar (showInt (if as_Port req = 0 then 5432 else as_Port req)) ''!!int'');
           env = mapSet env ''user'' (scalar (as_User req));
           env = mapSet env ''secret_ref'' (secretRefOf e (as_Secret req))
       in Inr (mapSet env ''databases''
            (mapping [(as_Database req, NodeArg (mapping [(''db'', StrArg (as_Database req))]))])))"

fun setSiteVars :: "addServiceRequest \<Rightarrow> string list \<Rightarrow> node \<Rightarrow> editError + node" where
  "setSiteVars req [] env = Inr env"
| "setSiteVars req (k # ks) env =
     (if \<not> List.member siteVarKeys k then Inl (EdSiteVar k)
      else setSiteVars req ks (if siteVar req k = [] then env else mapSet env k (scalar (siteVar req k))))"

definition httpEnv :: "serviceTemplate \<Rightarrow> addServiceRequest \<Rightarrow> wsEdit \<Rightarrow> editError + node" where
  "httpEnv tpl req e =
     (let url = as_BaseURL req
      in rbind (ensure ((hasPrefix url ''http://'' \<or> hasPrefix url ''https://'') \<and> \<not> strContains url ''<'') EdBaseURL) (\<lambda>_.
         let env = mapSet emptyMap ''base_url'' (scalar (trimRightBytes url ''/''));
             auth = mapping [(''type'', StrArg (svt_AuthType tpl))];
             header = (if as_AuthHeader req = [] then svt_AuthHeader tpl else as_AuthHeader req);
             auth = (if svt_AuthType tpl = ''api-key'' then mapSet auth ''header'' (scalar header) else auth);
             env = mapSet env ''auth'' auth;
             env = (if as_User req \<noteq> [] then mapSet env ''user'' (scalar (as_User req)) else env);
             env = mapSet env ''secret_ref'' (secretRefOf e (as_Secret req));
             cookie = (if as_CookieSecret req = [] then svt_CookieSecret tpl else as_CookieSecret req);
             env = (if svt_CookieSecret tpl \<noteq> [] then mapSet env ''cookie_secret_ref'' (secretRefOf e cookie) else env);
             env = (if as_Insecure req then mapSet env ''insecure_skip_verify'' (typedScalar ''true'' ''!!bool'') else env)
         in setSiteVars req (sortedKeys (as_SiteVars req)) env))"

definition zeroSite :: Site where
  "zeroSite = \<lparr>site_Environments = [], site_DefaultEnv = [], site_Disabled = False\<rparr>"

text \<open>A site that was just added counts as known; a configuration without workspaces is a nil map.\<close>

definition addParsedSite :: "string \<Rightarrow> wsEdit \<Rightarrow> editError + wsEdit" where
  "addParsedSite site e =
     (let ws = cfg_Workspaces (ed_parsed e);
          w = (case mget ws (ed_key e) of None \<Rightarrow> zeroWorkspace | Some w \<Rightarrow> w)
      in if ws = [] then Inl EdPanic
         else Inr (e\<lparr>ed_parsed := (ed_parsed e)\<lparr>cfg_Workspaces :=
           mput (ed_key e) (w\<lparr>ws_Sites := mput site zeroSite (ws_Sites w)\<rparr>) ws\<rparr>\<rparr>))"

fun addServiceOps ::
    "deskEnv \<Rightarrow> fsFaults \<Rightarrow> 'x app_scheme \<Rightarrow> files \<Rightarrow> opInfo gomap \<Rightarrow> addServiceRequest \<Rightarrow> string list \<Rightarrow> wsEdit
       \<Rightarrow> editError + wsEdit" where
  "addServiceOps E X a F cat req [] e = Inr e"
| "addServiceOps E X a F cat req (op # ops) e =
     (case mget cat op of
        None \<Rightarrow> Inl (EdNotFound op)
      | Some info \<Rightarrow>
          (case find (\<lambda>v. siteVar req v = []) (serviceVars (oi_Path info)) of
             Some v \<Rightarrow> Inl (EdNeedsVar op v)
           | None \<Rightarrow>
               (case splitN 2 (CHR ''.'') op of
                  [_, name] \<Rightarrow>
                    (let newID = as_Site req @ ''.'' @ name
                     in rbind (if mapGet (opsNode e) newID = None
                          then addOperation E X a F op (oi_Source info) (as_Site req) None e
                          else Inr (withOps (\<lambda>n. n) e)) (\<lambda>e.
                        rbind (if as_Roles req = [] then Inr e else addGrants newID (as_Roles req) e) (\<lambda>e.
                        addServiceOps E X a F cat req ops e)))
                | _ \<Rightarrow> Inl EdPanic)))"

definition addService ::
    "deskEnv \<Rightarrow> fsFaults \<Rightarrow> 'x app_scheme \<Rightarrow> files \<Rightarrow> addServiceRequest \<Rightarrow> wsEdit \<Rightarrow> editError + wsEdit" where
  "addService E X a F req e =
     (case find (\<lambda>t. svt_ID t = as_Template req) serviceTemplates of
        None \<Rightarrow> Inl EdTemplate
      | Some tpl \<Rightarrow>
          (let site = as_Site req; envName = as_Env req;
               envs = ensured (ensured (sitesNode e) site) ''environments''
           in rbind (ensure (rmatch identRe site \<and> rmatch identRe envName) EdNames) (\<lambda>_.
              rbind (ensure (rmatch identRe (as_Secret req)
                \<and> (as_CookieSecret req = [] \<or> rmatch identRe (as_CookieSecret req))) EdSecretNames) (\<lambda>_.
              rbind (ensure (mapGet envs envName = None) (EdExists (site @ ''/'' @ envName))) (\<lambda>_.
              rbind (ensure (\<not> (svt_NeedsUser tpl \<and> trimSpace (as_User req) = [])) EdUser) (\<lambda>_.
              rbind (if svt_Postgres tpl then postgresEnv req e else httpEnv tpl req e) (\<lambda>env.
              rbind (if as_Tunnel req = [] then Inr env
                     else if mhas (case cfg_Tunnels (ed_parsed e) of None \<Rightarrow> [] | Some t \<Rightarrow> t) (as_Tunnel req)
                     then Inr (mapSet env ''requires_tunnel'' (scalar (as_Tunnel req)))
                     else Inl (EdTunnel (as_Tunnel req))) (\<lambda>env.
              rbind (addParsedSite site (withSites (\<lambda>sites. mapEnsure sites site (\<lambda>s.
                  mapEnsure s ''environments'' (\<lambda>envs. mapSet envs envName env))) e)) (\<lambda>e.
              addServiceOps E X a F (catalog E X a F) req (as_Ops req) e)))))))))"

definition setSiteDisabled :: "string \<Rightarrow> bool \<Rightarrow> wsEdit \<Rightarrow> editError + wsEdit" where
  "setSiteDisabled site disabled e =
     (case mapGet (sitesNode e) site of
        None \<Rightarrow> Inl (EdNoSite (ed_ws e) site)
      | Some n \<Rightarrow>
          if disabled then Inr (withSites (\<lambda>s. mapSet s site (mapSet n ''disabled'' (typedScalar ''true'' ''!!bool''))) e)
          else (case mapDelete n ''disabled'' of
                  None \<Rightarrow> Inl (EdNotDisabled site)
                | Some n' \<Rightarrow> Inr (withSites (\<lambda>s. mapSet s site n') e)))"


section \<open>Agents and tokens\<close>

record agentInfo =
  ai_ID :: string
  ai_Roles :: "string list"
  ai_SHAPrefix :: string
  ai_KeyLabel :: string
  ai_TokenKnown :: bool

definition agentInfoOf ::
    "golib \<Rightarrow> deskEnv \<Rightarrow> fsFaults \<Rightarrow> 'x app_scheme \<Rightarrow> files \<Rightarrow> string \<Rightarrow> Agent \<Rightarrow> agentInfo option" where
  "agentInfoOf L E X a F key ag =
     (let roles = map grant_Role (filter (\<lambda>g. grant_Workspace g = key) (agent_Grants ag));
          k = keyBySHA L E X a F (agent_TokenSHA ag)
      in if roles = [] then None
         else Some \<lparr>ai_ID = agent_ID ag, ai_Roles = roles, ai_SHAPrefix = take 12 (agent_TokenSHA ag),
           ai_KeyLabel = (case k of None \<Rightarrow> [] | Some k \<Rightarrow> ke_Label k),
           ai_TokenKnown = (case k of None \<Rightarrow> False | Some k \<Rightarrow> ke_Token k \<noteq> [])\<rparr>)"

definition agentsOf ::
    "golib \<Rightarrow> deskEnv \<Rightarrow> fsFaults \<Rightarrow> 'x app_scheme \<Rightarrow> files \<Rightarrow> string \<Rightarrow> deskError + (agentInfo list \<times> string list)" where
  "agentsOf L E X a F ws =
     rbind (loadConfig E X F (repoConfigPath E a ws)) (\<lambda>cfg.
       Inr (List.map_filter (agentInfoOf L E X a F (workspaceKey ws cfg)) (cfg_Agents cfg), sortedKeys (cfg_Roles cfg)))"

definition isAgent :: "string \<Rightarrow> node \<Rightarrow> bool" where
  "isAgent agent n \<longleftrightarrow> (case mapGet n ''id'' of None \<Rightarrow> False | Some v \<Rightarrow> nd_Value v = agent)"

definition agentNode :: "wsEdit \<Rightarrow> string \<Rightarrow> node option" where
  "agentNode e agent =
     (case mapGet (rootNode (ed_cfg e)) ''agents'' of
        None \<Rightarrow> None
      | Some agents \<Rightarrow> find (isAgent agent) (nd_Content agents))"

fun updateFirst :: "('a \<Rightarrow> bool) \<Rightarrow> ('a \<Rightarrow> 'a) \<Rightarrow> 'a list \<Rightarrow> 'a list" where
  "updateFirst P f [] = []"
| "updateFirst P f (x # xs) = (if P x then f x # xs else x # updateFirst P f xs)"

text \<open>The edit with that node changed, when there is one.\<close>

definition withAgent :: "string \<Rightarrow> (node \<Rightarrow> node) \<Rightarrow> wsEdit \<Rightarrow> wsEdit" where
  "withAgent agent f e =
     (case mapGet (rootNode (ed_cfg e)) ''agents'' of
        None \<Rightarrow> e
      | Some agents \<Rightarrow>
          e\<lparr>ed_cfg := withRoot (mapSet (rootNode (ed_cfg e)) ''agents''
            (withContent (updateFirst (isAgent agent) f (nd_Content agents)) agents)) (ed_cfg e)\<rparr>)"

definition localURL :: "int \<Rightarrow> string" where
  "localURL port = ''http://127.0.0.1:'' @ showInt port"

definition agentLabel :: "deskEnv \<Rightarrow> string \<Rightarrow> string \<Rightarrow> string" where
  "agentLabel E ws agent = ''['' @ de_upper E ws @ '' '' @ agent @ '']''"

text \<open>The result of the three token operations: an error, if any, and the token (empty for none).\<close>

definition regenerateAgent ::
    "golib \<Rightarrow> deskEnv \<Rightarrow> fsFaults \<Rightarrow> 'x app_scheme \<Rightarrow> string \<Rightarrow> string \<Rightarrow> files
       \<Rightarrow> (editError option \<times> string) \<times> files" where
  "regenerateAgent L E X a ws agent F =
     (case rbind (openEdit E X a F ws) (\<lambda>e.
           case agentNode e agent of None \<Rightarrow> Inl (EdNotFound agent) | Some n \<Rightarrow> Inr (e, n)) of
        Inl x \<Rightarrow> ((Some x, []), F)
      | Inr (e, n) \<Rightarrow>
          (let oldSHA = opField n ''token_sha256''; token = de_token E; sha = lib_sha256hex L token
           in case commit L E X a True (withAgent agent (\<lambda>n. mapSet n ''token_sha256'' (scalar sha)) e) F of
                (Inl x, F) \<Rightarrow> ((Some x, []), F)
              | (Inr _, F) \<Rightarrow>
                  (let label = (case keyBySHA L E X a F oldSHA of None \<Rightarrow> agentLabel E ws agent | Some k \<Rightarrow> ke_Label k)
                   in case upsertKey L E X a label oldSHA token sha (localURL (portFor E F a ws (ed_parsed e))) F of
                        (Inl x, F) \<Rightarrow> ((Some (EdKeys x), token), F)
                      | (Inr _, F) \<Rightarrow> ((None, token), F))))"

definition newAgent :: "wsEdit \<Rightarrow> string \<Rightarrow> string \<Rightarrow> string \<Rightarrow> node" where
  "newAgent e agent role sha =
     mapping [(''id'', StrArg agent), (''token_sha256'', NodeArg (typedScalar sha ''!!str'')),
       (''grants'', NodeArg (withContent
          [mapping [(''workspace'', StrArg (ed_key e)), (''role'', StrArg role)]] emptySeq))]"

definition addAgent ::
    "golib \<Rightarrow> deskEnv \<Rightarrow> fsFaults \<Rightarrow> 'x app_scheme \<Rightarrow> string \<Rightarrow> string \<Rightarrow> string \<Rightarrow> files
       \<Rightarrow> (editError option \<times> string) \<times> files" where
  "addAgent L E X a ws agent role F =
     (case rbind (ensure (rmatch identRe agent) EdAgentName) (\<lambda>_.
           rbind (openEdit E X a F ws) (\<lambda>e.
           rbind (ensure (agentNode e agent = None) (EdExists agent)) (\<lambda>_.
           rbind (ensure (mhas (cfg_Roles (ed_parsed e)) role) (EdUnknownRole role)) (\<lambda>_.
           Inr e)))) of
        Inl x \<Rightarrow> ((Some x, []), F)
      | Inr e \<Rightarrow>
          (let token = de_token E; sha = lib_sha256hex L token;
               root = seqEnsure (rootNode (ed_cfg e)) ''agents'' (\<lambda>s. seqAppend s (newAgent e agent role sha))
           in case commit L E X a True (e\<lparr>ed_cfg := withRoot root (ed_cfg e)\<rparr>) F of
                (Inl x, F) \<Rightarrow> ((Some x, []), F)
              | (Inr _, F) \<Rightarrow>
                  (case upsertKey L E X a (agentLabel E ws agent) [] token sha (localURL (portFor E F a ws (ed_parsed e))) F of
                     (Inl x, F) \<Rightarrow> ((Some (EdKeys x), token), F)
                   | (Inr _, F) \<Rightarrow> ((None, token), F))))"

definition setAdminToken ::
    "golib \<Rightarrow> deskEnv \<Rightarrow> fsFaults \<Rightarrow> 'x app_scheme \<Rightarrow> string \<Rightarrow> files
       \<Rightarrow> (editError + string) \<times> 'x app_scheme \<times> files" where
  "setAdminToken L E X a ws F =
     (case openEdit E X a F ws of
        Inl x \<Rightarrow> (Inl x, a, F)
      | Inr e \<Rightarrow>
          (let token = de_token E; sha = lib_sha256hex L token;
               root = mapSet (rootNode (ed_cfg e)) ''admin_token_sha256'' (typedScalar sha ''!!str'')
           in case commit L E X a True (e\<lparr>ed_cfg := withRoot root (ed_cfg e)\<rparr>) F of
                (Inl x, F) \<Rightarrow> (Inl x, a, F)
              | (Inr _, F) \<Rightarrow>
                  (case upsertKey L E X a (adminLabel E ws) [] token sha
                      (localURL (portFor E F a ws (ed_parsed e)) @ ''/admin'') F of
                     (Inl x, F) \<Rightarrow> (Inl (EdKeys x), a, F)
                   | (Inr _, F) \<Rightarrow> (Inr token, a\<lparr>ap_adminTokens := mput ws token (ap_adminTokens a)\<rparr>, F))))"

end
