(* ===== verification/ConfigSafety.thy ===== *)
theory ConfigSafety
  imports ConfigEdit
begin

text \<open>
  What the configuration editor guarantees: granting an operation changes exactly the grants that
  were asked for, and no edit reaches the disk unless the gateway's loaders accept both new files.
\<close>

section \<open>Grants\<close>

text \<open>Whether a role grants an operation, read from the document.\<close>

definition grantsOp :: "node \<Rightarrow> string \<Rightarrow> string \<Rightarrow> bool" where
  "grantsOp R r op \<longleftrightarrow> (case mapGet R r of None \<Rightarrow> False | Some role \<Rightarrow> seqHas (seqEnsured role ''operations'') op)"

text \<open>A role as a mapping that lists no operation twice.\<close>

definition tidyRole :: "node \<Rightarrow> bool" where
  "tidyRole role \<longleftrightarrow> goodMap role \<and> distinct (map nd_Value (nd_Content (seqEnsured role ''operations'')))"

lemma seqEnsured_kind [simp]: "nd_Kind (seqEnsured m k) = SequenceNode"
  by (auto simp: seqEnsured_def emptySeq_def split: option.split)

lemma seqEnsured_put: "goodMap m \<Longrightarrow> nd_Kind s = SequenceNode \<Longrightarrow> seqEnsured (mapSet m k s) k = s"
  by (simp add: seqEnsured_def mapGet_mapSet)

lemma setGrant_exact:
  assumes "tidyRole role"
  shows "seqHas (seqEnsured (setGrant op want role) ''operations'') op'
    \<longleftrightarrow> (if op' = op then want else seqHas (seqEnsured role ''operations'') op')"
  using assms
  by (auto simp: setGrant_def seqEnsure_def tidyRole_def seqEnsured_put seqHas_append seqRemove_other seqRemove_gone
      seqAppend_def seqRemove_def)
    (simp_all add: seqAppend_def [symmetric] seqRemove_def [symmetric] seqHas_append seqRemove_other seqRemove_gone)

text \<open>The loop over the roles.\<close>

lemma grantRoles_spec:
  assumes "goodMap R" and "distinct rs" and "\<forall>r \<in> set rs. mapGet R r \<noteq> None" and "grantRoles op want rs R = (R', want')"
  shows "goodMap R' \<and> want' = filter (\<lambda>r. r \<notin> set rs) want
    \<and> (\<forall>k. mapGet R' k = (if k \<in> set rs then map_option (setGrant op (k \<in> set want)) (mapGet R k) else mapGet R k))"
  using assms
proof (induction rs arbitrary: R want)
  case (Cons r rs)
  then obtain role where role: "mapGet R r = Some role" by auto
  let ?R = "mapSet R r (setGrant op (r \<in> set want) role)"
  have get: "mapGet ?R k = (if k = r then Some (setGrant op (r \<in> set want) role) else mapGet R k)" for k
    using Cons.prems(1) by (rule mapGet_mapSet)
  have "grantRoles op (removeAll r want) rs ?R = (R', want')"
    using Cons.prems(4) role by simp
  from Cons.IH [OF goodMap_mapSet [OF Cons.prems(1)] _ _ this] Cons.prems(2,3) get
  have IH: "goodMap R'" "want' = filter (\<lambda>r. r \<notin> set rs) (removeAll r want)"
    "\<forall>k. mapGet R' k = (if k \<in> set rs then map_option (setGrant op (k \<in> set (removeAll r want))) (mapGet ?R k) else mapGet ?R k)"
    by auto
  have "filter (\<lambda>r. r \<notin> set rs) (removeAll r want) = filter (\<lambda>x. x \<notin> set (r # rs)) want"
    by (induction want) auto
  with IH Cons.prems(2) role get show ?case by auto
qed (simp add: filter_True)


lemma rootNode_withRoot [simp]: "rootNode (withRoot n f) = n"
  by (simp add: rootNode_def withRoot_def)

lemma rolesNode_withRoles:
  "goodMap (rootNode (ed_cfg e)) \<Longrightarrow> nd_Kind R = MappingNode \<Longrightarrow> rolesNode (withRoles (\<lambda>_. R) e) = R"
  by (simp add: rolesNode_def withRoles_def mapEnsure_def ensured_def mapGet_mapSet asMapping_def)

lemma ensured_keys: "set (mapKeys (ensured m k)) = {r. mapGet (ensured m k) r \<noteq> None}"
proof -
  have "nd_Kind (ensured m k) = MappingNode"
    by (auto simp: ensured_def asMapping_def emptyMap_def split: option.split)
  then show ?thesis using mapKeys_iff by auto
qed


definition exampleRole :: "string list \<Rightarrow> node" where
  "exampleRole ops = mapping [(''operations'', NodeArg (withContent (map scalar ops) emptySeq))]"

definition exampleEdit :: "node \<Rightarrow> wsEdit" where
  "exampleEdit roles =
     (let file = (\<lambda>n. \<lparr>yf_path = ''f'', yf_original = [], yf_doc = Node DocumentNode [] [] 0 [] [n]\<rparr>)
      in \<lparr>ed_ws = ''acme'', ed_key = ''acme'', ed_cfg = file (mapping [(''roles'', NodeArg roles)]), ed_ops = file emptyMap,
          ed_parsed = st_cfg vpnState\<rparr>)"


text \<open>A role that lists an operation twice still grants it after all grants were taken away.\<close>

lemma duplicate_grant_survives:
  "case setGrants ''a.b'' [] (exampleEdit (mapping [(''dev'', NodeArg (exampleRole [''a.b'', ''a.b'']))])) of
     Inl _ \<Rightarrow> False | Inr e' \<Rightarrow> grantsOp (rolesNode e') ''dev'' ''a.b''"
  by code_simp


section \<open>Commits\<close>

text \<open>The gateway's loaders accept a configuration and an operations file.\<close>

definition loadable :: "golib \<Rightarrow> deskEnv \<Rightarrow> string \<Rightarrow> string \<Rightarrow> bool" where
  "loadable L E cfgText opsText \<longleftrightarrow>
     isOk (Load (de_isAbs E) (\<lambda>_. de_config E cfgText) ''config.yaml'')
   \<and> isOk (NewRegistry L (\<lambda>_. de_ops E opsText) ''operations.yaml'')"

lemma loadable_paths:
  assumes "Load isAbs (\<lambda>_. c) p = Inr cfg" and "NewRegistry L (\<lambda>_. o') q = Inr reg" and "q \<noteq> []"
  shows "isOk (Load isAbs (\<lambda>_. c) p')" and "q' \<noteq> [] \<Longrightarrow> isOk (NewRegistry L (\<lambda>_. o') q')"
  using assms by (auto simp: Load_def NewRegistry_def loadFromFile_def Let_def rbind_Inr_iff isOk_iff)

text \<open>The new texts of the two files of an edit, changed or not.\<close>

definition newPair :: "yamlLib \<Rightarrow> wsEdit \<Rightarrow> yamlError + string \<times> string" where
  "newPair Y e = rbind (patched Y (ed_cfg e)) (\<lambda>c. rbind (patched Y (ed_ops e)) (\<lambda>p. Inr (c, p)))"

text \<open>A change of one file to a new text.\<close>

definition isChange :: "yamlFile \<Rightarrow> string \<Rightarrow> fileChange \<Rightarrow> bool" where
  "isChange f t x \<longleftrightarrow> x = \<lparr>fc_Path = yf_path f, fc_Before = yf_original f, fc_After = t\<rparr> \<and> t \<noteq> yf_original f"

lemma isChange_fields:
  "isChange f t x \<Longrightarrow> fc_Path x = yf_path f \<and> fc_Before x = yf_original f \<and> fc_After x = t \<and> t \<noteq> yf_original f"
  by (simp add: isChange_def)

text \<open>The changes of an edit from the text \<open>c\<close> of the one file and \<open>p\<close> of the other.\<close>

definition changesOf :: "wsEdit \<Rightarrow> string \<Rightarrow> string \<Rightarrow> fileChange list" where
  "changesOf e c p =
     (if c \<noteq> yf_original (ed_cfg e) then [\<lparr>fc_Path = yf_path (ed_cfg e), fc_Before = yf_original (ed_cfg e), fc_After = c\<rparr>] else [])
   @ (if p \<noteq> yf_original (ed_ops e) then [\<lparr>fc_Path = yf_path (ed_ops e), fc_Before = yf_original (ed_ops e), fc_After = p\<rparr>] else [])"

lemma changes_pair: "changes Y e = Inr cs \<Longrightarrow> \<exists>c p. newPair Y e = Inr (c, p) \<and> cs = changesOf e c p"
  by (cases "patched Y (ed_cfg e)"; cases "patched Y (ed_ops e)"; simp add: changes_def newPair_def changesOf_def Let_def)

lemma newTexts_changesOf:
  "yf_path (ed_cfg e) \<noteq> yf_path (ed_ops e) \<Longrightarrow>
     newTexts (yf_path (ed_cfg e)) (changesOf e c p) (yf_original (ed_cfg e), yf_original (ed_ops e)) = (c, p)"
  by (auto simp: changesOf_def)

lemma checkedChanges_pair:
  assumes "checkedChanges L E e = Inr cs" and "yf_path (ed_cfg e) \<noteq> yf_path (ed_ops e)" and "\<And>x y. de_join E x y \<noteq> []"
  shows "\<exists>c p. newPair (de_yaml E) e = Inr (c, p) \<and> cs = changesOf e c p \<and> loadable L E c p"
proof -
  from assms(1) have "changes (de_yaml E) e = Inr cs" by (auto simp: checkedChanges_def rbind_Inr_iff Let_def)
  from changes_pair [OF this] obtain c p where cp: "newPair (de_yaml E) e = Inr (c, p)" "cs = changesOf e c p" by blast
  from assms(1) obtain tmp cfg reg where
    "Load (de_isAbs E) (\<lambda>_. de_config E c) (de_join E tmp ''config.yaml'') = Inr cfg"
    "NewRegistry L (\<lambda>_. de_ops E p) (de_join E tmp ''operations.yaml'') = Inr reg"
    unfolding cp by (auto simp: checkedChanges_def rbind_Inr_iff Let_def newTexts_changesOf [OF assms(2)])
  from loadable_paths [OF this] assms(3) have "loadable L E c p" by (simp add: loadable_def)
  with cp show ?thesis by blast
qed

lemma writeChanges_written:
  assumes "writeChanges E X dir cs F = (Inr u, F')"
    and "distinct (map fc_Path cs @ map (\<lambda>c. de_join E dir (de_base E (fc_Path c))) cs)"
  shows "(\<forall>c \<in> set cs. mget F' (fc_Path c) = Some (fc_After c)
        \<and> mget F' (de_join E dir (de_base E (fc_Path c))) = Some (fc_Before c))
    \<and> (\<forall>p. p \<notin> fc_Path ` set cs \<union> (\<lambda>c. de_join E dir (de_base E (fc_Path c))) ` set cs \<longrightarrow> mget F' p = mget F p)"
  using assms
proof (induction cs arbitrary: F)
  case (Cons c cs)
  let ?b = "\<lambda>c. de_join E dir (de_base E (fc_Path c))"
  from Cons.prems(1) have rest: "writeChanges E X dir cs (mput (fc_Path c) (fc_After c) (mput (?b c) (fc_Before c) F)) = (Inr u, F')"
    by (auto simp: writeText_def split: option.splits)
  from Cons.IH [OF this] Cons.prems(2)
  have IH: "(\<forall>c \<in> set cs. mget F' (fc_Path c) = Some (fc_After c) \<and> mget F' (?b c) = Some (fc_Before c))"
    "\<And>p. p \<notin> fc_Path ` set cs \<union> ?b ` set cs \<Longrightarrow>
       mget F' p = mget (mput (fc_Path c) (fc_After c) (mput (?b c) (fc_Before c) F)) p"
    by auto
  from Cons.prems(2) have "fc_Path c \<notin> fc_Path ` set cs \<union> ?b ` set cs" "?b c \<notin> fc_Path ` set cs \<union> ?b ` set cs"
    "fc_Path c \<noteq> ?b c" by auto
  with IH show ?case by auto
qed simp

text \<open>The two files hold the new texts, what was changed is backed up, all else is as it was.\<close>

definition committed ::
    "wsEdit \<Rightarrow> (string \<Rightarrow> string) \<Rightarrow> string \<Rightarrow> string \<Rightarrow> files \<Rightarrow> files \<Rightarrow> bool" where
  "committed e backup c p F F' \<longleftrightarrow>
     (let cp = yf_path (ed_cfg e); op = yf_path (ed_ops e)
      in mget F' cp = Some c \<and> mget F' op = Some p
       \<and> (c \<noteq> yf_original (ed_cfg e) \<longrightarrow> mget F' (backup cp) = Some (yf_original (ed_cfg e)))
       \<and> (p \<noteq> yf_original (ed_ops e) \<longrightarrow> mget F' (backup op) = Some (yf_original (ed_ops e)))
       \<and> (\<forall>q. q \<notin> {cp, op, backup cp, backup op} \<longrightarrow> mget F' q = mget F q))"

lemma written_committed:
  assumes "writeChanges E X dir (changesOf e c p) F = (Inr u, F')"
    and "mget F (yf_path (ed_cfg e)) = Some (yf_original (ed_cfg e))" and "mget F (yf_path (ed_ops e)) = Some (yf_original (ed_ops e))"
    and "distinct [yf_path (ed_cfg e), yf_path (ed_ops e), backup (yf_path (ed_cfg e)), backup (yf_path (ed_ops e))]"
    and backup: "backup = (\<lambda>p. de_join E dir (de_base E p))"
  shows "committed e backup c p F F'"
proof -
  have "distinct (map fc_Path (changesOf e c p) @ map (\<lambda>c. de_join E dir (de_base E (fc_Path c))) (changesOf e c p))"
    using assms(4) by (auto simp: changesOf_def backup)
  from writeChanges_written [OF assms(1) this] assms(2-4) show ?thesis
    unfolding committed_def Let_def backup
    by (cases "c = yf_original (ed_cfg e)"; cases "p = yf_original (ed_ops e)"; auto simp: changesOf_def)
qed

text \<open>C9: No edit reaches the disk unchecked. Files change only when the edit is to be applied and the
  gateway's loaders accept the two new texts together; when the commit succeeds, the two files on
  disk are exactly these texts, the old text of each changed file stands in the backup directory, and
  no other file has changed.\<close>

theorem commit_checked:
  assumes "commit L E X a apply e F = (r, F')"
    and "mget F (yf_path (ed_cfg e)) = Some (yf_original (ed_cfg e))" and "mget F (yf_path (ed_ops e)) = Some (yf_original (ed_ops e))"
    and "backup = (\<lambda>p. de_join E (backupDir E a) (de_base E p))"
    and "distinct [yf_path (ed_cfg e), yf_path (ed_ops e), backup (yf_path (ed_cfg e)), backup (yf_path (ed_ops e))]"
    and "\<And>x y. de_join E x y \<noteq> []"
  shows "(F' \<noteq> F \<longrightarrow> apply \<and> (\<exists>c p. newPair (de_yaml E) e = Inr (c, p) \<and> loadable L E c p))
    \<and> (apply \<and> isOk r \<longrightarrow> (\<exists>c p. newPair (de_yaml E) e = Inr (c, p) \<and> loadable L E c p \<and> committed e backup c p F F'))"
proof (cases "F' = F \<and> \<not> (apply \<and> isOk r)")
  case False
  then have no: "\<not> (r = Inl x \<and> F' = F)" "\<not> (F' = F \<and> \<not> apply)" for x by auto
  obtain cs where cs: "checkedChanges L E e = Inr cs"
  proof (cases "checkedChanges L E e")
    case (Inl x)
    with assms(1) no(1) [of x] show thesis by (simp add: commit_def)
  qed
  moreover from assms(1) no(2) cs have "apply" by (cases "apply") (simp_all add: commit_def)
  moreover from checkedChanges_pair [OF cs _ assms(6)] assms(5) obtain c p where
    pair: "newPair (de_yaml E) e = Inr (c, p)" "loadable L E c p" and cp: "cs = changesOf e c p" by auto
  moreover have "committed e backup c p F F'" if "isOk r"
  proof (rule written_committed [OF _ assms(2,3,5,4)])
    show "writeChanges E X (backupDir E a) (changesOf e c p) F = (Inr (), F')"
      using assms(1) cs that \<open>apply\<close>
      by (cases "writeChanges E X (backupDir E a) cs F"; cases "fst (writeChanges E X (backupDir E a) cs F)")
        (auto simp: commit_def cp split: option.splits)
  qed
  ultimately show ?thesis by auto
qed auto


definition textEdit :: wsEdit where
  "textEdit =
     (let file = (\<lambda>p old new. \<lparr>yf_path = p, yf_original = old, yf_doc = Node DocumentNode [] [] 0 [] [scalar new]\<rparr>)
      in \<lparr>ed_ws = ''acme'', ed_key = ''acme'', ed_cfg = file ''c'' ''a'' ''b'', ed_ops = file ''o'' ''x'' ''x'',
          ed_parsed = st_cfg vpnState\<rparr>)"

lemma commit_checked_witness:
  "\<exists>F'. snd (commit exampleLib exampleDesk noFaults exampleApp True textEdit [(''c'', ''a''), (''o'', ''x'')]) = F'
     \<and> mget F' ''c'' = Some ''b'' \<and> mget F' ''data/backups/now/c'' = Some ''a'' \<and> loadable exampleLib exampleDesk ''b'' ''x''"
proof -
  let ?F = "[(''c'', ''a''), (''o'', ''x'')]"
  obtain r F' where c: "commit exampleLib exampleDesk noFaults exampleApp True textEdit ?F = (r, F')" by fastforce
  have "isOk (fst (commit exampleLib exampleDesk noFaults exampleApp True textEdit ?F))" by code_simp
  with c have ok: "isOk r" by simp
  define backup where "backup = (\<lambda>p. de_join exampleDesk (backupDir exampleDesk exampleApp) (de_base exampleDesk p))"
  have b: "backup p = ''data/backups/now/'' @ p" for p
    by (simp add: backup_def backupDir_def exampleDesk_def exampleApp_def)
  have n: "newPair (de_yaml exampleDesk) textEdit = Inr (''b'', ''x'')" by code_simp
  have e: "yf_path (ed_cfg textEdit) = ''c''" "yf_path (ed_ops textEdit) = ''o''" "yf_original (ed_cfg textEdit) = ''a''"
    "yf_original (ed_ops textEdit) = ''x''" by (simp_all add: textEdit_def)
  have "de_join exampleDesk x y \<noteq> []" for x y by (simp add: exampleDesk_def)
  from commit_checked [OF c _ _ backup_def _ this] ok n show ?thesis
    by (simp add: e b c committed_def Let_def)
qed

end
