(* ===== verification/Companion.thy ===== *)
theory Companion
  imports ConfigEdit
begin

text \<open>
  cmd/egw-desktop/gateway.go: how the desktop companion sees a workspace and its running gateway.
  Its requests go out through the upstream of a \<open>moment\<close>, its files are those of the world; a
  request that cannot even be built stops the companion (\<open>DeskBadRequest\<close>).
\<close>

record workspaceInfo =
  wsi_Name :: string
  wsi_Description :: string
  wsi_Port :: int
  wsi_Service :: string
  wsi_ServiceInstalled :: bool
  wsi_ServiceState :: string
  wsi_GatewayUp :: bool
  wsi_RepoConfig :: string
  wsi_RepoOps :: string
  wsi_DeployedConfig :: string
  wsi_Deployed :: bool
  wsi_ConfigDrift :: bool
  wsi_AdminConfigured :: bool
  wsi_AdminTokenSource :: string
  wsi_AdminTokenOK :: bool

definition zeroInfo :: "string \<Rightarrow> workspaceInfo" where
  "zeroInfo ws = \<lparr>wsi_Name = ws, wsi_Description = [], wsi_Port = 0, wsi_Service = [], wsi_ServiceInstalled = False,
     wsi_ServiceState = [], wsi_GatewayUp = False, wsi_RepoConfig = [], wsi_RepoOps = [], wsi_DeployedConfig = [],
     wsi_Deployed = False, wsi_ConfigDrift = False, wsi_AdminConfigured = False, wsi_AdminTokenSource = [],
     wsi_AdminTokenOK = False\<rparr>"

text \<open>One request to the gateway: the status, with what arrived of the body, or an error.\<close>

definition localCall :: "upstream \<Rightarrow> wire \<Rightarrow> 's world \<Rightarrow> (string + int \<times> string) \<times> 's world" where
  "localCall U wi w =
     (case up_http U (w_sent w) wi of
        Inl (DoFailed e) \<Rightarrow> Inl e
      | Inl (ReadFailed e a) \<Rightarrow> Inr (an_Status a, an_Body a)
      | Inr a \<Rightarrow> Inr (an_Status a, an_Body a),
      w\<lparr>w_sent := w_sent w @ [wi]\<rparr>)"

definition localRequest :: "string \<Rightarrow> string \<Rightarrow> string gomap \<Rightarrow> string option \<Rightarrow> wire" where
  "localRequest m url headers body =
     \<lparr>wi_Method = m, wi_URL = url, wi_Headers = headers, wi_Body = body, wi_Insecure = False\<rparr>"

definition healthy :: "upstream \<Rightarrow> int \<Rightarrow> 's world \<Rightarrow> bool \<times> 's world" where
  "healthy U port w =
     (case localCall U (localRequest ''GET'' (localURL port @ ''/healthz'') [] None) w of
        (Inl _, w) \<Rightarrow> (False, w)
      | (Inr (status, _), w) \<Rightarrow> (status = 200, w))"

definition configDrift :: "deskEnv \<Rightarrow> fsFaults \<Rightarrow> files \<Rightarrow> 'x app_scheme \<Rightarrow> string \<Rightarrow> bool" where
  "configDrift E X F a ws \<longleftrightarrow>
     \<not> normalizedEqual X F (repoConfigPath E a ws) (deployedConfigPath E a ws)
   \<or> \<not> normalizedEqual X F (repoOpsPath E a ws) (deployedOpsPath E a ws)"

definition info ::
    "golib \<Rightarrow> 's moment \<Rightarrow> deskEnv \<Rightarrow> 'x app_scheme \<Rightarrow> string \<Rightarrow> 's world
       \<Rightarrow> (workspaceInfo \<times> (deskError + Config)) \<times> 's world" where
  "info L M E a ws w =
     (let X = mo_files M; F = w_files w
      in case effectiveConfig E X F a ws of
           Inl e \<Rightarrow> ((zeroInfo ws, Inl e), w)
         | Inr cfg \<Rightarrow>
             (let port = portFor E F a ws cfg; service = ''egw-'' @ ws;
                  deployed = mhas F (deployedConfigPath E a ws);
                  (installed, state) = de_service E service;
                  (up, w) = healthy (mo_up M) port w;
                  (token, source) = adminToken L E X a F ws;
                  sha = cfg_AdminTokenSHA cfg
              in ((\<lparr>wsi_Name = ws,
                    wsi_Description = (case mget (cfg_Workspaces cfg) (workspaceKey ws cfg) of None \<Rightarrow> []
                      | Some x \<Rightarrow> ws_Description x),
                    wsi_Port = port, wsi_Service = service, wsi_ServiceInstalled = installed, wsi_ServiceState = state,
                    wsi_GatewayUp = up, wsi_RepoConfig = repoConfigPath E a ws, wsi_RepoOps = repoOpsPath E a ws,
                    wsi_DeployedConfig = deployedConfigPath E a ws, wsi_Deployed = deployed,
                    wsi_ConfigDrift = (deployed \<and> configDrift E X F a ws), wsi_AdminConfigured = (sha \<noteq> []),
                    wsi_AdminTokenSource = source,
                    wsi_AdminTokenOK = (token \<noteq> [] \<and> sha \<noteq> [] \<and> lib_sha256hex L token = sha)\<rparr>, Inr cfg), w)))"

definition gatewayCall ::
    "golib \<Rightarrow> 's moment \<Rightarrow> deskEnv \<Rightarrow> 'x app_scheme \<Rightarrow> string \<Rightarrow> string \<Rightarrow> string \<Rightarrow> string option \<Rightarrow> 's world
       \<Rightarrow> (deskError + int \<times> string) \<times> 's world" where
  "gatewayCall L M E a ws m path body w =
     (case info L M E a ws w of
        ((_, Inl e), w) \<Rightarrow> (Inl e, w)
      | ((i, Inr _), w) \<Rightarrow>
          (let token = fst (adminToken L E (mo_files M) a (w_files w) ws); url = localURL (wsi_Port i) @ path;
               headers = [(''Content-Type'', ''application/json'')]
                 @ (if token \<noteq> [] then [(''Authorization'', ''Bearer '' @ token)] else [])
           in if up_badRequest (mo_up M) m url \<noteq> None then (Inl DeskBadRequest, w)
              else (case localCall (mo_up M) (localRequest m url headers body) w of
                      (Inl e, w) \<Rightarrow> (Inl (DeskUnreachable (wsi_Port i) e), w)
                    | (Inr r, w) \<Rightarrow> (Inr r, w))))"

definition reload ::
    "golib \<Rightarrow> 's moment \<Rightarrow> deskEnv \<Rightarrow> 'x app_scheme \<Rightarrow> string \<Rightarrow> 's world \<Rightarrow> (deskError + unit) \<times> 's world" where
  "reload L M E a ws w =
     (case gatewayCall L M E a ws ''POST'' ''/admin/reload'' None w of
        (Inl e, w) \<Rightarrow> (Inl e, w)
      | (Inr (status, body), w) \<Rightarrow>
          if status \<noteq> 200 then (Inl (DeskRefused ''reload refused'' status (trimSpace body)), w) else (Inr (), w))"

section \<open>Secrets\<close>

record secretRequest =
  sr_WS :: string
  sr_Name :: string
  sr_Value :: string
  sr_PairValue :: string

text \<open>The environment a candidate is tested against: the first that uses it, with the two values in place.\<close>

definition candidateFor ::
    "golib \<Rightarrow> secretRequest \<Rightarrow> string \<Rightarrow> Environment \<Rightarrow> (Kind \<times> string \<times> string) option" where
  "candidateFor L req site env =
     (let kind = DetectKind L site env
      in if \<not> Checkable kind then None
         else if hasSuffix (env_SecretRef env) (''/'' @ sr_Name req) then Some (kind, sr_Value req, sr_PairValue req)
         else if hasSuffix (env_CookieSecretRef env) (''/'' @ sr_Name req) then Some (kind, sr_PairValue req, sr_Value req)
         else None)"

definition candidates :: "golib \<Rightarrow> secretRequest \<Rightarrow> Workspace \<Rightarrow> (string \<times> Environment \<times> Kind \<times> string \<times> string) list" where
  "candidates L req ws =
     concat (map (\<lambda>(s, site). if site_Disabled site then []
       else List.map_filter (\<lambda>(n, env).
           map_option (\<lambda>(kind, p, q). (s @ ''/'' @ n, env, kind, p, q)) (candidateFor L req s env))
         (sortedEntries (site_Environments site))) (sortedEntries (ws_Sites ws)))"

definition testSecret ::
    "golib \<Rightarrow> 's moment \<Rightarrow> deskEnv \<Rightarrow> 'x app_scheme \<Rightarrow> secretRequest \<Rightarrow> 's world \<Rightarrow> (deskError + Result) \<times> 's world" where
  "testSecret L M E a req w =
     (case effectiveConfig E (mo_files M) (w_files w) a (sr_WS req) of
        Inl e \<Rightarrow> (Inl e, w)
      | Inr cfg \<Rightarrow>
          (let ws = (case mget (cfg_Workspaces cfg) (workspaceKey (sr_WS req) cfg) of None \<Rightarrow> zeroWorkspace | Some x \<Rightarrow> x)
           in case candidates L req ws of
                [] \<Rightarrow> (Inr (result StateUnchecked
                  ''no automatic check for this secret - save it and verify with an operation'' 0), w)
              | (place, env, kind, primary, secondary) # _ \<Rightarrow>
                  (let (res, w) = Check L M kind env primary secondary w; suffix = ''tested against '' @ place
                   in (Inr (res\<lparr>rt_Detail := if rt_Detail res = [] then suffix
                         else rt_Detail res @ '' ('' @ suffix @ '')''\<rparr>), w))))"

definition saveSecret ::
    "golib \<Rightarrow> 's moment \<Rightarrow> deskEnv \<Rightarrow> 'x app_scheme \<Rightarrow> secretRequest \<Rightarrow> 's world \<Rightarrow> (deskError + unit) \<times> 's world" where
  "saveSecret L M E a req w =
     (let value = trimSpace (sr_Value req)
      in if value = [] \<or> sr_Name req = [] then (Inl DeskNameValue, w)
         else (case effectiveConfig E (mo_files M) (w_files w) a (sr_WS req) of
                 Inl e \<Rightarrow> (Inl e, w)
               | Inr cfg \<Rightarrow>
                   (case gatewayCall L M E a (sr_WS req) ''POST'' ''/admin/secrets''
                       (Some (objectText [(''name'', jsonQuote True (sr_Name req)), (''value'', jsonQuote True value),
                         (''workspace'', jsonQuote True (workspaceKey (sr_WS req) cfg))])) w of
                      (Inl e, w) \<Rightarrow> (Inl e, w)
                    | (Inr (status, body), w) \<Rightarrow>
                        if status \<noteq> 200 then (Inl (DeskRefused ''gateway refused'' status (trimSpace body)), w)
                        else (Inr (), w))))"

definition useAdminToken ::
    "golib \<Rightarrow> deskEnv \<Rightarrow> fsFaults \<Rightarrow> 'x app_scheme \<Rightarrow> string \<Rightarrow> string \<Rightarrow> bool \<Rightarrow> files
       \<Rightarrow> (deskError + unit) \<times> 'x app_scheme \<times> files" where
  "useAdminToken L E X a ws token remember F =
     (let token = trimSpace token
      in case effectiveConfig E X F a ws of
           Inl e \<Rightarrow> (Inl e, a, F)
         | Inr cfg \<Rightarrow>
             (let sha = lib_sha256hex L token; a' = a\<lparr>ap_adminTokens := mput ws token (ap_adminTokens a)\<rparr>
              in if cfg_AdminTokenSHA cfg = [] \<or> sha \<noteq> cfg_AdminTokenSHA cfg then (Inl (DeskTokenMismatch ws), a, F)
                 else if remember then
                   (case upsertKey L E X a (adminLabel E ws) [] token sha (localURL (portFor E F a ws cfg) @ ''/admin'') F of
                      (r, F) \<Rightarrow> (r, a', F))
                 else (Inr (), a', F)))"

end
