(* ===== verification/Publishing.thy ===== *)
theory Publishing
  imports Companion
begin

text \<open>
  What publishing achieves: after a successful copy the companion sees no drift between the source
  files of a workspace and the deployed ones, although it copies them with blanks cut off and
  compares them with line ends made equal.
\<close>

section \<open>Lines\<close>

lemma splitOn_append: "c \<notin> set x \<Longrightarrow> splitOn c (x @ c # t) = x # splitOn c t"
  by (induction x) auto

lemma splitOn_plain: "c \<notin> set x \<Longrightarrow> splitOn c x = [x]"
  by (induction x) auto

lemma splitOn_joined: "xs \<noteq> [] \<Longrightarrow> \<forall>x \<in> set xs. c \<notin> set x \<Longrightarrow> splitOn c (join [c] xs) = xs"
  by (induction "[c]" xs rule: join.induct) (auto simp: splitOn_append splitOn_plain)

abbreviation CR :: char where
  "CR \<equiv> CHR 0x0D"

definition chomp :: "string \<Rightarrow> string" where
  "chomp l = (if l \<noteq> [] \<and> last l = CR then butlast l else l)"

text \<open>A carriage return stands at most at the end of the line.\<close>

definition crAtEnd :: "string \<Rightarrow> bool" where
  "crAtEnd l \<longleftrightarrow> CR \<notin> set (butlast l)"

lemma replaceAll_skip: "CR \<notin> set x \<Longrightarrow> replaceAll (x @ t) crlf lf = x @ replaceAll t crlf lf"
  by (induction x) (auto simp: replaceAll.simps(2) hasPrefix_def crlf_def)

lemma replaceAll_line: "crAtEnd x \<Longrightarrow> replaceAll (x @ lf @ t) crlf lf = chomp x @ lf @ replaceAll t crlf lf"
proof (cases x rule: rev_cases)
  case Nil
  then show ?thesis using replaceAll_skip [of lf t] by (simp add: chomp_def lf_def)
next
  case (snoc y c)
  assume "crAtEnd x"
  with snoc have y: "CR \<notin> set y" by (simp add: crAtEnd_def)
  show ?thesis
  proof (cases "c = CR")
    case True
    have "replaceAll (CR # lf @ t) crlf lf = lf @ replaceAll t crlf lf"
      by (simp add: replaceAll.simps(2) hasPrefix_def crlf_def lf_def)
    with True snoc replaceAll_skip [OF y, of "CR # lf @ t"] show ?thesis by (simp add: chomp_def)
  next
    case False
    with y snoc have "CR \<notin> set (x @ lf)" by (simp add: lf_def)
    from replaceAll_skip [OF this, of t] False snoc show ?thesis by (simp add: chomp_def)
  qed
qed

lemma join_snoc: "join s (x # xs @ [z]) = x @ s @ join s (xs @ [z])"
  by (cases xs) simp_all

lemma replaceAll_lines:
  "\<forall>x \<in> set xs. crAtEnd x \<Longrightarrow> CR \<notin> set z \<Longrightarrow>
     replaceAll (join lf (xs @ [z])) crlf lf = join lf (map chomp xs @ [z])"
proof (induction xs)
  case Nil
  then show ?case using replaceAll_skip [of z "[]"] by (simp add: replaceAll.simps(1))
next
  case (Cons x xs)
  then show ?case by (simp add: join_snoc replaceAll_line)
qed

section \<open>Cutting blanks\<close>

definition cutEnd :: "string \<Rightarrow> string" where
  "cutEnd l = rev (dropWhile isBlank (rev l))"

lemma dropWhile_twice: "dropWhile P (dropWhile P xs) = dropWhile P xs"
  by (induction xs) auto

lemma cutEnd_idem [simp]: "cutEnd (cutEnd l) = cutEnd l"
  by (simp add: cutEnd_def dropWhile_twice)

lemma set_cutEnd: "set (cutEnd l) \<subseteq> set l"
  unfolding cutEnd_def by (auto dest: set_dropWhileD)

lemma cutEnd_not_CR: "CR \<notin> set l \<Longrightarrow> CR \<notin> set (cutEnd l)"
  using set_cutEnd by blast

lemma cutBlanks_plain:
  assumes "CR \<notin> set l"
  shows "cutBlanks f l = (if cutEnd l = l then l else cutEnd l @ f [])"
proof -
  have "(l \<noteq> [] \<and> last l = CR) = False" using assms by (cases l rule: rev_cases) auto
  then show ?thesis by (simp only: cutBlanks_def cutEnd_def Let_def if_False list.size(3) minus_nat.diff_0 take_all order_refl)
qed

lemma cutBlanks_CR: "cutBlanks f (l @ [CR]) = (if cutEnd l = l then l @ [CR] else cutEnd l @ f [CR])"
  by (auto simp: cutBlanks_def cutEnd_def Let_def)

lemma crAtEnd_cases:
  assumes "crAtEnd l"
  obtains "CR \<notin> set l" | k where "l = k @ [CR]" "CR \<notin> set k"
  using assms by (cases l rule: rev_cases) (auto simp: crAtEnd_def)


text \<open>Publishing a line and comparing it afterwards is comparing it: the line ends are made equal later.\<close>

lemma keep_drop_plain:
  assumes "CR \<notin> set l"
  shows "cutBlanks (\<lambda>_. []) (cutBlanks (\<lambda>cr. cr) l) = cutBlanks (\<lambda>_. []) l" and "CR \<notin> set (cutBlanks (\<lambda>_. []) l)"
  using assms cutEnd_not_CR [OF assms] by (simp_all add: cutBlanks_plain)

lemma keep_drop_line:
  assumes "crAtEnd l"
  shows "chomp (cutBlanks (\<lambda>_. []) (cutBlanks (\<lambda>cr. cr) l)) = chomp (cutBlanks (\<lambda>_. []) l)"
    and "crAtEnd (cutBlanks (\<lambda>_. []) (cutBlanks (\<lambda>cr. cr) l))" and "crAtEnd (cutBlanks (\<lambda>_. []) l)"
proof -
  have plain: "crAtEnd k" "chomp k = k" if "CR \<notin> set k" for k
    using that in_set_butlastD [of CR k] by (cases k rule: rev_cases; auto simp: crAtEnd_def chomp_def)+
  have "chomp (cutBlanks (\<lambda>_. []) (cutBlanks (\<lambda>cr. cr) l)) = chomp (cutBlanks (\<lambda>_. []) l)
    \<and> crAtEnd (cutBlanks (\<lambda>_. []) (cutBlanks (\<lambda>cr. cr) l)) \<and> crAtEnd (cutBlanks (\<lambda>_. []) l)"
    using assms
  proof (cases rule: crAtEnd_cases)
    case 1
    from keep_drop_plain [OF 1] plain show ?thesis by simp
  next
    case (2 k)
    then have "CR \<notin> set (cutEnd k)" using cutEnd_not_CR by blast
    moreover have "chomp (k' @ [CR]) = k'" "crAtEnd (k' @ [CR]) \<longleftrightarrow> CR \<notin> set k'" for k'
      by (simp_all add: chomp_def crAtEnd_def)
    ultimately show ?thesis using 2 plain by (simp add: cutBlanks_CR)
  qed
  then show "chomp (cutBlanks (\<lambda>_. []) (cutBlanks (\<lambda>cr. cr) l)) = chomp (cutBlanks (\<lambda>_. []) l)"
    and "crAtEnd (cutBlanks (\<lambda>_. []) (cutBlanks (\<lambda>cr. cr) l))" and "crAtEnd (cutBlanks (\<lambda>_. []) l)" by simp_all
qed


section \<open>Publishing\<close>

text \<open>
  A text as editors write it: carriage returns only in front of line feeds, and one byte order mark
  at most. Of a text with a lone carriage return the comparison sees more than publishing keeps.
\<close>

definition plainText :: "string \<Rightarrow> bool" where
  "plainText s \<longleftrightarrow>
     (let ls = splitOn (CHR 0x0A) (trimPrefix s byteOrderMark)
      in list_all crAtEnd (butlast ls) \<and> CR \<notin> set (last ls) \<and> \<not> hasPrefix (publishedText s) byteOrderMark)"

lemma set_cutBlanks: "set (cutBlanks (\<lambda>cr. cr) l) \<subseteq> set l"
proof (cases l rule: rev_cases)
  case (snoc k c)
  show ?thesis
  proof (cases "c = CR")
    case True
    then show ?thesis using set_cutEnd [of k] by (auto simp: snoc cutBlanks_CR split: if_split_asm)
  next
    case False
    then show ?thesis using set_cutEnd [of l] by (auto simp: snoc cutBlanks_def cutEnd_def Let_def split: if_split_asm)
  qed
qed (simp add: cutBlanks_def Let_def)

lemma norm_published:
  assumes "plainText s"
  shows "normFileText (publishedText s) = normFileText s"
proof -
  define f where "f = cutBlanks (\<lambda>cr. cr)"
  define g where "g = cutBlanks (\<lambda>_. [])"
  let ?t = "trimPrefix s byteOrderMark"
  obtain xs z where ls: "splitOn (CHR 0x0A) ?t = xs @ [z]" by (metis rev_exhaust splitOn_not_Nil)
  have xs: "\<forall>x \<in> set xs. crAtEnd x" and z: "CR \<notin> set z" and bom: "\<not> hasPrefix (publishedText s) byteOrderMark"
    using assms by (simp_all add: plainText_def ls list_all_iff)
  have p: "publishedText s = join [CHR 0x0A] (map f xs @ [f z])"
    by (simp add: publishedText_def eachLine_def ls f_def [symmetric] lf_def)
  have "CHR 0x0A \<notin> set x" if "x \<in> set (map f xs @ [f z])" for x
    using that set_cutBlanks splitOn_no_sep [of _ "CHR 0x0A" ?t] unfolding ls f_def by auto
  then have "splitOn (CHR 0x0A) (publishedText s) = map f xs @ [f z]" unfolding p by (intro splitOn_joined) auto
  then have a: "eachLine g (trimPrefix (publishedText s) byteOrderMark) = join lf (map g (map f xs) @ [g (f z)])"
    using bom by (simp add: eachLine_def trimPrefix_def)
  have b: "eachLine g ?t = join lf (map g xs @ [g z])" by (simp add: eachLine_def ls)
  have "replaceAll (join lf (map g (map f xs) @ [g (f z)])) crlf lf = join lf (map chomp (map g (map f xs)) @ [g (f z)])"
    by (rule replaceAll_lines) (use xs z keep_drop_line(2) keep_drop_plain in \<open>auto simp: f_def g_def\<close>)
  also have "\<dots> = join lf (map chomp (map g xs) @ [g z])"
    using xs z keep_drop_line(1) keep_drop_plain(1) by (simp add: f_def g_def cong: map_cong)
  also have "\<dots> = replaceAll (join lf (map g xs @ [g z])) crlf lf"
    by (rule replaceAll_lines [symmetric]) (use xs z keep_drop_line(3) keep_drop_plain(2) in \<open>auto simp: g_def\<close>)
  finally show ?thesis unfolding normFileText_def g_def [symmetric] a b by simp
qed



definition exampleFiles :: files where
  "exampleFiles =
     [(repoConfigPath exampleDesk exampleApp ''acme'', ''roles:  '' @ crlf @ ''  dev: 1'' @ [CHR 0x09] @ lf),
      (repoOpsPath exampleDesk exampleApp ''acme'', byteOrderMark @ ''operations: '')]"


text \<open>A lone carriage return after blanks: publishing it leaves a drift that publishing again does not remove.\<close>

lemma lone_return_drifts:
  "normFileText (publishedText (''a'' @ [CR] @ '' '' @ crlf @ ''b'')) \<noteq> normFileText (''a'' @ [CR] @ '' '' @ crlf @ ''b'')"
  by code_simp

end
