(* ===== verification/Checker.thy ===== *)
theory Checker
  imports Companion
begin

text \<open>
  cmd/egw-desktop/checker.go: the status of the secrets of every workspace as the companion keeps
  it, the list of problems made from it, and what the user is told. Of the help of a secret
  (help.go) only the title is kept. The workspaces are checked one after the other here.
\<close>

section \<open>State\<close>

record usage =
  ug_Site :: string
  ug_Env :: string
  ug_Role :: string
  ug_User :: string
  ug_BaseURL :: string
  ug_Tunnel :: string
  ug_Disabled :: bool

record checkResult =
  cr_State :: string
  cr_Detail :: string
  cr_Identity :: string
  cr_ExpiresAt :: string
  cr_Scopes :: "string list"
  cr_HTTPStatus :: int

record secretRow =
  sw_Name :: string
  sw_Role :: string
  sw_Kind :: string
  sw_Pair :: string
  sw_Stored :: bool
  sw_LastWritten :: string
  sw_UsedBy :: "usage list"
  sw_Disabled :: bool
  sw_Check :: "checkResult option"
  sw_HelpTitle :: string

record wsResult =
  wr_Info :: workspaceInfo
  wr_Problem :: string
  wr_Detail :: string
  wr_Secrets :: "secretRow list"
  wr_CheckedAt :: string
  wr_Live :: bool
  wr_IgnoredDisabled :: "string list"
  wr_Rechecking :: bool

record settings =
  se_CheckIntervalMin :: int
  se_Notify :: bool
  se_ExpiryWarnDays :: int

record deskApp = app +
  ap_session :: string
  ap_port :: int
  ap_elevated :: bool
  ap_settings :: settings
  ap_results :: "wsResult gomap"
  ap_lastCheck :: string
  ap_notified :: "bool gomap"
  ap_checking :: bool
  ap_rechecking :: "int gomap"

text \<open>What runs in the background: a \<open>go\<close> statement puts it here, and it is done some time later.\<close>

datatype background =
    BgRefresh string
  | BgRefreshNotify string
  | BgRecheckEnd string
  | BgCheckAll
  | BgOpenUI

text \<open>The companion: its fields, the world its requests and files are part of, and the start at logon.\<close>

record 's desk =
  dk_app :: deskApp
  dk_world :: "'s world"
  dk_autostart :: bool
  dk_background :: "background list"

definition later :: "background \<Rightarrow> 's desk \<Rightarrow> 's desk" where
  "later b d = d\<lparr>dk_background := dk_background d @ [b]\<rparr>"

section \<open>Reading the status\<close>

text \<open>\<open>json.Unmarshal\<close> of the gateway's answer; the key \<open>help\<close>, which no gateway sends, is not read.\<close>

definition structStep :: "(params \<Rightarrow> 'a option) \<Rightarrow> 'a \<Rightarrow> json \<Rightarrow> 'a option" where
  "structStep rd zero v = (case v of JObj kvs \<Rightarrow> rd kvs | JNull \<Rightarrow> Some zero | _ \<Rightarrow> None)"

definition listStep :: "('a \<Rightarrow> json \<Rightarrow> 'a option) \<Rightarrow> 'a \<Rightarrow> 'a list \<Rightarrow> json \<Rightarrow> 'a list option" where
  "listStep step zero cur v =
     (case v of JArr vs \<Rightarrow> those (map (step zero) vs) | JNull \<Rightarrow> Some [] | _ \<Rightarrow> None)"

definition zeroUsage :: usage where
  "zeroUsage = \<lparr>ug_Site = [], ug_Env = [], ug_Role = [], ug_User = [], ug_BaseURL = [], ug_Tunnel = [],
     ug_Disabled = False\<rparr>"

definition usageStep :: "golib \<Rightarrow> usage \<Rightarrow> json \<Rightarrow> usage option" where
  "usageStep L z = structStep (\<lambda>kvs.
     optBind (structFold L ''site'' strStep [] kvs) (\<lambda>s.
     optBind (structFold L ''env'' strStep [] kvs) (\<lambda>e.
     optBind (structFold L ''role'' strStep [] kvs) (\<lambda>r.
     optBind (structFold L ''user'' strStep [] kvs) (\<lambda>u.
     optBind (structFold L ''base_url'' strStep [] kvs) (\<lambda>b.
     optBind (structFold L ''tunnel'' strStep [] kvs) (\<lambda>t.
     optBind (structFold L ''disabled'' boolStep False kvs) (\<lambda>d.
     Some \<lparr>ug_Site = s, ug_Env = e, ug_Role = r, ug_User = u, ug_BaseURL = b, ug_Tunnel = t, ug_Disabled = d\<rparr>)))))))) z"

definition zeroCheck :: checkResult where
  "zeroCheck = \<lparr>cr_State = [], cr_Detail = [], cr_Identity = [], cr_ExpiresAt = [], cr_Scopes = [], cr_HTTPStatus = 0\<rparr>"

definition checkStep :: "golib \<Rightarrow> checkResult option \<Rightarrow> json \<Rightarrow> checkResult option option" where
  "checkStep L cur = structStep (\<lambda>kvs.
     let old = (case cur of None \<Rightarrow> zeroCheck | Some c \<Rightarrow> c)
     in optBind (structFold L ''state'' strStep (cr_State old) kvs) (\<lambda>s.
        optBind (structFold L ''detail'' strStep (cr_Detail old) kvs) (\<lambda>d.
        optBind (structFold L ''identity'' strStep (cr_Identity old) kvs) (\<lambda>i.
        optBind (structFold L ''expires_at'' strStep (cr_ExpiresAt old) kvs) (\<lambda>e.
        optBind (structFold L ''scopes'' stringsStep (cr_Scopes old) kvs) (\<lambda>c.
        optBind (structFold L ''http_status'' intStep (cr_HTTPStatus old) kvs) (\<lambda>h.
        Some (Some \<lparr>cr_State = s, cr_Detail = d, cr_Identity = i, cr_ExpiresAt = e, cr_Scopes = c,
          cr_HTTPStatus = h\<rparr>)))))))) None"

definition zeroRow :: secretRow where
  "zeroRow = \<lparr>sw_Name = [], sw_Role = [], sw_Kind = [], sw_Pair = [], sw_Stored = False, sw_LastWritten = [],
     sw_UsedBy = [], sw_Disabled = False, sw_Check = None, sw_HelpTitle = []\<rparr>"

definition rowStep :: "golib \<Rightarrow> secretRow \<Rightarrow> json \<Rightarrow> secretRow option" where
  "rowStep L z = structStep (\<lambda>kvs.
     optBind (structFold L ''name'' strStep [] kvs) (\<lambda>n.
     optBind (structFold L ''role'' strStep [] kvs) (\<lambda>r.
     optBind (structFold L ''kind'' strStep [] kvs) (\<lambda>k.
     optBind (structFold L ''pair'' strStep [] kvs) (\<lambda>p.
     optBind (structFold L ''stored'' boolStep False kvs) (\<lambda>s.
     optBind (structFold L ''last_written'' strStep [] kvs) (\<lambda>l.
     optBind (structFold L ''used_by'' (listStep (usageStep L) zeroUsage) [] kvs) (\<lambda>u.
     optBind (structFold L ''disabled'' boolStep False kvs) (\<lambda>d.
     optBind (structFold L ''check'' (checkStep L) None kvs) (\<lambda>c.
     Some \<lparr>sw_Name = n, sw_Role = r, sw_Kind = k, sw_Pair = p, sw_Stored = s, sw_LastWritten = l, sw_UsedBy = u,
       sw_Disabled = d, sw_Check = c, sw_HelpTitle = []\<rparr>)))))))))) z"

definition decodeRows :: "golib \<Rightarrow> string \<Rightarrow> secretRow list option" where
  "decodeRows L data =
     (case lib_decode L data of
        Some (JObj kvs) \<Rightarrow> structFold L ''secrets'' (listStep (rowStep L) zeroRow) [] kvs
      | Some JNull \<Rightarrow> Some []
      | _ \<Rightarrow> None)"

text \<open>The titles of \<open>helpFor\<close>.\<close>

definition helpTitle :: "string \<Rightarrow> string \<Rightarrow> string" where
  "helpTitle kind role =
     (if kind = ''gitlab'' then ''GitLab personal access token''
      else if kind = ''github'' then ''GitHub personal access token''
      else if kind = ''atlassian'' then ''Atlassian API token''
      else if kind = ''jira'' then ''Jira Server / Data Center password''
      else if kind = ''jenkins'' then ''Jenkins API token''
      else if kind = ''bitbucket'' then ''Bitbucket credential''
      else if kind = ''kibana'' then ''Kibana / Elasticsearch password''
      else if kind = ''clockify'' then ''Clockify API key''
      else if kind = ''authentik'' then ''Authentik API token''
      else if kind = ''slack'' then
        (if role = ''secondary'' then ''Slack d cookie (xoxd)'' else ''Slack session token (xoxc)'')
      else if kind = ''trello'' then (if role = ''secondary'' then ''Trello token'' else ''Trello API key'')
      else if kind = ''postgres'' then ''PostgreSQL password''
      else if kind = ''imap'' then ''Mail app password''
      else if kind = ''oauth'' then ''OAuth credential ('' @ role @ '')''
      else if kind = ''mcp'' then ''Atlassian MCP credential''
      else ''Secret'')"

definition siteDisabledIn :: "Site gomap \<Rightarrow> string \<Rightarrow> bool" where
  "siteDisabledIn sites site = (case mget sites site of None \<Rightarrow> False | Some s \<Rightarrow> site_Disabled s)"

definition disabledSites :: "Site gomap \<Rightarrow> string list" where
  "disabledSites sites = filter (siteDisabledIn sites) (sortedKeys sites)"

fun addUnseen :: "string \<Rightarrow> string list \<Rightarrow> string list" where
  "addUnseen x out = (if List.member out x then out else out @ [x])"

definition activeSites :: "secretRow \<Rightarrow> string list" where
  "activeSites s = fold (\<lambda>u out. if ug_Disabled u then out else addUnseen (ug_Site u) out) (sw_UsedBy s) []"

definition ignoredDisabledSites :: "Site gomap \<Rightarrow> secretRow list \<Rightarrow> string list" where
  "ignoredDisabledSites sites secrets =
     sort (fold (\<lambda>u out. if siteDisabledIn sites (ug_Site u) \<and> \<not> ug_Disabled u then addUnseen (ug_Site u) out else out)
       (concat (map sw_UsedBy secrets)) [])"

text \<open>A secret as it is shown: what the gateway says, corrected by the configuration.\<close>

definition shownRow :: "Site gomap \<Rightarrow> secretRow \<Rightarrow> secretRow" where
  "shownRow sites s =
     (let used = map (\<lambda>u. u\<lparr>ug_Disabled := siteDisabledIn sites (ug_Site u)\<rparr>) (sw_UsedBy s);
          s = s\<lparr>sw_UsedBy := used\<rparr>;
          s = (if used \<noteq> [] \<and> list_all ug_Disabled used \<and> \<not> sw_Disabled s
               then s\<lparr>sw_Disabled := True, sw_Check := None\<rparr> else s)
      in s\<lparr>sw_HelpTitle := helpTitle (sw_Kind s) (sw_Role s)\<rparr>)"

definition sitesOf :: "Config \<Rightarrow> string \<Rightarrow> Site gomap" where
  "sitesOf cfg key = (case mget (cfg_Workspaces cfg) key of None \<Rightarrow> [] | Some w \<Rightarrow> ws_Sites w)"

definition fetchStatus ::
    "golib \<Rightarrow> 's moment \<Rightarrow> deskEnv \<Rightarrow> (deskError \<Rightarrow> string) \<Rightarrow> 'x app_scheme \<Rightarrow> string \<Rightarrow> bool \<Rightarrow> 's world
       \<Rightarrow> wsResult \<times> 's world" where
  "fetchStatus L M E errText a ws live w =
     (let ((i, cfg), w) = info L M E a ws w;
          res = \<lparr>wr_Info = i, wr_Problem = [], wr_Detail = [], wr_Secrets = [], wr_CheckedAt = mo_now M,
            wr_Live = live, wr_IgnoredDisabled = [], wr_Rechecking = False\<rparr>;
          problem = (\<lambda>p d. res\<lparr>wr_Problem := p, wr_Detail := d\<rparr>)
      in case cfg of
           Inl e \<Rightarrow> (problem ''config_error'' (errText e), w)
         | Inr cfg \<Rightarrow>
             (let key = workspaceKey ws cfg; sites = sitesOf cfg key;
                  path = ''/admin/secrets/status?workspace='' @ key @ (if live then [] else ''&check=0'')
              in case gatewayCall L M E a ws ''GET'' path None w of
                   (Inl e, w) \<Rightarrow> (problem ''gateway_down'' (errText e), w)
                 | (Inr (status, data), w) \<Rightarrow>
                     if status = 401 then (problem ''admin_unauthorized'' [], w)
                     else if status = 405 \<or> status = 404 \<and> strContains data ''unknown admin endpoint'' then
                       ((problem ''gateway_outdated'' [])\<lparr>wr_IgnoredDisabled := disabledSites sites\<rparr>, w)
                     else if status \<noteq> 200 then
                       (problem ''gateway_error'' (''HTTP '' @ showInt status @ '': '' @ trimSpace data), w)
                     else (case decodeRows L data of
                             None \<Rightarrow> (problem ''gateway_error'' (mo_jsonError M data), w)
                           | Some rows \<Rightarrow>
                               (res\<lparr>wr_IgnoredDisabled := ignoredDisabledSites sites rows,
                                  wr_Secrets := map (shownRow sites) rows\<rparr>, w))))"

text \<open>A status without live checks keeps the results of the last live one.\<close>

definition keepChecks :: "wsResult \<Rightarrow> wsResult \<Rightarrow> wsResult" where
  "keepChecks prev res =
     (let checks = fold (\<lambda>s. mput (sw_Name s) (sw_Check s)) (wr_Secrets prev) [];
          check = (\<lambda>n. case mget checks n of None \<Rightarrow> None | Some c \<Rightarrow> c)
      in res\<lparr>wr_Secrets := map (\<lambda>s. s\<lparr>sw_Check := check (sw_Name s)\<rparr>) (wr_Secrets res),
           wr_Live := True, wr_CheckedAt := wr_CheckedAt prev\<rparr>)"

definition refresh ::
    "golib \<Rightarrow> 's moment \<Rightarrow> deskEnv \<Rightarrow> (deskError \<Rightarrow> string) \<Rightarrow> string \<Rightarrow> bool \<Rightarrow> 's desk \<Rightarrow> wsResult \<times> 's desk" where
  "refresh L M E errText ws live d =
     (let a = dk_app d; (res, w) = fetchStatus L M E errText a ws live (dk_world d);
          res = (case mget (ap_results a) ws of
              None \<Rightarrow> res
            | Some prev \<Rightarrow> if \<not> live \<and> wr_Live prev \<and> wr_Problem res = [] then keepChecks prev res else res)
      in (res, d\<lparr>dk_app := a\<lparr>ap_results := mput ws res (ap_results a)\<rparr>, dk_world := w\<rparr>))"


section \<open>Problems\<close>

record todoAction =
  ta_Kind :: string
  ta_WS :: string
  ta_Secret :: string
  ta_Arg :: string

record todo =
  td_Key :: string
  td_WS :: string
  td_Severity :: string
  td_Title :: string
  td_Detail :: string
  td_Action :: todoAction
  td_Sites :: "string list"
  td_Notify :: bool

definition action :: "string \<Rightarrow> string \<Rightarrow> todoAction" where
  "action kind ws = \<lparr>ta_Kind = kind, ta_WS = ws, ta_Secret = [], ta_Arg = []\<rparr>"

definition problem :: "string \<Rightarrow> string \<Rightarrow> string \<Rightarrow> string \<Rightarrow> string \<Rightarrow> bool \<Rightarrow> todoAction \<Rightarrow> todo" where
  "problem ws key severity title detail notify act =
     \<lparr>td_Key = key, td_WS = ws, td_Severity = severity, td_Title = title, td_Detail = detail, td_Action = act,
      td_Sites = [], td_Notify = notify\<rparr>"

text \<open>Days until a date (its last second) or a time, cut towards zero; a duration is taken to be exact.\<close>

definition daysUntil :: "deskEnv \<Rightarrow> string \<Rightarrow> int option" where
  "daysUntil E date =
     (let day = 86400 * 10 ^ 9; days = (\<lambda>t. (t - de_now E) sdiv day)
      in case parseDate date of
           Some d \<Rightarrow> Some (days (d * day + (day - 10 ^ 9)))
         | None \<Rightarrow> map_option days (de_rfc3339 E date))"

definition bucket :: "int \<Rightarrow> int" where
  "bucket days = (if days \<le> 1 then 1 else if days \<le> 3 then 3 else if days \<le> 7 then 7 else 14)"

definition serviceTodos :: "string \<Rightarrow> workspaceInfo \<Rightarrow> todo list" where
  "serviceTodos ws i =
     (if wsi_ServiceInstalled i \<and> wsi_ServiceState i \<noteq> ''running'' then
        [problem ws (ws @ ''/service'') ''bad'' (''Gateway service '' @ wsi_Service i @ '' is '' @ wsi_ServiceState i) [] True
          ((action ''service'' ws)\<lparr>ta_Arg := ''start''\<rparr>)]
      else if \<not> wsi_GatewayUp i \<and> wsi_ServiceInstalled i then
        [problem ws (ws @ ''/down'') ''bad'' (''Gateway not answering on port '' @ showInt (wsi_Port i)) [] True
          ((action ''service'' ws)\<lparr>ta_Arg := ''restart''\<rparr>)]
      else [])"

definition adminTodos :: "deskEnv \<Rightarrow> string \<Rightarrow> workspaceInfo \<Rightarrow> todo list" where
  "adminTodos E ws i =
     (if \<not> wsi_AdminConfigured i then
        [problem ws (ws @ ''/admin-locked'') ''warn'' ''Admin API locked - secrets cannot be checked or changed''
          ''No admin_token_sha256 in the config.'' False (action ''enable-admin'' ws)]
      else if \<not> wsi_AdminTokenOK i then
        [problem ws (ws @ ''/admin-token'') ''warn'' ''Admin token not available''
          (''No matching ['' @ de_upper E ws @ '' Admin] entry in agent-keys.txt.'') False (action ''open'' ws)]
      else [])"

definition driftTodos :: "string \<Rightarrow> workspaceInfo \<Rightarrow> todo list" where
  "driftTodos ws i =
     (if wsi_ConfigDrift i then
        [problem ws (ws @ ''/drift'') ''warn'' ''Config changes not published to the running gateway''
          ''The source config or operations differ from the deployed copy.'' False (action ''publish'' ws)]
      else [])"

definition gatewayTodos :: "string \<Rightarrow> wsResult \<Rightarrow> todo list" where
  "gatewayTodos ws r =
     (if wr_Problem r = ''gateway_outdated'' then
        [problem ws (ws @ ''/outdated'') ''warn'' ''Running gateway build has no secret status endpoint'' [] False
          (action ''deploy'' [])]
      else if wr_Problem r = ''gateway_error'' \<or> wr_Problem r = ''config_error'' then
        [problem ws (ws @ ''/error'') ''bad'' ''Gateway error'' (wr_Detail r) True (action ''open'' ws)]
      else if wr_Problem r = ''admin_unauthorized'' \<and> wsi_AdminTokenOK (wr_Info r) then
        [problem ws (ws @ ''/admin-stale'') ''warn'' ''Gateway rejected the admin token''
          ''The running gateway has not loaded the current config.'' False
          ((action ''publish'' ws)\<lparr>ta_Arg := ''restart''\<rparr>)]
      else [])"

definition expiryTodos :: "deskEnv \<Rightarrow> int \<Rightarrow> string \<Rightarrow> secretRow \<Rightarrow> string \<Rightarrow> todo list" where
  "expiryTodos E warnDays ws s expires =
     (let key = ws @ ''/secret/'' @ sw_Name s; act = (action ''secret'' ws)\<lparr>ta_Secret := sw_Name s\<rparr>
      in case (if expires = [] then None else daysUntil E expires) of
           None \<Rightarrow> []
         | Some n \<Rightarrow>
             if n < 0 then
               [(problem ws (key @ ''/expired'') ''bad'' (''Secret '' @ sw_Name s @ '' expired'') (''expired '' @ expires) True act)
                 \<lparr>td_Sites := activeSites s\<rparr>]
             else if n \<le> warnDays then
               [problem ws (key @ ''/expiring-'' @ showInt (bucket n)) ''warn''
                 (''Secret '' @ sw_Name s @ '' expires in '' @ showInt n @ '' days'') (''expires '' @ expires) True act]
             else [])"

definition secretTodos :: "deskEnv \<Rightarrow> int \<Rightarrow> string \<Rightarrow> secretRow \<Rightarrow> todo list" where
  "secretTodos E warnDays ws s =
     (let key = ws @ ''/secret/'' @ sw_Name s; act = (action ''secret'' ws)\<lparr>ta_Secret := sw_Name s\<rparr>;
          one = (\<lambda>k severity title detail notify.
            [(problem ws (key @ k) severity (''Secret '' @ sw_Name s @ title) detail notify act)\<lparr>td_Sites := activeSites s\<rparr>])
      in if sw_Role s = ''secondary'' \<and> sw_Pair s \<noteq> [] \<or> sw_Disabled s then []
         else if \<not> sw_Stored s then one ''/missing'' ''bad'' '' is not set'' (sw_HelpTitle s) True
         else (case sw_Check s of
                 None \<Rightarrow> []
               | Some c \<Rightarrow>
                   if cr_State c = ''rejected'' then one ''/rejected'' ''bad'' '' rejected'' (cr_Detail c) True
                   else if cr_State c = ''unreachable'' then
                     one ''/unreachable'' ''info'' '' could not be checked'' (cr_Detail c) False
                   else if cr_State c = ''ok'' then expiryTodos E warnDays ws s (cr_ExpiresAt c)
                   else []))"

definition workspaceTodos :: "deskEnv \<Rightarrow> int \<Rightarrow> string \<Rightarrow> wsResult \<Rightarrow> todo list" where
  "workspaceTodos E warnDays ws r =
     serviceTodos ws (wr_Info r) @ adminTodos E ws (wr_Info r) @ driftTodos ws (wr_Info r) @ gatewayTodos ws r
       @ concat (map (secretTodos E warnDays ws) (wr_Secrets r))"

definition fileSHA :: "golib \<Rightarrow> fsFaults \<Rightarrow> files \<Rightarrow> string \<Rightarrow> string" where
  "fileSHA L X F path = (case readText X F path of Inl _ \<Rightarrow> [] | Inr t \<Rightarrow> lib_sha256hex L t)"

definition binaryTodos :: "golib \<Rightarrow> deskEnv \<Rightarrow> fsFaults \<Rightarrow> files \<Rightarrow> deskApp \<Rightarrow> todo list" where
  "binaryTodos L E X F a =
     (let built = de_join E (ap_buildDir a) ''egw.exe''; installed = de_join E (ap_installDir a) ''egw.exe'';
          b = fileSHA L X F built; i = fileSHA L X F installed;
          ignored = concat (map (\<lambda>ws. case mget (ap_results a) ws of None \<Rightarrow> []
              | Some r \<Rightarrow> map (\<lambda>s. ws @ ''/'' @ s) (wr_IgnoredDisabled r)) (workspaceNames E F a))
      in if b = [] \<or> i = [] \<or> b = i then []
         else if ignored \<noteq> [] then
           [problem [] ''binary-disabled'' ''bad'' ''Disabled integrations are still active - deploy the new egw.exe''
             (''The running gateway ignores `disabled: true` ('' @ join '', '' ignored @ '').'') True (action ''deploy'' [])]
         else [problem [] ''binary'' ''warn'' ''A newer egw.exe build is not deployed''
             (built @ '' differs from '' @ installed) False (action ''deploy'' [])])"

definition rank :: "string \<Rightarrow> nat" where
  "rank severity = (if severity = ''warn'' then 1 else if severity = ''info'' then 2 else 0)"

definition todos :: "golib \<Rightarrow> deskEnv \<Rightarrow> fsFaults \<Rightarrow> files \<Rightarrow> deskApp \<Rightarrow> todo list" where
  "todos L E X F a =
     sort_key (\<lambda>t. rank (td_Severity t))
       (concat (map (\<lambda>ws. case mget (ap_results a) ws of None \<Rightarrow> []
            | Some r \<Rightarrow> workspaceTodos E (se_ExpiryWarnDays (ap_settings a)) ws r) (workspaceNames E F a))
        @ binaryTodos L E X F a)"

text \<open>The loop of \<open>worstSeverity\<close>.\<close>

fun worst :: "todo list \<Rightarrow> string \<times> nat \<Rightarrow> string \<times> nat" where
  "worst [] acc = acc"
| "worst (t # ts) (w, n) =
     worst ts (if td_Severity t = ''info'' then (w, n)
       else (if td_Severity t = ''bad'' \<or> w = [] then td_Severity t else w, n + 1))"

definition worstSeverity :: "golib \<Rightarrow> deskEnv \<Rightarrow> fsFaults \<Rightarrow> files \<Rightarrow> deskApp \<Rightarrow> string \<times> nat" where
  "worstSeverity L E X F a = worst (todos L E X F a) ([], 0)"

section \<open>Telling the user\<close>

definition freshTodos :: "bool gomap \<Rightarrow> todo list \<Rightarrow> todo list" where
  "freshTodos notified ts = filter (\<lambda>t. td_Notify t \<and> mget notified (td_Key t) \<noteq> Some True) ts"

definition currentKeys :: "todo list \<Rightarrow> bool gomap" where
  "currentKeys ts = fold (\<lambda>t. mput (td_Key t) True) (filter td_Notify ts) []"

text \<open>The title and the text of the message: one problem, or up to three of several.\<close>

definition toastOf :: "todo list \<Rightarrow> (string \<times> string) option" where
  "toastOf ts =
     (case ts of
        [] \<Rightarrow> None
      | [t] \<Rightarrow> Some (td_WS t @ '': '' @ td_Title t, td_Detail t)
      | _ \<Rightarrow> Some (''External Gateway: '' @ showInt (int (length ts)) @ '' new problems'',
          join lf (map (\<lambda>t. td_WS t @ '': '' @ td_Title t) (take 3 ts)
            @ (if 3 < length ts then [''and '' @ showInt (int (length ts) - 3) @ '' more''] else []))))"

definition notifiedText :: "bool gomap \<Rightarrow> string" where
  "notifiedText notified =
     objectText [(''notified'', objectText (map (\<lambda>k. (k, if mget notified k = Some True then ''true'' else ''false''))
       (sortedKeys notified)))]"

text \<open>An error of writing state.json is ignored.\<close>

definition saveState :: "deskEnv \<Rightarrow> fsFaults \<Rightarrow> deskApp \<Rightarrow> files \<Rightarrow> files" where
  "saveState E X a F = snd (writeText X (de_join E (ap_dataDir a) ''state.json'') (notifiedText (ap_notified a)) F)"

definition notifyNew :: "golib \<Rightarrow> deskEnv \<Rightarrow> fsFaults \<Rightarrow> 's desk \<Rightarrow> (string \<times> string) option \<times> 's desk" where
  "notifyNew L E X d =
     (let a = dk_app d; w = dk_world d; ts = todos L E X (w_files w) a; fresh = freshTodos (ap_notified a) ts;
          a = a\<lparr>ap_notified := currentKeys ts\<rparr>
      in (if se_Notify (ap_settings a) then toastOf fresh else None,
          d\<lparr>dk_app := a, dk_world := w\<lparr>w_files := saveState E X a (w_files w)\<rparr>\<rparr>))"

text \<open>
  \<open>recheck\<close> in its two parts: what it does at once, and the background job; the counter tells
  the window that one is under way.
\<close>

definition countRecheck :: "string \<Rightarrow> int \<Rightarrow> deskApp \<Rightarrow> deskApp" where
  "countRecheck ws n a =
     a\<lparr>ap_rechecking := mput ws ((case mget (ap_rechecking a) ws of None \<Rightarrow> 0 | Some k \<Rightarrow> k) + n) (ap_rechecking a)\<rparr>"

definition recheck :: "golib \<Rightarrow> 's moment \<Rightarrow> deskEnv \<Rightarrow> (deskError \<Rightarrow> string) \<Rightarrow> string \<Rightarrow> 's desk \<Rightarrow> 's desk" where
  "recheck L M E errText ws d =
     (let d = snd (refresh L M E errText ws False d)
      in later (BgRecheckEnd ws) (d\<lparr>dk_app := countRecheck ws 1 (dk_app d)\<rparr>))"

definition recheckEnd ::
    "golib \<Rightarrow> 's moment \<Rightarrow> deskEnv \<Rightarrow> (deskError \<Rightarrow> string) \<Rightarrow> string \<Rightarrow> 's desk \<Rightarrow> (string \<times> string) option \<times> 's desk" where
  "recheckEnd L M E errText ws d =
     (let d = snd (refresh L M E errText ws True d)
      in notifyNew L E (mo_files M) (d\<lparr>dk_app := countRecheck ws (- 1) (dk_app d)\<rparr>))"

definition checkAllNow ::
    "golib \<Rightarrow> 's moment \<Rightarrow> deskEnv \<Rightarrow> (deskError \<Rightarrow> string) \<Rightarrow> 's desk \<Rightarrow> (string \<times> string) option \<times> 's desk" where
  "checkAllNow L M E errText d =
     (if ap_checking (dk_app d) then (None, d)
      else (let d = d\<lparr>dk_app := (dk_app d)\<lparr>ap_checking := True\<rparr>\<rparr>;
                names = workspaceNames E (w_files (dk_world d)) (dk_app d);
                d = fold (\<lambda>ws d. snd (refresh L M E errText ws True d)) names d;
                d = d\<lparr>dk_app := (dk_app d)\<lparr>ap_checking := False, ap_lastCheck := mo_now M\<rparr>\<rparr>
            in notifyNew L E (mo_files M) d))"


text \<open>The background, one job done at a time.\<close>

definition runBackground ::
    "golib \<Rightarrow> 's moment \<Rightarrow> deskEnv \<Rightarrow> (deskError \<Rightarrow> string) \<Rightarrow> background \<Rightarrow> 's desk
       \<Rightarrow> (string \<times> string) option \<times> 's desk" where
  "runBackground L M E errText b d =
     (case b of
        BgRefresh ws \<Rightarrow> (None, snd (refresh L M E errText ws True d))
      | BgRefreshNotify ws \<Rightarrow> notifyNew L E (mo_files M) (snd (refresh L M E errText ws True d))
      | BgRecheckEnd ws \<Rightarrow> recheckEnd L M E errText ws d
      | BgCheckAll \<Rightarrow> checkAllNow L M E errText d
      | BgOpenUI \<Rightarrow> (None, d))"

section \<open>Small facts\<close>

text \<open>A secret that ran out less than a day ago is still shown as one that expires in 0 days.\<close>

lemma expired_for_a_day:
  assumes "parseDate s = None" and "de_rfc3339 E s = Some t" and "t < de_now E" and "de_now E < t + 86400 * 10 ^ 9"
  shows "daysUntil E s = Some 0"
proof -
  let ?x = "de_now E - t"
  have "t - de_now E = - ?x" "0 < ?x" "?x < 86400 * 10 ^ 9" using assms(3,4) by auto
  then have "(t - de_now E) sdiv (86400 * 10 ^ 9) = 0" by (simp add: signed_divide_int_def)
  with assms(1,2) show ?thesis by (simp add: daysUntil_def Let_def)
qed

definition hasSeverity :: "string \<Rightarrow> todo list \<Rightarrow> bool" where
  "hasSeverity s ts \<longleftrightarrow> list_ex (\<lambda>t. td_Severity t = s) ts"

definition severityKnown :: "todo \<Rightarrow> bool" where
  "severityKnown t \<longleftrightarrow> td_Severity t \<in> {''bad'', ''warn'', ''info''}"

lemma worst_spec:
  "list_all severityKnown ts \<Longrightarrow> w \<in> {[], ''warn'', ''bad''} \<Longrightarrow>
   worst ts (w, n) =
     (if w = ''bad'' \<or> hasSeverity ''bad'' ts then ''bad'' else if w = ''warn'' \<or> hasSeverity ''warn'' ts then ''warn'' else [],
      n + length (filter (\<lambda>t. td_Severity t \<noteq> ''info'') ts))"
  by (induction ts "(w, n)" arbitrary: w n rule: worst.induct) (auto simp: hasSeverity_def severityKnown_def)

lemma severityKnown_problem [simp]:
  "severityKnown (problem ws k s title d nt act) \<longleftrightarrow> s \<in> {''bad'', ''warn'', ''info''}"
  "severityKnown (t\<lparr>td_Sites := ss\<rparr>) = severityKnown t"
  by (simp_all add: severityKnown_def problem_def)

lemma expiryTodos_severity: "list_all severityKnown (expiryTodos E n ws s x)"
  by (simp add: expiryTodos_def Let_def split: option.split)

lemma secretTodos_severity: "list_all severityKnown (secretTodos E n ws s)"
  by (simp add: secretTodos_def Let_def expiryTodos_severity split: option.split)

lemma workspaceTodos_severity: "list_all severityKnown (workspaceTodos E n ws r)"
proof -
  have "list_all severityKnown (serviceTodos ws i)" "list_all severityKnown (adminTodos E ws i)"
    "list_all severityKnown (driftTodos ws i)" "list_all severityKnown (gatewayTodos ws r)" for i
    by (simp_all add: serviceTodos_def adminTodos_def driftTodos_def gatewayTodos_def)
  moreover have "list_all severityKnown (concat (map (secretTodos E n ws) (wr_Secrets r)))"
    using secretTodos_severity by (fastforce simp: list_all_iff)
  ultimately show ?thesis by (simp add: workspaceTodos_def)
qed

lemma todos_severity: "list_all severityKnown (todos L E X F a)"
proof -
  have "list_all severityKnown (binaryTodos L E X F a)" by (simp add: binaryTodos_def Let_def)
  moreover have "severityKnown t" if "t \<in> set (workspaceTodos E n ws r)" for t n ws r
    using that workspaceTodos_severity by (metis list_all_iff)
  ultimately show ?thesis unfolding todos_def list_all_iff by (auto split: option.splits)
qed

text \<open>The colour of the tray icon: the worst severity of the list, and how many problems need something done.\<close>

lemma worstSeverity_exact:
  "worstSeverity L E X F a =
     (let ts = todos L E X F a
      in (if hasSeverity ''bad'' ts then ''bad'' else if hasSeverity ''warn'' ts then ''warn'' else [],
          length (filter (\<lambda>t. td_Severity t \<noteq> ''info'') ts)))"
  using worst_spec [OF todos_severity, of "[]" L E X F a 0] by (simp add: worstSeverity_def Let_def)

text \<open>What is announced: after any check, exactly the problems that the one before did not have.\<close>

lemma currentKeys_iff: "mget (currentKeys ts) k = Some True \<longleftrightarrow> (\<exists>t \<in> set ts. td_Notify t \<and> td_Key t = k)"
proof -
  have "mget (fold (\<lambda>t. mput (td_Key t) True) us m) k = Some True \<longleftrightarrow> (\<exists>t \<in> set us. td_Key t = k) \<or> mget m k = Some True"
    for us :: "todo list" and m by (induction us arbitrary: m) auto
  from this [of "filter td_Notify ts" "[]"] show ?thesis by (auto simp: currentKeys_def)
qed

lemma announced_once:
  "freshTodos (currentKeys ts) us
     = filter (\<lambda>u. td_Notify u \<and> \<not> (\<exists>t \<in> set ts. td_Notify t \<and> td_Key t = td_Key u)) us"
  by (auto simp: freshTodos_def currentKeys_iff intro!: filter_cong)

end
