(* ===== verification/Window.thy ===== *)
theory Window
  imports Checker
begin

text \<open>
  cmd/egw-desktop/server.go: the local HTTP interface of the companion's window. An answer of the
  interface is a value of \<open>apiOut\<close>, which the library then encodes; background work is queued. Every
  request is one step here: the sources hold the lock of the companion only for parts of it.
\<close>

record winReq =
  wq_Method :: string
  wq_Host :: string
  wq_Path :: string
  wq_Query :: "string gomap"
  wq_Session :: string
  wq_Body :: string

datatype apiError =
    ApiMethod
  | ApiDecode
  | ApiWorkspace
  | ApiEdit editError
  | ApiDesk deskError
  | ApiAdminPublish deskError
  | ApiReloadAndRestart deskError deskError
  | ApiInterval
  | ApiExpiry
  | ApiSettings deskError
  | ApiAutostart string

record overview =
  ov_Workspaces :: "workspaceInfo list"
  ov_Todos :: "todo list"
  ov_LastCheck :: string
  ov_Checking :: bool
  ov_Elevated :: bool
  ov_BuildDir :: string
  ov_InstallDir :: string
  ov_DataDir :: string
  ov_Settings :: settings
  ov_Autostart :: bool

datatype apiOut =
    OutOk
  | OutTexts "(string \<times> string) list"
  | OutDeploy string "deskError option"
  | OutToken string "editError option"
  | OutPublished "deskError option" bool  \<comment> \<open>the refused reload; restarted\<close>
  | OutOverview overview
  | OutStatus wsResult
  | OutCheck Result
  | OutEdit "fileChange list" bool
  | OutCapabilities capabilities
  | OutAgents "agentInfo list" "string list"

text \<open>What the handlers work with.\<close>

record 's winEnv =
  xe_lib :: golib
  xe_moment :: "'s moment"
  xe_desk :: deskEnv
  xe_system :: helperSystem
  xe_errText :: "deskError \<Rightarrow> string"
  xe_setAutostart :: "bool \<Rightarrow> string option"

section \<open>Decoding\<close>

definition decodeBody :: "golib \<Rightarrow> (params \<Rightarrow> 'a option) \<Rightarrow> winReq \<Rightarrow> apiError + 'a" where
  "decodeBody L rd r =
     (if wq_Method r \<noteq> ''POST'' then Inl ApiMethod
      else (case lib_decodeFirst L (take (2 ^ 20) (wq_Body r)) of
              Some (JObj kvs) \<Rightarrow> (case rd kvs of None \<Rightarrow> Inl ApiDecode | Some x \<Rightarrow> Inr x)
            | Some JNull \<Rightarrow> (case rd [] of None \<Rightarrow> Inl ApiDecode | Some x \<Rightarrow> Inr x)
            | _ \<Rightarrow> Inl ApiDecode))"

definition strOf :: "golib \<Rightarrow> params \<Rightarrow> string \<Rightarrow> string option" where
  "strOf L kvs k = structFold L k strStep [] kvs"

definition boolOf :: "golib \<Rightarrow> params \<Rightarrow> string \<Rightarrow> bool option" where
  "boolOf L kvs k = structFold L k boolStep False kvs"

definition stringsOf :: "golib \<Rightarrow> params \<Rightarrow> string \<Rightarrow> string list option" where
  "stringsOf L kvs k = structFold L k stringsStep [] kvs"

definition wsOf :: "golib \<Rightarrow> params \<Rightarrow> string option" where
  "wsOf L kvs = strOf L kvs ''ws''"

definition secretReq :: "golib \<Rightarrow> params \<Rightarrow> secretRequest option" where
  "secretReq L kvs =
     optBind (wsOf L kvs) (\<lambda>ws. optBind (strOf L kvs ''name'') (\<lambda>n. optBind (strOf L kvs ''value'') (\<lambda>v.
     optBind (strOf L kvs ''pair_value'') (\<lambda>p.
       Some \<lparr>sr_WS = ws, sr_Name = n, sr_Value = v, sr_PairValue = p\<rparr>))))"

definition paramStep :: "golib \<Rightarrow> customParam \<Rightarrow> json \<Rightarrow> customParam option" where
  "paramStep L z = structStep (\<lambda>kvs.
     optBind (strOf L kvs ''name'') (\<lambda>n. optBind (strOf L kvs ''type'') (\<lambda>t. optBind (boolOf L kvs ''required'') (\<lambda>r.
     optBind (strOf L kvs ''default'') (\<lambda>d.
       Some \<lparr>cp_Name = n, cp_Type = t, cp_Required = r, cp_Default = d\<rparr>))))) z"

definition customStep :: "golib \<Rightarrow> customOp option \<Rightarrow> json \<Rightarrow> customOp option option" where
  "customStep L cur = structStep (\<lambda>kvs.
     optBind (strOf L kvs ''method'') (\<lambda>m. optBind (strOf L kvs ''path'') (\<lambda>p. optBind (strOf L kvs ''connector'') (\<lambda>c.
     optBind (strOf L kvs ''body_template'') (\<lambda>b. optBind (stringsOf L kvs ''allow_fields'') (\<lambda>f.
     optBind (structFold L ''params'' (listStep (paramStep L)
       \<lparr>cp_Name = [], cp_Type = [], cp_Required = False, cp_Default = []\<rparr>) [] kvs) (\<lambda>ps.
       Some (Some \<lparr>cu_Method = m, cu_Path = p, cu_Connector = c, cu_BodyTemplate = b, cu_AllowFields = f,
         cu_Params = ps\<rparr>)))))))) None"

record addCapabilityRequest =
  ac_WS :: string
  ac_ID :: string
  ac_Source :: string
  ac_Custom :: "customOp option"
  ac_Roles :: "string list"
  ac_Apply :: bool

definition capabilityReq :: "golib \<Rightarrow> params \<Rightarrow> addCapabilityRequest option" where
  "capabilityReq L kvs =
     optBind (wsOf L kvs) (\<lambda>ws. optBind (strOf L kvs ''id'') (\<lambda>i. optBind (strOf L kvs ''source'') (\<lambda>s.
     optBind (structFold L ''custom'' (customStep L) None kvs) (\<lambda>c. optBind (stringsOf L kvs ''roles'') (\<lambda>r.
     optBind (boolOf L kvs ''apply'') (\<lambda>y.
       Some \<lparr>ac_WS = ws, ac_ID = i, ac_Source = s, ac_Custom = c, ac_Roles = r, ac_Apply = y\<rparr>))))))"

text \<open>A map of strings: \<open>null\<close> for a value is the empty string.\<close>

definition varsStep :: "string gomap \<Rightarrow> json \<Rightarrow> string gomap option" where
  "varsStep cur v =
     (case v of
        JObj kvs \<Rightarrow> optBind (those (map (\<lambda>(k, x). map_option (Pair k) (strStep [] x)) kvs))
          (\<lambda>new. Some (fold (\<lambda>(k, x). mput k x) new cur))
      | JNull \<Rightarrow> Some []
      | _ \<Rightarrow> None)"

definition serviceReq :: "golib \<Rightarrow> params \<Rightarrow> addServiceRequest option" where
  "serviceReq L kvs =
     optBind (wsOf L kvs) (\<lambda>ws. optBind (strOf L kvs ''template'') (\<lambda>t. optBind (strOf L kvs ''site'') (\<lambda>s.
     optBind (strOf L kvs ''env'') (\<lambda>e. optBind (strOf L kvs ''base_url'') (\<lambda>b. optBind (strOf L kvs ''auth_header'') (\<lambda>h.
     optBind (strOf L kvs ''user'') (\<lambda>u. optBind (strOf L kvs ''secret'') (\<lambda>c. optBind (strOf L kvs ''cookie_secret'') (\<lambda>k.
     optBind (strOf L kvs ''tunnel'') (\<lambda>n. optBind (boolOf L kvs ''insecure'') (\<lambda>i. optBind (strOf L kvs ''host'') (\<lambda>o'.
     optBind (structFold L ''port'' intStep 0 kvs) (\<lambda>p. optBind (strOf L kvs ''database'') (\<lambda>d.
     optBind (stringsOf L kvs ''ops'') (\<lambda>ops. optBind (stringsOf L kvs ''roles'') (\<lambda>r.
     optBind (structFold L ''site_vars'' varsStep [] kvs) (\<lambda>v. optBind (boolOf L kvs ''apply'') (\<lambda>y.
       Some \<lparr>as_WS = ws, as_Template = t, as_Site = trimSpace s, as_Env = trimSpace e, as_BaseURL = b,
         as_AuthHeader = h, as_User = u, as_Secret = c, as_CookieSecret = k, as_Tunnel = n, as_Insecure = i,
         as_Host = o', as_Port = p, as_Database = d, as_Ops = ops, as_Roles = r, as_SiteVars = v, as_Apply = y\<rparr>))))))))))))))))))"


section \<open>Handlers\<close>

definition filesOf :: "'s desk \<Rightarrow> files" where
  "filesOf d = w_files (dk_world d)"

definition setFiles :: "files \<Rightarrow> 's desk \<Rightarrow> 's desk" where
  "setFiles F d = d\<lparr>dk_world := (dk_world d)\<lparr>w_files := F\<rparr>\<rparr>"

definition elevated ::
    "'s winEnv \<Rightarrow> string \<Rightarrow> string \<Rightarrow> string \<Rightarrow> bool \<Rightarrow> 's desk \<Rightarrow> (helperResult \<times> deskError option) \<times> 's desk" where
  "elevated V act ws svcAction restart d =
     (case runElevated (xe_desk V) (mo_files (xe_moment V)) (xe_system V) (ap_elevated (dk_app d)) (dk_app d)
         act ws svcAction restart (filesOf d) of
        (r, F) \<Rightarrow> (r, setFiles F d))"

fun infosOf :: "'s winEnv \<Rightarrow> string list \<Rightarrow> 's desk \<Rightarrow> workspaceInfo list \<times> 's desk" where
  "infosOf V [] d = ([], d)"
| "infosOf V (ws # wss) d =
     (let (i, d) = (case mget (ap_results (dk_app d)) ws of
            Some r \<Rightarrow> (wr_Info r, d)
          | None \<Rightarrow>
              (case info (xe_lib V) (xe_moment V) (xe_desk V) (dk_app d) ws (dk_world d) of
                 ((i, _), w) \<Rightarrow> (i, d\<lparr>dk_world := w\<rparr>)));
          (is, d) = infosOf V wss d
      in (i # is, d))"

definition apiOverview :: "'s winEnv \<Rightarrow> winReq \<Rightarrow> 's desk \<Rightarrow> (apiError + apiOut) \<times> 's desk" where
  "apiOverview V r d =
     (let E = xe_desk V; (infos, d) = infosOf V (workspaceNames E (filesOf d) (dk_app d)) d; a = dk_app d
      in (Inr (OutOverview
           \<lparr>ov_Workspaces = infos, ov_Todos = todos (xe_lib V) E (mo_files (xe_moment V)) (filesOf d) a,
            ov_LastCheck = ap_lastCheck a, ov_Checking = ap_checking a, ov_Elevated = ap_elevated a,
            ov_BuildDir = ap_buildDir a, ov_InstallDir = ap_installDir a, ov_DataDir = ap_dataDir a,
            ov_Settings = ap_settings a, ov_Autostart = dk_autostart d\<rparr>), d))"

definition apiCheck :: "winReq \<Rightarrow> 's desk \<Rightarrow> (apiError + apiOut) \<times> 's desk" where
  "apiCheck r d = (Inr OutOk, later BgCheckAll d)"

definition winQuery :: "winReq \<Rightarrow> string \<Rightarrow> string" where
  "winQuery r k = (case mget (wq_Query r) k of None \<Rightarrow> [] | Some v \<Rightarrow> v)"

definition refreshed :: "'s winEnv \<Rightarrow> string \<Rightarrow> bool \<Rightarrow> 's desk \<Rightarrow> wsResult \<times> 's desk" where
  "refreshed V ws live d = refresh (xe_lib V) (xe_moment V) (xe_desk V) (xe_errText V) ws live d"

definition apiStatus :: "'s winEnv \<Rightarrow> winReq \<Rightarrow> 's desk \<Rightarrow> (apiError + apiOut) \<times> 's desk" where
  "apiStatus V r d =
     (let ws = winQuery r ''ws''; live = (winQuery r ''check'' \<noteq> ''0''); cached = (winQuery r ''cached'' = ''1'');
          busy = (case mget (ap_rechecking (dk_app d)) ws of None \<Rightarrow> False | Some k \<Rightarrow> 0 < k)
      in if \<not> rmatch validName ws then (Inl ApiWorkspace, d)
         else (case (if cached then mget (ap_results (dk_app d)) ws else None) of
                 Some res \<Rightarrow> (Inr (OutStatus (res\<lparr>wr_Rechecking := busy\<rparr>)), d)
               | None \<Rightarrow> (case refreshed V ws (live \<and> \<not> cached) d of (res, d) \<Rightarrow> (Inr (OutStatus res), d))))"

text \<open>Decoding, then the rest; the changes of an edit, in the same way.\<close>

definition decoded ::
    "'s winEnv \<Rightarrow> (params \<Rightarrow> 'a option) \<Rightarrow> winReq \<Rightarrow> 's desk \<Rightarrow> ('a \<Rightarrow> (apiError + apiOut) \<times> 's desk)
       \<Rightarrow> (apiError + apiOut) \<times> 's desk" where
  "decoded V rd r d f = (case decodeBody (xe_lib V) rd r of Inl e \<Rightarrow> (Inl e, d) | Inr x \<Rightarrow> f x)"

definition edited ::
    "'s winEnv \<Rightarrow> string \<Rightarrow> bool \<Rightarrow> (wsEdit \<Rightarrow> editError + wsEdit) \<Rightarrow> 's desk \<Rightarrow> (apiError + apiOut) \<times> 's desk" where
  "edited V ws apply f d =
     (let L = xe_lib V; E = xe_desk V; X = mo_files (xe_moment V)
      in case rbind (openEdit E X (dk_app d) (filesOf d) ws) f of
           Inl e \<Rightarrow> (Inl (ApiEdit e), d)
         | Inr e \<Rightarrow>
             (case commit L E X (dk_app d) apply e (filesOf d) of
                (Inl x, F) \<Rightarrow> (Inl (ApiEdit x), setFiles F d)
              | (Inr cs, F) \<Rightarrow> (Inr (OutEdit cs apply), setFiles F d)))"

definition apiTest :: "'s winEnv \<Rightarrow> winReq \<Rightarrow> 's desk \<Rightarrow> (apiError + apiOut) \<times> 's desk" where
  "apiTest V r d =
     decoded V (secretReq (xe_lib V)) r d (\<lambda>req.
       case testSecret (xe_lib V) (xe_moment V) (xe_desk V) (dk_app d) req (dk_world d) of
         (Inl e, w) \<Rightarrow> (Inl (ApiDesk e), d\<lparr>dk_world := w\<rparr>)
       | (Inr res, w) \<Rightarrow> (Inr (OutCheck res), d\<lparr>dk_world := w\<rparr>))"

definition apiSave :: "'s winEnv \<Rightarrow> winReq \<Rightarrow> 's desk \<Rightarrow> (apiError + apiOut) \<times> 's desk" where
  "apiSave V r d =
     decoded V (secretReq (xe_lib V)) r d (\<lambda>req.
       case saveSecret (xe_lib V) (xe_moment V) (xe_desk V) (dk_app d) req (dk_world d) of
         (Inl e, w) \<Rightarrow> (Inl (ApiDesk e), d\<lparr>dk_world := w\<rparr>)
       | (Inr _, w) \<Rightarrow> (Inr OutOk, later (BgRefreshNotify (sr_WS req)) (d\<lparr>dk_world := w\<rparr>)))"

definition tokenReq :: "golib \<Rightarrow> params \<Rightarrow> (string \<times> string \<times> bool) option" where
  "tokenReq L kvs =
     optBind (wsOf L kvs) (\<lambda>ws. optBind (strOf L kvs ''token'') (\<lambda>t. optBind (boolOf L kvs ''remember'') (\<lambda>m.
       Some (ws, t, m))))"

definition apiAdminToken :: "'s winEnv \<Rightarrow> winReq \<Rightarrow> 's desk \<Rightarrow> (apiError + apiOut) \<times> 's desk" where
  "apiAdminToken V r d =
     decoded V (tokenReq (xe_lib V)) r d (\<lambda>(ws, token, remember).
       case useAdminToken (xe_lib V) (xe_desk V) (mo_files (xe_moment V)) (dk_app d) ws token remember (filesOf d) of
         (Inl e, a, F) \<Rightarrow> (Inl (ApiDesk e), setFiles F (d\<lparr>dk_app := a\<rparr>))
       | (Inr _, a, F) \<Rightarrow> (Inr OutOk, later (BgRefresh ws) (setFiles F (d\<lparr>dk_app := a\<rparr>))))"

definition apiAdminRegenerate :: "'s winEnv \<Rightarrow> winReq \<Rightarrow> 's desk \<Rightarrow> (apiError + apiOut) \<times> 's desk" where
  "apiAdminRegenerate V r d =
     decoded V (wsOf (xe_lib V)) r d (\<lambda>ws.
       case setAdminToken (xe_lib V) (xe_desk V) (mo_files (xe_moment V)) (dk_app d) ws (filesOf d) of
         (Inl e, a, F) \<Rightarrow> (Inl (ApiEdit e), setFiles F (d\<lparr>dk_app := a\<rparr>))
       | (Inr _, a, F) \<Rightarrow>
           (case elevated V ''publish'' ws [] True (setFiles F (d\<lparr>dk_app := a\<rparr>)) of
              ((_, Some e), d) \<Rightarrow> (Inl (ApiAdminPublish e), d)
            | ((_, None), d) \<Rightarrow>
                (Inr (OutTexts [(''ok'', ''admin token stored in agent-keys.txt as '' @ adminLabel (xe_desk V) ws)]),
                 later (BgRefresh ws) d)))"

definition serviceActionReq :: "golib \<Rightarrow> params \<Rightarrow> (string \<times> string) option" where
  "serviceActionReq L kvs = optBind (wsOf L kvs) (\<lambda>ws. optBind (strOf L kvs ''action'') (\<lambda>x. Some (ws, x)))"

definition apiService :: "'s winEnv \<Rightarrow> winReq \<Rightarrow> 's desk \<Rightarrow> (apiError + apiOut) \<times> 's desk" where
  "apiService V r d =
     decoded V (serviceActionReq (xe_lib V)) r d (\<lambda>(ws, act).
       case elevated V ''service'' ws act False d of
         ((_, Some e), d) \<Rightarrow> (Inl (ApiDesk e), d)
       | ((_, None), d) \<Rightarrow> (Inr OutOk, later (BgRefresh ws) d))"

definition deployLog :: "'s winEnv \<Rightarrow> helperResult \<Rightarrow> deskError option \<Rightarrow> string" where
  "deployLog V res err =
     mo_now (xe_moment V) @ crlf @ hp_Output res
       @ (case err of None \<Rightarrow> [] | Some e \<Rightarrow> crlf @ ''ERROR: '' @ xe_errText V e)"

definition deploy :: "'s winEnv \<Rightarrow> 's desk \<Rightarrow> (helperResult \<times> deskError option) \<times> 's desk" where
  "deploy V d =
     (let ((res, err), d) = elevated V ''deploy'' [] [] False d;
          path = de_join (xe_desk V) (ap_dataDir (dk_app d)) ''last-deploy.log'';
          d = setFiles (snd (writeText (mo_files (xe_moment V)) path (deployLog V res err) (filesOf d))) d
      in ((res, err), if err = None then later BgCheckAll d else d))"

definition apiDeploy :: "'s winEnv \<Rightarrow> winReq \<Rightarrow> 's desk \<Rightarrow> (apiError + apiOut) \<times> 's desk" where
  "apiDeploy V r d =
     decoded V (\<lambda>kvs. Some ()) r d (\<lambda>_.
       case deploy V d of ((res, err), d) \<Rightarrow> (Inr (OutDeploy (hp_Output res) err), d))"

definition publishReq :: "golib \<Rightarrow> params \<Rightarrow> (string \<times> bool) option" where
  "publishReq L kvs = optBind (wsOf L kvs) (\<lambda>ws. optBind (boolOf L kvs ''restart'') (\<lambda>x. Some (ws, x)))"

definition apiPublish :: "'s winEnv \<Rightarrow> winReq \<Rightarrow> 's desk \<Rightarrow> (apiError + apiOut) \<times> 's desk" where
  "apiPublish V r d =
     (let L = xe_lib V; M = xe_moment V; E = xe_desk V
      in decoded V (publishReq L) r d (\<lambda>(ws, restart).
           let done = (\<lambda>how d. (Inr how, recheck L M E (xe_errText V) ws d))
           in case elevated V ''publish'' ws [] restart d of
                ((_, Some e), d) \<Rightarrow> (Inl (ApiDesk e), d)
              | ((_, None), d) \<Rightarrow>
                  if restart then done (OutPublished None True) d
                  else (case reload L M E (dk_app d) ws (dk_world d) of
                          (Inr _, w) \<Rightarrow> done (OutPublished None False) (d\<lparr>dk_world := w\<rparr>)
                        | (Inl e, w) \<Rightarrow>
                            (case elevated V ''service'' ws ''restart'' False (d\<lparr>dk_world := w\<rparr>) of
                               ((_, Some e2), d) \<Rightarrow> (Inl (ApiReloadAndRestart e e2), d)
                             | ((_, None), d) \<Rightarrow> done (OutPublished (Some e) True) d))))"

definition apiCapabilities :: "'s winEnv \<Rightarrow> winReq \<Rightarrow> 's desk \<Rightarrow> (apiError + apiOut) \<times> 's desk" where
  "apiCapabilities V r d =
     (mapErr ApiEdit (rbind (capabilitiesOf (xe_desk V) (mo_files (xe_moment V)) (dk_app d) (filesOf d) (winQuery r ''ws''))
        (\<lambda>c. Inr (OutCapabilities c))), d)"


definition apiCapabilityAdd :: "'s winEnv \<Rightarrow> winReq \<Rightarrow> 's desk \<Rightarrow> (apiError + apiOut) \<times> 's desk" where
  "apiCapabilityAdd V r d =
     decoded V (capabilityReq (xe_lib V)) r d (\<lambda>req.
       edited V (ac_WS req) (ac_Apply req) (\<lambda>e.
         rbind (addOperation (xe_desk V) (mo_files (xe_moment V)) (dk_app d) (filesOf d) (ac_ID req) (ac_Source req) []
           (ac_Custom req) e) (\<lambda>e.
         if ac_Roles req = [] then Inr e else addGrants (ac_ID req) (ac_Roles req) e)) d)"

definition grantsReq :: "golib \<Rightarrow> params \<Rightarrow> (string \<times> string \<times> string list \<times> bool) option" where
  "grantsReq L kvs =
     optBind (wsOf L kvs) (\<lambda>ws. optBind (strOf L kvs ''id'') (\<lambda>i. optBind (stringsOf L kvs ''roles'') (\<lambda>r.
     optBind (boolOf L kvs ''apply'') (\<lambda>y. Some (ws, i, r, y)))))"

definition apiCapabilityGrants :: "'s winEnv \<Rightarrow> winReq \<Rightarrow> 's desk \<Rightarrow> (apiError + apiOut) \<times> 's desk" where
  "apiCapabilityGrants V r d =
     decoded V (grantsReq (xe_lib V)) r d (\<lambda>(ws, op, roles, apply). edited V ws apply (setGrants op roles) d)"

definition removeReq :: "golib \<Rightarrow> params \<Rightarrow> (string \<times> string \<times> bool) option" where
  "removeReq L kvs =
     optBind (wsOf L kvs) (\<lambda>ws. optBind (strOf L kvs ''id'') (\<lambda>i. optBind (boolOf L kvs ''apply'') (\<lambda>y. Some (ws, i, y))))"

definition apiCapabilityRemove :: "'s winEnv \<Rightarrow> winReq \<Rightarrow> 's desk \<Rightarrow> (apiError + apiOut) \<times> 's desk" where
  "apiCapabilityRemove V r d =
     decoded V (removeReq (xe_lib V)) r d (\<lambda>(ws, op, apply). edited V ws apply (removeOperation op) d)"

definition apiServiceAdd :: "'s winEnv \<Rightarrow> winReq \<Rightarrow> 's desk \<Rightarrow> (apiError + apiOut) \<times> 's desk" where
  "apiServiceAdd V r d =
     decoded V (serviceReq (xe_lib V)) r d (\<lambda>req.
       edited V (as_WS req) (as_Apply req)
         (addService (xe_desk V) (mo_files (xe_moment V)) (dk_app d) (filesOf d) req) d)"

definition disableReq :: "golib \<Rightarrow> params \<Rightarrow> (string \<times> string \<times> bool \<times> bool) option" where
  "disableReq L kvs =
     optBind (wsOf L kvs) (\<lambda>ws. optBind (strOf L kvs ''site'') (\<lambda>s. optBind (boolOf L kvs ''disabled'') (\<lambda>x.
     optBind (boolOf L kvs ''apply'') (\<lambda>y. Some (ws, s, x, y)))))"

definition apiServiceDisable :: "'s winEnv \<Rightarrow> winReq \<Rightarrow> 's desk \<Rightarrow> (apiError + apiOut) \<times> 's desk" where
  "apiServiceDisable V r d =
     decoded V (disableReq (xe_lib V)) r d (\<lambda>(ws, site, disabled, apply).
       edited V ws apply (setSiteDisabled site disabled) d)"

definition apiAgents :: "'s winEnv \<Rightarrow> winReq \<Rightarrow> 's desk \<Rightarrow> (apiError + apiOut) \<times> 's desk" where
  "apiAgents V r d =
     (case agentsOf (xe_lib V) (xe_desk V) (mo_files (xe_moment V)) (dk_app d) (filesOf d) (winQuery r ''ws'') of
        Inl e \<Rightarrow> (Inl (ApiDesk e), d)
      | Inr (agents, roles) \<Rightarrow> (Inr (OutAgents agents roles), d))"

text \<open>A token that was made is handed out even if recording it failed.\<close>

definition tokenReply :: "(editError option \<times> string) \<times> files \<Rightarrow> 's desk \<Rightarrow> (apiError + apiOut) \<times> 's desk" where
  "tokenReply res d =
     (case res of
        ((Some e, []), F) \<Rightarrow> (Inl (ApiEdit e), setFiles F d)
      | ((e, token), F) \<Rightarrow> (Inr (OutToken token e), setFiles F d))"

definition apiAgentRegenerate :: "'s winEnv \<Rightarrow> winReq \<Rightarrow> 's desk \<Rightarrow> (apiError + apiOut) \<times> 's desk" where
  "apiAgentRegenerate V r d =
     decoded V (\<lambda>kvs. optBind (wsOf (xe_lib V) kvs) (\<lambda>ws. optBind (strOf (xe_lib V) kvs ''id'') (\<lambda>i. Some (ws, i)))) r d
       (\<lambda>(ws, agent). tokenReply (regenerateAgent (xe_lib V) (xe_desk V) (mo_files (xe_moment V)) (dk_app d) ws agent (filesOf d)) d)"

definition agentReq :: "golib \<Rightarrow> params \<Rightarrow> (string \<times> string \<times> string) option" where
  "agentReq L kvs =
     optBind (wsOf L kvs) (\<lambda>ws. optBind (strOf L kvs ''id'') (\<lambda>i. optBind (strOf L kvs ''role'') (\<lambda>r. Some (ws, i, r))))"

definition apiAgentAdd :: "'s winEnv \<Rightarrow> winReq \<Rightarrow> 's desk \<Rightarrow> (apiError + apiOut) \<times> 's desk" where
  "apiAgentAdd V r d =
     decoded V (agentReq (xe_lib V)) r d (\<lambda>(ws, agent, role).
       tokenReply (addAgent (xe_lib V) (xe_desk V) (mo_files (xe_moment V)) (dk_app d) ws agent role (filesOf d)) d)"

text \<open>\<open>MarshalIndent\<close> of the settings.\<close>

definition boolText :: "bool \<Rightarrow> string" where
  "boolText b = (if b then ''true'' else ''false'')"

definition settingsText :: "settings \<Rightarrow> string" where
  "settingsText s =
     ''{'' @ lf @ ''  '' @ jsonQuote True ''check_interval_min'' @ '': '' @ showInt (se_CheckIntervalMin s) @ '','' @ lf
       @ ''  '' @ jsonQuote True ''notify'' @ '': '' @ boolText (se_Notify s) @ '','' @ lf
       @ ''  '' @ jsonQuote True ''expiry_warn_days'' @ '': '' @ showInt (se_ExpiryWarnDays s) @ lf @ ''}''"

definition saveSettings :: "deskEnv \<Rightarrow> fsFaults \<Rightarrow> deskApp \<Rightarrow> files \<Rightarrow> (deskError + unit) \<times> files" where
  "saveSettings E X a F = writeText X (de_join E (ap_dataDir a) ''settings.json'') (settingsText (ap_settings a)) F"

definition settingsReq :: "golib \<Rightarrow> params \<Rightarrow> (settings \<times> bool option) option" where
  "settingsReq L kvs =
     optBind (structFold L ''check_interval_min'' intStep 0 kvs) (\<lambda>c. optBind (boolOf L kvs ''notify'') (\<lambda>n.
     optBind (structFold L ''expiry_warn_days'' intStep 0 kvs) (\<lambda>x.
     optBind (structFold L ''autostart'' (\<lambda>cur v. case v of JBool b \<Rightarrow> Some (Some b) | JNull \<Rightarrow> Some None | _ \<Rightarrow> None) None kvs) (\<lambda>s.
       Some (\<lparr>se_CheckIntervalMin = c, se_Notify = n, se_ExpiryWarnDays = x\<rparr>, s)))))"

definition apiSettings :: "'s winEnv \<Rightarrow> winReq \<Rightarrow> 's desk \<Rightarrow> (apiError + apiOut) \<times> 's desk" where
  "apiSettings V r d =
     decoded V (settingsReq (xe_lib V)) r d (\<lambda>(st, autostart).
       if se_CheckIntervalMin st < 5 \<or> 1440 < se_CheckIntervalMin st then (Inl ApiInterval, d)
       else if se_ExpiryWarnDays st < 1 \<or> 120 < se_ExpiryWarnDays st then (Inl ApiExpiry, d)
       else (let a = (dk_app d)\<lparr>ap_settings := st\<rparr>; d = d\<lparr>dk_app := a\<rparr>
             in case saveSettings (xe_desk V) (mo_files (xe_moment V)) a (filesOf d) of
                  (Inl e, F) \<Rightarrow> (Inl (ApiSettings e), setFiles F d)
                | (Inr _, F) \<Rightarrow>
                    (case (autostart, setFiles F d) of
                       (None, d) \<Rightarrow> (Inr OutOk, d)
                     | (Some b, d) \<Rightarrow>
                         if b = dk_autostart d then (Inr OutOk, d)
                         else (case xe_setAutostart V b of
                                 Some e \<Rightarrow> (Inl (ApiAutostart e), d)
                               | None \<Rightarrow> (Inr OutOk, d\<lparr>dk_autostart := b\<rparr>)))))"

section \<open>The server\<close>

datatype winReply = Forbidden string | Pong | PageUI | ApiFailed apiError | ApiDone apiOut

definition apiOf ::
    "'s winEnv \<Rightarrow> string \<Rightarrow> (winReq \<Rightarrow> 's desk \<Rightarrow> (apiError + apiOut) \<times> 's desk) option" where
  "apiOf V path =
     map_of
       [(''/api/overview'', apiOverview V), (''/api/check'', apiCheck), (''/api/status'', apiStatus V),
        (''/api/test'', apiTest V), (''/api/save'', apiSave V), (''/api/admin-token'', apiAdminToken V),
        (''/api/admin-regenerate'', apiAdminRegenerate V), (''/api/service'', apiService V),
        (''/api/deploy'', apiDeploy V), (''/api/publish'', apiPublish V), (''/api/capabilities'', apiCapabilities V),
        (''/api/capability/add'', apiCapabilityAdd V), (''/api/capability/grants'', apiCapabilityGrants V),
        (''/api/capability/remove'', apiCapabilityRemove V), (''/api/service/add'', apiServiceAdd V),
        (''/api/service/disable'', apiServiceDisable V), (''/api/agents'', apiAgents V),
        (''/api/agent/regenerate'', apiAgentRegenerate V), (''/api/agent/add'', apiAgentAdd V),
        (''/api/settings'', apiSettings V), (''/api/open-window'', (\<lambda>r d. (Inr OutOk, later BgOpenUI d)))] path"

text \<open>The paths are those the mux has cleaned; every other path falls to the page.\<close>

definition serveWindow :: "'s winEnv \<Rightarrow> winReq \<Rightarrow> 's desk \<Rightarrow> winReply \<times> 's desk" where
  "serveWindow V r d =
     (let a = dk_app d
      in if wq_Host r \<noteq> ''127.0.0.1:'' @ showInt (ap_port a) then (Forbidden ''bad host'', d)
         else if wq_Path r = ''/ping'' then (Pong, d)
         else (case apiOf V (wq_Path r) of
                 Some f \<Rightarrow>
                   if wq_Session r \<noteq> ap_session a then (Forbidden ''forbidden'', d)
                   else (case f r d of (Inl e, d) \<Rightarrow> (ApiFailed e, d) | (Inr x, d) \<Rightarrow> (ApiDone x, d))
               | None \<Rightarrow>
                   if wq_Path r \<noteq> ''/'' \<or> winQuery r ''s'' \<noteq> ap_session a
                   then (Forbidden ''open the app from the External Gateway tray icon'', d)
                   else (PageUI, d)))"

end
