(* ===== verification/WindowSafety.thy ===== *)
theory WindowSafety
  imports Window
begin

text \<open>
  What the window of the companion can change: through any requests and background jobs the
  companion writes only files of its own, and without the session only its note of what it has
  announced.
\<close>

section \<open>Requests leave the files alone\<close>

lemma localCall_files: "localCall U wi w = (x, w') \<Longrightarrow> w_files w' = w_files w"
  by (auto simp: localCall_def)

lemma healthy_files: "healthy U port w = (x, w') \<Longrightarrow> w_files w' = w_files w"
  by (auto simp: healthy_def dest!: localCall_files split: prod.splits sum.splits)

lemma info_files: "info L M E a ws w = (x, w') \<Longrightarrow> w_files w' = w_files w"
  by (auto simp: info_def Let_def dest!: healthy_files split: prod.splits sum.splits)

lemma gatewayCall_files: "gatewayCall L M E a ws m path t w = (x, w') \<Longrightarrow> w_files w' = w_files w"
  by (auto simp: gatewayCall_def Let_def dest!: info_files localCall_files split: prod.splits sum.splits if_splits)

lemma reload_files: "reload L M E a ws w = (x, w') \<Longrightarrow> w_files w' = w_files w"
  by (auto simp: reload_def dest!: gatewayCall_files split: prod.splits sum.splits if_splits)

lemma saveSecret_files: "saveSecret L M E a req w = (x, w') \<Longrightarrow> w_files w' = w_files w"
  by (auto simp: saveSecret_def Let_def dest!: gatewayCall_files split: prod.splits sum.splits if_splits)

lemma fetchStatus_files: "fetchStatus L M E t a ws live w = (x, w') \<Longrightarrow> w_files w' = w_files w"
  by (auto simp: fetchStatus_def Let_def dest!: info_files gatewayCall_files
      split: prod.splits sum.splits option.splits if_splits)

lemma tokDo_files: "tokDo U env m u h b w = (x, w') \<Longrightarrow> w_files w' = w_files w"
  by (auto simp: tokDo_def Let_def split: option.splits sum.splits netError.splits)

lemma checkJSON_files: "checkJSON L U env u h fs w = (x, w') \<Longrightarrow> w_files w' = w_files w"
  by (auto simp: checkJSON_def Let_def dest!: tokDo_files split: prod.splits sum.splits option.splits if_splits)

lemma checkGitLab_files: "checkGitLab L U env token w = (x, w') \<Longrightarrow> w_files w' = w_files w"
  by (auto simp: checkGitLab_def Let_def dest!: checkJSON_files tokDo_files
      split: prod.splits sum.splits option.splits if_splits)

lemma checkGitHub_files: "checkGitHub L U env token w = (x, w') \<Longrightarrow> w_files w' = w_files w"
  by (auto simp: checkGitHub_def Let_def dest!: tokDo_files split: prod.splits sum.splits if_splits)

lemma checkSlack_files: "checkSlack L U env p q w = (x, w') \<Longrightarrow> w_files w' = w_files w"
  by (auto simp: checkSlack_def Let_def dest!: tokDo_files split: prod.splits sum.splits option.splits if_splits)

lemma pgConnect_files: "pgConnect D c w = (x, w') \<Longrightarrow> w_files w' = w_files w"
  by (auto simp: pgConnect_def devCall_def split: prod.splits option.splits)

lemma checkPostgres_files: "checkPostgres L t D env p w = (x, w') \<Longrightarrow> w_files w' = w_files w"
  by (auto simp: checkPostgres_def Let_def dest!: pgConnect_files split: prod.splits sum.splits if_splits)

lemma fold_record_files [simp]: "w_files (fold record_call cs w) = w_files w"
  by (induction cs arbitrary: w) simp_all

lemma tryCall_files: "tryCall D c e cs w = (x, w') \<Longrightarrow> w_files w' = w_files w"
  by (auto simp: tryCall_def devCall_def split: option.splits)

lemma dialImap_files: "dialImap D cfg w = (x, w') \<Longrightarrow> w_files w' = w_files w"
  by (auto simp: dialImap_def andThen_def dest!: tryCall_files split: prod.splits sum.splits if_splits)

lemma ListMailboxes_files: "ListMailboxes D cfg w = (x, w') \<Longrightarrow> w_files w' = w_files w"
  by (auto simp: ListMailboxes_def imapSession_def andThen_def Let_def dest!: dialImap_files tryCall_files
      split: prod.splits sum.splits)

lemma checkIMAP_files: "checkIMAP L t D env p w = (x, w') \<Longrightarrow> w_files w' = w_files w"
  by (auto simp: checkIMAP_def Let_def dest!: ListMailboxes_files split: prod.splits sum.splits if_splits)

lemma Check_files: "Check L M kind env p q w = (x, w') \<Longrightarrow> w_files w' = w_files w"
  by (cases kind) (auto simp: Check_def checkTrello_def Let_def split: if_splits
      dest!: checkJSON_files checkGitLab_files checkGitHub_files checkSlack_files checkPostgres_files checkIMAP_files)

lemma testSecret_files: "testSecret L M E a req w = (x, w') \<Longrightarrow> w_files w' = w_files w"
  by (auto simp: testSecret_def Let_def dest!: Check_files split: prod.splits sum.splits list.splits)

section \<open>Only the companion's own files are written\<close>

definition changesOnly :: "(string \<Rightarrow> bool) \<Rightarrow> files \<Rightarrow> files \<Rightarrow> bool" where
  "changesOnly P F F' \<longleftrightarrow> (\<forall>q. \<not> P q \<longrightarrow> mget F' q = mget F q)"

lemma changesOnly_refl [simp]: "changesOnly P F F"
  by (simp add: changesOnly_def)

lemma changesOnly_trans: "changesOnly P F G \<Longrightarrow> changesOnly P G H \<Longrightarrow> changesOnly P F H"
  by (simp add: changesOnly_def)

lemma writeText_only: "writeText X path t F = (r, F') \<Longrightarrow> P path \<Longrightarrow> changesOnly P F F'"
  by (auto simp: writeText_def changesOnly_def split: option.splits)

text \<open>The files of the companion whose fields are \<open>a\<close>.\<close>

definition workspaceFile :: "deskEnv \<Rightarrow> 'x app_scheme \<Rightarrow> string \<Rightarrow> string \<Rightarrow> bool" where
  "workspaceFile E a ws q \<longleftrightarrow> q = repoConfigPath E a ws \<or> q = repoOpsPath E a ws"

definition backupFolder :: "deskEnv \<Rightarrow> 'x app_scheme \<Rightarrow> string \<Rightarrow> bool" where
  "backupFolder E a dir \<longleftrightarrow> (\<exists>stamp. dir = de_join E (de_join E (ap_dataDir a) ''backups'') stamp)"

definition stateFile :: "deskEnv \<Rightarrow> 'x app_scheme \<Rightarrow> string" where
  "stateFile E a = de_join E (ap_dataDir a) ''state.json''"

definition ownFile :: "deskEnv \<Rightarrow> 'x app_scheme \<Rightarrow> string \<Rightarrow> bool" where
  "ownFile E a q \<longleftrightarrow>
     q = keysFile E a \<or> q = de_join E (ap_dataDir a) ''settings.json'' \<or> q = stateFile E a
   \<or> (\<exists>ws. rmatch validName ws \<and>
        (workspaceFile E a ws q \<or> (\<exists>p dir. workspaceFile E a ws p \<and> backupFolder E a dir \<and> q = de_join E dir (de_base E p))))
   \<or> (\<exists>ws. (ws = [] \<or> rmatch validName ws) \<and> (q = deployedConfigPath E a ws \<or> q = deployedOpsPath E a ws))"

lemma ownFile_same:
  assumes "ap_buildDir b = ap_buildDir a" "ap_installDir b = ap_installDir a" "ap_dataDir b = ap_dataDir a"
    and "de_join E' = de_join E" "de_base E' = de_base E"
  shows "ownFile E' b = ownFile E a"
  by (rule ext) (simp add: ownFile_def workspaceFile_def keysFile_def repoConfigPath_def repoOpsPath_def
      deployedConfigPath_def deployedOpsPath_def backupFolder_def stateFile_def assms)

lemma backupDir_folder: "backupFolder E a (backupDir E a)"
  by (auto simp: backupFolder_def backupDir_def)

lemma workspaceFile_own:
  assumes "rmatch validName ws" and "workspaceFile E a ws p"
  shows "ownFile E a p \<and> ownFile E a (de_join E (backupDir E a) (de_base E p))"
  unfolding ownFile_def using assms backupDir_folder [of E a] by blast

lemma copyFiles_only: "copyFiles X ps F = (r, F') \<Longrightarrow> \<forall>(s, t) \<in> set ps. P t \<Longrightarrow> changesOnly P F F'"
proof (induction X ps F arbitrary: r rule: copyFiles.induct)
  case (2 X src dst rest F)
  show ?case
  proof (cases "readText X F src")
    case (Inr t)
    obtain r' G where w: "writeText X dst (publishedText t) F = (r', G)" by fastforce
    with 2(3) have c: "changesOnly P F G" by (auto elim: writeText_only)
    show ?thesis
    proof (cases r')
      case (Inl e)
      with 2(2) Inr w c show ?thesis by simp
    next
      case (Inr u)
      with 2(2) \<open>readText X F src = Inr t\<close> w have "copyFiles X rest G = (r, F')" by simp
      with 2(1) [OF \<open>readText X F src = Inr t\<close> w [symmetric]] 2(3) Inr c changesOnly_trans show ?thesis by fastforce
    qed
  qed (use 2(2) in simp)
qed simp

lemma publishFiles_only:
  assumes "publishFiles E X first a ws F = (r, F')" and "ws = [] \<or> rmatch validName ws"
  shows "changesOnly (ownFile E a) F F'"
proof (cases "de_mkdir E (de_join E (ap_installDir a) ws)")
  case None
  let ?ps = "if first then publishPairs E a ws else rev (publishPairs E a ws)"
  have "\<forall>(s, t) \<in> set ?ps. ownFile E a t" using assms(2) by (auto simp: publishPairs_def ownFile_def)
  moreover have "copyFiles X ?ps F = (r, F')" using assms(1) None by (simp add: publishFiles_def)
  ultimately show ?thesis using copyFiles_only by blast
qed (use assms(1) in \<open>simp add: publishFiles_def\<close>)

lemma controlService_only: "controlService E ws act F = (r, F') \<Longrightarrow> F' = F"
  by (auto simp: controlService_def split: option.splits)

lemma doHelper_only:
  assumes "doHelper E X S a act ws svcAction restart F = (r, F')" and "act \<noteq> ''deploy''"
  shows "changesOnly (ownFile E a) F F'"
proof -
  consider "F' = F" | r' G where "publishFiles E X (sy_configFirst S) a ws F = (r', G)" "F' = G" "ws = [] \<or> rmatch validName ws"
    using assms by (auto simp: doHelper_def helperDone_def dest: controlService_only
        split: if_splits prod.splits sum.splits)
  then show ?thesis
  proof cases
    case 2
    from publishFiles_only [OF 2(1,3)] 2(2) show ?thesis by simp
  qed simp
qed

lemma runElevated_only:
  "runElevated E X S el a act ws svcAction restart F = (r, F') \<Longrightarrow> act \<noteq> ''deploy'' \<Longrightarrow> changesOnly (ownFile E a) F F'"
  by (auto simp: runElevated_def Let_def dest!: doHelper_only split: if_splits prod.splits option.splits)

lemma upsertKey_only: "upsertKey L E X a label old token sha u F = (r, F') \<Longrightarrow> changesOnly (ownFile E a) F F'"
  by (auto simp: upsertKey_def Let_def ownFile_def elim!: writeText_only)

lemma useAdminToken_only:
  "useAdminToken L E X a ws token remember F = (r, b, F') \<Longrightarrow>
     changesOnly (ownFile E a) F F' \<and> (\<exists>t. b = a\<lparr>ap_adminTokens := t\<rparr>)"
  by (auto simp: useAdminToken_def Let_def dest!: upsertKey_only split: sum.splits if_splits prod.splits
      intro: exI [of _ "ap_adminTokens a"])

text \<open>An edit of a workspace: its name is valid and its two files are those of the workspace.\<close>

definition editOf :: "deskEnv \<Rightarrow> 'x app_scheme \<Rightarrow> wsEdit \<Rightarrow> bool" where
  "editOf E a e \<longleftrightarrow>
     (\<exists>ws. rmatch validName ws \<and> yf_path (ed_cfg e) = repoConfigPath E a ws \<and> yf_path (ed_ops e) = repoOpsPath E a ws)"

lemma withRoot_path [simp]: "yf_path (withRoot n f) = yf_path f"
  by (simp add: withRoot_def)

lemma openYAML_path: "openYAML Y X F path = Inr y \<Longrightarrow> yf_path y = path"
  by (auto simp: openYAML_def rbind_Inr_iff Let_def split: if_splits sum.splits option.splits)

lemma openEdit_editOf: "openEdit E X a F ws = Inr e \<Longrightarrow> editOf E a e"
  by (auto simp: openEdit_def editOf_def rbind_Inr_iff dest!: openYAML_path split: if_splits)

lemma edit_keeps [simp]:
  "editOf E a (withWorkspace f e) = editOf E a e" "editOf E a (withSites f e) = editOf E a e"
  "editOf E a (withOps f e) = editOf E a e" "editOf E a (withRoles f e) = editOf E a e"
  "editOf E a (withAgent agent f e) = editOf E a e" "editOf E a (e\<lparr>ed_cfg := withRoot n (ed_cfg e)\<rparr>) = editOf E a e"
  "editOf E a (e\<lparr>ed_parsed := c\<rparr>) = editOf E a e"
  by (simp_all add: editOf_def withWorkspace_def withSites_def withOps_def withRoles_def withAgent_def split: option.split)

lemma setGrants_keeps: "setGrants op roles e = Inr e' \<Longrightarrow> editOf E a e \<Longrightarrow> editOf E a e'"
  by (auto simp: setGrants_def split: prod.splits list.splits)

lemma addGrants_keeps: "addGrants op roles e = Inr e' \<Longrightarrow> editOf E a e \<Longrightarrow> editOf E a e'"
  by (auto simp: addGrants_def rbind_Inr_iff)

lemma addOperation_keeps: "addOperation D X b F op source site custom e = Inr e' \<Longrightarrow> editOf E a e \<Longrightarrow> editOf E a e'"
  by (auto simp: addOperation_def Let_def rbind_Inr_iff split: list.splits)

lemma removeOperation_keeps: "removeOperation op e = Inr e' \<Longrightarrow> editOf E a e \<Longrightarrow> editOf E a e'"
  by (auto simp: removeOperation_def split: option.splits elim: setGrants_keeps)

lemma addServiceOps_keeps: "addServiceOps D X b F cat req ops e = Inr e' \<Longrightarrow> editOf E a e \<Longrightarrow> editOf E a e'"
proof (induction ops arbitrary: e)
  case (Cons op ops)
  from Cons(2) obtain info first name where
    c: "mget cat op = Some info" "find (\<lambda>v. siteVar req v = []) (serviceVars (oi_Path info)) = None"
      "splitN 2 (CHR ''.'') op = [first, name]"
    by (auto simp: Let_def split: option.splits list.splits)
  define newID where "newID = as_Site req @ CHR ''.'' # name"
  have "rbind (if mapGet (opsNode e) newID = None
           then addOperation D X b F op (oi_Source info) (as_Site req) None e else Inr (withOps (\<lambda>n. n) e)) (\<lambda>e.
         rbind (if as_Roles req = [] then Inr e else addGrants newID (as_Roles req) e) (\<lambda>e.
         addServiceOps D X b F cat req ops e)) = Inr e'"
    using Cons(2) c unfolding newID_def by (simp add: Let_def split del: if_split)
  then obtain e1 e2 where
      1: "(if mapGet (opsNode e) newID = None
           then addOperation D X b F op (oi_Source info) (as_Site req) None e else Inr (withOps (\<lambda>n. n) e)) = Inr e1"
    and 2: "(if as_Roles req = [] then Inr e1 else addGrants newID (as_Roles req) e1) = Inr e2"
    and 3: "addServiceOps D X b F cat req ops e2 = Inr e'"
    unfolding rbind_Inr_iff by blast
  from 1 Cons(3) have "editOf E a e1" by (auto split: if_splits elim: addOperation_keeps)
  with 2 have "editOf E a e2" by (auto split: if_splits elim: addGrants_keeps)
  with 3 Cons(1) show ?case by blast
qed simp

lemma addService_keeps: "addService D X b F req e = Inr e' \<Longrightarrow> editOf E a e \<Longrightarrow> editOf E a e'"
  by (auto simp: addService_def Let_def rbind_Inr_iff addParsedSite_def split: option.splits if_splits
      elim!: addServiceOps_keeps)

lemma setSiteDisabled_keeps: "setSiteDisabled site x e = Inr e' \<Longrightarrow> editOf E a e \<Longrightarrow> editOf E a e'"
  by (auto simp: setSiteDisabled_def split: option.splits if_splits)

lemma checkedChanges_paths:
  "checkedChanges L E e = Inr cs \<Longrightarrow> c \<in> set cs \<Longrightarrow> fc_Path c = yf_path (ed_cfg e) \<or> fc_Path c = yf_path (ed_ops e)"
  by (auto simp: checkedChanges_def changes_def Let_def rbind_Inr_iff split: if_splits)

lemma writeChanges_only:
  "writeChanges E X dir cs F = (r, F') \<Longrightarrow>
     \<forall>c \<in> set cs. P (fc_Path c) \<and> P (de_join E dir (de_base E (fc_Path c))) \<Longrightarrow> changesOnly P F F'"
proof (induction cs arbitrary: F)
  case (Cons c cs)
  obtain r1 F1 where 1: "writeText X (de_join E dir (de_base E (fc_Path c))) (fc_Before c) F = (r1, F1)" by fastforce
  obtain r2 F2 where 2: "writeText X (fc_Path c) (fc_After c) F1 = (r2, F2)" by fastforce
  have "changesOnly P F F1" "changesOnly P F1 F2" using 1 2 Cons(3) by (auto elim: writeText_only)
  then have "changesOnly P F F1" "changesOnly P F F2" using changesOnly_trans by blast+
  with Cons 1 2 show ?case by (auto split: sum.splits elim: changesOnly_trans)
qed simp

lemma commit_only:
  assumes "commit L E X a apply e F = (r, F')" and "editOf E a e"
  shows "changesOnly (ownFile E a) F F'"
proof -
  consider "F' = F" | cs r' where "checkedChanges L E e = Inr cs" "writeChanges E X (backupDir E a) cs F = (r', F')"
    using assms(1) by (auto simp: commit_def split: sum.splits if_splits option.splits prod.splits)
  then show ?thesis
  proof cases
    case 2
    from assms(2) obtain ws where ws: "rmatch validName ws" "yf_path (ed_cfg e) = repoConfigPath E a ws"
      "yf_path (ed_ops e) = repoOpsPath E a ws" by (auto simp: editOf_def)
    have "workspaceFile E a ws (fc_Path c)" if "c \<in> set cs" for c
      using checkedChanges_paths [OF 2(1) that] ws(2,3) by (auto simp: workspaceFile_def)
    with workspaceFile_own [OF ws(1), of E a] have "\<forall>c \<in> set cs. ownFile E a (fc_Path c)
        \<and> ownFile E a (de_join E (backupDir E a) (de_base E (fc_Path c)))" by simp
    then show ?thesis by (rule writeChanges_only [OF 2(2)])
  qed simp
qed

lemma regenerateAgent_only: "regenerateAgent L E X a ws agent F = (r, F') \<Longrightarrow> changesOnly (ownFile E a) F F'"
  by (auto simp: regenerateAgent_def Let_def rbind_Inr_iff split: sum.splits prod.splits option.splits
      dest!: upsertKey_only elim!: changesOnly_trans [rotated] commit_only openEdit_editOf)

lemma addAgent_only: "addAgent L E X a ws agent role F = (r, F') \<Longrightarrow> changesOnly (ownFile E a) F F'"
  by (auto simp: addAgent_def Let_def rbind_Inr_iff split: sum.splits prod.splits option.splits
      dest!: upsertKey_only elim!: changesOnly_trans [rotated] commit_only openEdit_editOf)

lemma setAdminToken_only:
  "setAdminToken L E X a ws F = (r, b, F') \<Longrightarrow> changesOnly (ownFile E a) F F' \<and> (\<exists>t. b = a\<lparr>ap_adminTokens := t\<rparr>)"
  by (auto simp: setAdminToken_def Let_def split: sum.splits prod.splits option.splits
      dest!: upsertKey_only elim!: changesOnly_trans [rotated] commit_only openEdit_editOf
      intro: exI [of _ "ap_adminTokens a"])

section \<open>Requests and background jobs\<close>

definition sameApp :: "deskApp \<Rightarrow> deskApp \<Rightarrow> bool" where
  "sameApp a b \<longleftrightarrow>
     ap_buildDir b = ap_buildDir a \<and> ap_installDir b = ap_installDir a \<and> ap_dataDir b = ap_dataDir a
     \<and> ap_session b = ap_session a \<and> ap_port b = ap_port a"

definition deskKept :: "deskEnv \<Rightarrow> 's desk \<Rightarrow> 's desk \<Rightarrow> bool" where
  "deskKept E d d' \<longleftrightarrow> changesOnly (ownFile E (dk_app d)) (filesOf d) (filesOf d') \<and> sameApp (dk_app d) (dk_app d')"

lemma kept_refl [simp]: "deskKept E d d"
  by (simp add: deskKept_def sameApp_def)

lemma kept_trans:
  assumes "deskKept E d d'" and "deskKept E d' d''"
  shows "deskKept E d d''"
proof -
  have "ownFile E (dk_app d') = ownFile E (dk_app d)"
    by (rule ownFile_same) (use assms(1) in \<open>simp_all add: deskKept_def sameApp_def\<close>)
  with assms show ?thesis by (simp add: deskKept_def sameApp_def changesOnly_def)
qed

lemma kept_later [simp]: "deskKept E d (later b d') = deskKept E d d'"
  by (simp add: deskKept_def later_def filesOf_def)

lemma setFiles_simps [simp]: "filesOf (setFiles F d) = F" "dk_app (setFiles F d) = dk_app d" "filesOf (d\<lparr>dk_app := a\<rparr>) = filesOf d"
  by (simp_all add: filesOf_def setFiles_def)

lemma kept_setFiles [simp]: "deskKept E d (setFiles F d) \<longleftrightarrow> changesOnly (ownFile E (dk_app d)) (filesOf d) F"
  by (simp add: deskKept_def sameApp_def)

lemma kept_tokens [simp]:
  "deskKept E d (setFiles F (d\<lparr>dk_app := (dk_app d)\<lparr>ap_adminTokens := t\<rparr>\<rparr>)) \<longleftrightarrow> changesOnly (ownFile E (dk_app d)) (filesOf d) F"
  by (simp add: deskKept_def sameApp_def)

lemma kept_world: "w_files w = filesOf d \<Longrightarrow> deskKept E d (d\<lparr>dk_world := w\<rparr>)"
  by (simp add: deskKept_def sameApp_def filesOf_def)

text \<open>What the background does: at most the note of what was announced is written.\<close>

definition quiet :: "deskEnv \<Rightarrow> 's desk \<Rightarrow> 's desk \<Rightarrow> bool" where
  "quiet E d d' \<longleftrightarrow>
     changesOnly (\<lambda>q. q = stateFile E (dk_app d)) (filesOf d) (filesOf d') \<and> sameApp (dk_app d) (dk_app d')"

lemma quiet_kept: "quiet E d d' \<Longrightarrow> deskKept E d d'"
  by (auto simp: quiet_def deskKept_def changesOnly_def ownFile_def)

lemma quiet_refl [simp]: "quiet E d d"
  by (simp add: quiet_def sameApp_def)

lemma quiet_trans: "quiet E d d' \<Longrightarrow> quiet E d' d'' \<Longrightarrow> quiet E d d''"
  by (simp add: quiet_def sameApp_def changesOnly_def stateFile_def)

lemma quiet_app: "sameApp (dk_app d) a \<Longrightarrow> quiet E d (d\<lparr>dk_app := a\<rparr>)"
  by (simp add: quiet_def)

lemma refresh_quiet: "refresh L M E' t ws live d = (x, d') \<Longrightarrow> quiet E d d'"
  by (auto simp: refresh_def Let_def quiet_def sameApp_def filesOf_def dest!: fetchStatus_files split: prod.splits)

lemmas refresh_kept = refresh_quiet [THEN quiet_kept]

lemma notifyNew_quiet: "notifyNew L E X d = (x, d') \<Longrightarrow> quiet E d d'"
proof -
  assume n: "notifyNew L E X d = (x, d')"
  obtain a F where d': "d' = d\<lparr>dk_app := a, dk_world := (dk_world d)\<lparr>w_files := F\<rparr>\<rparr>"
    and F: "F = saveState E X a (filesOf d)" and a: "sameApp (dk_app d) a"
    using n by (auto simp: notifyNew_def Let_def filesOf_def sameApp_def)
  obtain r G where g: "writeText X (stateFile E (dk_app d)) (notifiedText (ap_notified a)) (filesOf d) = (r, G)" by fastforce
  with F a have "F = G" by (simp add: saveState_def stateFile_def sameApp_def)
  with writeText_only [where P = "\<lambda>q. q = stateFile E (dk_app d)", OF g] a d' show ?thesis
    by (simp add: quiet_def filesOf_def)
qed

lemma recheck_kept: "deskKept E d (recheck L M E' t ws d)"
proof -
  obtain x d' where r: "refresh L M E' t ws False d = (x, d')" by fastforce
  from refresh_kept [OF r] have "deskKept E d (d'\<lparr>dk_app := countRecheck ws 1 (dk_app d')\<rparr>)"
    by (simp add: deskKept_def sameApp_def countRecheck_def)
  with r show ?thesis by (simp add: recheck_def Let_def)
qed

lemma elevated_kept: "elevated V act ws svcAction restart d = (r, d') \<Longrightarrow> act \<noteq> ''deploy'' \<Longrightarrow> deskKept (xe_desk V) d d'"
  by (auto simp: elevated_def dest!: runElevated_only split: prod.splits)

lemma infosOf_kept: "infosOf V wss d = (is, d') \<Longrightarrow> deskKept E d d'"
proof (induction wss arbitrary: d "is")
  case (Cons ws wss)
  define p where "p = (case mget (ap_results (dk_app d)) ws of
            Some r \<Rightarrow> (wr_Info r, d)
          | None \<Rightarrow> (case info (xe_lib V) (xe_moment V) (xe_desk V) (dk_app d) ws (dk_world d) of
                 ((i, _), w) \<Rightarrow> (i, d\<lparr>dk_world := w\<rparr>)))"
  have "deskKept E d (snd p)"
    by (auto simp: p_def filesOf_def split: option.splits prod.splits dest!: info_files intro!: kept_world)
  moreover obtain "is'" where "infosOf V wss (snd p) = (is', d')"
    using Cons(2) unfolding infosOf.simps p_def [symmetric] by (auto simp: Let_def split: prod.splits)
  ultimately show ?case using Cons(1) kept_trans by blast
qed simp

lemma edited_kept:
  assumes "edited V ws apply f d = (r, d')" and "\<And>E a e e'. f e = Inr e' \<Longrightarrow> editOf E (a :: deskApp) e \<Longrightarrow> editOf E a e'"
  shows "deskKept (xe_desk V) d d'"
proof (cases "rbind (openEdit (xe_desk V) (mo_files (xe_moment V)) (dk_app d) (filesOf d) ws) f")
  case (Inr e')
  then obtain e where "openEdit (xe_desk V) (mo_files (xe_moment V)) (dk_app d) (filesOf d) ws = Inr e" "f e = Inr e'"
    by (auto simp: rbind_Inr_iff)
  then have "editOf (xe_desk V) (dk_app d) e'" using assms(2) openEdit_editOf by blast
  moreover obtain c F' where "commit (xe_lib V) (xe_desk V) (mo_files (xe_moment V)) (dk_app d) apply e' (filesOf d) = (c, F')"
    by fastforce
  ultimately show ?thesis
    using assms(1) Inr commit_only by (cases c) (auto simp: edited_def Let_def)
qed (use assms(1) in \<open>simp add: edited_def Let_def\<close>)

lemma decoded_kept:
  assumes "decoded V rd r d f = (x, d')" and "\<And>y. f y = (x, d') \<Longrightarrow> deskKept E d d'"
  shows "deskKept E d d'"
  using assms by (auto simp: decoded_def split: sum.splits)

lemma tokenReply_kept:
  "tokenReply (r, F) d = (x, d') \<Longrightarrow> changesOnly (ownFile E (dk_app d)) (filesOf d) F \<Longrightarrow> deskKept E d d'"
  by (auto simp: tokenReply_def split: option.splits list.splits prod.splits)

text \<open>Every handler but the one that deploys.\<close>

lemma overview_kept: "apiOverview V r d = (x, d') \<Longrightarrow> deskKept E d d'"
  by (auto simp: apiOverview_def Let_def split: prod.splits dest: infosOf_kept)

lemma status_kept: "apiStatus V r d = (x, d') \<Longrightarrow> deskKept E d d'"
  by (auto simp: apiStatus_def refreshed_def Let_def dest: refresh_kept split: if_splits option.splits prod.splits)

lemma test_kept: "apiTest V r d = (x, d') \<Longrightarrow> deskKept E d d'"
  unfolding apiTest_def
  by (erule decoded_kept) (auto dest!: testSecret_files intro!: kept_world simp: filesOf_def split: prod.splits sum.splits)

lemma save_kept: "apiSave V r d = (x, d') \<Longrightarrow> deskKept E d d'"
  unfolding apiSave_def
  by (erule decoded_kept) (auto dest!: saveSecret_files intro!: kept_world simp: filesOf_def split: prod.splits sum.splits)

lemma adminToken_kept: "apiAdminToken V r d = (x, d') \<Longrightarrow> deskKept (xe_desk V) d d'"
  unfolding apiAdminToken_def
  by (erule decoded_kept) (auto dest!: useAdminToken_only split: prod.splits sum.splits)

lemma adminRegenerate_kept: "apiAdminRegenerate V r d = (x, d') \<Longrightarrow> deskKept (xe_desk V) d d'"
  unfolding apiAdminRegenerate_def
proof (erule decoded_kept)
  fix ws
  obtain q a F where s: "setAdminToken (xe_lib V) (xe_desk V) (mo_files (xe_moment V)) (dk_app d) ws (filesOf d) = (q, a, F)"
    by (metis prod_cases3)
  let ?d = "setFiles F (d\<lparr>dk_app := a\<rparr>)"
  obtain p d1 where e: "elevated V ''publish'' ws [] True ?d = (p, d1)" by fastforce
  have 1: "deskKept (xe_desk V) d ?d" using setAdminToken_only [OF s] by auto
  have "deskKept (xe_desk V) ?d d1" using elevated_kept [OF e] by simp
  with 1 kept_trans have 2: "deskKept (xe_desk V) d d1" by blast
  assume "(case setAdminToken (xe_lib V) (xe_desk V) (mo_files (xe_moment V)) (dk_app d) ws (filesOf d) of
         (Inl e, a, F) \<Rightarrow> (Inl (ApiEdit e), setFiles F (d\<lparr>dk_app := a\<rparr>))
       | (Inr _, a, F) \<Rightarrow>
           (case elevated V ''publish'' ws [] True (setFiles F (d\<lparr>dk_app := a\<rparr>)) of
              ((_, Some e), d) \<Rightarrow> (Inl (ApiAdminPublish e), d)
            | ((_, None), d) \<Rightarrow>
                (Inr (OutTexts [(''ok'', ''admin token stored in agent-keys.txt as '' @ adminLabel (xe_desk V) ws)]),
                 later (BgRefresh ws) d))) = (x, d')"
  with s e 1 2 show "deskKept (xe_desk V) d d'" by (auto split: sum.splits prod.splits option.splits)
qed

lemma service_kept: "apiService V r d = (x, d') \<Longrightarrow> deskKept (xe_desk V) d d'"
  unfolding apiService_def
  by (erule decoded_kept) (auto dest!: elevated_kept split: prod.splits option.splits)

lemma agentRegenerate_kept: "apiAgentRegenerate V r d = (x, d') \<Longrightarrow> deskKept (xe_desk V) d d'"
  unfolding apiAgentRegenerate_def
proof (erule decoded_kept, clarify)
  fix ws agent
  assume t: "tokenReply (regenerateAgent (xe_lib V) (xe_desk V) (mo_files (xe_moment V)) (dk_app d) ws agent (filesOf d)) d = (x, d')"
  obtain q F where q: "regenerateAgent (xe_lib V) (xe_desk V) (mo_files (xe_moment V)) (dk_app d) ws agent (filesOf d) = (q, F)"
    by fastforce
  from tokenReply_kept [OF t [unfolded q] regenerateAgent_only [OF q]] show "deskKept (xe_desk V) d d'" .
qed

lemma agentAdd_kept: "apiAgentAdd V r d = (x, d') \<Longrightarrow> deskKept (xe_desk V) d d'"
  unfolding apiAgentAdd_def
proof (erule decoded_kept, clarify)
  fix ws agent role
  assume t: "tokenReply (addAgent (xe_lib V) (xe_desk V) (mo_files (xe_moment V)) (dk_app d) ws agent role (filesOf d)) d = (x, d')"
  obtain q F where q: "addAgent (xe_lib V) (xe_desk V) (mo_files (xe_moment V)) (dk_app d) ws agent role (filesOf d) = (q, F)"
    by fastforce
  from tokenReply_kept [OF t [unfolded q] addAgent_only [OF q]] show "deskKept (xe_desk V) d d'" .
qed

lemma add_kept: "apiCapabilityAdd V r d = (x, d') \<Longrightarrow> deskKept (xe_desk V) d d'"
  unfolding apiCapabilityAdd_def
  by (erule decoded_kept, erule edited_kept)
    (auto simp: rbind_Inr_iff split: if_splits elim: addOperation_keeps addGrants_keeps)

lemma grants_kept: "apiCapabilityGrants V r d = (x, d') \<Longrightarrow> deskKept (xe_desk V) d d'"
  unfolding apiCapabilityGrants_def
  by (erule decoded_kept, clarify, erule edited_kept) (rule setGrants_keeps)

lemma remove_kept: "apiCapabilityRemove V r d = (x, d') \<Longrightarrow> deskKept (xe_desk V) d d'"
  unfolding apiCapabilityRemove_def
  by (erule decoded_kept, clarify, erule edited_kept) (rule removeOperation_keeps)

lemma serviceAdd_kept: "apiServiceAdd V r d = (x, d') \<Longrightarrow> deskKept (xe_desk V) d d'"
  unfolding apiServiceAdd_def
  by (erule decoded_kept, erule edited_kept) (rule addService_keeps)

lemma serviceDisable_kept: "apiServiceDisable V r d = (x, d') \<Longrightarrow> deskKept (xe_desk V) d d'"
  unfolding apiServiceDisable_def
  by (erule decoded_kept, clarify, erule edited_kept) (rule setSiteDisabled_keeps)

lemma publish_kept: "apiPublish V r d = (x, d') \<Longrightarrow> deskKept (xe_desk V) d d'"
  unfolding apiPublish_def Let_def
proof (erule decoded_kept, clarify)
  fix ws restart
  let ?L = "xe_lib V" and ?M = "xe_moment V" and ?E = "xe_desk V"
  obtain p e d1 where 1: "elevated V ''publish'' ws [] restart d = ((p, e), d1)" by (metis prod.exhaust)
  obtain y w where 2: "reload ?L ?M ?E (dk_app d1) ws (dk_world d1) = (y, w)" by fastforce
  let ?d2 = "d1\<lparr>dk_world := w\<rparr>"
  obtain p' e' d3 where 3: "elevated V ''service'' ws ''restart'' False ?d2 = ((p', e'), d3)" by (metis prod.exhaust)
  have k: "deskKept ?E d d1" using elevated_kept [OF 1] by simp
  moreover have "deskKept ?E d1 ?d2" using reload_files [OF 2] by (intro kept_world) (simp add: filesOf_def)
  moreover have "deskKept ?E ?d2 d3" using elevated_kept [OF 3] by simp
  ultimately have all: "deskKept ?E d d1" "deskKept ?E d ?d2" "deskKept ?E d d3" using kept_trans by blast+
  then have re: "deskKept ?E d (recheck ?L ?M ?E (xe_errText V) ws d1)"
    "deskKept ?E d (recheck ?L ?M ?E (xe_errText V) ws ?d2)" "deskKept ?E d (recheck ?L ?M ?E (xe_errText V) ws d3)"
    using kept_trans recheck_kept by blast+
  assume "(case elevated V ''publish'' ws [] restart d of
            ((_, Some e), d) \<Rightarrow> (Inl (ApiDesk e), d)
          | ((_, None), d) \<Rightarrow>
              if restart then (Inr (OutPublished None True), recheck ?L ?M ?E (xe_errText V) ws d)
              else (case reload ?L ?M ?E (dk_app d) ws (dk_world d) of
                      (Inl e, w) \<Rightarrow>
                        (case elevated V ''service'' ws ''restart'' False (d\<lparr>dk_world := w\<rparr>) of
                           ((_, Some e2), d) \<Rightarrow> (Inl (ApiReloadAndRestart e e2), d)
                         | ((_, None), d) \<Rightarrow> (Inr (OutPublished (Some e) True), recheck ?L ?M ?E (xe_errText V) ws d))
                    | (Inr _, w) \<Rightarrow> (Inr (OutPublished None False), recheck ?L ?M ?E (xe_errText V) ws (d\<lparr>dk_world := w\<rparr>)))) = (x, d')"
  then have "d' \<in> {d1, d3, recheck ?L ?M ?E (xe_errText V) ws d1, recheck ?L ?M ?E (xe_errText V) ws ?d2,
      recheck ?L ?M ?E (xe_errText V) ws d3}"
    unfolding 1 prod.case by (auto simp: 2 3 split: option.splits if_splits sum.splits)
  with all re show "deskKept ?E d d'" by auto
qed

lemma settings_kept: "apiSettings V r d = (x, d') \<Longrightarrow> deskKept (xe_desk V) d d'"
  unfolding apiSettings_def
proof (erule decoded_kept, goal_cases)
  case (1 y)
  obtain st autostart where y: "y = (st, autostart)" by fastforce
  let ?a = "(dk_app d)\<lparr>ap_settings := st\<rparr>" and ?E = "xe_desk V"
  obtain q F where s: "saveSettings ?E (mo_files (xe_moment V)) ?a (filesOf d) = (q, F)" by fastforce
  let ?d = "setFiles F (d\<lparr>dk_app := ?a\<rparr>)"
  have "changesOnly (ownFile ?E (dk_app d)) (filesOf d) F"
    using s by (auto simp: saveSettings_def ownFile_def elim!: writeText_only)
  then have k: "deskKept ?E d ?d" "deskKept ?E d (?d\<lparr>dk_autostart := b\<rparr>)" for b
    by (simp_all add: deskKept_def sameApp_def setFiles_def filesOf_def)
  have "d' = d \<or> d' = ?d \<or> (\<exists>b. d' = ?d\<lparr>dk_autostart := b\<rparr>)"
    using 1 s by (auto simp: y Let_def split: if_splits sum.splits option.splits)
  with k show ?case by auto
qed

text \<open>A request in whole.\<close>

lemma api_kept: "apiOf V path = Some f \<Longrightarrow> path \<noteq> ''/api/deploy'' \<Longrightarrow> f r d = (x, d') \<Longrightarrow> deskKept (xe_desk V) d d'"
  by (auto simp: apiOf_def apiCheck_def split: if_splits
      dest: overview_kept status_kept test_kept save_kept adminToken_kept adminRegenerate_kept service_kept publish_kept
        agentRegenerate_kept agentAdd_kept add_kept grants_kept remove_kept serviceAdd_kept serviceDisable_kept settings_kept
      simp: apiCapabilities_def apiAgents_def split: sum.splits)

lemma countRecheck_same [simp]: "sameApp a (countRecheck ws n a)"
  by (simp add: countRecheck_def sameApp_def)

lemma recheckEnd_quiet: "recheckEnd L M E t ws d = (x, d') \<Longrightarrow> quiet E d d'"
proof -
  assume e: "recheckEnd L M E t ws d = (x, d')"
  obtain y d1 where r: "refresh L M E t ws True d = (y, d1)" by fastforce
  let ?d2 = "d1\<lparr>dk_app := countRecheck ws (- 1) (dk_app d1)\<rparr>"
  have "quiet E d d1" "quiet E d1 ?d2" by (rule refresh_quiet [OF r], rule quiet_app) simp
  moreover have "notifyNew L E (mo_files M) ?d2 = (x, d')" using e r by (simp add: recheckEnd_def Let_def)
  ultimately show ?thesis using notifyNew_quiet quiet_trans by blast
qed

lemma refreshes_quiet: "quiet E d (fold (\<lambda>ws d. snd (refresh L M E' t ws True d)) wss d)"
proof (induction wss arbitrary: d)
  case (Cons ws wss)
  have "quiet E d (snd (refresh L M E' t ws True d))" using refresh_quiet by (metis prod.collapse)
  with Cons quiet_trans show ?case by fastforce
qed simp

lemma checkAllNow_quiet: "checkAllNow L M E t d = (x, d') \<Longrightarrow> quiet E d d'"
proof (cases "ap_checking (dk_app d)")
  case False
  let ?d1 = "d\<lparr>dk_app := (dk_app d)\<lparr>ap_checking := True\<rparr>\<rparr>"
  define d2 where "d2 = fold (\<lambda>ws d. snd (refresh L M E t ws True d)) (workspaceNames E (w_files (dk_world ?d1)) (dk_app ?d1)) ?d1"
  let ?d3 = "d2\<lparr>dk_app := (dk_app d2)\<lparr>ap_checking := False, ap_lastCheck := mo_now M\<rparr>\<rparr>"
  have "quiet E d ?d1" "quiet E d2 ?d3" by (rule quiet_app; simp add: sameApp_def)+
  moreover have "quiet E ?d1 d2" unfolding d2_def by (rule refreshes_quiet)
  moreover assume "checkAllNow L M E t d = (x, d')"
  then have "notifyNew L E (mo_files M) ?d3 = (x, d')" using False by (simp add: checkAllNow_def Let_def d2_def)
  ultimately show ?thesis using notifyNew_quiet quiet_trans by blast
qed (simp add: checkAllNow_def)

lemma background_quiet: "runBackground L M E t b d = (x, d') \<Longrightarrow> quiet E d d'"
proof (cases b)
  case (BgRefreshNotify ws)
  obtain y d1 where r: "refresh L M E t ws True d = (y, d1)" by fastforce
  assume "runBackground L M E t b d = (x, d')"
  with BgRefreshNotify r have "notifyNew L E (mo_files M) d1 = (x, d')" by (simp add: runBackground_def)
  with refresh_quiet [OF r] notifyNew_quiet quiet_trans show ?thesis by blast
next
  case (BgRefresh ws)
  obtain y d1 where "refresh L M E t ws True d = (y, d1)" by fastforce
  moreover assume "runBackground L M E t b d = (x, d')"
  ultimately show ?thesis using BgRefresh refresh_quiet by (auto simp: runBackground_def)
qed (auto simp: runBackground_def intro: recheckEnd_quiet checkAllNow_quiet)

section \<open>The window as a whole\<close>

definition admits :: "deskApp \<Rightarrow> winReq \<Rightarrow> bool" where
  "admits a r \<longleftrightarrow> wq_Session r = ap_session a \<and> wq_Host r = ''127.0.0.1:'' @ showInt (ap_port a)"

lemma window_refuses:
  assumes "serveWindow V r d = (x, d')" and "\<not> admits (dk_app d) r"
  shows "d' = d \<and> (x = Pong \<or> (\<exists>m. x = Forbidden m) \<or> x = PageUI \<and> winQuery r ''s'' = ap_session (dk_app d))"
  using assms by (auto simp: serveWindow_def admits_def Let_def split: if_splits option.splits)

lemma window_kept:
  "serveWindow V r d = (x, d') \<Longrightarrow> \<not> (wq_Path r = ''/api/deploy'' \<and> admits (dk_app d) r) \<Longrightarrow> deskKept (xe_desk V) d d'"
  by (auto simp: serveWindow_def admits_def Let_def split: if_splits option.splits prod.splits sum.splits dest: api_kept)

text \<open>
  What can happen to a companion from \<open>d\<close> on: requests \<open>rs\<close>, and background jobs at any time; the
  surroundings may change, but not how paths are made.
\<close>

definition samePaths :: "deskEnv \<Rightarrow> deskEnv \<Rightarrow> bool" where
  "samePaths E E' \<longleftrightarrow> de_join E' = de_join E \<and> de_base E' = de_base E"

inductive deskRun :: "deskEnv \<Rightarrow> 's desk \<Rightarrow> winReq list \<Rightarrow> 's desk \<Rightarrow> bool" for E d where
  D_start: "deskRun E d [] d"
| D_request: "deskRun E d rs d' \<Longrightarrow> samePaths E (xe_desk V) \<Longrightarrow> serveWindow V r d' = (x, d'') \<Longrightarrow> deskRun E d (rs @ [r]) d''"
| D_background: "deskRun E d rs d' \<Longrightarrow> samePaths E E' \<Longrightarrow> runBackground L M E' t b d' = (x, d'') \<Longrightarrow> deskRun E d rs d''"

lemma deskKept_env: "samePaths E E' \<Longrightarrow> deskKept E' d d' = deskKept E d d'"
  using ownFile_same [OF refl refl refl, of E' E "dk_app d"] by (simp add: deskKept_def samePaths_def)

lemma quiet_env: "samePaths E E' \<Longrightarrow> quiet E' d d' = quiet E d d'"
  by (simp add: quiet_def samePaths_def stateFile_def)

lemma admits_same: "sameApp a b \<Longrightarrow> admits b r = admits a r"
  by (simp add: admits_def sameApp_def)

lemma run_kept:
  "deskRun E d rs d' \<Longrightarrow> \<forall>r \<in> set rs. \<not> (wq_Path r = ''/api/deploy'' \<and> admits (dk_app d) r) \<Longrightarrow> deskKept E d d'"
proof (induction rule: deskRun.induct)
  case (D_request rs d' V r x d'')
  then have "deskKept E d d'" by simp
  moreover from this D_request(5) admits_same [of "dk_app d" "dk_app d'" r] have "\<not> (wq_Path r = ''/api/deploy'' \<and> admits (dk_app d') r)"
    by (simp add: deskKept_def)
  with window_kept [OF D_request(3)] have "deskKept E d' d''" by (simp add: deskKept_env [OF D_request(2)])
  ultimately show ?case by (rule kept_trans)
next
  case (D_background rs d' E' L M t b x d'')
  with background_quiet quiet_kept deskKept_env have "deskKept E d' d''" by blast
  with D_background show ?case using kept_trans by blast
qed simp

lemma run_quiet: "deskRun E d rs d' \<Longrightarrow> \<forall>r \<in> set rs. \<not> admits (dk_app d) r \<Longrightarrow> quiet E d d'"
proof (induction rule: deskRun.induct)
  case (D_request rs d' V r x d'')
  then have "quiet E d d'" by simp
  moreover from this D_request(5) admits_same [of "dk_app d" "dk_app d'" r] have "\<not> admits (dk_app d') r" by (simp add: quiet_def)
  with window_refuses [OF D_request(3)] have "d'' = d'" by simp
  ultimately show ?case by simp
next
  case (D_background rs d' E' L M t b x d'')
  with background_quiet quiet_env have "quiet E d' d''" by blast
  with D_background show ?case using quiet_trans by blast
qed simp


definition tokenEnv :: "(secretError + kgroup list) winEnv" where
  "tokenEnv = \<lparr>xe_lib = exampleLib\<lparr>lib_decodeFirst := (\<lambda>s. Some (JObj [(''ws'', JStr ''acme''), (''token'', JStr ''t''),
        (''remember'', JBool True)]))\<rparr>, xe_moment = vpnMoment,
     xe_desk = exampleDesk\<lparr>de_config := (\<lambda>s. Inr (zeroConfig\<lparr>cfg_AdminTokenSHA := lib_sha256hex exampleLib ''t''\<rparr>))\<rparr>,
     xe_system = \<lparr>sy_script = (\<lambda>F. ((None, []), F)), sy_configFirst = True, sy_relaunch = None, sy_late = False\<rparr>,
     xe_errText = (\<lambda>e. ''error''), xe_setAutostart = (\<lambda>b. None)\<rparr>"

definition tokenDesk :: "(secretError + kgroup list) desk" where
  "tokenDesk = \<lparr>dk_app = \<lparr>ap_buildDir = ''src'', ap_installDir = ''dst'', ap_dataDir = ''data'', ap_adminTokens = [],
       ap_session = ''session'', ap_port = 4000, ap_elevated = False,
       ap_settings = \<lparr>se_CheckIntervalMin = 30, se_Notify = True, se_ExpiryWarnDays = 14\<rparr>, ap_results = [], ap_lastCheck = [],
       ap_notified = [], ap_checking = False, ap_rechecking = []\<rparr>,
     dk_world = exampleWorld\<lparr>w_files := [(''src/config.acme.yaml'', ''a''), (''other'', ''x'')]\<rparr>,
     dk_autostart = False, dk_background = []\<rparr>"

definition tokenRequest :: winReq where
  "tokenRequest = \<lparr>wq_Method = ''POST'', wq_Host = ''127.0.0.1:4000'', wq_Path = ''/api/admin-token'', wq_Query = [],
     wq_Session = ''session'', wq_Body = []\<rparr>"


end
