(* ===== verification/Spec2Isabelle.thy ===== *)
theory Spec2Isabelle
  imports FeedbackSafety Calendar Scheduler TokenCheck Connectors GatewaySafety Endpoints Worklog WorklogSafety
    Admin Routes Serving Startup SchedulerLife ConfigSafety Publishing WindowSafety
begin

text \<open>
  \<^bold>\<open>What this is.\<close> A model of the external gateway: a server on the loopback address through which
  AI agents call the services of a workspace. An agent shows a token, names a workspace, an operation
  and parameters; the server checks all of them against the configuration, calls a connector with
  secrets the agent never sees, shapes and redacts the answer and writes an audit record. Beside the
  server stand a job scheduler, a token check for administrators and a desktop companion that edits
  the configuration files. The theories below translate the Go sources function by function; every
  definition is executable, and everything outside the repository is a parameter.

  \<^bold>\<open>How the code is represented.\<close> Structs are records, an \<open>error\<close> result is \<open>'e + 'a\<close> with an error
  datatype per component, a Go map is an association list (\<open>gomap\<close>; where Go leaves the order of
  iteration open, the theorems that are sensitive to it quantify over the order). Strings are byte
  strings. The state of the process is the record \<open>Server\<close> (configuration, registry, audit log, the
  world of resolver, sent requests, device calls and files); each handler is a function from a
  request, a \<open>moment\<close> (network, devices, clock, faults of the file system) and a server to an outcome
  and a server. A panic or a loop that never ends is an outcome of its own (\<open>Aborted\<close>, \<open>WlNoReturn\<close>).

  \<^bold>\<open>The theories, from the bottom up.\<close>
  \<^item> \<^bold>\<open>Shared:\<close> \<open>Prelude\<close> (results, maps), \<open>GoStrings\<close>, \<open>Json\<close>, \<open>Regexp\<close> (derivatives, for the fixed
    patterns), \<open>Encode\<close> (URL, base64 and JSON escapes), \<open>World\<close> (what is sent, called and written).
  \<^item> \<^bold>\<open>Configuration and policy:\<close> \<open>Config\<close> (internal/config), \<open>Policy\<close> and \<open>Jql\<close> (internal/policy):
    validation, parameters, constraints; a request conforms exactly when it is accepted, and a JQL filter
    cannot leave the parentheses it is put into.
  \<^item> \<^bold>\<open>Secrets:\<close> \<open>Secrets\<close> (internal/secrets): the taint registry, the resolver and its cache. Redacted
    text holds no known secret, a secret goes only to its own workspace, the cache is never stale.
  \<^item> \<^bold>\<open>Records and answers:\<close> \<open>AuditLog\<close> (internal/audit) and \<open>Shaper\<close> (internal/redact).
  \<^item> \<^bold>\<open>Access:\<close> \<open>Access\<close> and \<open>Suggest\<close> (server.go): tokens, grants, environments, near operations.
  \<^item> \<^bold>\<open>Connectors:\<close> \<open>PathTemplate\<close>, \<open>HttpOp\<close> and \<open>HttpSafety\<close> (http-rest), \<open>SlackFile\<close>, \<open>Mcp\<close>, \<open>Tables\<close>
    and \<open>PgOp\<close> (PostgreSQL: the SQL guard and the session), \<open>LocalOp\<close> (tunnels, local services),
    \<open>EmailOp\<close> (IMAP, SMTP), \<open>Calendar\<close> (internal/workcal), \<open>Worklog\<close> and \<open>WorklogSafety\<close>
    (jira\_worklog.go). For each: what it may contact and send, and that parameters stay data.
    \<open>Connectors\<close> states their common contract as a locale, interprets it for every connector, and the
    dispatch inherits it.
  \<^item> \<^bold>\<open>The server:\<close> \<open>Gateway\<close> (executeOp, dry run, the workspace handler), \<open>GatewaySafety\<close> (admission as a
    specification and its refinement, no contact without it, redacted answers), \<open>Endpoints\<close> (health,
    identity, capabilities, help, feedback), \<open>Feedback\<close> and \<open>FeedbackSafety\<close> (the TODO file), \<open>TokenCheck\<close>
    (internal/tokencheck), \<open>Admin\<close> (admin\_status.go, /admin), \<open>Routes\<close> (New, ServeHTTP), \<open>Serving\<close>
    (invariants of every history of requests) and \<open>Startup\<close> (cmd/egw/main.go).
  \<^item> \<^bold>\<open>Scheduler:\<close> \<open>Scheduler\<close> (internal/scheduler): workers and callers as a step relation; a job is
    claimed at most once and its end is final. \<open>SchedulerLife\<close>: a due job is taken up within a bounded
    number of the steps of one worker.
  \<^item> \<^bold>\<open>Desktop companion:\<close> \<open>LineDiff\<close> and \<open>YamlTree\<close> (yamledit.go): the diff is shortest, patching keeps
    untouched lines, a YAML mapping is a keyed store. \<open>Desktop\<close> and \<open>Companion\<close> (gateway.go,
    elevate.go): paths, the key file, drift, publishing, the elevated helper, calls to the gateway;
    \<open>ConfigEdit\<close> (configedit.go): edits of a workspace, their check and commit; \<open>Checker\<close> (checker.go):
    the status of the secrets, the list of problems, notifications; \<open>Window\<close> (server.go): the local
    interface of the window. \<open>ConfigSafety\<close>: a commit writes only what the gateway can load, grants are
    set exactly; \<open>Publishing\<close>: no drift after publishing; \<open>WindowSafety\<close>: the companion writes only
    files of its own, and only for requests with its session. The companion is the record \<open>desk\<close>; an edit
    that changes a YAML node in place returns the changed edit, background work is queued and runs as
    a step of its own.

  \<^bold>\<open>Bounds and fuel.\<close> Reading the pages of an upstream may never end: \<open>wl_pages\<close> is the number of pages
  read at most, running out of it is the outcome \<open>WlNoReturn\<close>, and \<open>paging_ends\<close> shows that one more
  than the number of worklogs is enough. The walk over a SQL tree has the depth bound of the source
  (\<open>maxWalkDepth\<close>). All other recursion is structural or comes with its measure. Hours are kept in
  hundredths, which is exact below 2^45 seconds; sums of seconds and the integers of a port or a
  count are not wrapped at 64 bits; the table of the line diff (32-bit entries) is that of the
  sources for fewer than 2^31 lines. A list that is nil and one that is empty print alike where
  the sources print both as null or \<open>[]\<close> only for people. Concurrent status checks are taken in
  the order of the list; requests are atomic steps of a history, except jobs, whose steps interleave.

  \<^bold>\<open>Parameters.\<close> The standard library's JSON and YAML decoders, SHA-256, the regular expressions of the
  configuration, number formatting, the SQL parser, the drivers of PostgreSQL, IMAP, SMTP and HTTP, the
  secret stores, the service manager and the clock. Where a theorem relies on one of them, the fact is
  a named hypothesis and the witness instantiates it.

  \<^bold>\<open>Not modelled.\<close> The pass store and the adapter lists of Windows (process and system calls), the pattern
  hook of internal/redact and the form-session connector (the server calls neither); of the desktop
  companion the tray, the icon, the toasts, the help texts (beside their titles) and the start with
  its flags and single-instance lock; the command line clients, the debugging tools and the Windows
  service wrapper.
\<close>

end
